(* ===== verification/TandemPrelude.thy ===== *)
theory TandemPrelude
  imports Main "HOL-Library.AList" "HOL-Library.Word"
begin

text \<open>
  Shared vocabulary of the development.  A TypeScript function that may throw is a HOL function
  into \<open>'a result\<close>: \<open>Inl\<close> carries the thrown error, \<open>Inr\<close> the returned value, and the
  combinators \<open>bindE\<close>, \<open>mapE\<close> and \<open>foldE\<close> sequence such calls the way the code does: the
  first throw wins and everything computed so far is dropped.  A JavaScript \<open>Map\<close> iterates in
  insertion order, and setting a present key keeps its position; it is an association list with
  the library's \<open>AList.update\<close> and \<open>AList.delete\<close>, and the locale \<open>dictionary\<close> states what the
  components rely on.  A TypeScript \<open>number\<close> that counts or measures (heights, indexes, sequences)
  is an \<open>int\<close> or a \<open>nat\<close>: every such value in the program is a safe integer below \<open>2 ^ 53\<close>, where
  double arithmetic is exact; values whose width matters are words.
\<close>

named_theorems result_simps \<open>how the result combinators act on known results\<close>
named_theorems wf_intros \<open>introduction rules for well-formedness invariants\<close>

section \<open>Thrown errors and results\<close>

datatype js_error =
    PlainError string                  \<comment> \<open>\<open>new Error(message)\<close>\<close>
  | TypeError                          \<comment> \<open>a property of \<open>undefined\<close> or \<open>null\<close> was read\<close>
  | RangeError                         \<comment> \<open>a buffer read or write out of range\<close>
  | StateInvariantError string
  | ReorgBoundaryError string
  | ConfigurationError string
  | AgreementVerificationError string
  | BitcoinRpcError string "int option" string  \<comment> \<open>method, code and message\<close>
  | HttpException nat string           \<comment> \<open>a NestJS exception: status code and message\<close>
  | SqlError string                    \<comment> \<open>a constraint of the database refused a statement\<close>
  | LibraryError string                \<comment> \<open>thrown by code outside the repository\<close>

type_synonym 'a result = "js_error + 'a"

definition bindE :: "'a result \<Rightarrow> ('a \<Rightarrow> 'b result) \<Rightarrow> 'b result" where
  "bindE m f = (case m of Inl e \<Rightarrow> Inl e | Inr x \<Rightarrow> f x)"

definition throw_unless :: "bool \<Rightarrow> js_error \<Rightarrow> unit result" where
  "throw_unless b e = (if b then Inr () else Inl e)"

text \<open>\<open>xs.map(f)\<close> where \<open>f\<close> may throw, and a \<open>for\<close> loop over a mutable state.\<close>

fun mapE :: "('a \<Rightarrow> 'b result) \<Rightarrow> 'a list \<Rightarrow> 'b list result" where
  "mapE f [] = Inr []"
| "mapE f (x # xs) = bindE (f x) (\<lambda>y. bindE (mapE f xs) (\<lambda>ys. Inr (y # ys)))"

fun foldE :: "('s \<Rightarrow> 'a \<Rightarrow> 's result) \<Rightarrow> 's \<Rightarrow> 'a list \<Rightarrow> 's result" where
  "foldE f s [] = Inr s"
| "foldE f s (x # xs) = bindE (f s x) (\<lambda>s'. foldE f s' xs)"

definition of_option :: "js_error \<Rightarrow> 'a option \<Rightarrow> 'a result" where
  "of_option e x = (case x of None \<Rightarrow> Inl e | Some y \<Rightarrow> Inr y)"

lemma bindE_simps [simp, result_simps]:
  "bindE (Inl e) f = Inl e"
  "bindE (Inr x) f = f x"
  by (simp_all add: bindE_def)

lemma bindE_Inr_iff [simp]: "bindE m f = Inr y \<longleftrightarrow> (\<exists>x. m = Inr x \<and> f x = Inr y)"
  by (cases m) (auto simp: bindE_def)

lemma bindE_cong [fundef_cong]:
  "m = m' \<Longrightarrow> (\<And>x. m' = Inr x \<Longrightarrow> f x = f' x) \<Longrightarrow> bindE m f = bindE m' f'"
  by (cases m') (auto simp: bindE_def)

lemma bindE_assoc: "bindE (bindE m f) g = bindE m (\<lambda>x. bindE (f x) g)"
  by (cases m) (auto simp: bindE_def)

lemma throw_unless_simps [simp, result_simps]:
  "throw_unless True e = Inr ()" "throw_unless False e = Inl e"
  by (simp_all add: throw_unless_def)

lemma throw_unless_Inr_iff [simp]: "throw_unless b e = Inr u \<longleftrightarrow> b"
  by (simp add: throw_unless_def)

lemma of_option_simps [simp, result_simps]:
  "of_option e None = Inl e" "of_option e (Some x) = Inr x"
  by (simp_all add: of_option_def)

lemma of_option_Inr_iff [simp]: "of_option e x = Inr y \<longleftrightarrow> x = Some y"
  by (cases x) (auto simp: of_option_def)

lemma mapE_append:
  "mapE f (xs @ ys) = bindE (mapE f xs) (\<lambda>us. bindE (mapE f ys) (\<lambda>vs. Inr (us @ vs)))"
  by (induction xs) (simp_all add: bindE_def split: sum.splits)

lemma mapE_Inr_length: "mapE f xs = Inr ys \<Longrightarrow> length ys = length xs"
  by (induction xs arbitrary: ys) auto

lemma mapE_total: "(\<And>x. x \<in> set xs \<Longrightarrow> f x = Inr (g x)) \<Longrightarrow> mapE f xs = Inr (map g xs)"
  by (induction xs) auto

lemma mapE_Inr_nth:
  "mapE f xs = Inr ys \<Longrightarrow> i < length xs \<Longrightarrow> f (xs ! i) = Inr (ys ! i)"
  by (induction xs arbitrary: ys i) (auto simp: nth_Cons split: nat.splits)

lemma mapE_Inr_set: "mapE f xs = Inr ys \<Longrightarrow> y \<in> set ys \<Longrightarrow> \<exists>x \<in> set xs. f x = Inr y"
  by (induction xs arbitrary: ys) auto

lemma mapE_Inr_forall: "mapE f xs = Inr ys \<Longrightarrow> x \<in> set xs \<Longrightarrow> \<exists>y \<in> set ys. f x = Inr y"
  by (induction xs arbitrary: ys) auto

lemma foldE_append: "foldE f s (xs @ ys) = bindE (foldE f s xs) (\<lambda>s'. foldE f s' ys)"
  by (induction xs arbitrary: s) (simp_all add: bindE_def split: sum.splits)

text \<open>The loop rule: what every successful pass through the body keeps, the loop keeps.\<close>

lemma foldE_invariant:
  assumes "foldE f s xs = Inr s'" and "I s"
    and "\<And>s x s'. x \<in> set xs \<Longrightarrow> I s \<Longrightarrow> f s x = Inr s' \<Longrightarrow> I s'"
  shows "I s'"
  using assms by (induction xs arbitrary: s) auto

lemma foldE_total:
  assumes "I s" and "\<And>s x. x \<in> set xs \<Longrightarrow> I s \<Longrightarrow> \<exists>s'. f s x = Inr s' \<and> I s'"
  shows "\<exists>s'. foldE f s xs = Inr s' \<and> I s'"
  using assms
proof (induction xs arbitrary: s)
  case (Cons x xs)
  then obtain s1 where "f s x = Inr s1" "I s1"
    by (meson list.set_intros(1))
  moreover from Cons.IH [OF \<open>I s1\<close>] Cons.prems(2) obtain s2 where "foldE f s1 xs = Inr s2" "I s2"
    by (meson list.set_intros(2))
  ultimately show ?case by auto
qed simp

section \<open>Dictionaries\<close>

text \<open>
  What the components rely on when they use a JavaScript \<open>Map\<close>: a lookup after a \<open>set\<close> or a
  \<open>delete\<close>.  The insertion order, which decides the order in which rows are written, is a property
  of the association list and is stated with it.
\<close>

locale dictionary =
  fixes lookup :: "'m \<Rightarrow> 'k \<Rightarrow> 'v option"
    and put :: "'k \<Rightarrow> 'v \<Rightarrow> 'm \<Rightarrow> 'm"
    and remove :: "'k \<Rightarrow> 'm \<Rightarrow> 'm"
    and blank :: "'m"
  assumes lookup_put: "lookup (put k v m) k' = (if k' = k then Some v else lookup m k')"
    and lookup_remove: "lookup (remove k m) k' = (if k' = k then None else lookup m k')"
    and lookup_blank: "lookup blank k = None"
begin

text \<open>Every write of a key that is present leaves the other keys alone; a second write wins.\<close>

lemma lookup_put_put: "lookup (put k v (put k w m)) = lookup (put k v m)"
  by (rule ext) (simp add: lookup_put)

lemma lookup_put_commute:
  "k \<noteq> l \<Longrightarrow> lookup (put k v (put l w m)) = lookup (put l w (put k v m))"
  by (rule ext) (simp add: lookup_put)

lemma lookup_remove_put: "lookup (remove k (put k v m)) = lookup (remove k m)"
  by (rule ext) (simp add: lookup_put lookup_remove)

text \<open>Recording a value only when the key is absent keeps the first recorded value.\<close>

lemma lookup_put_if_absent:
  "lookup (if lookup m k = None then put k v m else m) k' =
     (case lookup m k' of Some w \<Rightarrow> Some w | None \<Rightarrow> if k' = k then Some v else None)"
  by (auto simp: lookup_put split: option.splits)

end

type_synonym ('k, 'v) js_map = "('k \<times> 'v) list"

abbreviation js_get :: "('k, 'v) js_map \<Rightarrow> 'k \<Rightarrow> 'v option" where
  "js_get m k \<equiv> map_of m k"

abbreviation js_set :: "'k \<Rightarrow> 'v \<Rightarrow> ('k, 'v) js_map \<Rightarrow> ('k, 'v) js_map" where
  "js_set k v m \<equiv> AList.update k v m"

abbreviation js_delete :: "'k \<Rightarrow> ('k, 'v) js_map \<Rightarrow> ('k, 'v) js_map" where
  "js_delete k m \<equiv> AList.delete k m"

abbreviation js_values :: "('k, 'v) js_map \<Rightarrow> 'v list" where
  "js_values m \<equiv> map snd m"

abbreviation js_wf :: "('k, 'v) js_map \<Rightarrow> bool" where
  "js_wf m \<equiv> distinct (map fst m)"

interpretation alist: dictionary map_of AList.update AList.delete "[]"
  by unfold_locales (auto simp: update_conv' delete_conv')

lemma js_get_set: "js_get (js_set k v m) k' = (if k' = k then Some v else js_get m k')"
  by (rule alist.lookup_put)

lemma js_get_delete: "js_get (js_delete k m) k' = (if k' = k then None else js_get m k')"
  by (rule alist.lookup_remove)

lemma js_set_fresh: "k \<notin> fst ` set m \<Longrightarrow> js_set k v m = m @ [(k, v)]"
  by (induction m) auto

lemma js_set_keys: "k \<in> fst ` set m \<Longrightarrow> map fst (js_set k v m) = map fst m"
  by (induction m) auto

lemma js_wf_set [wf_intros]: "js_wf m \<Longrightarrow> js_wf (js_set k v m)"
  by (rule distinct_update)

lemma js_wf_delete [wf_intros]: "js_wf m \<Longrightarrow> js_wf (js_delete k m)"
  by (rule distinct_delete)

lemma js_get_Some_iff: "js_wf m \<Longrightarrow> js_get m k = Some v \<longleftrightarrow> (k, v) \<in> set m"
  by simp

lemma js_set_in:
  "js_wf m \<Longrightarrow> (k', v') \<in> set (js_set k v m) \<longleftrightarrow>
     (if k' = k then v' = v else (k', v') \<in> set m)"
  using js_get_set [of k v m k']
  by (metis js_wf_set map_of_eq_Some_iff option.inject)

section \<open>Lists\<close>

text \<open>\<open>xs[i]\<close> in JavaScript: \<open>undefined\<close> when the index is out of range.\<close>

definition nth_opt :: "'a list \<Rightarrow> nat \<Rightarrow> 'a option" where
  "nth_opt xs i = (if i < length xs then Some (xs ! i) else None)"

lemma nth_opt_simps [simp]:
  "nth_opt [] i = None"
  "nth_opt (x # xs) 0 = Some x"
  "nth_opt (x # xs) (Suc i) = nth_opt xs i"
  by (auto simp: nth_opt_def)

lemma nth_opt_numeral [simp]: "nth_opt (x # xs) (numeral n) = nth_opt xs (pred_numeral n)"
  by (simp add: numeral_eq_Suc)

lemma nth_opt_eq_Some: "nth_opt xs i = Some x \<longleftrightarrow> i < length xs \<and> xs ! i = x"
  by (auto simp: nth_opt_def)

lemma nth_opt_append:
  "nth_opt (xs @ ys) i = (if i < length xs then Some (xs ! i) else nth_opt ys (i - length xs))"
  by (auto simp: nth_opt_def nth_append)

text \<open>\<open>xs.find(p)\<close>; \<open>xs.at(-1)\<close>; \<open>a ?? b\<close>.\<close>

definition last_opt :: "'a list \<Rightarrow> 'a option" where
  "last_opt xs = (if xs = [] then None else Some (last xs))"

definition nullish :: "'a option \<Rightarrow> 'a \<Rightarrow> 'a" where
  "nullish x d = (case x of None \<Rightarrow> d | Some y \<Rightarrow> y)"

lemma nullish_simps [simp]: "nullish None d = d" "nullish (Some x) d = x"
  by (simp_all add: nullish_def)

lemma last_opt_simps [simp]: "last_opt [] = None" "last_opt (xs @ [x]) = Some x"
  by (simp_all add: last_opt_def)

lemma filter_all_False: "(\<And>x. x \<in> set xs \<Longrightarrow> \<not> P x) \<Longrightarrow> filter P xs = []"
  by (induction xs) auto

lemma filter_all_True: "(\<And>x. x \<in> set xs \<Longrightarrow> P x) \<Longrightarrow> filter P xs = xs"
  by (induction xs) auto

end
