(* ===== verification/State_Engine.thy ===== *)
theory State_Engine
  imports TandemPrelude
begin

text \<open>
  \<open>src/protocol/state-engine.ts\<close>: the reference state machine of a Tandem object.  The states of
  all objects are a JavaScript map from object keys, and \<open>applyStateTransition\<close> checks one
  transition and returns the map after it, or throws \<open>StateInvariantError\<close>.  The lemmas give the
  invariant of the reachable maps, the exact condition under which a transition is accepted, the
  frame (no transition touches another object), and that a terminal object is final.  The locale
  \<open>lifecycle\<close> states what any machine of Tandem objects promises its clients and lifts it to runs;
  it is interpreted here on \<open>applyStateTransition\<close>.
\<close>

section \<open>The state and its transitions\<close>

datatype object_status = Active | Closed | Refunded | ExitedNoncanonical

record indexed_object_state =
  ios_objectKey :: string
  ios_status :: object_status
  ios_sequence :: int
  ios_currentOutpoint :: "string option"
  ios_key0 :: string
  ios_key1 :: string
  ios_chapterCount :: int
  ios_terminalTxid :: "string option"

type_synonym object_states = "(string, indexed_object_state) js_map"

datatype advance_operation = MARK | ROTATE

datatype exit_operation = REFUND | EXITED_NONCANONICAL

datatype state_transition =
    CreateTransition (tr_objectKey: string) (tr_successorOutpoint: string)
      (tr_key0: string) (tr_key1: string)
  | AdvanceTransition advance_operation (tr_objectKey: string) (tr_sequence: int)
      (tr_predecessorOutpoint: string) (tr_successorOutpoint: string)
      (tr_key0: string) (tr_key1: string)
  | CloseTransition (tr_objectKey: string) (tr_sequence: int)
      (tr_predecessorOutpoint: string) (tr_terminalTxid: string)
  | ExitTransition exit_operation (tr_objectKey: string)
      (tr_predecessorOutpoint: string) (tr_terminalTxid: string)

definition requireActive :: "object_states \<Rightarrow> string \<Rightarrow> string \<Rightarrow> indexed_object_state result" where
  "requireActive states objectKey predecessorOutpoint =
     (case js_get states objectKey of
        None \<Rightarrow> Inl (StateInvariantError ''predecessor object is not active'')
      | Some current \<Rightarrow>
          if ios_status current \<noteq> Active
          then Inl (StateInvariantError ''predecessor object is not active'')
          else if ios_currentOutpoint current \<noteq> Some predecessorOutpoint
          then Inl (StateInvariantError ''predecessor outpoint does not match current state'')
          else Inr current)"

fun applyStateTransition :: "object_states \<Rightarrow> state_transition \<Rightarrow> object_states result" where
  "applyStateTransition states (CreateTransition k successor key0 key1) =
     (if js_get states k \<noteq> None
      then Inl (StateInvariantError ''object already exists'')
      else Inr (js_set k
        \<lparr>ios_objectKey = k, ios_status = Active, ios_sequence = 0,
         ios_currentOutpoint = Some successor, ios_key0 = key0, ios_key1 = key1,
         ios_chapterCount = 0, ios_terminalTxid = None\<rparr> states))"
| "applyStateTransition states (AdvanceTransition operation k sequence predecessor successor key0 key1) =
     bindE (requireActive states k predecessor) (\<lambda>current.
       if sequence \<noteq> ios_sequence current + 1
       then Inl (StateInvariantError ''state sequence must increase by exactly one'')
       else Inr (js_set k (current
         \<lparr>ios_sequence := sequence, ios_currentOutpoint := Some successor,
          ios_key0 := key0, ios_key1 := key1,
          ios_chapterCount := ios_chapterCount current + (if operation = MARK then 1 else 0)\<rparr>) states))"
| "applyStateTransition states (CloseTransition k sequence predecessor terminalTxid) =
     bindE (requireActive states k predecessor) (\<lambda>current.
       if sequence \<noteq> ios_sequence current + 1
       then Inl (StateInvariantError ''close sequence must increase by exactly one'')
       else Inr (js_set k (current
         \<lparr>ios_status := Closed, ios_sequence := sequence, ios_currentOutpoint := None,
          ios_terminalTxid := Some terminalTxid\<rparr>) states))"
| "applyStateTransition states (ExitTransition operation k predecessor terminalTxid) =
     bindE (requireActive states k predecessor) (\<lambda>current.
       Inr (js_set k (current
         \<lparr>ios_status := (if operation = REFUND then Refunded else ExitedNoncanonical),
          ios_currentOutpoint := None, ios_terminalTxid := Some terminalTxid\<rparr>) states))"

fun_cases applyStateTransition_InrE:
  "applyStateTransition states (CreateTransition k a b c) = Inr states'"
  "applyStateTransition states (AdvanceTransition oper k n p a b c) = Inr states'"
  "applyStateTransition states (CloseTransition k n p t) = Inr states'"
  "applyStateTransition states (ExitTransition oper' k p t) = Inr states'"

lemma requireActive_Inr [simp]:
  "requireActive states k p = Inr current \<longleftrightarrow>
     js_get states k = Some current \<and> ios_status current = Active \<and>
     ios_currentOutpoint current = Some p"
  by (auto simp: requireActive_def split: option.splits)

section \<open>The invariant\<close>

text \<open>
  What holds of every record the engine keeps: it is filed under its own key; an object has a
  current outpoint exactly while it is active and a terminal txid exactly once it is not; the
  chapters are among the steps the sequence counts.
\<close>

definition object_ok :: "string \<Rightarrow> indexed_object_state \<Rightarrow> bool" where
  "object_ok k s =
     (ios_objectKey s = k \<and>
      (ios_status s = Active \<longleftrightarrow> ios_currentOutpoint s \<noteq> None) \<and>
      (ios_status s = Active \<longleftrightarrow> ios_terminalTxid s = None) \<and>
      0 \<le> ios_chapterCount s \<and> ios_chapterCount s \<le> ios_sequence s)"

definition states_ok :: "object_states \<Rightarrow> bool" where
  "states_ok states = (js_wf states \<and> list_all (\<lambda>(k, s). object_ok k s) states)"

lemma states_okD: "states_ok states \<Longrightarrow> js_get states k = Some s \<Longrightarrow> object_ok k s"
  by (auto simp: states_ok_def list_all_iff dest!: map_of_SomeD)

lemma states_ok_set [wf_intros]:
  "states_ok states \<Longrightarrow> object_ok k s \<Longrightarrow> states_ok (js_set k s states)"
  unfolding states_ok_def list_all_iff
  by (auto simp: js_wf_set js_set_in split: if_splits prod.splits)

lemma states_ok_Nil [wf_intros]: "states_ok []"
  by (simp add: states_ok_def)

lemma applyStateTransition_states_ok:
  assumes "states_ok states" and "applyStateTransition states tr = Inr states'"
  shows "states_ok states'"
  using assms
proof (cases tr)
  case (AdvanceTransition oper k n p a b c)
  with assms obtain cur where "js_get states k = Some cur" "ios_status cur = Active"
    "ios_currentOutpoint cur = Some p" "n = ios_sequence cur + 1"
    and s': "states' = js_set k (cur\<lparr>ios_sequence := n, ios_currentOutpoint := Some a,
      ios_key0 := b, ios_key1 := c,
      ios_chapterCount := ios_chapterCount cur + (if oper = MARK then 1 else 0)\<rparr>) states"
    by (auto split: if_splits)
  with states_okD [OF assms(1), of k cur] show ?thesis
    unfolding s' by (intro states_ok_set assms(1)) (auto simp: object_ok_def)
qed (auto intro!: states_ok_set dest: states_okD simp: object_ok_def split: if_splits)

section \<open>Acceptance, frame and finality\<close>

text \<open>The exact condition under which the engine accepts a transition.\<close>

definition transition_allowed :: "object_states \<Rightarrow> state_transition \<Rightarrow> bool" where
  "transition_allowed states tr =
     (case tr of
        CreateTransition k _ _ _ \<Rightarrow> js_get states k = None
      | AdvanceTransition _ k n p _ _ _ \<Rightarrow>
          (case js_get states k of None \<Rightarrow> False | Some s \<Rightarrow>
             ios_status s = Active \<and> ios_currentOutpoint s = Some p \<and> n = ios_sequence s + 1)
      | CloseTransition k n p _ \<Rightarrow>
          (case js_get states k of None \<Rightarrow> False | Some s \<Rightarrow>
             ios_status s = Active \<and> ios_currentOutpoint s = Some p \<and> n = ios_sequence s + 1)
      | ExitTransition _ k p _ \<Rightarrow>
          (case js_get states k of None \<Rightarrow> False | Some s \<Rightarrow>
             ios_status s = Active \<and> ios_currentOutpoint s = Some p))"

lemma applyStateTransition_accepts:
  "(\<exists>states'. applyStateTransition states tr = Inr states') \<longleftrightarrow> transition_allowed states tr"
  by (cases tr) (auto simp: transition_allowed_def split: option.splits)

lemma applyStateTransition_refusal:
  "applyStateTransition states tr = Inl e \<Longrightarrow> \<exists>message. e = StateInvariantError message"
  by (cases tr) (auto simp: requireActive_def bindE_def split: option.splits if_splits)

lemma applyStateTransition_frame:
  "applyStateTransition states tr = Inr states' \<Longrightarrow> k \<noteq> tr_objectKey tr \<Longrightarrow>
     js_get states' k = js_get states k"
  by (cases tr) (auto simp: js_get_set split: if_splits)

lemma applyStateTransition_present:
  "applyStateTransition states tr = Inr states' \<Longrightarrow> js_get states k = Some s \<Longrightarrow>
     \<exists>s'. js_get states' k = Some s'"
  by (cases tr) (auto simp: js_get_set split: if_splits)

lemma applyStateTransition_final:
  "applyStateTransition states tr = Inr states' \<Longrightarrow> js_get states k = Some s \<Longrightarrow>
     ios_status s \<noteq> Active \<Longrightarrow> js_get states' k = Some s"
  by (cases tr) (auto simp: js_get_set split: if_splits)

lemma applyStateTransition_sequence:
  "applyStateTransition states tr = Inr states' \<Longrightarrow> js_get states k = Some s \<Longrightarrow>
     js_get states' k = Some s' \<Longrightarrow>
     ios_sequence s \<le> ios_sequence s' \<and> ios_sequence s' \<le> ios_sequence s + 1 \<and>
     ios_chapterCount s \<le> ios_chapterCount s' \<and>
     ios_chapterCount s' - ios_chapterCount s \<le> ios_sequence s' - ios_sequence s"
  by (cases tr) (auto simp: js_get_set split: if_splits)

section \<open>The lifecycle contract\<close>

text \<open>
  What a machine that keeps Tandem objects promises: a step keeps every object it has, never
  changes a terminal one, and advances a sequence by at most one and the chapter count by at most
  as much.  The lemmas lift the contract to any run of steps.
\<close>

locale lifecycle =
  fixes step :: "'s \<Rightarrow> 'e \<Rightarrow> 's result"
    and lookup :: "'s \<Rightarrow> 'k \<Rightarrow> 'o option"
    and terminal :: "'o \<Rightarrow> bool"
    and seqno :: "'o \<Rightarrow> int"
    and chapters :: "'o \<Rightarrow> int"
  assumes step_present: "step s e = Inr s' \<Longrightarrow> lookup s k = Some x \<Longrightarrow> \<exists>x'. lookup s' k = Some x'"
    and step_final: "step s e = Inr s' \<Longrightarrow> lookup s k = Some x \<Longrightarrow> terminal x \<Longrightarrow>
          lookup s' k = Some x"
    and step_seqno: "step s e = Inr s' \<Longrightarrow> lookup s k = Some x \<Longrightarrow> lookup s' k = Some x' \<Longrightarrow>
          seqno x \<le> seqno x' \<and> seqno x' \<le> seqno x + 1 \<and>
          chapters x \<le> chapters x' \<and> chapters x' - chapters x \<le> seqno x' - seqno x"
begin

lemma run_final:
  assumes "foldE step s es = Inr s'" and "lookup s k = Some x" and "terminal x"
  shows "lookup s' k = Some x"
  using assms(1,2)
  by (rule foldE_invariant [where I = "\<lambda>s. lookup s k = Some x"])
    (use step_final assms(3) in blast)

lemma run_present:
  assumes "foldE step s es = Inr s'" and "lookup s k = Some x"
  shows "\<exists>x'. lookup s' k = Some x'"
  using assms(1)
  by (rule foldE_invariant [where I = "\<lambda>s. \<exists>x. lookup s k = Some x"])
    (use assms(2) step_present in blast)+

lemma run_seqno:
  "foldE step s es = Inr s' \<Longrightarrow> lookup s k = Some x \<Longrightarrow> lookup s' k = Some x' \<Longrightarrow>
     seqno x \<le> seqno x' \<and> seqno x' \<le> seqno x + int (length es) \<and>
     chapters x \<le> chapters x' \<and> chapters x' - chapters x \<le> seqno x' - seqno x"
proof (induction es arbitrary: s x)
  case (Cons e es)
  then obtain s1 where s1: "step s e = Inr s1" "foldE step s1 es = Inr s'" by auto
  obtain x1 where x1: "lookup s1 k = Some x1" using step_present [OF s1(1) Cons.prems(2)] by blast
  show ?case
    using step_seqno [OF s1(1) Cons.prems(2) x1] Cons.IH [OF s1(2) x1 Cons.prems(3)] by auto
qed simp

end

interpretation engine: lifecycle applyStateTransition map_of "\<lambda>x. ios_status x \<noteq> Active"
  ios_sequence ios_chapterCount
  by unfold_locales
    (blast intro: applyStateTransition_present applyStateTransition_final
      dest: applyStateTransition_sequence)+

lemma run_states_ok:
  "foldE applyStateTransition states trs = Inr states' \<Longrightarrow> states_ok states \<Longrightarrow> states_ok states'"
  by (erule foldE_invariant) (blast intro: applyStateTransition_states_ok)+

section \<open>Reachable states\<close>

text \<open>The states the engine can be in: the empty map, and whatever an accepted transition leads to.\<close>

inductive reachable :: "object_states \<Rightarrow> bool" where
  reachable_empty: "reachable []"
| reachable_step: "reachable states \<Longrightarrow> applyStateTransition states tr = Inr states' \<Longrightarrow> reachable states'"

inductive_cases reachableE: "reachable states"

lemma reachable_run:
  "reachable states \<Longrightarrow> foldE applyStateTransition states trs = Inr states' \<Longrightarrow> reachable states'"
  by (erule foldE_invariant) (auto intro: reachable_step)

lemma reachable_iff_run: "reachable states \<longleftrightarrow> (\<exists>trs. foldE applyStateTransition [] trs = Inr states)"
proof
  show "reachable states \<Longrightarrow> \<exists>trs. foldE applyStateTransition [] trs = Inr states"
  proof (induction rule: reachable.induct)
    case reachable_empty
    show ?case by (rule exI [of _ "[]"]) simp
  next
    case (reachable_step states tr states')
    then obtain trs where "foldE applyStateTransition [] trs = Inr states" by blast
    with reachable_step show ?case by (intro exI [of _ "trs @ [tr]"]) (simp add: foldE_append)
  qed
qed (auto intro: reachable_run reachable_empty)

lemma reachable_states_ok: "reachable states \<Longrightarrow> states_ok states"
  by (induction rule: reachable.induct) (auto intro: states_ok_Nil applyStateTransition_states_ok)

section \<open>The properties\<close>

text \<open>
  C12: in every reachable state of the reference engine an object is filed under its own key, has a
  current outpoint exactly while it is active, has a terminal txid exactly once it is not, and counts
  no more chapters than steps; and a transition is accepted exactly when it creates an absent object
  or names the current outpoint of an active object with the next sequence number.
\<close>

theorem engine_reachable_invariant:
  assumes "reachable states"
  shows "states_ok states \<and>
    ((\<exists>states'. applyStateTransition states tr = Inr states') \<longleftrightarrow> transition_allowed states tr)"
  using reachable_states_ok [OF assms] applyStateTransition_accepts by blast

text \<open>
  C13: a terminal object is final.  Once an object of the engine is closed, refunded or exited, no
  sequence of accepted transitions changes any field of it.
\<close>

theorem engine_terminal_forever:
  assumes "foldE applyStateTransition states trs = Inr states'"
    and "js_get states k = Some s" and "ios_status s \<noteq> Active"
  shows "js_get states' k = Some s"
  using engine.run_final [OF assms(1,2)] assms(3) by simp

text \<open>
  C14: sequences and chapters only grow, and in step.  Over any sequence of accepted transitions an
  object that exists stays present, its sequence grows by at most the number of transitions, and its
  chapter count grows by at most as much as its sequence.
\<close>

theorem engine_sequence_grows:
  assumes "foldE applyStateTransition states trs = Inr states'" and "js_get states k = Some s"
  shows "\<exists>s'. js_get states' k = Some s' \<and> ios_sequence s \<le> ios_sequence s' \<and>
    ios_sequence s' \<le> ios_sequence s + int (length trs) \<and>
    ios_chapterCount s \<le> ios_chapterCount s' \<and>
    ios_chapterCount s' - ios_chapterCount s \<le> ios_sequence s' - ios_sequence s"
proof -
  obtain s' where "js_get states' k = Some s'" using engine.run_present [OF assms] by blast
  then show ?thesis using engine.run_seqno [OF assms(1,2)] by blast
qed

text \<open>The witnesses: one object is created, marked and closed.\<close>

definition demo_transitions :: "state_transition list" where
  "demo_transitions =
     [CreateTransition ''k'' ''a:1'' ''02'' ''03'',
      AdvanceTransition MARK ''k'' 1 ''a:1'' ''b:1'' ''02'' ''03'',
      CloseTransition ''k'' 2 ''b:1'' ''c'']"

definition demo_closed :: indexed_object_state where
  "demo_closed = \<lparr>ios_objectKey = ''k'', ios_status = Closed, ios_sequence = 2,
     ios_currentOutpoint = None, ios_key0 = ''02'', ios_key1 = ''03'', ios_chapterCount = 1,
     ios_terminalTxid = Some ''c''\<rparr>"

lemma demo_transitions_run: "foldE applyStateTransition [] demo_transitions = Inr [(''k'', demo_closed)]"
  by (simp add: demo_transitions_def demo_closed_def requireActive_def)

theorem engine_reachable_invariant_witness:
  "states_ok [(''k'', demo_closed)] \<and>
   \<not> (\<exists>states'. applyStateTransition [(''k'', demo_closed)] (CreateTransition ''k'' [] [] []) = Inr states')"
proof -
  have "reachable [(''k'', demo_closed)]" using demo_transitions_run reachable_iff_run by blast
  from engine_reachable_invariant [OF this, of "CreateTransition ''k'' [] [] []"] show ?thesis
    by (simp add: transition_allowed_def)
qed

theorem engine_terminal_forever_witness:
  "\<exists>states'. foldE applyStateTransition [(''k'', demo_closed)] [CreateTransition ''l'' ''d:1'' [] []] = Inr states' \<and>
     js_get states' ''k'' = Some demo_closed"
proof -
  obtain states' where run: "foldE applyStateTransition [(''k'', demo_closed)]
      [CreateTransition ''l'' ''d:1'' [] []] = Inr states'" by simp
  from engine_terminal_forever [OF run, of "''k''" demo_closed] run show ?thesis
    by (auto simp: demo_closed_def)
qed

theorem engine_sequence_grows_witness:
  "\<exists>(s :: indexed_object_state) s'. js_get [(''k'', demo_closed)] ''k'' = Some s' \<and> ios_sequence s \<le> ios_sequence s' \<and>
     ios_sequence s' \<le> ios_sequence s + 2"
proof -
  obtain s where one: "foldE applyStateTransition [] (take 1 demo_transitions) = Inr [(''k'', s)]"
    by (simp add: demo_transitions_def)
  have two: "foldE applyStateTransition [(''k'', s)] (drop 1 demo_transitions) = Inr [(''k'', demo_closed)]"
    using demo_transitions_run one foldE_append [of applyStateTransition "[]" "take 1 demo_transitions"
      "drop 1 demo_transitions"] by (simp only: append_take_drop_id bindE_simps)
  from engine_sequence_grows [OF two, of "''k''" s] show ?thesis
    by - (rule exI [of _ s], auto simp: demo_transitions_def)
qed

end
