(* ===== verification/Text_Codec.thy ===== *)
theory Text_Codec
  imports TandemPrelude "HOL-Library.List_Lexorder" "HOL-Library.Char_ord"
begin

text \<open>
  Text and bytes.  A string of the program is a list of characters; every string the program
  compares, validates or stores is ASCII, so a character is one byte.  A \<open>Uint8Array\<close> or a
  \<open>Buffer\<close> is a list of bytes.  The theory models the conversions the code takes from Node and
  from JavaScript (\<open>Buffer.from(s, "hex")\<close>, \<open>buffer.toString("hex")\<close>, \<open>String(n)\<close>, \<open>Number(s)\<close>,
  \<open>toLowerCase\<close>, \<open>split\<close>, \<open>trim\<close>) and the regular expressions it tests strings with, and proves
  their round trips.  The locales \<open>codec\<close> and \<open>canonical_codec\<close> state what an encoder and its
  decoder promise one another; hex text and decimal counters are the first instances.
\<close>

type_synonym byte = "8 word"
type_synonym bytes = "byte list"

section \<open>Encoders and decoders\<close>

text \<open>
  The contract of an encoder and a decoder: decoding an encoding of a valid value gives the value
  back.  A canonical codec accepts nothing but encodings of valid values.
\<close>

locale codec =
  fixes encode :: "'a \<Rightarrow> string"
    and decode :: "string \<Rightarrow> 'a option"
    and valid :: "'a \<Rightarrow> bool"
  assumes decode_encode: "valid x \<Longrightarrow> decode (encode x) = Some x"
begin

lemma encode_inject: "valid x \<Longrightarrow> valid y \<Longrightarrow> encode x = encode y \<longleftrightarrow> x = y"
  by (metis decode_encode option.inject)

end

locale canonical_codec = codec +
  assumes decode_Some: "decode s = Some x \<Longrightarrow> valid x \<and> encode x = s"
begin

lemma decode_iff: "decode s = Some x \<longleftrightarrow> valid x \<and> s = encode x"
  using decode_encode decode_Some by blast

lemma decode_inject: "decode s = Some x \<Longrightarrow> decode t = Some x \<Longrightarrow> s = t"
  using decode_Some by blast

lemma accepted_iff: "(\<exists>x. decode s = Some x) \<longleftrightarrow> s \<in> encode ` {x. valid x}"
  by (auto simp: decode_iff)

end

section \<open>Characters\<close>

definition char_code :: "char \<Rightarrow> nat" where
  "char_code c = of_char c"

lemma char_code_inject [simp]: "char_code c = char_code d \<longleftrightarrow> c = d"
  by (simp add: char_code_def)

lemma char_code_char_of: "n < 256 \<Longrightarrow> char_code (char_of n) = n"
  by (simp add: char_code_def)

lemma char_code_less: "char_code c < 256"
  by (simp add: char_code_def)

definition is_digit :: "char \<Rightarrow> bool" where
  "is_digit c = (48 \<le> char_code c \<and> char_code c \<le> 57)"

definition is_lower_hex_char :: "char \<Rightarrow> bool" where
  "is_lower_hex_char c = (is_digit c \<or> 97 \<le> char_code c \<and> char_code c \<le> 102)"

definition is_alpha :: "char \<Rightarrow> bool" where
  "is_alpha c = (65 \<le> char_code c \<and> char_code c \<le> 90 \<or> 97 \<le> char_code c \<and> char_code c \<le> 122)"

text \<open>\<open>toLowerCase\<close> and \<open>toUpperCase\<close> on ASCII.\<close>

definition lower_char :: "char \<Rightarrow> char" where
  "lower_char c = (if 65 \<le> char_code c \<and> char_code c \<le> 90 then char_of (char_code c + 32) else c)"

definition upper_char :: "char \<Rightarrow> char" where
  "upper_char c = (if 97 \<le> char_code c \<and> char_code c \<le> 122 then char_of (char_code c - 32) else c)"

definition to_lower :: "string \<Rightarrow> string" where
  "to_lower s = map lower_char s"

definition to_upper :: "string \<Rightarrow> string" where
  "to_upper s = map upper_char s"

text \<open>\<open>trim\<close>: white space at both ends goes.\<close>

definition is_space :: "char \<Rightarrow> bool" where
  "is_space c = (char_code c = 32 \<or> 9 \<le> char_code c \<and> char_code c \<le> 13)"

definition trim :: "string \<Rightarrow> string" where
  "trim s = rev (dropWhile is_space (rev (dropWhile is_space s)))"

text \<open>\<open>s.split(c)\<close>: the pieces between the separators; never an empty list.\<close>

fun split_on :: "char \<Rightarrow> string \<Rightarrow> string list" where
  "split_on c [] = [[]]"
| "split_on c (x # xs) =
     (if x = c then [] # split_on c xs
      else (case split_on c xs of [] \<Rightarrow> [[x]] | p # ps \<Rightarrow> (x # p) # ps))"

text \<open>\<open>parts.join(c)\<close>.\<close>

fun join_with :: "string \<Rightarrow> string list \<Rightarrow> string" where
  "join_with c [] = []"
| "join_with c [p] = p"
| "join_with c (p # q # ps) = p @ c @ join_with c (q # ps)"

lemma split_on_nonempty [simp]: "split_on c s \<noteq> []"
  by (induction s) (auto split: list.splits)

lemma split_on_plain: "c \<notin> set s \<Longrightarrow> split_on c s = [s]"
  by (induction s) auto

lemma split_on_append: "c \<notin> set p \<Longrightarrow> split_on c (p @ c # s) = p # split_on c s"
  by (induction p) auto

lemma split_on_join:
  "ps \<noteq> [] \<Longrightarrow> (\<And>p. p \<in> set ps \<Longrightarrow> c \<notin> set p) \<Longrightarrow> split_on c (join_with [c] ps) = ps"
proof (induction "[c]" ps rule: join_with.induct)
  case (2 p)
  then show ?case by (simp add: split_on_plain)
next
  case (3 p q ps)
  then show ?case by (simp add: split_on_append)
qed simp

lemma join_with_Cons_Cons: "join_with c ((x # p) # ps) = x # join_with c (p # ps)"
  by (cases ps) simp_all

lemma join_split_on: "join_with [c] (split_on c s) = s"
proof (induction s)
  case (Cons x xs)
  then show ?case
    by (cases "split_on c xs") (auto simp: join_with_Cons_Cons)
qed simp

lemma to_lower_idem [simp]: "to_lower (to_lower s) = to_lower s"
proof -
  have "lower_char (lower_char c) = lower_char c" for c
    by (simp add: lower_char_def char_code_char_of)
  then show ?thesis by (simp add: to_lower_def)
qed

lemma length_to_lower [simp]: "length (to_lower s) = length s"
  by (simp add: to_lower_def)

section \<open>Hex text\<close>

text \<open>\<open>bytes.toString("hex")\<close>: two lowercase digits per byte.\<close>

definition hex_digit :: "nat \<Rightarrow> char" where
  "hex_digit n = (if n < 10 then char_of (48 + n) else char_of (87 + n))"

definition hex_val :: "char \<Rightarrow> nat option" where
  "hex_val c =
     (if is_digit c then Some (char_code c - 48)
      else if 97 \<le> char_code c \<and> char_code c \<le> 102 then Some (char_code c - 87)
      else if 65 \<le> char_code c \<and> char_code c \<le> 70 then Some (char_code c - 55)
      else None)"

fun to_hex :: "bytes \<Rightarrow> string" where
  "to_hex [] = []"
| "to_hex (b # bs) = hex_digit (unat b div 16) # hex_digit (unat b mod 16) # to_hex bs"

text \<open>
  \<open>Buffer.from(s, "hex")\<close>: pairs of digits of either case, up to the first pair that is not two
  hex digits; an odd last digit is dropped.  It never throws.
\<close>

fun from_hex :: "string \<Rightarrow> bytes" where
  "from_hex (a # b # s) =
     (case hex_val a of
        None \<Rightarrow> []
      | Some x \<Rightarrow> (case hex_val b of None \<Rightarrow> [] | Some y \<Rightarrow> word_of_nat (16 * x + y) # from_hex s))"
| "from_hex s = []"

text \<open>\<open>/^[0-9a-f]{n}$/\<close>.\<close>

definition is_hex_text :: "nat \<Rightarrow> string \<Rightarrow> bool" where
  "is_hex_text n s = (length s = n \<and> list_all is_lower_hex_char s)"

lemma hex_val_digit: "n < 16 \<Longrightarrow> hex_val (hex_digit n) = Some n"
  by (simp add: hex_val_def hex_digit_def is_digit_def char_code_char_of)

lemma lower_hex_digit: "n < 16 \<Longrightarrow> is_lower_hex_char (hex_digit n)"
  by (simp add: is_lower_hex_char_def hex_digit_def is_digit_def char_code_char_of)

lemma hex_digit_val: "is_lower_hex_char c \<Longrightarrow> \<exists>n < 16. hex_val c = Some n \<and> hex_digit n = c"
  by (rule exI [of _ "if is_digit c then char_code c - 48 else char_code c - 87"])
    (auto simp: is_lower_hex_char_def hex_val_def hex_digit_def is_digit_def char_code_def)

lemma unat_byte_less: "unat (b :: byte) < 256"
  using unsigned_less [of b, where 'a = nat] by simp

lemma unat_byte_div_mod: "unat (b :: byte) div 16 < 16" "unat b mod 16 < 16"
  using unat_byte_less [of b] by auto

lemma from_hex_to_hex [simp]: "from_hex (to_hex bs) = bs"
proof (induction bs)
  case (Cons b bs)
  have "word_of_nat (16 * (unat b div 16) + unat b mod 16) = b"
    by (simp add: mult_div_mod_eq del: of_nat_add of_nat_mult)
  with Cons show ?case by (simp add: hex_val_digit unat_byte_div_mod)
qed simp

lemma length_to_hex [simp]: "length (to_hex bs) = 2 * length bs"
  by (induction bs) auto

lemma lower_hex_to_hex: "list_all is_lower_hex_char (to_hex bs)"
  by (induction bs) (auto simp: lower_hex_digit unat_byte_div_mod)

lemma is_hex_text_to_hex: "is_hex_text (2 * length bs) (to_hex bs)"
  by (simp add: is_hex_text_def lower_hex_to_hex)

lemma to_hex_from_hex_pairs:
  "list_all is_lower_hex_char s \<Longrightarrow> even (length s) \<Longrightarrow> to_hex (from_hex s) = s"
proof (induction s rule: from_hex.induct)
  case (1 a b s)
  obtain x where x: "x < 16" "hex_val a = Some x" "hex_digit x = a"
    using "1.prems" hex_digit_val [of a] by auto
  obtain y where y: "y < 16" "hex_val b = Some y" "hex_digit y = b"
    using "1.prems" hex_digit_val [of b] by auto
  have "unat (word_of_nat (16 * x + y) :: byte) = 16 * x + y"
    using x(1) y(1) by (simp only: unsigned_of_nat) (simp add: take_bit_nat_eq_self)
  moreover have "(16 * x + y) div 16 = x" "(16 * x + y) mod 16 = y"
    using y(1) by auto
  ultimately show ?case
    using "1.prems" "1.IH" [OF x(2) y(2)] x y by simp
qed auto

lemma to_hex_from_hex: "is_hex_text n s \<Longrightarrow> even n \<Longrightarrow> to_hex (from_hex s) = s"
  by (auto simp: is_hex_text_def intro: to_hex_from_hex_pairs)

lemma length_from_hex: "is_hex_text n s \<Longrightarrow> even n \<Longrightarrow> length (from_hex s) = n div 2"
proof -
  assume h: "is_hex_text n s" "even n"
  then have "2 * length (from_hex s) = n"
    using length_to_hex [of "from_hex s"] by (simp add: to_hex_from_hex is_hex_text_def)
  then show ?thesis by simp
qed

lemma to_hex_inject [simp]: "to_hex xs = to_hex ys \<longleftrightarrow> xs = ys"
  by (metis from_hex_to_hex)

lemma to_hex_append: "to_hex (xs @ ys) = to_hex xs @ to_hex ys"
  by (induction xs) auto

definition parse_hex :: "nat \<Rightarrow> string \<Rightarrow> bytes option" where
  "parse_hex n s = (if is_hex_text (2 * n) s then Some (from_hex s) else None)"

interpretation hex: canonical_codec to_hex "parse_hex n" "\<lambda>bs. length bs = n" for n
proof unfold_locales
  show "parse_hex n (to_hex bs) = Some bs" if "length bs = n" for bs
    using that is_hex_text_to_hex [of bs] by (simp add: parse_hex_def)
  show "length bs = n \<and> to_hex bs = s" if "parse_hex n s = Some bs" for s bs
    using that by (auto simp: parse_hex_def to_hex_from_hex length_from_hex split: if_splits)
qed

lemma is_hex_text_lower: "is_hex_text n s \<Longrightarrow> to_lower s = s"
proof -
  assume "is_hex_text n s"
  then have "list_all is_lower_hex_char s" by (simp add: is_hex_text_def)
  then show ?thesis
    by (induction s)
      (auto simp: to_lower_def lower_char_def is_lower_hex_char_def is_digit_def)
qed

section \<open>Decimal text\<close>

text \<open>\<open>String(n)\<close> of a nonnegative integer and \<open>Number(s)\<close> of decimal digits.\<close>

fun nat_text :: "nat \<Rightarrow> string" where
  "nat_text n = (if n < 10 then [char_of (48 + n)] else nat_text (n div 10) @ [char_of (48 + n mod 10)])"

declare nat_text.simps [simp del]

definition digit_val :: "char \<Rightarrow> nat" where
  "digit_val c = char_code c - 48"

definition number_of_text :: "string \<Rightarrow> nat" where
  "number_of_text s = foldl (\<lambda>n c. 10 * n + digit_val c) 0 s"

definition int_text :: "int \<Rightarrow> string" where
  "int_text i = (if i < 0 then CHR ''-'' # nat_text (nat (- i)) else nat_text (nat i))"

definition all_digits :: "string \<Rightarrow> bool" where
  "all_digits s = list_all is_digit s"

text \<open>\<open>/^(0|[1-9][0-9]*)$/\<close>: decimal digits without a leading zero.\<close>

definition is_counter :: "string \<Rightarrow> bool" where
  "is_counter s = (s = ''0'' \<or> s \<noteq> [] \<and> hd s \<noteq> CHR ''0'' \<and> all_digits s)"

text \<open>\<open>Number.isSafeInteger\<close> of a nonnegative integer: exact below \<open>2 ^ 53\<close>.\<close>

definition is_safe :: "nat \<Rightarrow> bool" where
  "is_safe n = (n < 2 ^ 53)"

lemma nat_text_nonempty [simp]: "nat_text n \<noteq> []"
  by (subst nat_text.simps) simp

lemma all_digits_nat_text: "all_digits (nat_text n)"
proof (induction n rule: nat_text.induct)
  case (1 n)
  have "n mod 10 < 10" by simp
  then have "48 + n mod 10 < 256" "48 + n mod 10 \<le> 57" by linarith+
  then have "is_digit (char_of (48 + n mod 10))"
    by (simp add: is_digit_def char_code_char_of)
  with 1 show ?case
    by (subst nat_text.simps) (auto simp: all_digits_def is_digit_def char_code_char_of)
qed

lemma number_of_text_snoc: "number_of_text (s @ [c]) = 10 * number_of_text s + digit_val c"
  by (simp add: number_of_text_def)

lemma number_of_nat_text [simp]: "number_of_text (nat_text n) = n"
proof (induction n rule: nat_text.induct)
  case (1 n)
  have "n mod 10 < 10" by simp
  then have "48 + n mod 10 < 256" by linarith
  then have d: "digit_val (char_of (48 + n mod 10)) = n mod 10"
    by (simp add: digit_val_def char_code_char_of)
  show ?case
  proof (cases "n < 10")
    case True
    then show ?thesis
      by (subst nat_text.simps)
        (simp add: number_of_text_def digit_val_def char_code_char_of)
  next
    case False
    with 1 d show ?thesis
      by (subst nat_text.simps) (simp add: number_of_text_snoc)
  qed
qed

lemma nat_text_inject [simp]: "nat_text m = nat_text n \<longleftrightarrow> m = n"
  by (metis number_of_nat_text)

lemma hd_nat_text: "0 < n \<Longrightarrow> hd (nat_text n) \<noteq> CHR ''0''"
proof (induction n rule: nat_text.induct)
  case (1 n)
  show ?case
  proof (cases "n < 10")
    case True
    then have "char_code (char_of (48 + n)) = 48 + n" by (simp add: char_code_char_of)
    moreover have "char_code (CHR ''0'') = 48" by (simp add: char_code_def)
    ultimately have "char_of (48 + n) \<noteq> CHR ''0''" using "1.prems" by (metis add_cancel_right_right less_irrefl)
    with True show ?thesis by (subst nat_text.simps) simp
  next
    case False
    with 1 have "hd (nat_text (n div 10)) \<noteq> CHR ''0''" by simp
    with False show ?thesis by (subst nat_text.simps) (simp add: hd_append)
  qed
qed

lemma is_counter_nat_text: "is_counter (nat_text n)"
proof (cases "n = 0")
  case True
  moreover have "nat_text 0 = ''0''" by code_simp
  ultimately show ?thesis by (simp add: is_counter_def)
next
  case False
  then show ?thesis using hd_nat_text [of n] by (simp add: is_counter_def all_digits_nat_text)
qed

text \<open>A counter is the decimal text of the number it denotes: no other text denotes it.\<close>

lemma number_of_text_Cons_pos:
  "s \<noteq> [] \<Longrightarrow> hd s \<noteq> CHR ''0'' \<Longrightarrow> all_digits s \<Longrightarrow> 0 < number_of_text s"
proof (induction s rule: rev_induct)
  case (snoc c s)
  show ?case
  proof (cases "s = []")
    case True
    with snoc.prems have "is_digit c" "char_code c \<noteq> char_code (CHR ''0'')"
      by (auto simp: all_digits_def)
    then have "0 < digit_val c" by (simp add: digit_val_def is_digit_def char_code_def)
    with True show ?thesis by (simp add: number_of_text_def)
  next
    case False
    with snoc have "0 < number_of_text s" by (simp add: all_digits_def)
    then show ?thesis by (simp add: number_of_text_snoc)
  qed
qed simp

lemma nat_text_number_of_text: "is_counter s \<Longrightarrow> nat_text (number_of_text s) = s"
proof (induction s rule: rev_induct)
  case Nil
  then show ?case by (simp add: is_counter_def)
next
  case (snoc c s)
  have dig: "is_digit c"
    using snoc.prems by (auto simp: is_counter_def all_digits_def is_digit_def char_code_def)
  then have v: "digit_val c < 10" "char_of (48 + digit_val c) = c"
    by (auto simp: digit_val_def is_digit_def char_code_def)
  show ?case
  proof (cases "s = []")
    case True
    with v show ?thesis by (simp add: number_of_text_def nat_text.simps)
  next
    case False
    with snoc.prems have s: "s \<noteq> []" "hd s \<noteq> CHR ''0''" "all_digits s"
      by (auto simp: is_counter_def all_digits_def)
    then have "nat_text (number_of_text s) = s" using snoc.IH by (simp add: is_counter_def)
    moreover have "0 < number_of_text s" using s by (rule number_of_text_Cons_pos)
    moreover have "(10 * number_of_text s + digit_val c) div 10 = number_of_text s"
      "(10 * number_of_text s + digit_val c) mod 10 = digit_val c"
      using v(1) by auto
    ultimately show ?thesis
      using v(2) by (subst nat_text.simps) (simp add: number_of_text_snoc)
  qed
qed

definition parse_counter :: "string \<Rightarrow> nat option" where
  "parse_counter s = (if is_counter s then Some (number_of_text s) else None)"

interpretation counter: canonical_codec nat_text parse_counter "\<lambda>_. True"
  by unfold_locales
    (auto simp: parse_counter_def is_counter_nat_text nat_text_number_of_text split: if_splits)

lemma not_in_nat_text: "\<not> is_digit c \<Longrightarrow> c \<notin> set (nat_text n)"
  using all_digits_nat_text [of n] by (auto simp: all_digits_def list_all_iff)

lemma not_in_hex_text: "is_hex_text n s \<Longrightarrow> \<not> is_lower_hex_char c \<Longrightarrow> c \<notin> set s"
  by (auto simp: is_hex_text_def list_all_iff)

end
