(* ===== verification/Site_Lifecycle.thy ===== *)
theory Site_Lifecycle
  imports State_Engine Text_Codec
begin

text \<open>
  The state machine of the documentation site, \<open>site/src/lib/tandem.ts\<close>: the deterministic
  stand-in bytes (an FNV and xorshift generator on 32-bit integers), the stand-in keys, the object a
  walkthrough shows, and \<open>applyOperation\<close>, which the source says mirrors \<open>applyStateTransition\<close> of
  \<open>src/protocol/state-engine.ts\<close>.  The lemmas prove the mirror as a functional refinement
  (\<open>object_view\<close> is the abstraction), the invariant of the model object, and the one operation on
  which the two differ: \<open>CREATE\<close> on an active object falls through to the noncanonical exit here,
  while the engine throws.
\<close>

unbundle bit_operations_syntax

section \<open>Stand-in bytes\<close>

text \<open>\<open>state ^= seed.charCodeAt(i); state = Math.imul(state, 0x01000193) >>> 0\<close>.\<close>

fun seed_state :: "32 word \<Rightarrow> string \<Rightarrow> 32 word" where
  "seed_state state [] = state"
| "seed_state state (c # cs) = seed_state ((state XOR word_of_nat (char_code c)) * 0x01000193) cs"

definition xorshift :: "32 word \<Rightarrow> 32 word" where
  "xorshift state0 =
     (let state1 = state0 XOR push_bit 13 state0;
          state2 = state1 XOR drop_bit 17 state1
      in state2 XOR push_bit 5 state2)"

fun stand_in_bytes :: "32 word \<Rightarrow> nat \<Rightarrow> bytes" where
  "stand_in_bytes state 0 = []"
| "stand_in_bytes state (Suc n) =
     (let state' = xorshift state in ucast (state' AND 0xff) # stand_in_bytes state' n)"

definition standInHex :: "string \<Rightarrow> nat \<Rightarrow> string" where
  "standInHex seed n = to_hex (stand_in_bytes (seed_state 0x811c9dc5 seed) n)"

text \<open>\<open>Number.parseInt(body.slice(0, 2), 16) % 2 === 0\<close>: the parity of the first byte.\<close>

definition standInKey :: "string \<Rightarrow> string" where
  "standInKey seed =
     (let body = standInHex seed 32;
          prefix = (case from_hex (take 2 body) of
                      b # _ \<Rightarrow> if unat b mod 2 = 0 then ''02'' else ''03''
                    | [] \<Rightarrow> ''03'')
      in prefix @ body)"

lemma length_stand_in_bytes [simp]: "length (stand_in_bytes state n) = n"
  by (induction n arbitrary: state) (simp_all add: Let_def)

lemma standInHex_hex_text: "is_hex_text (2 * n) (standInHex seed n)"
  using is_hex_text_to_hex [of "stand_in_bytes (seed_state 0x811c9dc5 seed) n"]
  by (simp add: standInHex_def)

lemma standInKey_shape:
  "standInKey seed = ''02'' @ standInHex seed 32 \<or> standInKey seed = ''03'' @ standInHex seed 32"
  by (auto simp: standInKey_def Let_def split: list.split)

section \<open>The object of a walkthrough\<close>

datatype site_operation = CREATE | SITE_MARK | SITE_ROTATE | CLOSE | SITE_REFUND | BREAK

datatype history_operation = Performed site_operation | HISTORY_EXITED_NONCANONICAL

record history_entry =
  he_operation :: history_operation
  he_sequence :: int
  he_txid :: string
  he_height :: int
  he_detail :: string

record tandem_object =
  to_status :: object_status
  to_sequence :: int
  to_chapterCount :: int
  to_key0 :: string
  to_key1 :: string
  to_currentOutpoint :: "string option"
  to_terminalTxid :: "string option"
  to_createTxid :: string
  to_createHeight :: int
  to_founding :: bool
  to_carrierProgram :: string
  to_history :: "history_entry list"

record site_deployment =
  sd_network :: string
  sd_openHeight :: int
  sd_closeHeight :: int

record apply_options =
  opt_seed :: string
  opt_height :: int
  opt_kind :: "int option"

record apply_result =
  ar_object :: tandem_object
  ar_note :: string

text \<open>The protocol requires \<open>key0 < key1\<close>; strings compare by code unit, as \<open>a < b\<close> does.\<close>

definition sortPair :: "string \<Rightarrow> string \<Rightarrow> string \<times> string" where
  "sortPair a b = (if a < b then (a, b) else (b, a))"

definition carrierProgram :: "string \<Rightarrow> string \<Rightarrow> string" where
  "carrierProgram key0 key1 = standInHex (''carrier:'' @ key0 @ '':'' @ key1) 32"

definition createObject :: "string \<Rightarrow> site_deployment \<Rightarrow> int \<Rightarrow> tandem_object" where
  "createObject seed deployment height =
     (let (key0, key1) = sortPair (standInKey (seed @ '':k0'')) (standInKey (seed @ '':k1''));
          txid = standInHex (seed @ '':create'') 32
      in \<lparr>to_status = Active, to_sequence = 0, to_chapterCount = 0, to_key0 = key0, to_key1 = key1,
          to_currentOutpoint = Some (txid @ '':1''), to_terminalTxid = None,
          to_createTxid = txid, to_createHeight = height,
          to_founding = (sd_openHeight deployment \<le> height \<and> height < sd_closeHeight deployment),
          to_carrierProgram = carrierProgram key0 key1,
          to_history = [\<lparr>he_operation = Performed CREATE, he_sequence = 0, he_txid = txid,
            he_height = height,
            he_detail = ''Both parties signed. The object exists at sequence 0 with no chapters yet.''\<rparr>]\<rparr>)"

text \<open>The name of an operation inside the seed of its stand-in txid.\<close>

fun operation_name :: "site_operation \<Rightarrow> string" where
  "operation_name CREATE = ''CREATE''"
| "operation_name SITE_MARK = ''MARK''"
| "operation_name SITE_ROTATE = ''ROTATE''"
| "operation_name CLOSE = ''CLOSE''"
| "operation_name SITE_REFUND = ''REFUND''"
| "operation_name BREAK = ''BREAK''"

definition operation_txid :: "tandem_object \<Rightarrow> site_operation \<Rightarrow> apply_options \<Rightarrow> string" where
  "operation_txid x oper options =
     standInHex (opt_seed options @ '':'' @ operation_name oper @ '':'' @ int_text (to_sequence x)) 32"

definition push_history :: "history_entry \<Rightarrow> tandem_object \<Rightarrow> tandem_object" where
  "push_history e x = x\<lparr>to_history := to_history x @ [e]\<rparr>"

definition mark_detail :: "int \<Rightarrow> int option \<Rightarrow> string" where
  "mark_detail chapters kind =
     ''Chapter '' @ int_text chapters @ '' recorded as kind '' @ int_text (nullish kind 0) @
     ''. The key pair is unchanged and the carrier script is preserved byte for byte.''"

definition refund_detail :: string where
  "refund_detail =
     ''Both parties signed this refund in advance, because it spends the same 2 of 2 carrier. '' @
     ''Its input sequence is 52560, so consensus refused to confirm it until the carrier was at '' @
     ''least 52,560 blocks old. The sequence number does not advance.''"

definition applyOperation :: "tandem_object \<Rightarrow> site_operation \<Rightarrow> apply_options \<Rightarrow> apply_result" where
  "applyOperation x oper options =
     (if to_status x \<noteq> Active
      then \<lparr>ar_object = x, ar_note = ''This object is terminal. No Tandem operation can follow.''\<rparr>
      else
        let txid = operation_txid x oper options;
            entry = (\<lambda>h n detail. \<lparr>he_operation = h, he_sequence = n, he_txid = txid,
                       he_height = opt_height options, he_detail = detail\<rparr>)
        in case oper of
          SITE_MARK \<Rightarrow>
            \<lparr>ar_object = push_history
               (entry (Performed SITE_MARK) (to_sequence x + 1)
                  (mark_detail (to_chapterCount x + 1) (opt_kind options)))
               (x\<lparr>to_sequence := to_sequence x + 1, to_chapterCount := to_chapterCount x + 1,
                  to_currentOutpoint := Some (txid @ '':1'')\<rparr>),
             ar_note = ''A chapter is the only thing that increments the chapter count.''\<rparr>
        | SITE_ROTATE \<Rightarrow>
            (let (key0, key1) = sortPair
                   (standInKey (opt_seed options @ '':k0:'' @ int_text (to_sequence x + 1)))
                   (standInKey (opt_seed options @ '':k1:'' @ int_text (to_sequence x + 1)))
             in \<lparr>ar_object = push_history
                  (entry (Performed SITE_ROTATE) (to_sequence x + 1)
                     (''Both new keys were revealed by their own inputs. The chapter count is '' @
                      ''untouched, so the history survives the key change.''))
                  (x\<lparr>to_sequence := to_sequence x + 1, to_key0 := key0, to_key1 := key1,
                     to_carrierProgram := carrierProgram key0 key1,
                     to_currentOutpoint := Some (txid @ '':1'')\<rparr>),
                ar_note = ''Rotation changes who can sign next without disturbing anything already written.''\<rparr>)
        | CLOSE \<Rightarrow>
            \<lparr>ar_object = push_history
               (entry (Performed CLOSE) (to_sequence x + 1)
                  (''One input, both signatures, two equal payouts. The object ends with its '' @
                   ''history intact and readable forever.''))
               (x\<lparr>to_sequence := to_sequence x + 1, to_status := Closed,
                  to_currentOutpoint := None, to_terminalTxid := Some txid\<rparr>),
             ar_note = ''A cooperative ending still needs both signatures.''\<rparr>
        | SITE_REFUND \<Rightarrow>
            \<lparr>ar_object = push_history
               (entry (Performed SITE_REFUND) (to_sequence x) refund_detail)
               (x\<lparr>to_status := Refunded, to_currentOutpoint := None, to_terminalTxid := Some txid\<rparr>),
             ar_note = ''Once the delay has run, either party can broadcast it without the other having to act.''\<rparr>
        | _ \<Rightarrow>
            \<lparr>ar_object = push_history
               (entry HISTORY_EXITED_NONCANONICAL (to_sequence x)
                  (''The carrier was spent by a transaction that is not a valid Tandem operation. '' @
                   ''The output is gone, so the object has to terminate.''))
               (x\<lparr>to_status := ExitedNoncanonical, to_currentOutpoint := None,
                  to_terminalTxid := Some txid\<rparr>),
             ar_note = ''The indexer never pretends a spent carrier is still there.''\<rparr>)"

section \<open>The mirror of the state engine\<close>

text \<open>The engine's record of the object a walkthrough shows, filed under a key.\<close>

definition object_view :: "string \<Rightarrow> tandem_object \<Rightarrow> indexed_object_state" where
  "object_view k x =
     \<lparr>ios_objectKey = k, ios_status = to_status x, ios_sequence = to_sequence x,
      ios_currentOutpoint = to_currentOutpoint x, ios_key0 = to_key0 x, ios_key1 = to_key1 x,
      ios_chapterCount = to_chapterCount x, ios_terminalTxid = to_terminalTxid x\<rparr>"

text \<open>The transition of the engine an operation on an object with current outpoint \<open>p\<close> stands for.\<close>

definition site_transition ::
  "string \<Rightarrow> string \<Rightarrow> tandem_object \<Rightarrow> site_operation \<Rightarrow> apply_options \<Rightarrow> state_transition" where
  "site_transition k p x oper options =
     (let x' = ar_object (applyOperation x oper options); txid = operation_txid x oper options
      in case oper of
           SITE_MARK \<Rightarrow> AdvanceTransition MARK k (to_sequence x + 1) p (txid @ '':1'')
             (to_key0 x) (to_key1 x)
         | SITE_ROTATE \<Rightarrow> AdvanceTransition ROTATE k (to_sequence x + 1) p (txid @ '':1'')
             (to_key0 x') (to_key1 x')
         | CLOSE \<Rightarrow> CloseTransition k (to_sequence x + 1) p txid
         | SITE_REFUND \<Rightarrow> ExitTransition REFUND k p txid
         | BREAK \<Rightarrow> ExitTransition EXITED_NONCANONICAL k p txid
         | CREATE \<Rightarrow> CreateTransition k p (to_key0 x) (to_key1 x))"

lemmas applyOperation_unfold =
  applyOperation_def push_history_def site_transition_def object_view_def Let_def

lemma applyOperation_mirrors:
  assumes "js_get states k = Some (object_view k x)"
    and "to_status x = Active" and "to_currentOutpoint x = Some p" and "oper \<noteq> CREATE"
  shows "applyStateTransition states (site_transition k p x oper options) =
    Inr (js_set k (object_view k (ar_object (applyOperation x oper options))) states)"
  using assms
  by (cases oper) (simp_all add: applyOperation_unfold requireActive_def split: prod.split)

lemma applyOperation_terminal:
  "to_status x \<noteq> Active \<Longrightarrow> ar_object (applyOperation x oper options) = x"
  by (simp add: applyOperation_def)

lemma applyOperation_create_exits:
  "to_status x = Active \<Longrightarrow>
     to_status (ar_object (applyOperation x CREATE options)) = ExitedNoncanonical"
  by (simp add: applyOperation_unfold)

section \<open>The invariant of the walkthrough object\<close>

definition keys_sorted :: "string \<Rightarrow> string \<Rightarrow> bool" where
  "keys_sorted a b = (a \<le> b)"

text \<open>
  The engine's invariant, sorted keys, and a history whose last entry carries the sequence of the
  object and whose length counts the steps taken.
\<close>

definition tandem_object_ok :: "tandem_object \<Rightarrow> bool" where
  "tandem_object_ok x =
     (object_ok [] (object_view [] x) \<and> keys_sorted (to_key0 x) (to_key1 x) \<and>
      to_history x \<noteq> [] \<and> he_sequence (last (to_history x)) = to_sequence x \<and>
      to_sequence x + (if to_status x \<in> {Active, Closed} then 1 else 2) = int (length (to_history x)) \<and>
      to_carrierProgram x = carrierProgram (to_key0 x) (to_key1 x))"

lemma sortPair_sorted: "sortPair a b = (u, v) \<Longrightarrow> keys_sorted u v"
  by (auto simp: sortPair_def keys_sorted_def split: if_splits)

lemma createObject_ok: "tandem_object_ok (createObject seed deployment height)"
  by (auto simp: createObject_def tandem_object_ok_def object_view_def object_ok_def Let_def
      intro: sortPair_sorted split: prod.split)

lemma applyOperation_ok:
  "tandem_object_ok x \<Longrightarrow> tandem_object_ok (ar_object (applyOperation x oper options))"
  by (cases oper; cases "to_status x = Active")
    (auto simp: applyOperation_unfold tandem_object_ok_def object_ok_def
      intro: sortPair_sorted split: prod.split)

text \<open>A walkthrough is one object; a step never fails.\<close>

definition walkthrough_step ::
  "tandem_object \<Rightarrow> site_operation \<times> apply_options \<Rightarrow> tandem_object result" where
  "walkthrough_step x e = Inr (ar_object (applyOperation x (fst e) (snd e)))"

lemma applyOperation_sequence:
  "to_sequence x \<le> to_sequence (ar_object (applyOperation x oper options)) \<and>
   to_sequence (ar_object (applyOperation x oper options)) \<le> to_sequence x + 1 \<and>
   to_chapterCount x \<le> to_chapterCount (ar_object (applyOperation x oper options)) \<and>
   to_chapterCount (ar_object (applyOperation x oper options)) - to_chapterCount x \<le>
     to_sequence (ar_object (applyOperation x oper options)) - to_sequence x"
  by (cases oper) (auto simp: applyOperation_unfold split: prod.split)

interpretation walkthrough: lifecycle walkthrough_step "\<lambda>x (_ :: unit). Some x"
  "\<lambda>x. to_status x \<noteq> Active" to_sequence to_chapterCount
proof unfold_locales
  fix s s' :: tandem_object and e and x x' :: tandem_object
  assume "walkthrough_step s e = Inr s'" "Some s = Some x" "Some s' = Some x'"
  then show "to_sequence x \<le> to_sequence x' \<and> to_sequence x' \<le> to_sequence x + 1 \<and>
      to_chapterCount x \<le> to_chapterCount x' \<and>
      to_chapterCount x' - to_chapterCount x \<le> to_sequence x' - to_sequence x"
    using applyOperation_sequence [of s "fst e" "snd e"] by (simp add: walkthrough_step_def)
qed (auto simp: walkthrough_step_def applyOperation_terminal)

lemma walkthrough_ok:
  "foldE walkthrough_step x es = Inr x' \<Longrightarrow> tandem_object_ok x \<Longrightarrow> tandem_object_ok x'"
  by (erule foldE_invariant) (auto simp: walkthrough_step_def applyOperation_ok)

section \<open>The properties\<close>

text \<open>
  C15: the site's state machine refines the engine.  For every operation except \<open>CREATE\<close> on an active
  object, the reference engine accepts the corresponding transition, and its state of the object
  afterwards is the view of what \<open>applyOperation\<close> returns.
\<close>

theorem applyOperation_refines_engine:
  assumes "js_get states k = Some (object_view k x)" and "to_status x = Active"
    and "to_currentOutpoint x = Some p" and "oper \<noteq> CREATE"
  shows "applyStateTransition states (site_transition k p x oper options) =
    Inr (js_set k (object_view k (ar_object (applyOperation x oper options))) states)"
  using assms by (rule applyOperation_mirrors)

definition demo_options :: apply_options where
  "demo_options = \<lparr>opt_seed = ''s'', opt_height = 10, opt_kind = None\<rparr>"

definition demo_walk_object :: tandem_object where
  "demo_walk_object = \<lparr>to_status = Active, to_sequence = 0, to_chapterCount = 0, to_key0 = ''02'',
     to_key1 = ''03'', to_currentOutpoint = Some ''a:1'', to_terminalTxid = None, to_createTxid = ''a'',
     to_createHeight = 5, to_founding = True, to_carrierProgram = [], to_history = []\<rparr>"

theorem applyOperation_refines_engine_witness:
  "\<exists>states'. applyStateTransition [(''k'', object_view ''k'' demo_walk_object)]
     (site_transition ''k'' ''a:1'' demo_walk_object SITE_MARK demo_options) = Inr states'"
proof -
  have "js_get [(''k'', object_view ''k'' demo_walk_object)] ''k'' = Some (object_view ''k'' demo_walk_object)"
    "to_status demo_walk_object = Active" "to_currentOutpoint demo_walk_object = Some ''a:1''"
    "SITE_MARK \<noteq> CREATE" by (simp_all add: demo_walk_object_def)
  from applyOperation_refines_engine [OF this] show ?thesis by blast
qed

text \<open>
  C16: on one operation the site and the engine differ.  \<open>CREATE\<close> on an existing active object ends it
  as a noncanonical exit on the site, while the engine refuses the transition for every outpoint and
  pair of keys; so the comment that \<open>applyOperation\<close> mirrors the engine does not cover \<open>CREATE\<close>.
\<close>

theorem applyOperation_create_differs:
  assumes "js_get states k = Some (object_view k x)" and "to_status x = Active"
  shows "to_status (ar_object (applyOperation x CREATE options)) = ExitedNoncanonical \<and>
    applyStateTransition states (CreateTransition k out key0 key1) =
      Inl (StateInvariantError ''object already exists'')"
  using assms applyOperation_create_exits by simp

theorem applyOperation_create_differs_witness:
  "to_status (ar_object (applyOperation demo_walk_object CREATE demo_options)) = ExitedNoncanonical"
proof -
  have "js_get [(''k'', object_view ''k'' demo_walk_object)] ''k'' = Some (object_view ''k'' demo_walk_object)"
    "to_status demo_walk_object = Active" by (simp_all add: demo_walk_object_def)
  from applyOperation_create_differs [OF this] show ?thesis by blast
qed

text \<open>
  A walkthrough stays well formed.  From \<open>createObject\<close>, after any sequence of operations, the
  keys are sorted, the carrier program is the one of the current keys, an outpoint is present exactly
  while the object is active, the last history entry carries the current sequence, and the length of
  the history counts the steps taken.
\<close>

theorem walkthrough_well_formed:
  "\<exists>x. foldE walkthrough_step (createObject seed deployment height) es = Inr x \<and> tandem_object_ok x"
proof -
  have "\<exists>x. foldE walkthrough_step (createObject seed deployment height) es = Inr x \<and> tandem_object_ok x"
    by (rule foldE_total) (auto simp: createObject_ok walkthrough_step_def applyOperation_ok)
  then show ?thesis .
qed

end
