(* ===== verification/Carrier_Address.thy ===== *)
theory Carrier_Address
  imports Text_Codec
begin

unbundle bit_operations_syntax

text \<open>
  \<open>src/api/carrier-address.ts\<close>: the Bech32 addresses of carriers (native SegWit version 0 with a
  program of 32 bytes), and the encoder of \<open>site/src/lib/tandem.ts\<close>, a port of it.  The checksum is
  computed on 32-bit words, as \<open>>>> 0\<close> makes it; the regrouping of bits works on small integers, on
  which the bit operations of JavaScript are those of \<open>int\<close>.
\<close>

section \<open>Bech32\<close>

definition CHARSET :: string where
  "CHARSET = ''qpzry9x8gf2tvdw0s3jn54khce6mua7l''"

definition GENERATORS :: "32 word list" where
  "GENERATORS = [0x3b6a57b2, 0x26508e6d, 0x1ea119fa, 0x3d4233dd, 0x2a1462b3]"

text \<open>\<open>CHARSET_INDEX\<close>.\<close>

definition charset_index :: "char \<Rightarrow> int option" where
  "charset_index c = map_of (zip CHARSET (map int [0..<length CHARSET])) c"

record carrier_address =
  ca_address :: string
  ca_witnessProgramHex :: string

definition networkHrp :: "string \<Rightarrow> string" where
  "networkHrp network =
     (if network = ''mainnet'' then ''bc'' else if network = ''regtest'' then ''bcrt'' else ''tb'')"

text \<open>One pass of the loop over the values; the inner loop goes over the five generators.\<close>

definition polymod_step :: "32 word \<Rightarrow> int \<Rightarrow> 32 word" where
  "polymod_step checksum value =
     (let top = drop_bit 25 checksum;
          shifted = push_bit 5 (checksum AND 0x1ffffff) XOR word_of_int value
      in fold (\<lambda>(index, generator) c. if drop_bit index top AND 1 \<noteq> 0 then c XOR generator else c)
           (zip [0..<length GENERATORS] GENERATORS) shifted)"

definition polymod :: "int list \<Rightarrow> 32 word" where
  "polymod values = foldl polymod_step 1 values"

definition hrpExpand :: "string \<Rightarrow> int list" where
  "hrpExpand hrp =
     map (\<lambda>c. int (drop_bit 5 (char_code c))) hrp @ [0] @ map (\<lambda>c. int (char_code c AND 31)) hrp"

text \<open>The inner loop of \<open>convertBits\<close>: what it pushes, and the bits that are left.\<close>

function emit_bits :: "nat \<Rightarrow> int \<Rightarrow> nat \<Rightarrow> int list \<times> nat" where
  "emit_bits toBits accumulator bits =
     (if 0 < toBits \<and> toBits \<le> bits
      then (case emit_bits toBits accumulator (bits - toBits) of
              (rest, left) \<Rightarrow> ((drop_bit (bits - toBits) accumulator AND (2 ^ toBits - 1)) # rest, left))
      else ([], bits))"
  by pat_completeness auto

termination by (relation "measure (\<lambda>(toBits, accumulator, bits). bits)") auto

declare emit_bits.simps [simp del]

text \<open>The loop over the values, from an accumulator with so many bits on; \<open>None\<close> for a value out of range.\<close>

fun convert_loop :: "nat \<Rightarrow> nat \<Rightarrow> int \<Rightarrow> nat \<Rightarrow> int list \<Rightarrow> (int list \<times> int \<times> nat) option" where
  "convert_loop fromBits toBits accumulator bits [] = Some ([], accumulator, bits)"
| "convert_loop fromBits toBits accumulator bits (value # values) =
     (if value < 0 \<or> drop_bit fromBits value \<noteq> 0 then None
      else let accumulator' = (push_bit fromBits accumulator OR value) AND (2 ^ (fromBits + toBits - 1) - 1)
           in (case emit_bits toBits accumulator' (bits + fromBits) of
                 (emitted, left) \<Rightarrow>
                   map_option (\<lambda>(result, final). (emitted @ result, final))
                     (convert_loop fromBits toBits accumulator' left values)))"

definition convertBits :: "int list \<Rightarrow> nat \<Rightarrow> nat \<Rightarrow> bool \<Rightarrow> int list option" where
  "convertBits values fromBits toBits pad =
     (case convert_loop fromBits toBits 0 0 values of
        None \<Rightarrow> None
      | Some (result, accumulator, bits) \<Rightarrow>
          let last = push_bit (toBits - bits) accumulator AND (2 ^ toBits - 1)
          in if pad then Some (if bits > 0 then result @ [last] else result)
             else if bits \<ge> fromBits \<or> last \<noteq> 0 then None
             else Some result)"

section \<open>Addresses\<close>

text \<open>\<open>lastIndexOf\<close>; \<open>None\<close> for \<open>-1\<close>.\<close>

definition last_index_of :: "char \<Rightarrow> string \<Rightarrow> nat option" where
  "last_index_of c s =
     (if c \<in> set s then Some (length s - 1 - length (takeWhile (\<lambda>x. x \<noteq> c) (rev s))) else None)"

definition charset_indexes :: "string \<Rightarrow> int list option" where
  "charset_indexes s =
     (if list_all (\<lambda>c. charset_index c \<noteq> None) s then Some (map (the \<circ> charset_index) s) else None)"

definition decodeCarrierAddress :: "string \<Rightarrow> string \<Rightarrow> carrier_address option" where
  "decodeCarrierAddress value network =
     (if length value < 14 \<or> length value > 90 then None
      else if value \<noteq> to_lower value \<and> value \<noteq> to_upper value then None
      else let address = to_lower value
           in (case last_index_of CHR ''1'' address of
                 None \<Rightarrow> None
               | Some separator \<Rightarrow>
                   if separator < 1 \<or> separator + 7 > length address then None
                   else let hrp = take separator address
                        in if hrp \<noteq> networkHrp network then None
                           else (case charset_indexes (drop (separator + 1) address) of
                                   None \<Rightarrow> None
                                 | Some data \<Rightarrow>
                                     if polymod (hrpExpand hrp @ data) \<noteq> 1 then None
                                     else let payload = take (length data - 6) data
                                          in if nth_opt payload 0 \<noteq> Some 0 then None
                                             else (case convertBits (drop 1 payload) 5 8 False of
                                                     None \<Rightarrow> None
                                                   | Some program \<Rightarrow>
                                                       if length program \<noteq> 32 then None
                                                       else Some \<lparr>ca_address = address,
                                                         ca_witnessProgramHex = to_hex (map word_of_int program)\<rparr>))))"

definition charset_text :: "int list \<Rightarrow> string" where
  "charset_text values = map (\<lambda>v. CHARSET ! nat v) values"

text \<open>The six characters of the checksum over the data.\<close>

definition bech32_checksum :: "string \<Rightarrow> int list \<Rightarrow> int list" where
  "bech32_checksum hrp data =
     (let residue = polymod (hrpExpand hrp @ data @ [0, 0, 0, 0, 0, 0]) XOR 1
      in map (\<lambda>index. uint (drop_bit (5 * (5 - index)) residue AND 31)) [0..<6])"

definition encodeCarrierAddress :: "string \<Rightarrow> string \<Rightarrow> string result" where
  "encodeCarrierAddress witnessProgramHex network =
     (if \<not> is_hex_text 64 witnessProgramHex then Inl TypeError
      else let hrp = networkHrp network
           in (case convertBits (map uint (from_hex witnessProgramHex)) 8 5 True of
                 None \<Rightarrow> Inl TypeError
               | Some converted \<Rightarrow>
                   let data = 0 # converted
                   in Inr (hrp @ ''1'' @ charset_text (data @ bech32_checksum hrp data))))"

end
