(* ===== verification/Carrier_Properties.thy ===== *)
theory Carrier_Properties
  imports Carrier_Address
begin

text \<open>
  The Bech32 codec of \<open>Carrier_Address\<close> is exact.  The regrouping of bits keeps the number the digits
  denote, so thirty-two bytes and the fifty-two groups of five bits that stand for them determine one
  another; the checksum is linear over exclusive or, so that exactly one makes the sum come out; with
  these, encoding and decoding are inverse (\<open>carrier_address_exact\<close>), and the two form the contract
  \<open>codec\<close> of \<open>Text_Codec\<close> on every network.
\<close>

section \<open>Regrouping bits keeps the number\<close>

text \<open>The number digits of a base denote, most significant first.\<close>

definition digits_value :: "nat \<Rightarrow> int list \<Rightarrow> int" where
  "digits_value width ds = foldl (\<lambda>n d. n * 2 ^ width + d) 0 ds"

definition digits_ok :: "nat \<Rightarrow> int list \<Rightarrow> bool" where
  "digits_ok width ds = (\<forall>d \<in> set ds. 0 \<le> d \<and> d < 2 ^ width)"

lemma digits_value_foldl: "foldl (\<lambda>n d. n * 2 ^ w + d) a ds = a * 2 ^ (w * length ds) + digits_value w ds"
  unfolding digits_value_def
proof (induction ds arbitrary: a)
  case (Cons d ds)
  show ?case using Cons [of "a * 2 ^ w + d"] Cons [of d]
    by (simp add: algebra_simps power_add)
qed simp

lemma digits_value_simps [simp]:
  "digits_value w [] = 0"
  "digits_value w (d # ds) = d * 2 ^ (w * length ds) + digits_value w ds"
  using digits_value_foldl [of w d ds] by (simp_all add: digits_value_def)

lemma digits_value_append: "digits_value w (xs @ ys) = digits_value w xs * 2 ^ (w * length ys) + digits_value w ys"
  using digits_value_foldl [of w "digits_value w xs" ys] by (simp add: digits_value_def)

lemma digits_value_bounds: "digits_ok w ds \<Longrightarrow> 0 \<le> digits_value w ds \<and> digits_value w ds < 2 ^ (w * length ds)"
proof (induction ds)
  case (Cons d ds)
  then have d: "0 \<le> d" "d + 1 \<le> 2 ^ w" and v: "0 \<le> digits_value w ds" "digits_value w ds < 2 ^ (w * length ds)"
    by (simp_all add: digits_ok_def)
  have "(d + 1) * 2 ^ (w * length ds) \<le> 2 ^ w * (2 ^ (w * length ds) :: int)"
    using d(2) by (rule mult_right_mono) simp
  with d(1) v show ?case by (simp add: power_add algebra_simps)
qed simp

lemma digits_value_inject:
  "length xs = length ys \<Longrightarrow> digits_ok w xs \<Longrightarrow> digits_ok w ys \<Longrightarrow> digits_value w xs = digits_value w ys \<Longrightarrow> xs = ys"
proof (induction xs ys rule: list_induct2)
  case (Cons x xs y ys)
  have ok: "digits_ok w xs" "digits_ok w ys" using Cons.prems by (simp_all add: digits_ok_def)
  note bx = digits_value_bounds [OF ok(1)] and by' = digits_value_bounds [OF ok(2)]
  let ?p = "2 ^ (w * length xs) :: int"
  have eq: "x * ?p + digits_value w xs = y * ?p + digits_value w ys" using Cons.prems(3) Cons.hyps by simp
  have "(x * ?p + digits_value w xs) div ?p = x" "(y * ?p + digits_value w ys) div ?p = y"
    using bx by' Cons.hyps by simp_all
  then have "x = y" using eq by simp
  then show ?case using Cons eq ok by simp
qed simp

text \<open>The bit operations as arithmetic.\<close>

lemma push_or: "0 \<le> v \<Longrightarrow> v < 2 ^ f \<Longrightarrow> push_bit f a OR v = a * 2 ^ f + (v :: int)"
proof -
  assume "0 \<le> v" "v < 2 ^ f"
  then have v: "take_bit f v = v" by (simp add: take_bit_int_eq_self)
  have "push_bit f a AND take_bit f v = 0"
    by (rule bit_eqI) (auto simp: bit_and_iff bit_push_bit_iff bit_take_bit_iff)
  then show ?thesis using disjunctive_add_eq_or [of "push_bit f a" v] v by (simp add: push_bit_eq_mult)
qed

lemma and_low: "(a :: int) AND (2 ^ n - 1) = a mod 2 ^ n"
  by (simp add: take_bit_eq_mask [symmetric] mask_eq_exp_minus_1 [symmetric] take_bit_eq_mod)

lemma emit_bits_value:
  "0 < t \<Longrightarrow> emit_bits t a b = (ds, left) \<Longrightarrow>
     digits_ok t ds \<and> left < t \<and> t * length ds + left = b \<and>
     digits_value t ds * 2 ^ left + a mod 2 ^ left = a mod 2 ^ b"
proof (induction t a b arbitrary: ds left rule: emit_bits.induct)
  case (1 t a b)
  show ?case
  proof (cases "t \<le> b")
    case False
    then show ?thesis using "1.prems" by (subst (asm) emit_bits.simps) (auto simp: digits_ok_def)
  next
    case True
    obtain rest where r: "emit_bits t a (b - t) = (rest, left)" and
      ds: "ds = (a div 2 ^ (b - t) mod 2 ^ t) # rest"
      using "1.prems" True by (subst (asm) emit_bits.simps) (auto simp: and_low drop_bit_eq_div split: prod.splits)
    have ih: "digits_ok t rest" "left < t" "t * length rest + left = b - t"
      "digits_value t rest * 2 ^ left + a mod 2 ^ left = a mod 2 ^ (b - t)"
      using "1.IH" [OF _ _ r] "1.prems"(1) True by auto
    have b: "b = (b - t) + t" using True by simp
    have "a mod 2 ^ b = (a div 2 ^ (b - t) mod 2 ^ t) * 2 ^ (b - t) + a mod 2 ^ (b - t)"
      using zmod_zmult2_eq [of "2 ^ t" a "2 ^ (b - t)"] b by (simp add: power_add [symmetric] mult.commute)
    then have a: "(a div 2 ^ (b - t) mod 2 ^ t) * 2 ^ (b - t) + a mod 2 ^ (b - t) = a mod 2 ^ b" by simp
    have p: "(2 :: int) ^ (t * length rest) * 2 ^ left = 2 ^ (b - t)"
      using ih(3) by (simp add: power_add [symmetric])
    have "digits_value t ds * 2 ^ left + a mod 2 ^ left =
        (a div 2 ^ (b - t) mod 2 ^ t) * (2 ^ (t * length rest) * 2 ^ left) +
        (digits_value t rest * 2 ^ left + a mod 2 ^ left)" by (simp add: ds algebra_simps)
    also have "\<dots> = a mod 2 ^ b" by (simp only: p ih(4) a)
    finally show ?thesis using ih(1-3) b by (auto simp: ds digits_ok_def)
  qed
qed


lemma convert_loop_value:
  assumes ft: "0 < t" "0 < f"
  shows "digits_ok f vs \<Longrightarrow> bits < t \<Longrightarrow> \<exists>ds acc' bits'. convert_loop f t acc bits vs = Some (ds, acc', bits') \<and>
     digits_ok t ds \<and> bits' < t \<and> t * length ds + bits' = bits + f * length vs \<and>
     digits_value t ds * 2 ^ bits' + acc' mod 2 ^ bits' = (acc mod 2 ^ bits) * 2 ^ (f * length vs) + digits_value f vs"
proof (induction vs arbitrary: acc bits)
  case Nil
  then show ?case by (auto simp: digits_ok_def)
next
  case (Cons v vs)
  have v: "0 \<le> v" "v < 2 ^ f" and vs: "digits_ok f vs" using Cons.prems by (simp_all add: digits_ok_def)
  define a1 where "a1 = (acc * 2 ^ f + v) mod 2 ^ (f + t - 1)"
  obtain emitted left where e: "emit_bits t a1 (bits + f) = (emitted, left)" by fastforce
  note ev = emit_bits_value [OF ft(1) e]
  obtain ds acc' bits' where r: "convert_loop f t a1 left vs = Some (ds, acc', bits')" "digits_ok t ds" "bits' < t"
    "t * length ds + bits' = left + f * length vs"
    "digits_value t ds * 2 ^ bits' + acc' mod 2 ^ bits' = (a1 mod 2 ^ left) * 2 ^ (f * length vs) + digits_value f vs"
    using Cons.IH [OF vs, of left a1] ev by blast
  have run: "convert_loop f t acc bits (v # vs) = Some (emitted @ ds, acc', bits')"
    using v e r(1) by (simp add: push_or and_low a1_def [symmetric, simplified] Let_def drop_bit_eq_div)
  have "a1 mod 2 ^ (bits + f) = (acc * 2 ^ f + v) mod 2 ^ (bits + f)"
    unfolding a1_def using Cons.prems(2) by (intro mod_mod_cancel le_imp_power_dvd) simp
  also have "\<dots> = (acc mod 2 ^ bits) * 2 ^ f + v"
  proof -
    have "(acc * 2 ^ f + v) div 2 ^ f = acc" "(acc * 2 ^ f + v) mod 2 ^ f = v" using v by simp_all
    then show ?thesis
      using zmod_zmult2_eq [of "2 ^ bits" "acc * 2 ^ f + v" "2 ^ f"]
      by (simp add: power_add mult.commute)
  qed
  finally have a1: "digits_value t emitted * 2 ^ left + a1 mod 2 ^ left = (acc mod 2 ^ bits) * 2 ^ f + v"
    using ev by simp
  have p: "(2 :: int) ^ (t * length ds) * 2 ^ bits' = 2 ^ left * 2 ^ (f * length vs)"
    using r(4) by (simp add: power_add [symmetric])
  have "digits_value t (emitted @ ds) * 2 ^ bits' + acc' mod 2 ^ bits' =
      digits_value t emitted * (2 ^ (t * length ds) * 2 ^ bits') + (digits_value t ds * 2 ^ bits' + acc' mod 2 ^ bits')"
    by (simp add: digits_value_append algebra_simps)
  also have "\<dots> = digits_value t emitted * (2 ^ left * 2 ^ (f * length vs)) +
      ((a1 mod 2 ^ left) * 2 ^ (f * length vs) + digits_value f vs)"
    by (simp only: p r(5))
  also have "\<dots> = (digits_value t emitted * 2 ^ left + a1 mod 2 ^ left) * 2 ^ (f * length vs) + digits_value f vs"
    by (simp add: algebra_simps)
  also have "\<dots> = (acc mod 2 ^ bits) * 2 ^ (f * length (v # vs)) + digits_value f (v # vs)"
    unfolding a1 by (simp add: power_add algebra_simps)
  finally show ?case
    using run r(2-4) ev by (auto simp: digits_ok_def algebra_simps)
qed

text \<open>Thirty-two bytes become fifty-two groups of five bits, and back.\<close>

lemma convertBits_program:
  assumes "length ps = 32" and "digits_ok 8 ps"
  shows "\<exists>ds. convertBits ps 8 5 True = Some ds \<and> length ds = 52 \<and> digits_ok 5 ds \<and>
    digits_value 5 ds = digits_value 8 ps * 16 \<and> convertBits ds 5 8 False = Some ps"
proof -
  obtain ds acc bits where d: "convert_loop 8 5 0 0 ps = Some (ds, acc, bits)" "digits_ok 5 ds" "bits < 5"
    "5 * length ds + bits = 256" "digits_value 5 ds * 2 ^ bits + acc mod 2 ^ bits = digits_value 8 ps"
    using convert_loop_value [of 5 8 ps 0 0] assms by auto
  have len: "length ds = 51" "bits = 1" using d(3,4) by presburger+
  define ds' where "ds' = ds @ [acc * 16 mod 32]"
  have enc: "convertBits ps 8 5 True = Some ds'"
    using d(1) len by (simp add: convertBits_def and_low [of _ 5, simplified] push_bit_eq_mult ds'_def)
  have ok: "length ds' = 52" "digits_ok 5 ds'" using len d(2) by (auto simp: ds'_def digits_ok_def)
  have val: "digits_value 5 ds' = digits_value 8 ps * 16"
  proof -
    have "acc * 16 mod 32 = (acc mod 2) * 16" using mult_mod_right [of 16 acc 2] by (simp add: mult.commute)
    then show ?thesis using d(5) len by (simp add: ds'_def digits_value_append)
  qed
  obtain es acc2 bits2 where e: "convert_loop 5 8 0 0 ds' = Some (es, acc2, bits2)" "digits_ok 8 es" "bits2 < 8"
    "8 * length es + bits2 = 260" "digits_value 8 es * 2 ^ bits2 + acc2 mod 2 ^ bits2 = digits_value 5 ds'"
    using convert_loop_value [of 8 5 ds' 0 0] ok by auto
  have len2: "length es = 32" "bits2 = 4" using e(3,4) by presburger+
  have "digits_value 8 es * 16 + acc2 mod 16 = digits_value 8 ps * 16" using e(5) val len2 by simp
  then have "acc2 mod 16 = 0" "digits_value 8 es = digits_value 8 ps" by presburger+
  then have "es = ps" using digits_value_inject [of es ps 8] len2 assms e(2) by simp
  moreover have "acc2 * 16 mod 256 = (acc2 mod 16) * 16"
    using mult_mod_right [of 16 acc2 16] by (simp add: mult.commute)
  ultimately have "convertBits ds' 5 8 False = Some ps"
    using e(1) len2 \<open>acc2 mod 16 = 0\<close>
    by (simp add: convertBits_def and_low [of _ 8, simplified] push_bit_eq_mult)
  with enc ok val show ?thesis by blast
qed


section \<open>The checksum\<close>

definition generator_if :: "32 word \<Rightarrow> nat \<Rightarrow> 32 word \<Rightarrow> 32 word" where
  "generator_if c index g = (if bit c (25 + index) then g else 0)"

lemma polymod_step_alt:
  "polymod_step c v = push_bit 5 (c AND 0x1ffffff) XOR word_of_int v XOR generator_if c 0 0x3b6a57b2 XOR
     generator_if c 1 0x26508e6d XOR generator_if c 2 0x1ea119fa XOR generator_if c 3 0x3d4233dd XOR
     generator_if c 4 0x2a1462b3"
proof -
  have low: "drop_bit i (drop_bit 25 c) AND 1 \<noteq> 0 \<longleftrightarrow> bit c (25 + i)" for i
    by (simp add: and_one_eq odd_iff_mod_2_eq_one [symmetric] bit_iff_odd_drop_bit add.commute)
  have if_xor: "(if b then x XOR g else x) = x XOR (if b then g else 0)" for b and x g :: "32 word"
    by simp
  have gens: "zip [0..<length GENERATORS] GENERATORS =
      [(0, 0x3b6a57b2), (1, 0x26508e6d), (2, 0x1ea119fa), (3, 0x3d4233dd), (4, 0x2a1462b3)]"
    by (simp add: GENERATORS_def upt_rec)
  show ?thesis
    unfolding polymod_step_def Let_def low gens generator_if_def
    by (simp only: fold_simps case_prod_conv if_xor xor.assoc)
qed

lemma generator_if_xor: "generator_if (a XOR b) i g = generator_if a i g XOR generator_if b i g"
  by (simp add: generator_if_def bit_xor_iff)

lemma polymod_step_xor: "polymod_step (a XOR b) v = polymod_step a 0 XOR polymod_step b v"
proof -
  have p: "push_bit 5 ((a XOR b) AND m) = push_bit 5 (a AND m) XOR push_bit 5 (b AND m)" for m :: "32 word"
    by (rule bit_word_eqI) (auto simp: bit_simps)
  show ?thesis
    unfolding polymod_step_alt generator_if_xor p by (simp add: ac_simps)
qed

lemma foldl_polymod_xor:
  "foldl polymod_step (a XOR b) vs = foldl polymod_step a (replicate (length vs) 0) XOR foldl polymod_step b vs"
  by (induction vs arbitrary: a b) (simp_all add: polymod_step_xor)


text \<open>A checksum has thirty bits.\<close>

lemma polymod_step_30: "take_bit 30 (polymod_step c 0) = polymod_step c 0"
proof -
  have g: "take_bit 30 (generator_if c i g) = generator_if c i g" if "take_bit 30 g = g" for i g
    using that by (simp add: generator_if_def)
  have c: "take_bit 30 (0x3b6a57b2 :: 32 word) = 0x3b6a57b2" "take_bit 30 (0x26508e6d :: 32 word) = 0x26508e6d"
    "take_bit 30 (0x1ea119fa :: 32 word) = 0x1ea119fa" "take_bit 30 (0x3d4233dd :: 32 word) = 0x3d4233dd"
    "take_bit 30 (0x2a1462b3 :: 32 word) = 0x2a1462b3"
    by simp_all
  have m: "(0x1ffffff :: 32 word) = mask 25" by (simp add: mask_eq_exp_minus_1)
  have p: "take_bit 30 (push_bit 5 (c AND 0x1ffffff)) = push_bit 5 (c AND 0x1ffffff)"
    unfolding m by (rule bit_word_eqI) (auto simp: bit_simps)
  show ?thesis unfolding polymod_step_alt by (simp only: take_bit_xor g c p of_int_0 take_bit_of_0)
qed

text \<open>Where the top is empty a step only shifts: appending the five-bit groups of a number rebuilds it.\<close>

lemma polymod_step_append:
  fixes w :: "32 word"
  assumes "take_bit 30 w = w"
  shows "polymod_step (drop_bit 5 w) (uint (w AND 31)) = w"
proof -
  have small: "bit w n \<Longrightarrow> n < 30" for n using assms by (metis bit_take_bit_iff)
  have top: "\<not> bit w (5 + (25 + i))" for i using small [of "5 + (25 + i)"] by linarith
  then have "generator_if (drop_bit 5 w) i g = 0" for i g
    by (simp add: generator_if_def bit_drop_bit_eq)
  then have "polymod_step (drop_bit 5 w) (uint (w AND 31)) = push_bit 5 (drop_bit 5 w AND 0x1ffffff) XOR (w AND 31)"
    by (simp add: polymod_step_alt)
  also have "\<dots> = w"
  proof (rule bit_word_eqI)
    fix n assume "n < LENGTH(32)"
    have m: "(0x1ffffff :: 32 word) = mask 25" "(31 :: 32 word) = mask 5" by (simp_all add: mask_eq_exp_minus_1)
    show "bit (push_bit 5 (drop_bit 5 w AND 0x1ffffff) XOR (w AND 31)) n = bit w n"
      unfolding m using \<open>n < LENGTH(32)\<close> small [of n] by (auto simp: bit_simps)
  qed
  finally show ?thesis .
qed


lemma polymod_rebuild:
  assumes "take_bit 30 r = r"
  shows "foldl polymod_step 0 (map (\<lambda>index. uint (drop_bit (5 * (5 - index)) r AND 31)) [0..<6]) = r"
proof -
  have step: "polymod_step (drop_bit (5 + k) r) (uint (drop_bit k r AND 31)) = drop_bit k r" for k
  proof -
    have "take_bit 30 (drop_bit k r) = drop_bit k r"
    proof (rule bit_word_eqI)
      fix n
      have "bit r (k + n) \<Longrightarrow> k + n < 30" using assms by (metis bit_take_bit_iff)
      then show "bit (take_bit 30 (drop_bit k r)) n = bit (drop_bit k r) n"
        by (auto simp: bit_take_bit_iff bit_drop_bit_eq)
    qed
    from polymod_step_append [OF this] show ?thesis by (simp add: add.commute)
  qed
  have "drop_bit 30 r = 0"
  proof (rule bit_word_eqI)
    fix n
    have "bit r (30 + n) \<Longrightarrow> 30 + n < 30" using assms by (metis bit_take_bit_iff)
    then show "bit (drop_bit 30 r) n = bit (0 :: 32 word) n" by (auto simp: bit_drop_bit_eq)
  qed
  then show ?thesis
    using step [of 25] step [of 20] step [of 15] step [of 10] step [of 5] step [of 0]
    by (simp add: upt_rec)
qed

lemma length_bech32_checksum [simp]: "length (bech32_checksum hrp data) = 6"
  by (simp add: bech32_checksum_def Let_def)

lemma polymod_checksum: "polymod (hrpExpand hrp @ data @ bech32_checksum hrp data) = 1"
proof -
  define s where "s = foldl polymod_step 1 (hrpExpand hrp @ data)"
  define r where "r = foldl polymod_step s (replicate 6 0) XOR 1"
  have zeros: "[0, 0, 0, 0, 0, 0] = replicate 6 (0 :: int)" by (simp add: numeral_eq_Suc)
  have sum: "bech32_checksum hrp data = map (\<lambda>index. uint (drop_bit (5 * (5 - index)) r AND 31)) [0..<6]"
    unfolding bech32_checksum_def Let_def zeros by (simp add: polymod_def r_def s_def)
  have "replicate 6 (0 :: int) = replicate 5 0 @ [0]" by (simp add: numeral_eq_Suc)
  then have last: "foldl polymod_step s (replicate 6 0) = polymod_step (foldl polymod_step s (replicate 5 0)) 0" by simp
  have "take_bit 30 (1 :: 32 word) = 1" by simp
  then have "take_bit 30 r = r" unfolding r_def last by (simp only: take_bit_xor polymod_step_30)
  from polymod_rebuild [OF this] have r: "foldl polymod_step 0 (bech32_checksum hrp data) = r" by (simp add: sum)
  have "polymod (hrpExpand hrp @ data @ bech32_checksum hrp data) = foldl polymod_step (s XOR 0) (bech32_checksum hrp data)"
    by (simp add: polymod_def s_def)
  also have "\<dots> = foldl polymod_step s (replicate 6 0) XOR foldl polymod_step 0 (bech32_checksum hrp data)"
    unfolding foldl_polymod_xor by simp
  also have "\<dots> = 1" by (simp add: r r_def xor.assoc [symmetric])
  finally show ?thesis .
qed

section \<open>The round trip\<close>

lemma CHARSET_distinct: "distinct CHARSET" "length CHARSET = 32"
  by (simp_all add: CHARSET_def)

lemma charset_index_nth: "0 \<le> v \<Longrightarrow> v < 32 \<Longrightarrow> charset_index (CHARSET ! nat v) = Some v"
proof -
  assume v: "0 \<le> v" "v < 32"
  have "map_of (zip CHARSET (map int [0..<length CHARSET])) (CHARSET ! nat v) = Some (map int [0..<length CHARSET] ! nat v)"
    using CHARSET_distinct v by (intro map_of_zip_nth) simp_all
  then show ?thesis using v CHARSET_distinct(2) by (simp add: charset_index_def)
qed

lemma charset_indexes_text: "digits_ok 5 ds \<Longrightarrow> charset_indexes (charset_text ds) = Some ds"
proof -
  assume "digits_ok 5 ds"
  then have "charset_index (CHARSET ! nat d) = Some d" if "d \<in> set ds" for d
    using that charset_index_nth [of d] by (simp add: digits_ok_def)
  then show ?thesis by (auto simp: charset_indexes_def charset_text_def list_all_iff intro: map_idI)
qed

lemma CHARSET_chars:
  "list_all (\<lambda>c. c \<noteq> CHR ''1'' \<and> lower_char c = c) CHARSET"
  by code_simp

lemma charset_text_chars: "digits_ok 5 ds \<Longrightarrow> CHR ''1'' \<notin> set (charset_text ds) \<and> to_lower (charset_text ds) = charset_text ds"
proof -
  assume "digits_ok 5 ds"
  then have "CHARSET ! nat d \<in> set CHARSET" if "d \<in> set ds" for d
    using that CHARSET_distinct(2) by (intro nth_mem) (auto simp: digits_ok_def)
  then have c: "CHARSET ! nat d \<noteq> CHR ''1''" "lower_char (CHARSET ! nat d) = CHARSET ! nat d" if "d \<in> set ds" for d
    using CHARSET_chars that unfolding list_all_iff by blast+
  have "CHR ''1'' \<notin> set (charset_text ds)" using c(1) unfolding charset_text_def by fastforce
  moreover have "to_lower (charset_text ds) = charset_text ds"
    using c(2) unfolding charset_text_def to_lower_def map_map by (intro map_cong) simp_all
  ultimately show ?thesis ..
qed

lemma last_index_of_append: "c \<notin> set ys \<Longrightarrow> last_index_of c (xs @ c # ys) = Some (length xs)"
proof -
  assume "c \<notin> set ys"
  then have "takeWhile (\<lambda>x. x \<noteq> c) (rev ys @ c # rev xs) = rev ys"
    by (subst takeWhile_append2) auto
  then show ?thesis by (simp add: last_index_of_def)
qed

lemma checksum_digits: "digits_ok 5 (bech32_checksum hrp data)"
proof -
  have "uint (w AND 31) < 32" for w :: "32 word"
    using word_and_le1 [of w 31] by (simp add: word_le_def)
  then show ?thesis by (auto simp: bech32_checksum_def Let_def digits_ok_def)
qed


text \<open>A program in hex, as bytes and as digits.\<close>

lemma hex_digits:
  assumes "is_hex_text 64 p"
  shows "length (map uint (from_hex p)) = 32" "digits_ok 8 (map uint (from_hex p))"
    "to_hex (map word_of_int (map uint (from_hex p))) = p"
proof -
  show "length (map uint (from_hex p)) = 32" using length_from_hex [OF assms] by simp
  have "uint b < 256" for b :: byte using uint_lt2p [of b] by simp
  then show "digits_ok 8 (map uint (from_hex p))" by (auto simp: digits_ok_def)
  show "to_hex (map word_of_int (map uint (from_hex p))) = p"
    using to_hex_from_hex [OF assms] by (simp add: o_def)
qed

lemma digits_hex:
  assumes "length ps = 32" and "digits_ok 8 ps"
  shows "is_hex_text 64 (to_hex (map word_of_int ps))"
    "map uint (from_hex (to_hex (map word_of_int ps :: bytes))) = ps"
proof -
  show "is_hex_text 64 (to_hex (map word_of_int ps))"
    using is_hex_text_to_hex [of "map word_of_int ps"] assms(1) by simp
  have "uint (word_of_int d :: byte) = d" if "d \<in> set ps" for d
    using assms(2) that by (simp add: digits_ok_def uint_word_of_int)
  then show "map uint (from_hex (to_hex (map word_of_int ps :: bytes))) = ps" by (simp add: map_idI)
qed

lemma networkHrp_cases: "networkHrp network \<in> {''bc'', ''bcrt'', ''tb''}"
  by (simp add: networkHrp_def)

lemma networkHrp_text: "to_lower (networkHrp network) = networkHrp network" "length (networkHrp network) \<in> {2, 4}"
  using networkHrp_cases [of network] by (auto simp: to_lower_def lower_char_def char_code_def)

lemma decode_address:
  assumes data: "digits_ok 5 (payload @ check)" "length payload = 53" "length check = 6" "hd payload = 0"
    and hrp: "hrp = networkHrp network" and sum: "polymod (hrpExpand hrp @ payload @ check) = 1"
  shows "decodeCarrierAddress (hrp @ ''1'' @ charset_text (payload @ check)) network' =
    (if hrp \<noteq> networkHrp network' then None
     else (case convertBits (tl payload) 5 8 False of
        None \<Rightarrow> None
      | Some program \<Rightarrow> if length program \<noteq> 32 then None
          else Some \<lparr>ca_address = hrp @ ''1'' @ charset_text (payload @ check),
            ca_witnessProgramHex = to_hex (map word_of_int program)\<rparr>))"
proof -
  let ?text = "charset_text (payload @ check)" and ?address = "hrp @ ''1'' @ charset_text (payload @ check)"
  have len: "length ?text = 59" using data(2,3) by (simp add: charset_text_def)
  note chars = charset_text_chars [OF data(1)]
  have lower: "to_lower ?address = ?address"
    using chars networkHrp_text(1) [of network] by (simp add: hrp to_lower_def lower_char_def char_code_def)
  have sep: "last_index_of CHR ''1'' ?address = Some (length hrp)"
    using chars last_index_of_append [of "CHR ''1''" ?text hrp] by simp
  have size: "length hrp = 2 \<or> length hrp = 4" using networkHrp_text(2) [of network] by (simp add: hrp)
  have first: "nth_opt payload 0 = Some 0" using data(2,4) by (cases payload) simp_all
  have "drop (Suc 0) payload = tl payload" by (simp add: drop_Suc)
  then show ?thesis
    using size len first sum data(2,3) charset_indexes_text [OF data(1)]
    unfolding decodeCarrierAddress_def lower sep Let_def by auto
qed


text \<open>The checksum is the only one.\<close>

lemma uint_small: "0 \<le> n \<Longrightarrow> n < 2 ^ 32 \<Longrightarrow> uint (word_of_int n :: 32 word) = n"
  by (simp add: uint_word_of_int)

lemma xor_cancel: "a XOR b = a XOR (c :: 32 word) \<Longrightarrow> b = c"
  by (metis xor.assoc xor.left_neutral xor_self_eq)

lemma foldl_polymod_value:
  "length vs \<le> 6 \<Longrightarrow> digits_ok 5 vs \<Longrightarrow> foldl polymod_step 0 vs = word_of_int (digits_value 5 vs)"
proof (induction vs rule: rev_induct)
  case (snoc v vs)
  let ?n = "digits_value 5 vs"
  have v: "0 \<le> v" "v < 32" and vs: "digits_ok 5 vs" using snoc.prems by (simp_all add: digits_ok_def)
  have "(2 :: int) ^ (5 * length vs) \<le> 2 ^ 25" using snoc.prems(1) by (intro power_increasing) simp_all
  then have n: "0 \<le> ?n" "?n < 2 ^ 25" using digits_value_bounds [OF vs] by linarith+
  obtain w :: "32 word" where word: "w = word_of_int (?n * 32 + v)" by blast
  have w: "uint w = ?n * 32 + v" unfolding word using n v by (intro uint_small) simp_all
  have "uint (take_bit 30 w) = uint w"
    unfolding unsigned_take_bit_eq w using n v by (intro take_bit_int_eq_self) simp_all
  then have "take_bit 30 w = w" by (rule word_uint_eqI)
  then have "polymod_step (drop_bit 5 w) (uint (w AND 31)) = w" by (rule polymod_step_append)
  moreover have "drop_bit 5 w = word_of_int ?n"
  proof (rule word_uint_eqI)
    have "uint (drop_bit 5 w) = (?n * 32 + v) div 32"
      unfolding unsigned_drop_bit_eq w using n v by (simp add: take_bit_int_eq_self drop_bit_eq_div)
    also have "\<dots> = ?n" using v by simp
    also have "\<dots> = uint (word_of_int ?n :: 32 word)" using n uint_small [of ?n] by simp
    finally show "uint (drop_bit 5 w) = uint (word_of_int ?n :: 32 word)" .
  qed
  moreover have "uint (w AND 31) = v"
  proof -
    have "uint (w AND 31) = (?n * 32 + v) AND 31" by (simp add: uint_and w)
    also have "\<dots> = (?n * 32 + v) mod 32" using and_low [of "?n * 32 + v" 5] by simp
    finally show ?thesis using v by simp
  qed
  moreover have "foldl polymod_step 0 vs = word_of_int ?n" using snoc vs by simp
  ultimately show ?case by (simp add: digits_value_append word)
qed simp

lemma checksum_unique:
  assumes "length check = 6" and "digits_ok 5 check" and "polymod (hrpExpand hrp @ data @ check) = 1"
  shows "check = bech32_checksum hrp data"
proof -
  let ?s = "foldl polymod_step 1 (hrpExpand hrp @ data)"
  have split: "foldl polymod_step ?s vs = foldl polymod_step ?s (replicate (length vs) 0) XOR foldl polymod_step 0 vs" for vs
    using foldl_polymod_xor [of ?s 0 vs] by simp
  have "foldl polymod_step ?s check = foldl polymod_step ?s (bech32_checksum hrp data)"
    using assms(3) polymod_checksum [of hrp data] by (simp add: polymod_def)
  then have "foldl polymod_step 0 check = foldl polymod_step 0 (bech32_checksum hrp data)"
    unfolding split [of check] split [of "bech32_checksum hrp data"] using assms(1) by (auto dest: xor_cancel)
  then have eq: "(word_of_int (digits_value 5 check) :: 32 word) = word_of_int (digits_value 5 (bech32_checksum hrp data))"
    using foldl_polymod_value assms(1,2) checksum_digits by simp
  have "uint (word_of_int (digits_value 5 c) :: 32 word) = digits_value 5 c" if "length c = 6" "digits_ok 5 c" for c
    using digits_value_bounds [OF that(2)] that(1) by (simp add: uint_word_of_int)
  then have "digits_value 5 check = digits_value 5 (bech32_checksum hrp data)"
    using eq assms(1,2) checksum_digits by (metis length_bech32_checksum)
  then show ?thesis using digits_value_inject assms(1,2) checksum_digits by simp
qed


text \<open>The groups a program is encoded from are the only ones.\<close>

lemma convertBits_groups:
  assumes "convertBits ds 5 8 False = Some ps" and "digits_ok 5 ds" and "length ps = 32"
  shows "length ds = 52" "digits_ok 8 ps" "convertBits ps 8 5 True = Some ds"
proof -
  obtain es acc bits where e: "convert_loop 5 8 0 0 ds = Some (es, acc, bits)" "digits_ok 8 es" "bits < 8"
    "8 * length es + bits = 5 * length ds" "digits_value 8 es * 2 ^ bits + acc mod 2 ^ bits = digits_value 5 ds"
    using convert_loop_value [of 8 5 ds 0 0] assms(2) by auto
  have r: "es = ps" "bits < 5" "acc * 2 ^ (8 - bits) mod 256 = 0"
    using assms(1) e(1) by (auto simp: convertBits_def and_low [of _ 8, simplified] push_bit_eq_mult Let_def split: if_splits)
  have "256 + bits = 5 * length ds" using e(4) r(1) assms(3) by simp
  then have bits: "bits = 4" "length ds = 52" using r(2) by presburger+
  show "length ds = 52" "digits_ok 8 ps" using bits e(2) r(1) by simp_all
  have "acc * 16 mod 256 = (acc mod 16) * 16" using mult_mod_right [of 16 acc 16] by (simp add: mult.commute)
  then have "acc mod 16 = 0" using r(3) bits(1) by simp
  then have val: "digits_value 5 ds = digits_value 8 ps * 16" using e(5) r(1) bits(1) by simp
  obtain ds' where ds': "convertBits ps 8 5 True = Some ds'" "length ds' = 52" "digits_ok 5 ds'"
    "digits_value 5 ds' = digits_value 8 ps * 16"
    using convertBits_program [OF assms(3)] e(2) r(1) by blast
  then have "ds' = ds" using digits_value_inject [of ds' ds 5] assms(2) bits(2) val by simp
  then show "convertBits ps 8 5 True = Some ds" using ds'(1) by simp
qed

lemma encode_program:
  assumes "is_hex_text 64 p"
  shows "\<exists>ds. convertBits (map uint (from_hex p)) 8 5 True = Some ds \<and> length ds = 52 \<and> digits_ok 5 ds \<and>
    convertBits ds 5 8 False = Some (map uint (from_hex p)) \<and>
    encodeCarrierAddress p network = Inr (networkHrp network @ ''1'' @
      charset_text ((0 # ds) @ bech32_checksum (networkHrp network) (0 # ds)))"
  using convertBits_program [OF hex_digits(1,2) [OF assms]] assms
  by (auto simp: encodeCarrierAddress_def Let_def)

lemma last_index_of_Some: "last_index_of c s = Some i \<Longrightarrow> s = take i s @ c # drop (i + 1) s"
proof -
  let ?m = "length (takeWhile (\<lambda>x. x \<noteq> c) (rev s))"
  assume "last_index_of c s = Some i"
  then have c: "c \<in> set s" and i: "i = length s - 1 - ?m" by (simp_all add: last_index_of_def split: if_splits)
  then have "?m < length (rev s)"
    using length_takeWhile_le [of "\<lambda>x. x \<noteq> c" "rev s"] takeWhile_eq_all_conv [of "\<lambda>x. x \<noteq> c" "rev s"]
    by (metis (mono_tags, lifting) le_neq_implies_less set_rev takeWhile_eq_take take_all_iff nat_less_le)
  then have "rev s ! ?m = c" using nth_length_takeWhile [of "\<lambda>x. x \<noteq> c" "rev s"] by simp
  then have "i < length s" "s ! i = c" using i \<open>?m < length (rev s)\<close> by (simp_all add: rev_nth)
  then show ?thesis using id_take_nth_drop [of i s] by simp
qed

lemma charset_index_Some: "charset_index c = Some d \<Longrightarrow> 0 \<le> d \<and> d < 32 \<and> CHARSET ! nat d = c"
  by (auto simp: charset_index_def set_zip CHARSET_distinct(2) dest!: map_of_SomeD)

lemma charset_indexes_Some: "charset_indexes t = Some data \<Longrightarrow> digits_ok 5 data \<and> charset_text data = t"
proof -
  assume h: "charset_indexes t = Some data"
  then have "charset_index c = Some (the (charset_index c))" if "c \<in> set t" for c
    using that by (auto simp: charset_indexes_def list_all_iff split: if_splits)
  then have c: "0 \<le> the (charset_index c)" "the (charset_index c) < 32" "CHARSET ! nat (the (charset_index c)) = c"
    if "c \<in> set t" for c using that charset_index_Some by blast+
  have "data = map (the \<circ> charset_index) t" using h by (simp add: charset_indexes_def split: if_splits)
  then show ?thesis using c by (auto simp: digits_ok_def charset_text_def intro: map_idI)
qed

lemma decode_Some:
  assumes "decodeCarrierAddress s network = Some r"
  shows "ca_address r = to_lower s \<and> is_hex_text 64 (ca_witnessProgramHex r) \<and>
    encodeCarrierAddress (ca_witnessProgramHex r) network = Inr (ca_address r)"
proof -
  let ?a = "to_lower s"
  obtain sep data program where h: "last_index_of CHR ''1'' ?a = Some sep" "sep + 7 \<le> length ?a"
    "take sep ?a = networkHrp network" "charset_indexes (drop (sep + 1) ?a) = Some data"
    "polymod (hrpExpand (networkHrp network) @ data) = 1" "nth_opt (take (length data - 6) data) 0 = Some 0"
    "convertBits (drop 1 (take (length data - 6) data)) 5 8 False = Some program" "length program = 32"
    "r = \<lparr>ca_address = ?a, ca_witnessProgramHex = to_hex (map word_of_int program)\<rparr>"
    using assms unfolding decodeCarrierAddress_def Let_def by (auto split: if_splits option.splits)
  define payload check where "payload = take (length data - 6) data" and "check = drop (length data - 6) data"
  have data: "data = payload @ check" by (simp add: payload_def check_def)
  note d = charset_indexes_Some [OF h(4)]
  have "length data = length ?a - (sep + 1)" using d by (metis charset_text_def length_drop length_map)
  then have len: "6 \<le> length data" "length check = 6" using h(2) by (simp_all add: check_def)
  have ok: "digits_ok 5 payload" "digits_ok 5 check" using d by (simp_all add: data digits_ok_def)
  obtain groups where groups: "payload = 0 # groups" "drop 1 payload = groups"
    using h(6) [folded payload_def] by (cases payload) simp_all
  have conv: "convertBits groups 5 8 False = Some program" using h(7) groups(2) by (simp add: payload_def)
  have "digits_ok 5 groups" using ok(1) groups(1) by (simp add: digits_ok_def)
  note prog = convertBits_groups [OF conv this h(8)]
  have check: "check = bech32_checksum (networkHrp network) payload"
    using checksum_unique [OF len(2) ok(2)] h(5) data by simp
  let ?p = "to_hex (map word_of_int program)"
  have hex: "is_hex_text 64 ?p" "map uint (from_hex ?p) = program" using digits_hex [OF h(8) prog(2)] by simp_all
  have "?a = networkHrp network @ ''1'' @ charset_text data"
    using last_index_of_Some [OF h(1)] h(3) d by simp
  then have "encodeCarrierAddress ?p network = Inr ?a"
    using hex prog(3) groups(1) check data by (simp add: encodeCarrierAddress_def Let_def)
  then show ?thesis using h(9) hex(1) by simp
qed

lemma encode_decodes:
  assumes "is_hex_text 64 p"
  shows "\<exists>address. encodeCarrierAddress p network = Inr address \<and>
      (\<forall>network'. decodeCarrierAddress address network' =
         (if networkHrp network' = networkHrp network
          then Some \<lparr>ca_address = address, ca_witnessProgramHex = p\<rparr> else None))"
proof -
  obtain ds where ds: "length ds = 52" "digits_ok 5 ds" "convertBits ds 5 8 False = Some (map uint (from_hex p))"
    "encodeCarrierAddress p network = Inr (networkHrp network @ ''1'' @
      charset_text ((0 # ds) @ bech32_checksum (networkHrp network) (0 # ds)))"
    using encode_program [OF assms] by blast
  let ?hrp = "networkHrp network"
  have "digits_ok 5 ((0 # ds) @ bech32_checksum ?hrp (0 # ds))"
    using ds(2) checksum_digits [of ?hrp "0 # ds"] by (auto simp: digits_ok_def)
  note decode = decode_address [OF this _ _ _ refl, simplified append.assoc]
  have "decodeCarrierAddress (?hrp @ ''1'' @ charset_text ((0 # ds) @ bech32_checksum ?hrp (0 # ds))) network' =
      (if networkHrp network' = ?hrp
       then Some \<lparr>ca_address = ?hrp @ ''1'' @ charset_text ((0 # ds) @ bech32_checksum ?hrp (0 # ds)),
         ca_witnessProgramHex = p\<rparr> else None)" for network'
    using decode [of network network'] polymod_checksum [of ?hrp "0 # ds"] ds(1,3) hex_digits [OF assms] by simp
  then show ?thesis using ds(4) by blast
qed

text \<open>The two as a codec of hex programs.\<close>

definition carrier_text :: "string \<Rightarrow> string \<Rightarrow> string" where
  "carrier_text network p = (case encodeCarrierAddress p network of Inl e \<Rightarrow> [] | Inr address \<Rightarrow> address)"

definition carrier_program :: "string \<Rightarrow> string \<Rightarrow> string option" where
  "carrier_program network s = map_option ca_witnessProgramHex (decodeCarrierAddress s network)"

interpretation carrier: codec "carrier_text network" "carrier_program network" "is_hex_text 64" for network
proof
  show "carrier_program network (carrier_text network p) = Some p" if "is_hex_text 64 p" for p
    using encode_decodes [OF that, of network] by (auto simp: carrier_text_def carrier_program_def)
qed

text \<open>No two programs share an address.\<close>

lemma carrier_text_inject:
  "is_hex_text 64 p \<Longrightarrow> is_hex_text 64 q \<Longrightarrow> carrier_text network p = carrier_text network q \<longleftrightarrow> p = q"
  by (rule carrier.encode_inject)

text \<open>
  C32: encoding and decoding are inverse.  The address of a program of 32 bytes decodes to that program
  on its own network, and is refused on a network with another prefix; and an address that decodes, in
  either case, is in lower case exactly the one the program it decodes to is encoded as.
\<close>

theorem carrier_address_exact:
  "(is_hex_text 64 p \<longrightarrow> (\<exists>address. encodeCarrierAddress p network = Inr address \<and>
      (\<forall>network'. decodeCarrierAddress address network' =
         (if networkHrp network' = networkHrp network
          then Some \<lparr>ca_address = address, ca_witnessProgramHex = p\<rparr> else None)))) \<and>
   (decodeCarrierAddress s network = Some r \<longrightarrow> ca_address r = to_lower s \<and>
      is_hex_text 64 (ca_witnessProgramHex r) \<and>
      encodeCarrierAddress (ca_witnessProgramHex r) network = Inr (ca_address r))"
  using decode_Some encode_decodes by blast

theorem carrier_address_exact_witness:
  "\<exists>address. encodeCarrierAddress (replicate 64 CHR ''0'') ''signet'' = Inr address \<and>
     decodeCarrierAddress address ''signet'' = Some \<lparr>ca_address = address, ca_witnessProgramHex = replicate 64 CHR ''0''\<rparr> \<and>
     decodeCarrierAddress address ''mainnet'' = None \<and> to_lower address = address"
proof -
  have "is_hex_text 64 (replicate 64 CHR ''0'')"
    by (simp add: is_hex_text_def is_lower_hex_char_def is_digit_def char_code_def list_all_iff)
  then obtain address where a: "encodeCarrierAddress (replicate 64 CHR ''0'') ''signet'' = Inr address"
    "\<forall>network'. decodeCarrierAddress address network' =
       (if networkHrp network' = networkHrp ''signet''
        then Some \<lparr>ca_address = address, ca_witnessProgramHex = replicate 64 CHR ''0''\<rparr> else None)"
    using carrier_address_exact [of "replicate 64 CHR ''0''" "''signet''"] by blast
  then have "decodeCarrierAddress address ''signet'' = Some \<lparr>ca_address = address, ca_witnessProgramHex = replicate 64 CHR ''0''\<rparr>"
    "decodeCarrierAddress address ''mainnet'' = None"
    by (simp_all add: networkHrp_def)
  then show ?thesis
    using a(1) carrier_address_exact [of _ "''signet''" address] by fastforce
qed

end
