(* ===== verification/Site_Carrier.thy ===== *)
theory Site_Carrier
  imports Carrier_Properties
begin

text \<open>
  The Bech32 encoder and the namespace commitment of \<open>site/src/lib/tandem.ts\<close>.  The encoder is a port of
  \<open>src/api/carrier-address.ts\<close> without its checks: it reads any text two characters at a time with
  \<open>Number.parseInt(_, 16)\<close>.  The commitment hashes a preimage it lays out; SHA-256 is a parameter.
\<close>

section \<open>\<open>Number.parseInt(s, 16)\<close>\<close>

text \<open>The white space of JavaScript among the characters below 256.\<close>

definition js_space :: "char \<Rightarrow> bool" where
  "js_space c = (is_space c \<or> char_code c = 160)"

definition hex_val_any :: "char \<Rightarrow> nat option" where
  "hex_val_any c = hex_val (lower_char c)"

fun hex_prefix :: "string \<Rightarrow> nat list" where
  "hex_prefix [] = []"
| "hex_prefix (c # s) = (case hex_val_any c of None \<Rightarrow> [] | Some d \<Rightarrow> d # hex_prefix s)"

fun strip_0x :: "string \<Rightarrow> string" where
  "strip_0x (a # b # s) = (if a = CHR ''0'' \<and> lower_char b = CHR ''x'' then s else a # b # s)"
| "strip_0x s = s"

text \<open>The digits after white space, a sign and \<open>0x\<close>; \<open>None\<close> is \<open>NaN\<close>.\<close>

definition parseInt16 :: "string \<Rightarrow> int option" where
  "parseInt16 s =
     (let trimmed = dropWhile js_space s;
          signed = (if trimmed \<noteq> [] \<and> (hd trimmed = CHR ''-'' \<or> hd trimmed = CHR ''+'') then tl trimmed else trimmed);
          digits = hex_prefix (strip_0x signed);
          magnitude = foldl (\<lambda>n d. n * 16 + int d) 0 digits
      in if digits = [] then None
         else if trimmed \<noteq> [] \<and> hd trimmed = CHR ''-'' then Some (- magnitude) else Some magnitude)"

text \<open>\<open>s.slice(index, index + 2)\<close> for every even index.\<close>

fun pairs_of :: "string \<Rightarrow> string list" where
  "pairs_of [] = []"
| "pairs_of [a] = [[a]]"
| "pairs_of (a # b # s) = [a, b] # pairs_of s"

section \<open>The encoder\<close>

text \<open>\<open>NaN\<close> counts as \<open>0\<close> in a bit operation.\<close>

fun site_convert_loop :: "nat \<Rightarrow> nat \<Rightarrow> int \<Rightarrow> nat \<Rightarrow> int option list \<Rightarrow> int list \<times> int \<times> nat" where
  "site_convert_loop fromBits toBits accumulator bits [] = ([], accumulator, bits)"
| "site_convert_loop fromBits toBits accumulator bits (value # values) =
     (let accumulator' = (push_bit fromBits accumulator OR nullish value 0) AND (2 ^ (fromBits + toBits - 1) - 1)
      in (case emit_bits toBits accumulator' (bits + fromBits) of
            (emitted, left) \<Rightarrow>
              (case site_convert_loop fromBits toBits accumulator' left values of
                 (result, final) \<Rightarrow> (emitted @ result, final))))"

definition site_convertBits :: "int option list \<Rightarrow> nat \<Rightarrow> nat \<Rightarrow> int list" where
  "site_convertBits values fromBits toBits =
     (case site_convert_loop fromBits toBits 0 0 values of
        (result, accumulator, bits) \<Rightarrow>
          if bits > 0 then result @ [push_bit (toBits - bits) accumulator AND (2 ^ toBits - 1)] else result)"

definition site_networkHrp :: "string \<Rightarrow> string" where
  "site_networkHrp network =
     (if network = ''mainnet'' then ''bc'' else if network = ''regtest'' then ''bcrt'' else ''tb'')"

definition site_GENERATORS :: "32 word list" where
  "site_GENERATORS = [0x3b6a57b2, 0x26508e6d, 0x1ea119fa, 0x3d4233dd, 0x2a1462b3]"

definition site_polymod_step :: "32 word \<Rightarrow> int \<Rightarrow> 32 word" where
  "site_polymod_step checksum value =
     (let top = drop_bit 25 checksum;
          shifted = push_bit 5 (checksum AND 0x1ffffff) XOR word_of_int value
      in fold (\<lambda>(index, generator) c. if drop_bit index top AND 1 \<noteq> 0 then c XOR generator else c)
           (zip [0..<length site_GENERATORS] site_GENERATORS) shifted)"

definition site_polymod :: "int list \<Rightarrow> 32 word" where
  "site_polymod values = foldl site_polymod_step 1 values"

definition site_hrpExpand :: "string \<Rightarrow> int list" where
  "site_hrpExpand hrp =
     map (\<lambda>c. int (drop_bit 5 (char_code c))) hrp @ [0] @ map (\<lambda>c. int (char_code c AND 31)) hrp"

definition site_encodeCarrierAddress :: "string \<Rightarrow> string \<Rightarrow> string" where
  "site_encodeCarrierAddress witnessProgramHex network =
     (let hrp = site_networkHrp network;
          data = 0 # site_convertBits (map parseInt16 (pairs_of witnessProgramHex)) 8 5;
          residue = site_polymod (site_hrpExpand hrp @ data @ [0, 0, 0, 0, 0, 0]) XOR 1;
          checksum = map (\<lambda>index. uint (drop_bit (5 * (5 - index)) residue AND 31)) [0..<6]
      in hrp @ ''1'' @ charset_text (data @ checksum))"

section \<open>The port agrees with the server\<close>

lemma site_convert_loop_Some:
  "convert_loop f t acc bits vs = Some r \<Longrightarrow> site_convert_loop f t acc bits (map Some vs) = r"
  by (induction f t acc bits vs arbitrary: r rule: convert_loop.induct)
    (auto simp: Let_def split: if_splits prod.splits)

lemma site_convertBits_Some:
  "convertBits vs f t True = Some r \<Longrightarrow> site_convertBits (map Some vs) f t = r"
  by (auto simp: convertBits_def site_convertBits_def Let_def site_convert_loop_Some split: option.splits prod.splits)

lemma lower_hex_not_space: "is_lower_hex_char c \<Longrightarrow>
    \<not> js_space c \<and> c \<noteq> CHR ''-'' \<and> c \<noteq> CHR ''+'' \<and> lower_char c = c \<and> c \<noteq> CHR ''x''"
  by (auto simp: is_lower_hex_char_def is_digit_def js_space_def is_space_def lower_char_def char_code_def)

lemma parseInt16_pair:
  assumes "is_lower_hex_char a" and "is_lower_hex_char b"
  shows "parseInt16 [a, b] = Some (uint (hd (from_hex [a, b])))"
proof -
  obtain x y where x: "x < 16" "hex_val a = Some x" and y: "y < 16" "hex_val b = Some y"
    using hex_digit_val [OF assms(1)] hex_digit_val [OF assms(2)] by blast
  note a = lower_hex_not_space [OF assms(1)] and b = lower_hex_not_space [OF assms(2)]
  have "16 * x + y < 256" using x(1) y(1) by linarith
  then have u: "uint (word_of_nat (16 * x + y) :: byte) = int (16 * x + y)"
    by (subst unsigned_of_nat) (simp add: take_bit_nat_eq_self)
  have trimmed: "dropWhile js_space [a, b] = [a, b]" using a by simp
  have plain: "strip_0x [a, b] = [a, b]" using b by simp
  have digits: "hex_prefix [a, b] = [x, y]" using a b x(2) y(2) by (simp add: hex_val_any_def)
  have "parseInt16 [a, b] = Some (int x * 16 + int y)"
    using a by (simp add: parseInt16_def trimmed plain digits del: hex_prefix.simps strip_0x.simps dropWhile.simps)
  moreover have "hd (from_hex [a, b]) = word_of_nat (16 * x + y)" using x(2) y(2) by simp
  ultimately show ?thesis using u by simp
qed

lemma parseInt16_pairs:
  "list_all is_lower_hex_char s \<Longrightarrow> even (length s) \<Longrightarrow>
     map parseInt16 (pairs_of s) = map Some (map uint (from_hex s))"
proof (induction s rule: from_hex.induct)
  case (1 a b s)
  then obtain x y where d: "hex_val a = Some x" "hex_val b = Some y"
    using hex_digit_val [of a] hex_digit_val [of b] by auto
  then have h: "from_hex (a # b # s) = hd (from_hex [a, b]) # from_hex s" by simp
  have "map parseInt16 (pairs_of s) = map Some (map uint (from_hex s))" using 1 d by auto
  moreover have "parseInt16 [a, b] = Some (uint (hd (from_hex [a, b])))"
    using 1(2) by (intro parseInt16_pair) simp_all
  ultimately show ?case unfolding h by (simp only: pairs_of.simps list.map)
qed simp_all

lemma site_networkHrp_eq: "site_networkHrp = networkHrp"
  by (rule ext) (simp add: site_networkHrp_def networkHrp_def)

lemma site_polymod_eq: "site_polymod = polymod"
proof (rule ext)
  have "site_GENERATORS = GENERATORS" by (simp only: site_GENERATORS_def GENERATORS_def)
  then have "site_polymod_step = polymod_step"
    by (intro ext) (simp only: site_polymod_step_def polymod_step_def)
  then show "site_polymod vs = polymod vs" for vs by (simp add: site_polymod_def polymod_def)
qed

lemma site_hrpExpand_eq: "site_hrpExpand = hrpExpand"
  by (rule ext) (simp add: site_hrpExpand_def hrpExpand_def)

section \<open>The namespace commitment\<close>

definition site_hexBytes :: "string \<Rightarrow> bytes" where
  "site_hexBytes s =
     map (\<lambda>index. word_of_int (nullish (parseInt16 (take 2 (drop (index * 2) s))) 0)) [0..<length s div 2]"

definition asciiBytes :: "string \<Rightarrow> bytes" where
  "asciiBytes s = map (\<lambda>c. word_of_nat (char_code c AND 0xff)) s"

datatype network_name = Mainnet | Signet | Testnet4 | Regtest

text \<open>The table \<open>NETWORK\<close>.\<close>

fun NETWORK_code :: "network_name \<Rightarrow> byte" where
  "NETWORK_code Mainnet = 0x00"
| "NETWORK_code Signet = 0x01"
| "NETWORK_code Testnet4 = 0x02"
| "NETWORK_code Regtest = 0x03"

definition namespace_preimage :: "network_name \<Rightarrow> string \<Rightarrow> string \<Rightarrow> bytes" where
  "namespace_preimage network initTxidDisplayHex specHashHex =
     (let tag = asciiBytes (''TANDEM/NAMESPACE'' @ [char_of (0 :: nat)]);
          wire = rev (site_hexBytes initTxidDisplayHex);
          spec = site_hexBytes specHashHex
      in tag @ [NETWORK_code network] @ wire @ spec)"

definition namespaceCommitment :: "(bytes \<Rightarrow> bytes) \<Rightarrow> network_name \<Rightarrow> string \<Rightarrow> string \<Rightarrow> string" where
  "namespaceCommitment digest256 network initTxidDisplayHex specHashHex =
     to_hex (digest256 (namespace_preimage network initTxidDisplayHex specHashHex))"

text \<open>The preimage binds the network, the INIT transaction and the specification.\<close>

lemma site_hexBytes_from_hex:
  "list_all is_lower_hex_char s \<Longrightarrow> even (length s) \<Longrightarrow> site_hexBytes s = from_hex s"
proof (induction s rule: from_hex.induct)
  case (1 a b s)
  then obtain x y where d: "hex_val a = Some x" "hex_val b = Some y"
    using hex_digit_val [of a] hex_digit_val [of b] by auto
  then have h: "from_hex (a # b # s) = hd (from_hex [a, b]) # from_hex s" by simp
  have "site_hexBytes s = from_hex s" using 1 d by auto
  moreover have "parseInt16 [a, b] = Some (uint (hd (from_hex [a, b])))"
    using 1(2) by (intro parseInt16_pair) simp_all
  moreover have "site_hexBytes (a # b # s) = word_of_int (nullish (parseInt16 [a, b]) 0) # site_hexBytes s"
    by (simp add: site_hexBytes_def upt_conv_Cons map_Suc_upt [symmetric] del: upt_Suc)
  ultimately show ?case unfolding h by (simp only: nullish_simps word_of_int_uint)
qed (simp_all add: site_hexBytes_def)

lemma NETWORK_code_inject: "NETWORK_code m = NETWORK_code n \<longleftrightarrow> m = n"
  by (cases m; cases n) simp_all

lemma from_hex_inject:
  "is_hex_text n s \<Longrightarrow> is_hex_text n t \<Longrightarrow> even n \<Longrightarrow> from_hex s = from_hex t \<longleftrightarrow> s = t"
  using to_hex_from_hex by metis

lemma namespace_preimage_inject:
  assumes "is_hex_text 64 init" "is_hex_text 64 init'" "is_hex_text 64 spec" "is_hex_text 64 spec'"
  shows "namespace_preimage n init spec = namespace_preimage n' init' spec' \<longleftrightarrow>
    n = n' \<and> init = init' \<and> spec = spec'"
proof -
  have h: "site_hexBytes s = from_hex s" if "is_hex_text 64 s" for s
    using that by (intro site_hexBytes_from_hex) (simp_all add: is_hex_text_def)
  have len: "length (from_hex s) = 32" if "is_hex_text 64 s" for s using length_from_hex [OF that] by simp
  have "from_hex init = from_hex init' \<longleftrightarrow> init = init'" "from_hex spec = from_hex spec' \<longleftrightarrow> spec = spec'"
    using assms by (intro from_hex_inject [of 64]; simp)+
  then show ?thesis by (auto simp: namespace_preimage_def Let_def h assms len NETWORK_code_inject)
qed

text \<open>
  C33: the site's encoder agrees with the server's on every program the server accepts, which is every text
  of 64 lower-case hex characters; the server refuses every other text.
\<close>

theorem site_encodeCarrierAddress_agrees:
  "encodeCarrierAddress p network =
     (if is_hex_text 64 p then Inr (site_encodeCarrierAddress p network) else Inl TypeError)"
proof (cases "is_hex_text 64 p")
  case True
  then have "list_all is_lower_hex_char p" "even (length p)" by (simp_all add: is_hex_text_def)
  then have bytes: "map parseInt16 (pairs_of p) = map Some (map uint (from_hex p))" by (rule parseInt16_pairs)
  obtain ds where ds: "convertBits (map uint (from_hex p)) 8 5 True = Some ds"
    using convertBits_program [OF hex_digits(1,2) [OF True]] by blast
  show ?thesis
    using True ds site_convertBits_Some [OF ds]
    by (simp add: encodeCarrierAddress_def site_encodeCarrierAddress_def bytes site_networkHrp_eq site_polymod_eq
      site_hrpExpand_eq bech32_checksum_def Let_def del: map_map)
qed (simp add: encodeCarrierAddress_def)

end
