(* ===== verification/Base64url.thy ===== *)
theory Base64url
  imports Text_Codec
begin

text \<open>
  The conversions of Node the cursors of the API use: \<open>Buffer.from(s).toString("base64url")\<close> and
  \<open>Buffer.from(s, "base64url").toString("latin1")\<close> on texts of the alphabet.  A text of the alphabet is a
  list of sextets, a text of one-byte characters a list of bytes; three bytes are four sextets.  The last
  section is the type of a request's parameters.
\<close>

section \<open>Bytes and sextets\<close>

fun sextets :: "nat list \<Rightarrow> nat list" where
  "sextets [] = []"
| "sextets [a] = [a div 4, a mod 4 * 16]"
| "sextets [a, b] = [a div 4, a mod 4 * 16 + b div 16, b mod 16 * 4]"
| "sextets (a # b # c # s) = [a div 4, a mod 4 * 16 + b div 16, b mod 16 * 4 + c div 64, c mod 64] @ sextets s"

text \<open>Bits that do not fill a byte are dropped.\<close>

fun octets :: "nat list \<Rightarrow> nat list" where
  "octets [] = []"
| "octets [p] = []"
| "octets [p, q] = [p * 4 + q div 16]"
| "octets [p, q, r] = [p * 4 + q div 16, q mod 16 * 16 + r div 4]"
| "octets (p # q # r # t # s) = [p * 4 + q div 16, q mod 16 * 16 + r div 4, r mod 4 * 64 + t] @ octets s"

lemma digit_pair: "y < n \<Longrightarrow> (x * n + y) div n = x \<and> (x * n + y) mod n = (y :: nat)"
  by simp

lemma digit_pair_less: "x < m \<Longrightarrow> y < n \<Longrightarrow> x * n + y < m * (n :: nat)"
proof -
  assume "x < m" "y < n"
  then have "x * n + y < Suc x * n" "Suc x * n \<le> m * n" by (simp, intro mult_right_mono, simp_all)
  then show ?thesis by linarith
qed

lemma octet_parts:
  assumes "b < (256 :: nat)"
  shows "b div 16 < 16" and "b div 64 < 4" and "b div 4 < 64" and "b mod 16 < 16" and "b mod 4 < 4" and "b mod 64 < 64"
    and "b div 4 * 4 + b mod 4 = b" and "b div 16 * 16 + b mod 16 = b" and "b div 64 * 64 + b mod 64 = b"
    and "b mod 4 * 16 < 64" and "b mod 16 * 4 < 64"
proof -
  show "b div 16 < 16" "b div 64 < 4" "b div 4 < 64" using assms by (simp_all add: less_mult_imp_div_less)
  show m: "b mod 16 < 16" "b mod 4 < 4" "b mod 64 < 64" by simp_all
  show "b div 4 * 4 + b mod 4 = b" "b div 16 * 16 + b mod 16 = b" "b div 64 * 64 + b mod 64 = b"
    by (rule div_mult_mod_eq)+
  show "b mod 4 * 16 < 64" "b mod 16 * 4 < 64" using m by linarith+
qed

text \<open>The middle sextets of three bytes.\<close>

lemma middle_sextets:
  assumes "a < 256" and "b < 256" and "c < (256 :: nat)"
  shows "(a mod 4 * 16 + b div 16) div 16 = a mod 4" and "(a mod 4 * 16 + b div 16) mod 16 = b div 16"
    and "(b mod 16 * 4 + c div 64) div 4 = b mod 16" and "(b mod 16 * 4 + c div 64) mod 4 = c div 64"
    and "a mod 4 * 16 + b div 16 < 64" and "b mod 16 * 4 + c div 64 < 64"
  using digit_pair [of "b div 16" 16 "a mod 4"] digit_pair [of "c div 64" 4 "b mod 16"]
    digit_pair_less [of "a mod 4" 4 "b div 16" 16] digit_pair_less [of "b mod 16" 16 "c div 64" 4]
    octet_parts [OF assms(1)] octet_parts [OF assms(2)] octet_parts [OF assms(3)]
  by simp_all

lemma octets_sextets: "\<forall>b \<in> set bs. b < 256 \<Longrightarrow> octets (sextets bs) = bs"
proof (induction bs rule: sextets.induct)
  case (2 a)
  then have "a < 256" by simp
  note a = digit_pair [of 0 16 "a mod 4"] octet_parts(7) [OF this]
  show ?case using a by simp
next
  case (3 a b)
  then have "a < 256" "b < 256" by simp_all
  note m = middle_sextets [OF this, of 0, simplified] octet_parts(7) [OF this(1)] octet_parts(8) [OF this(2)]
  show ?case unfolding sextets.simps octets.simps m(1,2) m(3-) using m by simp
next
  case (4 a b c s)
  then have less: "a < 256" "b < 256" "c < 256" and s: "octets (sextets s) = s" by simp_all
  note m = middle_sextets [OF less] octet_parts(7) [OF less(1)] octet_parts(8) [OF less(2)] octet_parts(9) [OF less(3)]
  show ?case by (simp only: sextets.simps octets.simps append.simps m s)
qed simp

lemma sextets_less: "\<forall>b \<in> set bs. b < 256 \<Longrightarrow> \<forall>q \<in> set (sextets bs). q < 64"
proof (induction bs rule: sextets.induct)
  case (2 a)
  then have "a < 256" by simp
  then show ?case using octet_parts(3,10) by simp
next
  case (3 a b)
  then have "a < 256" "b < 256" by simp_all
  note m = middle_sextets(5) [OF this, of 0, simplified] octet_parts(3) [OF this(1)] octet_parts(11) [OF this(2)]
  show ?case using m by (simp only: sextets.simps list.set ball_simps)
next
  case (4 a b c s)
  then have less: "a < 256" "b < 256" "c < 256" and s: "\<forall>q \<in> set (sextets s). q < 64" by simp_all
  note m = middle_sextets(5,6) [OF less] octet_parts(3) [OF less(1)] octet_parts(6) [OF less(3)]
  show ?case using m s by (simp only: sextets.simps append.simps list.set ball_simps)
qed simp

lemma length_sextets: "length (sextets bs) = (4 * length bs + 2) div 3"
  by (induction bs rule: sextets.induct) simp_all

section \<open>Text\<close>

definition BASE64URL :: string where
  "BASE64URL = ''ABCDEFGHIJKLMNOPQRSTUVWXYZabcdefghijklmnopqrstuvwxyz0123456789-_''"

definition sextet_char :: "nat \<Rightarrow> char" where
  "sextet_char q = BASE64URL ! q"

definition sextet_of :: "char \<Rightarrow> nat option" where
  "sextet_of c = map_of (zip BASE64URL [0..<length BASE64URL]) c"

definition base64url :: "string \<Rightarrow> string" where
  "base64url s = map sextet_char (sextets (map char_code s))"

definition from_base64url :: "string \<Rightarrow> string" where
  "from_base64url s = map char_of (octets (map (\<lambda>c. nullish (sextet_of c) 0) s))"

text \<open>\<open>/^[A-Za-z0-9_-]{1,n}$/\<close>.\<close>

definition is_base64url_text :: "nat \<Rightarrow> string \<Rightarrow> bool" where
  "is_base64url_text n s = (1 \<le> length s \<and> length s \<le> n \<and> list_all (\<lambda>c. sextet_of c \<noteq> None) s)"

lemma BASE64URL_distinct: "distinct BASE64URL" "length BASE64URL = 64"
  by (simp_all add: BASE64URL_def)

lemma sextet_of_char: "q < 64 \<Longrightarrow> sextet_of (sextet_char q) = Some q"
proof -
  assume q: "q < 64"
  have "map_of (zip BASE64URL [0..<length BASE64URL]) (BASE64URL ! q) = Some ([0..<length BASE64URL] ! q)"
    using BASE64URL_distinct q by (intro map_of_zip_nth) simp_all
  then show ?thesis using q BASE64URL_distinct(2) by (simp add: sextet_of_def sextet_char_def)
qed

lemma from_base64url_base64url [simp]: "from_base64url (base64url s) = s"
proof -
  have bytes: "\<forall>b \<in> set (map char_code s). b < 256" by (simp add: char_code_less)
  have "map (\<lambda>q. nullish (sextet_of (sextet_char q)) 0) (sextets (map char_code s)) = sextets (map char_code s)"
    using sextets_less [OF bytes] by (intro map_idI) (simp add: sextet_of_char)
  then show ?thesis
    by (simp add: from_base64url_def base64url_def o_def octets_sextets [OF bytes])
      (simp add: char_code_def o_def)
qed

lemma length_base64url: "length (base64url s) = (4 * length s + 2) div 3"
  by (simp add: base64url_def length_sextets)

lemma is_base64url_text_base64url:
  "s \<noteq> [] \<Longrightarrow> (4 * length s + 2) div 3 \<le> n \<Longrightarrow> is_base64url_text n (base64url s)"
proof -
  assume s: "s \<noteq> []" "(4 * length s + 2) div 3 \<le> n"
  have "\<forall>b \<in> set (map char_code s). b < 256" by (simp add: char_code_less)
  note q = sextets_less [OF this]
  have "1 \<le> (4 * length s + 2) div 3" using s(1) by (cases s) simp_all
  with s(2) q show ?thesis
    unfolding is_base64url_text_def length_base64url
    by (auto simp: base64url_def list_all_iff sextet_of_char)
qed

text \<open>The same for bytes: \<open>digest("base64url")\<close> and \<open>Buffer.from(s, "base64url")\<close>.\<close>

definition base64url_bytes :: "bytes \<Rightarrow> string" where
  "base64url_bytes bs = map sextet_char (sextets (map unat bs))"

definition from_base64url_bytes :: "string \<Rightarrow> bytes" where
  "from_base64url_bytes s = map word_of_nat (octets (map (\<lambda>c. nullish (sextet_of c) 0) s))"

lemma unat_bytes_less: "\<forall>b \<in> set (map unat (bs :: bytes)). b < 256"
  by (auto simp: unat_byte_less)

lemma from_base64url_bytes_base64url_bytes [simp]: "from_base64url_bytes (base64url_bytes bs) = bs"
proof -
  have "map (\<lambda>q. nullish (sextet_of (sextet_char q)) 0) (sextets (map unat bs)) = sextets (map unat bs)"
    using sextets_less [OF unat_bytes_less, of bs] by (intro map_idI) (simp add: sextet_of_char)
  then show ?thesis
    by (simp add: from_base64url_bytes_def base64url_bytes_def o_def octets_sextets [OF unat_bytes_less])
qed

lemma base64url_bytes_text:
  "length (base64url_bytes bs) = (4 * length bs + 2) div 3"
  "list_all (\<lambda>c. sextet_of c \<noteq> None) (base64url_bytes bs)"
  using sextets_less [OF unat_bytes_less, of bs]
  by (auto simp: base64url_bytes_def length_sextets list_all_iff sextet_of_char)

lemma base64url_bytes_Nil [simp]: "base64url_bytes bs = [] \<longleftrightarrow> bs = []"
proof -
  have "sextets xs = [] \<longleftrightarrow> xs = []" for xs by (cases xs rule: sextets.cases) simp_all
  then show ?thesis by (simp add: base64url_bytes_def)
qed

section \<open>Parameters of a request\<close>

text \<open>A query or path parameter as it arrives: absent, a text, or something else.\<close>

datatype request_value = Absent | TextValue string | OtherValue

end
