(* ===== verification/Keyset.thy ===== *)
theory Keyset
  imports Text_Codec
begin

text \<open>
  Paging by keys.  A page is the first rows after a key, in an order of the rows; the next page is what
  comes after the key of its last row.  The locale states what the order and the condition of the query
  promise one another, and proves that such pages, put one behind the other, are the rows.
\<close>

locale keyset =
  fixes precedes :: "'r \<Rightarrow> 'r \<Rightarrow> bool"
    and after_key :: "'k option \<Rightarrow> 'r \<Rightarrow> bool"
    and key_of :: "'r \<Rightarrow> 'k"
  assumes asymmetric: "precedes x y \<Longrightarrow> \<not> precedes y x"
    and first: "after_key None x"
    and after_key_of: "after_key (Some (key_of x)) y \<longleftrightarrow> precedes x y"
    and after_mono: "after_key k x \<Longrightarrow> precedes x y \<Longrightarrow> after_key k y"
begin

lemma filter_precedes: "sorted_wrt precedes (xs @ y # zs) \<Longrightarrow> filter (precedes y) (xs @ y # zs) = zs"
proof -
  assume "sorted_wrt precedes (xs @ y # zs)"
  then have "\<forall>x \<in> set xs. \<not> precedes y x" "\<forall>z \<in> set zs. precedes y z"
    by (auto simp: sorted_wrt_append dest: asymmetric)
  moreover have "\<not> precedes y y" using asymmetric by blast
  ultimately show ?thesis by (auto simp: filter_id_conv filter_empty_conv)
qed

lemma all_rows: "filter (after_key None) rows = rows"
  using first by simp

text \<open>What is left after a full page.\<close>

lemma next_page:
  assumes "sorted_wrt precedes rows" and rest: "rest = filter (after_key k) rows"
    and "0 < limit" and "limit < length rest" and row: "row = last (take limit rest)"
  shows "row \<in> set rows \<and> filter (after_key (Some (key_of row))) rows = drop limit rest"
proof -
  have "take limit rest \<noteq> []" using assms(3,4) by auto
  then obtain init where init: "take limit rest = init @ [row]"
    unfolding row by (metis append_butlast_last_id)
  have split: "rest = init @ row # drop limit rest"
    using append_take_drop_id [of limit rest] init by simp
  then have "row \<in> set rest" by (metis in_set_conv_decomp)
  then have in_rows: "row \<in> set rows" and after: "after_key k row" by (simp_all add: rest)
  have "filter (after_key (Some (key_of row))) rows = filter (precedes row) rest"
    unfolding rest filter_filter using after_mono [OF after] by (intro filter_cong) (auto simp: after_key_of)
  moreover have "sorted_wrt precedes rest" unfolding rest using assms(1) by (rule sorted_wrt_filter)
  ultimately have "filter (after_key (Some (key_of row))) rows = drop limit rest"
    using filter_precedes [of init row "drop limit rest"] split by simp
  with in_rows show ?thesis ..
qed

end

end
