(* ===== verification/Bitcoin_Types.thy ===== *)
theory Bitcoin_Types
  imports Text_Codec
begin

text \<open>
  \<open>src/protocol/bitcoin.ts\<close> and \<open>src/protocol/block-ordering.ts\<close>: the transactions and blocks
  every other component consumes, as records with the fields of the interfaces (a field that may be
  absent is an option), and the check of block order.  The lemmas characterise the blocks the check
  accepts and what the ordered list then guarantees: distinct txids, ascending indexes, and the
  coinbase transaction at index 0 and nowhere else.
\<close>

record bitcoin_prevout =
  prevout_valueSats :: int
  prevout_scriptPubKeyHex :: string
  prevout_confirmed :: bool
  prevout_blockHeight :: "int option"

record bitcoin_input =
  in_txid :: "string option"
  in_vout :: "nat option"
  in_coinbase :: "string option"
  in_scriptSigHex :: string
  in_sequence :: int
  in_witness :: "string list"
  in_prevout :: "bitcoin_prevout option"

record bitcoin_output =
  out_n :: nat
  out_valueSats :: int
  out_scriptPubKeyHex :: string

record bitcoin_transaction =
  tx_txid :: string
  tx_wtxid :: string
  tx_version :: int
  tx_locktime :: int
  tx_inputs :: "bitcoin_input list"
  tx_outputs :: "bitcoin_output list"

record bitcoin_block =
  blk_hash :: string
  blk_previousBlockHash :: "string option"
  blk_height :: int
  blk_time :: int
  blk_medianTime :: int
  blk_transactions :: "bitcoin_transaction list"

section \<open>Block order\<close>

text \<open>\<open>transaction.inputs.some((input) => input.coinbase)\<close>: an empty string is falsy.\<close>

definition has_coinbase :: "bitcoin_transaction \<Rightarrow> bool" where
  "has_coinbase t = list_ex (\<lambda>i. case in_coinbase i of None \<Rightarrow> False | Some c \<Rightarrow> c \<noteq> []) (tx_inputs t)"

type_synonym ordered_transaction = "nat \<times> bitcoin_transaction"

text \<open>The callback of \<open>block.transactions.map\<close>, with the set of txids it has seen.\<close>

fun order_transactions ::
  "string list \<Rightarrow> nat \<Rightarrow> bitcoin_transaction list \<Rightarrow> ordered_transaction list result" where
  "order_transactions seen i [] = Inr []"
| "order_transactions seen i (t # ts) =
     (if tx_txid t \<in> set seen
      then Inl (PlainError (''duplicate txid in block: '' @ tx_txid t))
      else if i = 0 \<and> \<not> has_coinbase t
      then Inl (PlainError ''first transaction must be coinbase'')
      else if i > 0 \<and> has_coinbase t
      then Inl (PlainError ''coinbase transaction must be first'')
      else bindE (order_transactions (tx_txid t # seen) (Suc i) ts) (\<lambda>rest. Inr ((i, t) # rest)))"

definition orderedBlockTransactions :: "bitcoin_block \<Rightarrow> ordered_transaction list result" where
  "orderedBlockTransactions block = order_transactions [] 0 (blk_transactions block)"

subsection \<open>What the check accepts\<close>

definition coinbase_first :: "bitcoin_transaction list \<Rightarrow> bool" where
  "coinbase_first ts =
     (case ts of [] \<Rightarrow> True | t # rest \<Rightarrow> has_coinbase t \<and> list_all (\<lambda>u. \<not> has_coinbase u) rest)"

lemma order_transactions_tail:
  "0 < i \<Longrightarrow> order_transactions seen i ts = Inr ots \<longleftrightarrow>
     distinct (map tx_txid ts) \<and> set (map tx_txid ts) \<inter> set seen = {} \<and>
     list_all (\<lambda>u. \<not> has_coinbase u) ts \<and> ots = zip [i..<i + length ts] ts"
proof (induction ts arbitrary: seen i ots)
  case (Cons t ts)
  have upt: "[i..<i + length (t # ts)] = i # [Suc i..<Suc i + length ts]"
    by (simp add: upt_rec)
  show ?case
    using Cons.IH [of "Suc i" "tx_txid t # seen"] Cons.prems
    unfolding upt by auto
qed auto

lemma orderedBlockTransactions_iff:
  "orderedBlockTransactions block = Inr ots \<longleftrightarrow>
     distinct (map tx_txid (blk_transactions block)) \<and> coinbase_first (blk_transactions block) \<and>
     ots = zip [0..<length (blk_transactions block)] (blk_transactions block)"
proof (cases "blk_transactions block")
  case Nil
  then show ?thesis by (simp add: orderedBlockTransactions_def coinbase_first_def) auto
next
  case (Cons t ts)
  have upt: "[0..<length (t # ts)] = 0 # [Suc 0..<Suc 0 + length ts]"
    by (simp add: upt_rec del: upt_Suc)
  show ?thesis
    using order_transactions_tail [of "Suc 0" "[tx_txid t]" ts]
    unfolding orderedBlockTransactions_def Cons coinbase_first_def upt by auto
qed

lemma orderedBlockTransactions_snd:
  "orderedBlockTransactions block = Inr ots \<Longrightarrow> map snd ots = blk_transactions block"
  by (simp add: orderedBlockTransactions_iff)

lemma orderedBlockTransactions_fst:
  "orderedBlockTransactions block = Inr ots \<Longrightarrow> map fst ots = [0..<length ots]"
  by (simp add: orderedBlockTransactions_iff)

lemma orderedBlockTransactions_distinct:
  "orderedBlockTransactions block = Inr ots \<Longrightarrow> distinct (map (tx_txid \<circ> snd) ots)"
  by (metis orderedBlockTransactions_iff orderedBlockTransactions_snd map_map)

lemma orderedBlockTransactions_nth:
  "orderedBlockTransactions block = Inr ots \<Longrightarrow> (i, t) \<in> set ots \<Longrightarrow>
     i < length (blk_transactions block) \<and> blk_transactions block ! i = t"
  by (auto simp: orderedBlockTransactions_iff set_zip)

text \<open>
  \<open>orderedBlockTransactions\<close> accepts a block exactly when its txids are distinct and, if it has
  any transaction, the first one and no other is a coinbase transaction; the result pairs every
  transaction with its index, in order.  Every other block is refused with an error.
\<close>

theorem orderedBlockTransactions_accepts:
  "orderedBlockTransactions block = Inr ots \<longleftrightarrow>
     distinct (map tx_txid (blk_transactions block)) \<and> coinbase_first (blk_transactions block) \<and>
     ots = zip [0..<length (blk_transactions block)] (blk_transactions block)"
  by (rule orderedBlockTransactions_iff)

end
