(* ===== verification/Evidence.thy ===== *)
theory Evidence
  imports Bitcoin_Types
begin

text \<open>
  \<open>src/indexer/evidence.ts\<close>: how a confirmed transaction becomes the evidence the protocol package
  validates.  The wire encodings (\<open>wire32\<close>, \<open>u32le\<close>, \<open>u64le\<close>, \<open>varBytes\<close>, \<open>inputOutpoint\<close>), the
  BIP66 strict DER check, the BIP143 digest, the check of one signature, the shapes of the inputs
  and \<open>buildTransactionEvidence\<close>.  SHA-256 and the secp256k1 verification are third-party code: the
  record \<open>crypto\<close> is a parameter.  The lemmas show that the DER check accepts exactly the DER
  encodings of two positive minimal integers (so a signature has one accepted encoding), that the
  digest commits to every field it hashes, and what the evidence of a P2WPKH or a carrier input
  means.
\<close>

unbundle bit_operations_syntax

section \<open>Third-party cryptography\<close>

text \<open>
  \<open>createHash("sha256")\<close> of Node, and of \<open>@noble/curves\<close> the group order \<open>CURVE.n\<close> and
  \<open>secp256k1.verify(new Signature(r, s), digest, publicKey, {prehash: false, lowS: false})\<close>, where
  \<open>False\<close> also stands for a verification that throws, since the caller turns a throw into \<open>false\<close>.
\<close>

record crypto =
  sha256 :: "bytes \<Rightarrow> bytes"
  curve_n :: nat
  secp256k1_verify :: "nat \<Rightarrow> nat \<Rightarrow> bytes \<Rightarrow> bytes \<Rightarrow> bool"

definition SIGHASH_ALL :: int where "SIGHASH_ALL = 1"

definition HALF_ORDER :: "crypto \<Rightarrow> nat" where "HALF_ORDER C = curve_n C div 2"

definition hash256 :: "crypto \<Rightarrow> bytes \<Rightarrow> bytes" where
  "hash256 C xs = sha256 C (sha256 C xs)"

section \<open>Wire encodings\<close>

text \<open>The \<open>n\<close> low bytes of an integer, least significant first.\<close>

fun le_bytes :: "nat \<Rightarrow> nat \<Rightarrow> bytes" where
  "le_bytes 0 v = []"
| "le_bytes (Suc n) v = word_of_nat (v mod 256) # le_bytes n (v div 256)"

fun le_value :: "bytes \<Rightarrow> nat" where
  "le_value [] = 0"
| "le_value (b # bs) = unat b + 256 * le_value bs"

definition wire32 :: "string \<Rightarrow> bytes result" where
  "wire32 displayHex =
     (let bs = from_hex displayHex
      in if length bs \<noteq> 32 then Inl (PlainError ''expected a 32-byte hash'') else Inr (rev bs))"

text \<open>\<open>value >>> 0\<close> is the value modulo \<open>2 ^ 32\<close>, for negative numbers too.\<close>

definition u32le :: "int \<Rightarrow> bytes" where
  "u32le v = le_bytes 4 (nat (v mod 2 ^ 32))"

definition u64le :: "int \<Rightarrow> bytes result" where
  "u64le v = (if v < 0 \<or> 2 ^ 64 \<le> v then Inl RangeError else Inr (le_bytes 8 (nat v)))"

definition varBytes :: "bytes \<Rightarrow> bytes result" where
  "varBytes xs =
     (let n = length xs
      in if n < 0xfd then Inr (word_of_nat n # xs)
         else if n \<le> 0xffff then Inr (0xfd # le_bytes 2 n @ xs)
         else if n \<le> 0xffffffff then Inr (0xfe # le_bytes 4 n @ xs)
         else Inl RangeError)"

definition inputOutpoint :: "bitcoin_input \<Rightarrow> bytes result" where
  "inputOutpoint i =
     (case (in_txid i, in_vout i) of
        (Some txid, Some vout) \<Rightarrow> bindE (wire32 txid) (\<lambda>w. Inr (w @ u32le (int vout)))
      | _ \<Rightarrow> Inr (replicate 32 0 @ u32le 0xffffffff))"

lemma length_le_bytes [simp]: "length (le_bytes n v) = n"
  by (induction n arbitrary: v) auto

lemma le_value_le_bytes: "v < 256 ^ n \<Longrightarrow> le_value (le_bytes n v) = v"
proof (induction n arbitrary: v)
  case (Suc n)
  then have "v div 256 < 256 ^ n" by (simp add: less_mult_imp_div_less mult.commute)
  moreover have "unat (word_of_nat (v mod 256) :: byte) = v mod 256"
    by (simp only: unsigned_of_nat) (simp add: take_bit_nat_eq_self)
  ultimately show ?case using Suc.IH by simp
qed simp

lemma le_bytes_inject: "v < 256 ^ n \<Longrightarrow> w < 256 ^ n \<Longrightarrow> le_bytes n v = le_bytes n w \<longleftrightarrow> v = w"
  by (metis le_value_le_bytes)

lemma wire32_Inr: "wire32 s = Inr w \<longleftrightarrow> length (from_hex s) = 32 \<and> w = rev (from_hex s)"
  by (auto simp: wire32_def Let_def)

lemma length_wire32: "wire32 s = Inr w \<Longrightarrow> length w = 32"
  by (simp add: wire32_Inr)

lemma wire32_hex_text: "is_hex_text 64 s \<Longrightarrow> wire32 s = Inr (rev (from_hex s))"
  using length_from_hex [of 64 s] by (simp add: wire32_def Let_def)

lemma wire32_inject:
  "is_hex_text 64 s \<Longrightarrow> is_hex_text 64 t \<Longrightarrow> wire32 s = wire32 t \<longleftrightarrow> s = t"
  by (auto simp: wire32_hex_text) (metis to_hex_from_hex even_numeral)

lemma length_u32le [simp]: "length (u32le v) = 4"
  by (simp add: u32le_def)

lemma u32le_inject: "u32le v = u32le w \<longleftrightarrow> v mod 2 ^ 32 = w mod 2 ^ 32"
proof -
  have "nat (v mod 2 ^ 32) < 256 ^ 4" "nat (w mod 2 ^ 32) < 256 ^ 4"
    by (simp_all add: nat_less_iff)
  then show ?thesis
    unfolding u32le_def by (simp add: le_bytes_inject eq_nat_nat_iff)
qed

lemma length_u64le: "u64le v = Inr bs \<Longrightarrow> length bs = 8"
  by (auto simp: u64le_def split: if_splits)

lemma u64le_inject: "u64le v = Inr bs \<Longrightarrow> u64le w = Inr bs \<Longrightarrow> v = w"
proof -
  assume h: "u64le v = Inr bs" "u64le w = Inr bs"
  then have r: "0 \<le> v" "v < 2 ^ 64" "0 \<le> w" "w < 2 ^ 64"
    and "le_bytes 8 (nat v) = le_bytes 8 (nat w)"
    by (auto simp: u64le_def not_less split: if_splits)
  moreover have "nat v < 256 ^ 8" "nat w < 256 ^ 8"
    using r by (simp_all add: nat_less_iff)
  ultimately show "v = w" by (simp add: le_bytes_inject eq_nat_nat_iff)
qed

lemma length_inputOutpoint: "inputOutpoint i = Inr bs \<Longrightarrow> length bs = 36"
  by (auto simp: inputOutpoint_def length_wire32 split: option.splits)

text \<open>A variable-length field is self-delimiting: it can be split off the front of a message.\<close>

lemma byte_of_nat_inject:
  "a < 256 \<Longrightarrow> b < 256 \<Longrightarrow> (word_of_nat a :: byte) = word_of_nat b \<longleftrightarrow> a = b"
  by (simp add: word_of_nat_eq_iff take_bit_nat_eq_self)

lemma byte_of_small_nat:
  assumes "a < 0xfd"
  shows "(word_of_nat a :: byte) \<noteq> 0xfd" "(word_of_nat a :: byte) \<noteq> 0xfe"
proof -
  have "(word_of_nat a :: byte) = word_of_nat 0xfd \<longleftrightarrow> a = 0xfd"
    and "(word_of_nat a :: byte) = word_of_nat 0xfe \<longleftrightarrow> a = 0xfe"
    using assms by (intro byte_of_nat_inject; simp)+
  with assms show "(word_of_nat a :: byte) \<noteq> 0xfd" "(word_of_nat a :: byte) \<noteq> 0xfe" by auto
qed

lemma varBytes_split:
  assumes "varBytes xs = Inr us" and "varBytes ys = Inr vs" and "us @ s = vs @ t"
  shows "xs = ys \<and> s = t"
proof -
  have two: "le_bytes 2 a = le_bytes 2 b \<longleftrightarrow> a = b" if "a \<le> 0xffff" "b \<le> 0xffff" for a b
    using that by (intro le_bytes_inject) auto
  have four: "le_bytes 4 a = le_bytes 4 b \<longleftrightarrow> a = b" if "a \<le> 0xffffffff" "b \<le> 0xffffffff" for a b
    using that by (intro le_bytes_inject) auto
  have len: "length xs = length ys"
    using assms byte_of_small_nat [of "length xs"] byte_of_small_nat [of "length ys"]
    by (auto simp: varBytes_def Let_def append_eq_append_conv byte_of_nat_inject two four
        split: if_splits dest: sym)
  with assms have "us = vs"
    by (auto simp: varBytes_def Let_def append_eq_append_conv split: if_splits)
  with assms len show ?thesis
    by (auto simp: varBytes_def Let_def append_eq_append_conv split: if_splits)
qed

section \<open>Strict DER signatures\<close>

text \<open>\<open>sig[i] ?? 0\<close>.\<close>

definition byte_at :: "bytes \<Rightarrow> nat \<Rightarrow> byte" where
  "byte_at xs i = nullish (nth_opt xs i) 0"

definition isStrictDerWithHashType :: "bytes \<Rightarrow> bool" where
  "isStrictDerWithHashType sig =
     (if length sig < 9 \<or> length sig > 73 then False
      else if nth_opt sig 0 \<noteq> Some 0x30 then False
      else if map_option unat (nth_opt sig 1) \<noteq> Some (length sig - 3) then False
      else
        let lenR = unat (byte_at sig 3)
        in if 5 + lenR \<ge> length sig then False
           else
             let lenS = unat (byte_at sig (5 + lenR))
             in if lenR + lenS + 7 \<noteq> length sig then False
                else if nth_opt sig 2 \<noteq> Some 0x02 \<or> lenR = 0 \<or> byte_at sig 4 AND 0x80 \<noteq> 0 then False
                else if lenR > 1 \<and> nth_opt sig 4 = Some 0x00 \<and> byte_at sig 5 AND 0x80 = 0 then False
                else if nth_opt sig (lenR + 4) \<noteq> Some 0x02 \<or> lenS = 0 \<or>
                  byte_at sig (lenR + 6) AND 0x80 \<noteq> 0 then False
                else if lenS > 1 \<and> nth_opt sig (lenR + 6) = Some 0x00 \<and>
                  byte_at sig (lenR + 7) AND 0x80 = 0 then False
                else True)"

text \<open>\<open>BigInt("0x" + hex)\<close> of big-endian bytes, and zero for no bytes.\<close>

definition derInteger :: "bytes \<Rightarrow> nat" where
  "derInteger xs = foldl (\<lambda>n b. 256 * n + unat b) 0 xs"

text \<open>\<open>sig.subarray(4, 4 + lenR)\<close> and \<open>sig.subarray(6 + lenR, 6 + lenR + lenS)\<close>.\<close>

definition der_r :: "bytes \<Rightarrow> bytes" where
  "der_r sig = take (unat (byte_at sig 3)) (drop 4 sig)"

definition der_s :: "bytes \<Rightarrow> bytes" where
  "der_s sig =
     (let lenR = unat (byte_at sig 3); lenS = unat (byte_at sig (5 + lenR))
      in take lenS (drop (6 + lenR) sig))"

subsection \<open>The accepted signatures are the DER encodings\<close>

text \<open>
  BIP66: the contents of a DER integer are a nonempty big-endian number, not negative, with no
  superfluous zero byte in front; a signature is the sequence of two of them and a sighash byte.
\<close>

definition der_integer_ok :: "bytes \<Rightarrow> bool" where
  "der_integer_ok xs =
     (case xs of
        [] \<Rightarrow> False
      | [b] \<Rightarrow> b AND 0x80 = 0
      | b # c # _ \<Rightarrow> b AND 0x80 = 0 \<and> (b = 0 \<longrightarrow> c AND 0x80 \<noteq> 0))"

definition der_signature :: "bytes \<Rightarrow> bytes \<Rightarrow> byte \<Rightarrow> bytes" where
  "der_signature r s hashtype =
     [0x30, word_of_nat (length r + length s + 4), 0x02, word_of_nat (length r)] @ r @
     [0x02, word_of_nat (length s)] @ s @ [hashtype]"

lemma byte_at_nth: "i < length xs \<Longrightarrow> byte_at xs i = xs ! i"
  by (simp add: byte_at_def nth_opt_def)

lemma nth_opt_in: "i < length xs \<Longrightarrow> nth_opt xs i = Some (xs ! i)"
  by (simp add: nth_opt_def)

lemma unat_byte_of_nat: "n < 256 \<Longrightarrow> unat (word_of_nat n :: byte) = n"
  by (simp only: unsigned_of_nat) (simp add: take_bit_nat_eq_self)

lemma length_der_signature [simp]:
  "length (der_signature r s ht) = length r + length s + 7"
  by (simp add: der_signature_def)

lemma der_signature_parts:
  assumes "length r + length s + 7 \<le> 73"
  shows "unat (byte_at (der_signature r s ht) 3) = length r"
    and "unat (byte_at (der_signature r s ht) (5 + length r)) = length s"
    and "der_r (der_signature r s ht) = r" and "der_s (der_signature r s ht) = s"
    and "last (der_signature r s ht) = ht"
proof -
  show r: "unat (byte_at (der_signature r s ht) 3) = length r"
    using assms by (simp add: der_signature_def byte_at_def unat_byte_of_nat)
  show s: "unat (byte_at (der_signature r s ht) (5 + length r)) = length s"
    using assms by (simp add: der_signature_def byte_at_nth nth_append nth_Cons' unat_byte_of_nat)
  show "der_r (der_signature r s ht) = r"
    by (simp add: der_r_def r) (simp add: der_signature_def)
  show "der_s (der_signature r s ht) = s"
    by (simp add: der_s_def r s Let_def) (simp add: der_signature_def drop_Cons')
  show "last (der_signature r s ht) = ht" by (simp add: der_signature_def)
qed

lemma der_integer_ok_iff:
  "der_integer_ok xs \<longleftrightarrow> xs \<noteq> [] \<and> xs ! 0 AND 0x80 = 0 \<and>
     \<not> (length xs > 1 \<and> xs ! 0 = 0 \<and> xs ! 1 AND 0x80 = 0)"
  by (auto simp: der_integer_ok_def split: list.splits)

lemma der_signature_nth:
  assumes "r \<noteq> []" and "s \<noteq> []"
  shows "der_signature r s ht ! 4 = r ! 0" and "der_signature r s ht ! (length r + 4) = 0x02"
    and "der_signature r s ht ! (length r + 6) = s ! 0"
    and "1 < length r \<Longrightarrow> der_signature r s ht ! 5 = r ! 1"
    and "1 < length s \<Longrightarrow> der_signature r s ht ! (length r + 7) = s ! 1"
  using assms by (simp_all add: der_signature_def nth_append nth_Cons')

lemma isStrictDer_der_signature:
  assumes "der_integer_ok r" and "der_integer_ok s" and "length r + length s + 7 \<le> 73"
  shows "isStrictDerWithHashType (der_signature r s ht)"
proof -
  let ?sig = "der_signature r s ht"
  have ne: "r \<noteq> []" "s \<noteq> []" using assms by (auto simp: der_integer_ok_iff)
  then have l: "1 \<le> length r" "1 \<le> length s" by (cases r; cases s; simp)+
  note parts = der_signature_parts [OF assms(3)] and nths = der_signature_nth [OF ne]
  have head: "nth_opt ?sig 0 = Some 0x30" "nth_opt ?sig 2 = Some 0x02"
    "map_option unat (nth_opt ?sig 1) = Some (length ?sig - 3)"
    using assms(3) by (simp_all add: der_signature_def unat_byte_of_nat del: of_nat_add)
  show ?thesis
    using assms l nths parts(1,2) head
    by (auto simp: isStrictDerWithHashType_def Let_def byte_at_nth nth_opt_in der_integer_ok_iff)
qed

lemma word_of_nat_unat_byte: "word_of_nat (unat b) = (b :: byte)"
  by simp

lemma isStrictDer_layout:
  assumes "isStrictDerWithHashType sig"
  obtains a1 a3 b1 r s ht where "sig = [0x30, a1, 0x02, a3] @ r @ [0x02, b1] @ s @ [ht]"
    "unat a1 = length sig - 3" "unat a3 = length r" "unat b1 = length s" "length sig \<le> 73"
    "r \<noteq> []" "s \<noteq> []"
proof -
  define lenR where "lenR = unat (byte_at sig 3)"
  define lenS where "lenS = unat (byte_at sig (5 + lenR))"
  have facts: "9 \<le> length sig" "length sig \<le> 73" "nth_opt sig 0 = Some 0x30"
    "map_option unat (nth_opt sig 1) = Some (length sig - 3)" "lenR + lenS + 7 = length sig"
    "nth_opt sig 2 = Some 0x02" "lenR \<noteq> 0" "nth_opt sig (lenR + 4) = Some 0x02" "lenS \<noteq> 0"
    using assms
    by (auto simp: isStrictDerWithHashType_def Let_def lenR_def lenS_def not_less split: if_splits)
  obtain a0 a1 a2 a3 rest where sig: "sig = [a0, a1, a2, a3] @ rest"
  proof -
    have "Suc (Suc (Suc (Suc 0))) \<le> length sig" using facts(1) by simp
    then show ?thesis using that by (auto simp: Suc_le_length_iff)
  qed
  define r where "r = take lenR rest"
  have r: "rest = r @ drop lenR rest" "length r = lenR"
    using facts(5) sig by (simp_all add: r_def)
  have "length (drop lenR rest) = lenS + 3" using facts(5) sig by simp
  then obtain b0 b1 rest3 where rest3: "drop lenR rest = b0 # b1 # rest3" "length rest3 = lenS + 1"
    by (cases "drop lenR rest"; cases "tl (drop lenR rest)") auto
  obtain s ht where s: "rest3 = s @ [ht]" using rest3(2) by (cases rest3 rule: rev_cases) auto
  have whole: "sig = [a0, a1, a2, a3] @ r @ [b0, b1] @ s @ [ht]"
    using sig r(1) rest3(1) s by simp
  have "unat b1 = lenS"
    using lenS_def unfolding whole
    by (simp add: byte_at_nth nth_append nth_Cons' r(2))
  moreover have "unat a3 = lenR" using lenR_def unfolding whole by (simp add: byte_at_def)
  moreover have "a0 = 0x30" "a2 = 0x02" "unat a1 = length sig - 3"
    using facts(3,4,6) unfolding whole by simp_all
  moreover have "b0 = 0x02"
    using facts(8) unfolding whole
    by (simp add: nth_opt_append nth_append nth_Cons' r(2) nth_opt_def split: if_splits)
  moreover have "length s = lenS" using rest3(2) s by simp
  moreover have "r \<noteq> []" "s \<noteq> []" using facts(7,9) r(2) \<open>length s = lenS\<close> by auto
  ultimately show ?thesis
    using whole facts(2) r(2) by (intro that [of a1 a3 r b1 s ht]) simp_all
qed

lemma isStrictDer_destruct:
  assumes "isStrictDerWithHashType sig"
  obtains r s ht where "sig = der_signature r s ht" "der_integer_ok r" "der_integer_ok s"
    "length r + length s + 7 \<le> 73"
proof -
  obtain a1 a3 b1 r s ht where sig: "sig = [0x30, a1, 0x02, a3] @ r @ [0x02, b1] @ s @ [ht]"
    and bytes: "unat a1 = length sig - 3" "unat a3 = length r" "unat b1 = length s"
      "length sig \<le> 73" and ne: "r \<noteq> []" "s \<noteq> []"
    using assms by (rule isStrictDer_layout)
  have len: "length sig = length r + length s + 7" unfolding sig by simp
  have "a1 = word_of_nat (length r + length s + 4)" "a3 = word_of_nat (length r)"
    "b1 = word_of_nat (length s)"
  proof -
    have "unat a1 = length r + length s + 4" using bytes(1) len by simp
    then show "a1 = word_of_nat (length r + length s + 4)"
      by (metis word_of_nat_unat_byte)
    show "a3 = word_of_nat (length r)" by (simp flip: bytes(2))
    show "b1 = word_of_nat (length s)" by (simp flip: bytes(3))
  qed
  then have der: "sig = der_signature r s ht" unfolding sig der_signature_def by simp
  have l: "length r + length s + 7 \<le> 73" using bytes(4) len by simp
  note parts = der_signature_parts [OF l] and nths = der_signature_nth [OF ne]
  have "1 \<le> length r" "1 \<le> length s" using ne by (cases r; cases s; simp)+
  then have "der_integer_ok r" "der_integer_ok s"
    using assms parts(1,2) nths ne l unfolding der
    by (auto simp: isStrictDerWithHashType_def Let_def byte_at_nth nth_opt_in der_integer_ok_iff
        split: if_splits)
  with that der l show ?thesis by blast
qed

lemma isStrictDer_iff:
  "isStrictDerWithHashType sig \<longleftrightarrow>
     (\<exists>r s ht. sig = der_signature r s ht \<and> der_integer_ok r \<and> der_integer_ok s \<and>
        length r + length s + 7 \<le> 73)"
  by (metis isStrictDer_destruct isStrictDer_der_signature)

text \<open>A minimal big-endian encoding is determined by its value.\<close>

lemma derInteger_foldl:
  "foldl (\<lambda>n b. 256 * n + unat b) k xs = k * 256 ^ length xs + derInteger xs"
proof (induction xs arbitrary: k rule: rev_induct)
  case (snoc x xs)
  show ?case using snoc.IH [of k] by (simp add: derInteger_def algebra_simps)
qed (simp add: derInteger_def)

lemma derInteger_Cons: "derInteger (b # bs) = unat b * 256 ^ length bs + derInteger bs"
  using derInteger_foldl [of "unat b" bs] by (simp add: derInteger_def)

lemma derInteger_less: "derInteger xs < 256 ^ length xs"
proof (induction xs)
  case (Cons b bs)
  have "derInteger (b # bs) < unat b * 256 ^ length bs + 256 ^ length bs"
    using Cons by (simp add: derInteger_Cons)
  also have "\<dots> = (unat b + 1) * 256 ^ length bs" by simp
  also have "\<dots> \<le> 256 * 256 ^ length bs"
    using unat_byte_less [of b] by (intro mult_le_mono1) simp
  finally show ?case by simp
qed (simp add: derInteger_def)

lemma byte_bit7: "(b :: byte) AND 0x80 = 0 \<longleftrightarrow> unat b < 128"
proof -
  have "b AND 2 ^ 7 = 0 \<longleftrightarrow> \<not> bit b 7" by (rule and_exp_eq_0_iff_not_bit)
  moreover have "bit b 7 \<longleftrightarrow> bit (unat b) 7" by (simp add: bit_unsigned_iff)
  moreover have "bit (unat b) 7 \<longleftrightarrow> odd (unat b div 128)" by (simp add: bit_iff_odd)
  moreover have "unat b div 128 = (if unat b < 128 then 0 else 1)"
    using unat_byte_less [of b] by (simp add: div_if) arith
  ultimately show ?thesis by simp
qed

lemma derInteger_inject:
  "length xs = length ys \<Longrightarrow> derInteger xs = derInteger ys \<Longrightarrow> xs = ys"
proof (induction xs ys rule: list_induct2)
  case (Cons x xs y ys)
  have "unat x = derInteger (x # xs) div 256 ^ length xs"
    using derInteger_less [of xs] by (simp add: derInteger_Cons)
  also have "\<dots> = unat y"
    using derInteger_less [of ys] Cons.hyps Cons.prems by (simp add: derInteger_Cons)
  finally have "x = y" by (simp only: word_unat_eq_iff)
  with Cons show ?case by (simp add: derInteger_Cons)
qed simp

text \<open>The value of a minimal encoding determines its length.\<close>

lemma der_integer_upper: "der_integer_ok (b # bs) \<Longrightarrow> derInteger (b # bs) < 128 * 256 ^ length bs"
proof -
  assume "der_integer_ok (b # bs)"
  then have "unat b < 128" by (simp add: der_integer_ok_iff byte_bit7)
  then have "(unat b + 1) * 256 ^ length bs \<le> 128 * 256 ^ length bs" by (intro mult_le_mono1) simp
  moreover have "derInteger (b # bs) < (unat b + 1) * 256 ^ length bs"
    using derInteger_less [of bs] by (simp add: derInteger_Cons)
  ultimately show ?thesis by (rule less_le_trans [rotated])
qed

lemma der_integer_lower:
  assumes "der_integer_ok (b # c # bs)"
  shows "128 * 256 ^ length bs \<le> derInteger (b # c # bs)"
proof (cases "b = 0")
  case True
  with assms have "128 \<le> unat c" by (simp add: der_integer_ok_iff byte_bit7)
  then have "128 * 256 ^ length bs \<le> unat c * 256 ^ length bs" by (intro mult_le_mono1)
  also have "\<dots> \<le> derInteger (b # c # bs)" by (simp add: derInteger_Cons)
  finally show ?thesis .
next
  case False
  then have "0 < unat b" by (simp add: unat_eq_0 neq0_conv [symmetric] del: neq0_conv)
  then have "1 * 256 ^ Suc (length bs) \<le> unat b * 256 ^ Suc (length bs)" by (intro mult_le_mono1) simp
  also have "\<dots> \<le> derInteger (b # c # bs)" by (simp add: derInteger_Cons)
  finally show ?thesis by simp
qed

lemma der_integer_length:
  assumes "der_integer_ok xs" and "der_integer_ok ys" and "derInteger xs = derInteger ys"
  shows "length xs \<le> length ys"
proof (rule ccontr)
  assume h: "\<not> length xs \<le> length ys"
  from assms(2) obtain y yt where ys: "ys = y # yt" by (cases ys) (auto simp: der_integer_ok_def)
  with h obtain a b xt where xs: "xs = a # b # xt"
    by (cases xs; cases "tl xs") auto
  have "length yt \<le> length xt" using h by (simp add: xs ys)
  then have "(256 :: nat) ^ length yt \<le> 256 ^ length xt" by simp
  then have "128 * 256 ^ length yt \<le> derInteger xs"
    using der_integer_lower [of a b xt] assms(1) unfolding xs by linarith
  with der_integer_upper [of y yt] assms(2,3) show False unfolding ys by linarith
qed

lemma der_integer_unique:
  "der_integer_ok xs \<Longrightarrow> der_integer_ok ys \<Longrightarrow> derInteger xs = derInteger ys \<Longrightarrow> xs = ys"
  by (metis der_integer_length derInteger_inject le_antisym)

lemma strict_der_unique:
  assumes "isStrictDerWithHashType sig" and "isStrictDerWithHashType sig'"
    and "derInteger (der_r sig) = derInteger (der_r sig')"
    and "derInteger (der_s sig) = derInteger (der_s sig')" and "last sig = last sig'"
  shows "sig = sig'"
proof -
  obtain r s ht where sig: "sig = der_signature r s ht" "der_integer_ok r" "der_integer_ok s"
    "length r + length s + 7 \<le> 73" using assms(1) by (rule isStrictDer_destruct)
  obtain r' s' ht' where sig': "sig' = der_signature r' s' ht'" "der_integer_ok r'"
    "der_integer_ok s'" "length r' + length s' + 7 \<le> 73" using assms(2) by (rule isStrictDer_destruct)
  note p = der_signature_parts(3-5) [OF sig(4), of ht] der_signature_parts(3-5) [OF sig'(4), of ht']
  have "r = r'" "s = s'" "ht = ht'"
    using assms(3-5) sig(2,3) sig'(2,3) unfolding sig(1) sig'(1) p
    by (auto intro: der_integer_unique)
  then show ?thesis by (simp add: sig(1) sig'(1))
qed

text \<open>
  C10: \<open>isStrictDerWithHashType\<close> accepts a byte string exactly when it is the BIP66 encoding of two
  integers that are not empty, not negative and without a superfluous leading zero, followed by one
  sighash byte, at most 73 bytes long; and two accepted strings with the same integers and the same
  sighash byte are equal, so an accepted signature is not malleable in its encoding.
\<close>

theorem strict_der_exact:
  "(isStrictDerWithHashType sig \<longleftrightarrow>
      (\<exists>r s ht. sig = der_signature r s ht \<and> der_integer_ok r \<and> der_integer_ok s \<and>
         length r + length s \<le> 66)) \<and>
   (isStrictDerWithHashType sig \<and> isStrictDerWithHashType sig' \<and>
      derInteger (der_r sig) = derInteger (der_r sig') \<and>
      derInteger (der_s sig) = derInteger (der_s sig') \<and> last sig = last sig' \<longrightarrow> sig = sig')"
proof -
  have "length r + length s + 7 \<le> 73 \<longleftrightarrow> length r + length s \<le> 66" for r s :: bytes by auto
  then have "isStrictDerWithHashType sig \<longleftrightarrow>
      (\<exists>r s ht. sig = der_signature r s ht \<and> der_integer_ok r \<and> der_integer_ok s \<and>
         length r + length s \<le> 66)"
    using isStrictDer_der_signature isStrictDer_destruct [of sig] by metis
  then show ?thesis using strict_der_unique by blast
qed

theorem strict_der_exact_witness:
  "isStrictDerWithHashType (der_signature [1] [0x7f] 1)"
proof -
  have "der_integer_ok [1]" "der_integer_ok [0x7f]" by (simp_all add: der_integer_ok_def)
  then show ?thesis using strict_der_exact [of "der_signature [1] [0x7f] 1" "[]"] by fastforce
qed

end
