(* ===== verification/Transaction_Evidence.thy ===== *)
theory Transaction_Evidence
  imports Evidence
begin

text \<open>
  The second half of \<open>src/indexer/evidence.ts\<close>: the BIP143 digest, the check of one signature, the
  recognition of P2WPKH and P2WSH inputs, and \<open>buildTransactionEvidence\<close>, whose result the protocol
  package validates.  The lemmas show what the digest commits to, what a verified signature means,
  which inputs have a valid shape, and that well-formed transactions always have evidence.
\<close>

section \<open>The BIP143 digest\<close>

record sighash_context =
  sc_transaction :: bitcoin_transaction
  sc_hashPrevouts :: bytes
  sc_hashSequence :: bytes
  sc_hashOutputs :: bytes

definition output_wire :: "bitcoin_output \<Rightarrow> bytes result" where
  "output_wire out =
     bindE (u64le (out_valueSats out)) (\<lambda>v.
     bindE (varBytes (from_hex (out_scriptPubKeyHex out))) (\<lambda>s. Inr (v @ s)))"

definition SighashContext :: "crypto \<Rightarrow> bitcoin_transaction \<Rightarrow> sighash_context result" where
  "SighashContext C t =
     bindE (mapE inputOutpoint (tx_inputs t)) (\<lambda>prevouts.
     bindE (mapE output_wire (tx_outputs t)) (\<lambda>outputs.
       Inr \<lparr>sc_transaction = t,
            sc_hashPrevouts = hash256 C (concat prevouts),
            sc_hashSequence = hash256 C (concat (map (u32le \<circ> in_sequence) (tx_inputs t))),
            sc_hashOutputs = hash256 C (concat outputs)\<rparr>))"

definition digest_preimage :: "sighash_context \<Rightarrow> nat \<Rightarrow> bytes \<Rightarrow> int \<Rightarrow> bytes result" where
  "digest_preimage sc index scriptCode amount =
     bindE (of_option (PlainError ''input index out of range'')
              (nth_opt (tx_inputs (sc_transaction sc)) index)) (\<lambda>i.
     bindE (inputOutpoint i) (\<lambda>outpoint.
     bindE (varBytes scriptCode) (\<lambda>code.
     bindE (u64le amount) (\<lambda>value.
       Inr (u32le (tx_version (sc_transaction sc)) @ sc_hashPrevouts sc @ sc_hashSequence sc @
            outpoint @ code @ value @ u32le (in_sequence i) @ sc_hashOutputs sc @
            u32le (tx_locktime (sc_transaction sc)) @ u32le SIGHASH_ALL)))))"

definition digest :: "crypto \<Rightarrow> sighash_context \<Rightarrow> nat \<Rightarrow> bytes \<Rightarrow> int \<Rightarrow> bytes result" where
  "digest C sc index scriptCode amount =
     bindE (digest_preimage sc index scriptCode amount) (\<lambda>p. Inr (hash256 C p))"

definition segwitV0Digest ::
  "crypto \<Rightarrow> bitcoin_transaction \<Rightarrow> nat \<Rightarrow> bytes \<Rightarrow> int \<Rightarrow> bytes result" where
  "segwitV0Digest C t index scriptCode amount =
     bindE (SighashContext C t) (\<lambda>sc. digest C sc index scriptCode amount)"

section \<open>One signature\<close>

record verified_signature =
  sig_publicKey :: bytes
  sig_sighashType :: int
  sig_cryptographicallyVerified :: bool
  sig_strictDer :: bool
  sig_lowS :: bool

text \<open>
  \<open>digest\<close> is the value of the thunk the code passes; a digest that throws leaves the signature
  unverified, since the call stands inside the \<open>try\<close>.
\<close>

definition checkSignature :: "crypto \<Rightarrow> bytes \<Rightarrow> bytes \<Rightarrow> bytes result \<Rightarrow> verified_signature" where
  "checkSignature C signature publicKey dg =
     (let sighashType = (if signature \<noteq> [] then int (unat (last signature)) else -1);
          strictDer = isStrictDerWithHashType signature;
          r = derInteger (der_r signature);
          s = derInteger (der_s signature)
      in \<lparr>sig_publicKey = publicKey,
          sig_sighashType = sighashType,
          sig_cryptographicallyVerified =
            (strictDer \<and> sighashType = SIGHASH_ALL \<and> length publicKey = 33 \<and>
             (case dg of Inl _ \<Rightarrow> False | Inr d \<Rightarrow> secp256k1_verify C r s d publicKey)),
          sig_strictDer = strictDer,
          sig_lowS = (strictDer \<and> s > 0 \<and> s \<le> HALF_ORDER C)\<rparr>)"

section \<open>The evidence of an input\<close>

definition isP2wpkh :: "bytes \<Rightarrow> bool" where
  "isP2wpkh script = (length script = 22 \<and> script ! 0 = 0x00 \<and> script ! 1 = 0x14)"

definition isP2wsh :: "bytes \<Rightarrow> bool" where
  "isP2wsh script = (length script = 34 \<and> script ! 0 = 0x00 \<and> script ! 1 = 0x20)"

definition isCarrierWitnessScript :: "bytes \<Rightarrow> bool" where
  "isCarrierWitnessScript script =
     (length script = 71 \<and> script ! 0 = 0x52 \<and> script ! 1 = 0x21 \<and> script ! 35 = 0x21 \<and>
      script ! 69 = 0x52 \<and> script ! 70 = 0xae)"

record input_evidence =
  ie_outpoint :: bytes
  ie_sequence :: int
  ie_prevoutValue :: int
  ie_prevoutScriptPubKey :: bytes
  ie_prevoutHeight :: "int option"
  ie_scriptSigEmpty :: bool
  ie_witnessShapeValid :: bool
  ie_witnessScript :: "bytes option"
  ie_revealedPublicKey :: "bytes option"
  ie_signatures :: "verified_signature list"

text \<open>The P2PKH script of the witness program, and the two keys of a carrier's witness script.\<close>

definition p2wpkh_script_code :: "bytes \<Rightarrow> bytes" where
  "p2wpkh_script_code prevoutScript = [0x76, 0xa9, 0x14] @ drop 2 prevoutScript @ [0x88, 0xac]"

definition carrier_key0 :: "bytes \<Rightarrow> bytes" where
  "carrier_key0 script = take 33 (drop 2 script)"

definition carrier_key1 :: "bytes \<Rightarrow> bytes" where
  "carrier_key1 script = take 33 (drop 36 script)"

definition carrier_signatures ::
  "crypto \<Rightarrow> sighash_context \<Rightarrow> nat \<Rightarrow> int \<Rightarrow> bytes list \<Rightarrow> verified_signature list" where
  "carrier_signatures C sc index amount witness =
     (if isCarrierWitnessScript (witness ! 3)
      then let dg = digest C sc index (witness ! 3) amount
           in [checkSignature C (witness ! 1) (carrier_key0 (witness ! 3)) dg,
               checkSignature C (witness ! 2) (carrier_key1 (witness ! 3)) dg]
      else [])"

definition inputEvidence ::
  "crypto \<Rightarrow> bitcoin_transaction \<Rightarrow> sighash_context \<Rightarrow> nat \<Rightarrow> input_evidence result" where
  "inputEvidence C t sc index =
     bindE (of_option TypeError (nth_opt (tx_inputs t) index)) (\<lambda>i.
       let prevoutScript =
             (case in_prevout i of None \<Rightarrow> [] | Some p \<Rightarrow> from_hex (prevout_scriptPubKeyHex p));
           amount = (case in_prevout i of None \<Rightarrow> 0 | Some p \<Rightarrow> prevout_valueSats p);
           witness = map from_hex (in_witness i)
       in bindE (inputOutpoint i) (\<lambda>outpoint.
       let base =
             \<lparr>ie_outpoint = outpoint,
              ie_sequence = in_sequence i,
              ie_prevoutValue = amount,
              ie_prevoutScriptPubKey = prevoutScript,
              ie_prevoutHeight =
                (case in_prevout i of None \<Rightarrow> None | Some p \<Rightarrow> prevout_blockHeight p),
              ie_scriptSigEmpty = (in_scriptSigHex i = []),
              ie_witnessShapeValid = False,
              ie_witnessScript = None,
              ie_revealedPublicKey = None,
              ie_signatures = []\<rparr>
       in if isP2wpkh prevoutScript \<and> length witness = 2
          then Inr (base
            \<lparr>ie_witnessShapeValid := True,
             ie_revealedPublicKey := Some (witness ! 1),
             ie_signatures :=
               [checkSignature C (witness ! 0) (witness ! 1)
                  (digest C sc index (p2wpkh_script_code prevoutScript) amount)]\<rparr>)
          else if isP2wsh prevoutScript \<and> length witness = 4 \<and> length (witness ! 0) = 0
          then Inr (base
            \<lparr>ie_witnessShapeValid := True,
             ie_witnessScript := Some (witness ! 3),
             ie_signatures := carrier_signatures C sc index amount witness\<rparr>)
          else Inr (base
            \<lparr>ie_witnessScript :=
               (if isP2wsh prevoutScript \<and> length witness > 0 then last_opt witness else None)\<rparr>)))"

record transaction_evidence =
  te_txidWire :: bytes
  te_version :: int
  te_lockTime :: int
  te_height :: int
  te_inputs :: "input_evidence list"
  te_outputs :: "(int \<times> bytes) list"
  te_relativeLocktimeMature :: bool

definition buildTransactionEvidence ::
  "crypto \<Rightarrow> bitcoin_transaction \<Rightarrow> int \<Rightarrow> transaction_evidence result" where
  "buildTransactionEvidence C t height =
     bindE (SighashContext C t) (\<lambda>sc.
     bindE (wire32 (tx_txid t)) (\<lambda>txid.
     bindE (mapE (inputEvidence C t sc) [0..<length (tx_inputs t)]) (\<lambda>inputs.
       Inr \<lparr>te_txidWire = txid,
            te_version = tx_version t,
            te_lockTime = tx_locktime t,
            te_height = height,
            te_inputs = inputs,
            te_outputs = map (\<lambda>out. (out_valueSats out, from_hex (out_scriptPubKeyHex out)))
                           (tx_outputs t),
            te_relativeLocktimeMature = (2 \<le> tx_version t)\<rparr>)))"

section \<open>What the digest commits to\<close>

lemma concat_fixed_inject:
  assumes "0 < n" and "\<And>x. x \<in> set xs \<union> set ys \<Longrightarrow> length x = n" and "concat xs = concat ys"
  shows "xs = ys"
  using assms(2,3)
proof (induction xs arbitrary: ys)
  case Nil
  then show ?case using \<open>0 < n\<close> by (cases ys) auto
next
  case (Cons x xs)
  then obtain y ys' where ys: "ys = y # ys'" using \<open>0 < n\<close> by (cases ys) auto
  with Cons.prems have "x = y" "concat xs = concat ys'"
    by (auto simp: append_eq_append_conv)
  with Cons ys show ?case by auto
qed

definition output_fields :: "bitcoin_output \<Rightarrow> int \<times> bytes" where
  "output_fields out = (out_valueSats out, from_hex (out_scriptPubKeyHex out))"

lemma output_wire_split:
  assumes "output_wire p = Inr us" and "output_wire q = Inr vs" and "us @ s = vs @ t"
  shows "output_fields p = output_fields q \<and> s = t"
proof -
  obtain pv pc qv qc where
    p: "u64le (out_valueSats p) = Inr pv" "varBytes (from_hex (out_scriptPubKeyHex p)) = Inr pc"
      "us = pv @ pc" and
    q: "u64le (out_valueSats q) = Inr qv" "varBytes (from_hex (out_scriptPubKeyHex q)) = Inr qc"
      "vs = qv @ qc"
    using assms(1,2) by (auto simp: output_wire_def)
  have "pv = qv" "pc @ s = qc @ t"
    using assms(3) p q length_u64le [OF p(1)] length_u64le [OF q(1)]
    by (auto simp: append_eq_append_conv)
  with p q show ?thesis
    using varBytes_split [OF p(2) q(2)] u64le_inject [of "out_valueSats p" pv "out_valueSats q"]
    by (simp add: output_fields_def)
qed

lemma output_wire_nonempty: "output_wire p \<noteq> Inr []"
  using length_u64le by (force simp: output_wire_def)

lemma outputs_wire_inject:
  "mapE output_wire ps = Inr us \<Longrightarrow> mapE output_wire qs = Inr vs \<Longrightarrow> concat us = concat vs \<Longrightarrow>
     map output_fields ps = map output_fields qs"
proof (induction ps arbitrary: qs us vs)
  case Nil
  then show ?case by (cases qs) (auto simp: output_wire_nonempty)
next
  case (Cons p ps)
  then obtain q qs' where qs: "qs = q # qs'"
    by (cases qs) (auto simp: output_wire_nonempty)
  with Cons.prems obtain u us' v vs' where w: "output_wire p = Inr u" "mapE output_wire ps = Inr us'"
    "us = u # us'" "output_wire q = Inr v" "mapE output_wire qs' = Inr vs'" "vs = v # vs'"
    by auto
  with Cons.prems have "u @ concat us' = v @ concat vs'" by simp
  from output_wire_split [OF w(1,4) this] Cons.IH [OF w(2,5)] qs show ?case by simp
qed

text \<open>
  The fields a BIP143 \<open>SIGHASH_ALL\<close> digest has to fix: the version and lock time, every input's
  outpoint and sequence number, every output, and of the signed input the outpoint, the script
  code, the amount and the sequence number.
\<close>

definition committed_fields ::
  "bitcoin_transaction \<Rightarrow> nat \<Rightarrow> bytes \<Rightarrow> int \<Rightarrow>
     (int \<times> int \<times> bytes result list \<times> int list \<times> (int \<times> bytes) list) \<times>
     bytes result \<times> int \<times> bytes \<times> int" where
  "committed_fields t index scriptCode amount =
     ((tx_version t mod 2 ^ 32, tx_locktime t mod 2 ^ 32, map inputOutpoint (tx_inputs t),
       map (\<lambda>i. in_sequence i mod 2 ^ 32) (tx_inputs t), map output_fields (tx_outputs t)),
      inputOutpoint (tx_inputs t ! index), in_sequence (tx_inputs t ! index) mod 2 ^ 32,
      scriptCode, amount)"

lemma mapE_Inr_map: "mapE f xs = Inr ys \<Longrightarrow> map f xs = map Inr ys"
  by (induction xs arbitrary: ys) auto

lemma outpoints_inject:
  assumes "mapE inputOutpoint is = Inr us" and "mapE inputOutpoint js = Inr vs"
    and "concat us = concat vs"
  shows "map inputOutpoint is = map inputOutpoint js"
proof -
  have "us = vs"
    using assms by (intro concat_fixed_inject [of 36 us vs])
      (auto dest!: mapE_Inr_set length_inputOutpoint)
  then show ?thesis using assms by (simp add: mapE_Inr_map)
qed

lemma sequences_inject:
  assumes "concat (map (u32le \<circ> in_sequence) is) = concat (map (u32le \<circ> in_sequence) js)"
  shows "map (\<lambda>i. in_sequence i mod 2 ^ 32) is = map (\<lambda>i. in_sequence i mod 2 ^ 32) js"
proof -
  have "map (u32le \<circ> in_sequence) is = map (u32le \<circ> in_sequence) js"
    using assms by (intro concat_fixed_inject [of 4]) auto
  then show ?thesis
  proof (induction "is" arbitrary: js)
    case (Cons i "is")
    then show ?case by (cases js) (auto simp: u32le_inject)
  qed simp
qed

lemma digest_preimage_inject:
  assumes p: "digest_preimage c k code a = Inr p" and q: "digest_preimage c' k' code' a' = Inr p"
    and len: "length (sc_hashPrevouts c) = length (sc_hashPrevouts c')"
      "length (sc_hashSequence c) = length (sc_hashSequence c')"
      "length (sc_hashOutputs c) = length (sc_hashOutputs c')"
  defines "i \<equiv> tx_inputs (sc_transaction c) ! k" and "i' \<equiv> tx_inputs (sc_transaction c') ! k'"
  shows "tx_version (sc_transaction c) mod 2 ^ 32 = tx_version (sc_transaction c') mod 2 ^ 32 \<and>
    tx_locktime (sc_transaction c) mod 2 ^ 32 = tx_locktime (sc_transaction c') mod 2 ^ 32 \<and>
    sc_hashPrevouts c = sc_hashPrevouts c' \<and> sc_hashSequence c = sc_hashSequence c' \<and>
    sc_hashOutputs c = sc_hashOutputs c' \<and> inputOutpoint i = inputOutpoint i' \<and>
    in_sequence i mod 2 ^ 32 = in_sequence i' mod 2 ^ 32 \<and> code = code' \<and> a = a'"
proof -
  obtain op w v where c: "inputOutpoint i = Inr op" "varBytes code = Inr w" "u64le a = Inr v"
    "p = u32le (tx_version (sc_transaction c)) @ sc_hashPrevouts c @ sc_hashSequence c @ op @ w @ v @
       u32le (in_sequence i) @ sc_hashOutputs c @ u32le (tx_locktime (sc_transaction c)) @
       u32le SIGHASH_ALL"
    using p by (auto simp: digest_preimage_def i_def nth_opt_eq_Some)
  obtain op' w' v' where c': "inputOutpoint i' = Inr op'" "varBytes code' = Inr w'"
    "u64le a' = Inr v'"
    "p = u32le (tx_version (sc_transaction c')) @ sc_hashPrevouts c' @ sc_hashSequence c' @ op' @ w' @
       v' @ u32le (in_sequence i') @ sc_hashOutputs c' @
       u32le (tx_locktime (sc_transaction c')) @ u32le SIGHASH_ALL"
    using q by (auto simp: digest_preimage_def i'_def nth_opt_eq_Some)
  have "length op = length op'" "length v = length v'"
    using c c' by (simp_all add: length_inputOutpoint length_u64le)
  then have front: "u32le (tx_version (sc_transaction c)) = u32le (tx_version (sc_transaction c'))"
      "sc_hashPrevouts c = sc_hashPrevouts c'" "sc_hashSequence c = sc_hashSequence c'" "op = op'"
    and rest: "w @ v @ u32le (in_sequence i) @ sc_hashOutputs c @
        u32le (tx_locktime (sc_transaction c)) @ u32le SIGHASH_ALL =
      w' @ v' @ u32le (in_sequence i') @ sc_hashOutputs c' @
        u32le (tx_locktime (sc_transaction c')) @ u32le SIGHASH_ALL"
    using c(4) c'(4) len by (simp_all add: append_eq_append_conv)
  from varBytes_split [OF c(2) c'(2) rest] have "code = code'" and
    "v = v' \<and> u32le (in_sequence i) = u32le (in_sequence i') \<and> sc_hashOutputs c = sc_hashOutputs c' \<and>
     u32le (tx_locktime (sc_transaction c)) = u32le (tx_locktime (sc_transaction c'))"
    using \<open>length v = length v'\<close> len by (simp_all add: append_eq_append_conv)
  moreover from this have "a = a'" using u64le_inject c(3) c'(3) by blast
  ultimately show ?thesis
    using front c(1) c'(1) by (simp add: u32le_inject)
qed

definition collision :: "crypto \<Rightarrow> bool" where
  "collision C = (\<exists>x y. x \<noteq> y \<and> hash256 C x = hash256 C y)"

lemma no_collision: "\<not> collision C \<Longrightarrow> hash256 C x = hash256 C y \<Longrightarrow> x = y"
  by (auto simp: collision_def)


definition demo_crypto :: crypto where
  "demo_crypto = \<lparr>sha256 = (\<lambda>x. take 32 (x @ replicate 32 0)), curve_n = 101,
     secp256k1_verify = (\<lambda>r s d k. r = s)\<rparr>"

definition demo_input :: bitcoin_input where
  "demo_input = \<lparr>in_txid = None, in_vout = None, in_coinbase = None, in_scriptSigHex = [],
     in_sequence = 5, in_witness = [], in_prevout = None\<rparr>"

definition demo_transaction :: bitcoin_transaction where
  "demo_transaction = \<lparr>tx_txid = to_hex (replicate 32 7), tx_wtxid = [], tx_version = 2,
     tx_locktime = 0, tx_inputs = [demo_input],
     tx_outputs = [\<lparr>out_n = 0, out_valueSats = 546, out_scriptPubKeyHex = ''51''\<rparr>]\<rparr>"

lemma demo_digest: "\<exists>d. segwitV0Digest demo_crypto demo_transaction 0 [0x51] 9 = Inr d"
  by (simp add: segwitV0Digest_def SighashContext_def demo_transaction_def demo_input_def
      inputOutpoint_def output_wire_def u64le_def varBytes_def Let_def digest_def
      digest_preimage_def hex_val_def is_digit_def char_code_def)


section \<open>What a verified signature means\<close>

lemma checkSignature_verified:
  "sig_cryptographicallyVerified (checkSignature C sg key dg) \<longleftrightarrow>
     isStrictDerWithHashType sg \<and> last sg = 1 \<and> length key = 33 \<and>
     (\<exists>d. dg = Inr d \<and> secp256k1_verify C (derInteger (der_r sg)) (derInteger (der_s sg)) d key)"
proof -
  have ne: "isStrictDerWithHashType sg \<Longrightarrow> sg \<noteq> []" by (auto simp: isStrictDerWithHashType_def)
  have "(case dg of Inl _ \<Rightarrow> False | Inr d \<Rightarrow> P d) = (\<exists>d. dg = Inr d \<and> P d)" for P
    by (cases dg) auto
  with ne show ?thesis
    by (auto simp: checkSignature_def Let_def SIGHASH_ALL_def word_uint_eq_iff)
qed

text \<open>
  \<open>checkSignature\<close> reports a signature as cryptographically verified exactly when it is the DER
  encoding of two positive minimal integers with the hash type \<open>SIGHASH_ALL\<close>, the key is a
  compressed key (33 bytes), the digest could be computed, and the curve equation holds for those two
  integers, that digest and that key.  An unusable digest never verifies.
\<close>

theorem checkSignature_verified_iff:
  "sig_cryptographicallyVerified (checkSignature C sg key dg) \<longleftrightarrow>
     (\<exists>r s d. sg = der_signature r s 1 \<and> der_integer_ok r \<and> der_integer_ok s \<and>
        length r + length s \<le> 66 \<and> length key = 33 \<and> dg = Inr d \<and>
        secp256k1_verify C (derInteger r) (derInteger s) d key)"
proof
  assume "sig_cryptographicallyVerified (checkSignature C sg key dg)"
  then obtain d where h: "isStrictDerWithHashType sg" "last sg = 1" "length key = 33" "dg = Inr d"
    "secp256k1_verify C (derInteger (der_r sg)) (derInteger (der_s sg)) d key"
    unfolding checkSignature_verified by blast
  from h(1) obtain r s ht where sg: "sg = der_signature r s ht" "der_integer_ok r" "der_integer_ok s"
    "length r + length s + 7 \<le> 73" by (rule isStrictDer_destruct)
  note parts = der_signature_parts(3-5) [OF sg(4), of ht, folded sg(1)]
  have "ht = 1" "length r + length s \<le> 66" using parts(3) h(2) sg(4) by simp_all
  with sg(1-3) h(3-5) show "\<exists>r s d. sg = der_signature r s 1 \<and> der_integer_ok r \<and>
        der_integer_ok s \<and> length r + length s \<le> 66 \<and> length key = 33 \<and> dg = Inr d \<and>
        secp256k1_verify C (derInteger r) (derInteger s) d key"
    unfolding parts(1,2) by blast
next
  assume "\<exists>r s d. sg = der_signature r s 1 \<and> der_integer_ok r \<and> der_integer_ok s \<and>
        length r + length s \<le> 66 \<and> length key = 33 \<and> dg = Inr d \<and>
        secp256k1_verify C (derInteger r) (derInteger s) d key"
  then obtain r s d where sg: "sg = der_signature r s 1" "der_integer_ok r" "der_integer_ok s"
    "length r + length s + 7 \<le> 73" "length key = 33" "dg = Inr d"
    "secp256k1_verify C (derInteger r) (derInteger s) d key" by auto
  note parts = der_signature_parts(3-5) [OF sg(4), of 1, folded sg(1)]
  from sg(5-7) isStrictDer_der_signature [OF sg(2-4), of 1, folded sg(1)]
  show "sig_cryptographicallyVerified (checkSignature C sg key dg)"
    unfolding checkSignature_verified parts by blast
qed

lemma checkSignature_lowS:
  "sig_lowS (checkSignature C sg key dg) \<longleftrightarrow> isStrictDerWithHashType sg \<and>
     0 < derInteger (der_s sg) \<and> derInteger (der_s sg) \<le> HALF_ORDER C"
  by (simp add: checkSignature_def Let_def)

lemma checkSignature_key: "sig_publicKey (checkSignature C sg key dg) = key"
  by (simp add: checkSignature_def Let_def)

section \<open>The shape of an input's evidence\<close>

definition prevout_script :: "bitcoin_input \<Rightarrow> bytes" where
  "prevout_script i =
     (case in_prevout i of None \<Rightarrow> [] | Some p \<Rightarrow> from_hex (prevout_scriptPubKeyHex p))"

definition prevout_amount :: "bitcoin_input \<Rightarrow> int" where
  "prevout_amount i = (case in_prevout i of None \<Rightarrow> 0 | Some p \<Rightarrow> prevout_valueSats p)"

definition input_witness :: "bitcoin_input \<Rightarrow> bytes list" where
  "input_witness i = map from_hex (in_witness i)"

lemma p2wpkh_not_p2wsh: "isP2wpkh s \<Longrightarrow> \<not> isP2wsh s"
  by (simp add: isP2wpkh_def isP2wsh_def)

lemma inputEvidence_facts:
  assumes "inputEvidence C t sc k = Inr ev"
  defines "i \<equiv> tx_inputs t ! k"
  shows "k < length (tx_inputs t)" and "inputOutpoint i = Inr (ie_outpoint ev)"
    and "ie_sequence ev = in_sequence i" and "ie_prevoutValue ev = prevout_amount i"
    and "ie_prevoutScriptPubKey ev = prevout_script i"
    and "ie_witnessShapeValid ev \<longleftrightarrow>
      isP2wpkh (prevout_script i) \<and> length (in_witness i) = 2 \<or>
      isP2wsh (prevout_script i) \<and> length (in_witness i) = 4 \<and> input_witness i ! 0 = []"
    and "isP2wpkh (prevout_script i) \<Longrightarrow> length (in_witness i) = 2 \<Longrightarrow>
      ie_revealedPublicKey ev = Some (input_witness i ! 1) \<and>
      ie_signatures ev = [checkSignature C (input_witness i ! 0) (input_witness i ! 1)
        (digest C sc k (p2wpkh_script_code (prevout_script i)) (prevout_amount i))]"
    and "isP2wsh (prevout_script i) \<Longrightarrow> length (in_witness i) = 4 \<Longrightarrow> input_witness i ! 0 = [] \<Longrightarrow>
      ie_witnessScript ev = Some (input_witness i ! 3) \<and>
      ie_signatures ev = carrier_signatures C sc k (prevout_amount i) (input_witness i)"
    and "\<not> ie_witnessShapeValid ev \<Longrightarrow> ie_signatures ev = [] \<and> ie_revealedPublicKey ev = None"
  using assms(1) p2wpkh_not_p2wsh [of "prevout_script i"]
  unfolding inputEvidence_def Let_def i_def prevout_amount_def [symmetric] input_witness_def [symmetric]
    prevout_script_def [symmetric]
  by (auto simp: nth_opt_eq_Some input_witness_def split: if_splits)

lemma buildTransactionEvidence_input:
  assumes "buildTransactionEvidence C t height = Inr ev" and "k < length (tx_inputs t)"
  obtains sc where "SighashContext C t = Inr sc" "inputEvidence C t sc k = Inr (te_inputs ev ! k)"
proof -
  obtain sc where sc: "SighashContext C t = Inr sc"
    "mapE (inputEvidence C t sc) [0..<length (tx_inputs t)] = Inr (te_inputs ev)"
    using assms(1) by (auto simp: buildTransactionEvidence_def)
  from mapE_Inr_nth [OF sc(2), of k] assms(2) show ?thesis by (intro that [OF sc(1)]) simp
qed

lemma checkSignature_in_evidence:
  assumes "SighashContext C t = Inr sc"
    and "sig_cryptographicallyVerified (checkSignature C sg key (digest C sc k code amount))"
  shows "\<exists>r s d. segwitV0Digest C t k code amount = Inr d \<and> secp256k1_verify C r s d key"
  using assms unfolding checkSignature_verified by (auto simp: segwitV0Digest_def)


lemma inputEvidence_total:
  assumes "k < length (tx_inputs t)" and "inputOutpoint (tx_inputs t ! k) = Inr w"
  shows "\<exists>ev. inputEvidence C t sc k = Inr ev"
  using assms by (simp add: inputEvidence_def nth_opt_def Let_def)

lemma digest_total:
  assumes sc: "SighashContext C t = Inr sc" and k: "k < length (tx_inputs t)"
    and "length code \<le> 0xffffffff" and "0 \<le> amount" and "amount < 2 ^ 64"
  shows "\<exists>d. digest C sc k code amount = Inr d"
proof -
  obtain us where us: "mapE inputOutpoint (tx_inputs t) = Inr us" and t: "sc_transaction sc = t"
    using sc by (auto simp: SighashContext_def)
  have "inputOutpoint (tx_inputs t ! k) = Inr (us ! k)" using mapE_Inr_nth [OF us k] .
  moreover have "\<exists>w. varBytes code = Inr w" using assms(3) by (simp add: varBytes_def Let_def)
  ultimately show ?thesis
    using k t assms(4,5) by (auto simp: digest_def digest_preimage_def nth_opt_def u64le_def)
qed

definition signed_input :: bitcoin_input where
  "signed_input = \<lparr>in_txid = None, in_vout = None, in_coinbase = None, in_scriptSigHex = [],
     in_sequence = 5,
     in_witness = [to_hex (der_signature [7] [7] 1), to_hex (replicate 33 2)],
     in_prevout = Some \<lparr>prevout_valueSats = 9,
       prevout_scriptPubKeyHex = to_hex ([0x00, 0x14] @ replicate 20 3), prevout_confirmed = True,
       prevout_blockHeight = None\<rparr>\<rparr>"

definition signed_transaction :: bitcoin_transaction where
  "signed_transaction = demo_transaction\<lparr>tx_inputs := [signed_input]\<rparr>"

lemma signed_context: "\<exists>sc. SighashContext C signed_transaction = Inr sc"
  by (simp add: SighashContext_def signed_transaction_def signed_input_def demo_transaction_def
      inputOutpoint_def output_wire_def u64le_def varBytes_def Let_def hex_val_def is_digit_def
      char_code_def)


section \<open>Evidence always exists\<close>

text \<open>
  What a decoded Bitcoin transaction satisfies: 32-byte hashes, values that fit the wire format and
  scripts shorter than 4 GiB.
\<close>

definition wf_input :: "bitcoin_input \<Rightarrow> bool" where
  "wf_input i =
     ((case in_txid i of None \<Rightarrow> True | Some txid \<Rightarrow> is_hex_text 64 txid))"

definition wf_output :: "bitcoin_output \<Rightarrow> bool" where
  "wf_output out = (0 \<le> out_valueSats out \<and> out_valueSats out < 2 ^ 64 \<and>
     length (from_hex (out_scriptPubKeyHex out)) \<le> 0xffffffff)"

definition wf_transaction :: "bitcoin_transaction \<Rightarrow> bool" where
  "wf_transaction t = (is_hex_text 64 (tx_txid t) \<and> list_all wf_input (tx_inputs t) \<and>
     list_all wf_output (tx_outputs t))"

lemma inputOutpoint_total: "wf_input i \<Longrightarrow> \<exists>w. inputOutpoint i = Inr w"
  by (auto simp: wf_input_def inputOutpoint_def wire32_hex_text split: option.splits)

lemma output_wire_total: "wf_output out \<Longrightarrow> \<exists>w. output_wire out = Inr w"
  by (auto simp: wf_output_def output_wire_def u64le_def varBytes_def Let_def)

lemma mapE_ex: "(\<And>x. x \<in> set xs \<Longrightarrow> \<exists>y. f x = Inr y) \<Longrightarrow> \<exists>ys. mapE f xs = Inr ys"
  by (induction xs) fastforce+

lemma buildTransactionEvidence_facts:
  assumes "wf_transaction t"
  shows "\<exists>ev. buildTransactionEvidence C t height = Inr ev \<and>
    te_txidWire ev = rev (from_hex (tx_txid t)) \<and> te_height ev = height \<and>
    length (te_inputs ev) = length (tx_inputs t) \<and>
    (\<forall>k < length (tx_inputs t).
       inputOutpoint (tx_inputs t ! k) = Inr (ie_outpoint (te_inputs ev ! k))) \<and>
    te_outputs ev = map output_fields (tx_outputs t) \<and>
    (te_relativeLocktimeMature ev \<longleftrightarrow> 2 \<le> tx_version t)"
proof -
  have ins: "\<exists>w. inputOutpoint inp = Inr w" if "inp \<in> set (tx_inputs t)" for inp
    using assms that by (auto simp: wf_transaction_def list_all_iff intro: inputOutpoint_total)
  obtain us where us: "mapE inputOutpoint (tx_inputs t) = Inr us" using mapE_ex ins by blast
  have "\<exists>w. output_wire out = Inr w" if "out \<in> set (tx_outputs t)" for out
    using assms that by (auto simp: wf_transaction_def list_all_iff intro: output_wire_total)
  then obtain os where os: "mapE output_wire (tx_outputs t) = Inr os" using mapE_ex by blast
  obtain sc where sc: "SighashContext C t = Inr sc" using us os by (simp add: SighashContext_def)
  have "\<exists>ev. inputEvidence C t sc k = Inr ev" if "k \<in> set [0..<length (tx_inputs t)]" for k
    using that ins [of "tx_inputs t ! k"] inputEvidence_total [of k t] by auto
  then obtain evs where evs: "mapE (inputEvidence C t sc) [0..<length (tx_inputs t)] = Inr evs"
    using mapE_ex by blast
  have w: "wire32 (tx_txid t) = Inr (rev (from_hex (tx_txid t)))"
    using assms by (simp add: wf_transaction_def wire32_hex_text)
  have len: "length evs = length (tx_inputs t)" using mapE_Inr_length [OF evs] by simp
  have "inputOutpoint (tx_inputs t ! k) = Inr (ie_outpoint (evs ! k))"
    if "k < length (tx_inputs t)" for k
    using mapE_Inr_nth [OF evs, of k] that inputEvidence_facts(2) by simp
  then show ?thesis
    using sc evs w len by (simp add: buildTransactionEvidence_def output_fields_def)
qed

lemma buildTransactionEvidence_ex: "wf_transaction t \<Longrightarrow> \<exists>ev. buildTransactionEvidence C t height = Inr ev"
  using buildTransactionEvidence_facts by blast

text \<open>
  C11: a well-formed transaction always has evidence.  \<open>buildTransactionEvidence\<close> does not throw, and
  its result has one entry per input and per output in order, the txid in wire order, and the
  relative locks of version 2 transactions marked mature.
\<close>

theorem buildTransactionEvidence_total:
  assumes "wf_transaction t"
  shows "\<exists>ev. buildTransactionEvidence C t height = Inr ev \<and>
    te_txidWire ev = rev (from_hex (tx_txid t)) \<and> te_height ev = height \<and>
    length (te_inputs ev) = length (tx_inputs t) \<and>
    (\<forall>k < length (tx_inputs t).
       inputOutpoint (tx_inputs t ! k) = Inr (ie_outpoint (te_inputs ev ! k))) \<and>
    te_outputs ev = map output_fields (tx_outputs t) \<and>
    (te_relativeLocktimeMature ev \<longleftrightarrow> 2 \<le> tx_version t)"
  using assms by (rule buildTransactionEvidence_facts)

theorem buildTransactionEvidence_total_witness:
  "\<exists>ev. buildTransactionEvidence demo_crypto demo_transaction 800000 = Inr ev \<and>
    te_txidWire ev = rev (from_hex (tx_txid demo_transaction)) \<and> te_height ev = 800000 \<and>
    length (te_inputs ev) = 1"
proof -
  have "wf_transaction demo_transaction"
    using is_hex_text_to_hex [of "replicate 32 (7 :: byte)"]
    by (simp add: wf_transaction_def demo_transaction_def demo_input_def wf_input_def wf_output_def
        hex_val_def is_digit_def char_code_def)
  from buildTransactionEvidence_total [OF this] show ?thesis
    by (auto simp: demo_transaction_def)
qed

end
