(* ===== verification/Tandem_Package.thy ===== *)
theory Tandem_Package
  imports Transaction_Evidence "HOL-Library.Multiset"
begin

text \<open>
  The package \<open>@bitcoinuniverse/tandem\<close>, which is not part of the repository's sources: the shapes
  of the values the indexer exchanges with it, and the record \<open>tandem_lib\<close> of the functions the
  indexer calls.  Every component takes the record as a parameter; a function of the package that may
  throw returns a result.  \<open>validation_ok\<close> states the documented behaviour of the validator: which
  events it returns for the carriers it is given.
\<close>

section \<open>Protocol values\<close>

text \<open>The numbers of \<open>EVENT_TYPE\<close>, \<open>VALIDITY_CLASS\<close> and \<open>OBJECT_STATUS\<close>.\<close>

abbreviation (input) EVENT_INIT :: nat where "EVENT_INIT \<equiv> 0"
abbreviation (input) EVENT_CREATE :: nat where "EVENT_CREATE \<equiv> 1"
abbreviation (input) EVENT_MARK :: nat where "EVENT_MARK \<equiv> 2"
abbreviation (input) EVENT_ROTATE :: nat where "EVENT_ROTATE \<equiv> 3"
abbreviation (input) EVENT_CLOSE :: nat where "EVENT_CLOSE \<equiv> 4"
abbreviation (input) EVENT_REFUND :: nat where "EVENT_REFUND \<equiv> 5"
abbreviation (input) EVENT_EXITED :: nat where "EVENT_EXITED \<equiv> 6"
abbreviation (input) EVENT_INVALID :: nat where "EVENT_INVALID \<equiv> 7"

abbreviation (input) INVALID_NO_STATE :: nat where "INVALID_NO_STATE \<equiv> 0"
abbreviation (input) VALID_OPERATION :: nat where "VALID_OPERATION \<equiv> 1"
abbreviation (input) TERMINAL_NONCANONICAL :: nat where "TERMINAL_NONCANONICAL \<equiv> 2"

text \<open>The exact payload length of an opcode between 1 and 4.\<close>

definition PAYLOAD_LENGTH :: "nat \<Rightarrow> nat" where
  "PAYLOAD_LENGTH opcode =
     (if opcode = 0 then 59 else if opcode = 1 then 40 else if opcode = 2 then 78
      else if opcode = 3 then 44 else 80)"

text \<open>The parsed markers, with the fields the indexer reads.\<close>

datatype marker =
    InitMarker (mk_openHeight: int) (mk_closeHeight: int) (mk_specHash: bytes)
  | CreateMarker
  | MarkMarker (mk_sequence: int) (mk_kind: int) (mk_commitment: bytes)
  | RotateMarker (mk_sequence: int)
  | CloseMarker (mk_sequence: int) (mk_commitment: bytes)

datatype validated_operation =
  OpInit | OpCreate | OpMark | OpRotate | OpClose | OpRefund | OpExited | OpInvalid

record validation_event =
  ve_operation :: validated_operation
  ve_validityClass :: nat
  ve_reason :: nat
  ve_objectKey :: "bytes option"

record validation_result =
  vr_relevant :: bool
  vr_marker :: "marker option"
  vr_events :: "validation_event list"

record carrier_evidence =
  ce_objectKey :: bytes
  ce_outpoint :: bytes
  ce_stateSequence :: int
  ce_key0 :: bytes
  ce_key1 :: bytes
  ce_confirmedHeight :: int

record validation_context =
  vc_network :: nat
  vc_namespace :: bytes
  vc_initTxidWire :: bytes
  vc_specHash :: bytes
  vc_confirmationHeight :: int
  vc_openHeight :: int
  vc_closeHeight :: int
  vc_activeCarriers :: "carrier_evidence list"

record canonical_event =
  cev_namespace :: bytes
  cev_blockHashWire :: bytes
  cev_height :: int
  cev_txIndex :: nat
  cev_eventIndex :: nat
  cev_subIndex :: nat
  cev_eventType :: nat
  cev_validityClass :: nat
  cev_reason :: nat
  cev_txidWire :: bytes
  cev_wtxidWire :: bytes
  cev_objectKey :: bytes
  cev_stateSequence :: int
  cev_predecessorOutpoint :: bytes
  cev_successorOutpoint :: bytes
  cev_key0 :: bytes
  cev_key1 :: bytes
  cev_commitment :: bytes

record object_snapshot =
  os_objectKey :: bytes
  os_founding :: bool
  os_status :: nat
  os_createHeight :: int
  os_stateSequence :: int
  os_currentOutpoint :: bytes
  os_key0 :: bytes
  os_key1 :: bytes
  os_terminalTxidWire :: bytes
  os_chapterCount :: int

record block_root_input =
  br_namespace :: bytes
  br_previousRoot :: bytes
  br_blockHashWire :: bytes
  br_height :: int
  br_eventRoot :: bytes
  br_objectStateRoot :: bytes
  br_foundingCreated :: int
  br_allObjects :: int
  br_activeObjects :: int

section \<open>The functions of the package\<close>

record tandem_lib =
  lib_inspectMarkerScript :: "bytes \<Rightarrow> bool \<times> bytes"
  lib_parseMarkerScript :: "bytes \<Rightarrow> nat \<Rightarrow> marker option"
  lib_validate :: "transaction_evidence \<Rightarrow> validation_context \<Rightarrow> validation_result result"
  lib_objectKeyFromWire :: "bytes \<Rightarrow> bytes \<Rightarrow> bytes result"
  lib_eventRoot :: "bytes \<Rightarrow> canonical_event list \<Rightarrow> bytes result"
  lib_objectStateRoot :: "bytes \<Rightarrow> object_snapshot list \<Rightarrow> bytes result"
  lib_chainedBlockRoot :: "block_root_input \<Rightarrow> bytes result"

section \<open>The documented behaviour of the validator\<close>

text \<open>
  What the validator says of a transaction that spends the given active carriers.  A valid operation
  is one event: \<open>INIT\<close> and \<open>CREATE\<close> spend no carrier; \<open>MARK\<close>, \<open>ROTATE\<close> and \<open>CLOSE\<close> spend
  exactly one, name its object, and come with a marker of the same kind whose sequence is the next
  one; \<open>REFUND\<close> spends exactly one and names it.  Otherwise every carrier gets one terminal event,
  in some order.  A transaction without carriers has at most one event, which changes no state; so
  has the configured \<open>INIT\<close> transaction when it carries no marker.  The only valid operation of the
  configured \<open>INIT\<close> transaction is \<open>INIT\<close>.
\<close>

definition valid_event_ok :: "carrier_evidence list \<Rightarrow> marker option \<Rightarrow> validation_event \<Rightarrow> bool" where
  "valid_event_ok cs m e =
     (case ve_operation e of
        OpInit \<Rightarrow> cs = [] \<and> (\<exists>a b h. m = Some (InitMarker a b h))
      | OpCreate \<Rightarrow> cs = [] \<and> m = Some CreateMarker
      | OpMark \<Rightarrow> (\<exists>c kind commitment. cs = [c] \<and> ve_objectKey e = Some (ce_objectKey c) \<and>
          m = Some (MarkMarker (ce_stateSequence c + 1) kind commitment))
      | OpRotate \<Rightarrow> (\<exists>c. cs = [c] \<and> ve_objectKey e = Some (ce_objectKey c) \<and>
          m = Some (RotateMarker (ce_stateSequence c + 1)))
      | OpClose \<Rightarrow> (\<exists>c commitment. cs = [c] \<and> ve_objectKey e = Some (ce_objectKey c) \<and>
          m = Some (CloseMarker (ce_stateSequence c + 1) commitment))
      | OpRefund \<Rightarrow> (\<exists>c. cs = [c] \<and> ve_objectKey e = Some (ce_objectKey c))
      | _ \<Rightarrow> False)"

definition validation_ok ::
  "transaction_evidence \<Rightarrow> validation_context \<Rightarrow> validation_result \<Rightarrow> bool" where
  "validation_ok ev ctx r =
     (let cs = vc_activeCarriers ctx; es = vr_events r
      in \<not> vr_relevant r \<and> es = [] \<and> cs = [] \<or>
         vr_relevant r \<and>
         ((\<exists>e. es = [e] \<and> ve_validityClass e = VALID_OPERATION \<and> valid_event_ok cs (vr_marker r) e \<and>
             (te_txidWire ev = vc_initTxidWire ctx \<longrightarrow> ve_operation e = OpInit)) \<or>
          (cs \<noteq> [] \<and> (\<forall>e \<in> set es. ve_validityClass e = TERMINAL_NONCANONICAL) \<and>
             (\<exists>ks. mset ks = mset (map ce_objectKey cs) \<and> map ve_objectKey es = map Some ks)) \<or>
          (\<exists>e. es = [e] \<and> ve_validityClass e = INVALID_NO_STATE \<and>
             (cs = [] \<or> te_txidWire ev = vc_initTxidWire ctx))))"

definition carriers_spent :: "transaction_evidence \<Rightarrow> validation_context \<Rightarrow> bool" where
  "carriers_spent ev ctx =
     (set (map ce_outpoint (vc_activeCarriers ctx)) \<subseteq> set (map ie_outpoint (te_inputs ev)))"

definition validator_contract :: "tandem_lib \<Rightarrow> bool" where
  "validator_contract L =
     (\<forall>ev ctx r. lib_validate L ev ctx = Inr r \<longrightarrow> carriers_spent ev ctx \<longrightarrow> validation_ok ev ctx r)"

text \<open>The object key is a hash of the namespace and the creating txid: different txids, different keys.\<close>

definition object_keys_distinct :: "tandem_lib \<Rightarrow> bool" where
  "object_keys_distinct L =
     (\<forall>n t t' k. lib_objectKeyFromWire L n t = Inr k \<longrightarrow> lib_objectKeyFromWire L n t' = Inr k \<longrightarrow> t = t')"

end
