(* ===== verification/Configuration.thy ===== *)
theory Configuration
  imports Tandem_Package
begin

text \<open>
  \<open>src/config/configuration.ts\<close>: reading the environment into the configuration every service is
  given.  The interfaces are records (an absent property is \<open>None\<close>), each reader is a function of the
  environment and the name of the variable, and \<open>loadConfiguration\<close> calls them in the order of the
  code, so that the first problem is the one reported.  \<open>JSON.parse\<close> and the \<open>URL\<close> constructor of the
  platform, and the constants and the namespace commitment of the protocol package, are parameters.
\<close>

section \<open>What the platform and the package give\<close>

text \<open>
  A value \<open>JSON.parse\<close> returns.  An object is the list of its entries in the order of
  \<open>Object.entries\<close>, with distinct keys; of a number only the text \<open>String\<close> gives is ever used.
\<close>

datatype json =
    JNull
  | JBool bool
  | JNumber string
  | JString string
  | JArray "json list"
  | JObject "(string \<times> json) list"

record parsed_url =
  url_protocol :: string
  url_username :: string
  url_password :: string
  url_search :: string
  url_hash :: string

record platform =
  pf_json_parse :: "string \<Rightarrow> json option"
  pf_url_parse :: "string \<Rightarrow> parsed_url option"

text \<open>
  The table \<open>NETWORK\<close> is an object literal: a lookup of a name that is not its own key, but a member of
  \<open>Object.prototype\<close>, gives an inherited function, written \<open>None\<close> where a code is expected.
\<close>

record protocol_constants =
  pc_NETWORK :: "(string, nat) js_map"
  pc_FOUNDING_WINDOW :: int
  pc_INIT_LEAD :: int
  pc_namespaceCommitment :: "nat option \<Rightarrow> bytes \<Rightarrow> bytes \<Rightarrow> bytes result"

definition object_prototype_members :: "string list" where
  "object_prototype_members =
     [''constructor'', ''__defineGetter__'', ''__defineSetter__'', ''hasOwnProperty'',
      ''__lookupGetter__'', ''__lookupSetter__'', ''isPrototypeOf'', ''propertyIsEnumerable'',
      ''toString'', ''valueOf'', ''__proto__'', ''toLocaleString'']"

text \<open>\<open>key in table\<close>.\<close>

definition js_in :: "string \<Rightarrow> (string, 'a) js_map \<Rightarrow> bool" where
  "js_in key table = (key \<in> fst ` set table \<or> key \<in> set object_prototype_members)"

section \<open>The configuration\<close>

record service_configuration =
  sv_host :: string
  sv_port :: nat
  sv_environment :: string

record deployment_configuration =
  dc_protocolId :: "string option"
  dc_network :: string
  dc_networkCode :: "nat option"
  dc_initTxid :: "string option"
  dc_initHeight :: "nat option"
  dc_openHeight :: "nat option"
  dc_closeHeight :: "nat option"
  dc_specHash :: string
  dc_namespace :: "string option"

record bitcoin_configuration =
  bc_rpcUrl :: string
  bc_rpcUser :: string
  bc_rpcPassword :: string
  bc_rpcTimeoutMs :: nat
  bc_expectedChain :: string
  bc_zmqHashBlock :: "string option"
  bc_zmqRawTx :: "string option"
  bc_zmqSequence :: "string option"

record database_configuration =
  dbc_host :: string
  dbc_port :: nat
  dbc_username :: string
  dbc_password :: string
  dbc_database :: string

record sync_configuration =
  sc_enabled :: bool
  sc_pollIntervalMs :: nat
  sc_initScanDepth :: nat
  sc_batchBlocks :: nat
  sc_fetchConcurrency :: nat

record agreement_configuration =
  ac_keyId :: "string option"
  ac_privateKeyHex :: "string option"
  ac_publicKeyHex :: "string option"
  ac_parserCommit :: "string option"
  ac_indexerCommit :: "string option"
  ac_parserBinarySha256 :: "string option"
  ac_indexerBinarySha256 :: "string option"

record verification_configuration =
  vf_pipelineBBaseUrl :: "string option"
  vf_requestTimeoutMs :: nat
  vf_mainnetEnabled :: bool
  vf_pipelineATrustedKeys :: "(string, string) js_map"
  vf_pipelineBTrustedKeys :: "(string, string) js_map"

record catalog_configuration =
  cc_token :: string
  cc_cursorSecret :: string

record app_configuration =
  cfg_service :: service_configuration
  cfg_deployment :: deployment_configuration
  cfg_bitcoin :: bitcoin_configuration
  cfg_database :: database_configuration
  cfg_maxBlockLag :: nat
  cfg_sync :: sync_configuration
  cfg_agreement :: agreement_configuration
  cfg_verification :: verification_configuration
  cfg_catalog :: "catalog_configuration option"

section \<open>The readers\<close>

type_synonym environment = "string \<Rightarrow> string option"

definition HASH_HEX :: "string \<Rightarrow> bool" where "HASH_HEX = is_hex_text 64"
definition COMMIT_HEX :: "string \<Rightarrow> bool" where "COMMIT_HEX = is_hex_text 40"

definition is_key_id_char :: "char \<Rightarrow> bool" where
  "is_key_id_char c = (is_alpha c \<or> is_digit c \<or> c \<in> set ''._:-'')"

definition KEY_ID :: "string \<Rightarrow> bool" where
  "KEY_ID s = (1 \<le> length s \<and> length s \<le> 128 \<and> list_all is_key_id_char s)"

definition optional :: "environment \<Rightarrow> string \<Rightarrow> string option" where
  "optional env key =
     (case env key of
        None \<Rightarrow> None
      | Some source \<Rightarrow> if trim source = [] then None else Some (trim source))"

definition required :: "environment \<Rightarrow> string \<Rightarrow> string result" where
  "required env key =
     (case env key of
        None \<Rightarrow> Inl (ConfigurationError (key @ '' is required''))
      | Some source \<Rightarrow>
          if trim source = [] then Inl (ConfigurationError (key @ '' is required'')) else Inr (trim source))"

definition integer :: "environment \<Rightarrow> string \<Rightarrow> nat option \<Rightarrow> nat result" where
  "integer env key fallback =
     (let source = (case env key of None \<Rightarrow> [] | Some s \<Rightarrow> trim s)
      in if source = [] \<and> fallback \<noteq> None then Inr (the fallback)
         else if source = [] \<or> \<not> all_digits source
         then Inl (ConfigurationError (key @ '' must be an integer''))
         else if \<not> is_safe (number_of_text source)
         then Inl (ConfigurationError (key @ '' must be a nonnegative safe integer''))
         else Inr (number_of_text source))"

definition optionalInteger :: "environment \<Rightarrow> string \<Rightarrow> nat option result" where
  "optionalInteger env key =
     (if optional env key = None then Inr None
      else bindE (integer env key None) (\<lambda>n. Inr (Some n)))"

definition env_hash :: "environment \<Rightarrow> string \<Rightarrow> string result" where
  "env_hash env key =
     bindE (required env key) (\<lambda>source.
       if HASH_HEX (to_lower source) then Inr (to_lower source)
       else Inl (ConfigurationError (key @ '' must be 32-byte lowercase hex'')))"

definition optionalHash :: "environment \<Rightarrow> string \<Rightarrow> string option result" where
  "optionalHash env key =
     (case map_option to_lower (optional env key) of
        None \<Rightarrow> Inr None
      | Some value \<Rightarrow>
          if HASH_HEX value then Inr (Some value)
          else Inl (ConfigurationError (key @ '' must be 32-byte lowercase hex'')))"

definition optionalCommit :: "environment \<Rightarrow> string \<Rightarrow> string option result" where
  "optionalCommit env key =
     (case map_option to_lower (optional env key) of
        None \<Rightarrow> Inr None
      | Some value \<Rightarrow>
          if COMMIT_HEX value then Inr (Some value)
          else Inl (ConfigurationError (key @ '' must be 20-byte lowercase hex'')))"

definition env_boolean :: "environment \<Rightarrow> string \<Rightarrow> bool \<Rightarrow> bool result" where
  "env_boolean env key fallback =
     (case optional env key of
        None \<Rightarrow> Inr fallback
      | Some value \<Rightarrow>
          if value = ''true'' then Inr True
          else if value = ''false'' then Inr False
          else Inl (ConfigurationError (key @ '' must be true or false'')))"

text \<open>The loop over \<open>Object.entries(parsed)\<close> and the reader of a table of trusted keys.\<close>

definition trusted_entry ::
  "string \<Rightarrow> (string, string) js_map \<Rightarrow> string \<times> json \<Rightarrow> (string, string) js_map result" where
  "trusted_entry key keys entry =
     (case entry of (keyId, publicKey) \<Rightarrow>
        if \<not> KEY_ID keyId
        then Inl (ConfigurationError (key @ '' contains an invalid key id''))
        else (case publicKey of
                JString text \<Rightarrow>
                  if HASH_HEX text then Inr (js_set keyId text keys)
                  else Inl (ConfigurationError (key @ '' contains an invalid Ed25519 public key''))
              | _ \<Rightarrow> Inl (ConfigurationError (key @ '' contains an invalid Ed25519 public key''))))"

definition trustedKeys :: "platform \<Rightarrow> environment \<Rightarrow> string \<Rightarrow> (string, string) js_map result" where
  "trustedKeys pf env key =
     (case optional env key of
        None \<Rightarrow> Inr []
      | Some encoded \<Rightarrow>
          (case pf_json_parse pf encoded of
             None \<Rightarrow> Inl (ConfigurationError (key @ '' must be valid JSON''))
           | Some (JObject entries) \<Rightarrow> foldE (trusted_entry key) [] entries
           | Some _ \<Rightarrow> Inl (ConfigurationError (key @ '' must be a JSON object''))))"

text \<open>\<open>value.replace(/\/+$/, "")\<close>.\<close>

definition strip_slashes :: "string \<Rightarrow> string" where
  "strip_slashes s = rev (dropWhile (\<lambda>c. c = CHR ''/'') (rev s))"

definition baseUrl :: "platform \<Rightarrow> environment \<Rightarrow> string \<Rightarrow> string option result" where
  "baseUrl pf env key =
     (case optional env key of
        None \<Rightarrow> Inr None
      | Some value \<Rightarrow>
          (case pf_url_parse pf value of
             None \<Rightarrow> Inl (ConfigurationError (key @ '' must be an absolute URL''))
           | Some parsed \<Rightarrow>
               if url_protocol parsed \<notin> set [''http:'', ''https:''] \<or> url_username parsed \<noteq> [] \<or>
                  url_password parsed \<noteq> [] \<or> url_search parsed \<noteq> [] \<or> url_hash parsed \<noteq> []
               then Inl (ConfigurationError
                      (key @ '' must be an HTTP URL without credentials, query, or fragment''))
               else Inr (Some (strip_slashes value))))"

definition parseNetwork :: "protocol_constants \<Rightarrow> string \<Rightarrow> string result" where
  "parseNetwork pc value =
     (if js_in value (pc_NETWORK pc) then Inr value
      else Inl (ConfigurationError (''unsupported TANDEM_NETWORK: '' @ value)))"

definition expectedChain :: "string \<Rightarrow> string" where
  "expectedChain network = (if network = ''mainnet'' then ''main'' else network)"

section \<open>Loading\<close>

definition config_check :: "bool \<Rightarrow> string \<Rightarrow> unit result" where
  "config_check problem message = throw_unless (\<not> problem) (ConfigurationError message)"

text \<open>The deployment binding: the first part of \<open>loadConfiguration\<close>, up to the namespace check.\<close>

definition load_deployment :: "protocol_constants \<Rightarrow> environment \<Rightarrow> deployment_configuration result" where
  "load_deployment pc env =
     bindE (bindE (required env ''TANDEM_NETWORK'') (parseNetwork pc)) (\<lambda>network.
     let networkCode = js_get (pc_NETWORK pc) network in
     bindE (optionalHash env ''TANDEM_INIT_TXID'') (\<lambda>initTxid.
     bindE (optionalInteger env ''TANDEM_INIT_HEIGHT'') (\<lambda>initHeight.
     bindE (optionalInteger env ''TANDEM_OPEN_HEIGHT'') (\<lambda>openHeight.
     bindE (optionalInteger env ''TANDEM_CLOSE_HEIGHT'') (\<lambda>closeHeight.
     bindE (env_hash env ''TANDEM_SPEC_HASH'') (\<lambda>specHash.
     bindE (optionalHash env ''TANDEM_NAMESPACE'') (\<lambda>configuredNamespace.
     bindE (config_check (initTxid = None \<and> (initHeight \<noteq> None \<or> openHeight \<noteq> None \<or> closeHeight \<noteq> None))
              ''INIT heights require TANDEM_INIT_TXID'') (\<lambda>_.
     bindE (config_check ((openHeight = None) \<noteq> (closeHeight = None))
              ''TANDEM_OPEN_HEIGHT and TANDEM_CLOSE_HEIGHT are set together'') (\<lambda>_.
     bindE (config_check (openHeight \<noteq> None \<and>
                map_option int closeHeight \<noteq> Some (int (the openHeight) + pc_FOUNDING_WINDOW pc))
              (''TANDEM_CLOSE_HEIGHT must equal open height plus '' @ int_text (pc_FOUNDING_WINDOW pc))) (\<lambda>_.
     bindE (config_check (initHeight \<noteq> None \<and> openHeight \<noteq> None \<and>
                int (the openHeight) - int (the initHeight) < pc_INIT_LEAD pc)
              (''TANDEM_INIT_HEIGHT must precede the open height by at least '' @
                 int_text (pc_INIT_LEAD pc) @ '' blocks'')) (\<lambda>_.
     bindE (case initTxid of
              None \<Rightarrow> Inr None
            | Some txid \<Rightarrow>
                bindE (of_option (LibraryError ''hexToBytes'') (parse_hex 32 txid)) (\<lambda>txidBytes.
                bindE (of_option (LibraryError ''hexToBytes'') (parse_hex 32 specHash)) (\<lambda>specBytes.
                bindE (pc_namespaceCommitment pc networkCode txidBytes specBytes) (\<lambda>commitment.
                Inr (Some (to_hex commitment)))))) (\<lambda>ns.
     bindE (config_check (configuredNamespace \<noteq> None \<and> configuredNamespace \<noteq> ns)
              ''TANDEM_NAMESPACE does not match the configured INIT tuple'') (\<lambda>_.
     Inr \<lparr>dc_protocolId = map_option (\<lambda>txid. ''tndm:'' @ network @ '':'' @ txid) initTxid,
          dc_network = network, dc_networkCode = networkCode, dc_initTxid = initTxid,
          dc_initHeight = initHeight, dc_openHeight = openHeight, dc_closeHeight = closeHeight,
          dc_specHash = specHash, dc_namespace = ns\<rparr>)))))))))))))"

text \<open>The agreement keys, which are checked before anything else of the service is read.\<close>

definition load_agreement_keys ::
  "environment \<Rightarrow> (string option \<times> string option \<times> string option) result" where
  "load_agreement_keys env =
     (let privateKeyHex = map_option to_lower (optional env ''AGREEMENT_PRIVATE_KEY_HEX'');
          publicKeyHex = map_option to_lower (optional env ''AGREEMENT_PUBLIC_KEY_HEX'');
          keyId = optional env ''AGREEMENT_KEY_ID''
      in bindE (config_check (\<not> pred_option HASH_HEX privateKeyHex)
                  ''AGREEMENT_PRIVATE_KEY_HEX must be a 32-byte key'') (\<lambda>_.
         bindE (config_check (\<not> pred_option HASH_HEX publicKeyHex)
                  ''AGREEMENT_PUBLIC_KEY_HEX must be a 32-byte key'') (\<lambda>_.
         bindE (config_check (\<not> pred_option KEY_ID keyId)
                  ''AGREEMENT_KEY_ID contains unsupported characters'') (\<lambda>_.
         bindE (config_check ((privateKeyHex \<noteq> None \<or> publicKeyHex \<noteq> None) \<and> keyId = None)
                  ''AGREEMENT_KEY_ID is required when an agreement key is configured'') (\<lambda>_.
         Inr (keyId, privateKeyHex, publicKeyHex))))))"

text \<open>The two secrets of the catalog, set together and long enough.\<close>

definition load_catalog :: "environment \<Rightarrow> catalog_configuration option result" where
  "load_catalog env =
     (let catalogToken = optional env ''TANDEM_CATALOG_TOKEN'';
          catalogSecret = optional env ''TANDEM_CATALOG_CURSOR_SECRET''
      in bindE (config_check
                  ((catalogToken \<noteq> None) \<noteq> (catalogSecret \<noteq> None) \<or>
                   \<not> pred_option (\<lambda>t. 32 \<le> length t) catalogToken \<or>
                   \<not> pred_option (\<lambda>s. 32 \<le> length s) catalogSecret)
                  ''catalog token and cursor secret require at least 32 characters each'') (\<lambda>_.
         Inr (case (catalogToken, catalogSecret) of
                (Some token, Some secret) \<Rightarrow> Some \<lparr>cc_token = token, cc_cursorSecret = secret\<rparr>
              | _ \<Rightarrow> None)))"

definition load_bitcoin :: "environment \<Rightarrow> string \<Rightarrow> bitcoin_configuration result" where
  "load_bitcoin env network =
     bindE (required env ''BITCOIN_RPC_URL'') (\<lambda>rpcUrl.
     bindE (required env ''BITCOIN_RPC_USER'') (\<lambda>rpcUser.
     bindE (required env ''BITCOIN_RPC_PASSWORD'') (\<lambda>rpcPassword.
     bindE (integer env ''BITCOIN_RPC_TIMEOUT_MS'' (Some 15000)) (\<lambda>rpcTimeoutMs.
     Inr \<lparr>bc_rpcUrl = rpcUrl, bc_rpcUser = rpcUser, bc_rpcPassword = rpcPassword,
          bc_rpcTimeoutMs = rpcTimeoutMs, bc_expectedChain = expectedChain network,
          bc_zmqHashBlock = optional env ''BITCOIN_ZMQ_HASHBLOCK'',
          bc_zmqRawTx = optional env ''BITCOIN_ZMQ_RAWTX'',
          bc_zmqSequence = optional env ''BITCOIN_ZMQ_SEQUENCE''\<rparr>))))"

definition load_database :: "environment \<Rightarrow> database_configuration result" where
  "load_database env =
     bindE (required env ''MYSQL_HOST'') (\<lambda>host.
     bindE (integer env ''MYSQL_PORT'' (Some 3306)) (\<lambda>port.
     bindE (required env ''MYSQL_USER'') (\<lambda>username.
     bindE (required env ''MYSQL_PASSWORD'') (\<lambda>password.
     bindE (required env ''MYSQL_DATABASE'') (\<lambda>database.
     Inr \<lparr>dbc_host = host, dbc_port = port, dbc_username = username, dbc_password = password,
          dbc_database = database\<rparr>)))))"

definition load_sync :: "environment \<Rightarrow> sync_configuration result" where
  "load_sync env =
     bindE (env_boolean env ''TANDEM_SYNC_ENABLED'' True) (\<lambda>enabled.
     bindE (integer env ''TANDEM_SYNC_POLL_MS'' (Some 5000)) (\<lambda>pollIntervalMs.
     bindE (integer env ''TANDEM_INIT_SCAN_DEPTH'' (Some 144)) (\<lambda>initScanDepth.
     bindE (integer env ''TANDEM_SYNC_BATCH_BLOCKS'' (Some 100)) (\<lambda>batchBlocks.
     bindE (integer env ''TANDEM_SYNC_FETCH_CONCURRENCY'' (Some 4)) (\<lambda>fetchConcurrency.
     Inr \<lparr>sc_enabled = enabled, sc_pollIntervalMs = pollIntervalMs, sc_initScanDepth = initScanDepth,
          sc_batchBlocks = max 1 batchBlocks, sc_fetchConcurrency = max 1 fetchConcurrency\<rparr>)))))"

definition load_verification ::
  "platform \<Rightarrow> environment \<Rightarrow> string option \<Rightarrow> verification_configuration result" where
  "load_verification pf env pipelineBBaseUrl =
     bindE (integer env ''PIPELINE_B_REQUEST_TIMEOUT_MS'' (Some 5000)) (\<lambda>requestTimeoutMs.
     bindE (env_boolean env ''TANDEM_VERIFIED_MAINNET_ENABLED'' False) (\<lambda>mainnetEnabled.
     bindE (trustedKeys pf env ''PIPELINE_A_TRUSTED_KEYS_JSON'') (\<lambda>trustedA.
     bindE (trustedKeys pf env ''PIPELINE_B_TRUSTED_KEYS_JSON'') (\<lambda>trustedB.
     Inr \<lparr>vf_pipelineBBaseUrl = pipelineBBaseUrl, vf_requestTimeoutMs = requestTimeoutMs,
          vf_mainnetEnabled = mainnetEnabled, vf_pipelineATrustedKeys = trustedA,
          vf_pipelineBTrustedKeys = trustedB\<rparr>))))"

definition loadConfiguration ::
  "protocol_constants \<Rightarrow> platform \<Rightarrow> environment \<Rightarrow> app_configuration result" where
  "loadConfiguration pc pf env =
     bindE (load_deployment pc env) (\<lambda>deployment.
     bindE (load_agreement_keys env) (\<lambda>(keyId, privateKeyHex, publicKeyHex).
     bindE (optionalCommit env ''TANDEM_PARSER_COMMIT'') (\<lambda>parserCommit.
     bindE (optionalCommit env ''TANDEM_INDEXER_COMMIT'') (\<lambda>indexerCommit.
     bindE (optionalHash env ''TANDEM_PARSER_BINARY_SHA256'') (\<lambda>parserBinary.
     bindE (optionalHash env ''TANDEM_INDEXER_BINARY_SHA256'') (\<lambda>indexerBinary.
     bindE (baseUrl pf env ''PIPELINE_B_BASE_URL'') (\<lambda>pipelineBBaseUrl.
     bindE (load_catalog env) (\<lambda>catalog.
     bindE (integer env ''PORT'' (Some 3021)) (\<lambda>port.
     bindE (load_bitcoin env (dc_network deployment)) (\<lambda>bitcoin.
     bindE (load_database env) (\<lambda>database.
     bindE (integer env ''READINESS_MAX_BLOCK_LAG'' (Some 2)) (\<lambda>maxBlockLag.
     bindE (load_sync env) (\<lambda>sync.
     bindE (load_verification pf env pipelineBBaseUrl) (\<lambda>verification.
     Inr \<lparr>cfg_service = \<lparr>sv_host = nullish (optional env ''HTTP_HOST'') ''127.0.0.1'', sv_port = port,
            sv_environment = nullish (optional env ''NODE_ENV'') ''development''\<rparr>,
          cfg_deployment = deployment, cfg_bitcoin = bitcoin, cfg_database = database,
          cfg_maxBlockLag = maxBlockLag, cfg_sync = sync,
          cfg_agreement = \<lparr>ac_keyId = keyId, ac_privateKeyHex = privateKeyHex,
            ac_publicKeyHex = publicKeyHex, ac_parserCommit = parserCommit,
            ac_indexerCommit = indexerCommit, ac_parserBinarySha256 = parserBinary,
            ac_indexerBinarySha256 = indexerBinary\<rparr>,
          cfg_verification = verification, cfg_catalog = catalog\<rparr>))))))))))))))"

section \<open>What a loaded configuration guarantees\<close>

definition deployment_ok :: "protocol_constants \<Rightarrow> deployment_configuration \<Rightarrow> bool" where
  "deployment_ok pc d =
     (js_in (dc_network d) (pc_NETWORK pc) \<and> dc_networkCode d = js_get (pc_NETWORK pc) (dc_network d) \<and>
      is_hex_text 64 (dc_specHash d) \<and>
      (case dc_initTxid d of
         None \<Rightarrow> dc_protocolId d = None \<and> dc_namespace d = None \<and>
           dc_initHeight d = None \<and> dc_openHeight d = None \<and> dc_closeHeight d = None
       | Some txid \<Rightarrow> is_hex_text 64 txid \<and>
           dc_protocolId d = Some (''tndm:'' @ dc_network d @ '':'' @ txid) \<and>
           (\<exists>c. pc_namespaceCommitment pc (dc_networkCode d) (from_hex txid) (from_hex (dc_specHash d)) = Inr c \<and>
              dc_namespace d = Some (to_hex c))) \<and>
      (dc_openHeight d = None) = (dc_closeHeight d = None) \<and>
      (\<forall>h. dc_openHeight d = Some h \<longrightarrow>
         map_option int (dc_closeHeight d) = Some (int h + pc_FOUNDING_WINDOW pc)) \<and>
      (\<forall>i h. dc_initHeight d = Some i \<longrightarrow> dc_openHeight d = Some h \<longrightarrow> int i + pc_INIT_LEAD pc \<le> int h) \<and>
      pred_option is_safe (dc_initHeight d) \<and> pred_option is_safe (dc_openHeight d) \<and>
      pred_option is_safe (dc_closeHeight d))"

definition agreement_ok :: "agreement_configuration \<Rightarrow> bool" where
  "agreement_ok a =
     (pred_option KEY_ID (ac_keyId a) \<and>
      pred_option (is_hex_text 64) (ac_privateKeyHex a) \<and> pred_option (is_hex_text 64) (ac_publicKeyHex a) \<and>
      pred_option (is_hex_text 40) (ac_parserCommit a) \<and> pred_option (is_hex_text 40) (ac_indexerCommit a) \<and>
      pred_option (is_hex_text 64) (ac_parserBinarySha256 a) \<and>
      pred_option (is_hex_text 64) (ac_indexerBinarySha256 a) \<and>
      (ac_keyId a = None \<longrightarrow> ac_privateKeyHex a = None \<and> ac_publicKeyHex a = None))"

definition trusted_ok :: "(string, string) js_map \<Rightarrow> bool" where
  "trusted_ok keys = (js_wf keys \<and> list_all (\<lambda>(k, v). KEY_ID k \<and> is_hex_text 64 v) keys)"

definition configuration_ok :: "protocol_constants \<Rightarrow> app_configuration \<Rightarrow> bool" where
  "configuration_ok pc c =
     (deployment_ok pc (cfg_deployment c) \<and> agreement_ok (cfg_agreement c) \<and>
      bc_expectedChain (cfg_bitcoin c) = expectedChain (dc_network (cfg_deployment c)) \<and>
      1 \<le> sc_batchBlocks (cfg_sync c) \<and> 1 \<le> sc_fetchConcurrency (cfg_sync c) \<and>
      list_all is_safe [sv_port (cfg_service c), cfg_maxBlockLag c, sc_pollIntervalMs (cfg_sync c),
        sc_initScanDepth (cfg_sync c), sc_batchBlocks (cfg_sync c), sc_fetchConcurrency (cfg_sync c)] \<and>
      list_all (\<lambda>s. s \<noteq> []) [bc_rpcUrl (cfg_bitcoin c), bc_rpcUser (cfg_bitcoin c),
        bc_rpcPassword (cfg_bitcoin c), dbc_host (cfg_database c), dbc_username (cfg_database c),
        dbc_password (cfg_database c), dbc_database (cfg_database c)] \<and>
      trusted_ok (vf_pipelineATrustedKeys (cfg_verification c)) \<and>
      trusted_ok (vf_pipelineBTrustedKeys (cfg_verification c)) \<and>
      pred_option (\<lambda>u. u = [] \<or> last u \<noteq> CHR ''/'') (vf_pipelineBBaseUrl (cfg_verification c)) \<and>
      pred_option (\<lambda>k. 32 \<le> length (cc_token k) \<and> 32 \<le> length (cc_cursorSecret k)) (cfg_catalog c))"

subsection \<open>The readers\<close>

named_theorems reader_intros \<open>what a reader that returns has checked\<close>

lemma required_Inr [reader_intros]: "required env key = Inr s \<Longrightarrow> s \<noteq> []"
  by (auto simp: required_def split: option.splits if_splits)

lemma integer_Inr:
  "integer env key fallback = Inr n \<longleftrightarrow>
     (let source = (case env key of None \<Rightarrow> [] | Some s \<Rightarrow> trim s)
      in if source = [] then fallback = Some n
         else all_digits source \<and> is_safe (number_of_text source) \<and> n = number_of_text source)"
  by (auto simp: integer_def Let_def)

lemma integer_safe [reader_intros]:
  "integer env key fallback = Inr n \<Longrightarrow> pred_option is_safe fallback \<Longrightarrow> is_safe n"
  by (auto simp: integer_Inr Let_def split: if_splits)

lemma optionalInteger_safe [reader_intros]:
  "optionalInteger env key = Inr n \<Longrightarrow> pred_option is_safe n"
  by (auto simp: optionalInteger_def dest: integer_safe split: if_splits)

lemma env_hash_Inr [reader_intros]: "env_hash env key = Inr s \<Longrightarrow> is_hex_text 64 s"
  by (auto simp: env_hash_def HASH_HEX_def split: if_splits)

lemma optionalHash_Inr [reader_intros]: "optionalHash env key = Inr s \<Longrightarrow> pred_option (is_hex_text 64) s"
  by (auto simp: optionalHash_def HASH_HEX_def split: option.splits if_splits)

lemma optionalCommit_Inr [reader_intros]: "optionalCommit env key = Inr s \<Longrightarrow> pred_option (is_hex_text 40) s"
  by (auto simp: optionalCommit_def COMMIT_HEX_def split: option.splits if_splits)

lemma strip_slashes_last: "strip_slashes s = [] \<or> last (strip_slashes s) \<noteq> CHR ''/''"
proof (cases "dropWhile (\<lambda>c. c = CHR ''/'') (rev s)")
  case (Cons c cs)
  then have "c \<noteq> CHR ''/''" using hd_dropWhile [of "\<lambda>c. c = CHR ''/''" "rev s"] by simp
  then show ?thesis by (simp add: strip_slashes_def Cons)
qed (simp add: strip_slashes_def)

lemma baseUrl_Inr [reader_intros]:
  "baseUrl pf env key = Inr u \<Longrightarrow> pred_option (\<lambda>u. u = [] \<or> last u \<noteq> CHR ''/'') u"
  using strip_slashes_last by (auto simp: baseUrl_def split: option.splits if_splits)

lemma trustedKeys_Inr [reader_intros]:
  assumes "trustedKeys pf env key = Inr keys"
  shows "trusted_ok keys"
proof (cases "optional env key")
  case None
  then show ?thesis using assms by (simp add: trustedKeys_def trusted_ok_def)
next
  case (Some encoded)
  then obtain entries where "foldE (trusted_entry key) [] entries = Inr keys"
    using assms by (auto simp: trustedKeys_def split: option.splits json.splits)
  then show ?thesis
  proof (rule foldE_invariant)
    show "trusted_ok []" by (simp add: trusted_ok_def)
    fix s x s' assume "trusted_ok s" "trusted_entry key s x = Inr s'"
    then show "trusted_ok s'"
      using js_set_in [of s] js_wf_set [of s]
      by (force simp: trusted_ok_def trusted_entry_def list_all_iff HASH_HEX_def
          split: prod.splits json.splits if_splits)
  qed
qed

lemma config_check_Inr [simp]: "config_check b m = Inr u \<longleftrightarrow> \<not> b"
  by (simp add: config_check_def)

lemma parse_hex_Some: "parse_hex n s = Some bs \<longleftrightarrow> is_hex_text (2 * n) s \<and> bs = from_hex s"
  by (auto simp: parse_hex_def)

lemma load_deployment_ok [reader_intros]:
  assumes load: "load_deployment pc env = Inr d"
  shows "deployment_ok pc d"
proof -
  from load obtain network initTxid initHeight openHeight closeHeight specHash ns
    where net: "js_in network (pc_NETWORK pc)"
    and txid: "optionalHash env ''TANDEM_INIT_TXID'' = Inr initTxid"
    and heights: "optionalInteger env ''TANDEM_INIT_HEIGHT'' = Inr initHeight"
      "optionalInteger env ''TANDEM_OPEN_HEIGHT'' = Inr openHeight"
      "optionalInteger env ''TANDEM_CLOSE_HEIGHT'' = Inr closeHeight"
    and spec: "env_hash env ''TANDEM_SPEC_HASH'' = Inr specHash"
    and checks: "\<not> (initTxid = None \<and> (initHeight \<noteq> None \<or> openHeight \<noteq> None \<or> closeHeight \<noteq> None))"
      "\<not> ((openHeight = None) \<noteq> (closeHeight = None))"
      "\<not> (openHeight \<noteq> None \<and> map_option int closeHeight \<noteq> Some (int (the openHeight) + pc_FOUNDING_WINDOW pc))"
      "\<not> (initHeight \<noteq> None \<and> openHeight \<noteq> None \<and>
          int (the openHeight) - int (the initHeight) < pc_INIT_LEAD pc)"
    and ns: "(case initTxid of
              None \<Rightarrow> Inr None
            | Some txid \<Rightarrow>
                bindE (of_option (LibraryError ''hexToBytes'') (parse_hex 32 txid)) (\<lambda>txidBytes.
                bindE (of_option (LibraryError ''hexToBytes'') (parse_hex 32 specHash)) (\<lambda>specBytes.
                bindE (pc_namespaceCommitment pc (js_get (pc_NETWORK pc) network) txidBytes specBytes) (\<lambda>commitment.
                Inr (Some (to_hex commitment)))))) = Inr ns"
    and d: "d = \<lparr>dc_protocolId = map_option (\<lambda>txid. ''tndm:'' @ network @ '':'' @ txid) initTxid,
          dc_network = network, dc_networkCode = js_get (pc_NETWORK pc) network, dc_initTxid = initTxid,
          dc_initHeight = initHeight, dc_openHeight = openHeight, dc_closeHeight = closeHeight,
          dc_specHash = specHash, dc_namespace = ns\<rparr>"
    unfolding load_deployment_def Let_def bindE_Inr_iff config_check_Inr parseNetwork_def
    by (force split: if_splits)
  note read = optionalHash_Inr [OF txid] env_hash_Inr [OF spec] heights [THEN optionalInteger_safe]
  show ?thesis
    using net read checks ns
    by (cases initTxid; cases openHeight; cases initHeight)
      (auto simp: d deployment_ok_def parse_hex_Some)
qed

lemma load_agreement_keys_ok [reader_intros]:
  "load_agreement_keys env = Inr (k, priv, pub) \<Longrightarrow>
     pred_option KEY_ID k \<and> pred_option (is_hex_text 64) priv \<and> pred_option (is_hex_text 64) pub \<and>
     (k = None \<longrightarrow> priv = None \<and> pub = None)"
  by (auto simp: load_agreement_keys_def Let_def HASH_HEX_def)

lemma load_catalog_ok [reader_intros]:
  "load_catalog env = Inr c \<Longrightarrow>
     pred_option (\<lambda>k. 32 \<le> length (cc_token k) \<and> 32 \<le> length (cc_cursorSecret k)) c"
  by (auto simp: load_catalog_def Let_def split: option.splits)

lemma load_bitcoin_ok [reader_intros]:
  "load_bitcoin env network = Inr b \<Longrightarrow>
     bc_expectedChain b = expectedChain network \<and>
     bc_rpcUrl b \<noteq> [] \<and> bc_rpcUser b \<noteq> [] \<and> bc_rpcPassword b \<noteq> []"
  by (auto simp: load_bitcoin_def dest: required_Inr)

lemma load_database_ok [reader_intros]:
  "load_database env = Inr b \<Longrightarrow>
     dbc_host b \<noteq> [] \<and> dbc_username b \<noteq> [] \<and> dbc_password b \<noteq> [] \<and> dbc_database b \<noteq> []"
  by (auto simp: load_database_def dest: required_Inr)

lemma is_safe_max: "is_safe n \<Longrightarrow> is_safe (max 1 n)"
  by (simp add: is_safe_def)

lemma load_sync_ok [reader_intros]:
  assumes "load_sync env = Inr s"
  shows "1 \<le> sc_batchBlocks s \<and> 1 \<le> sc_fetchConcurrency s \<and>
     list_all is_safe [sc_pollIntervalMs s, sc_initScanDepth s, sc_batchBlocks s, sc_fetchConcurrency s]"
proof -
  from assms obtain poll depth batch conc
    where read: "integer env ''TANDEM_SYNC_POLL_MS'' (Some 5000) = Inr poll"
      "integer env ''TANDEM_INIT_SCAN_DEPTH'' (Some 144) = Inr depth"
      "integer env ''TANDEM_SYNC_BATCH_BLOCKS'' (Some 100) = Inr batch"
      "integer env ''TANDEM_SYNC_FETCH_CONCURRENCY'' (Some 4) = Inr conc"
    and s: "sc_pollIntervalMs s = poll" "sc_initScanDepth s = depth"
      "sc_batchBlocks s = max 1 batch" "sc_fetchConcurrency s = max 1 conc"
    by (auto simp: load_sync_def)
  have "is_safe 5000" "is_safe 144" "is_safe 100" "is_safe 4" by (simp_all add: is_safe_def)
  with read have "is_safe poll" "is_safe depth" "is_safe batch" "is_safe conc"
    by (auto dest!: integer_safe)
  then show ?thesis using is_safe_max by (simp add: s)
qed

lemma load_verification_ok [reader_intros]:
  "load_verification pf env u = Inr v \<Longrightarrow>
     trusted_ok (vf_pipelineATrustedKeys v) \<and> trusted_ok (vf_pipelineBTrustedKeys v) \<and>
     vf_pipelineBBaseUrl v = u"
  by (auto simp: load_verification_def dest: trustedKeys_Inr)

lemma loadConfiguration_sync:
  "loadConfiguration pc pf env = Inr c \<Longrightarrow> 1 \<le> sc_batchBlocks (cfg_sync c) \<and> 1 \<le> sc_fetchConcurrency (cfg_sync c)"
  by (auto simp: loadConfiguration_def dest: load_sync_ok)


section \<open>A small environment\<close>

definition demo_constants :: protocol_constants where
  "demo_constants =
     \<lparr>pc_NETWORK = [(''mainnet'', 0), (''signet'', 1), (''testnet4'', 2), (''regtest'', 3)],
      pc_FOUNDING_WINDOW = 4320, pc_INIT_LEAD = 1008,
      pc_namespaceCommitment = (\<lambda>code txid spec.
        case code of None \<Rightarrow> Inl (LibraryError ''network'') | Some n \<Rightarrow> Inr (of_nat n # tl txid))\<rparr>"

definition demo_platform :: platform where
  "demo_platform = \<lparr>pf_json_parse = (\<lambda>_. None), pf_url_parse = (\<lambda>_. None)\<rparr>"

definition demo_environment :: environment where
  "demo_environment = map_of
     [(''TANDEM_NETWORK'', '' regtest ''),
      (''TANDEM_INIT_TXID'', replicate 64 CHR ''7''),
      (''TANDEM_OPEN_HEIGHT'', ''2000''), (''TANDEM_CLOSE_HEIGHT'', ''6320''),
      (''TANDEM_SPEC_HASH'', replicate 64 CHR ''5''),
      (''BITCOIN_RPC_URL'', ''http://127.0.0.1:18443''), (''BITCOIN_RPC_USER'', ''u''),
      (''BITCOIN_RPC_PASSWORD'', ''p''), (''MYSQL_HOST'', ''db''), (''MYSQL_USER'', ''u''),
      (''MYSQL_PASSWORD'', ''p''), (''MYSQL_DATABASE'', ''tandem''),
      (''TANDEM_SYNC_BATCH_BLOCKS'', ''0'')]"

lemma char_code_Char:
  "char_code (Char b0 b1 b2 b3 b4 b5 b6 b7) = horner_sum of_bool 2 [b0, b1, b2, b3, b4, b5, b6, b7]"
  by (simp add: char_code_def)

lemmas text_evaluation =
  char_code_Char trim_def is_space_def to_lower_def lower_char_def dropWhile_replicate list_all_iff
  is_hex_text_def is_lower_hex_char_def is_digit_def all_digits_def number_of_text_def digit_val_def
  is_safe_def

lemmas reader_evaluation =
  required_def optional_def integer_def optionalInteger_def env_hash_def optionalHash_def
  optionalCommit_def env_boolean_def trustedKeys_def baseUrl_def parseNetwork_def config_check_def
  HASH_HEX_def COMMIT_HEX_def

lemma demo_loads_deployment:
  "load_deployment demo_constants demo_environment =
     Inr \<lparr>dc_protocolId = Some (''tndm:regtest:'' @ replicate 64 CHR ''7''), dc_network = ''regtest'',
       dc_networkCode = Some 3, dc_initTxid = Some (replicate 64 CHR ''7''), dc_initHeight = None,
       dc_openHeight = Some 2000, dc_closeHeight = Some 6320, dc_specHash = replicate 64 CHR ''5'',
       dc_namespace = Some (to_hex (3 # tl (from_hex (replicate 64 CHR ''7''))))\<rparr>"
  by (simp add: load_deployment_def reader_evaluation text_evaluation demo_constants_def
      demo_environment_def js_in_def parse_hex_def)

text \<open>The readers of everything but the deployment, in an environment with the same service variables.\<close>

definition same_service :: "environment \<Rightarrow> bool" where
  "same_service env =
     (\<forall>k. k \<notin> set [''TANDEM_NETWORK'', ''TANDEM_INIT_TXID'', ''TANDEM_OPEN_HEIGHT'', ''TANDEM_CLOSE_HEIGHT''] \<longrightarrow>
        env k = demo_environment k)"

lemma same_serviceD:
  "same_service env \<Longrightarrow>
     k \<notin> set [''TANDEM_NETWORK'', ''TANDEM_INIT_TXID'', ''TANDEM_OPEN_HEIGHT'', ''TANDEM_CLOSE_HEIGHT''] \<Longrightarrow>
     env k = demo_environment k"
  by (simp add: same_service_def)

lemmas service_evaluation = reader_evaluation text_evaluation demo_environment_def same_serviceD

lemma service_optional:
  assumes "same_service env"
  shows "load_agreement_keys env = Inr (None, None, None)"
    "optionalCommit env ''TANDEM_PARSER_COMMIT'' = Inr None"
    "optionalCommit env ''TANDEM_INDEXER_COMMIT'' = Inr None"
    "optionalHash env ''TANDEM_PARSER_BINARY_SHA256'' = Inr None"
    "optionalHash env ''TANDEM_INDEXER_BINARY_SHA256'' = Inr None"
    "baseUrl pf env ''PIPELINE_B_BASE_URL'' = Inr None"
    "load_catalog env = Inr None"
    "integer env ''PORT'' (Some 3021) = Inr 3021"
    "integer env ''READINESS_MAX_BLOCK_LAG'' (Some 2) = Inr 2"
  using assms by (simp_all add: load_agreement_keys_def load_catalog_def service_evaluation)

lemma service_bitcoin: "same_service env \<Longrightarrow> \<exists>b. load_bitcoin env network = Inr b"
  by (simp add: load_bitcoin_def service_evaluation)

lemma service_database: "same_service env \<Longrightarrow> \<exists>b. load_database env = Inr b"
  by (simp add: load_database_def service_evaluation)

lemma service_sync: "same_service env \<Longrightarrow> \<exists>b. load_sync env = Inr b"
  by (simp add: load_sync_def service_evaluation)

lemma service_verification: "same_service env \<Longrightarrow> \<exists>v. load_verification pf env u = Inr v"
  by (simp add: load_verification_def service_evaluation)

lemma service_loads:
  assumes env: "same_service env" and "load_deployment pc env = Inr d"
  shows "\<exists>c. loadConfiguration pc pf env = Inr c \<and> cfg_deployment c = d \<and>
    bc_expectedChain (cfg_bitcoin c) = expectedChain (dc_network d)"
proof -
  obtain b db sy v where "load_bitcoin env (dc_network d) = Inr b" "load_database env = Inr db"
    "load_sync env = Inr sy" "load_verification pf env None = Inr v"
    using service_bitcoin service_database service_sync service_verification env by metis
  then show ?thesis
    using assms(2) load_bitcoin_ok by (simp add: loadConfiguration_def service_optional [OF env])
qed

lemma demo_loads: "\<exists>c. loadConfiguration demo_constants demo_platform demo_environment = Inr c"
  using service_loads [OF _ demo_loads_deployment] by (auto simp: same_service_def)


text \<open>
  The check of the network name is a JavaScript \<open>in\<close>, which also finds the members of
  \<open>Object.prototype\<close>: a name such as \<open>toString\<close> is accepted, although no network has it.
\<close>

definition prototype_environment :: environment where
  "prototype_environment =
     demo_environment(''TANDEM_NETWORK'' \<mapsto> ''toString'', ''TANDEM_INIT_TXID'' := None,
       ''TANDEM_OPEN_HEIGHT'' := None, ''TANDEM_CLOSE_HEIGHT'' := None)"

lemma prototype_deployment:
  "load_deployment demo_constants prototype_environment =
     Inr \<lparr>dc_protocolId = None, dc_network = ''toString'', dc_networkCode = None, dc_initTxid = None,
       dc_initHeight = None, dc_openHeight = None, dc_closeHeight = None,
       dc_specHash = replicate 64 CHR ''5'', dc_namespace = None\<rparr>"
  by (simp add: load_deployment_def reader_evaluation text_evaluation prototype_environment_def
      demo_environment_def demo_constants_def js_in_def object_prototype_members_def)

lemma loadConfiguration_inherited_network:
  "\<exists>c. loadConfiguration demo_constants demo_platform prototype_environment = Inr c \<and>
     dc_network (cfg_deployment c) = ''toString'' \<and> dc_networkCode (cfg_deployment c) = None \<and>
     bc_expectedChain (cfg_bitcoin c) = ''toString''"
proof -
  have "same_service prototype_environment" by (simp add: same_service_def prototype_environment_def)
  from service_loads [OF this prototype_deployment, of demo_platform] show ?thesis
    by (auto simp: expectedChain_def)
qed

end
