(* ===== verification/Block_Reducer.thy ===== *)
theory Block_Reducer
  imports Tandem_Package State_Engine
begin

text \<open>
  \<open>src/indexer/block-reducer.ts\<close>: how one canonical block changes the objects.  The records the
  module exports, the working state it mutates (the object map, the index of active outpoints, the
  undo snapshots and the rows to write), and every function of the module in the order of the file,
  ending in \<open>reduceBlock\<close>.  The package and the cryptography are the parameters \<open>L\<close> and \<open>C\<close>.
  A cast such as \<open>get(key) as ObjectRecord\<close> of an absent key fails when a property is read: \<open>TypeError\<close>.
\<close>

section \<open>Records\<close>

record object_record =
  or_objectKey :: string
  or_createTxid :: string
  or_createHeight :: int
  or_founding :: bool
  or_status :: object_status
  or_stateSequence :: int
  or_currentOutpoint :: "string option"
  or_currentHeight :: "int option"
  or_key0 :: string
  or_key1 :: string
  or_terminalTxid :: "string option"
  or_chapterCount :: int

record binding_record =
  bd_networkCode :: nat
  bd_initTxid :: string
  bd_specHash :: string
  bd_namespace :: string

record init_activation =
  ia_txid :: string
  ia_height :: int
  ia_blockHash :: string
  ia_openHeight :: "int option"
  ia_closeHeight :: "int option"
  ia_valid :: bool
  ia_reason :: nat

record event_record =
  er_txid :: string
  er_wtxid :: string
  er_txIndex :: nat
  er_eventIndex :: nat
  er_subIndex :: nat
  er_eventType :: nat
  er_validityClass :: nat
  er_reason :: nat
  er_namespace :: string
  er_objectKey :: "string option"
  er_stateSequence :: int
  er_predecessorOutpoint :: "string option"
  er_successorOutpoint :: "string option"
  er_key0 :: "string option"
  er_key1 :: "string option"
  er_commitment :: "string option"
  er_markerPayload :: "string option"

record state_row =
  sr_outpoint :: string
  sr_objectKey :: string
  sr_sequence :: int
  sr_key0 :: string
  sr_key1 :: string

record chapter_row =
  cr_objectKey :: string
  cr_sequence :: int
  cr_txid :: string
  cr_kind :: int
  cr_commitment :: string

record reduced_transaction =
  rt_txid :: string
  rt_wtxid :: string
  rt_txIndex :: nat
  rt_version :: int
  rt_locktime :: int

type_synonym object_map = "(string, object_record) js_map"
type_synonym undo_map = "(string, object_record option) js_map"

record reduced_block =
  rb_height :: int
  rb_hash :: string
  rb_previousHash :: "string option"
  rb_time :: int
  rb_activation :: init_activation
  rb_initConfirmed :: bool
  rb_events :: "event_record list"
  rb_transactions :: "reduced_transaction list"
  rb_objects :: object_map
  rb_undo :: undo_map
  rb_newStates :: "state_row list"
  rb_spentOutpoints :: "(string \<times> string) list"
  rb_chapters :: "chapter_row list"
  rb_eventRoot :: string
  rb_objectStateRoot :: string
  rb_chainedRoot :: string
  rb_foundingCreated :: int
  rb_allObjects :: int
  rb_activeObjects :: int

record working_state =
  ws_objects :: object_map
  ws_activeByOutpoint :: "(string, string) js_map"
  ws_undo :: undo_map
  ws_newStates :: "state_row list"
  ws_spentOutpoints :: "(string \<times> string) list"
  ws_chapters :: "chapter_row list"

definition NO_SEQUENCE :: int where "NO_SEQUENCE = 0xffffffff"
definition NO_INDEX :: nat where "NO_INDEX = 0xffffffff"
definition ZERO32 :: bytes where "ZERO32 = replicate 32 0"
definition ZERO33 :: bytes where "ZERO33 = replicate 33 0"
definition ZERO36 :: bytes where "ZERO36 = replicate 36 0"

fun STATUS_CODE :: "object_status \<Rightarrow> nat" where
  "STATUS_CODE Active = 0"
| "STATUS_CODE Closed = 1"
| "STATUS_CODE Refunded = 2"
| "STATUS_CODE ExitedNoncanonical = 3"

text \<open>A string that is tested for truth: an empty one is false.\<close>

definition truthy :: "string option \<Rightarrow> bool" where
  "truthy x = (case x of None \<Rightarrow> False | Some s \<Rightarrow> s \<noteq> [])"

section \<open>Outpoints\<close>

text \<open>
  \<open>txid:vout\<close> as the wire's 36 bytes.  \<open>Number(vout)\<close> is read for decimal digits, and everything
  else counts as \<open>NaN\<close>, which \<open>writeUInt32LE\<close> writes as zero.
\<close>

definition outpointWire :: "string \<Rightarrow> bytes result" where
  "outpointWire outpoint =
     (let pieces = split_on CHR '':'' outpoint;
          vout = (case nth_opt pieces 1 of None \<Rightarrow> 0
                  | Some s \<Rightarrow> if all_digits s then number_of_text s else 0)
      in bindE (wire32 (hd pieces)) (\<lambda>txid.
           if vout \<le> 0xffffffff then Inr (txid @ le_bytes 4 vout) else Inl RangeError))"

definition display_outpoint :: "string \<Rightarrow> nat \<Rightarrow> string" where
  "display_outpoint txid vout = txid @ '':'' @ nat_text vout"

definition inputDisplayOutpoint :: "bitcoin_input \<Rightarrow> string option" where
  "inputDisplayOutpoint i =
     (case (in_txid i, in_vout i) of
        (Some txid, Some vout) \<Rightarrow> Some (display_outpoint txid vout)
      | _ \<Rightarrow> None)"

section \<open>Marker candidates\<close>

record candidate =
  cd_vout :: nat
  cd_payload :: bytes
  cd_complete :: bool

definition starts_with :: "string \<Rightarrow> string \<Rightarrow> bool" where
  "starts_with p s = (take (length p) s = p)"

definition declaredLength :: "bytes \<Rightarrow> int result" where
  "declaredLength script =
     (let push = unat (byte_at script 1)
      in if 1 \<le> push \<and> push \<le> 75 then Inr (int push)
         else if push = 0x4c
         then Inr (case nth_opt script 2 of None \<Rightarrow> -1 | Some b \<Rightarrow> int (unat b))
         else if push = 0x4d then Inr (int (unat (byte_at script 2) + 256 * unat (byte_at script 3)))
         else if push = 0x4e
         then (if length (take 4 (drop 2 script)) = 4 then Inr (int (le_value (take 4 (drop 2 script))))
               else Inl RangeError)
         else Inr (-1))"

fun candidates_of ::
  "tandem_lib \<Rightarrow> string \<Rightarrow> string \<Rightarrow> bitcoin_output list \<Rightarrow> candidate list result" where
  "candidates_of L txid initTxid [] = Inr []"
| "candidates_of L txid initTxid (out # outs) =
     (if \<not> starts_with ''6a'' (out_scriptPubKeyHex out) then candidates_of L txid initTxid outs
      else
        let script = from_hex (out_scriptPubKeyHex out);
            (is_candidate, payload) = lib_inspectMarkerScript L script
        in if \<not> is_candidate then candidates_of L txid initTxid outs
           else if nth_opt payload 6 = Some 0x00 \<and> txid \<noteq> initTxid
           then candidates_of L txid initTxid outs
           else bindE (declaredLength script) (\<lambda>n.
             bindE (candidates_of L txid initTxid outs) (\<lambda>rest.
               Inr (\<lparr>cd_vout = out_n out, cd_payload = payload,
                     cd_complete = (n = int (length payload))\<rparr> # rest))))"

definition remainingCandidates ::
  "tandem_lib \<Rightarrow> bitcoin_transaction \<Rightarrow> string \<Rightarrow> candidate list result" where
  "remainingCandidates L t initTxid = candidates_of L (tx_txid t) initTxid (tx_outputs t)"

definition attemptedType :: "candidate \<Rightarrow> nat" where
  "attemptedType c =
     (case nth_opt (cd_payload c) 6 of
        None \<Rightarrow> EVENT_INVALID
      | Some opcode \<Rightarrow>
          if nth_opt (cd_payload c) 4 \<noteq> Some 0x01 \<or> unat opcode > 4 then EVENT_INVALID
          else unat opcode)"

definition populationNamespace :: "candidate \<Rightarrow> bytes option" where
  "populationNamespace c =
     (case nth_opt (cd_payload c) 6 of
        None \<Rightarrow> None
      | Some opcode \<Rightarrow>
          if \<not> cd_complete c \<or> nth_opt (cd_payload c) 4 \<noteq> Some 0x01 \<or> unat opcode < 1 \<or>
             unat opcode > 4 \<or> length (cd_payload c) \<noteq> PAYLOAD_LENGTH (unat opcode)
          then None
          else Some (take 32 (drop 8 (cd_payload c))))"

section \<open>What goes to the package\<close>

definition snapshot :: "object_record \<Rightarrow> object_snapshot result" where
  "snapshot r =
     bindE (if truthy (or_currentOutpoint r) then outpointWire (the (or_currentOutpoint r))
            else Inr ZERO36) (\<lambda>outpoint.
     bindE (if truthy (or_terminalTxid r) then wire32 (the (or_terminalTxid r))
            else Inr ZERO32) (\<lambda>terminal.
       Inr \<lparr>os_objectKey = from_hex (or_objectKey r), os_founding = or_founding r,
            os_status = STATUS_CODE (or_status r), os_createHeight = or_createHeight r,
            os_stateSequence = or_stateSequence r, os_currentOutpoint = outpoint,
            os_key0 = from_hex (or_key0 r), os_key1 = from_hex (or_key1 r),
            os_terminalTxidWire = terminal, os_chapterCount = or_chapterCount r\<rparr>))"

definition carrierEvidence :: "object_record \<Rightarrow> carrier_evidence result" where
  "carrierEvidence r =
     bindE (of_option TypeError (or_currentOutpoint r)) (\<lambda>o'.
     bindE (outpointWire o') (\<lambda>outpoint.
       Inr \<lparr>ce_objectKey = from_hex (or_objectKey r), ce_outpoint = outpoint,
            ce_stateSequence = or_stateSequence r, ce_key0 = from_hex (or_key0 r),
            ce_key1 = from_hex (or_key1 r), ce_confirmedHeight = nullish (or_currentHeight r) 0\<rparr>))"

definition isRelevant ::
  "tandem_lib \<Rightarrow> bitcoin_transaction \<Rightarrow> (string, string) js_map \<Rightarrow> string \<Rightarrow> bool" where
  "isRelevant L t activeByOutpoint initTxid =
     (if tx_txid t = initTxid then True
      else if list_ex (\<lambda>out. starts_with ''6a'' (out_scriptPubKeyHex out) \<and>
                fst (lib_inspectMarkerScript L (from_hex (out_scriptPubKeyHex out)))) (tx_outputs t)
      then True
      else list_ex (\<lambda>i. case inputDisplayOutpoint i of None \<Rightarrow> False
                   | Some p \<Rightarrow> js_get activeByOutpoint p \<noteq> None) (tx_inputs t))"

definition initHeights ::
  "tandem_lib \<Rightarrow> bitcoin_transaction \<Rightarrow> nat \<Rightarrow> (int \<times> int) option result" where
  "initHeights L t networkCode =
     bindE (remainingCandidates L t (tx_txid t)) (\<lambda>markers.
       case markers of
         [m] \<Rightarrow>
           (case find (\<lambda>out. out_n out = cd_vout m) (tx_outputs t) of
              None \<Rightarrow> Inr None
            | Some out \<Rightarrow>
                (case lib_parseMarkerScript L (from_hex (out_scriptPubKeyHex out)) networkCode of
                   Some (InitMarker openHeight closeHeight _) \<Rightarrow> Inr (Some (openHeight, closeHeight))
                 | _ \<Rightarrow> Inr None))
       | _ \<Rightarrow> Inr None)"

section \<open>The working state\<close>

definition touch :: "working_state \<Rightarrow> string \<Rightarrow> working_state" where
  "touch s k =
     (if js_get (ws_undo s) k = None
      then s\<lparr>ws_undo := js_set k (js_get (ws_objects s) k) (ws_undo s)\<rparr> else s)"

text \<open>The current outpoint of a record leaves the index and is recorded as spent.\<close>

definition spend_outpoint :: "working_state \<Rightarrow> object_record \<Rightarrow> string \<Rightarrow> working_state" where
  "spend_outpoint s r txid =
     (if truthy (or_currentOutpoint r)
      then s\<lparr>ws_activeByOutpoint := js_delete (the (or_currentOutpoint r)) (ws_activeByOutpoint s),
             ws_spentOutpoints := ws_spentOutpoints s @ [(the (or_currentOutpoint r), txid)]\<rparr>
      else s)"

definition terminate ::
  "working_state \<Rightarrow> object_record \<Rightarrow> object_status \<Rightarrow> string \<Rightarrow> int \<Rightarrow> working_state" where
  "terminate s r status txid stateSequence =
     (let s1 = spend_outpoint (touch s (or_objectKey r)) r txid
      in s1\<lparr>ws_objects := js_set (or_objectKey r)
             (r\<lparr>or_status := status, or_stateSequence := stateSequence, or_currentOutpoint := None,
                or_currentHeight := None, or_terminalTxid := Some txid\<rparr>) (ws_objects s1)\<rparr>)"

definition advance ::
  "working_state \<Rightarrow> object_record \<Rightarrow> string \<Rightarrow> int \<Rightarrow> int \<Rightarrow> string \<Rightarrow> string \<Rightarrow>
     (int \<times> string) option \<Rightarrow> working_state" where
  "advance s r txid height sequence key0 key1 chapter =
     (let successor = display_outpoint txid 1;
          s1 = spend_outpoint (touch s (or_objectKey r)) r txid
      in s1\<lparr>ws_activeByOutpoint := js_set successor (or_objectKey r) (ws_activeByOutpoint s1),
            ws_objects := js_set (or_objectKey r)
              (r\<lparr>or_stateSequence := sequence, or_currentOutpoint := Some successor,
                 or_currentHeight := Some height, or_key0 := key0, or_key1 := key1,
                 or_chapterCount := or_chapterCount r + (if chapter \<noteq> None then 1 else 0)\<rparr>)
              (ws_objects s1),
            ws_newStates := ws_newStates s1 @
              [\<lparr>sr_outpoint = successor, sr_objectKey = or_objectKey r, sr_sequence = sequence,
                sr_key0 = key0, sr_key1 = key1\<rparr>],
            ws_chapters := (case chapter of None \<Rightarrow> ws_chapters s1
              | Some (kind, commitment) \<Rightarrow> ws_chapters s1 @
                  [\<lparr>cr_objectKey = or_objectKey r, cr_sequence = sequence, cr_txid = txid,
                    cr_kind = kind, cr_commitment = commitment\<rparr>])\<rparr>)"

text \<open>The \<open>CREATE\<close> branch of \<open>applyValid\<close>: a new object and its carrier.\<close>

definition create_object ::
  "working_state \<Rightarrow> string \<Rightarrow> string \<Rightarrow> int \<Rightarrow> bool \<Rightarrow> string \<Rightarrow> string \<Rightarrow> working_state" where
  "create_object s objectKey txid height founding key0 key1 =
     (let s1 = touch s objectKey; successor = display_outpoint txid 1
      in s1\<lparr>ws_objects := js_set objectKey
              \<lparr>or_objectKey = objectKey, or_createTxid = txid, or_createHeight = height,
               or_founding = founding, or_status = Active, or_stateSequence = 0,
               or_currentOutpoint = Some successor, or_currentHeight = Some height,
               or_key0 = key0, or_key1 = key1, or_terminalTxid = None, or_chapterCount = 0\<rparr>
              (ws_objects s1),
            ws_activeByOutpoint := js_set successor objectKey (ws_activeByOutpoint s1),
            ws_newStates := ws_newStates s1 @
              [\<lparr>sr_outpoint = successor, sr_objectKey = objectKey, sr_sequence = 0,
                sr_key0 = key0, sr_key1 = key1\<rparr>]\<rparr>)"

section \<open>Valid operations\<close>

record event_base =
  eb_txid :: string
  eb_wtxid :: string
  eb_txIndex :: nat
  eb_eventIndex :: nat
  eb_subIndex :: nat
  eb_reason :: nat
  eb_markerPayload :: "string option"

definition make_event ::
  "event_base \<Rightarrow> nat \<Rightarrow> nat \<Rightarrow> string \<Rightarrow> string option \<Rightarrow> int \<Rightarrow> string option \<Rightarrow> string option \<Rightarrow>
     string option \<Rightarrow> string option \<Rightarrow> string option \<Rightarrow> event_record" where
  "make_event b eventType validityClass ns objectKey stateSequence predecessor successor key0 key1
     commitment =
     \<lparr>er_txid = eb_txid b, er_wtxid = eb_wtxid b, er_txIndex = eb_txIndex b,
      er_eventIndex = eb_eventIndex b, er_subIndex = eb_subIndex b, er_eventType = eventType,
      er_validityClass = validityClass, er_reason = eb_reason b, er_namespace = ns,
      er_objectKey = objectKey, er_stateSequence = stateSequence,
      er_predecessorOutpoint = predecessor, er_successorOutpoint = successor, er_key0 = key0,
      er_key1 = key1, er_commitment = commitment, er_markerPayload = eb_markerPayload b\<rparr>"

definition revealed :: "bitcoin_transaction \<Rightarrow> nat \<Rightarrow> string" where
  "revealed t index =
     (case nth_opt (tx_inputs t) index of
        None \<Rightarrow> []
      | Some i \<Rightarrow> to_lower (nullish (nth_opt (in_witness i) 1) []))"

text \<open>
  \<open>(marker as Extract<Marker, { sequence: number }>).sequence\<close>: reading it of \<open>null\<close> throws.  An
  \<open>INIT\<close> or \<open>CREATE\<close> marker has no such property; the package never returns one with a \<open>MARK\<close>,
  \<open>ROTATE\<close> or \<open>CLOSE\<close> event, and the model throws where the code would carry on with \<open>undefined\<close>.
\<close>

definition marker_sequence :: "marker option \<Rightarrow> int result" where
  "marker_sequence m =
     (case m of
        Some (MarkMarker n _ _) \<Rightarrow> Inr n
      | Some (RotateMarker n) \<Rightarrow> Inr n
      | Some (CloseMarker n _) \<Rightarrow> Inr n
      | _ \<Rightarrow> Inl TypeError)"

definition applyValid ::
  "tandem_lib \<Rightarrow> binding_record \<Rightarrow> int \<Rightarrow> int \<Rightarrow> working_state \<Rightarrow> bitcoin_transaction \<Rightarrow> int \<Rightarrow>
     validation_event \<Rightarrow> marker option \<Rightarrow> event_base \<Rightarrow> (working_state \<times> event_record) result" where
  "applyValid L binding openHeight closeHeight s t height event marker b =
     (let emit = (\<lambda>eventType. make_event b eventType VALID_OPERATION (bd_namespace binding))
      in case ve_operation event of
        OpInit \<Rightarrow>
          Inr (s, emit EVENT_INIT None NO_SEQUENCE None None None None
            (case marker of Some (InitMarker _ _ specHash) \<Rightarrow> Some (to_hex specHash) | _ \<Rightarrow> None))
      | OpCreate \<Rightarrow>
          bindE (wire32 (tx_txid t)) (\<lambda>txid.
          bindE (lib_objectKeyFromWire L (from_hex (bd_namespace binding)) txid) (\<lambda>key.
            let objectKey = to_hex key; key0 = revealed t 0; key1 = revealed t 1;
                founding = (openHeight \<le> height \<and> height < closeHeight)
            in Inr (create_object s objectKey (tx_txid t) height founding key0 key1,
                 emit EVENT_CREATE (Some objectKey) 0 None (Some (display_outpoint (tx_txid t) 1))
                   (Some key0) (Some key1) None)))
      | OpExited \<Rightarrow> Inl (PlainError ''unexpected valid operation EXITED_NONCANONICAL'')
      | OpInvalid \<Rightarrow> Inl (PlainError ''unexpected valid operation INVALID'')
      | operation \<Rightarrow>
          bindE (of_option TypeError (ve_objectKey event)) (\<lambda>key.
          let objectKey = to_hex key
          in bindE (of_option TypeError (js_get (ws_objects s) objectKey)) (\<lambda>r.
            if operation = OpRefund
            then Inr (terminate s r Refunded (tx_txid t) (or_stateSequence r),
              emit EVENT_REFUND (Some objectKey) (or_stateSequence r) (or_currentOutpoint r) None
                (Some (or_key0 r)) (Some (or_key1 r)) None)
            else bindE (marker_sequence marker) (\<lambda>sequence.
              case marker of
                Some (CloseMarker _ commitment) \<Rightarrow>
                  Inr (terminate s r Closed (tx_txid t) sequence,
                    emit EVENT_CLOSE (Some objectKey) sequence (or_currentOutpoint r) None
                      (Some (or_key0 r)) (Some (or_key1 r)) (Some (to_hex commitment)))
              | Some (MarkMarker _ kind commitment) \<Rightarrow>
                  Inr (advance s r (tx_txid t) height sequence (or_key0 r) (or_key1 r)
                      (Some (kind, to_hex commitment)),
                    emit EVENT_MARK (Some objectKey) sequence (or_currentOutpoint r)
                      (Some (display_outpoint (tx_txid t) 1)) (Some (or_key0 r)) (Some (or_key1 r))
                      (Some (to_hex commitment)))
              | _ \<Rightarrow>
                  let key0 = revealed t 1; key1 = revealed t 2
                  in Inr (advance s r (tx_txid t) height sequence key0 key1 None,
                    emit EVENT_ROTATE (Some objectKey) sequence (or_currentOutpoint r)
                      (Some (display_outpoint (tx_txid t) 1)) (Some key0) (Some key1) None)))))"

section \<open>Classification of a transaction\<close>

definition consumed_records ::
  "working_state \<Rightarrow> bitcoin_transaction \<Rightarrow> object_record option list" where
  "consumed_records s t =
     map (js_get (ws_objects s))
       (List.map_filter (js_get (ws_activeByOutpoint s))
         (List.map_filter inputDisplayOutpoint (tx_inputs t)))"

text \<open>One pass of \<open>result.events.forEach\<close>.\<close>

definition classify_event ::
  "tandem_lib \<Rightarrow> binding_record \<Rightarrow> int \<Rightarrow> int \<Rightarrow> bitcoin_transaction \<Rightarrow> int \<Rightarrow> candidate list \<Rightarrow>
     marker option \<Rightarrow> event_base \<Rightarrow> working_state \<Rightarrow> validation_event \<Rightarrow>
     (working_state \<times> event_record) result" where
  "classify_event L binding openHeight closeHeight t height candidates marker b s event =
     (let ns = from_hex (bd_namespace binding);
          configuredInit = (tx_txid t = bd_initTxid binding);
          markerCandidate = (case candidates of [c] \<Rightarrow> Some c | _ \<Rightarrow> None);
          population = (case markerCandidate of None \<Rightarrow> ZERO32
            | Some c \<Rightarrow> nullish (populationNamespace c) ZERO32)
      in if ve_validityClass event = VALID_OPERATION
         then applyValid L binding openHeight closeHeight s t height event marker b
         else if ve_validityClass event = TERMINAL_NONCANONICAL
         then bindE (of_option TypeError (ve_objectKey event)) (\<lambda>raw.
           let key = to_hex raw
           in bindE (of_option TypeError (js_get (ws_objects s) key)) (\<lambda>r.
             Inr (terminate s r ExitedNoncanonical (tx_txid t) (or_stateSequence r),
               make_event b EVENT_EXITED TERMINAL_NONCANONICAL
                 (to_hex (if candidates = [] then ns else population)) (Some key)
                 (or_stateSequence r) (or_currentOutpoint r) None (Some (or_key0 r))
                 (Some (or_key1 r)) None)))
         else Inr (s, make_event b
           (case markerCandidate of None \<Rightarrow> EVENT_INVALID | Some c \<Rightarrow> attemptedType c)
           INVALID_NO_STATE (to_hex (if configuredInit then ns else population))
           None NO_SEQUENCE None None None None None))"

text \<open>The loop over the events of one transaction, with the running \<open>subIndex\<close>.\<close>

fun classify_events ::
  "(event_base \<Rightarrow> working_state \<Rightarrow> validation_event \<Rightarrow> (working_state \<times> event_record) result) \<Rightarrow>
     event_base \<Rightarrow> nat \<Rightarrow> working_state \<Rightarrow> validation_event list \<Rightarrow>
     (working_state \<times> event_record list) result" where
  "classify_events step b n s [] = Inr (s, [])"
| "classify_events step b n s (event # events) =
     bindE (step (b\<lparr>eb_subIndex := n, eb_reason := ve_reason event\<rparr>) s event) (\<lambda>(s1, e).
     bindE (classify_events step b (Suc n) s1 events) (\<lambda>(s2, es). Inr (s2, e # es)))"

definition validation_context_for ::
  "binding_record \<Rightarrow> int \<Rightarrow> int \<Rightarrow> int \<Rightarrow> bytes \<Rightarrow> carrier_evidence list \<Rightarrow> validation_context" where
  "validation_context_for binding initHeight openHeight closeHeight initWire carriers =
     \<lparr>vc_network = bd_networkCode binding, vc_namespace = from_hex (bd_namespace binding),
      vc_initTxidWire = initWire, vc_specHash = from_hex (bd_specHash binding),
      vc_confirmationHeight = initHeight, vc_openHeight = openHeight,
      vc_closeHeight = closeHeight, vc_activeCarriers = carriers\<rparr>"

text \<open>The fields all events of one transaction share (the \<open>base\<close> of the callback).\<close>

definition event_base_for :: "bitcoin_transaction \<Rightarrow> nat \<Rightarrow> candidate list \<Rightarrow> event_base" where
  "event_base_for t txIndex candidates =
     \<lparr>eb_txid = tx_txid t, eb_wtxid = tx_wtxid t, eb_txIndex = txIndex,
      eb_eventIndex = (case candidates of [] \<Rightarrow> NO_INDEX | c # _ \<Rightarrow> cd_vout c),
      eb_subIndex = 0, eb_reason = 0,
      eb_markerPayload = (case candidates of [c] \<Rightarrow> Some (to_hex (cd_payload c)) | _ \<Rightarrow> None)\<rparr>"

definition classifyTransaction ::
  "tandem_lib \<Rightarrow> crypto \<Rightarrow> binding_record \<Rightarrow> int \<times> int \<times> int \<Rightarrow> working_state \<Rightarrow>
     bitcoin_transaction \<Rightarrow> nat \<Rightarrow> int \<Rightarrow> (working_state \<times> event_record list) result" where
  "classifyTransaction L C binding activation s t txIndex height =
     (let (initHeight, openHeight, closeHeight) = activation
      in bindE (buildTransactionEvidence C t height) (\<lambda>evidence.
         bindE (wire32 (bd_initTxid binding)) (\<lambda>initWire.
         bindE (mapE (\<lambda>r. bindE (of_option TypeError r) carrierEvidence) (consumed_records s t))
           (\<lambda>carriers.
         bindE (lib_validate L evidence
             (validation_context_for binding initHeight openHeight closeHeight initWire carriers))
           (\<lambda>result.
           if \<not> vr_relevant result \<or> vr_events result = [] then Inr (s, [])
           else bindE (remainingCandidates L t (bd_initTxid binding)) (\<lambda>candidates.
             classify_events
               (classify_event L binding openHeight closeHeight t height candidates (vr_marker result))
               (event_base_for t txIndex candidates) 0 s (vr_events result)))))))"

section \<open>The block\<close>

definition wire_or :: "('a \<Rightarrow> bytes result) \<Rightarrow> bytes \<Rightarrow> 'a option \<Rightarrow> bytes result" where
  "wire_or f zero x = (case x of None \<Rightarrow> Inr zero | Some v \<Rightarrow> f v)"

definition truthy_part :: "string option \<Rightarrow> string option" where
  "truthy_part x = (if truthy x then x else None)"

definition canonicalEvent :: "event_record \<Rightarrow> bytes \<Rightarrow> int \<Rightarrow> canonical_event result" where
  "canonicalEvent e blockHashWire height =
     bindE (wire32 (er_txid e)) (\<lambda>txid.
     bindE (wire32 (er_wtxid e)) (\<lambda>wtxid.
     bindE (wire_or outpointWire ZERO36 (truthy_part (er_predecessorOutpoint e))) (\<lambda>predecessor.
     bindE (wire_or outpointWire ZERO36 (truthy_part (er_successorOutpoint e))) (\<lambda>successor.
       Inr \<lparr>cev_namespace = from_hex (er_namespace e), cev_blockHashWire = blockHashWire,
            cev_height = height, cev_txIndex = er_txIndex e, cev_eventIndex = er_eventIndex e,
            cev_subIndex = er_subIndex e, cev_eventType = er_eventType e,
            cev_validityClass = er_validityClass e, cev_reason = er_reason e,
            cev_txidWire = txid, cev_wtxidWire = wtxid,
            cev_objectKey = (if truthy (er_objectKey e) then from_hex (the (er_objectKey e)) else ZERO32),
            cev_stateSequence = er_stateSequence e, cev_predecessorOutpoint = predecessor,
            cev_successorOutpoint = successor,
            cev_key0 = (if truthy (er_key0 e) then from_hex (the (er_key0 e)) else ZERO33),
            cev_key1 = (if truthy (er_key1 e) then from_hex (the (er_key1 e)) else ZERO33),
            cev_commitment =
              (if truthy (er_commitment e) then from_hex (the (er_commitment e)) else ZERO32)\<rparr>))))"

definition initial_index :: "object_map \<Rightarrow> (string, string) js_map" where
  "initial_index objects =
     fold (\<lambda>r index. if or_status r = Active \<and> truthy (or_currentOutpoint r)
                     then js_set (the (or_currentOutpoint r)) (or_objectKey r) index else index)
       (js_values objects) []"

definition initial_state :: "object_map \<Rightarrow> working_state" where
  "initial_state objects =
     \<lparr>ws_objects = objects, ws_activeByOutpoint = initial_index objects, ws_undo = [],
      ws_newStates = [], ws_spentOutpoints = [], ws_chapters = []\<rparr>"

text \<open>
  The first half of \<open>reduceBlock\<close>: when there is no activation yet, the configured \<open>INIT\<close> is
  classified on its own; its events are kept only when it is not valid.
\<close>

definition activate ::
  "tandem_lib \<Rightarrow> crypto \<Rightarrow> binding_record \<Rightarrow> init_activation option \<Rightarrow> bitcoin_block \<Rightarrow>
     ordered_transaction list \<Rightarrow> working_state \<Rightarrow>
     (working_state \<times> init_activation \<times> event_record list) result" where
  "activate L C binding activation block ordered s =
     (case activation of
        Some a \<Rightarrow> Inr (s, a, [])
      | None \<Rightarrow>
          bindE (of_option (PlainError ''configured INIT is not in the activation block'')
                  (find (\<lambda>(_, t). tx_txid t = bd_initTxid binding) ordered)) (\<lambda>(txIndex, t).
          bindE (initHeights L t (bd_networkCode binding)) (\<lambda>heights.
          bindE (classifyTransaction L C binding
                   (blk_height block, (case heights of None \<Rightarrow> 0 | Some h \<Rightarrow> fst h),
                    (case heights of None \<Rightarrow> 0 | Some h \<Rightarrow> snd h))
                   s t txIndex (blk_height block)) (\<lambda>(s1, classified).
            let initEvent = nth_opt classified 0;
                valid = (map_option er_validityClass initEvent = Some VALID_OPERATION)
            in Inr (s1,
                 \<lparr>ia_txid = bd_initTxid binding, ia_height = blk_height block,
                  ia_blockHash = blk_hash block, ia_openHeight = map_option fst heights,
                  ia_closeHeight = map_option snd heights, ia_valid = valid,
                  ia_reason = (case initEvent of None \<Rightarrow> 2 | Some e \<Rightarrow> er_reason e)\<rparr>,
                 if valid then [] else classified)))))"

text \<open>The loop over the ordered transactions.\<close>

fun reduce_transactions ::
  "tandem_lib \<Rightarrow> crypto \<Rightarrow> binding_record \<Rightarrow> int \<times> int \<times> int \<Rightarrow> int \<Rightarrow> working_state \<Rightarrow>
     ordered_transaction list \<Rightarrow> (working_state \<times> event_record list) result" where
  "reduce_transactions L C binding heights height s [] = Inr (s, [])"
| "reduce_transactions L C binding heights height s ((txIndex, t) # rest) =
     (if \<not> isRelevant L t (ws_activeByOutpoint s) (bd_initTxid binding)
      then reduce_transactions L C binding heights height s rest
      else bindE (classifyTransaction L C binding heights s t txIndex height) (\<lambda>(s1, es).
           bindE (reduce_transactions L C binding heights height s1 rest) (\<lambda>(s2, es').
             Inr (s2, es @ es'))))"

definition reduce_active ::
  "tandem_lib \<Rightarrow> crypto \<Rightarrow> binding_record \<Rightarrow> init_activation \<Rightarrow> int \<Rightarrow> working_state \<Rightarrow>
     ordered_transaction list \<Rightarrow> (working_state \<times> event_record list) result" where
  "reduce_active L C binding activation height s ordered =
     (case (ia_valid activation, ia_openHeight activation, ia_closeHeight activation) of
        (True, Some openHeight, Some closeHeight) \<Rightarrow>
          reduce_transactions L C binding (ia_height activation, openHeight, closeHeight) height s ordered
      | _ \<Rightarrow> Inr (s, []))"

definition event_transactions ::
  "event_record list \<Rightarrow> ordered_transaction list \<Rightarrow> reduced_transaction list" where
  "event_transactions events ordered =
     map (\<lambda>(txIndex, t). \<lparr>rt_txid = tx_txid t, rt_wtxid = tx_wtxid t, rt_txIndex = txIndex,
            rt_version = tx_version t, rt_locktime = tx_locktime t\<rparr>)
       (filter (\<lambda>(txIndex, t). tx_txid t \<in> set (map er_txid events)) ordered)"

definition reduceBlock ::
  "tandem_lib \<Rightarrow> crypto \<Rightarrow> binding_record \<Rightarrow> init_activation option \<Rightarrow> bytes \<Rightarrow> object_map \<Rightarrow>
     bitcoin_block \<Rightarrow> reduced_block result" where
  "reduceBlock L C binding activation previousRoot objects block =
     bindE (orderedBlockTransactions block) (\<lambda>ordered.
     bindE (activate L C binding activation block ordered (initial_state objects))
       (\<lambda>(s1, act, es1).
     bindE (reduce_active L C binding act (blk_height block) s1 ordered) (\<lambda>(s, es2).
       let events = es1 @ es2;
           ns = from_hex (bd_namespace binding);
           records = js_values (ws_objects s);
           foundingCreated = int (length (filter or_founding records));
           allObjects = int (length records);
           activeObjects = int (length (filter (\<lambda>r. or_status r = Active) records))
       in bindE (wire32 (blk_hash block)) (\<lambda>blockHashWire.
          bindE (mapE (\<lambda>e. canonicalEvent e blockHashWire (blk_height block)) events) (\<lambda>canonical.
          bindE (lib_eventRoot L ns canonical) (\<lambda>event_root.
          bindE (mapE snapshot records) (\<lambda>snapshots.
          bindE (lib_objectStateRoot L ns snapshots) (\<lambda>state_root.
          bindE (lib_chainedBlockRoot L
             \<lparr>br_namespace = ns, br_previousRoot = previousRoot, br_blockHashWire = blockHashWire,
              br_height = blk_height block, br_eventRoot = event_root,
              br_objectStateRoot = state_root, br_foundingCreated = foundingCreated,
              br_allObjects = allObjects, br_activeObjects = activeObjects\<rparr>) (\<lambda>chained.
            Inr \<lparr>rb_height = blk_height block, rb_hash = blk_hash block,
                 rb_previousHash = blk_previousBlockHash block, rb_time = blk_time block,
                 rb_activation = act, rb_initConfirmed = (activation = None), rb_events = events,
                 rb_transactions = event_transactions events ordered,
                 rb_objects = ws_objects s, rb_undo = ws_undo s, rb_newStates = ws_newStates s,
                 rb_spentOutpoints = ws_spentOutpoints s, rb_chapters = ws_chapters s,
                 rb_eventRoot = to_hex event_root, rb_objectStateRoot = to_hex state_root,
                 rb_chainedRoot = to_hex chained, rb_foundingCreated = foundingCreated,
                 rb_allObjects = allObjects, rb_activeObjects = activeObjects\<rparr>)))))))))"

end
