(* ===== verification/Reducer_Invariants.thy ===== *)
theory Reducer_Invariants
  imports Block_Reducer
begin

text \<open>
  What the mutations of the block reducer's working state keep.  \<open>ws_ok\<close> is the invariant: records
  are well formed and filed under their own keys, and the index \<open>activeByOutpoint\<close> lists exactly the
  current outpoints of the active objects.  \<open>undo_ok\<close> says that the undo map is the difference to
  the objects before the block.  \<open>record_view\<close> is the abstraction to the reference state engine,
  and each mutation is shown to be one transition of the engine.
\<close>

declare map_of_eq_Some_iff [simp del]

section \<open>Well-formed records and states\<close>

definition record_ok :: "string \<Rightarrow> object_record \<Rightarrow> bool" where
  "record_ok k r =
     (or_objectKey r = k \<and> to_hex (from_hex k) = k \<and>
      (or_status r = Active \<longleftrightarrow> truthy (or_currentOutpoint r)) \<and>
      (or_status r \<noteq> Active \<longleftrightarrow> or_currentOutpoint r = None) \<and>
      (or_status r = Active \<longleftrightarrow> or_currentHeight r \<noteq> None) \<and>
      (or_status r = Active \<longleftrightarrow> or_terminalTxid r = None) \<and>
      0 \<le> or_chapterCount r \<and> or_chapterCount r \<le> or_stateSequence r)"

definition objects_ok :: "object_map \<Rightarrow> bool" where
  "objects_ok objects = (js_wf objects \<and> list_all (\<lambda>(k, r). record_ok k r) objects)"

definition index_ok :: "object_map \<Rightarrow> (string, string) js_map \<Rightarrow> bool" where
  "index_ok objects index =
     (js_wf index \<and> (\<forall>out k. js_get index out = Some k \<longleftrightarrow>
        (\<exists>r. js_get objects k = Some r \<and> or_currentOutpoint r = Some out)))"

definition ws_ok :: "working_state \<Rightarrow> bool" where
  "ws_ok s = (objects_ok (ws_objects s) \<and> index_ok (ws_objects s) (ws_activeByOutpoint s))"

lemma truthy_simps [simp]: "truthy None = False" "truthy (Some s) = (s \<noteq> [])"
  by (simp_all add: truthy_def)

lemma objects_okD: "objects_ok objects \<Longrightarrow> js_get objects k = Some r \<Longrightarrow> record_ok k r"
  by (auto simp: objects_ok_def list_all_iff dest!: map_of_SomeD)

lemma objects_ok_set [wf_intros]:
  "objects_ok objects \<Longrightarrow> record_ok k r \<Longrightarrow> objects_ok (js_set k r objects)"
  unfolding objects_ok_def list_all_iff
  by (auto simp: js_wf_set js_set_in split: if_splits prod.splits)

lemma objects_ok_Nil [wf_intros]: "objects_ok []"
  by (simp add: objects_ok_def)

lemma display_outpoint_nonempty [simp]: "display_outpoint txid n \<noteq> []"
  by (simp add: display_outpoint_def)

lemma record_ok_active:
  "record_ok k r \<Longrightarrow> or_currentOutpoint r = Some out \<Longrightarrow> or_status r = Active \<and> or_terminalTxid r = None"
  by (auto simp: record_ok_def)

section \<open>The index\<close>

lemma index_ok_inject:
  assumes "index_ok objects index" and "js_get objects k = Some r" and "js_get objects k' = Some r'"
    and "or_currentOutpoint r = Some out" and "or_currentOutpoint r' = Some out"
  shows "k = k'"
proof -
  have "js_get index out = Some k" "js_get index out = Some k'"
    using assms unfolding index_ok_def by blast+
  then show ?thesis by simp
qed

lemma index_ok_remove:
  assumes "index_ok objects index" and "js_get objects k = Some r"
    and "or_currentOutpoint r = Some out" and "or_currentOutpoint r' = None"
  shows "index_ok (js_set k r' objects) (js_delete out index)"
  unfolding index_ok_def
proof (intro conjI allI)
  show "js_wf (js_delete out index)" using assms(1) by (simp add: index_ok_def js_wf_delete)
next
  fix q k'
  have iff: "js_get index q = Some k' \<longleftrightarrow>
      (\<exists>r. js_get objects k' = Some r \<and> or_currentOutpoint r = Some q)"
    using assms(1) by (simp add: index_ok_def)
  show "js_get (js_delete out index) q = Some k' \<longleftrightarrow>
      (\<exists>r. js_get (js_set k r' objects) k' = Some r \<and> or_currentOutpoint r = Some q)"
  proof (cases "q = out")
    case True
    have "\<not> (\<exists>r. js_get (js_set k r' objects) k' = Some r \<and> or_currentOutpoint r = Some out)"
      using assms(4) index_ok_inject [OF assms(1,2) _ assms(3)] by (auto simp: js_get_set)
    with True show ?thesis by (simp add: js_get_delete)
  next
    case False
    with assms(2-4) iff show ?thesis by (cases "k' = k") (simp_all add: js_get_set js_get_delete)
  qed
qed

lemma index_ok_add:
  assumes "index_ok objects index" and "\<And>r. js_get objects k = Some r \<Longrightarrow> or_currentOutpoint r = None"
    and "js_get index out = None" and "or_currentOutpoint r' = Some out"
  shows "index_ok (js_set k r' objects) (js_set out k index)"
  unfolding index_ok_def
proof (intro conjI allI)
  show "js_wf (js_set out k index)" using assms(1) by (simp add: index_ok_def js_wf_set)
next
  fix q k'
  have iff: "js_get index q = Some k' \<longleftrightarrow>
      (\<exists>r. js_get objects k' = Some r \<and> or_currentOutpoint r = Some q)" for q k'
    using assms(1) by (simp add: index_ok_def)
  show "js_get (js_set out k index) q = Some k' \<longleftrightarrow>
      (\<exists>r. js_get (js_set k r' objects) k' = Some r \<and> or_currentOutpoint r = Some q)"
    using iff [of q k'] iff [of out k'] assms(2-4) by (auto simp: js_get_set)
qed

lemma index_ok_move:
  assumes "index_ok objects index" and "js_get objects k = Some r"
    and "or_currentOutpoint r = Some out" and "js_get index out' = None"
    and "or_currentOutpoint r' = Some out'"
  shows "index_ok (js_set k r' objects) (js_set out' k (js_delete out index))"
proof -
  have "index_ok (js_set k (r'\<lparr>or_currentOutpoint := None\<rparr>) objects) (js_delete out index)"
    using assms by (intro index_ok_remove) auto
  from index_ok_add [OF this, of k out' r'] assms(4,5)
  have "index_ok (js_set k r' (js_set k (r'\<lparr>or_currentOutpoint := None\<rparr>) objects))
      (js_set out' k (js_delete out index))"
    by (simp add: js_get_set js_get_delete)
  then show ?thesis by (simp add: update_Some_unfold index_ok_def js_get_set)
qed

section \<open>Reading the mutations\<close>

lemma touch_fields [simp]:
  "ws_objects (touch s k) = ws_objects s"
  "ws_activeByOutpoint (touch s k) = ws_activeByOutpoint s"
  "ws_newStates (touch s k) = ws_newStates s"
  "ws_spentOutpoints (touch s k) = ws_spentOutpoints s"
  "ws_chapters (touch s k) = ws_chapters s"
  by (simp_all add: touch_def)

lemma spend_outpoint_fields [simp]:
  "ws_objects (spend_outpoint s r txid) = ws_objects s"
  "ws_undo (spend_outpoint s r txid) = ws_undo s"
  "ws_newStates (spend_outpoint s r txid) = ws_newStates s"
  "ws_chapters (spend_outpoint s r txid) = ws_chapters s"
  by (simp_all add: spend_outpoint_def)

lemma spend_outpoint_index:
  "or_currentOutpoint r = Some out \<Longrightarrow> out \<noteq> [] \<Longrightarrow>
     ws_activeByOutpoint (spend_outpoint s r txid) = js_delete out (ws_activeByOutpoint s) \<and>
     ws_spentOutpoints (spend_outpoint s r txid) = ws_spentOutpoints s @ [(out, txid)]"
  by (simp add: spend_outpoint_def)

definition terminated :: "object_record \<Rightarrow> object_status \<Rightarrow> string \<Rightarrow> int \<Rightarrow> object_record" where
  "terminated r status txid n =
     r\<lparr>or_status := status, or_stateSequence := n, or_currentOutpoint := None,
       or_currentHeight := None, or_terminalTxid := Some txid\<rparr>"

definition advanced ::
  "object_record \<Rightarrow> string \<Rightarrow> int \<Rightarrow> int \<Rightarrow> string \<Rightarrow> string \<Rightarrow> bool \<Rightarrow> object_record" where
  "advanced r txid height n key0 key1 chapter =
     r\<lparr>or_stateSequence := n, or_currentOutpoint := Some (display_outpoint txid 1),
       or_currentHeight := Some height, or_key0 := key0, or_key1 := key1,
       or_chapterCount := or_chapterCount r + (if chapter then 1 else 0)\<rparr>"

definition created :: "string \<Rightarrow> string \<Rightarrow> int \<Rightarrow> bool \<Rightarrow> string \<Rightarrow> string \<Rightarrow> object_record" where
  "created k txid height founding key0 key1 =
     \<lparr>or_objectKey = k, or_createTxid = txid, or_createHeight = height, or_founding = founding,
      or_status = Active, or_stateSequence = 0,
      or_currentOutpoint = Some (display_outpoint txid 1), or_currentHeight = Some height,
      or_key0 = key0, or_key1 = key1, or_terminalTxid = None, or_chapterCount = 0\<rparr>"

lemma terminate_objects [simp]:
  "ws_objects (terminate s r st txid n) = js_set (or_objectKey r) (terminated r st txid n) (ws_objects s)"
  by (simp add: terminate_def terminated_def Let_def)

lemma advance_objects [simp]:
  "ws_objects (advance s r txid h n k0 k1 ch) =
     js_set (or_objectKey r) (advanced r txid h n k0 k1 (ch \<noteq> None)) (ws_objects s)"
  by (simp add: advance_def advanced_def Let_def)

lemma create_object_objects [simp]:
  "ws_objects (create_object s k txid h f k0 k1) = js_set k (created k txid h f k0 k1) (ws_objects s)"
  by (simp add: create_object_def created_def Let_def)

lemma mutation_undo [simp]:
  "ws_undo (terminate s r st txid n) = ws_undo (touch s (or_objectKey r))"
  "ws_undo (advance s r txid h n k0 k1 ch) = ws_undo (touch s (or_objectKey r))"
  "ws_undo (create_object s k txid h f k0 k1) = ws_undo (touch s k)"
  by (simp_all add: terminate_def advance_def create_object_def Let_def)

lemma mutation_index:
  "or_currentOutpoint r = Some out \<Longrightarrow> out \<noteq> [] \<Longrightarrow>
     ws_activeByOutpoint (terminate s r st txid n) = js_delete out (ws_activeByOutpoint s)"
  "or_currentOutpoint r = Some out \<Longrightarrow> out \<noteq> [] \<Longrightarrow>
     ws_activeByOutpoint (advance s r txid h n k0 k1 ch) =
       js_set (display_outpoint txid 1) (or_objectKey r) (js_delete out (ws_activeByOutpoint s))"
  "ws_activeByOutpoint (create_object s k txid h f k0 k1) =
     js_set (display_outpoint txid 1) k (ws_activeByOutpoint s)"
  by (simp_all add: terminate_def advance_def create_object_def Let_def spend_outpoint_index)

section \<open>The invariant is kept\<close>

lemma ws_okD:
  assumes "ws_ok s" and "js_get (ws_objects s) k = Some r"
  shows "or_objectKey r = k" and "record_ok k r"
  using assms objects_okD by (auto simp: ws_ok_def record_ok_def)

lemma record_ok_current:
  assumes "record_ok k r" and "or_status r = Active"
  obtains out where "or_currentOutpoint r = Some out" "out \<noteq> []"
  using assms by (cases "or_currentOutpoint r") (auto simp: record_ok_def)

lemma ws_ok_terminate [wf_intros]:
  assumes "ws_ok s" and "js_get (ws_objects s) k = Some r" and "or_status r = Active"
    and "st \<noteq> Active" and "or_stateSequence r \<le> n"
  shows "ws_ok (terminate s r st txid n)"
proof -
  note rk = ws_okD [OF assms(1,2)]
  obtain out where out: "or_currentOutpoint r = Some out" "out \<noteq> []"
    using record_ok_current [OF rk(2) assms(3)] .
  have "record_ok k (terminated r st txid n)"
    using rk(2) assms(4,5) by (auto simp: record_ok_def terminated_def)
  moreover have "index_ok (js_set k (terminated r st txid n) (ws_objects s))
      (js_delete out (ws_activeByOutpoint s))"
    using assms(1,2) out by (intro index_ok_remove) (auto simp: ws_ok_def terminated_def)
  ultimately show ?thesis
    using assms(1) rk(1) out by (simp add: ws_ok_def objects_ok_set mutation_index)
qed

lemma ws_ok_advance [wf_intros]:
  assumes "ws_ok s" and "js_get (ws_objects s) k = Some r" and "or_status r = Active"
    and "js_get (ws_activeByOutpoint s) (display_outpoint txid 1) = None"
    and "n = or_stateSequence r + 1"
  shows "ws_ok (advance s r txid h n k0 k1 ch)"
proof -
  note rk = ws_okD [OF assms(1,2)]
  obtain out where out: "or_currentOutpoint r = Some out" "out \<noteq> []"
    using record_ok_current [OF rk(2) assms(3)] .
  have "record_ok k (advanced r txid h n k0 k1 (ch \<noteq> None))"
    using rk(2) assms(3,5) by (auto simp: record_ok_def advanced_def)
  moreover have "index_ok (js_set k (advanced r txid h n k0 k1 (ch \<noteq> None)) (ws_objects s))
      (js_set (display_outpoint txid 1) k (js_delete out (ws_activeByOutpoint s)))"
    using assms(1,2,4) out by (intro index_ok_move) (auto simp: ws_ok_def advanced_def)
  ultimately show ?thesis
    using assms(1) rk(1) out by (simp add: ws_ok_def objects_ok_set mutation_index)
qed

lemma ws_ok_create [wf_intros]:
  assumes "ws_ok s" and "js_get (ws_objects s) k = None" and "to_hex (from_hex k) = k"
    and "js_get (ws_activeByOutpoint s) (display_outpoint txid 1) = None"
  shows "ws_ok (create_object s k txid h f k0 k1)"
proof -
  have "record_ok k (created k txid h f k0 k1)"
    using assms(3) by (simp add: record_ok_def created_def)
  moreover have "index_ok (js_set k (created k txid h f k0 k1) (ws_objects s))
      (js_set (display_outpoint txid 1) k (ws_activeByOutpoint s))"
    using assms(1,2,4) by (intro index_ok_add) (auto simp: ws_ok_def created_def)
  ultimately show ?thesis
    using assms(1) by (simp add: ws_ok_def objects_ok_set mutation_index)
qed

text \<open>The state a block starts from.\<close>

definition index_add :: "object_record \<Rightarrow> (string, string) js_map \<Rightarrow> (string, string) js_map" where
  "index_add r index =
     (if or_status r = Active \<and> truthy (or_currentOutpoint r)
      then js_set (the (or_currentOutpoint r)) (or_objectKey r) index else index)"

definition outpoints_distinct :: "object_map \<Rightarrow> bool" where
  "outpoints_distinct objects =
     (\<forall>k r k' r' out. js_get objects k = Some r \<longrightarrow> js_get objects k' = Some r' \<longrightarrow>
        or_currentOutpoint r = Some out \<longrightarrow> or_currentOutpoint r' = Some out \<longrightarrow> k = k')"

lemma index_add_get:
  "record_ok k r \<Longrightarrow> js_get (index_add r index) out =
     (if or_currentOutpoint r = Some out then Some k else js_get index out)"
  by (cases "or_currentOutpoint r") (auto simp: index_add_def record_ok_def js_get_set)

lemma fold_index_add_other:
  "list_all (\<lambda>(k, r). record_ok k r) objects \<Longrightarrow>
     (\<And>k r. (k, r) \<in> set objects \<Longrightarrow> or_currentOutpoint r \<noteq> Some out) \<Longrightarrow>
     js_get (fold index_add (js_values objects) index) out = js_get index out"
proof (induction objects arbitrary: index)
  case (Cons p objects)
  obtain k r where p: "p = (k, r)" by (cases p)
  have "js_get (fold index_add (js_values objects) (index_add r index)) out =
      js_get (index_add r index) out"
    using Cons.prems by (intro Cons.IH) auto
  also have "\<dots> = js_get index out"
    using Cons.prems by (auto simp: p index_add_get [of k])
  finally show ?case by (simp add: p)
qed simp

lemma fold_index_add_here:
  assumes "list_all (\<lambda>(k, r). record_ok k r) objects" and "distinct (map fst objects)"
    and "\<And>k' r'. (k', r') \<in> set objects \<Longrightarrow> or_currentOutpoint r' = Some out \<Longrightarrow> k' = k"
    and "(k, r) \<in> set objects" and "or_currentOutpoint r = Some out"
  shows "js_get (fold index_add (js_values objects) index) out = Some k"
  using assms
proof (induction objects arbitrary: index)
  case (Cons p objects)
  obtain k1 r1 where p: "p = (k1, r1)" by (cases p)
  show ?case
  proof (cases "or_currentOutpoint r1 = Some out")
    case True
    then have k1: "k1 = k" using Cons.prems(3) p by auto
    have "or_currentOutpoint r' \<noteq> Some out" if h: "(k', r') \<in> set objects" for k' r'
    proof
      assume "or_currentOutpoint r' = Some out"
      then have "k' = k" using Cons.prems(3) h by auto
      with h Cons.prems(2) k1 p show False by force
    qed
    then have "js_get (fold index_add (js_values objects) (index_add r1 index)) out =
        js_get (index_add r1 index) out"
      using Cons.prems(1) by (intro fold_index_add_other) auto
    also have "\<dots> = Some k" using Cons.prems(1) True p k1 by (simp add: index_add_get [of k])
    finally show ?thesis by (simp add: p)
  next
    case False
    then have "(k, r) \<in> set objects" using Cons.prems(4,5) p by auto
    then have "js_get (fold index_add (js_values objects) (index_add r1 index)) out = Some k"
      using Cons.prems by (intro Cons.IH) auto
    then show ?thesis by (simp add: p)
  qed
qed simp

lemma fold_index_add_wf: "js_wf index \<Longrightarrow> js_wf (fold index_add rs index)"
  by (induction rs arbitrary: index) (auto simp: index_add_def js_wf_set)

lemma ws_ok_initial:
  assumes "objects_ok objects" and "outpoints_distinct objects"
  shows "ws_ok (initial_state objects)"
proof -
  have wf: "js_wf objects" using assms(1) by (simp add: objects_ok_def)
  have eq: "initial_index objects = fold index_add (js_values objects) []"
    by (simp add: initial_index_def index_add_def [abs_def])
  have ok: "list_all (\<lambda>(k, r). record_ok k r) objects" using assms(1) by (simp add: objects_ok_def)
  have get: "js_get objects k = Some r \<longleftrightarrow> (k, r) \<in> set objects" for k r
    using wf by (rule map_of_eq_Some_iff)
  have here: "js_get (fold index_add (js_values objects) []) out = Some k"
    if "(k, r) \<in> set objects" "or_currentOutpoint r = Some out" for k r out
    using ok wf _ that
  proof (rule fold_index_add_here)
    fix k' r'
    assume "(k', r') \<in> set objects" "or_currentOutpoint r' = Some out"
    then show "k' = k" using that assms(2) unfolding outpoints_distinct_def get by blast
  qed
  have other: "\<exists>r. (k, r) \<in> set objects \<and> or_currentOutpoint r = Some out"
    if h: "js_get (fold index_add (js_values objects) []) out = Some k" for out k
  proof (cases "\<exists>k r. (k, r) \<in> set objects \<and> or_currentOutpoint r = Some out")
    case True
    with here h show ?thesis by fastforce
  next
    case False
    then have "js_get (fold index_add (js_values objects) []) out = js_get [] out"
      by (intro fold_index_add_other [OF ok]) blast
    with h show ?thesis by simp
  qed
  have "index_ok objects (initial_index objects)"
    unfolding index_ok_def eq get using here other fold_index_add_wf [of "[]"] by auto
  with assms(1) show ?thesis by (simp add: ws_ok_def initial_state_def)
qed

lemma ws_ok_outpoints_distinct: "ws_ok s \<Longrightarrow> outpoints_distinct (ws_objects s)"
  unfolding ws_ok_def outpoints_distinct_def by (blast intro: index_ok_inject)

section \<open>The undo map\<close>

definition undo_ok :: "object_map \<Rightarrow> working_state \<Rightarrow> bool" where
  "undo_ok before s =
     (js_wf (ws_undo s) \<and>
      (\<forall>k. case js_get (ws_undo s) k of
             Some prior \<Rightarrow> prior = js_get before k
           | None \<Rightarrow> js_get (ws_objects s) k = js_get before k))"

lemma undo_ok_initial: "undo_ok objects (initial_state objects)"
  by (simp add: undo_ok_def initial_state_def)

lemma undo_ok_touch_set:
  assumes "undo_ok before s" and "ws_undo s' = ws_undo (touch s k)"
    and "ws_objects s' = js_set k r (ws_objects s)"
  shows "undo_ok before s'"
proof -
  have wf: "js_wf (ws_undo s)" using assms(1) by (simp add: undo_ok_def)
  have old: "js_get (ws_undo s) q = Some v \<Longrightarrow> v = js_get before q"
    "js_get (ws_undo s) q = None \<Longrightarrow> js_get (ws_objects s) q = js_get before q" for q v
    using assms(1) unfolding undo_ok_def by (metis option.case)+
  show ?thesis
  proof (cases "js_get (ws_undo s) k")
    case None
    then have u: "ws_undo s' = js_set k (js_get (ws_objects s) k) (ws_undo s)"
      using assms(2) by (simp add: touch_def)
    show ?thesis
      unfolding undo_ok_def u assms(3) using old None wf
      by (auto simp: js_wf_set js_get_set split: option.split)
  next
    case (Some v)
    then have u: "ws_undo s' = ws_undo s" using assms(2) by (simp add: touch_def)
    show ?thesis
      unfolding undo_ok_def u assms(3) using old Some wf
      by (auto simp: js_get_set split: option.split)
  qed
qed

lemma undo_ok_mutations [wf_intros]:
  "undo_ok before s \<Longrightarrow> undo_ok before (terminate s r st txid n)"
  "undo_ok before s \<Longrightarrow> undo_ok before (advance s r txid h n k0 k1 ch)"
  "undo_ok before s \<Longrightarrow> undo_ok before (create_object s k txid h f k0 k1)"
  by (erule undo_ok_touch_set; simp)+

section \<open>The abstraction to the reference engine\<close>

definition record_view :: "object_record \<Rightarrow> indexed_object_state" where
  "record_view r =
     \<lparr>ios_objectKey = or_objectKey r, ios_status = or_status r, ios_sequence = or_stateSequence r,
      ios_currentOutpoint = or_currentOutpoint r, ios_key0 = or_key0 r, ios_key1 = or_key1 r,
      ios_chapterCount = or_chapterCount r, ios_terminalTxid = or_terminalTxid r\<rparr>"

definition objects_view :: "object_map \<Rightarrow> object_states" where
  "objects_view objects = map (\<lambda>(k, r). (k, record_view r)) objects"

lemma objects_view_get [simp]:
  "js_get (objects_view objects) k = map_option record_view (js_get objects k)"
  by (induction objects) (auto simp: objects_view_def)

lemma objects_view_set [simp]:
  "objects_view (js_set k r objects) = js_set k (record_view r) (objects_view objects)"
  by (induction objects) (auto simp: objects_view_def)

lemma terminate_refines:
  assumes "js_get (ws_objects s) k = Some r" and "or_objectKey r = k" and "or_status r = Active"
    and "or_currentOutpoint r = Some out"
  shows "applyStateTransition (objects_view (ws_objects s)) (CloseTransition k (or_stateSequence r + 1) out txid) =
      Inr (objects_view (ws_objects (terminate s r Closed txid (or_stateSequence r + 1))))"
    and "applyStateTransition (objects_view (ws_objects s)) (ExitTransition REFUND k out txid) =
      Inr (objects_view (ws_objects (terminate s r Refunded txid (or_stateSequence r))))"
    and "applyStateTransition (objects_view (ws_objects s)) (ExitTransition EXITED_NONCANONICAL k out txid) =
      Inr (objects_view (ws_objects (terminate s r ExitedNoncanonical txid (or_stateSequence r))))"
  using assms by (simp_all add: requireActive_def record_view_def terminated_def)

lemma advance_refines:
  assumes "js_get (ws_objects s) k = Some r" and "or_objectKey r = k" and "or_status r = Active"
    and "or_currentOutpoint r = Some out" and "n = or_stateSequence r + 1"
  shows "applyStateTransition (objects_view (ws_objects s))
      (AdvanceTransition (if ch \<noteq> None then MARK else ROTATE) k n out (display_outpoint txid 1) k0 k1) =
      Inr (objects_view (ws_objects (advance s r txid h n k0 k1 ch)))"
  using assms by (simp add: requireActive_def record_view_def advanced_def)

lemma create_refines:
  assumes "js_get (ws_objects s) k = None"
  shows "applyStateTransition (objects_view (ws_objects s))
      (CreateTransition k (display_outpoint txid 1) k0 k1) =
      Inr (objects_view (ws_objects (create_object s k txid h f k0 k1)))"
  using assms by (simp add: record_view_def created_def)

end
