(* ===== verification/Reducer_Steps.thy ===== *)
theory Reducer_Steps
  imports Reducer_Invariants "HOL-Library.Sublist"
begin

text \<open>
  The rows of a block have unique keys.  The database keeps states by outpoint and by object and
  sequence, and chapters by transaction and by object and sequence; \<open>steps_ok\<close> says that the rows the
  reducer collects never repeat such a key, and never one of an object's earlier steps.
\<close>

definition state_step :: "state_row \<Rightarrow> string \<times> int" where
  "state_step row = (sr_objectKey row, sr_sequence row)"

text \<open>A chapter belongs to the state of the same transaction, object and sequence.\<close>

definition state_place :: "state_row \<Rightarrow> string \<times> string \<times> int" where
  "state_place row = (sr_outpoint row, sr_objectKey row, sr_sequence row)"

definition chapter_place :: "chapter_row \<Rightarrow> string \<times> string \<times> int" where
  "chapter_place c = (display_outpoint (cr_txid c) 1, cr_objectKey c, cr_sequence c)"

text \<open>Every object has come at least as far as its rows, and further than before the block.\<close>

definition progress_ok :: "object_map \<Rightarrow> working_state \<Rightarrow> bool" where
  "progress_ok before s =
     ((\<forall>row \<in> set (ws_newStates s). \<exists>r. js_get (ws_objects s) (sr_objectKey row) = Some r \<and>
         sr_sequence row \<le> or_stateSequence r \<and>
         (\<forall>r0. js_get before (sr_objectKey row) = Some r0 \<longrightarrow> or_stateSequence r0 < sr_sequence row)) \<and>
      (\<forall>k r0. js_get before k = Some r0 \<longrightarrow>
         (\<exists>r. js_get (ws_objects s) k = Some r \<and> or_stateSequence r0 \<le> or_stateSequence r)))"

definition steps_ok :: "object_map \<Rightarrow> working_state \<Rightarrow> bool" where
  "steps_ok before s =
     (progress_ok before s \<and> distinct (map sr_outpoint (ws_newStates s)) \<and>
      distinct (map state_step (ws_newStates s)) \<and>
      subseq (map chapter_place (ws_chapters s)) (map state_place (ws_newStates s)))"

lemma steps_ok_initial: "steps_ok objects (initial_state objects)"
  by (simp add: steps_ok_def progress_ok_def initial_state_def)

lemma mutation_state_rows:
  "ws_newStates (terminate s r st txid n) = ws_newStates s"
  "ws_newStates (advance s r txid h n k0 k1 ch) = ws_newStates s @
     [\<lparr>sr_outpoint = display_outpoint txid 1, sr_objectKey = or_objectKey r, sr_sequence = n,
       sr_key0 = k0, sr_key1 = k1\<rparr>]"
  "ws_newStates (create_object s k txid h f k0 k1) = ws_newStates s @
     [\<lparr>sr_outpoint = display_outpoint txid 1, sr_objectKey = k, sr_sequence = 0,
       sr_key0 = k0, sr_key1 = k1\<rparr>]"
  by (simp_all add: terminate_def advance_def create_object_def Let_def)

lemma mutation_chapters:
  "ws_chapters (terminate s r st txid n) = ws_chapters s"
  "ws_chapters (create_object s k txid h f k0 k1) = ws_chapters s"
  "ws_chapters (advance s r txid h n k0 k1 ch) = ws_chapters s @
     (case ch of None \<Rightarrow> [] | Some c \<Rightarrow> [\<lparr>cr_objectKey = or_objectKey r, cr_sequence = n, cr_txid = txid,
        cr_kind = fst c, cr_commitment = snd c\<rparr>])"
  by (auto simp: terminate_def advance_def create_object_def Let_def split: option.split)

lemma progress_set:
  assumes ok: "progress_ok before s" and k: "js_get (ws_objects s) k = Some r" "or_stateSequence r \<le> or_stateSequence r'"
    and s': "ws_objects s' = js_set k r' (ws_objects s)" and rows: "set (ws_newStates s') \<subseteq> set (ws_newStates s)"
  shows "progress_ok before s'"
  unfolding progress_ok_def
proof (intro conjI ballI allI impI)
  fix row assume "row \<in> set (ws_newStates s')"
  then have "row \<in> set (ws_newStates s)" using rows by blast
  then obtain q where "js_get (ws_objects s) (sr_objectKey row) = Some q"
    "sr_sequence row \<le> or_stateSequence q"
    "\<forall>r0. js_get before (sr_objectKey row) = Some r0 \<longrightarrow> or_stateSequence r0 < sr_sequence row"
    using ok unfolding progress_ok_def by blast
  then show "\<exists>r. js_get (ws_objects s') (sr_objectKey row) = Some r \<and>
      sr_sequence row \<le> or_stateSequence r \<and>
      (\<forall>r0. js_get before (sr_objectKey row) = Some r0 \<longrightarrow> or_stateSequence r0 < sr_sequence row)"
    using k by (cases "sr_objectKey row = k") (auto simp: s' js_get_set)
next
  fix q r0 assume "js_get before q = Some r0"
  then obtain p where "js_get (ws_objects s) q = Some p" "or_stateSequence r0 \<le> or_stateSequence p"
    using ok unfolding progress_ok_def by blast
  then show "\<exists>r. js_get (ws_objects s') q = Some r \<and> or_stateSequence r0 \<le> or_stateSequence r"
    using k by (cases "q = k") (auto simp: s' js_get_set)
qed

lemma steps_ok_terminate:
  assumes "steps_ok before s" and "js_get (ws_objects s) k = Some r" and "or_objectKey r = k"
    and "or_stateSequence r \<le> n"
  shows "steps_ok before (terminate s r st txid n)"
proof -
  have "progress_ok before (terminate s r st txid n)"
    by (rule progress_set [of before s k r "terminated r st txid n"])
      (use assms in \<open>simp_all add: steps_ok_def terminated_def mutation_state_rows\<close>)
  then show ?thesis using assms(1) by (simp add: steps_ok_def mutation_state_rows mutation_chapters)
qed

text \<open>A new row at the step an object has just reached.\<close>

lemma steps_ok_row:
  assumes ok: "steps_ok before s" and progress: "progress_ok before s'"
    and rows: "ws_newStates s' = ws_newStates s @ [row]"
    and out: "sr_outpoint row \<notin> set (map sr_outpoint (ws_newStates s))"
    and step: "\<And>r. js_get (ws_objects s) (sr_objectKey row) = Some r \<Longrightarrow> or_stateSequence r < sr_sequence row"
    and chapters: "map chapter_place (ws_chapters s') = map chapter_place (ws_chapters s) @ cs"
      "cs = [] \<or> cs = [state_place row]"
  shows "steps_ok before s'"
proof -
  have "state_step row \<notin> set (map state_step (ws_newStates s))"
  proof
    assume "state_step row \<in> set (map state_step (ws_newStates s))"
    then obtain row' where row': "row' \<in> set (ws_newStates s)" "sr_objectKey row' = sr_objectKey row"
      "sr_sequence row' = sr_sequence row" by (auto simp: state_step_def)
    then obtain r where "js_get (ws_objects s) (sr_objectKey row) = Some r" "sr_sequence row \<le> or_stateSequence r"
      using ok unfolding steps_ok_def progress_ok_def by fastforce
    with step show False by fastforce
  qed
  moreover have "subseq (map chapter_place (ws_chapters s) @ cs) (map state_place (ws_newStates s) @ [state_place row])"
    using ok chapters(2) by (auto simp: steps_ok_def intro: list_emb_append_mono)
  ultimately show ?thesis
    using ok progress rows out chapters(1) by (simp add: steps_ok_def)
qed

lemma steps_ok_advance:
  assumes ok: "steps_ok before s" and r: "js_get (ws_objects s) k = Some r" and key: "or_objectKey r = k"
    and n: "n = or_stateSequence r + 1"
    and out: "display_outpoint txid 1 \<notin> set (map sr_outpoint (ws_newStates s))"
  shows "steps_ok before (advance s r txid h n k0 k1 ch)"
proof -
  let ?s' = "advance s r txid h n k0 k1 ch"
  let ?row = "\<lparr>sr_outpoint = display_outpoint txid 1, sr_objectKey = k, sr_sequence = n, sr_key0 = k0, sr_key1 = k1\<rparr>"
  have prog: "progress_ok before s" using ok by (simp add: steps_ok_def)
  have old: "progress_ok before (?s'\<lparr>ws_newStates := ws_newStates s\<rparr>)"
    by (rule progress_set [OF prog r, of "advanced r txid h n k0 k1 (ch \<noteq> None)"])
      (simp_all add: advanced_def n key)
  have "or_stateSequence r0 \<le> or_stateSequence r" if "js_get before k = Some r0" for r0
    using prog r that unfolding progress_ok_def by fastforce
  then have "progress_ok before ?s'"
    using old n key
    by (fastforce simp: progress_ok_def mutation_state_rows js_get_set advanced_def)
  then have prog': "progress_ok before ?s'" .
  have chapters: "map chapter_place (ws_chapters ?s') = map chapter_place (ws_chapters s) @
      (if ch = None then [] else [state_place ?row])"
    by (simp add: mutation_chapters chapter_place_def state_place_def key split: option.split)
  show ?thesis
    by (rule steps_ok_row [OF ok prog' _ _ _ chapters, of ?row])
      (use out r n key in \<open>simp_all add: mutation_state_rows\<close>)
qed

lemma steps_ok_create:
  assumes ok: "steps_ok before s" and k: "js_get (ws_objects s) k = None"
    and out: "display_outpoint txid 1 \<notin> set (map sr_outpoint (ws_newStates s))"
  shows "steps_ok before (create_object s k txid h f k0 k1)"
proof -
  let ?s' = "create_object s k txid h f k0 k1"
  let ?row = "\<lparr>sr_outpoint = display_outpoint txid 1, sr_objectKey = k, sr_sequence = 0, sr_key0 = k0, sr_key1 = k1\<rparr>"
  have prog: "progress_ok before s" using ok by (simp add: steps_ok_def)
  then have "js_get before k = None"
    using k unfolding progress_ok_def by (metis not_None_eq option.distinct(1))
  then have "progress_ok before ?s'"
    using prog k
    by (fastforce simp: progress_ok_def mutation_state_rows js_get_set created_def)
  then show ?thesis
    by (rule steps_ok_row [OF ok, where row = ?row and cs = "[]"])
      (use out k in \<open>simp_all add: mutation_state_rows mutation_chapters\<close>)
qed

end
