(* ===== verification/Reducer_Transactions.thy ===== *)
theory Reducer_Transactions
  imports Reducer_Steps
begin

text \<open>
  One transaction of the block reducer.  \<open>block_inv\<close> collects the invariants of the working state
  relative to the objects before the block and the transactions confirmed so far; the lemmas show
  that \<open>classifyTransaction\<close> keeps it, that the events it emits replay on the reference state engine
  to the objects it leaves, and that no carrier the transaction spends stays active.
\<close>

declare One_nat_def [simp del]

section \<open>Where outpoints and keys come from\<close>

definition derived_key :: "tandem_lib \<Rightarrow> bytes \<Rightarrow> string \<Rightarrow> string \<Rightarrow> bool" where
  "derived_key L ns txid k =
     (\<exists>w key. wire32 txid = Inr w \<and> lib_objectKeyFromWire L ns w = Inr key \<and> k = to_hex key)"

definition carrier_outpoints :: "string set \<Rightarrow> string set" where
  "carrier_outpoints txids = (\<lambda>txid. display_outpoint txid 1) ` txids"

definition objects_from :: "tandem_lib \<Rightarrow> bytes \<Rightarrow> string set \<Rightarrow> object_map \<Rightarrow> bool" where
  "objects_from L ns txids objects =
     (\<forall>k r. js_get objects k = Some r \<longrightarrow>
        or_createTxid r \<in> txids \<and> derived_key L ns (or_createTxid r) k \<and>
        (\<forall>out. or_currentOutpoint r = Some out \<longrightarrow> out \<in> carrier_outpoints txids))"

text \<open>The bookkeeping of outpoints: what is active now is what was active or new, less the spent.\<close>

definition flow_ok :: "string set \<Rightarrow> object_map \<Rightarrow> working_state \<Rightarrow> bool" where
  "flow_ok txids before s =
     (let spent = set (map fst (ws_spentOutpoints s)); new = set (map sr_outpoint (ws_newStates s))
      in dom (js_get (ws_activeByOutpoint s)) =
           (dom (js_get (initial_index before)) \<union> new) - spent \<and>
         spent \<subseteq> carrier_outpoints txids \<and> new \<subseteq> carrier_outpoints txids \<and>
         spent \<subseteq> dom (js_get (initial_index before)) \<union> new)"

definition block_inv :: "tandem_lib \<Rightarrow> bytes \<Rightarrow> string set \<Rightarrow> object_map \<Rightarrow> working_state \<Rightarrow> bool" where
  "block_inv L ns txids before s =
     (ws_ok s \<and> objects_from L ns txids (ws_objects s) \<and> undo_ok before s \<and> flow_ok txids before s \<and>
      steps_ok before s)"

lemma carrier_outpoints_insert [simp]:
  "carrier_outpoints (insert t T) = insert (display_outpoint t 1) (carrier_outpoints T)"
  by (simp add: carrier_outpoints_def)

lemma display_outpoint_fresh:
  "display_outpoint txid 1 \<in> carrier_outpoints T \<longleftrightarrow> txid \<in> T"
  by (auto simp: carrier_outpoints_def display_outpoint_def)

lemma block_inv_mono:
  "block_inv L ns T before s \<Longrightarrow> T \<subseteq> U \<Longrightarrow> block_inv L ns U before s"
proof -
  assume inv: "block_inv L ns T before s" and sub: "T \<subseteq> U"
  have co: "carrier_outpoints T \<subseteq> carrier_outpoints U" using sub by (auto simp: carrier_outpoints_def)
  have "objects_from L ns U (ws_objects s)"
    using inv sub co unfolding block_inv_def objects_from_def by (meson subset_iff)
  moreover have "flow_ok U before s"
    using inv co unfolding block_inv_def flow_ok_def Let_def by (meson subset_trans)
  ultimately show "block_inv L ns U before s" using inv by (simp add: block_inv_def)
qed

lemma block_inv_index:
  assumes "block_inv L ns T before s"
  shows "js_get (ws_activeByOutpoint s) out = Some k \<longleftrightarrow>
    (\<exists>r. js_get (ws_objects s) k = Some r \<and> or_currentOutpoint r = Some out)"
  using assms by (simp add: block_inv_def ws_ok_def index_ok_def)

lemma block_inv_index_from:
  assumes "block_inv L ns T before s" and "js_get (ws_activeByOutpoint s) out = Some k"
  shows "out \<in> carrier_outpoints T"
  using assms block_inv_index [OF assms(1)] unfolding block_inv_def objects_from_def by blast

lemma block_inv_fresh_outpoint:
  assumes "block_inv L ns T before s" and "txid \<notin> T"
  shows "js_get (ws_activeByOutpoint s) (display_outpoint txid 1) = None"
proof (rule ccontr)
  assume "js_get (ws_activeByOutpoint s) (display_outpoint txid 1) \<noteq> None"
  then obtain k where "js_get (ws_activeByOutpoint s) (display_outpoint txid 1) = Some k" by auto
  from block_inv_index_from [OF assms(1) this] assms(2) show False
    by (simp add: display_outpoint_fresh)
qed

lemma block_inv_fresh_key:
  assumes inv: "block_inv L ns T before s" and keys: "object_keys_distinct L"
    and hex: "\<forall>t \<in> T. is_hex_text 64 t" "is_hex_text 64 txid" and new: "txid \<notin> T"
    and k: "derived_key L ns txid k"
  shows "js_get (ws_objects s) k = None"
proof (rule ccontr)
  assume "js_get (ws_objects s) k \<noteq> None"
  then obtain t where t: "t \<in> T" "derived_key L ns t k"
    using inv unfolding block_inv_def objects_from_def by fast
  from t(2) k obtain w w' key where "wire32 t = Inr w" "wire32 txid = Inr w'"
    "lib_objectKeyFromWire L ns w = Inr key" "lib_objectKeyFromWire L ns w' = Inr key"
    by (auto simp: derived_key_def)
  moreover from this have "w = w'" using keys unfolding object_keys_distinct_def by blast
  ultimately have "t = txid" using wire32_inject t(1) hex by metis
  with t(1) new show False by simp
qed

lemma dom_js: "dom (js_get (js_set k v m)) = insert k (dom (js_get m))"
  "dom (js_get (js_delete k m)) = dom (js_get m) - {k}"
  by (auto simp: js_get_set js_get_delete dom_def split: if_splits)

lemma mutation_rows:
  "ws_newStates (terminate s r st txid n) = ws_newStates s"
  "or_currentOutpoint r = Some out \<Longrightarrow> out \<noteq> [] \<Longrightarrow>
     map fst (ws_spentOutpoints (terminate s r st txid n)) = map fst (ws_spentOutpoints s) @ [out]"
  "map sr_outpoint (ws_newStates (advance s r txid h m k0 k1 ch)) =
     map sr_outpoint (ws_newStates s) @ [display_outpoint txid 1]"
  "or_currentOutpoint r = Some out \<Longrightarrow> out \<noteq> [] \<Longrightarrow>
     map fst (ws_spentOutpoints (advance s r txid h m k0 k1 ch)) =
       map fst (ws_spentOutpoints s) @ [out]"
  "map sr_outpoint (ws_newStates (create_object s k txid h f k0 k1)) =
     map sr_outpoint (ws_newStates s) @ [display_outpoint txid 1]"
  "ws_spentOutpoints (create_object s k txid h f k0 k1) = ws_spentOutpoints s"
  by (simp_all add: terminate_def advance_def create_object_def Let_def spend_outpoint_index)

lemma block_inv_fresh_state:
  assumes "block_inv L ns T before s" and "txid \<notin> T"
  shows "display_outpoint txid 1 \<notin> set (map sr_outpoint (ws_newStates s))"
  using assms display_outpoint_fresh [of txid T]
  unfolding block_inv_def flow_ok_def Let_def by blast

lemma block_inv_terminate:
  assumes inv: "block_inv L ns T before s" and r: "js_get (ws_objects s) k = Some r" "or_status r = Active"
    and "st \<noteq> Active" and "or_stateSequence r \<le> n"
  shows "block_inv L ns T before (terminate s r st txid n)"
proof -
  have ok: "ws_ok s" using inv by (simp add: block_inv_def)
  note rk = ws_okD [OF ok r(1)]
  obtain out where out: "or_currentOutpoint r = Some out" "out \<noteq> []"
    using record_ok_current [OF rk(2) r(2)] .
  have "js_get (ws_activeByOutpoint s) out = Some k"
    using r(1) out(1) block_inv_index [OF inv] by blast
  then have "out \<in> dom (js_get (ws_activeByOutpoint s))" by blast
  moreover have "out \<in> carrier_outpoints T"
    using inv r(1) out(1) by (auto simp: block_inv_def objects_from_def)
  ultimately have "flow_ok T before (terminate s r st txid n)"
    using inv out unfolding block_inv_def flow_ok_def Let_def
    by (auto simp: mutation_index mutation_rows dom_js)
  moreover have "objects_from L ns T (ws_objects (terminate s r st txid n))"
    using inv r(1) rk(1) unfolding block_inv_def objects_from_def
    by (auto simp: js_get_set terminated_def)
  moreover have "undo_ok before (terminate s r st txid n)"
    using inv by (simp add: block_inv_def undo_ok_mutations)
  moreover have "ws_ok (terminate s r st txid n)"
    by (rule ws_ok_terminate [OF ok r assms(4,5)])
  moreover have "steps_ok before (terminate s r st txid n)"
    using inv r(1) rk(1) assms(5) by (intro steps_ok_terminate) (simp_all add: block_inv_def)
  ultimately show ?thesis by (simp add: block_inv_def)
qed

lemma block_inv_advance:
  assumes inv: "block_inv L ns T before s" and r: "js_get (ws_objects s) k = Some r" "or_status r = Active"
    and new: "txid \<notin> T" and "n = or_stateSequence r + 1"
  shows "block_inv L ns (insert txid T) before (advance s r txid h n k0 k1 ch)"
proof -
  have ok: "ws_ok s" using inv by (simp add: block_inv_def)
  note rk = ws_okD [OF ok r(1)]
  obtain out where out: "or_currentOutpoint r = Some out" "out \<noteq> []"
    using record_ok_current [OF rk(2) r(2)] .
  have "js_get (ws_activeByOutpoint s) out = Some k"
    using r(1) out(1) block_inv_index [OF inv] by blast
  then have "out \<in> dom (js_get (ws_activeByOutpoint s))" by blast
  moreover have "out \<in> carrier_outpoints T"
    using inv r(1) out(1) by (auto simp: block_inv_def objects_from_def)
  moreover have "display_outpoint txid 1 \<notin> carrier_outpoints T"
    using new by (simp add: display_outpoint_fresh)
  ultimately have "flow_ok (insert txid T) before (advance s r txid h n k0 k1 ch)"
    using inv out unfolding block_inv_def flow_ok_def Let_def
    by (auto simp: mutation_index mutation_rows dom_js)
  moreover have "objects_from L ns (insert txid T) (ws_objects (advance s r txid h n k0 k1 ch))"
    using inv r(1) rk(1) unfolding block_inv_def objects_from_def
    by (auto simp: js_get_set advanced_def)
  moreover have "undo_ok before (advance s r txid h n k0 k1 ch)"
    using inv by (simp add: block_inv_def undo_ok_mutations)
  moreover have "ws_ok (advance s r txid h n k0 k1 ch)"
    by (rule ws_ok_advance [OF ok r block_inv_fresh_outpoint [OF inv new] assms(5)])
  moreover have "steps_ok before (advance s r txid h n k0 k1 ch)"
    using inv r(1) rk(1) assms(5) block_inv_fresh_state [OF inv new]
    by (intro steps_ok_advance) (simp_all add: block_inv_def)
  ultimately show ?thesis by (simp add: block_inv_def)
qed

lemma block_inv_create:
  assumes inv: "block_inv L ns T before s" and new: "txid \<notin> T"
    and k: "js_get (ws_objects s) k = None" "derived_key L ns txid k"
  shows "block_inv L ns (insert txid T) before (create_object s k txid h f k0 k1)"
proof -
  have ok: "ws_ok s" using inv by (simp add: block_inv_def)
  have "display_outpoint txid 1 \<notin> carrier_outpoints T"
    using new by (simp add: display_outpoint_fresh)
  then have "flow_ok (insert txid T) before (create_object s k txid h f k0 k1)"
    using inv unfolding block_inv_def flow_ok_def Let_def
    by (auto simp: mutation_index mutation_rows dom_js)
  moreover have "objects_from L ns (insert txid T) (ws_objects (create_object s k txid h f k0 k1))"
    using inv k(2) unfolding block_inv_def objects_from_def
    by (auto simp: js_get_set created_def)
  moreover have "undo_ok before (create_object s k txid h f k0 k1)"
    using inv by (simp add: block_inv_def undo_ok_mutations)
  moreover have "to_hex (from_hex k) = k" using k(2) by (auto simp: derived_key_def)
  then have "ws_ok (create_object s k txid h f k0 k1)"
    by (intro ws_ok_create ok k(1) block_inv_fresh_outpoint [OF inv new])
  moreover have "steps_ok before (create_object s k txid h f k0 k1)"
    using inv k(1) block_inv_fresh_state [OF inv new] by (intro steps_ok_create) (simp_all add: block_inv_def)
  ultimately show ?thesis by (simp add: block_inv_def)
qed

lemma block_inv_initial:
  assumes "objects_ok objects" and "outpoints_distinct objects" and "objects_from L ns T objects"
  shows "block_inv L ns T objects (initial_state objects)"
  using assms ws_ok_initial [OF assms(1,2)] undo_ok_initial [of objects] steps_ok_initial [of objects]
  by (simp add: block_inv_def flow_ok_def initial_state_def)

section \<open>The consumed carriers\<close>

lemma map_filter_Cons:
  "List.map_filter f (x # xs) = (case f x of None \<Rightarrow> [] | Some y \<Rightarrow> [y]) @ List.map_filter f xs"
  by (simp add: List.map_filter_def split: option.split)

lemma set_map_filter: "y \<in> set (List.map_filter f xs) \<longleftrightarrow> (\<exists>x \<in> set xs. f x = Some y)"
  by (force simp: List.map_filter_def)

definition input_outpoints :: "bitcoin_transaction \<Rightarrow> string list" where
  "input_outpoints t = List.map_filter inputDisplayOutpoint (tx_inputs t)"

definition consumed_keys :: "working_state \<Rightarrow> bitcoin_transaction \<Rightarrow> string list" where
  "consumed_keys s t = List.map_filter (js_get (ws_activeByOutpoint s)) (input_outpoints t)"

lemma consumed_keys_iff:
  "k \<in> set (consumed_keys s t) \<longleftrightarrow>
     (\<exists>out \<in> set (input_outpoints t). js_get (ws_activeByOutpoint s) out = Some k)"
  by (simp add: consumed_keys_def set_map_filter)

lemma consumed_keys_distinct:
  assumes inv: "block_inv L ns T before s" and "distinct (input_outpoints t)"
  shows "distinct (consumed_keys s t)"
proof -
  have inj: "js_get (ws_activeByOutpoint s) a = Some k \<Longrightarrow>
      js_get (ws_activeByOutpoint s) b = Some k \<Longrightarrow> a = b" for a b k
    unfolding block_inv_index [OF inv] by auto
  have "distinct outs \<Longrightarrow> distinct (List.map_filter (js_get (ws_activeByOutpoint s)) outs)" for outs
  proof (induction outs)
    case (Cons x outs)
    then show ?case
      using inj by (auto simp: map_filter_Cons set_map_filter split: option.split)
  qed (simp add: List.map_filter_def)
  with assms(2) show ?thesis by (simp add: consumed_keys_def)
qed

lemma consumed_keys_record:
  assumes "block_inv L ns T before s" and "k \<in> set (consumed_keys s t)"
  obtains r out where "js_get (ws_objects s) k = Some r" "or_currentOutpoint r = Some out"
    "out \<in> set (input_outpoints t)" "or_objectKey r = k" "or_status r = Active" "out \<noteq> []"
    "to_hex (from_hex k) = k"
proof -
  from assms(2) obtain out where out: "out \<in> set (input_outpoints t)"
    "js_get (ws_activeByOutpoint s) out = Some k" by (auto simp: consumed_keys_iff)
  from out(2) obtain r where r: "js_get (ws_objects s) k = Some r" "or_currentOutpoint r = Some out"
    unfolding block_inv_index [OF assms(1)] by blast
  have "ws_ok s" using assms(1) by (simp add: block_inv_def)
  from ws_okD [OF this r(1)] r out(1) show ?thesis
    by (intro that [of r out]) (auto simp: record_ok_def)
qed

lemma consumed_records_keys:
  assumes "mapE (\<lambda>r. bindE (of_option TypeError r) carrierEvidence) (consumed_records s t) = Inr cs"
    and "block_inv L ns T before s"
  shows "map ce_objectKey cs = map from_hex (consumed_keys s t)"
    and "\<And>c. c \<in> set cs \<Longrightarrow> \<exists>k r. k \<in> set (consumed_keys s t) \<and> js_get (ws_objects s) k = Some r \<and>
      carrierEvidence r = Inr c"
proof -
  have recs: "consumed_records s t = map (js_get (ws_objects s)) (consumed_keys s t)"
    by (simp add: consumed_records_def consumed_keys_def input_outpoints_def)
  have "ws_ok s" using assms(2) by (simp add: block_inv_def)
  note key = ws_okD(1) [OF this]
  have "map ce_objectKey cs = map from_hex ks \<and> (\<forall>c \<in> set cs. \<exists>k r. k \<in> set ks \<and>
      js_get (ws_objects s) k = Some r \<and> carrierEvidence r = Inr c)"
    if "mapE (\<lambda>r. bindE (of_option TypeError r) carrierEvidence) (map (js_get (ws_objects s)) ks) = Inr cs"
    for ks cs
    using that
  proof (induction ks arbitrary: cs)
    case (Cons k ks)
    then obtain r c cs' where c: "js_get (ws_objects s) k = Some r" "carrierEvidence r = Inr c"
      "mapE (\<lambda>r. bindE (of_option TypeError r) carrierEvidence) (map (js_get (ws_objects s)) ks) = Inr cs'"
      "cs = c # cs'" by auto
    have "ce_objectKey c = from_hex k" using c(2) key [OF c(1)] by (auto simp: carrierEvidence_def)
    with c Cons.IH [OF c(3)] show ?case by (auto 0 4)
  qed simp
  from this [OF assms(1) [unfolded recs]]
  show "map ce_objectKey cs = map from_hex (consumed_keys s t)"
    and "\<And>c. c \<in> set cs \<Longrightarrow> \<exists>k r. k \<in> set (consumed_keys s t) \<and> js_get (ws_objects s) k = Some r \<and>
      carrierEvidence r = Inr c" by blast+
qed

text \<open>The display form of an outpoint and its wire form agree.\<close>

lemma split_display_outpoint:
  "is_hex_text 64 txid \<Longrightarrow> split_on CHR '':'' (display_outpoint txid n) = [txid, nat_text n]"
proof -
  assume "is_hex_text 64 txid"
  then have "CHR '':'' \<notin> set txid"
    by (rule not_in_hex_text) (simp add: is_lower_hex_char_def is_digit_def char_code_def)
  moreover have "CHR '':'' \<notin> set (nat_text n)"
    by (rule not_in_nat_text) (simp add: is_digit_def char_code_def)
  ultimately show ?thesis
    using split_on_append [of "CHR '':''" txid "nat_text n"]
    by (simp add: display_outpoint_def split_on_plain)
qed

lemma outpointWire_display:
  assumes "is_hex_text 64 txid"
  shows "outpointWire (display_outpoint txid n) =
    (if n \<le> 0xffffffff then Inr (rev (from_hex txid) @ le_bytes 4 n) else Inl RangeError)"
  using assms all_digits_nat_text [of n]
  by (simp add: outpointWire_def split_display_outpoint wire32_hex_text One_nat_def)

lemma outpointWire_input:
  assumes "in_txid i = Some txid" and "is_hex_text 64 txid" and "in_vout i = Some vout"
    and "outpointWire (display_outpoint txid vout) = Inr w"
  shows "inputOutpoint i = Inr w"
proof -
  have w: "vout \<le> 0xffffffff" "w = rev (from_hex txid) @ le_bytes 4 vout"
    using assms(4) unfolding outpointWire_display [OF assms(2)] by (auto split: if_splits)
  have "u32le (int vout) = le_bytes 4 vout"
    using w(1) by (simp add: u32le_def nat_mod_as_int)
  with assms w(2) show ?thesis by (simp add: inputOutpoint_def wire32_hex_text)
qed

lemma consumed_carriers_spent:
  assumes ev: "buildTransactionEvidence C t height = Inr ev" and wf: "wf_transaction t"
    and inv: "block_inv L ns T before s"
    and cs: "mapE (\<lambda>r. bindE (of_option TypeError r) carrierEvidence) (consumed_records s t) = Inr cs"
    and ctx: "vc_activeCarriers ctx = cs"
  shows "carriers_spent ev ctx"
  unfolding carriers_spent_def ctx
proof
  fix w
  assume "w \<in> set (map ce_outpoint cs)"
  then obtain c where c: "c \<in> set cs" "w = ce_outpoint c" by auto
  obtain k r where k: "k \<in> set (consumed_keys s t)" "js_get (ws_objects s) k = Some r"
    "carrierEvidence r = Inr c" using consumed_records_keys(2) [OF cs inv c(1)] by blast
  obtain out where out: "or_currentOutpoint r = Some out" "out \<in> set (input_outpoints t)"
    using consumed_keys_record [OF inv k(1)] k(2) by (metis option.inject)
  from k(3) out(1) c(2) have wire: "outpointWire out = Inr w" by (auto simp: carrierEvidence_def)
  from out(2) obtain i where i: "i \<in> set (tx_inputs t)" "inputDisplayOutpoint i = Some out"
    by (auto simp: input_outpoints_def set_map_filter)
  then obtain txid vout where io: "in_txid i = Some txid" "in_vout i = Some vout"
    "out = display_outpoint txid vout"
    by (auto simp: inputDisplayOutpoint_def split: option.splits)
  have "is_hex_text 64 txid"
    using wf i(1) io(1) by (force simp: wf_transaction_def list_all_iff wf_input_def)
  from outpointWire_input [OF io(1) this io(2)] wire io(3) have "inputOutpoint i = Inr w" by simp
  moreover obtain n where n: "n < length (tx_inputs t)" "tx_inputs t ! n = i"
    using i(1) by (auto simp: in_set_conv_nth)
  obtain sc where "inputEvidence C t sc n = Inr (te_inputs ev ! n)"
    using buildTransactionEvidence_input [OF ev n(1)] by blast
  from inputEvidence_facts(2) [OF this] n(2) have "inputOutpoint i = Inr (ie_outpoint (te_inputs ev ! n))"
    by simp
  moreover have "length (te_inputs ev) = length (tx_inputs t)"
    using ev by (auto simp: buildTransactionEvidence_def dest!: mapE_Inr_length)
  ultimately show "w \<in> set (map ie_outpoint (te_inputs ev))"
    using n(1) by (metis in_set_conv_nth length_map nth_map sum.inject(2))
qed

declare One_nat_def [simp]

end
