(* ===== verification/Reducer_Correctness.thy ===== *)
theory Reducer_Correctness
  imports Reducer_Transactions
begin

text \<open>
  What \<open>classifyTransaction\<close> does under the documented behaviour of the package: it keeps the
  invariants, its events replay on the reference engine, and the carriers it spends leave the index.
\<close>

declare One_nat_def [simp del]

section \<open>The event log as transitions of the engine\<close>

definition event_transition :: "event_record \<Rightarrow> state_transition option" where
  "event_transition e =
     (case (er_objectKey e, er_predecessorOutpoint e, er_successorOutpoint e, er_key0 e, er_key1 e) of
        (Some k, None, Some out, Some k0, Some k1) \<Rightarrow> Some (CreateTransition k out k0 k1)
      | (Some k, Some p, Some out, Some k0, Some k1) \<Rightarrow>
          Some (AdvanceTransition (if er_eventType e = EVENT_MARK then MARK else ROTATE)
            k (er_stateSequence e) p out k0 k1)
      | (Some k, Some p, None, _, _) \<Rightarrow>
          Some (if er_eventType e = EVENT_CLOSE then CloseTransition k (er_stateSequence e) p (er_txid e)
                else ExitTransition
                  (if er_eventType e = EVENT_REFUND then REFUND else EXITED_NONCANONICAL)
                  k p (er_txid e))
      | _ \<Rightarrow> None)"

definition event_transitions :: "event_record list \<Rightarrow> state_transition list" where
  "event_transitions es = List.map_filter event_transition es"

text \<open>The events lead the reference engine from one object map to the other.\<close>

definition replays :: "object_map \<Rightarrow> event_record list \<Rightarrow> object_map \<Rightarrow> bool" where
  "replays before es after =
     (foldE applyStateTransition (objects_view before) (event_transitions es) = Inr (objects_view after))"

lemma event_transitions_append:
  "event_transitions (xs @ ys) = event_transitions xs @ event_transitions ys"
  by (simp add: event_transitions_def List.map_filter_def)

lemma replays_Nil [simp]: "replays m [] m"
  by (simp add: replays_def event_transitions_def List.map_filter_def)

lemma replays_append: "replays a xs b \<Longrightarrow> replays b ys c \<Longrightarrow> replays a (xs @ ys) c"
  by (simp add: replays_def event_transitions_append foldE_append)

lemma replays_Cons: "replays a [x] b \<Longrightarrow> replays b ys c \<Longrightarrow> replays a (x # ys) c"
  using replays_append [of a "[x]" b ys c] by simp

lemma replays_one:
  "event_transition e = Some tr \<Longrightarrow>
     applyStateTransition (objects_view a) tr = Inr (objects_view b) \<Longrightarrow> replays a [e] b"
  by (simp add: replays_def event_transitions_def List.map_filter_def)

lemma replays_none: "event_transition e = None \<Longrightarrow> replays a [e] a"
  by (simp add: replays_def event_transitions_def List.map_filter_def)

lemma make_event_fields [simp]:
  "er_txid (make_event b ty v ns k n p q a c m) = eb_txid b"
  "er_wtxid (make_event b ty v ns k n p q a c m) = eb_wtxid b"
  "er_txIndex (make_event b ty v ns k n p q a c m) = eb_txIndex b"
  "er_eventIndex (make_event b ty v ns k n p q a c m) = eb_eventIndex b"
  "er_subIndex (make_event b ty v ns k n p q a c m) = eb_subIndex b"
  "er_eventType (make_event b ty v ns k n p q a c m) = ty"
  "er_validityClass (make_event b ty v ns k n p q a c m) = v"
  "er_reason (make_event b ty v ns k n p q a c m) = eb_reason b"
  "er_objectKey (make_event b ty v ns k n p q a c m) = k"
  "er_stateSequence (make_event b ty v ns k n p q a c m) = n"
  "er_predecessorOutpoint (make_event b ty v ns k n p q a c m) = p"
  "er_successorOutpoint (make_event b ty v ns k n p q a c m) = q"
  "er_key0 (make_event b ty v ns k n p q a c m) = a"
  "er_key1 (make_event b ty v ns k n p q a c m) = c"
  by (simp_all add: make_event_def)

lemma transition_of_make_event:
  "event_transition (make_event b ty v ns None n p' q a c m) = None"
  "event_transition (make_event b ty v ns (Some k) n None (Some out) (Some k0) (Some k1) m) =
     Some (CreateTransition k out k0 k1)"
  "event_transition (make_event b ty v ns (Some k) n (Some p) (Some out) (Some k0) (Some k1) m) =
     Some (AdvanceTransition (if ty = EVENT_MARK then MARK else ROTATE) k n p out k0 k1)"
  "event_transition (make_event b ty v ns (Some k) n (Some p) None a c m) =
     Some (if ty = EVENT_CLOSE then CloseTransition k n p (eb_txid b)
           else ExitTransition (if ty = EVENT_REFUND then REFUND else EXITED_NONCANONICAL) k p (eb_txid b))"
  by (simp_all add: event_transition_def split: option.splits)

section \<open>What one event does\<close>

text \<open>
  The outcome of a step from \<open>s\<close> to \<open>s'\<close> that ends the carriers of the objects \<open>ks\<close>: the
  invariants hold, the events replay, and the only new index entry is the transaction's output 1.
\<close>

definition step_outcome ::
  "tandem_lib \<Rightarrow> bytes \<Rightarrow> string set \<Rightarrow> object_map \<Rightarrow> string \<Rightarrow> string set \<Rightarrow> working_state \<Rightarrow>
     event_record list \<Rightarrow> working_state \<Rightarrow> bool" where
  "step_outcome L ns T before txid ks s es s' =
     (block_inv L ns (insert txid T) before s' \<and>
      replays (ws_objects s) es (ws_objects s') \<and>
      (\<forall>out k. js_get (ws_activeByOutpoint s') out = Some k \<longrightarrow>
         out = display_outpoint txid 1 \<or> js_get (ws_activeByOutpoint s) out = Some k \<and> k \<notin> ks))"

lemma step_outcome_refl:
  "block_inv L ns T before s \<Longrightarrow> event_transitions es = [] \<Longrightarrow> step_outcome L ns T before txid {} s es s"
  using block_inv_mono [OF _ subset_insertI] by (auto simp: step_outcome_def replays_def)

text \<open>Ending one active object: \<open>CLOSE\<close>, \<open>REFUND\<close> and the noncanonical exit.\<close>

lemma index_after_terminate:
  assumes inv: "block_inv L ns T before s" and r: "js_get (ws_objects s) k = Some r" "or_status r = Active"
    and got: "js_get (ws_activeByOutpoint (terminate s r st txid n)) out = Some k'"
  shows "js_get (ws_activeByOutpoint s) out = Some k' \<and> k' \<noteq> k"
proof -
  have ok: "ws_ok s" using inv by (simp add: block_inv_def)
  obtain o' where out: "or_currentOutpoint r = Some o'" "o' \<noteq> []"
    using record_ok_current [OF ws_okD(2) [OF ok r(1)] r(2)] .
  have "js_get (ws_activeByOutpoint s) out = Some k'" "out \<noteq> o'"
    using got by (auto simp: mutation_index(1) [OF out] js_get_delete split: if_splits)
  moreover from this have "k' \<noteq> k"
    using out(1) r(1) unfolding block_inv_index [OF inv] by auto
  ultimately show ?thesis by simp
qed

lemma terminate_outcome:
  assumes inv: "block_inv L ns T before s" and r: "js_get (ws_objects s) k = Some r" "or_status r = Active"
    and b: "eb_txid b = txid"
  shows "step_outcome L ns T before txid {k} s
      [make_event b EVENT_CLOSE v m (Some k) (or_stateSequence r + 1) (or_currentOutpoint r) None a c d]
      (terminate s r Closed txid (or_stateSequence r + 1))"
    and "step_outcome L ns T before txid {k} s
      [make_event b EVENT_REFUND v m (Some k) (or_stateSequence r) (or_currentOutpoint r) None a c d]
      (terminate s r Refunded txid (or_stateSequence r))"
    and "step_outcome L ns T before txid {k} s
      [make_event b EVENT_EXITED v m (Some k) (or_stateSequence r) (or_currentOutpoint r) None a c d]
      (terminate s r ExitedNoncanonical txid (or_stateSequence r))"
proof -
  have ok: "ws_ok s" using inv by (simp add: block_inv_def)
  note rk = ws_okD [OF ok r(1)]
  obtain out where out: "or_currentOutpoint r = Some out" "out \<noteq> []"
    using record_ok_current [OF rk(2) r(2)] .
  note inv' = block_inv_mono [OF block_inv_terminate [OF inv r] subset_insertI]
  note refines = terminate_refines [OF r(1) rk(1) r(2) out(1), of txid]
  show "step_outcome L ns T before txid {k} s
      [make_event b EVENT_CLOSE v m (Some k) (or_stateSequence r + 1) (or_currentOutpoint r) None a c d]
      (terminate s r Closed txid (or_stateSequence r + 1))"
    unfolding step_outcome_def using inv' index_after_terminate [OF inv r] refines(1) out(1)
    by (auto intro!: replays_one simp: transition_of_make_event b)
  show "step_outcome L ns T before txid {k} s
      [make_event b EVENT_REFUND v m (Some k) (or_stateSequence r) (or_currentOutpoint r) None a c d]
      (terminate s r Refunded txid (or_stateSequence r))"
    unfolding step_outcome_def using inv' index_after_terminate [OF inv r] refines(2) out(1)
    by (auto intro!: replays_one simp: transition_of_make_event b)
  show "step_outcome L ns T before txid {k} s
      [make_event b EVENT_EXITED v m (Some k) (or_stateSequence r) (or_currentOutpoint r) None a c d]
      (terminate s r ExitedNoncanonical txid (or_stateSequence r))"
    unfolding step_outcome_def using inv' index_after_terminate [OF inv r] refines(3) out(1)
    by (auto intro!: replays_one simp: transition_of_make_event b)
qed

text \<open>Moving one active object to the transaction's output 1: \<open>MARK\<close> and \<open>ROTATE\<close>.\<close>

lemma index_after_advance:
  assumes inv: "block_inv L ns T before s" and r: "js_get (ws_objects s) k = Some r" "or_status r = Active"
    and got: "js_get (ws_activeByOutpoint (advance s r txid h n k0 k1 ch)) out = Some k'"
  shows "out = display_outpoint txid 1 \<or> js_get (ws_activeByOutpoint s) out = Some k' \<and> k' \<noteq> k"
proof -
  have ok: "ws_ok s" using inv by (simp add: block_inv_def)
  obtain o' where out: "or_currentOutpoint r = Some o'" "o' \<noteq> []"
    using record_ok_current [OF ws_okD(2) [OF ok r(1)] r(2)] .
  have "out = display_outpoint txid 1 \<or> js_get (ws_activeByOutpoint s) out = Some k' \<and> out \<noteq> o'"
    using got by (auto simp: mutation_index(2) [OF out] js_get_delete js_get_set split: if_splits)
  moreover have "js_get (ws_activeByOutpoint s) out = Some k' \<Longrightarrow> out \<noteq> o' \<Longrightarrow> k' \<noteq> k"
    using out(1) r(1) unfolding block_inv_index [OF inv] by auto
  ultimately show ?thesis by blast
qed

lemma advance_outcome:
  assumes inv: "block_inv L ns T before s" and r: "js_get (ws_objects s) k = Some r" "or_status r = Active"
    and new: "txid \<notin> T" and ty: "ty = EVENT_MARK \<longleftrightarrow> ch \<noteq> None"
  shows "step_outcome L ns T before txid {k} s
      [make_event b ty v m (Some k) (or_stateSequence r + 1) (or_currentOutpoint r)
         (Some (display_outpoint txid 1)) (Some k0) (Some k1) d]
      (advance s r txid h (or_stateSequence r + 1) k0 k1 ch)"
proof -
  have ok: "ws_ok s" using inv by (simp add: block_inv_def)
  note rk = ws_okD [OF ok r(1)]
  obtain out where out: "or_currentOutpoint r = Some out" "out \<noteq> []"
    using record_ok_current [OF rk(2) r(2)] .
  have "replays (ws_objects s)
      [make_event b ty v m (Some k) (or_stateSequence r + 1) (or_currentOutpoint r)
         (Some (display_outpoint txid 1)) (Some k0) (Some k1) d]
      (ws_objects (advance s r txid h (or_stateSequence r + 1) k0 k1 ch))"
    using advance_refines [OF r(1) rk(1) r(2) out(1) refl, of ch txid k0 k1 h] ty
    unfolding out(1) by (intro replays_one [OF transition_of_make_event(3)]) simp
  then show ?thesis
    unfolding step_outcome_def
    using block_inv_advance [OF inv r new refl] index_after_advance [OF inv r] by auto
qed

lemma create_outcome:
  assumes inv: "block_inv L ns T before s" and new: "txid \<notin> T"
    and k: "js_get (ws_objects s) k = None" "derived_key L ns txid k"
  shows "step_outcome L ns T before txid {} s
      [make_event b EVENT_CREATE v m (Some k) 0 None (Some (display_outpoint txid 1)) (Some k0) (Some k1) d]
      (create_object s k txid h f k0 k1)"
  unfolding step_outcome_def
  using block_inv_create [OF inv new k] create_refines [OF k(1)]
  by (auto intro!: replays_one simp: transition_of_make_event mutation_index js_get_set split: if_splits)

section \<open>The terminal events of an invalid spend\<close>

lemma terminal_events_outcome:
  assumes "classify_events (classify_event L bd oh ch t h cands mk) b n s events = Inr (s', es)"
    and "\<forall>e \<in> set events. ve_validityClass e = TERMINAL_NONCANONICAL"
    and "map ve_objectKey events = map Some raws" and "distinct (map to_hex raws)"
    and "\<forall>k \<in> to_hex ` set raws. \<exists>r. js_get (ws_objects s) k = Some r \<and> or_status r = Active"
    and "block_inv L ns T before s" and "eb_txid b = tx_txid t"
  shows "step_outcome L ns T before (tx_txid t) (to_hex ` set raws) s es s'"
  using assms
proof (induction events arbitrary: n s raws es)
  case Nil
  then show ?case by (simp add: step_outcome_refl event_transitions_def List.map_filter_def)
next
  case (Cons e events)
  obtain raw raws' where raws: "raws = raw # raws'" "ve_objectKey e = Some raw"
    "map ve_objectKey events = map Some raws'" using Cons.prems(3) by (cases raws) auto
  let ?k = "to_hex raw" and ?b = "b\<lparr>eb_subIndex := n, eb_reason := ve_reason e\<rparr>"
  obtain r where r: "js_get (ws_objects s) ?k = Some r" "or_status r = Active"
    using Cons.prems(5) raws(1) by auto
  let ?s1 = "terminate s r ExitedNoncanonical (tx_txid t) (or_stateSequence r)"
  obtain ns' where step: "classify_event L bd oh ch t h cands mk ?b s e = Inr (?s1,
      make_event ?b EVENT_EXITED TERMINAL_NONCANONICAL ns' (Some ?k) (or_stateSequence r)
        (or_currentOutpoint r) None (Some (or_key0 r)) (Some (or_key1 r)) None)"
    using Cons.prems(2) r(1) raws(2) by (auto simp: classify_event_def Let_def)
  obtain es' where es': "classify_events (classify_event L bd oh ch t h cands mk) b (Suc n) ?s1 events =
      Inr (s', es')" "es = make_event ?b EVENT_EXITED TERMINAL_NONCANONICAL ns' (Some ?k)
        (or_stateSequence r) (or_currentOutpoint r) None (Some (or_key0 r)) (Some (or_key1 r)) None # es'"
    using Cons.prems(1) step by auto
  have ok: "ws_ok s" using Cons.prems(6) by (simp add: block_inv_def)
  note rk = ws_okD(1) [OF ok r(1)]
  have one: "step_outcome L ns T before (tx_txid t) {?k} s [hd es] ?s1"
    using terminate_outcome(3) [OF Cons.prems(6) r, of ?b] Cons.prems(7) es'(2) by simp
  have inv1: "block_inv L ns T before ?s1" by (rule block_inv_terminate [OF Cons.prems(6) r]) simp_all
  have "\<forall>k \<in> to_hex ` set raws'. \<exists>r. js_get (ws_objects ?s1) k = Some r \<and> or_status r = Active"
    using Cons.prems(4,5) raws(1) rk by (auto simp: js_get_set)
  from Cons.IH [OF es'(1) _ raws(3) _ this inv1] Cons.prems(2,4,7) raws(1)
  have rest: "step_outcome L ns T before (tx_txid t) (to_hex ` set raws') ?s1 es' s'" by simp
  have "replays (ws_objects s) es (ws_objects s')"
    using one rest es'(2) replays_Cons unfolding step_outcome_def by (metis list.sel(1))
  moreover have "out = display_outpoint (tx_txid t) 1 \<or>
      js_get (ws_activeByOutpoint s) out = Some k \<and> k \<notin> to_hex ` set raws"
    if "js_get (ws_activeByOutpoint s') out = Some k" for out k
  proof -
    have "out = display_outpoint (tx_txid t) 1 \<or>
        js_get (ws_activeByOutpoint ?s1) out = Some k \<and> k \<notin> to_hex ` set raws'"
      using rest that unfolding step_outcome_def by blast
    then show ?thesis
      using index_after_terminate [OF Cons.prems(6) r, of ExitedNoncanonical "tx_txid t"
          "or_stateSequence r" out k]
      unfolding raws(1) by auto
  qed
  moreover have "block_inv L ns (insert (tx_txid t) T) before s'"
    using rest by (simp add: step_outcome_def)
  ultimately show ?case unfolding step_outcome_def by blast
qed

section \<open>A transaction\<close>

text \<open>
  What a transaction of a canonical block satisfies, given the txids confirmed before it: it is well
  formed, new, its inputs are distinct, and it does not spend itself.
\<close>

definition canonical_transaction :: "string set \<Rightarrow> bitcoin_transaction \<Rightarrow> bool" where
  "canonical_transaction T t =
     (wf_transaction t \<and> tx_txid t \<notin> T \<and> distinct (input_outpoints t) \<and>
      display_outpoint (tx_txid t) 1 \<notin> set (input_outpoints t))"

lemma consumed_single_record:
  assumes inv: "block_inv L ns T before s"
    and cs: "mapE (\<lambda>r. bindE (of_option TypeError r) carrierEvidence) (consumed_records s t) = Inr cs"
    and c: "cs = [c]"
  shows "\<exists>k r. consumed_keys s t = [k] \<and> ce_objectKey c = from_hex k \<and> to_hex (from_hex k) = k \<and>
    js_get (ws_objects s) k = Some r \<and> or_status r = Active \<and> ce_stateSequence c = or_stateSequence r"
proof -
  obtain k where k: "consumed_keys s t = [k]" "ce_objectKey c = from_hex k"
    using consumed_records_keys(1) [OF cs inv] c by (cases "consumed_keys s t") auto
  obtain r where r: "js_get (ws_objects s) k = Some r" "or_status r = Active" "to_hex (from_hex k) = k"
    using consumed_keys_record [OF inv, of k t] k(1) by auto
  obtain k' r' where "k' \<in> set (consumed_keys s t)" "js_get (ws_objects s) k' = Some r'"
    "carrierEvidence r' = Inr c"
    using consumed_records_keys(2) [OF cs inv, of c] c by auto
  with k(1) r(1) have "carrierEvidence r = Inr c" by simp
  then have "ce_stateSequence c = or_stateSequence r" by (auto simp: carrierEvidence_def)
  with k r show ?thesis by blast
qed

lemma valid_event_outcome:
  assumes contract: "valid_event_ok cs mk e" and valid: "ve_validityClass e = VALID_OPERATION"
    and keys: "object_keys_distinct L" "\<forall>u \<in> T. is_hex_text 64 u"
    and inv: "block_inv L (from_hex (bd_namespace bd)) T before s"
    and t: "canonical_transaction T t" and b: "eb_txid b = tx_txid t"
    and cs: "mapE (\<lambda>r. bindE (of_option TypeError r) carrierEvidence) (consumed_records s t) = Inr cs"
    and step: "classify_event L bd oh ch t h cands mk b s e = Inr (s', ev)"
  shows "step_outcome L (from_hex (bd_namespace bd)) T before (tx_txid t) (set (consumed_keys s t)) s [ev] s'"
proof -
  note ck = consumed_records_keys(1) [OF cs inv]
  have new: "tx_txid t \<notin> T" and hex: "is_hex_text 64 (tx_txid t)"
    using t by (auto simp: canonical_transaction_def wf_transaction_def)
  from step valid have run: "applyValid L bd oh ch s t h e mk b = Inr (s', ev)"
    by (simp add: classify_event_def Let_def)
  note single = consumed_single_record [OF inv cs]
  show ?thesis
  proof (cases "ve_operation e")
    case OpInit
    with contract ck have "consumed_keys s t = []" by (simp add: valid_event_ok_def)
    moreover have "s' = s" "event_transitions [ev] = []"
      using run OpInit
      by (auto simp: applyValid_def Let_def event_transitions_def List.map_filter_def transition_of_make_event)
    ultimately show ?thesis using step_outcome_refl [OF inv] by simp
  next
    case OpCreate
    with contract ck have none: "consumed_keys s t = []" by (simp add: valid_event_ok_def)
    obtain w key where key: "wire32 (tx_txid t) = Inr w"
      "lib_objectKeyFromWire L (from_hex (bd_namespace bd)) w = Inr key"
      "s' = create_object s (to_hex key) (tx_txid t) h (oh \<le> h \<and> h < ch) (revealed t 0) (revealed t 1)"
      "ev = make_event b EVENT_CREATE VALID_OPERATION (bd_namespace bd) (Some (to_hex key)) 0 None
        (Some (display_outpoint (tx_txid t) 1)) (Some (revealed t 0)) (Some (revealed t 1)) None"
      using run OpCreate by (auto simp: applyValid_def Let_def)
    have d: "derived_key L (from_hex (bd_namespace bd)) (tx_txid t) (to_hex key)"
      using key(1,2) by (auto simp: derived_key_def)
    from create_outcome [OF inv new block_inv_fresh_key [OF inv keys hex new d] d] none key(3,4)
    show ?thesis by simp
  next
    case OpMark
    with contract obtain c kind commitment where c: "cs = [c]" "ve_objectKey e = Some (ce_objectKey c)"
      "mk = Some (MarkMarker (ce_stateSequence c + 1) kind commitment)" by (auto simp: valid_event_ok_def)
    with single [OF c(1)] run OpMark show ?thesis
      by (auto simp: applyValid_def Let_def marker_sequence_def
          intro!: advance_outcome [OF inv _ _ new])
  next
    case OpRotate
    with contract obtain c where c: "cs = [c]" "ve_objectKey e = Some (ce_objectKey c)"
      "mk = Some (RotateMarker (ce_stateSequence c + 1))" by (auto simp: valid_event_ok_def)
    with single [OF c(1)] run OpRotate show ?thesis
      by (auto simp: applyValid_def Let_def marker_sequence_def
          intro!: advance_outcome [OF inv _ _ new])
  next
    case OpClose
    with contract obtain c commitment where c: "cs = [c]" "ve_objectKey e = Some (ce_objectKey c)"
      "mk = Some (CloseMarker (ce_stateSequence c + 1) commitment)" by (auto simp: valid_event_ok_def)
    with single [OF c(1)] run OpClose show ?thesis
      by (auto simp: applyValid_def Let_def marker_sequence_def
          intro!: terminate_outcome(1) [OF inv _ _ b])
  next
    case OpRefund
    with contract obtain c where c: "cs = [c]" "ve_objectKey e = Some (ce_objectKey c)"
      by (auto simp: valid_event_ok_def)
    with single [OF c(1)] run OpRefund show ?thesis
      by (auto simp: applyValid_def Let_def intro!: terminate_outcome(2) [OF inv _ _ b])
  qed (use contract in \<open>simp_all add: valid_event_ok_def\<close>)
qed

text \<open>The keys a terminal transaction reports are the keys of the carriers it spends, each once.\<close>

lemma consumed_keys_terminal:
  assumes inv: "block_inv L ns T before s" and dist: "distinct (input_outpoints t)"
    and ks: "mset ks = mset (map from_hex (consumed_keys s t))"
  shows "distinct (map to_hex ks)" "to_hex ` set ks = set (consumed_keys s t)"
    "\<forall>k \<in> to_hex ` set ks. \<exists>r. js_get (ws_objects s) k = Some r \<and> or_status r = Active"
proof -
  from ks have "mset (map to_hex ks) = mset (map to_hex (map from_hex (consumed_keys s t)))"
    by (simp only: mset_map)
  moreover have "map to_hex (map from_hex (consumed_keys s t)) = consumed_keys s t"
    by (rule map_idI [of _ "to_hex \<circ> from_hex", unfolded map_map [symmetric]])
      (metis comp_apply consumed_keys_record [OF inv])
  ultimately have hex: "mset (map to_hex ks) = mset (consumed_keys s t)" by (simp only:)
  show "distinct (map to_hex ks)"
    using consumed_keys_distinct [OF inv dist] mset_eq_imp_distinct_iff [OF hex] by simp
  show set: "to_hex ` set ks = set (consumed_keys s t)" using mset_eq_setD [OF hex] by simp
  show "\<forall>k \<in> to_hex ` set ks. \<exists>r. js_get (ws_objects s) k = Some r \<and> or_status r = Active"
    unfolding set by (meson consumed_keys_record [OF inv])
qed

lemma classifyTransaction_run:
  assumes "classifyTransaction L C bd (ih, oh, ch) s t i h = Inr (s', es)"
  obtains evd iw cs r where "buildTransactionEvidence C t h = Inr evd"
    "wire32 (bd_initTxid bd) = Inr iw"
    "mapE (\<lambda>r. bindE (of_option TypeError r) carrierEvidence) (consumed_records s t) = Inr cs"
    "lib_validate L evd (validation_context_for bd ih oh ch iw cs) = Inr r"
    "\<not> vr_relevant r \<or> vr_events r = [] \<longrightarrow> s' = s \<and> es = []"
    "vr_relevant r \<longrightarrow> vr_events r \<noteq> [] \<longrightarrow> (\<exists>cands. remainingCandidates L t (bd_initTxid bd) = Inr cands \<and>
       classify_events (classify_event L bd oh ch t h cands (vr_marker r)) (event_base_for t i cands)
         0 s (vr_events r) = Inr (s', es))"
proof -
  from assms obtain evd iw cs r where pre: "buildTransactionEvidence C t h = Inr evd"
    "wire32 (bd_initTxid bd) = Inr iw"
    "mapE (\<lambda>r. bindE (of_option TypeError r) carrierEvidence) (consumed_records s t) = Inr cs"
    "lib_validate L evd (validation_context_for bd ih oh ch iw cs) = Inr r"
    and rest: "(if \<not> vr_relevant r \<or> vr_events r = [] then Inr (s, [])
      else bindE (remainingCandidates L t (bd_initTxid bd)) (\<lambda>cands.
        classify_events (classify_event L bd oh ch t h cands (vr_marker r)) (event_base_for t i cands)
          0 s (vr_events r))) = Inr (s', es)"
    unfolding classifyTransaction_def Let_def prod.case bindE_Inr_iff by blast
  show ?thesis
    by (rule that [OF pre]) (use rest in \<open>auto split: if_splits\<close>)
qed

lemma event_base_for_txid [simp]: "eb_txid (event_base_for t i cands) = tx_txid t"
  by (simp add: event_base_for_def)

text \<open>
  The outcome of a classified transaction: every object whose carrier it spends leaves the index,
  except that the configured \<open>INIT\<close> transaction without a marker ends nothing.
\<close>

lemma classifyTransaction_outcome:
  assumes lib: "validator_contract L" "object_keys_distinct L" and T: "\<forall>u \<in> T. is_hex_text 64 u"
    and init: "is_hex_text 64 (bd_initTxid bd)"
    and inv: "block_inv L (from_hex (bd_namespace bd)) T before s" and t: "canonical_transaction T t"
    and run: "classifyTransaction L C bd (ih, oh, ch) s t i h = Inr (s', es)"
  shows "\<exists>ks. step_outcome L (from_hex (bd_namespace bd)) T before (tx_txid t) ks s es s' \<and>
    (tx_txid t \<noteq> bd_initTxid bd \<longrightarrow> ks = set (consumed_keys s t))"
proof -
  from run obtain evd iw cs r where pre: "buildTransactionEvidence C t h = Inr evd"
    "wire32 (bd_initTxid bd) = Inr iw"
    "mapE (\<lambda>r. bindE (of_option TypeError r) carrierEvidence) (consumed_records s t) = Inr cs"
    "lib_validate L evd (validation_context_for bd ih oh ch iw cs) = Inr r"
    and idle: "\<not> vr_relevant r \<or> vr_events r = [] \<longrightarrow> s' = s \<and> es = []"
    and busy: "vr_relevant r \<longrightarrow> vr_events r \<noteq> [] \<longrightarrow>
       (\<exists>cands. remainingCandidates L t (bd_initTxid bd) = Inr cands \<and>
       classify_events (classify_event L bd oh ch t h cands (vr_marker r)) (event_base_for t i cands)
         0 s (vr_events r) = Inr (s', es))"
    by (rule classifyTransaction_run)
  note ck = consumed_records_keys(1) [OF pre(3) inv]
  have wf: "wf_transaction t" and new: "tx_txid t \<notin> T" and dist: "distinct (input_outpoints t)"
    using t by (simp_all add: canonical_transaction_def)
  have "carriers_spent evd (validation_context_for bd ih oh ch iw cs)"
    by (rule consumed_carriers_spent [OF pre(1) wf inv pre(3)]) (simp add: validation_context_for_def)
  with lib(1) pre(4) have "validation_ok evd (validation_context_for bd ih oh ch iw cs) r"
    unfolding validator_contract_def by blast
  then consider (none) "\<not> vr_relevant r" "cs = []"
    | (valid) e where "vr_relevant r" "vr_events r = [e]" "ve_validityClass e = VALID_OPERATION"
        "valid_event_ok cs (vr_marker r) e"
    | (terminal) ks where "vr_relevant r" "cs \<noteq> []"
        "\<forall>e \<in> set (vr_events r). ve_validityClass e = TERMINAL_NONCANONICAL"
        "mset ks = mset (map ce_objectKey cs)" "map ve_objectKey (vr_events r) = map Some ks"
    | (invalid) e where "vr_relevant r" "vr_events r = [e]" "ve_validityClass e = INVALID_NO_STATE"
        "cs = [] \<or> te_txidWire evd = iw"
    unfolding validation_ok_def Let_def validation_context_for_def by auto
  then show ?thesis
  proof cases
    case none
    then have "s' = s" "es = []" using idle by auto
    moreover have "consumed_keys s t = []" using ck none(2) by simp
    ultimately show ?thesis
      using step_outcome_refl [OF inv, of "[]"] by (auto simp: event_transitions_def List.map_filter_def)
  next
    case valid
    with busy obtain cands where b:
      "classify_events (classify_event L bd oh ch t h cands (vr_marker r)) (event_base_for t i cands)
         0 s [e] = Inr (s', es)" by auto
    then obtain ev where ev: "classify_event L bd oh ch t h cands (vr_marker r)
        ((event_base_for t i cands)\<lparr>eb_subIndex := 0, eb_reason := ve_reason e\<rparr>) s e = Inr (s', ev)"
      "es = [ev]" by auto
    from valid_event_outcome [OF valid(4,3) lib(2) T inv t _ pre(3) ev(1)] ev(2)
    show ?thesis by auto
  next
    case terminal
    then have "length ks = length (vr_events r)" "length ks = length cs"
      by (metis length_map, metis length_map mset_eq_length)
    with terminal(2) have "vr_events r \<noteq> []" by auto
    with busy terminal(1) obtain cands where b:
      "classify_events (classify_event L bd oh ch t h cands (vr_marker r)) (event_base_for t i cands)
         0 s (vr_events r) = Inr (s', es)" by auto
    from consumed_keys_terminal [OF inv dist, of ks] terminal(4) ck
    show ?thesis using terminal_events_outcome [OF b terminal(3,5) _ _ inv] by auto
  next
    case invalid
    with busy obtain cands where b:
      "classify_events (classify_event L bd oh ch t h cands (vr_marker r)) (event_base_for t i cands)
         0 s [e] = Inr (s', es)" by auto
    then have "s' = s" "event_transitions es = []"
      using invalid(3)
      by (auto simp: classify_event_def Let_def event_transitions_def List.map_filter_def
          transition_of_make_event)
    then have "step_outcome L (from_hex (bd_namespace bd)) T before (tx_txid t) {} s es s'"
      using step_outcome_refl [OF inv] by simp
    moreover have "set (consumed_keys s t) = {}" if "tx_txid t \<noteq> bd_initTxid bd"
    proof -
      have "te_txidWire evd \<noteq> iw"
        using pre(1,2) that init wf wire32_inject [OF init, of "tx_txid t"]
        by (auto simp: buildTransactionEvidence_def wf_transaction_def)
      with invalid(4) ck show ?thesis by simp
    qed
    ultimately show ?thesis by auto
  qed
qed

declare One_nat_def [simp]

end
