(* ===== verification/Reducer_Block.thy ===== *)
theory Reducer_Block
  imports Reducer_Correctness
begin

text \<open>
  The block level of the reducer: what \<open>reduceBlock\<close> promises of the events, the objects, the undo
  snapshots and the outpoints it returns, for canonical blocks and a package that behaves as
  documented.
\<close>

section \<open>Canonical blocks\<close>

text \<open>
  The transactions of a block on top of the confirmed txids \<open>T\<close>: each is canonical, and none spends
  the output of a later one.
\<close>

fun canonical_transactions :: "string set \<Rightarrow> bitcoin_transaction list \<Rightarrow> bool" where
  "canonical_transactions T [] = True"
| "canonical_transactions T (t # ts) =
     (canonical_transaction T t \<and>
      (\<forall>u \<in> set ts. display_outpoint (tx_txid u) 1 \<notin> set (input_outpoints t)) \<and>
      canonical_transactions (insert (tx_txid t) T) ts)"

definition block_txids :: "ordered_transaction list \<Rightarrow> string set" where
  "block_txids ots = set (map (tx_txid \<circ> snd) ots)"

lemma block_txids_simps [simp]:
  "block_txids [] = {}" "block_txids ((i, t) # ots) = insert (tx_txid t) (block_txids ots)"
  by (simp_all add: block_txids_def)

lemma canonical_hex: "canonical_transaction T t \<Longrightarrow> is_hex_text 64 (tx_txid t)"
  by (simp add: canonical_transaction_def wf_transaction_def)

lemma irrelevant_spends_nothing:
  "\<not> isRelevant L t index init \<Longrightarrow> out \<in> set (input_outpoints t) \<Longrightarrow> js_get index out = None"
  by (auto simp: isRelevant_def input_outpoints_def set_map_filter list_ex_iff split: if_splits)

text \<open>
  Parameters of a run over a block: the package behaves as documented and the configured \<open>INIT\<close> txid
  is a txid.
\<close>

definition run_ok :: "tandem_lib \<Rightarrow> binding_record \<Rightarrow> bool" where
  "run_ok L bd = (validator_contract L \<and> object_keys_distinct L \<and> is_hex_text 64 (bd_initTxid bd))"

section \<open>The loop over the transactions\<close>

lemma relevant_step:
  assumes ok: "run_ok L bd" and T: "\<forall>u \<in> T. is_hex_text 64 u"
    and inv: "block_inv L (from_hex (bd_namespace bd)) T before s" and t: "canonical_transaction T t"
    and run: "(if isRelevant L t (ws_activeByOutpoint s) (bd_initTxid bd)
      then classifyTransaction L C bd (ih, oh, ch) s t i h else Inr (s, [])) = Inr (s', es)"
  shows "block_inv L (from_hex (bd_namespace bd)) (insert (tx_txid t) T) before s' \<and>
    replays (ws_objects s) es (ws_objects s') \<and>
    (\<forall>out k. js_get (ws_activeByOutpoint s') out = Some k \<longrightarrow>
       out = display_outpoint (tx_txid t) 1 \<or>
       js_get (ws_activeByOutpoint s) out = Some k \<and>
         (tx_txid t \<noteq> bd_initTxid bd \<longrightarrow> out \<notin> set (input_outpoints t)))"
proof (cases "isRelevant L t (ws_activeByOutpoint s) (bd_initTxid bd)")
  case True
  with run ok obtain ks where ks:
    "step_outcome L (from_hex (bd_namespace bd)) T before (tx_txid t) ks s es s'"
    "tx_txid t \<noteq> bd_initTxid bd \<longrightarrow> ks = set (consumed_keys s t)"
    using classifyTransaction_outcome [OF _ _ T _ inv t, of C ih oh ch i h s' es]
    by (auto simp: run_ok_def)
  then show ?thesis unfolding step_outcome_def using consumed_keys_iff [of _ s t] by blast
next
  case False
  then have "s' = s" "es = []" using run by auto
  then show ?thesis
    using block_inv_mono [OF inv subset_insertI] irrelevant_spends_nothing [OF False] by force
qed

lemma reduce_transactions_cons:
  "reduce_transactions L C bd heights h s ((i, t) # rest) =
     bindE (if isRelevant L t (ws_activeByOutpoint s) (bd_initTxid bd)
            then classifyTransaction L C bd heights s t i h else Inr (s, []))
       (\<lambda>(s1, es). bindE (reduce_transactions L C bd heights h s1 rest) (\<lambda>(s2, es'). Inr (s2, es @ es')))"
  by (auto simp: bindE_def split: sum.splits)

lemma reduce_transactions_outcome:
  assumes ok: "run_ok L bd"
  shows "\<forall>u \<in> T. is_hex_text 64 u \<Longrightarrow> block_inv L (from_hex (bd_namespace bd)) T before s \<Longrightarrow>
    canonical_transactions T (map snd ots) \<Longrightarrow>
    reduce_transactions L C bd (ih, oh, ch) h s ots = Inr (s', es) \<Longrightarrow>
    block_inv L (from_hex (bd_namespace bd)) (T \<union> block_txids ots) before s' \<and>
    replays (ws_objects s) es (ws_objects s') \<and>
    (\<forall>out k. js_get (ws_activeByOutpoint s') out = Some k \<longrightarrow>
       out \<in> carrier_outpoints (block_txids ots) \<or> js_get (ws_activeByOutpoint s) out = Some k) \<and>
    (bd_initTxid bd \<notin> block_txids ots \<longrightarrow>
       (\<forall>(i, t) \<in> set ots. \<forall>out \<in> set (input_outpoints t). js_get (ws_activeByOutpoint s') out = None))"
proof (induction ots arbitrary: T s es)
  case Nil
  then show ?case by simp
next
  case (Cons p ots)
  obtain i t where p: "p = (i, t)" by (cases p)
  obtain s1 es1 es2 where step: "(if isRelevant L t (ws_activeByOutpoint s) (bd_initTxid bd)
      then classifyTransaction L C bd (ih, oh, ch) s t i h else Inr (s, [])) = Inr (s1, es1)"
    and rest: "reduce_transactions L C bd (ih, oh, ch) h s1 ots = Inr (s', es2)" "es = es1 @ es2"
    using Cons.prems(4) unfolding p reduce_transactions_cons by auto
  have t: "canonical_transaction T t"
    "\<forall>u \<in> set (map snd ots). display_outpoint (tx_txid u) 1 \<notin> set (input_outpoints t)"
    "canonical_transactions (insert (tx_txid t) T) (map snd ots)"
    using Cons.prems(3) p by simp_all
  note one = relevant_step [OF ok Cons.prems(1,2) t(1) step]
  have T': "\<forall>u \<in> insert (tx_txid t) T. is_hex_text 64 u"
    using Cons.prems(1) canonical_hex [OF t(1)] by simp
  note two = Cons.IH [OF T' conjunct1 [OF one] t(3) rest(1)]
  have prior: "js_get (ws_activeByOutpoint s') out = Some k \<Longrightarrow>
      out \<in> carrier_outpoints (block_txids ots) \<or> js_get (ws_activeByOutpoint s1) out = Some k" for out k
    using two by blast
  have "js_get (ws_activeByOutpoint s') out = None"
    if "bd_initTxid bd \<noteq> tx_txid t" "out \<in> set (input_outpoints t)" for out
  proof (rule ccontr)
    assume "js_get (ws_activeByOutpoint s') out \<noteq> None"
    then obtain k where "js_get (ws_activeByOutpoint s') out = Some k" by auto
    moreover have "out \<notin> carrier_outpoints (block_txids ots)"
      using t(2) that(2) by (auto simp: carrier_outpoints_def block_txids_def)
    ultimately have "js_get (ws_activeByOutpoint s1) out = Some k" using prior by blast
    then show False
      using one that t(1) unfolding canonical_transaction_def by metis
  qed
  moreover have "replays (ws_objects s) es (ws_objects s')"
    using one two rest(2) replays_append by blast
  moreover have "out \<in> carrier_outpoints (block_txids (p # ots)) \<or> js_get (ws_activeByOutpoint s) out = Some k"
    if "js_get (ws_activeByOutpoint s') out = Some k" for out k
    using prior [OF that] one p by auto
  moreover have "block_inv L (from_hex (bd_namespace bd)) (T \<union> block_txids (p # ots)) before s'"
    using two p by simp
  ultimately show ?case using two p by auto
qed

section \<open>The activation block\<close>

lemma activation_classification:
  assumes ok: "run_ok L bd" and T: "\<forall>u \<in> T. is_hex_text 64 u" and "canonical_transaction T t"
    and t: "tx_txid t = bd_initTxid bd"
    and run: "classifyTransaction L C bd (ih, oh, ch) (initial_state []) t i h = Inr (s', es)"
  shows "s' = initial_state [] \<and> event_transitions es = []"
proof -
  let ?s = "initial_state []"
  have inv: "block_inv L (from_hex (bd_namespace bd)) T [] ?s"
    by (rule block_inv_initial) (simp_all add: objects_ok_Nil outpoints_distinct_def objects_from_def)
  from run obtain evd iw cs r where pre: "buildTransactionEvidence C t h = Inr evd"
    "wire32 (bd_initTxid bd) = Inr iw"
    "mapE (\<lambda>r. bindE (of_option TypeError r) carrierEvidence) (consumed_records ?s t) = Inr cs"
    "lib_validate L evd (validation_context_for bd ih oh ch iw cs) = Inr r"
    and idle: "\<not> vr_relevant r \<or> vr_events r = [] \<longrightarrow> s' = ?s \<and> es = []"
    and busy: "vr_relevant r \<longrightarrow> vr_events r \<noteq> [] \<longrightarrow>
       (\<exists>cands. remainingCandidates L t (bd_initTxid bd) = Inr cands \<and>
       classify_events (classify_event L bd oh ch t h cands (vr_marker r)) (event_base_for t i cands)
         0 ?s (vr_events r) = Inr (s', es))"
    by (rule classifyTransaction_run)
  have none: "consumed_keys ?s t = []"
    by (auto simp: consumed_keys_def initial_state_def initial_index_def List.map_filter_def)
  then have cs: "cs = []" using consumed_records_keys(1) [OF pre(3) inv] by simp
  have tx: "te_txidWire evd = iw" using pre(1,2) t by (auto simp: buildTransactionEvidence_def)
  have "carriers_spent evd (validation_context_for bd ih oh ch iw cs)"
    by (simp add: carriers_spent_def validation_context_for_def cs)
  with ok pre(4) have "validation_ok evd (validation_context_for bd ih oh ch iw cs) r"
    unfolding run_ok_def validator_contract_def by blast
  then consider "\<not> vr_relevant r"
    | e where "vr_relevant r" "vr_events r = [e]"
        "ve_validityClass e = VALID_OPERATION \<and> ve_operation e = OpInit \<or>
         ve_validityClass e = INVALID_NO_STATE"
    unfolding validation_ok_def Let_def validation_context_for_def using tx cs by auto
  then show ?thesis
  proof cases
    case 1
    then show ?thesis using idle by (simp add: event_transitions_def List.map_filter_def)
  next
    case 2
    with busy obtain cands where "classify_events (classify_event L bd oh ch t h cands (vr_marker r))
        (event_base_for t i cands) 0 ?s [e] = Inr (s', es)" by auto
    with 2(3) show ?thesis
      by (auto simp: classify_event_def applyValid_def Let_def event_transitions_def
          List.map_filter_def transition_of_make_event)
  qed
qed

lemma canonical_find:
  "canonical_transactions T (map snd ots) \<Longrightarrow> find (\<lambda>(_, t). tx_txid t = x) ots = Some (i, t) \<Longrightarrow>
     tx_txid t = x \<and> (\<exists>U. T \<subseteq> U \<and> (\<forall>u \<in> U - T. is_hex_text 64 u) \<and> canonical_transaction U t)"
proof (induction ots arbitrary: T)
  case (Cons p ots)
  obtain j u where p: "p = (j, u)" by (cases p)
  show ?case
  proof (cases "tx_txid u = x")
    case True
    with Cons.prems p show ?thesis by (intro conjI exI [of _ T]) auto
  next
    case False
    with Cons.prems p have "canonical_transactions (insert (tx_txid u) T) (map snd ots)"
      "find (\<lambda>(_, t). tx_txid t = x) ots = Some (i, t)" by simp_all
    from Cons.IH [OF this] obtain U where U: "tx_txid t = x" "insert (tx_txid u) T \<subseteq> U"
      "\<forall>v \<in> U - insert (tx_txid u) T. is_hex_text 64 v" "canonical_transaction U t" by blast
    moreover have "is_hex_text 64 (tx_txid u)" using Cons.prems(1) p by (auto intro: canonical_hex)
    ultimately show ?thesis by (intro conjI exI [of _ U]) auto
  qed
qed simp

lemma activate_outcome:
  assumes ok: "run_ok L bd" and T: "\<forall>u \<in> T. is_hex_text 64 u"
    and can: "canonical_transactions T (map snd ots)" and none: "act = None \<longrightarrow> objects = []"
    and run: "activate L C bd act block ots (initial_state objects) = Inr (s1, act', es)"
  shows "s1 = initial_state objects \<and> event_transitions es = [] \<and> (es \<noteq> [] \<longrightarrow> \<not> ia_valid act')"
proof (cases act)
  case None
  with run none obtain i t heights cl where h:
    "find (\<lambda>(_, t). tx_txid t = bd_initTxid bd) ots = Some (i, t)"
    "classifyTransaction L C bd (blk_height block, (case heights of None \<Rightarrow> 0 | Some h \<Rightarrow> fst h),
        (case heights of None \<Rightarrow> 0 | Some h \<Rightarrow> snd h)) (initial_state []) t i (blk_height block)
       = Inr (s1, cl)"
    "es = (if ia_valid act' then [] else cl)"
    by (auto simp: activate_def Let_def)
  obtain U where U: "tx_txid t = bd_initTxid bd" "\<forall>u \<in> U. is_hex_text 64 u" "canonical_transaction U t"
    using canonical_find [OF can h(1)] T by blast
  from activation_classification [OF ok U(2,3,1) h(2)] h(3) None none
  show ?thesis by (auto simp: event_transitions_def List.map_filter_def)
next
  case (Some a)
  with run show ?thesis by (auto simp: activate_def event_transitions_def List.map_filter_def)
qed

end
