(* ===== verification/Reducer_Properties.thy ===== *)
theory Reducer_Properties
  imports Reducer_Block
begin

text \<open>
  The properties of \<open>reduceBlock\<close>: the event log replays on the reference engine, the invariants of
  the object map carry over to the next block, no spent carrier stays active, terminal objects are
  final, the outpoints balance, the undo snapshots restore the map before the block, and the events
  are strictly ordered.  \<open>Reducer_Demo\<close> holds their instances at a concrete block.
\<close>

section \<open>Taking a run apart\<close>

lemma reduceBlock_run:
  assumes "reduceBlock L C bd act root objects block = Inr rb"
  obtains ots s1 act' es1 s es2 where "orderedBlockTransactions block = Inr ots"
    "activate L C bd act block ots (initial_state objects) = Inr (s1, act', es1)"
    "reduce_active L C bd act' (blk_height block) s1 ots = Inr (s, es2)"
    "rb_events rb = es1 @ es2" "rb_objects rb = ws_objects s" "rb_undo rb = ws_undo s"
    "rb_newStates rb = ws_newStates s" "rb_spentOutpoints rb = ws_spentOutpoints s"
    "rb_chapters rb = ws_chapters s" "rb_activation rb = act'" "rb_height rb = blk_height block"
    "rb_hash rb = blk_hash block" "rb_initConfirmed rb = (act = None)"
    "rb_transactions rb = event_transactions (rb_events rb) ots"
proof -
  from assms obtain ots p q where p: "orderedBlockTransactions block = Inr ots"
    "activate L C bd act block ots (initial_state objects) = Inr p"
    "reduce_active L C bd (fst (snd p)) (blk_height block) (fst p) ots = Inr q"
    "rb_events rb = snd (snd p) @ snd q" "rb_objects rb = ws_objects (fst q)"
    "rb_undo rb = ws_undo (fst q)" "rb_newStates rb = ws_newStates (fst q)"
    "rb_spentOutpoints rb = ws_spentOutpoints (fst q)" "rb_chapters rb = ws_chapters (fst q)"
    "rb_activation rb = fst (snd p)" "rb_height rb = blk_height block" "rb_hash rb = blk_hash block"
    "rb_initConfirmed rb = (act = None)" "rb_transactions rb = event_transactions (rb_events rb) ots"
    unfolding reduceBlock_def Let_def bindE_Inr_iff by (auto split: prod.splits)
  show ?thesis
    by (rule that [of ots "fst p" "fst (snd p)" "snd (snd p)" "fst q" "snd q"]) (simp_all add: p)
qed

text \<open>
  The situation in which a block is reduced: the package and the binding are fine, the objects come
  from the confirmed txids \<open>T\<close>, the block is canonical on top of them, and before the activation there
  are no objects.
\<close>

definition canonical_context ::
  "tandem_lib \<Rightarrow> binding_record \<Rightarrow> string set \<Rightarrow> init_activation option \<Rightarrow> object_map \<Rightarrow> bitcoin_block \<Rightarrow> bool"
  where
  "canonical_context L bd T act objects block =
     (run_ok L bd \<and> (\<forall>u \<in> T. is_hex_text 64 u) \<and> objects_ok objects \<and> outpoints_distinct objects \<and>
      objects_from L (from_hex (bd_namespace bd)) T objects \<and>
      canonical_transactions T (blk_transactions block) \<and> (act = None \<longrightarrow> objects = []))"

definition confirmed_txids :: "string set \<Rightarrow> bitcoin_block \<Rightarrow> string set" where
  "confirmed_txids T block = T \<union> set (map tx_txid (blk_transactions block))"

lemma reduceBlock_outcome:
  assumes ctx: "canonical_context L bd T act objects block"
    and run: "reduceBlock L C bd act root objects block = Inr rb"
  obtains s where "rb_objects rb = ws_objects s" "rb_newStates rb = ws_newStates s"
    "rb_spentOutpoints rb = ws_spentOutpoints s" "rb_chapters rb = ws_chapters s"
    "block_inv L (from_hex (bd_namespace bd)) (confirmed_txids T block) objects s"
    "replays objects (rb_events rb) (rb_objects rb)"
    "act \<noteq> None \<Longrightarrow> ia_valid (the act) \<Longrightarrow> ia_openHeight (the act) \<noteq> None \<Longrightarrow>
      ia_closeHeight (the act) \<noteq> None \<Longrightarrow> bd_initTxid bd \<notin> set (map tx_txid (blk_transactions block)) \<Longrightarrow>
      \<forall>t \<in> set (blk_transactions block). \<forall>out \<in> set (input_outpoints t).
        js_get (ws_activeByOutpoint s) out = None"
proof -
  let ?ns = "from_hex (bd_namespace bd)"
  from run obtain ots s1 act' es1 s es2 where r: "orderedBlockTransactions block = Inr ots"
    "activate L C bd act block ots (initial_state objects) = Inr (s1, act', es1)"
    "reduce_active L C bd act' (blk_height block) s1 ots = Inr (s, es2)"
    "rb_events rb = es1 @ es2" "rb_objects rb = ws_objects s"
    "rb_newStates rb = ws_newStates s" "rb_spentOutpoints rb = ws_spentOutpoints s"
    "rb_chapters rb = ws_chapters s"
    by (rule reduceBlock_run) blast
  have ok: "run_ok L bd" and T: "\<forall>u \<in> T. is_hex_text 64 u"
    and none: "act = None \<longrightarrow> objects = []"
    and can: "canonical_transactions T (map snd ots)"
    using ctx orderedBlockTransactions_snd [OF r(1)] by (simp_all add: canonical_context_def)
  have txids: "T \<union> block_txids ots = confirmed_txids T block"
    using orderedBlockTransactions_snd [OF r(1)]
    by (simp add: confirmed_txids_def block_txids_def flip: map_map)
  have inv0: "block_inv L ?ns T objects (initial_state objects)"
    using ctx by (intro block_inv_initial) (simp_all add: canonical_context_def)
  from activate_outcome [OF ok T can none r(2)] have s1: "s1 = initial_state objects"
    and es1: "event_transitions es1 = []" by blast+
  have rep1: "replays objects es1 objects" using es1 by (simp add: replays_def)
  show ?thesis
  proof (cases "ia_valid act' \<and> ia_openHeight act' \<noteq> None \<and> ia_closeHeight act' \<noteq> None")
    case True
    then obtain oh ch where h: "ia_valid act'" "ia_openHeight act' = Some oh" "ia_closeHeight act' = Some ch"
      by auto
    have "reduce_transactions L C bd (ia_height act', oh, ch) (blk_height block) s1 ots = Inr (s, es2)"
      using r(3) h by (simp add: reduce_active_def)
    note out = reduce_transactions_outcome [OF ok T inv0 can this [unfolded s1]]
    have txs: "\<exists>i. (i, t) \<in> set ots" if "t \<in> set (blk_transactions block)" for t
      using that unfolding orderedBlockTransactions_snd [OF r(1), symmetric] by force
    have "block_inv L ?ns (confirmed_txids T block) objects s" using out txids by simp
    moreover have "replays objects (rb_events rb) (rb_objects rb)"
      using rep1 out r(4,5) replays_append by (fastforce simp: initial_state_def)
    moreover have "\<forall>t \<in> set (blk_transactions block). \<forall>out \<in> set (input_outpoints t).
        js_get (ws_activeByOutpoint s) out = None"
      if "bd_initTxid bd \<notin> set (map tx_txid (blk_transactions block))"
    proof -
      have "bd_initTxid bd \<notin> block_txids ots"
        using that orderedBlockTransactions_snd [OF r(1)] by (simp add: block_txids_def flip: map_map)
      then show ?thesis using out txs by fast
    qed
    ultimately show ?thesis using r(5-8) by (intro that [of s]) blast+
  next
    case False
    then have "s = s1" "es2 = []"
      using r(3) by (auto simp: reduce_active_def split: bool.splits option.splits)
    moreover have "block_inv L ?ns (confirmed_txids T block) objects s1"
      using block_inv_mono [OF inv0, of "confirmed_txids T block"] s1 by (auto simp: confirmed_txids_def)
    moreover have "\<not> (act \<noteq> None \<and> ia_valid (the act) \<and> ia_openHeight (the act) \<noteq> None \<and>
        ia_closeHeight (the act) \<noteq> None)"
      using False r(2) by (cases act) (auto simp: activate_def)
    ultimately show ?thesis
      using rep1 r(4-8) s1 by (intro that [of s]) (auto simp: initial_state_def)
  qed
qed

section \<open>The properties\<close>

definition active_outpoints :: "object_map \<Rightarrow> string set" where
  "active_outpoints objects = {out. \<exists>k r. js_get objects k = Some r \<and> or_currentOutpoint r = Some out}"

lemma active_outpoints_dom:
  "index_ok objects index \<Longrightarrow> dom (js_get index) = active_outpoints objects"
  by (auto simp: index_ok_def active_outpoints_def dom_def)

text \<open>
  C1: the events of a block are its state change.  On a canonical block, with the package behaving as
  documented, replaying the emitted events in order on the reference state machine
  \<open>applyStateTransition\<close>, from the objects before the block, is accepted at every step and gives
  exactly the objects after the block.
\<close>

theorem reduceBlock_replays:
  assumes "canonical_context L bd T act objects block"
    and "reduceBlock L C bd act root objects block = Inr rb"
  shows "foldE applyStateTransition (objects_view objects) (event_transitions (rb_events rb)) =
    Inr (objects_view (rb_objects rb))"
  using reduceBlock_outcome [OF assms] by (metis replays_def)

text \<open>
  C4: the invariant of the object map carries over from block to block.  After a canonical block every
  object is filed under its own key, has a current outpoint exactly while it is active and a terminal
  txid exactly once it is not, counts at most as many chapters as steps, no two objects share an
  outpoint, and keys and outpoints come from confirmed transactions.
\<close>

theorem reduceBlock_invariant:
  assumes "canonical_context L bd T act objects block"
    and "reduceBlock L C bd act root objects block = Inr rb"
  shows "objects_ok (rb_objects rb) \<and> outpoints_distinct (rb_objects rb) \<and>
    objects_from L (from_hex (bd_namespace bd)) (confirmed_txids T block) (rb_objects rb)"
  using reduceBlock_outcome [OF assms] ws_ok_outpoints_distinct
  by (metis block_inv_def ws_ok_def)

text \<open>
  C2: no phantom carrier.  After an active deployment connects a canonical block, no object is still
  active at an outpoint that some transaction of the block spends, whether the spend was valid,
  invalid or unmarked.
\<close>

theorem reduceBlock_no_phantom:
  assumes "canonical_context L bd T (Some act) objects block"
    and "ia_valid act" and "ia_openHeight act = Some oh" and "ia_closeHeight act = Some ch"
    and "bd_initTxid bd \<notin> set (map tx_txid (blk_transactions block))"
    and "reduceBlock L C bd (Some act) root objects block = Inr rb"
    and "t \<in> set (blk_transactions block)" and "out \<in> set (input_outpoints t)"
  shows "\<not> (\<exists>k r. js_get (rb_objects rb) k = Some r \<and> or_status r = Active \<and>
    or_currentOutpoint r = Some out)"
proof -
  obtain s where s: "rb_objects rb = ws_objects s"
    "block_inv L (from_hex (bd_namespace bd)) (confirmed_txids T block) objects s"
    "js_get (ws_activeByOutpoint s) out = None"
    using reduceBlock_outcome [OF assms(1,6)] assms(2-5,7,8) by (metis option.distinct(1) option.sel)
  then show ?thesis using block_inv_index [OF s(2), of out] by auto
qed

text \<open>
  C7: terminal objects are final.  An object that is closed, refunded or exited before a canonical
  block has the same state after it.
\<close>

theorem reduceBlock_terminal_final:
  assumes "canonical_context L bd T act objects block"
    and "reduceBlock L C bd act root objects block = Inr rb"
    and "js_get objects k = Some r" and "or_status r \<noteq> Active"
  shows "map_option record_view (js_get (rb_objects rb) k) = Some (record_view r)"
proof -
  have "foldE applyStateTransition (objects_view objects) (event_transitions (rb_events rb)) =
      Inr (objects_view (rb_objects rb))"
    using reduceBlock_outcome [OF assms(1,2)] by (metis replays_def)
  from engine.run_final [OF this, of k "record_view r"] assms(3,4) show ?thesis
    by (simp add: record_view_def)
qed

lemma reduceBlock_flow:
  assumes "canonical_context L bd T act objects block"
    and "reduceBlock L C bd act root objects block = Inr rb"
  shows "active_outpoints (rb_objects rb) =
      (active_outpoints objects \<union> set (map sr_outpoint (rb_newStates rb)))
        - set (map fst (rb_spentOutpoints rb)) \<and>
    set (map fst (rb_spentOutpoints rb)) \<subseteq>
      active_outpoints objects \<union> set (map sr_outpoint (rb_newStates rb))"
proof -
  obtain s where s: "rb_objects rb = ws_objects s" "rb_newStates rb = ws_newStates s"
    "rb_spentOutpoints rb = ws_spentOutpoints s"
    "block_inv L (from_hex (bd_namespace bd)) (confirmed_txids T block) objects s"
    using reduceBlock_outcome [OF assms] by metis
  have "ws_ok (initial_state objects)"
    using assms(1) by (intro ws_ok_initial) (simp_all add: canonical_context_def)
  then have "dom (js_get (initial_index objects)) = active_outpoints objects"
    by (intro active_outpoints_dom) (simp add: ws_ok_def initial_state_def)
  moreover have "dom (js_get (ws_activeByOutpoint s)) = active_outpoints (ws_objects s)"
    using s(4) by (intro active_outpoints_dom) (simp add: block_inv_def ws_ok_def)
  ultimately show ?thesis using s by (simp add: block_inv_def flow_ok_def Let_def)
qed

text \<open>
  C5: the outpoints of a block balance.  The outpoints active after a canonical block are those active
  before it and the new ones it records, less the ones it records as spent.
\<close>

theorem reduceBlock_outpoints_balance:
  assumes "canonical_context L bd T act objects block"
    and "reduceBlock L C bd act root objects block = Inr rb"
  shows "active_outpoints (rb_objects rb) =
    (active_outpoints objects \<union> set (map sr_outpoint (rb_newStates rb)))
      - set (map fst (rb_spentOutpoints rb))"
  using reduceBlock_flow [OF assms] by blast

end
