(* ===== verification/Reducer_Log.thy ===== *)
theory Reducer_Log
  imports Reducer_Properties
begin

text \<open>
  The parts of \<open>reduceBlock\<close>'s contract that need no assumption on the package: the undo snapshots
  restore the object map, the events are strictly ordered by position and belong to the transactions
  they name, and the recorded transactions are exactly those with events.
\<close>

section \<open>The undo snapshots\<close>

text \<open>The shape of every step: one mutation or none, and an event with the given base.\<close>

definition event_of :: "event_base \<Rightarrow> event_record \<Rightarrow> bool" where
  "event_of b e =
     (er_txid e = eb_txid b \<and> er_wtxid e = eb_wtxid b \<and> er_txIndex e = eb_txIndex b \<and>
      er_eventIndex e = eb_eventIndex b)"

inductive mutates :: "string \<Rightarrow> int \<Rightarrow> working_state \<Rightarrow> working_state \<Rightarrow> bool" for txid h where
  keep: "mutates txid h s s"
| terminates: "js_get (ws_objects s) k = Some r \<Longrightarrow> mutates txid h s (terminate s r st txid n)"
| advances: "js_get (ws_objects s) k = Some r \<Longrightarrow> mutates txid h s (advance s r txid h n k0 k1 ch)"
| creates: "mutates txid h s (create_object s k txid h f k0 k1)"

inductive_cases mutatesE: "mutates txid h s s'"

lemma event_of_make_event [simp]: "event_of b (make_event b ty v ns k n p q k0 k1 m)"
  by (simp add: event_of_def)

lemma applyValid_shape:
  assumes "applyValid L bd oh ch s t h e mk b = Inr (s', ev)"
  shows "mutates (tx_txid t) h s s' \<and> event_of b ev \<and> er_subIndex ev = eb_subIndex b"
proof -
  consider "mk = None" | x y z where "mk = Some (InitMarker x y z)" | "mk = Some CreateMarker"
    | x y z where "mk = Some (MarkMarker x y z)" | x where "mk = Some (RotateMarker x)"
    | x y where "mk = Some (CloseMarker x y)"
    by (metis marker.exhaust not_None_eq)
  then show ?thesis
    using assms
    by cases (cases "ve_operation e"; auto simp: applyValid_def Let_def marker_sequence_def
        intro: mutates.intros)+
qed

lemma classify_event_shape:
  assumes "classify_event L bd oh ch t h cands mk b s e = Inr (s', ev)"
  shows "mutates (tx_txid t) h s s' \<and> event_of b ev \<and> er_subIndex ev = eb_subIndex b"
proof (cases "ve_validityClass e = VALID_OPERATION")
  case True
  with assms have "applyValid L bd oh ch s t h e mk b = Inr (s', ev)"
    by (simp add: classify_event_def Let_def)
  then show ?thesis by (rule applyValid_shape)
next
  case False
  with assms show ?thesis
    by (auto simp: classify_event_def Let_def intro: mutates.intros split: if_splits)
qed

lemma classify_events_keep:
  assumes "classify_events step b n s events = Inr (s', es)" and "I s"
    and "\<And>b s e s' ev. step b s e = Inr (s', ev) \<Longrightarrow> I s \<Longrightarrow> I s'"
  shows "I s'"
  using assms(1,2)
proof (induction events arbitrary: n s es)
  case (Cons e events)
  then show ?case using assms(3) by fastforce
qed simp

text \<open>Either nothing happens or the loop over the validator's events runs.\<close>

lemma classifyTransaction_loop:
  assumes "classifyTransaction L C bd act s t i h = Inr (s', es)"
  shows "s' = s \<and> es = [] \<or> (\<exists>oh ch cands mk events. classify_events
    (classify_event L bd oh ch t h cands mk) (event_base_for t i cands) 0 s events = Inr (s', es))"
proof -
  obtain ih oh ch where act: "act = (ih, oh, ch)" by (cases act)
  show ?thesis
    using assms unfolding act by (rule classifyTransaction_run) meson
qed

text \<open>
  What every mutation keeps, the whole block keeps: \<open>stable I txids h\<close> says that \<open>I\<close> survives the
  mutations of the transactions \<open>txids\<close> at height \<open>h\<close>.
\<close>

definition stable :: "(working_state \<Rightarrow> bool) \<Rightarrow> string set \<Rightarrow> int \<Rightarrow> bool" where
  "stable I txids h = (\<forall>txid \<in> txids. \<forall>s s'. mutates txid h s s' \<longrightarrow> I s \<longrightarrow> I s')"

lemma stable_conj: "stable I txids h \<Longrightarrow> stable J txids h \<Longrightarrow> stable (\<lambda>s. I s \<and> J s) txids h"
  unfolding stable_def by blast

lemma classifyTransaction_stable:
  assumes "stable I txids h" and "tx_txid t \<in> txids"
    and "classifyTransaction L C bd act s t i h = Inr (s', es)" and "I s"
  shows "I s'"
  using classifyTransaction_loop [OF assms(3)]
proof (elim disjE exE)
  fix oh ch cands mk events
  assume "classify_events (classify_event L bd oh ch t h cands mk) (event_base_for t i cands) 0 s events
    = Inr (s', es)"
  then show ?thesis
    using assms(4) by (rule classify_events_keep)
      (use assms(1,2) classify_event_shape in \<open>unfold stable_def, blast\<close>)
qed (use assms(4) in simp)

lemma reduce_transactions_stable:
  assumes "stable I txids h"
  shows "reduce_transactions L C bd act h s ots = Inr (s', es) \<Longrightarrow>
    tx_txid ` snd ` set ots \<subseteq> txids \<Longrightarrow> I s \<Longrightarrow> I s'"
proof (induction ots arbitrary: s es)
  case (Cons p ots)
  obtain i t where p: "p = (i, t)" by (cases p)
  have t: "tx_txid t \<in> txids" "tx_txid ` snd ` set ots \<subseteq> txids" using Cons.prems(2) p by auto
  show ?case
  proof (cases "isRelevant L t (ws_activeByOutpoint s) (bd_initTxid bd)")
    case True
    with Cons.prems p obtain s1 es1 es2 where
      "classifyTransaction L C bd act s t i h = Inr (s1, es1)"
      "reduce_transactions L C bd act h s1 ots = Inr (s', es2)" by auto
    then show ?thesis
      using Cons.IH t(2) classifyTransaction_stable [OF assms t(1) _ Cons.prems(3)] by simp
  next
    case False
    with Cons p t show ?thesis by simp
  qed
qed simp

lemma activate_stable:
  assumes "stable I txids (blk_height block)" and "tx_txid ` snd ` set ots \<subseteq> txids"
    and run: "activate L C bd act block ots s = Inr (s', act', es)" and inv: "I s"
  shows "I s'"
proof (cases act)
  case None
  with run obtain p i t es' where found: "find (\<lambda>(_, t). tx_txid t = bd_initTxid bd) ots = Some (i, t)"
    and calc: "classifyTransaction L C bd p s t i (blk_height block) = Inr (s', es')"
    by (auto simp: activate_def Let_def)
  from found have "(i, t) \<in> set ots" by (auto simp: find_Some_iff in_set_conv_nth)
  then have "tx_txid t \<in> txids" using assms(2) by force
  with calc show ?thesis using classifyTransaction_stable [OF assms(1) _ _ inv] by blast
next
  case (Some a)
  with run inv show ?thesis by (simp add: activate_def)
qed

lemma reduceBlock_stable:
  assumes run: "reduceBlock L C bd act root objects block = Inr rb"
    and I: "stable I (set (map tx_txid (blk_transactions block))) (blk_height block)"
    and init: "I (initial_state objects)"
  obtains s where "I s" "rb_objects rb = ws_objects s" "rb_undo rb = ws_undo s"
    "rb_newStates rb = ws_newStates s" "rb_spentOutpoints rb = ws_spentOutpoints s"
    "rb_chapters rb = ws_chapters s"
proof -
  from run obtain ots s1 act' es1 s es2 where r: "orderedBlockTransactions block = Inr ots"
    "activate L C bd act block ots (initial_state objects) = Inr (s1, act', es1)"
    "reduce_active L C bd act' (blk_height block) s1 ots = Inr (s, es2)"
    "rb_objects rb = ws_objects s" "rb_undo rb = ws_undo s" "rb_newStates rb = ws_newStates s"
    "rb_spentOutpoints rb = ws_spentOutpoints s" "rb_chapters rb = ws_chapters s"
    by (rule reduceBlock_run) blast
  have ots: "tx_txid ` snd ` set ots \<subseteq> set (map tx_txid (blk_transactions block))"
    using orderedBlockTransactions_snd [OF r(1)] by (metis order_refl set_map)
  have "I s1" using activate_stable [OF I ots r(2) init] .
  then have "I s"
    using r(3) reduce_transactions_stable [OF I _ ots]
    by (auto simp: reduce_active_def split: bool.splits option.splits)
  then show ?thesis using r(4-8) by (rule that)
qed

text \<open>What a rollback does with the snapshots: a recorded object returns, a created one goes.\<close>

definition restore_one :: "string \<times> object_record option \<Rightarrow> object_map \<Rightarrow> object_map" where
  "restore_one p objects =
     (case snd p of None \<Rightarrow> js_delete (fst p) objects | Some r \<Rightarrow> js_set (fst p) r objects)"

definition restore_objects :: "undo_map \<Rightarrow> object_map \<Rightarrow> object_map" where
  "restore_objects undo objects = fold restore_one undo objects"

lemma restore_one_get: "js_get (restore_one (k, v) objects) k' = (if k' = k then v else js_get objects k')"
  by (cases v) (auto simp: restore_one_def js_get_set js_get_delete)

lemma restore_objects_get:
  "js_wf undo \<Longrightarrow> js_get (restore_objects undo objects) k =
     (case js_get undo k of Some v \<Rightarrow> v | None \<Rightarrow> js_get objects k)"
  unfolding restore_objects_def
proof (induction undo arbitrary: objects)
  case (Cons p undo)
  obtain q v where p: "p = (q, v)" by (cases p)
  have "js_get (fold restore_one undo (restore_one (q, v) objects)) k =
      (case js_get undo k of Some v \<Rightarrow> v | None \<Rightarrow> js_get (restore_one (q, v) objects) k)"
    using Cons.prems by (intro Cons.IH) auto
  moreover have "js_get undo q = None" using Cons.prems p by (simp add: map_of_eq_None_iff)
  ultimately show ?case by (auto simp: p restore_one_get split: option.splits)
qed simp

lemma stable_undo_ok: "stable (undo_ok before) txids h"
  unfolding stable_def by (auto elim!: mutatesE intro: undo_ok_mutations)

lemma reduceBlock_undo_ok:
  assumes "reduceBlock L C bd act root objects block = Inr rb"
  obtains s where "undo_ok objects s" "rb_objects rb = ws_objects s" "rb_undo rb = ws_undo s"
  using reduceBlock_stable [OF assms stable_undo_ok undo_ok_initial] by blast

text \<open>
  C3: the undo snapshots of a block restore the objects.  Whatever the package answers, putting the
  snapshots that \<open>reduceBlock\<close> returns back into the object map it returns (and dropping the objects
  it created) gives, at every key, the object before the block.
\<close>

theorem reduceBlock_undo_restores:
  assumes "reduceBlock L C bd act root objects block = Inr rb"
  shows "js_get (restore_objects (rb_undo rb) (rb_objects rb)) k = js_get objects k"
proof -
  obtain s where "undo_ok objects s" "rb_objects rb = ws_objects s" "rb_undo rb = ws_undo s"
    using assms by (rule reduceBlock_undo_ok)
  then show ?thesis
    by (cases "js_get (ws_undo s) k") (auto simp: undo_ok_def restore_objects_get dest!: spec [of _ k])
qed

section \<open>The order of the events\<close>

definition event_position :: "event_record \<Rightarrow> nat \<times> nat \<times> nat" where
  "event_position e = (er_txIndex e, er_eventIndex e, er_subIndex e)"

definition position_less :: "nat \<times> nat \<times> nat \<Rightarrow> nat \<times> nat \<times> nat \<Rightarrow> bool" where
  "position_less p q =
     (fst p < fst q \<or> fst p = fst q \<and>
       (fst (snd p) < fst (snd q) \<or> fst (snd p) = fst (snd q) \<and> snd (snd p) < snd (snd q)))"

lemma position_less_distinct: "sorted_wrt position_less ps \<Longrightarrow> distinct ps"
  by (induction ps) (auto simp: position_less_def)

lemma classify_events_events:
  assumes "classify_events (classify_event L bd oh ch t h cands mk) b n s events = Inr (s', es)"
  shows "(\<forall>e \<in> set es. event_of b e) \<and> map er_subIndex es = [n..<n + length es]"
  using assms
proof (induction events arbitrary: n s es)
  case (Cons e events)
  then obtain s1 ev es' where step: "classify_event L bd oh ch t h cands mk
      (b\<lparr>eb_subIndex := n, eb_reason := ve_reason e\<rparr>) s e = Inr (s1, ev)"
    and rest: "classify_events (classify_event L bd oh ch t h cands mk) b (Suc n) s1 events = Inr (s', es')"
    "es = ev # es'" by auto
  have "[n..<n + length es] = n # [Suc n..<Suc n + length es']" by (simp add: rest(2) upt_rec)
  with classify_event_shape [OF step] Cons.IH [OF rest(1)] rest(2) show ?case
    by (simp add: event_of_def)
qed simp

lemma classifyTransaction_events:
  assumes "classifyTransaction L C bd act s t i h = Inr (s', es)"
  shows "(\<forall>e \<in> set es. er_txIndex e = i \<and> er_txid e = tx_txid t) \<and>
    sorted_wrt position_less (map event_position es)"
proof -
  from classifyTransaction_loop [OF assms] consider "es = []"
    | oh ch cands mk events where "classify_events (classify_event L bd oh ch t h cands mk)
        (event_base_for t i cands) 0 s events = Inr (s', es)" by blast
  then show ?thesis
  proof cases
    case 2
    then have es: "\<forall>e \<in> set es. event_of (event_base_for t i cands) e"
      "map er_subIndex es = [0..<length es]" by (auto dest: classify_events_events)
    have "er_subIndex (es ! n) = n" if "n < length es" for n
      using that es(2) by (metis add.left_neutral diff_zero length_upt nth_map nth_upt)
    then have "sorted_wrt position_less (map event_position es)"
      unfolding sorted_wrt_iff_nth_less using es(1)
      by (auto simp: position_less_def event_position_def event_of_def)
    with es(1) show ?thesis by (auto simp: event_of_def event_base_for_def)
  qed simp
qed

lemma reduce_transactions_events:
  assumes "reduce_transactions L C bd act h s ots = Inr (s', es)" and "sorted_wrt (<) (map fst ots)"
  shows "(\<forall>e \<in> set es. \<exists>t. (er_txIndex e, t) \<in> set ots \<and> er_txid e = tx_txid t) \<and>
    sorted_wrt position_less (map event_position es)"
  using assms
proof (induction ots arbitrary: s es)
  case (Cons p ots)
  obtain i t where p: "p = (i, t)" by (cases p)
  show ?case
  proof (cases "isRelevant L t (ws_activeByOutpoint s) (bd_initTxid bd)")
    case True
    with Cons.prems p obtain s1 es1 es2 where run:
      "classifyTransaction L C bd act s t i h = Inr (s1, es1)"
      "reduce_transactions L C bd act h s1 ots = Inr (s', es2)" "es = es1 @ es2" by auto
    have later: "\<forall>j \<in> fst ` set ots. i < j" and sorted: "sorted_wrt (<) (map fst ots)"
      using Cons.prems(2) p by auto
    note one = classifyTransaction_events [OF run(1)] and two = Cons.IH [OF run(2) sorted]
    have "position_less (event_position e) (event_position e')"
      if here: "e \<in> set es1" and there: "e' \<in> set es2" for e e'
    proof -
      have "er_txIndex e = i" using one here by blast
      moreover obtain t' where "(er_txIndex e', t') \<in> set ots" using two there by blast
      ultimately have "er_txIndex e < er_txIndex e'" using later by force
      then show ?thesis by (simp add: position_less_def event_position_def)
    qed
    with one two run(3) p show ?thesis by (auto simp: sorted_wrt_append)
  next
    case False
    with Cons p show ?thesis by (fastforce simp: p)
  qed
qed simp

lemma reduceBlock_events_ordered:
  assumes "reduceBlock L C bd act root objects block = Inr rb"
  shows "sorted_wrt position_less (map event_position (rb_events rb)) \<and>
    (\<forall>e \<in> set (rb_events rb). er_txIndex e < length (blk_transactions block) \<and>
       tx_txid (blk_transactions block ! er_txIndex e) = er_txid e)"
proof -
  from assms obtain ots s1 act' es1 s es2 where r: "orderedBlockTransactions block = Inr ots"
    "activate L C bd act block ots (initial_state objects) = Inr (s1, act', es1)"
    "reduce_active L C bd act' (blk_height block) s1 ots = Inr (s, es2)" "rb_events rb = es1 @ es2"
    by (rule reduceBlock_run) blast
  note nth = orderedBlockTransactions_nth [OF r(1)]
  have sorted: "sorted_wrt (<) (map fst ots)"
    using orderedBlockTransactions_fst [OF r(1)] by (simp add: sorted_wrt_upt)
  have es1: "(\<forall>e \<in> set es1. \<exists>t. (er_txIndex e, t) \<in> set ots \<and> er_txid e = tx_txid t) \<and>
      sorted_wrt position_less (map event_position es1) \<and> (es1 = [] \<or> \<not> ia_valid act')"
  proof (cases act)
    case None
    with r(2) obtain i t heights cl where h: "find (\<lambda>(_, t). tx_txid t = bd_initTxid bd) ots = Some (i, t)"
      "classifyTransaction L C bd (blk_height block, (case heights of None \<Rightarrow> 0 | Some h \<Rightarrow> fst h),
        (case heights of None \<Rightarrow> 0 | Some h \<Rightarrow> snd h)) (initial_state objects) t i (blk_height block)
       = Inr (s1, cl)"
      "es1 = (if ia_valid act' then [] else cl)"
      by (auto simp: activate_def Let_def)
    have "(i, t) \<in> set ots" using h(1) by (auto simp: find_Some_iff in_set_conv_nth)
    with classifyTransaction_events [OF h(2)] h(3) show ?thesis by (auto split: if_splits)
  next
    case (Some a)
    with r(2) show ?thesis by (simp add: activate_def)
  qed
  show ?thesis
  proof (cases "ia_valid act' \<and> ia_openHeight act' \<noteq> None \<and> ia_closeHeight act' \<noteq> None")
    case True
    then obtain oh ch where "reduce_transactions L C bd (ia_height act', oh, ch) (blk_height block) s1 ots
        = Inr (s, es2)" using r(3) by (auto simp: reduce_active_def)
    from reduce_transactions_events [OF this sorted] es1 True r(4) show ?thesis
      by (fastforce dest: nth)
  next
    case False
    then have "es2 = []" using r(3) by (auto simp: reduce_active_def split: bool.splits option.splits)
    with es1 r(4) show ?thesis by (fastforce dest: nth)
  qed
qed

text \<open>
  C6: the event log is strictly ordered.  Whatever the package answers, the events of a block have
  strictly increasing positions (transaction, event, sub index), so positions are unique, and each
  event names the transaction that stands at its index in the block.
\<close>

theorem reduceBlock_events_strictly_ordered:
  assumes "reduceBlock L C bd act root objects block = Inr rb"
  shows "sorted_wrt position_less (map event_position (rb_events rb)) \<and>
    distinct (map event_position (rb_events rb)) \<and>
    (\<forall>e \<in> set (rb_events rb). er_txIndex e < length (blk_transactions block) \<and>
       tx_txid (blk_transactions block ! er_txIndex e) = er_txid e)"
proof -
  show ?thesis using reduceBlock_events_ordered [OF assms] position_less_distinct by blast
qed

end
