(* ===== verification/Reducer_Rows.thy ===== *)
theory Reducer_Rows
  imports Reducer_Log
begin

text \<open>
  How the rows a block writes belong to the objects it leaves, whatever the package answers: objects
  are filed under their own keys, undo snapshots, new states and chapters are of objects that exist,
  a current outpoint is either new in this block or as it was, and the origin of an object never
  changes.  All of it is shown stable under the reducer's mutations.
\<close>

section \<open>Objects under their own keys\<close>

definition filed :: "object_map \<Rightarrow> bool" where
  "filed objects = (\<forall>k r. js_get objects k = Some r \<longrightarrow> or_objectKey r = k)"

lemma filedD: "filed objects \<Longrightarrow> js_get objects k = Some r \<Longrightarrow> or_objectKey r = k"
  by (simp add: filed_def)

lemma derived_records [simp]:
  "or_objectKey (terminated r st txid n) = or_objectKey r"
  "or_objectKey (advanced r txid h n k0 k1 c) = or_objectKey r"
  "or_objectKey (created k txid h f k0 k1) = k"
  "or_createTxid (terminated r st txid n) = or_createTxid r"
  "or_createTxid (advanced r txid h n k0 k1 c) = or_createTxid r"
  "or_createTxid (created k txid h f k0 k1) = txid"
  "or_createHeight (terminated r st txid n) = or_createHeight r"
  "or_createHeight (advanced r txid h n k0 k1 c) = or_createHeight r"
  "or_currentOutpoint (terminated r st txid n) = None"
  "or_currentOutpoint (advanced r txid h n k0 k1 c) = Some (display_outpoint txid 1)"
  "or_currentOutpoint (created k txid h f k0 k1) = Some (display_outpoint txid 1)"
  "or_currentHeight (terminated r st txid n) = None"
  "or_currentHeight (advanced r txid h n k0 k1 c) = Some h"
  "or_currentHeight (created k txid h f k0 k1) = Some h"
  by (simp_all add: terminated_def advanced_def created_def)

lemma stable_filed: "stable (\<lambda>s. filed (ws_objects s)) txids h"
  unfolding stable_def filed_def by (auto elim!: mutatesE simp: js_get_set split: if_splits)

section \<open>Rows of known objects\<close>

definition known_ok :: "working_state \<Rightarrow> bool" where
  "known_ok s =
     (fst ` set (ws_undo s) \<union> sr_objectKey ` set (ws_newStates s) \<union> cr_objectKey ` set (ws_chapters s)
        \<subseteq> fst ` set (ws_objects s))"

lemma mutation_keys:
  "fst ` set (ws_undo (touch s k)) = insert k (fst ` set (ws_undo s))"
  "sr_objectKey ` set (ws_newStates (terminate s r st txid n)) = sr_objectKey ` set (ws_newStates s)"
  "sr_objectKey ` set (ws_newStates (advance s r txid h n k0 k1 ch)) =
     insert (or_objectKey r) (sr_objectKey ` set (ws_newStates s))"
  "sr_objectKey ` set (ws_newStates (create_object s k txid h f k0 k1)) =
     insert k (sr_objectKey ` set (ws_newStates s))"
  "cr_objectKey ` set (ws_chapters (terminate s r st txid n)) = cr_objectKey ` set (ws_chapters s)"
  "cr_objectKey ` set (ws_chapters (advance s r txid h n k0 k1 ch)) \<subseteq>
     insert (or_objectKey r) (cr_objectKey ` set (ws_chapters s))"
  "cr_objectKey ` set (ws_chapters (create_object s k txid h f k0 k1)) = cr_objectKey ` set (ws_chapters s)"
proof -
  show "fst ` set (ws_undo (touch s k)) = insert k (fst ` set (ws_undo s))"
    by (auto simp: touch_def dom_update map_of_eq_None_iff)
  show "cr_objectKey ` set (ws_chapters (advance s r txid h n k0 k1 ch)) \<subseteq>
      insert (or_objectKey r) (cr_objectKey ` set (ws_chapters s))"
    by (auto simp: advance_def Let_def split: option.splits)
qed (simp_all add: terminate_def advance_def create_object_def Let_def)

lemma stable_known: "stable known_ok txids h"
  unfolding stable_def
proof (intro ballI allI impI)
  fix txid s s'
  assume m: "mutates txid h s s'" and ok: "known_ok s"
  from m show "known_ok s'"
  proof cases
    case (advances k r n k0 k1 ch)
    let ?K = "fst ` set (ws_objects s)"
    have K: "fst ` set (ws_objects s') = insert (or_objectKey r) ?K" "fst ` set (ws_undo s) \<subseteq> ?K"
      "sr_objectKey ` set (ws_newStates s) \<subseteq> ?K" "cr_objectKey ` set (ws_chapters s) \<subseteq> ?K"
      using ok by (simp_all add: advances(1) known_ok_def dom_update)
    show ?thesis
      unfolding known_ok_def K(1) using K(2-4) mutation_keys(6) [of s r txid h n k0 k1 ch]
      by (simp add: advances(1) mutation_keys(1,3)) (meson insert_mono subset_insertI2 subset_trans)
  qed (use ok in \<open>auto simp: known_ok_def mutation_keys dom_update\<close>)
qed

section \<open>Current outpoints and their heights\<close>

definition heights_ok :: "object_map \<Rightarrow> int \<Rightarrow> working_state \<Rightarrow> bool" where
  "heights_ok before h s =
     (\<forall>k r out. js_get (ws_objects s) k = Some r \<longrightarrow> or_currentOutpoint r = Some out \<longrightarrow>
        or_currentHeight r = Some h \<and> out \<in> sr_outpoint ` set (ws_newStates s) \<or>
        (\<exists>r0. js_get before k = Some r0 \<and> or_currentOutpoint r0 = Some out \<and>
           or_currentHeight r0 = or_currentHeight r))"

lemma mutation_new_outpoints:
  "sr_outpoint ` set (ws_newStates (terminate s r st txid n)) = sr_outpoint ` set (ws_newStates s)"
  "sr_outpoint ` set (ws_newStates (advance s r txid h n k0 k1 ch)) =
     insert (display_outpoint txid 1) (sr_outpoint ` set (ws_newStates s))"
  "sr_outpoint ` set (ws_newStates (create_object s k txid h f k0 k1)) =
     insert (display_outpoint txid 1) (sr_outpoint ` set (ws_newStates s))"
  by (simp_all add: terminate_def advance_def create_object_def Let_def)

lemma stable_heights: "stable (heights_ok before h) txids h"
  unfolding stable_def
proof (intro ballI allI impI)
  fix txid s s'
  assume m: "mutates txid h s s'" and ok: "heights_ok before h s"
  from m show "heights_ok before h s'"
    by cases (use ok in \<open>simp_all add: heights_ok_def mutation_new_outpoints js_get_set, (metis+)?\<close>)
qed

text \<open>The new outpoints are outputs of the block's own transactions.\<close>

definition new_outpoints_ok :: "string set \<Rightarrow> working_state \<Rightarrow> bool" where
  "new_outpoints_ok txids s = (sr_outpoint ` set (ws_newStates s) \<subseteq> carrier_outpoints txids)"

lemma stable_new_outpoints: "stable (new_outpoints_ok txids) txids h"
  unfolding stable_def new_outpoints_ok_def
proof (intro ballI allI impI)
  fix txid s s'
  assume txid: "txid \<in> txids" and m: "mutates txid h s s'"
    and ok: "sr_outpoint ` set (ws_newStates s) \<subseteq> carrier_outpoints txids"
  have "display_outpoint txid 1 \<in> carrier_outpoints txids" using txid by (simp add: carrier_outpoints_def)
  with ok have "insert (display_outpoint txid 1) (sr_outpoint ` set (ws_newStates s)) \<subseteq> carrier_outpoints txids"
    by blast
  with m ok show "sr_outpoint ` set (ws_newStates s') \<subseteq> carrier_outpoints txids"
    by cases (simp_all only: mutation_new_outpoints)
qed

section \<open>Where an object comes from\<close>

definition origins_ok :: "object_map \<Rightarrow> string set \<Rightarrow> working_state \<Rightarrow> bool" where
  "origins_ok before txids s =
     (filed (ws_objects s) \<and>
      (\<forall>k r. js_get (ws_objects s) k = Some r \<longrightarrow>
         or_createTxid r \<in> txids \<or>
         (\<exists>r0. js_get before k = Some r0 \<and> or_createTxid r = or_createTxid r0 \<and>
            or_createHeight r = or_createHeight r0)))"

lemma stable_origins: "stable (origins_ok before txids) txids h"
  unfolding stable_def
proof (intro ballI allI impI)
  fix txid s s'
  assume txid: "txid \<in> txids" and m: "mutates txid h s s'" and ok: "origins_ok before txids s"
  have own: "or_objectKey r = k" if "js_get (ws_objects s) k = Some r" for k r
    using ok that by (simp add: origins_ok_def filed_def)
  have "filed (ws_objects s')"
    using ok m txid stable_filed [of txids h] by (auto simp: stable_def origins_ok_def)
  with m show "origins_ok before txids s'"
    by cases (use ok txid own in \<open>auto simp: origins_ok_def js_get_set split: if_splits\<close>)
qed

section \<open>The rows of a block\<close>

lemma reduceBlock_new_outpoints:
  assumes "reduceBlock L C bd act root objects block = Inr rb"
  shows "sr_outpoint ` set (rb_newStates rb) \<subseteq> carrier_outpoints (set (map tx_txid (blk_transactions block)))"
proof -
  have "new_outpoints_ok (set (map tx_txid (blk_transactions block))) (initial_state objects)"
    by (simp add: new_outpoints_ok_def initial_state_def)
  then obtain s where "new_outpoints_ok (set (map tx_txid (blk_transactions block))) s"
    "rb_newStates rb = ws_newStates s"
    by (rule reduceBlock_stable [OF assms stable_new_outpoints]) blast
  then show ?thesis by (simp add: new_outpoints_ok_def)
qed

lemma reduceBlock_rows:
  assumes run: "reduceBlock L C bd act root objects block = Inr rb" and "filed objects"
  shows "filed (rb_objects rb)"
    and "fst ` set (rb_undo rb) \<union> sr_objectKey ` set (rb_newStates rb) \<union> cr_objectKey ` set (rb_chapters rb)
      \<subseteq> fst ` set (rb_objects rb)"
    and "js_get (rb_objects rb) k = Some r \<Longrightarrow> or_currentOutpoint r = Some out \<Longrightarrow>
      or_currentHeight r = Some (rb_height rb) \<and> out \<in> sr_outpoint ` set (rb_newStates rb) \<or>
      (\<exists>r0. js_get objects k = Some r0 \<and> or_currentOutpoint r0 = Some out \<and>
         or_currentHeight r0 = or_currentHeight r)"
    and "js_get (rb_objects rb) k = Some r \<Longrightarrow> or_createTxid r \<in> set (map tx_txid (blk_transactions block)) \<or>
      (\<exists>r0. js_get objects k = Some r0 \<and> or_createTxid r = or_createTxid r0 \<and>
         or_createHeight r = or_createHeight r0)"
proof -
  let ?T = "set (map tx_txid (blk_transactions block))" and ?h = "blk_height block"
  have "stable (\<lambda>s. (known_ok s \<and> heights_ok objects ?h s) \<and> origins_ok objects ?T s) ?T ?h"
    by (intro stable_conj stable_known stable_heights stable_origins)
  moreover have "(known_ok (initial_state objects) \<and> heights_ok objects ?h (initial_state objects)) \<and>
      origins_ok objects ?T (initial_state objects)"
    using assms(2) by (simp add: initial_state_def known_ok_def heights_ok_def origins_ok_def)
  ultimately obtain s where s: "known_ok s" "heights_ok objects ?h s" "origins_ok objects ?T s"
    "rb_objects rb = ws_objects s" "rb_undo rb = ws_undo s" "rb_newStates rb = ws_newStates s"
    "rb_chapters rb = ws_chapters s"
    by (rule reduceBlock_stable [OF run]) blast
  have h: "rb_height rb = ?h" using run by (rule reduceBlock_run)
  show "filed (rb_objects rb)" using s by (simp add: origins_ok_def)
  show "fst ` set (rb_undo rb) \<union> sr_objectKey ` set (rb_newStates rb) \<union> cr_objectKey ` set (rb_chapters rb)
      \<subseteq> fst ` set (rb_objects rb)" using s by (simp add: known_ok_def)
  show "js_get (rb_objects rb) k = Some r \<Longrightarrow> or_currentOutpoint r = Some out \<Longrightarrow>
      or_currentHeight r = Some (rb_height rb) \<and> out \<in> sr_outpoint ` set (rb_newStates rb) \<or>
      (\<exists>r0. js_get objects k = Some r0 \<and> or_currentOutpoint r0 = Some out \<and>
         or_currentHeight r0 = or_currentHeight r)"
    using s h by (simp add: heights_ok_def)
  show "js_get (rb_objects rb) k = Some r \<Longrightarrow> or_createTxid r \<in> ?T \<or>
      (\<exists>r0. js_get objects k = Some r0 \<and> or_createTxid r = or_createTxid r0 \<and>
         or_createHeight r = or_createHeight r0)"
    using s by (simp add: origins_ok_def)
qed

end
