(* ===== verification/Reorg.thy ===== *)
theory Reorg
  imports TandemPrelude
begin

text \<open>
  \<open>src/indexer/reorg.service.ts\<close>: planning a reorganization and handing it to the store.  The
  interface \<open>ReorgStore\<close> is the locale \<open>reorg_store\<close>; its laws say what a rollback does to the stored
  blocks, and \<open>Rollback\<close> discharges them for the rollback of \<open>IndexerStore\<close>.
\<close>

section \<open>The plan\<close>

record reorg_plan =
  rp_oldTipHeight :: int
  rp_ancestorHeight :: int
  rp_rollbackHeights :: "int list"

record reorg_journal =
  rj_oldTipHash :: string
  rj_ancestorHash :: string
  rj_newTipHash :: string

text \<open>\<open>Number.isSafeInteger\<close>.\<close>

definition is_safe_integer :: "int \<Rightarrow> bool" where
  "is_safe_integer n = (- (2 ^ 53 - 1) \<le> n \<and> n \<le> 2 ^ 53 - 1)"

text \<open>The loop \<open>for (let height = oldTipHeight; height > ancestorHeight; height -= 1)\<close>.\<close>

function heights_down :: "int \<Rightarrow> int \<Rightarrow> int list" where
  "heights_down height ancestorHeight =
     (if height > ancestorHeight then height # heights_down (height - 1) ancestorHeight else [])"
  by pat_completeness auto

termination by (relation "measure (\<lambda>(height, ancestorHeight). nat (height - ancestorHeight))") auto

declare heights_down.simps [simp del]

definition planReorgRollback :: "int \<Rightarrow> int \<Rightarrow> int \<Rightarrow> reorg_plan result" where
  "planReorgRollback oldTipHeight ancestorHeight initHeight =
     (if \<not> list_all is_safe_integer [oldTipHeight, ancestorHeight, initHeight]
      then Inl (ReorgBoundaryError ''reorg heights must be safe integers'')
      else if ancestorHeight < initHeight - 1
      then Inl (ReorgBoundaryError ''reorg ancestor crosses the configured INIT boundary'')
      else if ancestorHeight \<ge> oldTipHeight
      then Inl (ReorgBoundaryError ''reorg ancestor must be below the old tip'')
      else Inr \<lparr>rp_oldTipHeight = oldTipHeight, rp_ancestorHeight = ancestorHeight,
                rp_rollbackHeights = heights_down oldTipHeight ancestorHeight\<rparr>)"

lemma heights_down_step:
  "a < h \<Longrightarrow> heights_down h a = h # heights_down (h - 1) a"
  by (subst heights_down.simps) simp

lemma heights_down_end: "h \<le> a \<Longrightarrow> heights_down h a = []"
  by (subst heights_down.simps) simp

lemma heights_down_plus: "heights_down (a + int n) a = map (\<lambda>i. a + int n - int i) [0..<n]"
proof (induction n)
  case (Suc n)
  have "heights_down (a + int (Suc n)) a = (a + int (Suc n)) # map (\<lambda>i. a + int n - int i) [0..<n]"
    using Suc by (simp add: heights_down_step)
  also have "\<dots> = map (\<lambda>i. a + int (Suc n) - int i) (0 # map Suc [0..<n])" by simp
  also have "0 # map Suc [0..<n] = [0..<Suc n]"
    unfolding map_Suc_upt by (rule upt_conv_Cons [symmetric]) simp
  finally show ?case .
qed (simp add: heights_down_end)

lemma heights_down_eq: "heights_down h a = map (\<lambda>i. h - int i) [0..<nat (h - a)]"
  using heights_down_plus [of a "nat (h - a)"]
  by (cases "h \<le> a") (simp_all add: heights_down_end)

lemma heights_down_set: "set (heights_down h a) = {a<..h}"
proof -
  have "i \<in> (\<lambda>i. h - int i) ` {0..<nat (h - a)}" if "a < i" "i \<le> h" for i
    using that by (intro image_eqI [of _ _ "nat (h - i)"]) auto
  then show ?thesis by (auto simp: heights_down_eq)
qed

lemma heights_down_sorted: "sorted_wrt (>) (heights_down h a)"
  by (simp add: heights_down_eq sorted_wrt_iff_nth_less)

lemma heights_down_length: "length (heights_down h a) = nat (h - a)"
  by (simp add: heights_down_eq)

lemma planReorgRollback_Inr:
  "planReorgRollback old anc ini = Inr plan \<longleftrightarrow>
     list_all is_safe_integer [old, anc, ini] \<and> ini - 1 \<le> anc \<and> anc < old \<and>
     plan = \<lparr>rp_oldTipHeight = old, rp_ancestorHeight = anc, rp_rollbackHeights = heights_down old anc\<rparr>"
  by (auto simp: planReorgRollback_def)

section \<open>The store behind the service\<close>

text \<open>\<open>ReorgService.rollback\<close>, over the store it is constructed with.\<close>

definition service_rollback ::
  "('db \<Rightarrow> reorg_plan \<Rightarrow> reorg_journal \<Rightarrow> 'db result) \<Rightarrow> 'db \<Rightarrow> int \<Rightarrow> int \<Rightarrow> int \<Rightarrow> reorg_journal \<Rightarrow>
     'db result" where
  "service_rollback store db oldTipHeight ancestorHeight initHeight j =
     bindE (planReorgRollback oldTipHeight ancestorHeight initHeight) (\<lambda>plan. store db plan j)"

text \<open>
  What the service and the synchronizer rely on of a \<open>ReorgStore\<close>: a rollback that returns found the
  tip it was told to expect and the ancestor it was given, and the blocks it leaves are exactly those
  outside the plan.
\<close>

locale reorg_store =
  fixes rollback :: "'db \<Rightarrow> reorg_plan \<Rightarrow> reorg_journal \<Rightarrow> 'db result"
    and stored_hash :: "'db \<Rightarrow> int \<Rightarrow> string option"
    and stored_tip :: "'db \<Rightarrow> (int \<times> string) option"
  assumes rollback_tip: "rollback db plan j = Inr db' \<Longrightarrow>
      stored_tip db = Some (rp_oldTipHeight plan, rj_oldTipHash j)"
    and rollback_ancestor: "rollback db plan j = Inr db' \<Longrightarrow>
      stored_hash db (rp_ancestorHeight plan) = Some x \<Longrightarrow> x = rj_ancestorHash j"
    and rollback_blocks: "rollback db plan j = Inr db' \<Longrightarrow>
      stored_hash db' h = (if h \<in> set (rp_rollbackHeights plan) then None else stored_hash db h)"
    and tip_stored: "stored_tip db = Some (n, x) \<Longrightarrow> stored_hash db n = Some x"
    and tip_highest: "stored_tip db = Some (n, x) \<Longrightarrow> stored_hash db h = Some y \<Longrightarrow> h \<le> n"
begin

lemma service_rollback_blocks:
  assumes "service_rollback rollback db old anc ini j = Inr db'"
  shows "stored_hash db' h = (if h \<le> anc then stored_hash db h else None)"
proof -
  from assms obtain plan where plan: "planReorgRollback old anc ini = Inr plan"
    "rollback db plan j = Inr db'" by (auto simp: service_rollback_def)
  have "stored_tip db = Some (old, rj_oldTipHash j)"
    using rollback_tip [OF plan(2)] plan(1) by (simp add: planReorgRollback_Inr)
  then have above: "h > old \<Longrightarrow> stored_hash db h = None"
    using tip_highest by (metis linorder_not_le not_None_eq)
  have "set (rp_rollbackHeights plan) = {anc<..old}" "anc < old"
    using plan(1) by (auto simp: planReorgRollback_Inr heights_down_set)
  then show ?thesis using rollback_blocks [OF plan(2), of h] above by auto
qed

lemma service_rollback_guards:
  assumes "service_rollback rollback db old anc ini j = Inr db'"
  shows "ini - 1 \<le> anc \<and> anc < old \<and> stored_hash db old = Some (rj_oldTipHash j) \<and>
    (stored_hash db anc = None \<or> stored_hash db anc = Some (rj_ancestorHash j))"
proof -
  from assms obtain plan where plan: "planReorgRollback old anc ini = Inr plan"
    "rollback db plan j = Inr db'" by (auto simp: service_rollback_def)
  then have "ini - 1 \<le> anc" "anc < old" "rp_oldTipHeight plan = old" "rp_ancestorHeight plan = anc"
    by (auto simp: planReorgRollback_Inr)
  then show ?thesis
    using rollback_tip [OF plan(2)] rollback_ancestor [OF plan(2)] tip_stored
    by (cases "stored_hash db anc") auto
qed

end

text \<open>
  The plan of a reorganization is exact.  A plan is made exactly for safe integers with
  \<open>initHeight - 1 \<le> ancestor < oldTip\<close>, and its heights are all those above the ancestor up to the old
  tip, each once, in strictly falling order.
\<close>

theorem planReorgRollback_exact:
  "(\<exists>plan. planReorgRollback old anc ini = Inr plan) =
     (is_safe_integer old \<and> is_safe_integer anc \<and> is_safe_integer ini \<and> ini - 1 \<le> anc \<and> anc < old) \<and>
   (case planReorgRollback old anc ini of Inl _ \<Rightarrow> True | Inr plan \<Rightarrow>
      rp_oldTipHeight plan = old \<and> rp_ancestorHeight plan = anc \<and>
      set (rp_rollbackHeights plan) = {anc<..old} \<and>
      length (rp_rollbackHeights plan) = nat (old - anc) \<and>
      sorted_wrt (>) (rp_rollbackHeights plan))"
  by (auto simp: planReorgRollback_Inr heights_down_set heights_down_sorted heights_down_length
      split: sum.splits)

text \<open>
  A plan may disconnect the block of the \<open>INIT\<close>.  With the ancestor right below the \<open>INIT\<close>
  height, which the guard admits, the last height of the plan is the \<open>INIT\<close> height itself.
\<close>

theorem planReorgRollback_reaches_init:
  assumes "is_safe_integer old" and "is_safe_integer ini" and "is_safe_integer (ini - 1)"
    and "ini \<le> old"
  shows "\<exists>plan. planReorgRollback old (ini - 1) ini = Inr plan \<and> ini \<in> set (rp_rollbackHeights plan)"
  using assms by (auto simp: planReorgRollback_Inr heights_down_set)

theorem planReorgRollback_reaches_init_witness:
  "\<exists>plan :: reorg_plan. planReorgRollback 1009 (1008 - 1) 1008 = Inr plan \<and>
     1008 \<in> set (rp_rollbackHeights plan)"
  by (rule planReorgRollback_reaches_init) (simp_all add: is_safe_integer_def)

end
