(* ===== verification/Indexer_Store.thy ===== *)
theory Indexer_Store
  imports Reducer_Rows Reorg
begin

text \<open>
  \<open>src/indexer/indexer.store.ts\<close> over the tables of \<open>src/database/\<close>: the rows a reduced block writes,
  and the rollback that takes them away again.  A table with a primary key is an association list from
  the key to the rest of the row, in insertion order; a table whose key is only an \<open>AUTO_INCREMENT\<close>
  number is the list of its rows in insertion order, which is the order of their ids.  A constraint of
  the schema that a statement would break (a duplicate key, a foreign key without its target) makes
  the statement fail, and with it the transaction: \<open>Inl\<close> stands for a transaction that left the
  database as it was.  Column widths are not modelled.
\<close>

section \<open>The tables\<close>

record block_row =
  bk_hash :: string
  bk_previousHash :: "string option"
  bk_time :: int
  bk_eventRoot :: string
  bk_objectStateRoot :: string
  bk_chainedRoot :: string
  bk_eventCount :: nat

record transaction_row =
  tw_wtxid :: string
  tw_blockHeight :: int
  tw_txIndex :: nat
  tw_version :: int
  tw_locktime :: int

record event_row =
  ew_blockHeight :: int
  ew_txid :: string
  ew_txIndex :: nat
  ew_eventIndex :: nat
  ew_subIndex :: nat
  ew_eventType :: nat
  ew_validityClass :: nat
  ew_reason :: nat
  ew_namespace :: string
  ew_objectKey :: "string option"
  ew_stateSequence :: int
  ew_predecessorOutpoint :: "string option"
  ew_successorOutpoint :: "string option"
  ew_key0 :: "string option"
  ew_key1 :: "string option"
  ew_commitment :: "string option"
  ew_markerPayload :: "string option"

record object_row =
  ow_createTxid :: string
  ow_createHeight :: int
  ow_founding :: bool
  ow_status :: object_status
  ow_stateSequence :: int
  ow_currentOutpoint :: "string option"
  ow_key0 :: string
  ow_key1 :: string
  ow_terminalTxid :: "string option"
  ow_chapterCount :: int

record state_table_row =
  sw_objectKey :: string
  sw_sequence :: int
  sw_createdHeight :: int
  sw_spentHeight :: "int option"
  sw_spentTxid :: "string option"
  sw_key0 :: string
  sw_key1 :: string

record carrier_row =
  cw_objectKey :: string
  cw_createdHeight :: int
  cw_spentHeight :: "int option"
  cw_spentTxid :: "string option"
  cw_valueSats :: int

record chapter_table_row =
  hw_objectKey :: string
  hw_sequence :: int
  hw_txid :: string
  hw_blockHeight :: int
  hw_kind :: int
  hw_commitment :: string

record checkpoint_row =
  kw_blockHash :: string
  kw_eventRoot :: string
  kw_objectStateRoot :: string
  kw_chainedRoot :: string
  kw_foundingCreated :: int
  kw_allObjects :: int
  kw_activeObjects :: int

record undo_row =
  uw_height :: int
  uw_objectKey :: string
  uw_prior :: "object_record option"

record reorg_row =
  rw_oldTipHeight :: int
  rw_oldTipHash :: string
  rw_ancestorHeight :: int
  rw_ancestorHash :: string
  rw_newTipHash :: string
  rw_rolledBackBlocks :: nat

record database =
  db_blocks :: "(int, block_row) js_map"
  db_init :: "init_activation option"
  db_transactions :: "(string, transaction_row) js_map"
  db_events :: "event_row list"
  db_objects :: "(string, object_row) js_map"
  db_states :: "(string, state_table_row) js_map"
  db_carriers :: "(string, carrier_row) js_map"
  db_chapters :: "chapter_table_row list"
  db_checkpoints :: "(int, checkpoint_row) js_map"
  db_object_undo :: "undo_row list"
  db_reorg_journal :: "reorg_row list"

definition empty_database :: database where
  "empty_database = \<lparr>db_blocks = [], db_init = None, db_transactions = [], db_events = [],
     db_objects = [], db_states = [], db_carriers = [], db_chapters = [], db_checkpoints = [],
     db_object_undo = [], db_reorg_journal = []\<rparr>"

section \<open>Statements\<close>

text \<open>
  \<open>INSERT\<close> into a table with a primary key and into one without; \<open>clash\<close> says which present row
  breaks a further \<open>UNIQUE KEY\<close>.
\<close>

definition duplicate_entry :: js_error where
  "duplicate_entry = SqlError ''Duplicate entry''"

definition foreign_key_fails :: js_error where
  "foreign_key_fails = SqlError ''Cannot add or update a child row: a foreign key constraint fails''"

definition insert_keyed ::
  "('r \<Rightarrow> bool) \<Rightarrow> 'k \<Rightarrow> 'r \<Rightarrow> ('k, 'r) js_map \<Rightarrow> ('k, 'r) js_map result" where
  "insert_keyed clash k r table =
     (if js_get table k \<noteq> None \<or> list_ex clash (js_values table) then Inl duplicate_entry
      else Inr (table @ [(k, r)]))"

definition insert_row :: "('r \<Rightarrow> bool) \<Rightarrow> 'r \<Rightarrow> 'r list \<Rightarrow> 'r list result" where
  "insert_row clash r table =
     (if list_ex clash table then Inl duplicate_entry else Inr (table @ [r]))"

definition references :: "('k, 'r) js_map \<Rightarrow> 'k \<Rightarrow> unit result" where
  "references table k = throw_unless (js_get table k \<noteq> None) foreign_key_fails"

text \<open>\<open>UPDATE ... WHERE\<close> and \<open>DELETE ... WHERE\<close> of a keyed table.\<close>

definition update_where ::
  "('k \<Rightarrow> 'r \<Rightarrow> bool) \<Rightarrow> ('r \<Rightarrow> 'r) \<Rightarrow> ('k, 'r) js_map \<Rightarrow> ('k, 'r) js_map" where
  "update_where cond f table = map (\<lambda>(k, r). (k, if cond k r then f r else r)) table"

definition delete_where :: "('k \<Rightarrow> 'r \<Rightarrow> bool) \<Rightarrow> ('k, 'r) js_map \<Rightarrow> ('k, 'r) js_map" where
  "delete_where cond table = filter (\<lambda>(k, r). \<not> cond k r) table"

section \<open>Objects\<close>

definition object_row_of :: "object_record \<Rightarrow> object_row" where
  "object_row_of r =
     \<lparr>ow_createTxid = or_createTxid r, ow_createHeight = or_createHeight r,
      ow_founding = or_founding r, ow_status = or_status r, ow_stateSequence = or_stateSequence r,
      ow_currentOutpoint = or_currentOutpoint r, ow_key0 = or_key0 r, ow_key1 = or_key1 r,
      ow_terminalTxid = or_terminalTxid r, ow_chapterCount = or_chapterCount r\<rparr>"

text \<open>The columns that \<open>ON DUPLICATE KEY UPDATE\<close> and the restoring \<open>UPDATE\<close> assign.\<close>

definition assign_object :: "object_record \<Rightarrow> object_row \<Rightarrow> object_row" where
  "assign_object r row =
     row\<lparr>ow_founding := or_founding r, ow_status := or_status r,
         ow_stateSequence := or_stateSequence r, ow_currentOutpoint := or_currentOutpoint r,
         ow_key0 := or_key0 r, ow_key1 := or_key1 r, ow_terminalTxid := or_terminalTxid r,
         ow_chapterCount := or_chapterCount r\<rparr>"

text \<open>
  The row that \<open>ON DUPLICATE KEY\<close> finds: the one with the primary key, else one with the unique
  \<open>create_txid\<close>.
\<close>

definition duplicate_key :: "(string, object_row) js_map \<Rightarrow> object_record \<Rightarrow> string option" where
  "duplicate_key table r =
     (if js_get table (or_objectKey r) \<noteq> None then Some (or_objectKey r)
      else map_option fst (find (\<lambda>(_, row). ow_createTxid row = or_createTxid r) table))"

definition upsertObject ::
  "(string, object_row) js_map \<Rightarrow> object_record \<Rightarrow> (string, object_row) js_map" where
  "upsertObject table r =
     (case duplicate_key table r of
        None \<Rightarrow> table @ [(or_objectKey r, object_row_of r)]
      | Some k \<Rightarrow> update_where (\<lambda>k' _. k' = k) (assign_object r) table)"

section \<open>Reads\<close>

text \<open>\<open>ORDER BY height DESC LIMIT 1\<close>.\<close>

definition highest :: "(int, 'r) js_map \<Rightarrow> (int \<times> 'r) option" where
  "highest table =
     (if table = [] then None
      else let h = Max (set (map fst table)) in map_option (Pair h) (js_get table h))"

record canonical_tip =
  ct_height :: int
  ct_hash :: string
  ct_chainedRoot :: string

definition canonicalTip :: "database \<Rightarrow> canonical_tip option" where
  "canonicalTip db =
     map_option (\<lambda>(h, row). \<lparr>ct_height = h, ct_hash = bk_hash row, ct_chainedRoot = bk_chainedRoot row\<rparr>)
       (highest (db_blocks db))"

definition blockHash :: "database \<Rightarrow> int \<Rightarrow> string option" where
  "blockHash db height = map_option bk_hash (js_get (db_blocks db) height)"

section \<open>Writing a block\<close>

definition block_row_of :: "reduced_block \<Rightarrow> block_row" where
  "block_row_of rb =
     \<lparr>bk_hash = rb_hash rb, bk_previousHash = rb_previousHash rb, bk_time = rb_time rb,
      bk_eventRoot = rb_eventRoot rb, bk_objectStateRoot = rb_objectStateRoot rb,
      bk_chainedRoot = rb_chainedRoot rb, bk_eventCount = length (rb_events rb)\<rparr>"

definition write_block_row :: "reduced_block \<Rightarrow> database \<Rightarrow> database result" where
  "write_block_row rb db =
     bindE (insert_keyed (\<lambda>row. bk_hash row = rb_hash rb) (rb_height rb) (block_row_of rb) (db_blocks db))
       (\<lambda>t. Inr (db\<lparr>db_blocks := t\<rparr>))"

text \<open>The single row of \<open>tandem_init\<close>, whose \<open>id\<close> is always 1.\<close>

definition write_init :: "reduced_block \<Rightarrow> database \<Rightarrow> database result" where
  "write_init rb db =
     (if \<not> rb_initConfirmed rb then Inr db
      else if db_init db \<noteq> None then Inl duplicate_entry
      else bindE (references (db_blocks db) (ia_height (rb_activation rb))) (\<lambda>_.
           Inr (db\<lparr>db_init := Some (rb_activation rb)\<rparr>)))"

text \<open>\<open>tx.locktime >>> 0\<close> is the value modulo \<open>2 ^ 32\<close>.\<close>

definition write_transaction :: "int \<Rightarrow> database \<Rightarrow> reduced_transaction \<Rightarrow> database result" where
  "write_transaction height db t =
     bindE (references (db_blocks db) height) (\<lambda>_.
     bindE (insert_keyed (\<lambda>row. tw_blockHeight row = height \<and> tw_txIndex row = rt_txIndex t) (rt_txid t)
         \<lparr>tw_wtxid = rt_wtxid t, tw_blockHeight = height, tw_txIndex = rt_txIndex t,
          tw_version = rt_version t, tw_locktime = rt_locktime t mod 2 ^ 32\<rparr> (db_transactions db))
       (\<lambda>rows. Inr (db\<lparr>db_transactions := rows\<rparr>)))"

definition event_row_of :: "int \<Rightarrow> event_record \<Rightarrow> event_row" where
  "event_row_of height e =
     \<lparr>ew_blockHeight = height, ew_txid = er_txid e, ew_txIndex = er_txIndex e,
      ew_eventIndex = er_eventIndex e, ew_subIndex = er_subIndex e, ew_eventType = er_eventType e,
      ew_validityClass = er_validityClass e, ew_reason = er_reason e, ew_namespace = er_namespace e,
      ew_objectKey = er_objectKey e, ew_stateSequence = er_stateSequence e,
      ew_predecessorOutpoint = er_predecessorOutpoint e,
      ew_successorOutpoint = er_successorOutpoint e, ew_key0 = er_key0 e, ew_key1 = er_key1 e,
      ew_commitment = er_commitment e, ew_markerPayload = er_markerPayload e\<rparr>"

definition write_event :: "int \<Rightarrow> database \<Rightarrow> event_record \<Rightarrow> database result" where
  "write_event height db e =
     bindE (references (db_blocks db) height) (\<lambda>_.
     bindE (references (db_transactions db) (er_txid e)) (\<lambda>_.
     bindE (insert_row (\<lambda>row. ew_blockHeight row = height \<and> ew_txIndex row = er_txIndex e \<and>
         ew_eventIndex row = er_eventIndex e \<and> ew_subIndex row = er_subIndex e)
         (event_row_of height e) (db_events db))
       (\<lambda>rows. Inr (db\<lparr>db_events := rows\<rparr>))))"

text \<open>One pass of the loop over \<open>block.undo\<close>: the journal row, then the object as it is now.\<close>

definition write_undo ::
  "int \<Rightarrow> object_map \<Rightarrow> database \<Rightarrow> string \<times> object_record option \<Rightarrow> database result" where
  "write_undo height objects db entry =
     bindE (references (db_blocks db) height) (\<lambda>_.
       Inr (db\<lparr>db_object_undo := db_object_undo db @
                 [\<lparr>uw_height = height, uw_objectKey = fst entry, uw_prior = snd entry\<rparr>],
               db_objects := (case js_get objects (fst entry) of
                   None \<Rightarrow> db_objects db
                 | Some current \<Rightarrow> upsertObject (db_objects db) current)\<rparr>))"

definition write_state :: "int \<Rightarrow> database \<Rightarrow> state_row \<Rightarrow> database result" where
  "write_state height db row =
     bindE (references (db_objects db) (sr_objectKey row)) (\<lambda>_.
     bindE (insert_keyed (\<lambda>r. sw_objectKey r = sr_objectKey row \<and> sw_sequence r = sr_sequence row)
         (sr_outpoint row)
         \<lparr>sw_objectKey = sr_objectKey row, sw_sequence = sr_sequence row, sw_createdHeight = height,
          sw_spentHeight = None, sw_spentTxid = None, sw_key0 = sr_key0 row, sw_key1 = sr_key1 row\<rparr>
         (db_states db)) (\<lambda>states.
     bindE (insert_keyed (\<lambda>_. False) (sr_outpoint row)
         \<lparr>cw_objectKey = sr_objectKey row, cw_createdHeight = height, cw_spentHeight = None,
          cw_spentTxid = None, cw_valueSats = 20000\<rparr> (db_carriers db)) (\<lambda>carriers.
       Inr (db\<lparr>db_states := states, db_carriers := carriers\<rparr>))))"

definition mark_spent :: "int \<Rightarrow> string \<times> string \<Rightarrow> database \<Rightarrow> database" where
  "mark_spent height spent db =
     db\<lparr>db_states := update_where (\<lambda>out _. out = fst spent)
          (\<lambda>r. r\<lparr>sw_spentHeight := Some height, sw_spentTxid := Some (snd spent)\<rparr>) (db_states db),
        db_carriers := update_where (\<lambda>out _. out = fst spent)
          (\<lambda>r. r\<lparr>cw_spentHeight := Some height, cw_spentTxid := Some (snd spent)\<rparr>) (db_carriers db)\<rparr>"

definition write_chapter :: "int \<Rightarrow> database \<Rightarrow> chapter_row \<Rightarrow> database result" where
  "write_chapter height db c =
     bindE (references (db_objects db) (cr_objectKey c)) (\<lambda>_.
     bindE (insert_row (\<lambda>r. hw_txid r = cr_txid c \<or>
           hw_objectKey r = cr_objectKey c \<and> hw_sequence r = cr_sequence c)
         \<lparr>hw_objectKey = cr_objectKey c, hw_sequence = cr_sequence c, hw_txid = cr_txid c,
          hw_blockHeight = height, hw_kind = cr_kind c, hw_commitment = cr_commitment c\<rparr>
         (db_chapters db)) (\<lambda>rows. Inr (db\<lparr>db_chapters := rows\<rparr>)))"

definition write_checkpoint :: "reduced_block \<Rightarrow> database \<Rightarrow> database result" where
  "write_checkpoint rb db =
     bindE (references (db_blocks db) (rb_height rb)) (\<lambda>_.
     bindE (insert_keyed (\<lambda>_. False) (rb_height rb)
         \<lparr>kw_blockHash = rb_hash rb, kw_eventRoot = rb_eventRoot rb,
          kw_objectStateRoot = rb_objectStateRoot rb, kw_chainedRoot = rb_chainedRoot rb,
          kw_foundingCreated = rb_foundingCreated rb, kw_allObjects = rb_allObjects rb,
          kw_activeObjects = rb_activeObjects rb\<rparr> (db_checkpoints db)) (\<lambda>t.
       Inr (db\<lparr>db_checkpoints := t\<rparr>)))"

definition writeBlock :: "database \<Rightarrow> reduced_block \<Rightarrow> database result" where
  "writeBlock db rb =
     bindE (write_block_row rb db) (\<lambda>db.
     bindE (write_init rb db) (\<lambda>db.
     bindE (foldE (write_transaction (rb_height rb)) db (rb_transactions rb)) (\<lambda>db.
     bindE (foldE (write_event (rb_height rb)) db (rb_events rb)) (\<lambda>db.
     bindE (foldE (write_undo (rb_height rb) (rb_objects rb)) db (rb_undo rb)) (\<lambda>db.
     bindE (foldE (write_state (rb_height rb)) db (rb_newStates rb)) (\<lambda>db.
     bindE (foldE (write_chapter (rb_height rb)) (fold (mark_spent (rb_height rb)) (rb_spentOutpoints rb) db)
             (rb_chapters rb)) (\<lambda>db.
       write_checkpoint rb db)))))))"

definition appendBlocks :: "database \<Rightarrow> reduced_block list \<Rightarrow> database result" where
  "appendBlocks db blocks = foldE writeBlock db blocks"

definition appendBlock :: "database \<Rightarrow> reduced_block \<Rightarrow> database result" where
  "appendBlock db block = appendBlocks db [block]"

section \<open>Rolling back\<close>

text \<open>\<open>DELETE FROM tandem_objects\<close>, whose foreign keys cascade to states, carriers and chapters.\<close>

definition delete_object :: "string \<Rightarrow> database \<Rightarrow> database" where
  "delete_object k db =
     db\<lparr>db_objects := js_delete k (db_objects db),
        db_states := delete_where (\<lambda>_ r. sw_objectKey r = k) (db_states db),
        db_carriers := delete_where (\<lambda>_ r. cw_objectKey r = k) (db_carriers db),
        db_chapters := filter (\<lambda>r. hw_objectKey r \<noteq> k) (db_chapters db)\<rparr>"

text \<open>
  \<open>DELETE FROM tandem_blocks\<close>, whose foreign keys cascade to the transactions, to the events of the
  block and of its transactions, to the checkpoint, the \<open>INIT\<close> row and the undo journal.
\<close>

definition delete_block :: "int \<Rightarrow> database \<Rightarrow> database" where
  "delete_block height db =
     (let gone = map fst (filter (\<lambda>(_, r). tw_blockHeight r = height) (db_transactions db))
      in if js_get (db_blocks db) height = None then db
         else db\<lparr>db_blocks := js_delete height (db_blocks db),
                 db_transactions := delete_where (\<lambda>_ r. tw_blockHeight r = height) (db_transactions db),
                 db_events := filter (\<lambda>e. ew_blockHeight e \<noteq> height \<and> ew_txid e \<notin> set gone) (db_events db),
                 db_checkpoints := js_delete height (db_checkpoints db),
                 db_init := (case db_init db of None \<Rightarrow> None
                   | Some i \<Rightarrow> if ia_height i = height then None else Some i),
                 db_object_undo := filter (\<lambda>u. uw_height u \<noteq> height) (db_object_undo db)\<rparr>)"

definition restore_object :: "undo_row \<Rightarrow> database \<Rightarrow> database" where
  "restore_object u db =
     (case uw_prior u of
        None \<Rightarrow> delete_object (uw_objectKey u) db
      | Some prior \<Rightarrow>
          db\<lparr>db_objects := update_where (\<lambda>k _. k = or_objectKey prior) (assign_object prior)
               (db_objects db)\<rparr>)"

text \<open>The statements before the undo entries are applied.\<close>

definition unwind_rows :: "int \<Rightarrow> database \<Rightarrow> database" where
  "unwind_rows height db =
     db\<lparr>db_chapters := filter (\<lambda>r. hw_blockHeight r \<noteq> height) (db_chapters db),
        db_carriers := update_where (\<lambda>_ r. cw_spentHeight r = Some height)
          (\<lambda>r. r\<lparr>cw_spentHeight := None, cw_spentTxid := None\<rparr>)
          (delete_where (\<lambda>_ r. cw_createdHeight r = height) (db_carriers db)),
        db_states := update_where (\<lambda>_ r. sw_spentHeight r = Some height)
          (\<lambda>r. r\<lparr>sw_spentHeight := None, sw_spentTxid := None\<rparr>)
          (delete_where (\<lambda>_ r. sw_createdHeight r = height) (db_states db))\<rparr>"

text \<open>One pass of the loop over \<open>plan.rollbackHeights\<close>.\<close>

definition disconnect_height :: "int \<Rightarrow> database \<Rightarrow> database" where
  "disconnect_height height db =
     (let undo = rev (filter (\<lambda>u. uw_height u = height) (db_object_undo db))
      in delete_block height (fold restore_object undo (unwind_rows height db)))"

definition rollback :: "database \<Rightarrow> reorg_plan \<Rightarrow> reorg_journal \<Rightarrow> database result" where
  "rollback db plan journal =
     bindE (throw_unless
         (case canonicalTip db of None \<Rightarrow> False
          | Some tip \<Rightarrow> ct_height tip = rp_oldTipHeight plan \<and> ct_hash tip = rj_oldTipHash journal)
         (PlainError ''canonical tip changed before rollback lock'')) (\<lambda>_.
     bindE (throw_unless
         (case blockHash db (rp_ancestorHeight plan) of None \<Rightarrow> True
          | Some hash \<Rightarrow> hash = rj_ancestorHash journal)
         (PlainError ''configured reorg ancestor does not match canonical storage'')) (\<lambda>_.
       let db1 = fold disconnect_height (rp_rollbackHeights plan) db
       in Inr (db1\<lparr>db_reorg_journal := db_reorg_journal db1 @
                [\<lparr>rw_oldTipHeight = rp_oldTipHeight plan, rw_oldTipHash = rj_oldTipHash journal,
                  rw_ancestorHeight = rp_ancestorHeight plan, rw_ancestorHash = rj_ancestorHash journal,
                  rw_newTipHash = rj_newTipHash journal,
                  rw_rolledBackBlocks = length (rp_rollbackHeights plan)\<rparr>]\<rparr>)))"

end
