(* ===== verification/Agreement.thy ===== *)
theory Agreement
  imports Configuration Indexer_Store
begin

text \<open>
  \<open>src/agreement\<close>: the tuple both pipelines sign for a height, its validation, signing and
  verification (\<open>agreement.service.ts\<close>), and the tuple made of a stored checkpoint
  (\<open>agreement-query.service.ts\<close>).  Ed25519 and the canonical JSON of \<open>json-canonicalize\<close> are code
  outside the repository: the record \<open>agreement_lib\<close> holds them, and \<open>ed25519_contract\<close> states what
  the signature scheme promises.
\<close>

section \<open>Code outside the repository\<close>

text \<open>\<open>ed_verify\<close> takes signature, message and public key, and throws on malformed input.\<close>

record agreement_lib =
  al_sign :: "bytes \<Rightarrow> bytes \<Rightarrow> bytes result"
  al_verify :: "bytes \<Rightarrow> bytes \<Rightarrow> bytes \<Rightarrow> bool result"
  al_getPublicKey :: "bytes \<Rightarrow> bytes result"
  al_canonicalize :: "json \<Rightarrow> string option"

definition ed25519_contract :: "agreement_lib \<Rightarrow> bool" where
  "ed25519_contract A =
     ((\<forall>key. length key = 32 \<longrightarrow> (\<exists>p. al_getPublicKey A key = Inr p \<and> length p = 32)) \<and>
      (\<forall>m key p. length key = 32 \<longrightarrow> al_getPublicKey A key = Inr p \<longrightarrow>
         (\<exists>s. al_sign A m key = Inr s \<and> length s = 64 \<and> al_verify A s m p = Inr True)))"

text \<open>A \<open>catch\<close> block that throws another error.\<close>

definition rethrow_as :: "(js_error \<Rightarrow> js_error) \<Rightarrow> 'a result \<Rightarrow> 'a result" where
  "rethrow_as f r = (case r of Inl e \<Rightarrow> Inl (f e) | Inr x \<Rightarrow> Inr x)"

lemma rethrow_as_Inr [simp]: "rethrow_as f r = Inr x \<longleftrightarrow> r = Inr x"
  by (cases r) (simp_all add: rethrow_as_def)

lemma rethrow_as_simps [simp]: "rethrow_as f (Inr x) = Inr x" "rethrow_as f (Inl e) = Inl (f e)"
  by (simp_all add: rethrow_as_def)

section \<open>The tuple\<close>

record agreement_tuple =
  at_schema :: string
  at_protocol_id :: string
  at_height :: string
  at_block_hash :: string
  at_event_root :: string
  at_object_state_root :: string
  at_chained_root :: string
  at_founding_created :: string
  at_all_objects :: string
  at_active_objects :: string
  at_parser_commit :: string
  at_indexer_commit :: string
  at_parser_binary_sha256 :: string
  at_indexer_binary_sha256 :: string

record signed_envelope =
  env_schema :: string
  env_key_id :: string
  env_tuple :: agreement_tuple
  env_signature :: string

record release_identity =
  ri_parserCommit :: string
  ri_indexerCommit :: string
  ri_parserBinarySha256 :: string
  ri_indexerBinarySha256 :: string

abbreviation (input) TUPLE_SCHEMA :: string where
  "TUPLE_SCHEMA \<equiv> ''urn:tandem:agreement-tuple''"

abbreviation (input) ENVELOPE_SCHEMA :: string where
  "ENVELOPE_SCHEMA \<equiv> ''urn:tandem:agreement-envelope''"

definition NETWORK_NAMES :: "string list" where
  "NETWORK_NAMES = [''mainnet'', ''signet'', ''testnet4'', ''regtest'']"

text \<open>\<open>/^tndm:(mainnet|signet|testnet4|regtest):[0-9a-f]{64}$/\<close> and its group.\<close>

definition protocol_prefix :: "string \<Rightarrow> string" where
  "protocol_prefix network = ''tndm:'' @ network @ '':''"

definition protocol_network :: "string \<Rightarrow> string option" where
  "protocol_network s =
     find (\<lambda>network. take (length (protocol_prefix network)) s = protocol_prefix network \<and>
       HASH_HEX (drop (length (protocol_prefix network)) s)) NETWORK_NAMES"

definition PROTOCOL_ID :: "string \<Rightarrow> bool" where
  "PROTOCOL_ID s = (protocol_network s \<noteq> None)"

text \<open>One pass of the two loops over named fields.\<close>

definition check_field :: "(string \<Rightarrow> bool) \<Rightarrow> string \<times> string \<Rightarrow> unit result" where
  "check_field pattern field =
     throw_unless (pattern (snd field)) (PlainError (''invalid agreement '' @ fst field))"

definition assertAgreementTuple :: "agreement_tuple \<Rightarrow> unit result" where
  "assertAgreementTuple t =
     bindE (throw_unless (at_schema t = TUPLE_SCHEMA) (PlainError ''invalid agreement tuple schema'')) (\<lambda>_.
     bindE (throw_unless (PROTOCOL_ID (at_protocol_id t)) (PlainError ''invalid agreement protocol id'')) (\<lambda>_.
     bindE (mapE (check_field is_counter)
       [(''height'', at_height t), (''founding_created'', at_founding_created t),
        (''all_objects'', at_all_objects t), (''active_objects'', at_active_objects t)]) (\<lambda>_.
     bindE (throw_unless (is_safe (number_of_text (at_height t))) (PlainError ''agreement height is unsafe'')) (\<lambda>_.
     bindE (mapE (check_field HASH_HEX)
       [(''block_hash'', at_block_hash t), (''event_root'', at_event_root t),
        (''object_state_root'', at_object_state_root t), (''chained_root'', at_chained_root t),
        (''parser_binary_sha256'', at_parser_binary_sha256 t),
        (''indexer_binary_sha256'', at_indexer_binary_sha256 t)]) (\<lambda>_.
       throw_unless (COMMIT_HEX (at_parser_commit t) \<and> COMMIT_HEX (at_indexer_commit t))
         (PlainError ''invalid agreement release commit''))))))"

text \<open>The tuple as the object the canonical JSON is made of.\<close>

definition tuple_json :: "agreement_tuple \<Rightarrow> json" where
  "tuple_json t = JObject
     [(''schema'', JString (at_schema t)), (''protocol_id'', JString (at_protocol_id t)),
      (''height'', JString (at_height t)), (''block_hash'', JString (at_block_hash t)),
      (''event_root'', JString (at_event_root t)),
      (''object_state_root'', JString (at_object_state_root t)),
      (''chained_root'', JString (at_chained_root t)),
      (''founding_created'', JString (at_founding_created t)),
      (''all_objects'', JString (at_all_objects t)),
      (''active_objects'', JString (at_active_objects t)),
      (''parser_commit'', JString (at_parser_commit t)),
      (''indexer_commit'', JString (at_indexer_commit t)),
      (''parser_binary_sha256'', JString (at_parser_binary_sha256 t)),
      (''indexer_binary_sha256'', JString (at_indexer_binary_sha256 t))]"

text \<open>\<open>TextEncoder\<close> on ASCII text.\<close>

definition ascii_bytes :: "string \<Rightarrow> bytes" where
  "ascii_bytes s = map (\<lambda>c. of_nat (char_code c)) s"

definition canonicalAgreementBytes :: "agreement_lib \<Rightarrow> agreement_tuple \<Rightarrow> bytes result" where
  "canonicalAgreementBytes A t =
     bindE (assertAgreementTuple t) (\<lambda>_.
     bindE (of_option (PlainError ''agreement tuple cannot be canonicalized'') (al_canonicalize A (tuple_json t)))
       (\<lambda>canonical. Inr (ascii_bytes canonical)))"

section \<open>Signing and verifying\<close>

definition signAgreementTuple ::
  "agreement_lib \<Rightarrow> agreement_tuple \<Rightarrow> string \<Rightarrow> string \<Rightarrow> signed_envelope result" where
  "signAgreementTuple A tuple keyId privateKeyHex =
     (let privateKey = from_hex privateKeyHex
      in bindE (throw_unless (length privateKey = 32 \<and> KEY_ID keyId)
           (PlainError ''invalid agreement signing boundary'')) (\<lambda>_.
         bindE (canonicalAgreementBytes A tuple) (\<lambda>message.
         bindE (al_sign A message privateKey) (\<lambda>signature.
         Inr \<lparr>env_schema = ENVELOPE_SCHEMA, env_key_id = keyId, env_tuple = tuple,
              env_signature = to_hex signature\<rparr>))))"

definition SIGNATURE_HEX :: "string \<Rightarrow> bool" where
  "SIGNATURE_HEX = is_hex_text 128"

definition verifyAgreementEnvelope :: "agreement_lib \<Rightarrow> signed_envelope \<Rightarrow> string \<Rightarrow> bool" where
  "verifyAgreementEnvelope A envelope publicKeyHex =
     (if env_schema envelope \<noteq> ENVELOPE_SCHEMA \<or> \<not> KEY_ID (env_key_id envelope) \<or>
         \<not> SIGNATURE_HEX (env_signature envelope) \<or> \<not> HASH_HEX publicKeyHex
      then False
      else (case bindE (canonicalAgreementBytes A (env_tuple envelope)) (\<lambda>message.
                   al_verify A (from_hex (env_signature envelope)) message (from_hex publicKeyHex)) of
              Inl _ \<Rightarrow> False
            | Inr verdict \<Rightarrow> verdict))"

definition signingBoundaryConfigured :: "agreement_lib \<Rightarrow> agreement_configuration \<Rightarrow> bool" where
  "signingBoundaryConfigured A agreement =
     (if \<not> truthy (ac_keyId agreement) \<or> \<not> truthy (ac_privateKeyHex agreement) \<or>
         \<not> truthy (ac_parserCommit agreement) \<or> \<not> truthy (ac_indexerCommit agreement) \<or>
         \<not> truthy (ac_parserBinarySha256 agreement) \<or> \<not> truthy (ac_indexerBinarySha256 agreement)
      then False
      else let privateKey = from_hex (the (ac_privateKeyHex agreement))
           in if length privateKey \<noteq> 32 \<or> \<not> KEY_ID (the (ac_keyId agreement)) then False
              else (case al_getPublicKey A privateKey of
                      Inl _ \<Rightarrow> False
                    | Inr key \<Rightarrow>
                        \<not> truthy (ac_publicKeyHex agreement) \<or> ac_publicKeyHex agreement = Some (to_hex key)))"

section \<open>The signer\<close>

definition signer_releaseIdentity :: "agreement_configuration \<Rightarrow> release_identity result" where
  "signer_releaseIdentity agreement =
     (if \<not> truthy (ac_parserCommit agreement) \<or> \<not> truthy (ac_indexerCommit agreement) \<or>
         \<not> truthy (ac_parserBinarySha256 agreement) \<or> \<not> truthy (ac_indexerBinarySha256 agreement)
      then Inl (PlainError ''agreement release identity is not configured'')
      else Inr \<lparr>ri_parserCommit = the (ac_parserCommit agreement),
                ri_indexerCommit = the (ac_indexerCommit agreement),
                ri_parserBinarySha256 = the (ac_parserBinarySha256 agreement),
                ri_indexerBinarySha256 = the (ac_indexerBinarySha256 agreement)\<rparr>)"

definition signer_sign ::
  "agreement_lib \<Rightarrow> agreement_configuration \<Rightarrow> agreement_tuple \<Rightarrow> signed_envelope result" where
  "signer_sign A agreement tuple =
     (if \<not> signingBoundaryConfigured A agreement \<or> \<not> truthy (ac_keyId agreement) \<or>
         \<not> truthy (ac_privateKeyHex agreement)
      then Inl (PlainError ''agreement signing boundary is not configured'')
      else signAgreementTuple A tuple (the (ac_keyId agreement)) (the (ac_privateKeyHex agreement)))"

section \<open>The signed checkpoint of a height\<close>

definition checkpoint_tuple :: "string \<Rightarrow> release_identity \<Rightarrow> int \<Rightarrow> checkpoint_row \<Rightarrow> agreement_tuple" where
  "checkpoint_tuple protocolId release height row =
     \<lparr>at_schema = TUPLE_SCHEMA, at_protocol_id = protocolId, at_height = int_text height,
      at_block_hash = kw_blockHash row, at_event_root = kw_eventRoot row,
      at_object_state_root = kw_objectStateRoot row, at_chained_root = kw_chainedRoot row,
      at_founding_created = int_text (kw_foundingCreated row),
      at_all_objects = int_text (kw_allObjects row), at_active_objects = int_text (kw_activeObjects row),
      at_parser_commit = ri_parserCommit release, at_indexer_commit = ri_indexerCommit release,
      at_parser_binary_sha256 = ri_parserBinarySha256 release,
      at_indexer_binary_sha256 = ri_indexerBinarySha256 release\<rparr>"

definition signedAt ::
  "agreement_lib \<Rightarrow> app_configuration \<Rightarrow> database \<Rightarrow> int \<Rightarrow> signed_envelope result" where
  "signedAt A cfg db height =
     bindE (of_option (HttpException 404 ''checkpoint not found'') (js_get (db_checkpoints db) height)) (\<lambda>row.
     bindE (throw_unless (truthy (dc_protocolId (cfg_deployment cfg)))
       (HttpException 404 ''checkpoint not found'')) (\<lambda>_.
     bindE (signer_releaseIdentity (cfg_agreement cfg)) (\<lambda>release.
       signer_sign A (cfg_agreement cfg)
         (checkpoint_tuple (the (dc_protocolId (cfg_deployment cfg))) release height row))))"

section \<open>Lemmas\<close>

lemma find_SomeD: "find P xs = Some x \<Longrightarrow> x \<in> set xs \<and> P x"
  by (induction xs) (auto split: if_splits)

lemma protocol_network_Some:
  "protocol_network s = Some network \<Longrightarrow> network \<in> set NETWORK_NAMES \<and>
     (\<exists>txid. HASH_HEX txid \<and> s = protocol_prefix network @ txid)"
proof -
  assume "protocol_network s = Some network"
  then have "network \<in> set NETWORK_NAMES" "take (length (protocol_prefix network)) s = protocol_prefix network"
    "HASH_HEX (drop (length (protocol_prefix network)) s)"
    unfolding protocol_network_def by (auto dest!: find_SomeD)
  then show ?thesis by (metis append_take_drop_id)
qed

text \<open>What the assertion accepts.\<close>

lemma assertAgreementTuple_iff:
  "assertAgreementTuple t = Inr u \<longleftrightarrow>
     at_schema t = TUPLE_SCHEMA \<and> PROTOCOL_ID (at_protocol_id t) \<and>
     list_all is_counter [at_height t, at_founding_created t, at_all_objects t, at_active_objects t] \<and>
     is_safe (number_of_text (at_height t)) \<and>
     list_all HASH_HEX [at_block_hash t, at_event_root t, at_object_state_root t, at_chained_root t,
       at_parser_binary_sha256 t, at_indexer_binary_sha256 t] \<and>
     COMMIT_HEX (at_parser_commit t) \<and> COMMIT_HEX (at_indexer_commit t)"
  by (auto simp: assertAgreementTuple_def check_field_def)

lemma canonicalAgreementBytes_Inr:
  "canonicalAgreementBytes A t = Inr m \<Longrightarrow>
     assertAgreementTuple t = Inr () \<and> (\<exists>c. al_canonicalize A (tuple_json t) = Some c \<and> m = ascii_bytes c)"
  by (auto simp: canonicalAgreementBytes_def)

lemma signAgreementTuple_Inr:
  assumes "signAgreementTuple A t keyId priv = Inr env"
  shows "length (from_hex priv) = 32" "KEY_ID keyId" "env_schema env = ENVELOPE_SCHEMA"
    "env_key_id env = keyId" "env_tuple env = t"
    "\<exists>m s. canonicalAgreementBytes A t = Inr m \<and> al_sign A m (from_hex priv) = Inr s \<and> env_signature env = to_hex s"
  using assms by (auto simp: signAgreementTuple_def Let_def)

lemma verify_signed:
  assumes "ed25519_contract A" and sign: "signAgreementTuple A t keyId priv = Inr env"
    and pub: "al_getPublicKey A (from_hex priv) = Inr p"
  shows "verifyAgreementEnvelope A env (to_hex p)"
proof -
  note f = signAgreementTuple_Inr [OF sign]
  obtain m s where m: "canonicalAgreementBytes A t = Inr m" "al_sign A m (from_hex priv) = Inr s"
    "env_signature env = to_hex s" using f(6) by blast
  have "length p = 32" using assms(1) f(1) pub unfolding ed25519_contract_def by (metis sum.inject(2))
  moreover obtain s' where "al_sign A m (from_hex priv) = Inr s'" "length s' = 64" "al_verify A s' m p = Inr True"
    using assms(1) f(1) pub unfolding ed25519_contract_def by blast
  then have "length s = 64" "al_verify A s m p = Inr True" using m(2) by simp_all
  moreover have "is_hex_text 64 (to_hex p)" "is_hex_text 128 (to_hex s)"
    using is_hex_text_to_hex [of p] is_hex_text_to_hex [of s] \<open>length p = 32\<close> \<open>length s = 64\<close> by simp_all
  ultimately show ?thesis
    using f m \<open>al_verify A s m p = Inr True\<close>
    by (simp add: verifyAgreementEnvelope_def SIGNATURE_HEX_def HASH_HEX_def)
qed

lemma verifyAgreementEnvelope_signed:
  assumes "verifyAgreementEnvelope A env key"
  shows "env_schema env = ENVELOPE_SCHEMA \<and> KEY_ID (env_key_id env) \<and> SIGNATURE_HEX (env_signature env) \<and> HASH_HEX key \<and>
    assertAgreementTuple (env_tuple env) = Inr () \<and>
    (\<exists>m. canonicalAgreementBytes A (env_tuple env) = Inr m \<and>
       al_verify A (from_hex (env_signature env)) m (from_hex key) = Inr True)"
  using assms
  by (auto simp: verifyAgreementEnvelope_def canonicalAgreementBytes_def split: if_splits sum.splits)

end
