(* ===== verification/Deployment_State.thy ===== *)
theory Deployment_State
  imports Block_Reducer Configuration
begin

text \<open>
  \<open>src/indexer/deployment-state.service.ts\<close>: how far the configured deployment has been resolved from
  the chain, the state the synchronizer writes and the readiness probe reads.
\<close>

datatype init_phase = Unconfigured | AwaitingInit | ActiveInit | FailedInit

record node_tip =
  nt_chain :: string
  nt_height :: int
  nt_hash :: string
  nt_initialBlockDownload :: bool

record deployment_state =
  ds_phase :: init_phase
  ds_activation :: "init_activation option"
  ds_initSeenInMempool :: bool
  ds_initConfigMismatch :: "string option"
  ds_node :: "node_tip option"
  ds_lastSyncAt :: "string option"
  ds_lastError :: "string option"

definition initial_deployment_state :: deployment_state where
  "initial_deployment_state =
     \<lparr>ds_phase = Unconfigured, ds_activation = None, ds_initSeenInMempool = False,
      ds_initConfigMismatch = None, ds_node = None, ds_lastSyncAt = None, ds_lastError = None\<rparr>"

definition setActivation :: "init_activation option \<Rightarrow> bool \<Rightarrow> deployment_state \<Rightarrow> deployment_state" where
  "setActivation activation configuredInit d =
     d\<lparr>ds_activation := activation,
       ds_phase := (if \<not> configuredInit then Unconfigured
                    else (case activation of
                            None \<Rightarrow> AwaitingInit
                          | Some a \<Rightarrow> if ia_valid a then ActiveInit else FailedInit)),
       ds_initSeenInMempool := (if activation = None then ds_initSeenInMempool d else False)\<rparr>"

text \<open>The phase says what is known of the activation.\<close>

definition phase_ok :: "deployment_state \<Rightarrow> bool" where
  "phase_ok d =
     (case ds_phase d of
        ActiveInit \<Rightarrow> \<exists>a. ds_activation d = Some a \<and> ia_valid a
      | FailedInit \<Rightarrow> \<exists>a. ds_activation d = Some a \<and> \<not> ia_valid a
      | AwaitingInit \<Rightarrow> ds_activation d = None
      | Unconfigured \<Rightarrow> True)"

lemma setActivation_phase: "phase_ok (setActivation a c d)"
  by (auto simp: phase_ok_def setActivation_def split: option.split)

lemma setActivation_fields [simp]:
  "ds_activation (setActivation a c d) = a"
  "ds_initConfigMismatch (setActivation a c d) = ds_initConfigMismatch d"
  "ds_node (setActivation a c d) = ds_node d"
  "ds_lastSyncAt (setActivation a c d) = ds_lastSyncAt d"
  "ds_lastError (setActivation a c d) = ds_lastError d"
  by (simp_all add: setActivation_def)

end
