(* ===== verification/Bitcoin_Rpc.thy ===== *)
theory Bitcoin_Rpc
  imports Bitcoin_Types "HOL-Library.Log_Nat" "HOL-Library.Multiset"
begin

text \<open>
  \<open>src/bitcoin/bitcoin-rpc.client.ts\<close>: the JSON-RPC client of the Bitcoin node.  What the node answers
  is a parameter, one \<open>fetch_outcome\<close> for every request; the client turns it into a result and
  normalizes blocks and transactions.  An amount arrives as a JavaScript \<open>number\<close>, that is a binary64
  value: it is modelled as mantissa and exponent, and the multiplication in \<open>btcToSats\<close> rounds the
  product to 53 bits, ties to even, as IEEE 754 prescribes.
\<close>

section \<open>Amounts\<close>

text \<open>\<open>Finite m e\<close> is the number \<open>m * 2 ^ e\<close>.\<close>

datatype js_double = Finite int int | Infinite bool | NotANumber

text \<open>Rounding \<open>m * 2 ^ e\<close>, with \<open>m\<close> not negative, to 53 significant bits.\<close>

definition round_significand :: "int \<Rightarrow> nat \<Rightarrow> int" where
  "round_significand m k =
     (let q = m div 2 ^ k; r = m mod 2 ^ k; half = 2 ^ (k - 1)
      in if r > half \<or> (r = half \<and> odd q) then q + 1 else q)"

definition round_double :: "int \<Rightarrow> int \<Rightarrow> int \<times> int" where
  "round_double m e =
     (let k = bitlen m - 53
      in if k \<le> 0 then (m, e) else (round_significand m (nat k), e + k))"

text \<open>\<open>Math.round(m * 2 ^ e)\<close>: the nearest integer, the larger one of two.\<close>

definition math_round :: "int \<Rightarrow> int \<Rightarrow> int" where
  "math_round m e =
     (if 0 \<le> e then m * 2 ^ nat e else (m + 2 ^ (nat (- e) - 1)) div 2 ^ nat (- e))"

text \<open>
  A product of at least \<open>2 ^ 1024\<close> is infinite, and \<open>BigInt\<close> refuses it.  A product below the normal
  range may be rounded once more, but is far from one half either way.
\<close>

definition btcToSats :: "js_double \<Rightarrow> int result" where
  "btcToSats value =
     (case value of
        Finite m e \<Rightarrow>
          if m < 0 then Inl (PlainError ''invalid Bitcoin amount'')
          else (case round_double (m * 100000000) e of (m', e') \<Rightarrow>
                  if 0 < m' \<and> 1024 < bitlen m' + e' then Inl RangeError
                  else Inr (math_round m' e'))
      | _ \<Rightarrow> Inl (PlainError ''invalid Bitcoin amount''))"

section \<open>The answers of the node\<close>

record rpc_prevout =
  rpo_value :: js_double
  rpo_height :: "int option"
  rpo_scriptPubKeyHex :: string

record rpc_input =
  rpi_txid :: "string option"
  rpi_vout :: "nat option"
  rpi_coinbase :: "string option"
  rpi_scriptSigHex :: "string option"
  rpi_sequence :: int
  rpi_txinwitness :: "string list option"
  rpi_prevout :: "rpc_prevout option"

record rpc_output =
  rpt_value :: js_double
  rpt_n :: nat
  rpt_scriptPubKeyHex :: string

record rpc_transaction =
  rtx_txid :: string
  rtx_hash :: "string option"
  rtx_version :: int
  rtx_locktime :: int
  rtx_vin :: "rpc_input list"
  rtx_vout :: "rpc_output list"

record rpc_block =
  rbk_hash :: string
  rbk_height :: int
  rbk_previousblockhash :: "string option"
  rbk_time :: int
  rbk_mediantime :: int
  rbk_tx :: "rpc_transaction list"

record raw_transaction_location =
  rtl_txid :: string
  rtl_blockhash :: "string option"
  rtl_confirmations :: "int option"

record block_header =
  bhd_hash :: string
  bhd_height :: int
  bhd_confirmations :: int

record blockchain_info =
  bci_chain :: string
  bci_blocks :: int
  bci_headers :: int
  bci_bestblockhash :: string
  bci_initialblockdownload :: bool
  bci_pruned :: bool

section \<open>Normalization\<close>

definition normalizeOutput :: "rpc_output \<Rightarrow> bitcoin_output result" where
  "normalizeOutput output =
     bindE (btcToSats (rpt_value output)) (\<lambda>valueSats.
     Inr \<lparr>out_n = rpt_n output, out_valueSats = valueSats,
          out_scriptPubKeyHex = to_lower (rpt_scriptPubKeyHex output)\<rparr>)"

definition normalize_prevout :: "rpc_prevout \<Rightarrow> bitcoin_prevout result" where
  "normalize_prevout prevout =
     bindE (btcToSats (rpo_value prevout)) (\<lambda>valueSats.
     Inr \<lparr>prevout_valueSats = valueSats,
          prevout_scriptPubKeyHex = to_lower (rpo_scriptPubKeyHex prevout),
          prevout_confirmed = (rpo_height prevout \<noteq> None),
          prevout_blockHeight = rpo_height prevout\<rparr>)"

text \<open>A property whose value is the empty string is left out.\<close>

definition lower_if_truthy :: "string option \<Rightarrow> string option" where
  "lower_if_truthy s = (case s of None \<Rightarrow> None | Some t \<Rightarrow> if t = [] then None else Some (to_lower t))"

definition normalize_input :: "rpc_input \<Rightarrow> bitcoin_input result" where
  "normalize_input input =
     bindE (case rpi_prevout input of
              None \<Rightarrow> Inr None
            | Some prevout \<Rightarrow> bindE (normalize_prevout prevout) (\<lambda>p. Inr (Some p))) (\<lambda>prevout.
     Inr \<lparr>in_txid = lower_if_truthy (rpi_txid input), in_vout = rpi_vout input,
          in_coinbase = lower_if_truthy (rpi_coinbase input),
          in_scriptSigHex = nullish (map_option to_lower (rpi_scriptSigHex input)) [],
          in_sequence = rpi_sequence input,
          in_witness = nullish (map_option (map to_lower) (rpi_txinwitness input)) [],
          in_prevout = prevout\<rparr>)"

text \<open>\<open>sort\<close> is stable, as \<open>sort_key\<close> is.\<close>

definition normalizeTransaction :: "rpc_transaction \<Rightarrow> bitcoin_transaction result" where
  "normalizeTransaction transaction =
     bindE (mapE normalize_input (rtx_vin transaction)) (\<lambda>inputs.
     bindE (mapE normalizeOutput (sort_key rpt_n (rtx_vout transaction))) (\<lambda>outputs.
     Inr \<lparr>tx_txid = to_lower (rtx_txid transaction),
          tx_wtxid = to_lower (nullish (rtx_hash transaction) (rtx_txid transaction)),
          tx_version = rtx_version transaction, tx_locktime = rtx_locktime transaction,
          tx_inputs = inputs, tx_outputs = outputs\<rparr>))"

definition normalizeBlock :: "rpc_block \<Rightarrow> bitcoin_block result" where
  "normalizeBlock block =
     bindE (mapE normalizeTransaction (rbk_tx block)) (\<lambda>transactions.
     Inr \<lparr>blk_hash = to_lower (rbk_hash block),
          blk_previousBlockHash = map_option to_lower (rbk_previousblockhash block),
          blk_height = rbk_height block, blk_time = rbk_time block,
          blk_medianTime = rbk_mediantime block, blk_transactions = transactions\<rparr>)"

section \<open>Calls\<close>

text \<open>
  What \<open>fetch\<close> and \<open>response.json()\<close> give for one request: a rejection (a broken connection, the
  timeout), a response with an error status, a body that is no JSON, or a body.
\<close>

datatype 'a fetch_outcome =
    FetchRejected string
  | HttpStatus nat
  | MalformedBody string
  | RpcBody 'a "(int \<times> string) option"

definition rpc_call :: "string \<Rightarrow> 'a fetch_outcome \<Rightarrow> 'a result" where
  "rpc_call method outcome =
     (case outcome of
        FetchRejected message \<Rightarrow> Inl (BitcoinRpcError method None message)
      | HttpStatus status \<Rightarrow> Inl (BitcoinRpcError method None (''HTTP '' @ nat_text status))
      | MalformedBody message \<Rightarrow> Inl (BitcoinRpcError method None message)
      | RpcBody result (Some (code, message)) \<Rightarrow> Inl (BitcoinRpcError method (Some code) message)
      | RpcBody result None \<Rightarrow> Inr result)"

record bitcoin_node =
  bn_getblockchaininfo :: "blockchain_info fetch_outcome"
  bn_getblockhash :: "int \<Rightarrow> string fetch_outcome"
  bn_getblock_verbose :: "string \<Rightarrow> rpc_block fetch_outcome"
  bn_getblock_txids :: "string \<Rightarrow> string list fetch_outcome"
  bn_getrawtransaction :: "string \<Rightarrow> rpc_transaction fetch_outcome"
  bn_transaction_location :: "string \<Rightarrow> raw_transaction_location fetch_outcome"
  bn_getblockheader :: "string \<Rightarrow> block_header fetch_outcome"

definition getBlockchainInfo :: "bitcoin_node \<Rightarrow> blockchain_info result" where
  "getBlockchainInfo node = rpc_call ''getblockchaininfo'' (bn_getblockchaininfo node)"

definition getBlockHash :: "bitcoin_node \<Rightarrow> int \<Rightarrow> string result" where
  "getBlockHash node height = rpc_call ''getblockhash'' (bn_getblockhash node height)"

definition getBlock :: "bitcoin_node \<Rightarrow> string \<Rightarrow> bitcoin_block result" where
  "getBlock node hash = bindE (rpc_call ''getblock'' (bn_getblock_verbose node hash)) normalizeBlock"

definition getRawTransaction :: "bitcoin_node \<Rightarrow> string \<Rightarrow> bitcoin_transaction result" where
  "getRawTransaction node txid =
     bindE (rpc_call ''getrawtransaction'' (bn_getrawtransaction node txid)) normalizeTransaction"

definition getRawTransactionLocation :: "bitcoin_node \<Rightarrow> string \<Rightarrow> raw_transaction_location result" where
  "getRawTransactionLocation node txid =
     rpc_call ''getrawtransaction'' (bn_transaction_location node txid)"

definition getBlockHeader :: "bitcoin_node \<Rightarrow> string \<Rightarrow> block_header result" where
  "getBlockHeader node hash = rpc_call ''getblockheader'' (bn_getblockheader node hash)"

definition getBlockTxids :: "bitcoin_node \<Rightarrow> string \<Rightarrow> string list result" where
  "getBlockTxids node hash =
     bindE (rpc_call ''getblock'' (bn_getblock_txids node hash)) (\<lambda>tx. Inr (map to_lower tx))"

section \<open>Satoshi amounts are exact\<close>

definition double_value :: "int \<Rightarrow> int \<Rightarrow> real" where
  "double_value m e = of_int m * 2 powr of_int e"

lemma round_significand_error:
  assumes "0 < k"
  shows "\<bar>round_significand m k * 2 ^ k - m\<bar> \<le> 2 ^ (k - 1)"
proof -
  have m: "m = m div 2 ^ k * 2 ^ k + m mod 2 ^ k" by (rule div_mult_mod_eq [symmetric])
  have r: "0 \<le> m mod 2 ^ k" "m mod 2 ^ k < 2 ^ k" by simp_all
  have p: "(2 :: int) ^ k = 2 * 2 ^ (k - 1)" using assms by (cases k) simp_all
  have up: "(m div 2 ^ k + 1) * 2 ^ k - m = 2 ^ k - m mod 2 ^ k"
    using m by (simp add: algebra_simps)
  have down: "m div 2 ^ k * 2 ^ k - m = - (m mod 2 ^ k)" using m by linarith
  show ?thesis
  proof (cases "m mod 2 ^ k > 2 ^ (k - 1) \<or> (m mod 2 ^ k = 2 ^ (k - 1) \<and> odd (m div 2 ^ k))")
    case True
    then have "round_significand m k = m div 2 ^ k + 1" by (simp only: round_significand_def Let_def if_True)
    then have "round_significand m k * 2 ^ k - m = 2 ^ k - m mod 2 ^ k" by (simp only: up)
    then show ?thesis using True r p by linarith
  next
    case False
    then have "round_significand m k = m div 2 ^ k" by (simp only: round_significand_def Let_def if_False)
    then have "round_significand m k * 2 ^ k - m = - (m mod 2 ^ k)" by (simp only: down)
    then show ?thesis using False r p by linarith
  qed
qed

lemma round_double_error:
  assumes "0 \<le> m" and "round_double m e = (m', e')"
  shows "\<bar>double_value m' e' - double_value m e\<bar> \<le> double_value m e / 2 ^ 53"
proof (cases "bitlen m - 53 \<le> 0")
  case True
  then show ?thesis using assms by (simp add: round_double_def Let_def double_value_def)
next
  case False
  define k where "k = nat (bitlen m - 53)"
  have k: "0 < k" "bitlen m - 53 = int k" using False by (simp_all add: k_def)
  have m': "m' = round_significand m k" "e' = e + int k"
    using assms(2) False by (simp_all add: round_double_def Let_def k_def)
  have "0 < m" using False assms(1) by (cases "m = 0") simp_all
  then have "2 ^ nat (bitlen m - 1) \<le> m" using bitlen_bounds [of m] by simp
  moreover have "nat (bitlen m - 1) = (k - 1) + 53" using k by linarith
  ultimately have big: "(2 :: int) ^ (k - 1) * 2 ^ 53 \<le> m" by (simp add: power_add)
  have "\<bar>round_significand m k * 2 ^ k - m\<bar> \<le> 2 ^ (k - 1)"
    using k(1) by (rule round_significand_error)
  then have "\<bar>m' * 2 ^ k - m\<bar> * 2 ^ 53 \<le> 2 ^ (k - 1) * 2 ^ 53"
    unfolding m'(1) by (rule mult_right_mono) simp
  with big have "\<bar>m' * 2 ^ k - m\<bar> * 2 ^ 53 \<le> m" by linarith
  then have "real_of_int (\<bar>m' * 2 ^ k - m\<bar> * 2 ^ 53) \<le> real_of_int m"
    by (simp only: of_int_le_iff)
  then have err: "\<bar>of_int m' * 2 ^ k - of_int m :: real\<bar> \<le> of_int m / 2 ^ 53"
    by simp
  have "double_value m' e' = of_int m' * 2 ^ k * 2 powr of_int e"
    by (simp add: double_value_def m'(2) powr_add powr_realpow)
  then have "double_value m' e' - double_value m e = (of_int m' * 2 ^ k - of_int m) * 2 powr of_int e"
    by (simp only: double_value_def left_diff_distrib)
  then have "\<bar>double_value m' e' - double_value m e\<bar> =
      \<bar>of_int m' * 2 ^ k - of_int m\<bar> * 2 powr of_int e"
    by (simp add: abs_mult)
  also have "\<dots> \<le> of_int m / 2 ^ 53 * 2 powr of_int e"
    using err by (rule mult_right_mono) simp
  finally show ?thesis by (simp add: double_value_def)
qed

lemma math_round_floor: "math_round m e = \<lfloor>double_value m e + 1 / 2\<rfloor>"
proof (cases "0 \<le> e")
  case True
  then have "2 powr of_int e = (2 :: real) ^ nat e"
    by (metis nat_0_le of_int_of_nat_eq powr_realpow zero_less_numeral)
  then have "double_value m e = of_int (m * 2 ^ nat e)" by (simp add: double_value_def)
  then have "\<lfloor>double_value m e + 1 / 2\<rfloor> = m * 2 ^ nat e" by linarith
  then show ?thesis using True by (simp add: math_round_def)
next
  case False
  define n where "n = nat (- e)"
  have n: "0 < n" "e = - int n" using False by (simp_all add: n_def)
  have h: "(2 :: real) ^ n = 2 * 2 ^ (n - 1)" using n(1) by (cases n) simp_all
  have v: "double_value m e = of_int m / 2 ^ n"
    by (simp add: double_value_def n(2) powr_minus powr_realpow divide_inverse)
  have "double_value m e + 1 / 2 = of_int (m + 2 ^ (n - 1)) / of_int (2 ^ n)"
    using h by (simp add: v field_simps)
  then have "\<lfloor>double_value m e + 1 / 2\<rfloor> = (m + 2 ^ (n - 1)) div 2 ^ n"
    by (simp only: floor_divide_of_int_eq)
  then show ?thesis using False by (simp add: math_round_def n_def)
qed

text \<open>An upper bound of the mantissa keeps the product finite.\<close>

lemma bitlen_value:
  assumes "0 < m" and "double_value m e < 2 ^ 60"
  shows "bitlen m + e \<le> 60"
proof (rule ccontr)
  assume "\<not> bitlen m + e \<le> 60"
  then have e: "60 \<le> (bitlen m - 1) + e" by simp
  have pos: "0 < bitlen m" using assms(1) bitlen_eq_zero_iff [of m] bitlen_nonneg [of m] by linarith
  have "2 ^ nat (bitlen m - 1) \<le> m" using bitlen_bounds [of m] assms(1) by simp
  then have "real_of_int (2 ^ nat (bitlen m - 1)) \<le> of_int m" by (simp only: of_int_le_iff)
  moreover have "2 powr of_int (bitlen m - 1) = real_of_int (2 ^ nat (bitlen m - 1))"
    using pos powr_realpow [of 2 "nat (bitlen m - 1)"] by simp
  ultimately have "2 powr of_int (bitlen m - 1) \<le> real_of_int m" by (rule ord_eq_le_trans [rotated])
  then have "2 powr of_int (bitlen m - 1) * 2 powr of_int e \<le> double_value m e"
    unfolding double_value_def by (rule mult_right_mono) simp
  moreover have "(2 :: real) powr 60 \<le> 2 powr of_int ((bitlen m - 1) + e)"
    using e by (intro powr_mono) simp_all
  moreover have "(2 :: real) powr 60 = 2 ^ 60" by (subst powr_realpow [symmetric]) simp_all
  ultimately show False using assms(2) by (simp add: powr_add)
qed

text \<open>The hypothesis of exactness: the binary64 value nearest to \<open>n\<close> satoshi.\<close>

definition nearest_amount :: "int \<Rightarrow> int \<Rightarrow> int \<Rightarrow> bool" where
  "nearest_amount m e n =
     (\<bar>double_value m e - of_int n / 100000000\<bar> \<le> of_int n / 100000000 / 2 ^ 53)"

text \<open>
  C27: no satoshi is lost to floating point.  For every amount of at most 21 million bitcoin, when the
  node's JSON number is read as the nearest binary64 value (relative error at most \<open>2 ^ -53\<close>),
  multiplying by \<open>10 ^ 8\<close> in binary64 and rounding gives back exactly the amount in satoshi.
\<close>

theorem btcToSats_exact:
  assumes "0 \<le> n" and "n \<le> 2100000000000000" and "0 \<le> m" and "nearest_amount m e n"
  shows "btcToSats (Finite m e) = Inr n"
proof -
  obtain m' e' where r: "round_double (m * 100000000) e = (m', e')" by (cases "round_double (m * 100000000) e")
  let ?p = "double_value (m * 100000000) e" and ?n = "of_int n :: real"
  have p: "?p = double_value m e * 100000000" by (simp add: double_value_def)
  have n: "0 \<le> ?n" "?n \<le> 2100000000000000" using assms(1,2) by simp_all
  have "\<bar>?p - ?n\<bar> \<le> ?n / 9007199254740992"
    using assms(4) unfolding p nearest_amount_def by (simp add: abs_le_iff field_simps)
  moreover have "\<bar>double_value m' e' - ?p\<bar> \<le> ?p / 9007199254740992"
    using round_double_error [OF _ r] assms(3) by simp
  ultimately have "?n - 1 / 2 < double_value m' e' \<and> double_value m' e' < ?n + 1 / 2"
    using n by linarith
  then have near: "?n - 1 / 2 < double_value m' e'" "double_value m' e' < ?n + 1 / 2" by blast+
  then have "\<lfloor>double_value m' e' + 1 / 2\<rfloor> = n" by linarith
  moreover have "bitlen m' + e' \<le> 60" if "0 < m'"
  proof (rule bitlen_value [OF that])
    show "double_value m' e' < 2 ^ 60" using near(2) n(2) by simp
  qed
  ultimately show ?thesis
    using assms(3) r by (auto simp: btcToSats_def math_round_floor)
qed

text \<open>One tenth of a bitcoin: the nearest binary64 value is not one tenth, and the result is exact.\<close>

theorem btcToSats_exact_witness:
  "nearest_amount 7205759403792794 (- 56) 10000000 \<and>
   btcToSats (Finite 7205759403792794 (- 56)) = Inr 10000000"
proof -
  have "nearest_amount 7205759403792794 (- 56) 10000000"
    by (simp add: nearest_amount_def double_value_def powr_minus powr_numeral divide_simps)
  then show ?thesis using btcToSats_exact [of 10000000 7205759403792794 "- 56"] by simp
qed

section \<open>Normalized blocks\<close>

lemma normalizeTransaction_Inr:
  assumes "normalizeTransaction t = Inr tx"
  shows "tx_txid tx = to_lower (rtx_txid t)" "length (tx_inputs tx) = length (rtx_vin t)"
    "map out_n (tx_outputs tx) = sort (map rpt_n (rtx_vout t))"
proof -
  from assms obtain outputs where out: "mapE normalizeOutput (sort_key rpt_n (rtx_vout t)) = Inr outputs"
    "tx_outputs tx = outputs" by (auto simp: normalizeTransaction_def)
  show "tx_txid tx = to_lower (rtx_txid t)" "length (tx_inputs tx) = length (rtx_vin t)"
    using assms by (auto simp: normalizeTransaction_def mapE_Inr_length)
  have "map out_n os = map rpt_n xs" if "mapE normalizeOutput xs = Inr os" for xs os
    using that by (induction xs arbitrary: os) (auto simp: normalizeOutput_def)
  then have "map out_n outputs = map rpt_n (sort_key rpt_n (rtx_vout t))" using out(1) by blast
  moreover have "sort (map rpt_n (rtx_vout t)) = map rpt_n (sort_key rpt_n (rtx_vout t))"
    by (rule properties_for_sort) simp_all
  ultimately show "map out_n (tx_outputs tx) = sort (map rpt_n (rtx_vout t))" by (simp only: out(2))
qed

lemma getBlock_Inr:
  assumes "getBlock node hash = Inr b"
  shows "\<exists>rb. bn_getblock_verbose node hash = RpcBody rb None \<and> normalizeBlock rb = Inr b"
proof (cases "bn_getblock_verbose node hash")
  case (RpcBody rb err)
  then show ?thesis using assms by (cases err) (auto simp: getBlock_def rpc_call_def)
qed (use assms in \<open>simp_all add: getBlock_def rpc_call_def\<close>)

end
