(* ===== verification/Readiness.thy ===== *)
theory Readiness
  imports Agreement Deployment_State Bitcoin_Rpc
begin

text \<open>
  \<open>src/observability/readiness.service.ts\<close>: whether the service may answer.  \<open>evaluateReadiness\<close> lists
  the reasons why not; \<open>probe\<close> gathers its input from the database, the node, the signer and the state
  of the deployment.
\<close>

section \<open>Evaluation\<close>

record readiness_input =
  rd_configurationValid :: bool
  rd_databaseAvailable :: bool
  rd_coreAvailable :: bool
  rd_coreNetworkMatches :: bool
  rd_coreInitialBlockDownload :: bool
  rd_nodeHeight :: "int option"
  rd_canonicalHeight :: "int option"
  rd_checkpointHeight :: "int option"
  rd_maxBlockLag :: nat
  rd_signerConfigured :: bool
  rd_initPhase :: "init_phase option"
  rd_initConfigMismatch :: "string option"

record readiness_snapshot =
  rs_input :: readiness_input
  rs_ready :: bool
  rs_reasons :: "string list"

definition reason_if :: "bool \<Rightarrow> string \<Rightarrow> string list" where
  "reason_if b reason = (if b then [reason] else [])"

definition tip_stale :: "readiness_input \<Rightarrow> bool" where
  "tip_stale i =
     (case (rd_nodeHeight i, rd_canonicalHeight i) of
        (Some node, Some canonical) \<Rightarrow> node - canonical > int (rd_maxBlockLag i)
      | _ \<Rightarrow> False)"

definition readiness_reasons :: "readiness_input \<Rightarrow> string list" where
  "readiness_reasons i =
     (let phase = nullish (rd_initPhase i) ActiveInit
      in reason_if (\<not> rd_configurationValid i) ''configuration_invalid'' @
         reason_if (phase = Unconfigured) ''init_not_configured'' @
         reason_if (phase = AwaitingInit) ''init_not_confirmed'' @
         reason_if (phase = FailedInit) ''init_failed'' @
         reason_if (truthy (rd_initConfigMismatch i)) ''init_config_mismatch'' @
         reason_if (\<not> rd_databaseAvailable i) ''database_unavailable'' @
         reason_if (\<not> rd_coreAvailable i) ''bitcoin_core_unavailable'' @
         reason_if (\<not> rd_coreNetworkMatches i) ''bitcoin_network_mismatch'' @
         reason_if (rd_coreInitialBlockDownload i) ''bitcoin_core_initial_block_download'' @
         reason_if (rd_nodeHeight i = None) ''node_height_unknown'' @
         reason_if (rd_canonicalHeight i = None) ''canonical_tip_missing'' @
         reason_if (tip_stale i) ''canonical_tip_stale'' @
         reason_if (rd_checkpointHeight i = None \<or> rd_checkpointHeight i \<noteq> rd_canonicalHeight i)
           ''checkpoint_incomplete'' @
         reason_if (\<not> rd_signerConfigured i) ''agreement_signer_unavailable'')"

definition evaluateReadiness :: "readiness_input \<Rightarrow> readiness_snapshot" where
  "evaluateReadiness i =
     \<lparr>rs_input = i, rs_ready = (readiness_reasons i = []), rs_reasons = readiness_reasons i\<rparr>"

lemma reason_if_Nil [simp]: "reason_if b r = [] \<longleftrightarrow> \<not> b"
  by (simp add: reason_if_def)

lemma evaluateReadiness_ready:
  "rs_ready (evaluateReadiness i) \<longleftrightarrow>
     rd_configurationValid i \<and> nullish (rd_initPhase i) ActiveInit = ActiveInit \<and>
     \<not> truthy (rd_initConfigMismatch i) \<and> rd_databaseAvailable i \<and> rd_coreAvailable i \<and>
     rd_coreNetworkMatches i \<and> \<not> rd_coreInitialBlockDownload i \<and> rd_signerConfigured i \<and>
     (\<exists>node canonical. rd_nodeHeight i = Some node \<and> rd_canonicalHeight i = Some canonical \<and>
        rd_checkpointHeight i = Some canonical \<and> node \<le> canonical + int (rd_maxBlockLag i))"
  by (cases "nullish (rd_initPhase i) ActiveInit")
    (auto simp: evaluateReadiness_def readiness_reasons_def Let_def tip_stale_def)

section \<open>Probing\<close>

text \<open>
  The database as one request finds it: query \<open>n\<close> either fails or sees the state \<open>d n\<close>, which the
  synchronizer may change in between.
\<close>

type_synonym database_view = "nat \<Rightarrow> database result"

definition highest_key :: "(int, 'a) js_map \<Rightarrow> int option" where
  "highest_key table = map_option fst (highest table)"

text \<open>The \<open>try\<close> block: availability, height of the tip, height of the last checkpoint.\<close>

definition probe_database :: "database_view \<Rightarrow> bool \<times> int option \<times> int option" where
  "probe_database d =
     (case d 0 of
        Inl _ \<Rightarrow> (False, None, None)
      | Inr _ \<Rightarrow>
          (case d 1 of
             Inl _ \<Rightarrow> (False, None, None)
           | Inr db1 \<Rightarrow>
               (case d 2 of
                  Inl _ \<Rightarrow> (False, highest_key (db_blocks db1), None)
                | Inr db2 \<Rightarrow> (True, highest_key (db_blocks db1), highest_key (db_checkpoints db2)))))"

text \<open>Availability, matching network, initial block download, height.\<close>

definition probe_core :: "bitcoin_node \<Rightarrow> string \<Rightarrow> bool \<times> bool \<times> bool \<times> int option" where
  "probe_core node expected =
     (case getBlockchainInfo node of
        Inl _ \<Rightarrow> (False, False, True, None)
      | Inr info \<Rightarrow>
          (True, bci_chain info = expected, bci_initialblockdownload info, Some (bci_blocks info)))"

definition probe ::
  "agreement_lib \<Rightarrow> app_configuration \<Rightarrow> deployment_state \<Rightarrow> database_view \<Rightarrow> bitcoin_node \<Rightarrow>
     readiness_snapshot" where
  "probe A cfg state d node =
     (let (databaseAvailable, canonicalHeight, checkpointHeight) = probe_database d;
          (coreAvailable, coreNetworkMatches, coreInitialBlockDownload, nodeHeight) =
            probe_core node (bc_expectedChain (cfg_bitcoin cfg))
      in evaluateReadiness
        \<lparr>rd_configurationValid = (dc_specHash (cfg_deployment cfg) \<noteq> []),
         rd_databaseAvailable = databaseAvailable, rd_coreAvailable = coreAvailable,
         rd_coreNetworkMatches = coreNetworkMatches,
         rd_coreInitialBlockDownload = coreInitialBlockDownload, rd_nodeHeight = nodeHeight,
         rd_canonicalHeight = canonicalHeight, rd_checkpointHeight = checkpointHeight,
         rd_maxBlockLag = cfg_maxBlockLag cfg,
         rd_signerConfigured = signingBoundaryConfigured A (cfg_agreement cfg),
         rd_initPhase = Some (ds_phase state),
         rd_initConfigMismatch = ds_initConfigMismatch state\<rparr>)"

text \<open>What a ready snapshot says of the database and of the node.\<close>

lemma probe_ready:
  assumes "rs_ready (probe A cfg state d node)"
  shows "\<exists>h db1 db2 info. rd_canonicalHeight (rs_input (probe A cfg state d node)) = Some h \<and>
    d 1 = Inr db1 \<and> highest_key (db_blocks db1) = Some h \<and>
    d 2 = Inr db2 \<and> highest_key (db_checkpoints db2) = Some h \<and>
    getBlockchainInfo node = Inr info \<and> bci_chain info = bc_expectedChain (cfg_bitcoin cfg) \<and>
    \<not> bci_initialblockdownload info \<and> bci_blocks info \<le> h + int (cfg_maxBlockLag cfg) \<and>
    ds_phase state = ActiveInit \<and> \<not> truthy (ds_initConfigMismatch state) \<and>
    signingBoundaryConfigured A (cfg_agreement cfg)"
proof -
  have "rs_input (evaluateReadiness i) = i" for i by (simp add: evaluateReadiness_def)
  then show ?thesis
    using assms
    by (auto simp: probe_def evaluateReadiness_ready probe_database_def probe_core_def Let_def
        split: sum.splits prod.splits)
qed

end
