(* ===== verification/Verified_Gateway.thy ===== *)
theory Verified_Gateway
  imports Readiness
begin

text \<open>
  \<open>src/verification/verified-gateway.service.ts\<close>: no verified answer leaves the service unless both
  pipelines have signed the same state.  The theory models the reading of an envelope, the comparison
  of two of them, the request to the other pipeline, and the gateway around a query.  What the
  gateway meets at a moment (the database, the node, the other pipeline) is a parameter.
\<close>

section \<open>Reading an envelope\<close>

definition ENVELOPE_KEYS :: "string list" where
  "ENVELOPE_KEYS = [''schema'', ''key_id'', ''tuple'', ''signature'']"

definition TUPLE_KEYS :: "string list" where
  "TUPLE_KEYS =
     [''schema'', ''protocol_id'', ''height'', ''block_hash'', ''event_root'', ''object_state_root'',
      ''chained_root'', ''founding_created'', ''all_objects'', ''active_objects'', ''parser_commit'',
      ''indexer_commit'', ''parser_binary_sha256'', ''indexer_binary_sha256'']"

text \<open>The names of the fields with the values two tuples are compared at.\<close>

definition SEMANTIC_FIELDS :: "(string \<times> (agreement_tuple \<Rightarrow> string)) list" where
  "SEMANTIC_FIELDS =
     [(''protocol_id'', at_protocol_id), (''height'', at_height), (''block_hash'', at_block_hash),
      (''event_root'', at_event_root), (''object_state_root'', at_object_state_root),
      (''chained_root'', at_chained_root), (''founding_created'', at_founding_created),
      (''all_objects'', at_all_objects), (''active_objects'', at_active_objects)]"

definition MAX_AGREEMENT_RESPONSE_BYTES :: nat where
  "MAX_AGREEMENT_RESPONSE_BYTES = 65536"

text \<open>A value is \<open>None\<close> when it is \<open>undefined\<close>.\<close>

definition exactRecord :: "json option \<Rightarrow> string list \<Rightarrow> string \<Rightarrow> (string \<times> json) list result" where
  "exactRecord value keys label =
     (case value of
        Some (JObject entries) \<Rightarrow>
          if sort (map fst entries) = sort keys then Inr entries
          else Inl (AgreementVerificationError (label @ '' has an invalid shape''))
      | _ \<Rightarrow> Inl (AgreementVerificationError (label @ '' must be an object'')))"

definition textField :: "(string \<times> json) list \<Rightarrow> string \<Rightarrow> string result" where
  "textField entries key =
     (case map_of entries key of
        Some (JString text) \<Rightarrow> Inr text
      | _ \<Rightarrow> Inl (AgreementVerificationError (key @ '' must be a string'')))"

definition tuple_of_fields :: "(string \<times> string) list \<Rightarrow> agreement_tuple" where
  "tuple_of_fields texts =
     \<lparr>at_schema = the (map_of texts ''schema''), at_protocol_id = the (map_of texts ''protocol_id''),
      at_height = the (map_of texts ''height''), at_block_hash = the (map_of texts ''block_hash''),
      at_event_root = the (map_of texts ''event_root''),
      at_object_state_root = the (map_of texts ''object_state_root''),
      at_chained_root = the (map_of texts ''chained_root''),
      at_founding_created = the (map_of texts ''founding_created''),
      at_all_objects = the (map_of texts ''all_objects''),
      at_active_objects = the (map_of texts ''active_objects''),
      at_parser_commit = the (map_of texts ''parser_commit''),
      at_indexer_commit = the (map_of texts ''indexer_commit''),
      at_parser_binary_sha256 = the (map_of texts ''parser_binary_sha256''),
      at_indexer_binary_sha256 = the (map_of texts ''indexer_binary_sha256'')\<rparr>"

definition as_verification_error :: "js_error \<Rightarrow> js_error" where
  "as_verification_error e =
     AgreementVerificationError (case e of PlainError message \<Rightarrow> message | _ \<Rightarrow> ''agreement tuple is invalid'')"

definition parseAgreementEnvelope :: "json \<Rightarrow> signed_envelope result" where
  "parseAgreementEnvelope value =
     bindE (exactRecord (Some value) ENVELOPE_KEYS ''agreement envelope'') (\<lambda>envelope.
     bindE (exactRecord (map_of envelope ''tuple'') TUPLE_KEYS ''agreement tuple'') (\<lambda>tupleRecord.
     bindE (mapE (textField tupleRecord) TUPLE_KEYS) (\<lambda>texts.
     let tuple = tuple_of_fields (zip TUPLE_KEYS texts) in
     bindE (rethrow_as as_verification_error (assertAgreementTuple tuple)) (\<lambda>_.
     bindE (textField envelope ''schema'') (\<lambda>schema.
     bindE (textField envelope ''key_id'') (\<lambda>key_id.
     bindE (textField envelope ''signature'') (\<lambda>signature.
       Inr \<lparr>env_schema = schema, env_key_id = key_id, env_tuple = tuple, env_signature = signature\<rparr>)))))))"

section \<open>Establishing agreement\<close>

record pipeline_identity =
  pi_keyId :: string
  pi_signature :: string
  pi_release :: release_identity

text \<open>The status is always \<open>verified\<close>.\<close>

record verification_metadata =
  vm_protocolId :: string
  vm_network :: string
  vm_specHash :: string
  vm_height :: nat
  vm_blockHash :: string
  vm_chainedRoot :: string
  vm_eventRoot :: string
  vm_objectStateRoot :: string
  vm_foundingCreated :: string
  vm_allObjects :: string
  vm_activeObjects :: string
  vm_pipelineA :: pipeline_identity
  vm_pipelineB :: pipeline_identity

definition releaseIdentity :: "agreement_tuple \<Rightarrow> release_identity" where
  "releaseIdentity t =
     \<lparr>ri_parserCommit = at_parser_commit t, ri_indexerCommit = at_indexer_commit t,
      ri_parserBinarySha256 = at_parser_binary_sha256 t,
      ri_indexerBinarySha256 = at_indexer_binary_sha256 t\<rparr>"

definition verifyTrustedEnvelope ::
  "agreement_lib \<Rightarrow> json \<Rightarrow> (string, string) js_map \<Rightarrow> string \<Rightarrow> signed_envelope result" where
  "verifyTrustedEnvelope A value trusted pipeline =
     bindE (parseAgreementEnvelope value) (\<lambda>envelope.
     bindE (throw_unless (env_schema envelope = ENVELOPE_SCHEMA)
       (AgreementVerificationError (pipeline @ '' envelope schema is not supported''))) (\<lambda>_.
     bindE (throw_unless (truthy (js_get trusted (env_key_id envelope)))
       (AgreementVerificationError (pipeline @ '' key is not trusted''))) (\<lambda>_.
     bindE (throw_unless (verifyAgreementEnvelope A envelope (the (js_get trusted (env_key_id envelope))))
       (AgreementVerificationError (pipeline @ '' signature is invalid''))) (\<lambda>_.
       Inr envelope))))"

definition compare_field ::
  "agreement_tuple \<Rightarrow> agreement_tuple \<Rightarrow> string \<times> (agreement_tuple \<Rightarrow> string) \<Rightarrow> unit result" where
  "compare_field a b field =
     throw_unless (snd field a = snd field b)
       (AgreementVerificationError (''agreement mismatch at '' @ fst field))"

definition pipeline_identity_of :: "signed_envelope \<Rightarrow> pipeline_identity" where
  "pipeline_identity_of envelope =
     \<lparr>pi_keyId = env_key_id envelope, pi_signature = env_signature envelope,
      pi_release = releaseIdentity (env_tuple envelope)\<rparr>"

definition agreed_metadata ::
  "string \<Rightarrow> string \<Rightarrow> signed_envelope \<Rightarrow> signed_envelope \<Rightarrow> verification_metadata" where
  "agreed_metadata network specHash a b =
     (let t = env_tuple a
      in \<lparr>vm_protocolId = at_protocol_id t, vm_network = network, vm_specHash = specHash,
          vm_height = number_of_text (at_height t), vm_blockHash = at_block_hash t,
          vm_chainedRoot = at_chained_root t, vm_eventRoot = at_event_root t,
          vm_objectStateRoot = at_object_state_root t, vm_foundingCreated = at_founding_created t,
          vm_allObjects = at_all_objects t, vm_activeObjects = at_active_objects t,
          vm_pipelineA = pipeline_identity_of a, vm_pipelineB = pipeline_identity_of b\<rparr>)"

definition establishVerifiedAgreement ::
  "agreement_lib \<Rightarrow> json \<Rightarrow> json \<Rightarrow> (string, string) js_map \<Rightarrow> (string, string) js_map \<Rightarrow> string \<Rightarrow>
     verification_metadata result" where
  "establishVerifiedAgreement A valueA valueB trustedA trustedB specHash =
     bindE (verifyTrustedEnvelope A valueA trustedA ''pipeline A'') (\<lambda>a.
     bindE (verifyTrustedEnvelope A valueB trustedB ''pipeline B'') (\<lambda>b.
     bindE (mapE (compare_field (env_tuple a) (env_tuple b)) SEMANTIC_FIELDS) (\<lambda>_.
     bindE (of_option (AgreementVerificationError ''agreement protocol id is malformed'')
       (protocol_network (at_protocol_id (env_tuple a)))) (\<lambda>network.
     bindE (throw_unless (HASH_HEX specHash)
       (AgreementVerificationError ''deployment spec hash is malformed'')) (\<lambda>_.
       Inr (agreed_metadata network specHash a b))))))"

section \<open>Asking the other pipeline\<close>

text \<open>What reading the body gives, up to its end: pieces, or a failure.\<close>

datatype body_read = Chunk bytes | ReadFailed string

text \<open>\<open>hr_contentLength\<close> is \<open>Number\<close> of the header, when that is finite; a missing header gives zero.\<close>

record http_response =
  hr_ok :: bool
  hr_status :: nat
  hr_contentLength :: "int option"
  hr_body :: "body_read list option"

datatype pipeline_fetch = FetchFailed string | Responded http_response

record gateway_env =
  ge_lib :: agreement_lib
  ge_platform :: platform
  ge_utf8 :: "bytes \<Rightarrow> string"            \<comment> \<open>\<open>buffer.toString("utf8")\<close>\<close>
  ge_syntaxError :: "string \<Rightarrow> string"    \<comment> \<open>the message of the error \<open>JSON.parse\<close> throws\<close>
  ge_config :: app_configuration

fun read_chunks :: "nat \<Rightarrow> body_read list \<Rightarrow> bytes result" where
  "read_chunks got [] = Inr []"
| "read_chunks got (ReadFailed message # reads) = Inl (PlainError message)"
| "read_chunks got (Chunk chunk # reads) =
     (if got + length chunk > MAX_AGREEMENT_RESPONSE_BYTES
      then Inl (AgreementVerificationError ''pipeline B response is too large'')
      else bindE (read_chunks (got + length chunk) reads) (\<lambda>rest. Inr (chunk @ rest)))"

definition readLimitedBody :: "http_response \<Rightarrow> bytes result" where
  "readLimitedBody response =
     (case hr_body response of
        None \<Rightarrow> Inl (AgreementVerificationError ''pipeline B response has no body'')
      | Some reads \<Rightarrow> read_chunks 0 reads)"

definition agreement_url :: "string \<Rightarrow> int \<Rightarrow> string" where
  "agreement_url url height = url @ ''/agreement/'' @ int_text height"

definition pipeline_unavailable :: "string \<Rightarrow> js_error" where
  "pipeline_unavailable message =
     AgreementVerificationError (''pipeline B agreement is unavailable: '' @ message)"

definition fetchPipelineB :: "gateway_env \<Rightarrow> pipeline_fetch \<Rightarrow> json result" where
  "fetchPipelineB E outcome =
     (case outcome of
        FetchFailed message \<Rightarrow> Inl (pipeline_unavailable message)
      | Responded response \<Rightarrow>
          if \<not> hr_ok response
          then Inl (AgreementVerificationError (''pipeline B returned HTTP '' @ nat_text (hr_status response)))
          else if (case hr_contentLength response of None \<Rightarrow> False
                   | Some n \<Rightarrow> n > int MAX_AGREEMENT_RESPONSE_BYTES)
          then Inl (AgreementVerificationError ''pipeline B response is too large'')
          else (case readLimitedBody response of
                  Inl (PlainError message) \<Rightarrow> Inl (pipeline_unavailable message)
                | Inl e \<Rightarrow> Inl e
                | Inr body \<Rightarrow>
                    of_option (pipeline_unavailable (ge_syntaxError E (ge_utf8 E body)))
                      (pf_json_parse (ge_platform E) (ge_utf8 E body))))"

section \<open>The gateway\<close>

text \<open>
  What one run of \<open>resolve\<close> meets.  Its queries of the database are numbered: the probe makes the
  first three, \<open>signedAt\<close> the fourth.
\<close>

record gateway_moment =
  gm_state :: deployment_state
  gm_database :: database_view
  gm_node :: bitcoin_node
  gm_pipelineB :: "string \<Rightarrow> pipeline_fetch"

definition envelope_json :: "signed_envelope \<Rightarrow> json" where
  "envelope_json envelope = JObject
     [(''schema'', JString (env_schema envelope)), (''key_id'', JString (env_key_id envelope)),
      (''tuple'', tuple_json (env_tuple envelope)), (''signature'', JString (env_signature envelope))]"

definition resolve :: "gateway_env \<Rightarrow> gateway_moment \<Rightarrow> verification_metadata result" where
  "resolve E m =
     (let snapshot = probe (ge_lib E) (ge_config E) (gm_state m) (gm_database m) (gm_node m);
          deployment = cfg_deployment (ge_config E);
          verification = cfg_verification (ge_config E)
      in bindE (of_option (AgreementVerificationError ''pipeline A is not ready at a canonical height'')
           (if rs_ready snapshot then rd_canonicalHeight (rs_input snapshot) else None)) (\<lambda>height.
         bindE (throw_unless (dc_network deployment = ''mainnet'' \<longrightarrow> vf_mainnetEnabled verification)
           (AgreementVerificationError ''verified mainnet responses are disabled'')) (\<lambda>_.
         bindE (throw_unless (truthy (vf_pipelineBBaseUrl verification))
           (AgreementVerificationError ''pipeline B endpoint is not configured'')) (\<lambda>_.
         bindE (gm_database m 3) (\<lambda>db.
         bindE (signedAt (ge_lib E) (ge_config E) db height) (\<lambda>pipelineA.
         bindE (fetchPipelineB E
           (gm_pipelineB m (agreement_url (the (vf_pipelineBBaseUrl verification)) height))) (\<lambda>pipelineB.
         bindE (establishVerifiedAgreement (ge_lib E) (envelope_json pipelineA) pipelineB
           (vf_pipelineATrustedKeys verification) (vf_pipelineBTrustedKeys verification)
           (dc_specHash deployment)) (\<lambda>metadata.
         bindE (throw_unless (int (vm_height metadata) = height \<and>
             Some (at_protocol_id (env_tuple pipelineA)) = dc_protocolId deployment)
           (AgreementVerificationError ''agreement is not for the requested deployment height'')) (\<lambda>_.
           Inr metadata)))))))))"

definition verification_unavailable :: js_error where
  "verification_unavailable = HttpException 503 ''verification_unavailable''"

text \<open>
  \<open>legacy\<close> is what the optional read for the unavailable case gives.  Comparing the JSON texts of two
  metadata compares their fields.
\<close>

definition executeBound ::
  "gateway_env \<Rightarrow> gateway_moment \<Rightarrow> gateway_moment \<Rightarrow> (verification_metadata \<Rightarrow> 'a result) \<Rightarrow>
     unit result option \<Rightarrow> (verification_metadata \<times> 'a) result" where
  "executeBound E m1 m2 query legacy =
     (case resolve E m1 of
        Inl _ \<Rightarrow> bindE (nullish legacy (Inr ())) (\<lambda>_. Inl verification_unavailable)
      | Inr before \<Rightarrow>
          bindE (query before) (\<lambda>data.
            case resolve E m2 of
              Inl _ \<Rightarrow> Inl verification_unavailable
            | Inr after \<Rightarrow> if before \<noteq> after then Inl verification_unavailable else Inr (after, data)))"

definition execute ::
  "gateway_env \<Rightarrow> gateway_moment \<Rightarrow> gateway_moment \<Rightarrow> 'a result \<Rightarrow> (verification_metadata \<times> 'a) result" where
  "execute E m1 m2 query =
     executeBound E m1 m2 (\<lambda>_. query) (Some (bindE query (\<lambda>_. Inr ())))"

section \<open>What is read back\<close>

text \<open>Reading the JSON of a signed envelope gives the envelope back.\<close>

lemma TUPLE_KEYS_distinct: "distinct TUPLE_KEYS" "distinct ENVELOPE_KEYS"
  by (simp_all add: TUPLE_KEYS_def ENVELOPE_KEYS_def)

lemma exactRecord_exact: "map fst entries = keys \<Longrightarrow> exactRecord (Some (JObject entries)) keys label = Inr entries"
  by (simp add: exactRecord_def)

lemma parse_envelope_json:
  assumes "assertAgreementTuple (env_tuple env) = Inr ()"
  shows "parseAgreementEnvelope (envelope_json env) = Inr env"
proof -
  let ?t = "env_tuple env"
  obtain tuple_entries where te: "tuple_json ?t = JObject tuple_entries"
    "map fst tuple_entries = TUPLE_KEYS"
    by (simp add: tuple_json_def TUPLE_KEYS_def)
  have texts: "mapE (textField tuple_entries) TUPLE_KEYS =
      Inr [at_schema ?t, at_protocol_id ?t, at_height ?t, at_block_hash ?t, at_event_root ?t,
        at_object_state_root ?t, at_chained_root ?t, at_founding_created ?t, at_all_objects ?t,
        at_active_objects ?t, at_parser_commit ?t, at_indexer_commit ?t, at_parser_binary_sha256 ?t,
        at_indexer_binary_sha256 ?t]" (is "_ = Inr ?texts")
    using te(1) by (simp add: tuple_json_def textField_def TUPLE_KEYS_def) auto
  have tuple: "tuple_of_fields (zip TUPLE_KEYS ?texts) = ?t"
    by (simp add: tuple_of_fields_def TUPLE_KEYS_def)
  show ?thesis
    using assms texts tuple te
    by (simp add: parseAgreementEnvelope_def envelope_json_def exactRecord_exact ENVELOPE_KEYS_def
        textField_def)
qed

lemma parseAgreementEnvelope_Inr:
  assumes "parseAgreementEnvelope v = Inr env"
  shows "assertAgreementTuple (env_tuple env) = Inr ()"
  using assms by (auto simp: parseAgreementEnvelope_def Let_def)

section \<open>Verified answers\<close>

text \<open>\<open>trusted A keys key_id\<close>: what a trusted and verified envelope of a pipeline is.\<close>

definition signed_by :: "agreement_lib \<Rightarrow> (string, string) js_map \<Rightarrow> signed_envelope \<Rightarrow> bool" where
  "signed_by A trusted env =
     (\<exists>publicKey message. js_get trusted (env_key_id env) = Some publicKey \<and>
        canonicalAgreementBytes A (env_tuple env) = Inr message \<and>
        al_verify A (from_hex (env_signature env)) message (from_hex publicKey) = Inr True)"

lemma verifyTrustedEnvelope_Inr:
  assumes "verifyTrustedEnvelope A v trusted pipeline = Inr env"
  shows "signed_by A trusted env" "parseAgreementEnvelope v = Inr env" "assertAgreementTuple (env_tuple env) = Inr ()"
proof -
  have h: "parseAgreementEnvelope v = Inr env" "truthy (js_get trusted (env_key_id env))"
    "verifyAgreementEnvelope A env (the (js_get trusted (env_key_id env)))"
    using assms by (auto simp: verifyTrustedEnvelope_def)
  show "parseAgreementEnvelope v = Inr env" by (rule h(1))
  show "assertAgreementTuple (env_tuple env) = Inr ()" using parseAgreementEnvelope_Inr [OF h(1)] .
  obtain key where "js_get trusted (env_key_id env) = Some key"
    using h(2) by (cases "js_get trusted (env_key_id env)") (auto simp: truthy_def)
  then show "signed_by A trusted env"
    using verifyAgreementEnvelope_signed [OF h(3)] by (auto simp: signed_by_def)
qed

text \<open>The nine fields both pipelines must agree on.\<close>

definition semantic_equal :: "agreement_tuple \<Rightarrow> agreement_tuple \<Rightarrow> bool" where
  "semantic_equal a b =
     (at_protocol_id a = at_protocol_id b \<and> at_height a = at_height b \<and>
      at_block_hash a = at_block_hash b \<and> at_event_root a = at_event_root b \<and>
      at_object_state_root a = at_object_state_root b \<and> at_chained_root a = at_chained_root b \<and>
      at_founding_created a = at_founding_created b \<and> at_all_objects a = at_all_objects b \<and>
      at_active_objects a = at_active_objects b)"

lemma compare_fields_Inr:
  "(\<exists>us. mapE (compare_field a b) SEMANTIC_FIELDS = Inr us) \<longleftrightarrow> semantic_equal a b"
  by (auto simp: SEMANTIC_FIELDS_def compare_field_def semantic_equal_def)

lemma establishVerifiedAgreement_Inr:
  assumes "establishVerifiedAgreement A va vb ta tb spec = Inr md"
  shows "\<exists>a b network. parseAgreementEnvelope va = Inr a \<and> parseAgreementEnvelope vb = Inr b \<and>
    signed_by A ta a \<and> signed_by A tb b \<and> semantic_equal (env_tuple a) (env_tuple b) \<and>
    protocol_network (at_protocol_id (env_tuple a)) = Some network \<and> md = agreed_metadata network spec a b"
proof -
  obtain a b network us where h: "verifyTrustedEnvelope A va ta ''pipeline A'' = Inr a"
    "verifyTrustedEnvelope A vb tb ''pipeline B'' = Inr b"
    "mapE (compare_field (env_tuple a) (env_tuple b)) SEMANTIC_FIELDS = Inr us"
    "protocol_network (at_protocol_id (env_tuple a)) = Some network" "md = agreed_metadata network spec a b"
    using assms unfolding establishVerifiedAgreement_def by (auto simp del: mapE.simps)
  then have "semantic_equal (env_tuple a) (env_tuple b)" using compare_fields_Inr by blast
  with h verifyTrustedEnvelope_Inr [OF h(1)] verifyTrustedEnvelope_Inr [OF h(2)] show ?thesis by blast
qed

text \<open>
  What a metadata that \<open>resolve\<close> returns stands for.  At that moment the service was ready, its
  database held a checkpoint at the height of its tip, and there are two envelopes, each signed by a
  trusted key of its pipeline: one over the tuple of that checkpoint, one that the other pipeline
  answered for that height, equal in all nine fields.
\<close>

definition verified_at :: "gateway_env \<Rightarrow> gateway_moment \<Rightarrow> verification_metadata \<Rightarrow> bool" where
  "verified_at E m md =
     (\<exists>height db row release protocolId a b network answer.
        rs_ready (probe (ge_lib E) (ge_config E) (gm_state m) (gm_database m) (gm_node m)) \<and>
        rd_canonicalHeight (rs_input (probe (ge_lib E) (ge_config E) (gm_state m) (gm_database m) (gm_node m)))
          = Some height \<and>
        gm_database m 3 = Inr db \<and> js_get (db_checkpoints db) height = Some row \<and>
        dc_protocolId (cfg_deployment (ge_config E)) = Some protocolId \<and>
        env_tuple a = checkpoint_tuple protocolId release height row \<and>
        fetchPipelineB E (gm_pipelineB m
          (agreement_url (the (vf_pipelineBBaseUrl (cfg_verification (ge_config E)))) height)) = Inr answer \<and>
        parseAgreementEnvelope answer = Inr b \<and>
        signed_by (ge_lib E) (vf_pipelineATrustedKeys (cfg_verification (ge_config E))) a \<and>
        signed_by (ge_lib E) (vf_pipelineBTrustedKeys (cfg_verification (ge_config E))) b \<and>
        semantic_equal (env_tuple a) (env_tuple b) \<and>
        md = agreed_metadata network (dc_specHash (cfg_deployment (ge_config E))) a b \<and>
        int (vm_height md) = height \<and>
        (dc_network (cfg_deployment (ge_config E)) = ''mainnet'' \<longrightarrow>
           vf_mainnetEnabled (cfg_verification (ge_config E))))"

lemma signedAt_Inr:
  assumes "signedAt A cfg db h = Inr env"
  shows "\<exists>row release protocolId. js_get (db_checkpoints db) h = Some row \<and>
    dc_protocolId (cfg_deployment cfg) = Some protocolId \<and>
    env_tuple env = checkpoint_tuple protocolId release h row \<and> assertAgreementTuple (env_tuple env) = Inr ()"
proof -
  obtain row release where h: "js_get (db_checkpoints db) h = Some row" "truthy (dc_protocolId (cfg_deployment cfg))"
    "signer_sign A (cfg_agreement cfg)
         (checkpoint_tuple (the (dc_protocolId (cfg_deployment cfg))) release h row) = Inr env"
    using assms by (auto simp: signedAt_def)
  from h(3) obtain m where "canonicalAgreementBytes A (env_tuple env) = Inr m"
    "env_tuple env = checkpoint_tuple (the (dc_protocolId (cfg_deployment cfg))) release h row"
    using signAgreementTuple_Inr(5,6) unfolding signer_sign_def by (metis sum.distinct(1))
  with h(1,2) canonicalAgreementBytes_Inr show ?thesis by (auto simp: truthy_def split: option.splits)
qed

lemma resolve_verified:
  assumes "resolve E m = Inr md"
  shows "verified_at E m md"
proof -
  let ?snapshot = "probe (ge_lib E) (ge_config E) (gm_state m) (gm_database m) (gm_node m)"
  let ?v = "cfg_verification (ge_config E)" and ?d = "cfg_deployment (ge_config E)"
  obtain height db envA answer where h:
    "rs_ready ?snapshot" "rd_canonicalHeight (rs_input ?snapshot) = Some height"
    "dc_network ?d = ''mainnet'' \<longrightarrow> vf_mainnetEnabled ?v" "gm_database m 3 = Inr db"
    "signedAt (ge_lib E) (ge_config E) db height = Inr envA"
    "fetchPipelineB E (gm_pipelineB m (agreement_url (the (vf_pipelineBBaseUrl ?v)) height)) = Inr answer"
    "establishVerifiedAgreement (ge_lib E) (envelope_json envA) answer
           (vf_pipelineATrustedKeys ?v) (vf_pipelineBTrustedKeys ?v) (dc_specHash ?d) = Inr md"
    "int (vm_height md) = height"
    using assms by (auto simp: resolve_def Let_def split: if_splits)
  from signedAt_Inr [OF h(5)] obtain row release protocolId where r:
    "js_get (db_checkpoints db) height = Some row" "dc_protocolId ?d = Some protocolId"
    "env_tuple envA = checkpoint_tuple protocolId release height row" "assertAgreementTuple (env_tuple envA) = Inr ()"
    by blast
  from establishVerifiedAgreement_Inr [OF h(7)] parse_envelope_json [OF r(4)] obtain b network where
    "parseAgreementEnvelope answer = Inr b" "signed_by (ge_lib E) (vf_pipelineATrustedKeys ?v) envA"
    "signed_by (ge_lib E) (vf_pipelineBTrustedKeys ?v) b" "semantic_equal (env_tuple envA) (env_tuple b)"
    "md = agreed_metadata network (dc_specHash ?d) envA b" by auto
  with h r show ?thesis unfolding verified_at_def by blast
qed

text \<open>
  C29: only verified data leave the gateway.  When an answer is returned, its metadata is the one the
  data were read under, and it was verified both before and after the reading; when none is returned,
  the reader sees the one error for an unavailable verification, or the error of the read itself.
\<close>

theorem executeBound_verified:
  "case executeBound E m1 m2 query legacy of
     Inr (md, data) \<Rightarrow> verified_at E m1 md \<and> verified_at E m2 md \<and> query md = Inr data
   | Inl e \<Rightarrow> e = verification_unavailable \<or> legacy = Some (Inl e) \<or> (\<exists>md. query md = Inl e)"
proof (cases "resolve E m1")
  case (Inl e)
  then show ?thesis by (cases legacy) (auto simp: executeBound_def bindE_def split: sum.splits)
next
  case (Inr before)
  show ?thesis
  proof (cases "query before")
    case (Inl e)
    then show ?thesis using Inr by (auto simp: executeBound_def)
  next
    case (Inr data)
    then show ?thesis
      using \<open>resolve E m1 = Inr before\<close> resolve_verified [of E m1] resolve_verified [of E m2]
      by (auto simp: executeBound_def split: sum.splits if_splits)
  qed
qed

lemma signed_accepted:
  assumes "ed25519_contract A" and "signAgreementTuple A tuple keyId privateKeyHex = Inr env"
    and "al_getPublicKey A (from_hex privateKeyHex) = Inr publicKey"
    and "js_get trusted keyId = Some (to_hex publicKey)"
  shows "verifyTrustedEnvelope A (envelope_json env) trusted pipeline = Inr env"
proof -
  note f = signAgreementTuple_Inr [OF assms(2)]
  have ok: "verifyAgreementEnvelope A env (to_hex publicKey)" by (rule verify_signed [OF assms(1-3)])
  then have "assertAgreementTuple (env_tuple env) = Inr ()" using verifyAgreementEnvelope_signed by blast
  moreover have "length (to_hex publicKey) = 64" using verifyAgreementEnvelope_signed [OF ok]
    by (simp only: HASH_HEX_def is_hex_text_def)
  then have "to_hex publicKey \<noteq> []" by force
  ultimately show ?thesis
    using ok f assms(4) by (simp add: verifyTrustedEnvelope_def parse_envelope_json truthy_def)
qed

text \<open>
  C30: a signature made here is accepted there.  What \<open>signAgreementTuple\<close> returns, sent as JSON, is
  read back as the same envelope and accepted by everyone who trusts the key it was signed with.
\<close>

theorem signed_envelope_accepted:
  assumes "ed25519_contract A" and "signAgreementTuple A tuple keyId privateKeyHex = Inr env"
    and "al_getPublicKey A (from_hex privateKeyHex) = Inr publicKey"
    and "js_get trusted keyId = Some (to_hex publicKey)"
  shows "verifyTrustedEnvelope A (envelope_json env) trusted pipeline = Inr env"
  by (rule signed_accepted [OF assms])

end
