(* ===== verification/Site_Agreement.thy ===== *)
theory Site_Agreement
  imports Verified_Gateway
begin

text \<open>
  \<open>site/src/lib/agreement.ts\<close>: the port of the gateway's checks that the inspector of the site runs on
  a pasted envelope, and how far it reaches the verdict of the gateway.
\<close>

section \<open>The tables\<close>

definition site_SEMANTIC_FIELDS :: "string list" where
  "site_SEMANTIC_FIELDS =
     [''protocol_id'', ''height'', ''block_hash'', ''event_root'', ''object_state_root'', ''chained_root'',
      ''founding_created'', ''all_objects'', ''active_objects'']"

record field_rule =
  fr_field :: string
  fr_rule :: "string \<Rightarrow> bool"
  fr_human :: string
  fr_compared :: bool

definition field_rule_of :: "string \<Rightarrow> (string \<Rightarrow> bool) \<Rightarrow> string \<Rightarrow> bool \<Rightarrow> field_rule" where
  "field_rule_of field rule human compared =
     \<lparr>fr_field = field, fr_rule = rule, fr_human = human, fr_compared = compared\<rparr>"

definition TUPLE_RULES :: "field_rule list" where
  "TUPLE_RULES =
     [field_rule_of ''protocol_id'' PROTOCOL_ID
        ''tndm, then the network label, then the configured INIT txid'' True,
      field_rule_of ''height'' is_counter ''a decimal string, no leading zero'' True,
      field_rule_of ''block_hash'' HASH_HEX ''64 lowercase hex characters'' True,
      field_rule_of ''event_root'' HASH_HEX ''64 lowercase hex characters'' True,
      field_rule_of ''object_state_root'' HASH_HEX ''64 lowercase hex characters'' True,
      field_rule_of ''chained_root'' HASH_HEX ''64 lowercase hex characters'' True,
      field_rule_of ''founding_created'' is_counter ''a decimal string'' True,
      field_rule_of ''all_objects'' is_counter ''a decimal string'' True,
      field_rule_of ''active_objects'' is_counter ''a decimal string'' True,
      field_rule_of ''parser_commit'' COMMIT_HEX ''40 lowercase hex characters'' False,
      field_rule_of ''indexer_commit'' COMMIT_HEX ''40 lowercase hex characters'' False,
      field_rule_of ''parser_binary_sha256'' HASH_HEX ''64 lowercase hex characters'' False,
      field_rule_of ''indexer_binary_sha256'' HASH_HEX ''64 lowercase hex characters'' False]"

datatype inspection_stage = StageParse | StageEnvelopeShape | StageTupleShape | StageTupleFields | StageSignature

record finding =
  fi_stage :: inspection_stage
  fi_ok :: bool
  fi_message :: string

record field_status =
  fs_field :: string
  fs_value :: string
  fs_ok :: bool
  fs_compared :: bool
  fs_human :: string

record inspection_result =
  ir_findings :: "finding list"
  ir_firstFailure :: "finding option"
  ir_fieldStatus :: "field_status list"

section \<open>The checks\<close>

definition exactKeys :: "json option \<Rightarrow> string list \<Rightarrow> string option" where
  "exactKeys value keys =
     (case value of
        Some (JObject entries) \<Rightarrow>
          let actual = sort (map fst entries); expected = sort keys
          in if actual \<noteq> expected
             then let missing = filter (\<lambda>key. key \<notin> set actual) expected;
                      extra = filter (\<lambda>key. key \<notin> set expected) actual;
                      parts = (if missing \<noteq> [] then [''missing '' @ join_with '', '' missing] else []) @
                              (if extra \<noteq> [] then [''unexpected '' @ join_with '', '' extra] else [])
                  in Some (''has an invalid shape: '' @ join_with '' and '' parts)
             else None
      | _ \<Rightarrow> Some ''must be an object'')"

text \<open>\<open>String(value)\<close>.\<close>

fun js_text :: "json \<Rightarrow> string" where
  "js_text JNull = ''null''"
| "js_text (JBool b) = (if b then ''true'' else ''false'')"
| "js_text (JNumber text) = text"
| "js_text (JString text) = text"
| "js_text (JArray items) = join_with '','' (map (\<lambda>item. if item = JNull then [] else js_text item) items)"
| "js_text (JObject entries) = ''[object Object]''"

definition js_text_of :: "json option \<Rightarrow> string" where
  "js_text_of value = (case value of None \<Rightarrow> ''undefined'' | Some v \<Rightarrow> js_text v)"

definition is_json_string :: "json option \<Rightarrow> bool" where
  "is_json_string value = (case value of Some (JString _) \<Rightarrow> True | _ \<Rightarrow> False)"

definition rule_status :: "(string \<times> json) list \<Rightarrow> field_rule \<Rightarrow> field_status" where
  "rule_status tuple rule =
     (let value = js_text_of (map_of tuple (fr_field rule))
      in \<lparr>fs_field = fr_field rule, fs_value = value, fs_ok = fr_rule rule value,
          fs_compared = fr_compared rule, fs_human = fr_human rule\<rparr>)"

definition failing :: "inspection_stage \<Rightarrow> string \<Rightarrow> finding" where
  "failing stage message = \<lparr>fi_stage = stage, fi_ok = False, fi_message = message\<rparr>"

definition passing :: "inspection_stage \<Rightarrow> string \<Rightarrow> finding" where
  "passing stage message = \<lparr>fi_stage = stage, fi_ok = True, fi_message = message\<rparr>"

definition stopped :: "finding list \<Rightarrow> finding \<Rightarrow> field_status list \<Rightarrow> inspection_result" where
  "stopped findings failure statuses =
     \<lparr>ir_findings = findings @ [failure], ir_firstFailure = Some failure, ir_fieldStatus = statuses\<rparr>"

text \<open>\<open>firstFieldFailure\<close> after the loop over the rules and the check of the height.\<close>

definition field_failure :: "(string \<times> json) list \<Rightarrow> finding option" where
  "field_failure tuple =
     (case find (\<lambda>rule. \<not> fs_ok (rule_status tuple rule)) TUPLE_RULES of
        Some rule \<Rightarrow> Some (failing StageTupleFields
          (''invalid agreement '' @ fr_field rule @ ''. Expected '' @ fr_human rule @ ''.''))
      | None \<Rightarrow>
          if is_safe (number_of_text (js_text_of (map_of tuple ''height''))) then None
          else Some (failing StageTupleFields
            ''agreement height is unsafe. It has to be a non-negative safe integer.''))"

text \<open>What follows once every field of the tuple has passed.\<close>

definition inspect_signature ::
  "(string \<times> json) list \<Rightarrow> finding list \<Rightarrow> field_status list \<Rightarrow> inspection_result" where
  "inspect_signature envelope findings statuses =
     (if map_of envelope ''schema'' \<noteq> Some (JString ENVELOPE_SCHEMA)
      then stopped findings (failing StageSignature
        (''envelope schema is not supported. Expected '' @ ENVELOPE_SCHEMA @ ''.'')) statuses
      else if \<not> KEY_ID (js_text_of (map_of envelope ''key_id''))
      then stopped findings (failing StageSignature
        ''key_id uses characters outside the permitted set.'') statuses
      else if \<not> SIGNATURE_HEX (js_text_of (map_of envelope ''signature''))
      then stopped findings (failing StageSignature
        ''signature must be exactly 128 lowercase hex characters.'') statuses
      else \<lparr>ir_findings = findings @ [passing StageSignature
              (''Well formed. Whether it verifies depends on the trusted public key for this key id, '' @
               ''which only the operator's configuration holds.'')],
            ir_firstFailure = None, ir_fieldStatus = statuses\<rparr>)"

definition inspect_fields ::
  "(string \<times> json) list \<Rightarrow> (string \<times> json) list \<Rightarrow> finding list \<Rightarrow> inspection_result" where
  "inspect_fields envelope tuple findings =
     (case find (\<lambda>key. \<not> is_json_string (map_of tuple key)) TUPLE_KEYS of
        Some key \<Rightarrow> stopped findings (failing StageTupleFields
          (key @ '' must be a string. A JSON number is rejected even when the digits are right.'')) []
      | None \<Rightarrow>
          if map_of tuple ''schema'' \<noteq> Some (JString TUPLE_SCHEMA)
          then stopped findings (failing StageTupleFields
            (''invalid agreement tuple schema. Expected '' @ TUPLE_SCHEMA @ ''.'')) []
          else let statuses = map (rule_status tuple) TUPLE_RULES
               in (case field_failure tuple of
                     Some failure \<Rightarrow> stopped findings failure statuses
                   | None \<Rightarrow> inspect_signature envelope
                       (findings @ [passing StageTupleFields ''Every tuple field matches its required pattern.''])
                       statuses))"

text \<open>\<open>syntax_error\<close> gives the message of the error that \<open>JSON.parse\<close> throws.\<close>

definition inspectEnvelope :: "platform \<Rightarrow> (string \<Rightarrow> string) \<Rightarrow> string \<Rightarrow> inspection_result" where
  "inspectEnvelope pf syntax_error raw =
     (case pf_json_parse pf raw of
        None \<Rightarrow> stopped [] (failing StageParse (''Not valid JSON: '' @ syntax_error raw)) []
      | Some parsed \<Rightarrow>
          let findings = [passing StageParse ''Parsed as JSON.'']
          in (case exactKeys (Some parsed) ENVELOPE_KEYS of
                Some problem \<Rightarrow>
                  stopped findings (failing StageEnvelopeShape (''agreement envelope '' @ problem)) []
              | None \<Rightarrow>
                  let envelope = (case parsed of JObject entries \<Rightarrow> entries | _ \<Rightarrow> []);
                      findings = findings @ [passing StageEnvelopeShape
                        ''Exactly the four expected envelope keys, no more and no fewer.'']
                  in (case exactKeys (map_of envelope ''tuple'') TUPLE_KEYS of
                        Some problem \<Rightarrow>
                          stopped findings (failing StageTupleShape (''agreement tuple '' @ problem)) []
                      | None \<Rightarrow>
                          inspect_fields envelope
                            (case map_of envelope ''tuple'' of Some (JObject entries) \<Rightarrow> entries | _ \<Rightarrow> [])
                            (findings @ [passing StageTupleShape ''Exactly the fourteen expected tuple keys.'']))))"

record field_comparison =
  fc_field :: string
  fc_a :: string
  fc_b :: string
  fc_match :: bool

definition compareTuples :: "(string, string) js_map \<Rightarrow> (string, string) js_map \<Rightarrow> field_comparison list" where
  "compareTuples a b =
     map (\<lambda>field. \<lparr>fc_field = field, fc_a = nullish (js_get a field) [], fc_b = nullish (js_get b field) [],
                   fc_match = (js_get a field = js_get b field)\<rparr>) site_SEMANTIC_FIELDS"

section \<open>The verdict of the gateway\<close>

text \<open>What the gateway asks of an envelope before it looks for the key.\<close>

definition well_formed_envelope :: "json \<Rightarrow> bool" where
  "well_formed_envelope v =
     (\<exists>env. parseAgreementEnvelope v = Inr env \<and> env_schema env = ENVELOPE_SCHEMA \<and>
        KEY_ID (env_key_id env) \<and> SIGNATURE_HEX (env_signature env))"

definition text_member :: "json \<Rightarrow> string \<Rightarrow> bool" where
  "text_member v key =
     (case v of JObject entries \<Rightarrow> map_of entries key = None \<or> is_json_string (map_of entries key) | _ \<Rightarrow> True)"

lemma exactKeys_None:
  "exactKeys v keys = None \<longleftrightarrow> (\<exists>entries. v = Some (JObject entries) \<and> sort (map fst entries) = sort keys)"
  by (auto simp: exactKeys_def Let_def split: option.splits json.splits)

lemma exactRecord_Inr:
  "exactRecord v keys label = Inr entries \<longleftrightarrow> v = Some (JObject entries) \<and> sort (map fst entries) = sort keys"
  by (auto simp: exactRecord_def split: option.splits json.splits)

lemma exact_has_keys:
  assumes "sort (map fst entries) = sort keys" and "key \<in> set keys"
  shows "map_of entries key \<noteq> None"
proof -
  have "set (sort (map fst entries)) = set (sort keys)" using assms(1) by simp
  then have "key \<in> fst ` set entries" using assms(2) by simp
  then show ?thesis by (simp add: map_of_eq_None_iff)
qed

lemma js_text_of_Some [simp]: "js_text_of (Some v) = js_text v"
  by (simp add: js_text_of_def)

lemma textField_text:
  "textField entries key = Inr text \<longleftrightarrow> is_json_string (map_of entries key) \<and> text = js_text_of (map_of entries key)"
  by (auto simp: textField_def is_json_string_def js_text_of_def split: option.splits json.splits)

lemma is_json_string_Some: "is_json_string x \<Longrightarrow> x = Some (JString text) \<longleftrightarrow> js_text_of x = text"
  by (auto simp: is_json_string_def js_text_of_def split: option.splits json.splits)

abbreviation texts_of :: "(string \<times> json) list \<Rightarrow> string list \<Rightarrow> string list" where
  "texts_of entries keys \<equiv> map (\<lambda>key. js_text_of (map_of entries key)) keys"

lemma tuple_texts:
  "mapE (textField entries) keys = Inr texts \<longleftrightarrow>
     (\<forall>key \<in> set keys. is_json_string (map_of entries key)) \<and> texts = texts_of entries keys"
  by (induction keys arbitrary: texts) (auto simp: textField_text)

lemma tuple_keys:
  "''schema'' \<in> set TUPLE_KEYS" "''protocol_id'' \<in> set TUPLE_KEYS" "''height'' \<in> set TUPLE_KEYS"
  "''block_hash'' \<in> set TUPLE_KEYS" "''event_root'' \<in> set TUPLE_KEYS"
  "''object_state_root'' \<in> set TUPLE_KEYS" "''chained_root'' \<in> set TUPLE_KEYS"
  "''founding_created'' \<in> set TUPLE_KEYS" "''all_objects'' \<in> set TUPLE_KEYS"
  "''active_objects'' \<in> set TUPLE_KEYS" "''parser_commit'' \<in> set TUPLE_KEYS"
  "''indexer_commit'' \<in> set TUPLE_KEYS" "''parser_binary_sha256'' \<in> set TUPLE_KEYS"
  "''indexer_binary_sha256'' \<in> set TUPLE_KEYS"
  by (simp_all add: TUPLE_KEYS_def)

lemma tuple_of_texts:
  "tuple_of_fields (zip TUPLE_KEYS (texts_of entries TUPLE_KEYS)) =
    (let text = (\<lambda>key. js_text_of (map_of entries key))
     in \<lparr>at_schema = text ''schema'', at_protocol_id = text ''protocol_id'', at_height = text ''height'',
        at_block_hash = text ''block_hash'', at_event_root = text ''event_root'',
        at_object_state_root = text ''object_state_root'', at_chained_root = text ''chained_root'',
        at_founding_created = text ''founding_created'', at_all_objects = text ''all_objects'',
        at_active_objects = text ''active_objects'', at_parser_commit = text ''parser_commit'',
        at_indexer_commit = text ''indexer_commit'', at_parser_binary_sha256 = text ''parser_binary_sha256'',
        at_indexer_binary_sha256 = text ''indexer_binary_sha256''\<rparr>)"
proof -
  have "map_of (zip TUPLE_KEYS (texts_of entries TUPLE_KEYS)) key =
      (if key \<in> set TUPLE_KEYS then Some (js_text_of (map_of entries key)) else None)" for key
    by (simp only: map_of_zip_map)
  then show ?thesis
    unfolding tuple_of_fields_def Let_def by (simp only: tuple_keys if_True option.sel)
qed

lemma field_failure_None:
  "field_failure entries = None \<and> is_json_string (map_of entries ''schema'') \<and>
     map_of entries ''schema'' = Some (JString TUPLE_SCHEMA) \<longleftrightarrow>
   is_json_string (map_of entries ''schema'') \<and>
     assertAgreementTuple (tuple_of_fields (zip TUPLE_KEYS (texts_of entries TUPLE_KEYS))) = Inr ()"
  unfolding assertAgreementTuple_iff tuple_of_texts Let_def field_failure_def
  by (auto simp: find_None_iff TUPLE_RULES_def field_rule_of_def rule_status_def Let_def is_json_string_Some
      split: option.splits)

lemma inspect_signature_None:
  "ir_firstFailure (inspect_signature envelope findings statuses) = None \<longleftrightarrow>
     map_of envelope ''schema'' = Some (JString ENVELOPE_SCHEMA) \<and>
     KEY_ID (js_text_of (map_of envelope ''key_id'')) \<and> SIGNATURE_HEX (js_text_of (map_of envelope ''signature''))"
  by (simp add: inspect_signature_def stopped_def)

lemma inspect_fields_None:
  "ir_firstFailure (inspect_fields envelope tuple findings) = None \<longleftrightarrow>
     (\<exists>texts. mapE (textField tuple) TUPLE_KEYS = Inr texts \<and>
        assertAgreementTuple (tuple_of_fields (zip TUPLE_KEYS texts)) = Inr ()) \<and>
     map_of envelope ''schema'' = Some (JString ENVELOPE_SCHEMA) \<and>
     KEY_ID (js_text_of (map_of envelope ''key_id'')) \<and> SIGNATURE_HEX (js_text_of (map_of envelope ''signature''))"
proof (cases "find (\<lambda>key. \<not> is_json_string (map_of tuple key)) TUPLE_KEYS")
  case (Some key)
  then have "\<not> (\<forall>key \<in> set TUPLE_KEYS. is_json_string (map_of tuple key))" by (auto dest: find_SomeD)
  then show ?thesis using Some by (simp add: inspect_fields_def stopped_def tuple_texts)
next
  case None
  then have strings: "\<forall>key \<in> set TUPLE_KEYS. is_json_string (map_of tuple key)" by (simp add: find_None_iff)
  then have "is_json_string (map_of tuple ''schema'')" using tuple_keys(1) by blast
  with field_failure_None [of tuple] have "field_failure tuple = None \<and> map_of tuple ''schema'' = Some (JString TUPLE_SCHEMA) \<longleftrightarrow>
     assertAgreementTuple (tuple_of_fields (zip TUPLE_KEYS (texts_of tuple TUPLE_KEYS))) = Inr ()" by blast
  moreover have "(\<exists>texts. mapE (textField tuple) TUPLE_KEYS = Inr texts \<and>
        assertAgreementTuple (tuple_of_fields (zip TUPLE_KEYS texts)) = Inr ()) \<longleftrightarrow>
      assertAgreementTuple (tuple_of_fields (zip TUPLE_KEYS (texts_of tuple TUPLE_KEYS))) = Inr ()"
    using strings by (simp add: tuple_texts)
  moreover have "ir_firstFailure (inspect_fields envelope tuple findings) = None \<longleftrightarrow>
      map_of tuple ''schema'' = Some (JString TUPLE_SCHEMA) \<and> field_failure tuple = None \<and>
      map_of envelope ''schema'' = Some (JString ENVELOPE_SCHEMA) \<and>
      KEY_ID (js_text_of (map_of envelope ''key_id'')) \<and> SIGNATURE_HEX (js_text_of (map_of envelope ''signature''))"
    unfolding inspect_fields_def None option.case Let_def
    by (auto simp: inspect_signature_None split: option.splits) (simp_all add: stopped_def)
  ultimately show ?thesis by blast
qed

text \<open>
  C31: the inspector of the site reaches the verdict of the gateway on every envelope whose key id and
  signature are texts: it reports no failure exactly when the gateway finds the envelope well formed.
  Without that proviso it only holds that what the gateway finds well formed passes the inspector,
  which reads the two fields with \<open>String\<close>, where the gateway refuses anything but a text.
\<close>

theorem inspectEnvelope_agrees:
  assumes parsed: "pf_json_parse pf raw = Some v"
  shows "(text_member v ''key_id'' \<and> text_member v ''signature'' \<longrightarrow>
      (ir_firstFailure (inspectEnvelope pf msg raw) = None \<longleftrightarrow> well_formed_envelope v)) \<and>
    (well_formed_envelope v \<longrightarrow> ir_firstFailure (inspectEnvelope pf msg raw) = None)"
proof (cases "\<exists>envelope tuple. v = JObject envelope \<and> sort (map fst envelope) = sort ENVELOPE_KEYS \<and>
    map_of envelope ''tuple'' = Some (JObject tuple) \<and> sort (map fst tuple) = sort TUPLE_KEYS")
  case False
  then have "\<not> well_formed_envelope v"
    by (auto simp: well_formed_envelope_def parseAgreementEnvelope_def exactRecord_Inr)
  moreover have "ir_firstFailure (inspectEnvelope pf msg raw) \<noteq> None"
  proof (cases "exactKeys (Some v) ENVELOPE_KEYS")
    case None
    then obtain envelope where v: "v = JObject envelope" "sort (map fst envelope) = sort ENVELOPE_KEYS"
      by (auto simp: exactKeys_None)
    then have "exactKeys (map_of envelope ''tuple'') TUPLE_KEYS \<noteq> None" using False exactKeys_None by blast
    then show ?thesis using None by (auto simp: inspectEnvelope_def parsed v stopped_def)
  qed (simp add: inspectEnvelope_def parsed stopped_def)
  ultimately show ?thesis by blast
next
  case True
  then obtain envelope tuple where v: "v = JObject envelope" "sort (map fst envelope) = sort ENVELOPE_KEYS"
    "map_of envelope ''tuple'' = Some (JObject tuple)" "sort (map fst tuple) = sort TUPLE_KEYS" by blast
  have keys: "exactKeys (Some v) ENVELOPE_KEYS = None" "exactKeys (map_of envelope ''tuple'') TUPLE_KEYS = None"
    using v by (simp_all add: exactKeys_None)
  have site: "ir_firstFailure (inspectEnvelope pf msg raw) = None \<longleftrightarrow>
     (\<exists>texts. mapE (textField tuple) TUPLE_KEYS = Inr texts \<and>
        assertAgreementTuple (tuple_of_fields (zip TUPLE_KEYS texts)) = Inr ()) \<and>
     map_of envelope ''schema'' = Some (JString ENVELOPE_SCHEMA) \<and>
     KEY_ID (js_text_of (map_of envelope ''key_id'')) \<and> SIGNATURE_HEX (js_text_of (map_of envelope ''signature''))"
    using parsed v(1,3) keys by (simp add: inspectEnvelope_def inspect_fields_None)
  have gateway: "well_formed_envelope v \<longleftrightarrow>
     (\<exists>texts. mapE (textField tuple) TUPLE_KEYS = Inr texts \<and>
        assertAgreementTuple (tuple_of_fields (zip TUPLE_KEYS texts)) = Inr ()) \<and>
     textField envelope ''schema'' = Inr ENVELOPE_SCHEMA \<and>
     (\<exists>key_id. textField envelope ''key_id'' = Inr key_id \<and> KEY_ID key_id) \<and>
     (\<exists>signature. textField envelope ''signature'' = Inr signature \<and> SIGNATURE_HEX signature)"
    unfolding well_formed_envelope_def parseAgreementEnvelope_def Let_def
    using v by (auto simp: exactRecord_Inr simp del: mapE.simps)
  have "map_of envelope ''key_id'' \<noteq> None" "map_of envelope ''signature'' \<noteq> None"
    using exact_has_keys [OF v(2)] by (simp_all add: ENVELOPE_KEYS_def)
  then show ?thesis
    unfolding site gateway
    by (auto simp: textField_text text_member_def v(1) is_json_string_Some is_json_string_def)
qed

end
