(* ===== verification/Catalog.thy ===== *)
theory Catalog
  imports Base64url Keyset Site_Agreement
begin

text \<open>
  \<open>src/api/tandem-catalog.service.ts\<close> and \<open>src/api/serialization.ts\<close>: the catalog of all objects, page by
  page, under a verified agreement.  HMAC and SHA-256, \<open>JSON.stringify\<close> and \<open>JSON.parse\<close>, and the clock are
  parameters.
\<close>

section \<open>Values of the API\<close>

datatype api_value =
    ApiNull
  | ApiBool bool
  | ApiNumber string
  | ApiText string
  | ApiBigint int
  | ApiDate string
  | ApiBuffer bytes
  | ApiArray "api_value list"
  | ApiObject "(string \<times> api_value) list"

text \<open>A date is written as its \<open>toISOString\<close>.\<close>

fun serializeApiValue :: "api_value \<Rightarrow> api_value" where
  "serializeApiValue (ApiBigint i) = ApiText (int_text i)"
| "serializeApiValue (ApiDate t) = ApiText t"
| "serializeApiValue (ApiBuffer bytes) = ApiText (to_hex bytes)"
| "serializeApiValue (ApiArray items) = ApiArray (map serializeApiValue items)"
| "serializeApiValue (ApiObject entries) = ApiObject (map (\<lambda>(key, item). (key, serializeApiValue item)) entries)"
| "serializeApiValue v = v"

fun plain_value :: "api_value \<Rightarrow> bool" where
  "plain_value (ApiBigint i) = False"
| "plain_value (ApiDate t) = False"
| "plain_value (ApiBuffer bytes) = False"
| "plain_value (ApiArray items) = list_all plain_value items"
| "plain_value (ApiObject entries) = list_all (\<lambda>(key, item). plain_value item) entries"
| "plain_value v = True"

text \<open>What is served is plain JSON, and plain JSON is served as it is.\<close>

lemma serializeApiValue_plain: "plain_value (serializeApiValue v)"
  by (induction v rule: serializeApiValue.induct) (auto simp: list_all_iff)

lemma serializeApiValue_id: "plain_value v \<Longrightarrow> serializeApiValue v = v"
  by (induction v rule: serializeApiValue.induct) (auto simp: list_all_iff intro!: map_idI)

lemma serializeApiValue_idem: "serializeApiValue (serializeApiValue v) = serializeApiValue v"
  by (rule serializeApiValue_id [OF serializeApiValue_plain])

section \<open>Cursors\<close>

record catalog_crypto =
  kc_hmac :: "string \<Rightarrow> string \<Rightarrow> bytes"     \<comment> \<open>\<open>createHmac("sha256", secret).update(text)\<close>\<close>
  kc_sha256 :: "string \<Rightarrow> bytes"
  kc_stringify :: "json \<Rightarrow> string"
  kc_utf8_bytes :: "string \<Rightarrow> bytes"         \<comment> \<open>\<open>Buffer.from(s)\<close>\<close>

record catalog_cursor =
  cx_snapshot :: json
  cx_height :: nat
  cx_key :: string
  cx_offset :: nat

definition catalog_unauthorized :: js_error where
  "catalog_unauthorized = HttpException 401 ''catalog authorization required''"

definition invalid_cursor :: js_error where
  "invalid_cursor = HttpException 400 ''invalid catalog cursor''"

text \<open>\<open>Number.isSafeInteger(v)\<close> of a member that is not negative; the text of a number has no leading zero.\<close>

definition safe_member :: "(string \<times> json) list \<Rightarrow> string \<Rightarrow> nat option" where
  "safe_member entries k =
     (case js_get entries k of
        Some (JNumber s) \<Rightarrow> if is_counter s \<and> is_safe (number_of_text s) then Some (number_of_text s) else None
      | _ \<Rightarrow> None)"

text \<open>
  The checks of the parsed payload.  \<open>HASH.test\<close> reads any value as text; the key goes into the query as
  that text.
\<close>

definition checked_payload :: "json \<Rightarrow> nat \<Rightarrow> catalog_cursor option" where
  "checked_payload parsed limit =
     (case parsed of
        JObject entries \<Rightarrow>
          (if join_with '','' (sort (map fst entries)) = ''height,key,limit,offset,snapshot,v'' \<and>
              js_get entries ''v'' = Some (JNumber ''1'') \<and>
              js_get entries ''limit'' = Some (JNumber (nat_text limit)) \<and>
              HASH_HEX (js_text_of (js_get entries ''snapshot'')) \<and> HASH_HEX (js_text_of (js_get entries ''key''))
           then (case (js_get entries ''snapshot'', safe_member entries ''height'', safe_member entries ''offset'') of
                   (Some shot, Some height, Some offset) \<Rightarrow>
                     if offset < 1 then None
                     else Some \<lparr>cx_snapshot = shot, cx_height = height,
                       cx_key = js_text_of (js_get entries ''key''), cx_offset = offset\<rparr>
                 | _ \<Rightarrow> None)
           else None)
      | _ \<Rightarrow> None)"

text \<open>\<open>/^[A-Za-z0-9_-]+\.[A-Za-z0-9_-]{43}$/\<close>: the two parts around the dot.\<close>

definition cursor_halves :: "string \<Rightarrow> (string \<times> string) option" where
  "cursor_halves raw =
     (case split_on CHR ''.'' raw of
        [payload, mac] \<Rightarrow>
          if payload \<noteq> [] \<and> list_all (\<lambda>c. sextet_of c \<noteq> None) payload \<and> length mac = 43 \<and>
             list_all (\<lambda>c. sextet_of c \<noteq> None) mac
          then Some (payload, mac) else None
      | _ \<Rightarrow> None)"

definition catalog_mac :: "catalog_crypto \<Rightarrow> string \<Rightarrow> string \<Rightarrow> string" where
  "catalog_mac K secret payload = base64url_bytes (kc_hmac K secret payload)"

definition parseCursor ::
  "catalog_crypto \<Rightarrow> gateway_env \<Rightarrow> request_value \<Rightarrow> string \<Rightarrow> nat \<Rightarrow> catalog_cursor option result" where
  "parseCursor K E rawCursor secret limit =
     (case rawCursor of
        Absent \<Rightarrow> Inr None
      | OtherValue \<Rightarrow> Inl invalid_cursor
      | TextValue raw \<Rightarrow>
          if length raw > 2048 then Inl invalid_cursor
          else (case cursor_halves raw of
                  None \<Rightarrow> Inl invalid_cursor
                | Some (payload, mac) \<Rightarrow>
                    if catalog_mac K secret payload \<noteq> mac then Inl invalid_cursor
                    else (case pf_json_parse (ge_platform E) (ge_utf8 E (from_base64url_bytes payload)) of
                            None \<Rightarrow> Inl invalid_cursor
                          | Some parsed \<Rightarrow>
                              (case checked_payload parsed limit of
                                 None \<Rightarrow> Inl invalid_cursor
                               | Some cursor \<Rightarrow>
                                   if base64url_bytes (from_base64url_bytes payload) \<noteq> payload then Inl invalid_cursor
                                   else Inr (Some cursor)))))"

section \<open>The snapshot\<close>

text \<open>The order of the catalog: the newest first, and by key among the objects of a height.\<close>

datatype catalog_key = CatalogKey (ck_height: int) (ck_key: string)

instantiation catalog_key :: linorder
begin

definition less_catalog_key :: "catalog_key \<Rightarrow> catalog_key \<Rightarrow> bool" where
  "less_catalog_key x y = (ck_height y < ck_height x \<or> ck_height y = ck_height x \<and> ck_key x < ck_key y)"

definition less_eq_catalog_key :: "catalog_key \<Rightarrow> catalog_key \<Rightarrow> bool" where
  "less_eq_catalog_key x y = (x = y \<or> x < y)"

instance
proof
  fix x y z :: catalog_key
  show "x < y \<longleftrightarrow> x \<le> y \<and> \<not> y \<le> x"
    by (auto simp: less_catalog_key_def less_eq_catalog_key_def)
  show "x \<le> x" by (simp add: less_eq_catalog_key_def)
  show "x \<le> y \<Longrightarrow> y \<le> z \<Longrightarrow> x \<le> z"
    by (auto simp: less_catalog_key_def less_eq_catalog_key_def)
  show "x \<le> y \<Longrightarrow> y \<le> x \<Longrightarrow> x = y"
    by (auto simp: less_catalog_key_def less_eq_catalog_key_def)
  show "x \<le> y \<or> y \<le> x"
    by (cases x; cases y) (auto simp: less_catalog_key_def less_eq_catalog_key_def)
qed

end

definition object_key :: "string \<times> object_row \<Rightarrow> catalog_key" where
  "object_key row = CatalogKey (ow_createHeight (snd row)) (fst row)"

definition catalog_rows :: "database \<Rightarrow> (string \<times> object_row) list" where
  "catalog_rows db = sort_key object_key (db_objects db)"

text \<open>The condition of the query.\<close>

definition after_object :: "catalog_cursor option \<Rightarrow> string \<times> object_row \<Rightarrow> bool" where
  "after_object cursor row =
     (case cursor of
        None \<Rightarrow> True
      | Some c \<Rightarrow>
          ow_createHeight (snd row) < int (cx_height c) \<or>
          ow_createHeight (snd row) = int (cx_height c) \<and> fst row > cx_key c)"

definition select_objects :: "database \<Rightarrow> catalog_cursor option \<Rightarrow> nat \<Rightarrow> (string \<times> object_row) list" where
  "select_objects db cursor n = take n (filter (after_object cursor) (catalog_rows db))"

text \<open>An item: the row of the object and three members that are computed.\<close>

record catalog_item =
  ki_objectKey :: string
  ki_row :: object_row
  ki_founding :: bool
  ki_genesisOutpoint :: string
  ki_displayId :: string

definition catalog_item_of :: "verification_metadata \<Rightarrow> string \<times> object_row \<Rightarrow> catalog_item" where
  "catalog_item_of verification row =
     \<lparr>ki_objectKey = fst row, ki_row = snd row, ki_founding = ow_founding (snd row),
      ki_genesisOutpoint = ow_createTxid (snd row) @ '':1'',
      ki_displayId = ''tandem:'' @ vm_network verification @ '':'' @
        nullish (nth_opt (split_on CHR '':'' (vm_protocolId verification)) 2) ''undefined'' @ '':'' @
        ow_createTxid (snd row) @ '':1''\<rparr>"

text \<open>\<open>safeCount\<close> of the text of a count.\<close>

definition safeCount :: "nat \<Rightarrow> nat result" where
  "safeCount n = (if is_safe n then Inr n else Inl (HttpException 503 ''catalog counter is invalid''))"

definition release_json :: "release_identity \<Rightarrow> json" where
  "release_json r = JObject [(''parserCommit'', JString (ri_parserCommit r)),
     (''indexerCommit'', JString (ri_indexerCommit r)),
     (''parserBinarySha256'', JString (ri_parserBinarySha256 r)),
     (''indexerBinarySha256'', JString (ri_indexerBinarySha256 r))]"

definition pipeline_json :: "pipeline_identity \<Rightarrow> json" where
  "pipeline_json p = JObject [(''keyId'', JString (pi_keyId p)), (''signature'', JString (pi_signature p)),
     (''release'', release_json (pi_release p))]"

definition verification_json :: "verification_metadata \<Rightarrow> json" where
  "verification_json v = JObject
     [(''status'', JString ''verified''), (''protocolId'', JString (vm_protocolId v)),
      (''network'', JString (vm_network v)), (''specHash'', JString (vm_specHash v)),
      (''height'', JNumber (nat_text (vm_height v))), (''blockHash'', JString (vm_blockHash v)),
      (''chainedRoot'', JString (vm_chainedRoot v)), (''eventRoot'', JString (vm_eventRoot v)),
      (''objectStateRoot'', JString (vm_objectStateRoot v)),
      (''foundingCreated'', JString (vm_foundingCreated v)), (''allObjects'', JString (vm_allObjects v)),
      (''activeObjects'', JString (vm_activeObjects v)),
      (''pipelineA'', pipeline_json (vm_pipelineA v)), (''pipelineB'', pipeline_json (vm_pipelineB v))]"

definition digest_json :: "catalog_crypto \<Rightarrow> json \<Rightarrow> string" where
  "digest_json K value = to_hex (kc_sha256 K (kc_stringify K value))"

definition snapshot_hash :: "catalog_crypto \<Rightarrow> verification_metadata \<Rightarrow> nat \<Rightarrow> nat \<Rightarrow> string" where
  "snapshot_hash K verification epoch objectCount = digest_json K (JObject
     [(''verification'', verification_json verification), (''reorgEpoch'', JString (nat_text epoch)),
      (''total'', JNumber (nat_text objectCount))])"

text \<open>The database against the signed agreement.\<close>

definition agrees_with :: "database \<Rightarrow> verification_metadata \<Rightarrow> bool" where
  "agrees_with db v =
     (case highest (db_blocks db) of
        None \<Rightarrow> False
      | Some (height, tip) \<Rightarrow>
          height = int (vm_height v) \<and> bk_hash tip = vm_blockHash v \<and> bk_eventRoot tip = vm_eventRoot v \<and>
          bk_objectStateRoot tip = vm_objectStateRoot v \<and> bk_chainedRoot tip = vm_chainedRoot v \<and>
          nat_text (length (db_objects db)) = vm_allObjects v \<and>
          nat_text (length (filter (ow_founding \<circ> snd) (db_objects db))) = vm_foundingCreated v \<and>
          nat_text (length (filter (\<lambda>row. ow_status (snd row) = Active) (db_objects db))) = vm_activeObjects v)"

text \<open>\<open>items.some(...)\<close>, with the item before.\<close>

fun items_inconsistent :: "nat \<Rightarrow> (string \<times> object_row) option \<Rightarrow> (string \<times> object_row) list \<Rightarrow> bool" where
  "items_inconsistent tipHeight previous [] = False"
| "items_inconsistent tipHeight previous (row # rows) =
     (\<not> HASH_HEX (fst row) \<or> \<not> HASH_HEX (ow_createTxid (snd row)) \<or>
      \<bar>ow_createHeight (snd row)\<bar> \<ge> 2 ^ 53 \<or> ow_createHeight (snd row) < 0 \<or>
      ow_createHeight (snd row) > int tipHeight \<or>
      (case previous of
         None \<Rightarrow> False
       | Some p \<Rightarrow> ow_createHeight (snd row) > ow_createHeight (snd p) \<or>
           ow_createHeight (snd row) = ow_createHeight (snd p) \<and> fst row \<le> fst p) \<or>
      items_inconsistent tipHeight (Some row) rows)"

record catalog_page =
  kp_schema :: string
  kp_scope :: string
  kp_snapshotHash :: string
  kp_reorgEpoch :: string
  kp_totalAtomic :: string
  kp_offset :: nat
  kp_limit :: nat
  kp_items :: "catalog_item list"
  kp_hasMore :: bool
  kp_nextCursor :: "string option"

text \<open>The clock: whether the deadline has passed at the given check.\<close>

definition checkDeadline :: "(nat \<Rightarrow> bool) \<Rightarrow> nat \<Rightarrow> unit result" where
  "checkDeadline expired n =
     (if expired n then Inl (HttpException 503 ''catalog deadline exceeded'') else Inr ())"

text \<open>
  The transaction reads one snapshot of the database, or a query fails.  The checks of the clock between
  the queries are made before their results are looked at.
\<close>

definition readSnapshot ::
  "catalog_crypto \<Rightarrow> (nat \<Rightarrow> bool) \<Rightarrow> database result \<Rightarrow> nat \<Rightarrow> catalog_cursor option \<Rightarrow>
     verification_metadata \<Rightarrow> catalog_page result" where
  "readSnapshot K expired view limit cursor v =
     bindE (mapE (checkDeadline expired) [1, 2]) (\<lambda>_.
     bindE view (\<lambda>db.
     bindE (mapE (checkDeadline expired) [3, 4, 5]) (\<lambda>_.
     bindE (throw_unless (agrees_with db v)
       (HttpException 503 ''catalog SQL state differs from signed agreement'')) (\<lambda>_.
     bindE (safeCount (length (db_objects db))) (\<lambda>objectCount.
     let epoch = length (db_reorg_journal db) in
     bindE (safeCount epoch) (\<lambda>_.
     let hash = snapshot_hash K v epoch objectCount in
     bindE (throw_unless (case cursor of None \<Rightarrow> True | Some c \<Rightarrow> cx_snapshot c = JString hash \<and> cx_offset c < objectCount)
       (HttpException 409 ''catalog snapshot changed; restart pagination'')) (\<lambda>_.
     let rows = select_objects db cursor (limit + 1);
         offset = (case cursor of None \<Rightarrow> 0 | Some c \<Rightarrow> cx_offset c);
         hasMore = (length rows > limit);
         page = take limit rows in
     bindE (checkDeadline expired 6) (\<lambda>_.
     bindE (throw_unless (\<not> (offset + length page > objectCount \<or> hasMore \<noteq> (offset + length page < objectCount) \<or>
         items_inconsistent (vm_height v) None page))
       (HttpException 503 ''catalog page is inconsistent'')) (\<lambda>_.
       Inr \<lparr>kp_schema = ''tandem-verified-catalog-v1'', kp_scope = ''complete-canonical-object-membership'',
         kp_snapshotHash = hash, kp_reorgEpoch = nat_text epoch, kp_totalAtomic = nat_text objectCount,
         kp_offset = offset, kp_limit = limit, kp_items = map (catalog_item_of v) page,
         kp_hasMore = hasMore, kp_nextCursor = None\<rparr>)))))))))"

section \<open>A page\<close>

definition cursor_json :: "string \<Rightarrow> nat \<Rightarrow> int \<Rightarrow> string \<Rightarrow> nat \<Rightarrow> json" where
  "cursor_json shot limit height key offset = JObject
     [(''v'', JNumber ''1''), (''snapshot'', JString shot), (''limit'', JNumber (nat_text limit)),
      (''height'', JNumber (int_text height)), (''key'', JString key), (''offset'', JNumber (nat_text offset))]"

definition issueCursor :: "catalog_crypto \<Rightarrow> string \<Rightarrow> catalog_page \<Rightarrow> string option" where
  "issueCursor K secret page =
     (case (kp_hasMore page, last_opt (kp_items page)) of
        (True, Some item) \<Rightarrow>
          (let payload = base64url_bytes (kc_utf8_bytes K (kc_stringify K
                 (cursor_json (kp_snapshotHash page) (kp_limit page) (ow_createHeight (ki_row item))
                   (ki_objectKey item) (kp_offset page + length (kp_items page)))))
           in Some (payload @ ''.'' @ catalog_mac K secret payload))
      | _ \<Rightarrow> None)"

text \<open>The read under the agreement; the node is asked once more for the block of the agreement.\<close>

definition catalog_query ::
  "catalog_crypto \<Rightarrow> (nat \<Rightarrow> bool) \<Rightarrow> database result \<Rightarrow> bitcoin_node \<Rightarrow> string \<Rightarrow> nat \<Rightarrow>
     catalog_cursor option \<Rightarrow> verification_metadata \<Rightarrow> catalog_page result" where
  "catalog_query K expired view node secret limit cursor v =
     bindE (checkDeadline expired 0) (\<lambda>_.
     bindE (readSnapshot K expired view limit cursor v) (\<lambda>page.
     bindE (checkDeadline expired 7) (\<lambda>_.
     bindE (getBlockHash node (int (vm_height v))) (\<lambda>hash.
     bindE (throw_unless (hash = vm_blockHash v) (HttpException 503 ''catalog checkpoint is not canonical'')) (\<lambda>_.
     bindE (checkDeadline expired 8) (\<lambda>_.
       Inr (page\<lparr>kp_nextCursor := issueCursor K secret page\<rparr>)))))))"

text \<open>The checks before the read: the limit, the cursor and the secret of the cursors.\<close>

definition catalog_request ::
  "catalog_crypto \<Rightarrow> gateway_env \<Rightarrow> request_value \<Rightarrow> request_value \<Rightarrow> request_value \<Rightarrow>
     (nat \<times> catalog_cursor option \<times> string) result" where
  "catalog_request K E authorization rawLimit rawCursor =
     bindE (of_option (HttpException 503 ''catalog is not configured'') (cfg_catalog (ge_config E))) (\<lambda>catalog.
     bindE (throw_unless (authorization = TextValue (''Bearer '' @ cc_token catalog)) catalog_unauthorized) (\<lambda>_.
       (case (if rawLimit = Absent then TextValue ''50'' else rawLimit) of
          TextValue s \<Rightarrow>
            if all_digits s \<and> 1 \<le> length s \<and> length s \<le> 3 \<and> hd s \<noteq> CHR ''0'' \<and> number_of_text s \<le> 200
            then bindE (parseCursor K E rawCursor (cc_cursorSecret catalog) (number_of_text s)) (\<lambda>cursor.
              Inr (number_of_text s, cursor, cc_cursorSecret catalog))
            else Inl (HttpException 400 ''limit must be between 1 and 200'')
        | _ \<Rightarrow> Inl (HttpException 400 ''limit must be between 1 and 200''))))"

text \<open>What one request meets, and whether its timer fires before the work is done.\<close>

record catalog_moment =
  km_first :: gateway_moment
  km_second :: gateway_moment
  km_view :: "database result"
  km_node :: bitcoin_node
  km_expired :: "nat \<Rightarrow> bool"
  km_timer :: bool

text \<open>
  A request with so many others in flight.  Its work counts as in flight until it settles, also when the
  timer has already answered.
\<close>

definition catalogPage ::
  "catalog_crypto \<Rightarrow> gateway_env \<Rightarrow> catalog_moment \<Rightarrow> nat \<Rightarrow> request_value \<Rightarrow> request_value \<Rightarrow> request_value \<Rightarrow>
     (verification_metadata \<times> catalog_page) result" where
  "catalogPage K E m inFlight authorization rawLimit rawCursor =
     bindE (catalog_request K E authorization rawLimit rawCursor) (\<lambda>(limit, cursor, secret).
     bindE (throw_unless (inFlight < 2) (HttpException 503 ''catalog is busy'')) (\<lambda>_.
       if km_timer m then Inl (HttpException 503 ''catalog deadline exceeded'')
       else executeBound E (km_first m) (km_second m)
         (catalog_query K (km_expired m) (km_view m) (km_node m) secret limit cursor) None))"

end
