(* ===== verification/Catalog_Properties.thy ===== *)
theory Catalog_Properties
  imports Catalog
begin

text \<open>
  Following the cursors of the catalog lists every object exactly once, by the contract \<open>keyset\<close>.  A
  cursor the service issues is accepted as long as JSON text survives the transport; a page is only served
  when the database is what both pipelines signed.
\<close>

section \<open>The order of the catalog\<close>

definition after_catalog_key :: "catalog_key option \<Rightarrow> string \<times> object_row \<Rightarrow> bool" where
  "after_catalog_key k row = (case k of None \<Rightarrow> True | Some x \<Rightarrow> x < object_key row)"

definition cursor_key :: "catalog_cursor \<Rightarrow> catalog_key" where
  "cursor_key c = CatalogKey (int (cx_height c)) (cx_key c)"

lemma after_object_key: "after_object cursor = after_catalog_key (map_option cursor_key cursor)"
  by (rule ext) (auto simp: after_object_def after_catalog_key_def cursor_key_def object_key_def
    less_catalog_key_def split: option.splits)

interpretation objects: keyset "\<lambda>x y. object_key x < object_key y" after_catalog_key object_key
  by unfold_locales (auto simp: after_catalog_key_def split: option.splits)

lemma catalog_rows_sorted:
  assumes "js_wf (db_objects db)"
  shows "sorted_wrt (\<lambda>x y. object_key x < object_key y) (catalog_rows db)"
proof -
  have "inj_on object_key (set (db_objects db))" "distinct (db_objects db)"
    using assms by (auto simp: distinct_map inj_on_def object_key_def)
  then have "distinct (map object_key (catalog_rows db))" by (simp add: catalog_rows_def distinct_map)
  moreover have "sorted (map object_key (catalog_rows db))" by (simp add: catalog_rows_def)
  ultimately have "sorted_wrt (<) (map object_key (catalog_rows db))" by (simp add: strict_sorted_iff)
  then show ?thesis by (simp add: sorted_wrt_map)
qed

text \<open>The rows a page accepts.\<close>

definition object_listed :: "nat \<Rightarrow> string \<times> object_row \<Rightarrow> bool" where
  "object_listed height row =
     (HASH_HEX (fst row) \<and> HASH_HEX (ow_createTxid (snd row)) \<and> 0 \<le> ow_createHeight (snd row) \<and>
      ow_createHeight (snd row) \<le> int height \<and> ow_createHeight (snd row) < 2 ^ 53)"

lemma items_consistent:
  "sorted_wrt (\<lambda>x y. object_key x < object_key y) rows \<Longrightarrow> list_all (object_listed height) rows \<Longrightarrow>
     (\<forall>p. previous = Some p \<longrightarrow> (\<forall>row \<in> set rows. object_key p < object_key row)) \<Longrightarrow>
     \<not> items_inconsistent height previous rows"
proof (induction rows arbitrary: previous)
  case (Cons row rows)
  have "\<not> items_inconsistent height (Some row) rows"
    by (rule Cons.IH) (use Cons.prems in simp_all)
  with Cons.prems show ?case
    by (auto simp: object_listed_def object_key_def less_catalog_key_def split: option.splits)
qed simp

section \<open>Issued cursors are accepted\<close>

text \<open>JSON text survives \<open>stringify\<close>, UTF-8 and \<open>parse\<close>, and is not long.\<close>

definition transports :: "catalog_crypto \<Rightarrow> gateway_env \<Rightarrow> json \<Rightarrow> bool" where
  "transports K E value =
     (pf_json_parse (ge_platform E) (ge_utf8 E (kc_utf8_bytes K (kc_stringify K value))) = Some value \<and>
      kc_utf8_bytes K (kc_stringify K value) \<noteq> [] \<and> length (kc_utf8_bytes K (kc_stringify K value)) \<le> 1000)"

definition sealed :: "catalog_crypto \<Rightarrow> string \<Rightarrow> json \<Rightarrow> string" where
  "sealed K secret value =
     (let payload = base64url_bytes (kc_utf8_bytes K (kc_stringify K value))
      in payload @ ''.'' @ catalog_mac K secret payload)"

lemma checked_cursor_json:
  assumes "HASH_HEX hash" and "HASH_HEX key" and "is_safe height" and "is_safe offset" and "0 < offset"
  shows "checked_payload (cursor_json hash limit (int height) key offset) limit =
    Some \<lparr>cx_snapshot = JString hash, cx_height = height, cx_key = key, cx_offset = offset\<rparr>"
proof -
  have keys: "join_with '','' (sort [''v'', ''snapshot'', ''limit'', ''height'', ''key'', ''offset'']) =
      ''height,key,limit,offset,snapshot,v''"
    by code_simp
  show ?thesis
    using assms keys
    by (simp add: checked_payload_def cursor_json_def js_text_of_def safe_member_def int_text_def is_counter_nat_text)
qed

lemma parse_sealed:
  assumes "transports K E (cursor_json hash limit (int height) key offset)"
    and "length (kc_hmac K secret (base64url_bytes
      (kc_utf8_bytes K (kc_stringify K (cursor_json hash limit (int height) key offset))))) = 32"
    and "HASH_HEX hash" and "HASH_HEX key" and "is_safe height" and "is_safe offset" and "0 < offset"
  shows "parseCursor K E (TextValue (sealed K secret (cursor_json hash limit (int height) key offset))) secret limit =
    Inr (Some \<lparr>cx_snapshot = JString hash, cx_height = height, cx_key = key, cx_offset = offset\<rparr>)"
proof -
  let ?cursor = "cursor_json hash limit (int height) key offset"
  define payload where "payload = base64url_bytes (kc_utf8_bytes K (kc_stringify K ?cursor))"
  let ?mac = "catalog_mac K secret payload"
  have raw: "sealed K secret ?cursor = payload @ CHR ''.'' # ?mac" by (simp add: sealed_def payload_def Let_def)
  note parts = base64url_bytes_text [of "kc_utf8_bytes K (kc_stringify K ?cursor)", folded payload_def]
  have mac: "length ?mac = 43" "list_all (\<lambda>c. sextet_of c \<noteq> None) ?mac"
    using base64url_bytes_text [of "kc_hmac K secret payload"] assms(2) by (simp_all add: catalog_mac_def payload_def)
  have "sextet_of CHR ''.'' = None" by code_simp
  then have "CHR ''.'' \<notin> set payload" "CHR ''.'' \<notin> set ?mac"
    using parts(2) mac(2) by (auto simp: list_all_iff)
  then have split: "split_on CHR ''.'' (payload @ CHR ''.'' # ?mac) = [payload, ?mac]"
    by (simp add: split_on_append split_on_plain)
  have bound: "n \<le> 1000 \<Longrightarrow> (4 * n + 2) div 3 \<le> 1334" for n :: nat by presburger
  have "payload \<noteq> []" "length payload \<le> 1334"
    using assms(1) bound unfolding parts(1) by (simp_all add: transports_def payload_def)
  then have halves: "cursor_halves (payload @ CHR ''.'' # ?mac) = Some (payload, ?mac)"
    and size: "length (payload @ CHR ''.'' # ?mac) \<le> 2048"
    using parts(2) mac split by (simp_all add: cursor_halves_def)
  have bytes: "from_base64url_bytes payload = kc_utf8_bytes K (kc_stringify K ?cursor)" by (simp add: payload_def)
  have "base64url_bytes (from_base64url_bytes payload) = payload" by (simp add: payload_def)
  then show ?thesis
    using size halves assms(1) checked_cursor_json [OF assms(3-7)] unfolding raw
    by (simp add: parseCursor_def bytes transports_def)
qed

section \<open>Following the cursors\<close>

fun follow_catalog :: "(request_value \<Rightarrow> (verification_metadata \<times> catalog_page) result) \<Rightarrow> nat \<Rightarrow> request_value \<Rightarrow>
    catalog_item list option" where
  "follow_catalog serve 0 cursor = None"
| "follow_catalog serve (Suc n) cursor =
     (case serve cursor of
        Inl _ \<Rightarrow> None
      | Inr (_, page) \<Rightarrow>
          (case kp_nextCursor page of
             None \<Rightarrow> Some (kp_items page)
           | Some raw \<Rightarrow> map_option (\<lambda>items. kp_items page @ items) (follow_catalog serve n (TextValue raw))))"

text \<open>A moment without trouble: both runs of the gateway agree, the clock and the node stand still.\<close>

definition quiet_moment :: "gateway_env \<Rightarrow> catalog_moment \<Rightarrow> verification_metadata \<Rightarrow> database \<Rightarrow> bool" where
  "quiet_moment E m v db =
     (resolve E (km_first m) = Inr v \<and> resolve E (km_second m) = Inr v \<and> km_view m = Inr db \<and>
      (\<forall>n. \<not> km_expired m n) \<and> \<not> km_timer m \<and>
      getBlockHash (km_node m) (int (vm_height v)) = Inr (vm_blockHash v))"

definition listable :: "database \<Rightarrow> verification_metadata \<Rightarrow> bool" where
  "listable db v =
     (agrees_with db v \<and> js_wf (db_objects db) \<and> is_safe (length (db_objects db)) \<and>
      is_safe (length (db_reorg_journal db)) \<and> list_all (object_listed (vm_height v)) (db_objects db))"

abbreviation shot_of :: "catalog_crypto \<Rightarrow> database \<Rightarrow> verification_metadata \<Rightarrow> string" where
  "shot_of K db v \<equiv> snapshot_hash K v (length (db_reorg_journal db)) (length (db_objects db))"

text \<open>The cursor after so many objects.\<close>

definition cursor_after :: "catalog_crypto \<Rightarrow> database \<Rightarrow> verification_metadata \<Rightarrow> nat \<Rightarrow> nat \<Rightarrow> json" where
  "cursor_after K db v limit i =
     (let row = catalog_rows db ! (i - 1)
      in cursor_json (shot_of K db v) limit (ow_createHeight (snd row)) (fst row) i)"

definition accepted_cursor :: "catalog_crypto \<Rightarrow> database \<Rightarrow> verification_metadata \<Rightarrow> nat \<Rightarrow> catalog_cursor option" where
  "accepted_cursor K db v i =
     (if i = 0 then None
      else let row = catalog_rows db ! (i - 1)
           in Some \<lparr>cx_snapshot = JString (shot_of K db v), cx_height = nat (ow_createHeight (snd row)),
                cx_key = fst row, cx_offset = i\<rparr>)"

lemma length_catalog_rows [simp]: "length (catalog_rows db) = length (db_objects db)"
  by (simp add: catalog_rows_def)

lemma listable_rows:
  "listable db v \<Longrightarrow> sorted_wrt (\<lambda>x y. object_key x < object_key y) (catalog_rows db) \<and>
     list_all (object_listed (vm_height v)) (catalog_rows db)"
  using catalog_rows_sorted by (auto simp: listable_def list_all_iff catalog_rows_def)

lemma snapshot_hash_hex: "length (kc_sha256 K (kc_stringify K (JObject
     [(''verification'', verification_json v), (''reorgEpoch'', JString (nat_text epoch)),
      (''total'', JNumber (nat_text n))]))) = 32 \<Longrightarrow> HASH_HEX (snapshot_hash K v epoch n)"
  using is_hex_text_to_hex by (simp add: snapshot_hash_def digest_json_def HASH_HEX_def) (metis mult_2 numeral_Bit0)

lemma after_accepted:
  assumes "listable db v" and "i < length (db_objects db)"
  shows "filter (after_object (accepted_cursor K db v i)) (catalog_rows db) = drop i (catalog_rows db)"
proof (cases "i = 0")
  case True
  then show ?thesis by (simp add: accepted_cursor_def after_object_def)
next
  case False
  let ?rows = "catalog_rows db" and ?row = "catalog_rows db ! (i - 1)"
  have in_rows: "?row \<in> set ?rows" using assms(2) False by (intro nth_mem) simp
  then have "0 \<le> ow_createHeight (snd ?row)"
    using listable_rows [OF assms(1)] by (auto simp: list_all_iff object_listed_def)
  then have key: "map_option cursor_key (accepted_cursor K db v i) = Some (object_key ?row)"
    using False by (simp add: accepted_cursor_def cursor_key_def object_key_def Let_def)
  have split: "?rows = take (i - 1) ?rows @ ?row # drop i ?rows"
    using id_take_nth_drop [of "i - 1" ?rows] assms(2) False by simp
  have "filter (\<lambda>e. object_key ?row < object_key e) ?rows = drop i ?rows"
    using objects.filter_precedes [of "take (i - 1) ?rows" ?row "drop i ?rows", folded split] listable_rows [OF assms(1)]
    by blast
  then show ?thesis unfolding after_object_key key by (simp add: after_catalog_key_def [abs_def])
qed

text \<open>One page of a quiet moment.\<close>

lemma quiet_page:
  assumes m: "quiet_moment E m v db" and db: "listable db v" and i: "i = 0 \<or> i < length (db_objects db)"
    and "0 < limit"
    and request: "catalog_request K E auth rawLimit raw = Inr (limit, accepted_cursor K db v i, secret)" and "inFlight < 2"
  shows "\<exists>page. catalogPage K E m inFlight auth rawLimit raw = Inr (v, page) \<and>
    kp_items page = map (catalog_item_of v) (take limit (drop i (catalog_rows db))) \<and>
    kp_nextCursor page = (if i + limit < length (db_objects db)
      then Some (sealed K secret (cursor_after K db v limit (i + limit))) else None)"
proof -
  let ?rows = "catalog_rows db" and ?cursor = "accepted_cursor K db v i"
  have rest: "filter (after_object ?cursor) ?rows = drop i ?rows"
    using after_accepted [OF db] i by (cases "i < length (db_objects db)") (auto simp: accepted_cursor_def catalog_rows_def)
  have selected: "select_objects db ?cursor (limit + 1) = take (limit + 1) (drop i ?rows)"
    by (simp only: select_objects_def rest)
  have taken: "take limit (take (limit + 1) (drop i ?rows)) = take limit (drop i ?rows)" by (simp add: min_def)
  have clock: "checkDeadline (km_expired m) n = Inr ()" for n using m by (simp add: quiet_moment_def checkDeadline_def)
  have counts: "safeCount (length (db_objects db)) = Inr (length (db_objects db))"
    "safeCount (length (db_reorg_journal db)) = Inr (length (db_reorg_journal db))"
    using db by (simp_all add: listable_def safeCount_def)
  have "sorted_wrt (\<lambda>x y. object_key x < object_key y) (take limit (drop i ?rows))"
    "list_all (object_listed (vm_height v)) (take limit (drop i ?rows))"
    using listable_rows [OF db] by (auto simp: list_all_iff sorted_wrt_take sorted_wrt_drop dest!: in_set_takeD in_set_dropD)
  then have consistent: "\<not> items_inconsistent (vm_height v) None (take limit (drop i ?rows))"
    by (intro items_consistent) simp_all
  have own: "case ?cursor of None \<Rightarrow> True
      | Some c \<Rightarrow> cx_snapshot c = JString (shot_of K db v) \<and> cx_offset c < length (db_objects db)"
    using i by (auto simp: accepted_cursor_def Let_def)
  have offset: "(case ?cursor of None \<Rightarrow> 0 | Some c \<Rightarrow> cx_offset c) = i"
    by (simp add: accepted_cursor_def Let_def)
  have view: "km_view m = Inr db" and agree: "agrees_with db v" using m db by (simp_all add: quiet_moment_def listable_def)
  let ?page = "take limit (drop i ?rows)"
  have more: "length (take (limit + 1) (drop i ?rows)) > limit \<longleftrightarrow> i + limit < length (db_objects db)"
    using i by auto
  have fits: "\<not> (i + length ?page > length (db_objects db) \<or>
      (i + limit < length (db_objects db)) \<noteq> (i + length ?page < length (db_objects db)) \<or>
      items_inconsistent (vm_height v) None ?page)"
    using i consistent by auto
  define page where "page = \<lparr>kp_schema = ''tandem-verified-catalog-v1'',
    kp_scope = ''complete-canonical-object-membership'', kp_snapshotHash = shot_of K db v,
    kp_reorgEpoch = nat_text (length (db_reorg_journal db)), kp_totalAtomic = nat_text (length (db_objects db)),
    kp_offset = i, kp_limit = limit, kp_items = map (catalog_item_of v) ?page,
    kp_hasMore = (i + limit < length (db_objects db)), kp_nextCursor = None\<rparr>"
  have read: "readSnapshot K (km_expired m) (km_view m) limit ?cursor v = Inr page"
    unfolding readSnapshot_def view Let_def
    by (simp only: bindE_simps mapE.simps clock agree counts own offset selected taken more fits throw_unless_simps
        not_False_eq_True if_True page_def)
  have node: "getBlockHash (km_node m) (int (vm_height v)) = Inr (vm_blockHash v)" using m by (simp add: quiet_moment_def)
  have query: "catalog_query K (km_expired m) (km_view m) (km_node m) secret limit ?cursor v =
      Inr (page\<lparr>kp_nextCursor := issueCursor K secret page\<rparr>)"
    by (simp add: catalog_query_def clock read node)
  have "catalogPage K E m inFlight auth rawLimit raw = Inr (v, page\<lparr>kp_nextCursor := issueCursor K secret page\<rparr>)"
    using m \<open>inFlight < 2\<close> query by (simp add: catalogPage_def request quiet_moment_def executeBound_def)
  moreover have "issueCursor K secret page = (if i + limit < length (db_objects db)
      then Some (sealed K secret (cursor_after K db v limit (i + limit))) else None)"
  proof (cases "i + limit < length (db_objects db)")
    case True
    have "last ?page = ?page ! (length ?page - 1)" using True \<open>0 < limit\<close> by (intro last_conv_nth) auto
    also have "\<dots> = ?rows ! (i + limit - 1)" using True \<open>0 < limit\<close> by (simp add: min_def)
    finally have last: "last_opt (map (catalog_item_of v) ?page) = Some (catalog_item_of v (?rows ! (i + limit - 1)))"
      using True \<open>0 < limit\<close> by (auto simp: last_opt_def last_map)
    have full: "length (map (catalog_item_of v) ?page) = limit" using True by simp
    show ?thesis
      using True full
      by (simp add: issueCursor_def page_def last sealed_def cursor_after_def catalog_item_of_def Let_def del: length_map length_take length_drop)
  qed (simp add: issueCursor_def page_def)
  ultimately show ?thesis by (simp add: page_def)
qed

lemma request_next:
  assumes "catalog_request K E auth rawLimit Absent = Inr (limit, None, secret)" and "parseCursor K E raw secret limit = Inr cursor"
  shows "catalog_request K E auth rawLimit raw = Inr (limit, cursor, secret)"
  using assms by (cases rawLimit) (auto simp: catalog_request_def split: if_splits)

lemma request_limit: "catalog_request K E auth rawLimit raw = Inr (limit, cursor, secret) \<Longrightarrow> 0 < limit"
  by (cases rawLimit) (auto simp: catalog_request_def intro!: number_of_text_Cons_pos split: if_splits)

text \<open>The cursors between the pages survive the transport, and the digests have 32 bytes.\<close>

definition transport_ok :: "catalog_crypto \<Rightarrow> gateway_env \<Rightarrow> string \<Rightarrow> database \<Rightarrow> verification_metadata \<Rightarrow> nat \<Rightarrow> bool" where
  "transport_ok K E secret db v limit =
     (list_all (\<lambda>i. transports K E (cursor_after K db v limit i)) [1..<length (db_objects db)] \<and>
      (\<forall>s. length (kc_hmac K secret s) = 32) \<and> (\<forall>s. length (kc_sha256 K s) = 32))"

lemma accepted_again:
  assumes db: "listable db v" and t: "transport_ok K E secret db v limit" and i: "0 < i" "i < length (db_objects db)"
  shows "parseCursor K E (TextValue (sealed K secret (cursor_after K db v limit i))) secret limit =
    Inr (accepted_cursor K db v i)"
proof -
  let ?row = "catalog_rows db ! (i - 1)"
  have "?row \<in> set (catalog_rows db)" using i by (intro nth_mem) simp
  then have row: "object_listed (vm_height v) ?row" using listable_rows [OF db] by (auto simp: list_all_iff)
  then have height: "int (nat (ow_createHeight (snd ?row))) = ow_createHeight (snd ?row)"
    "is_safe (nat (ow_createHeight (snd ?row)))" by (auto simp: object_listed_def is_safe_def)
  have same: "cursor_after K db v limit i =
      cursor_json (shot_of K db v) limit (int (nat (ow_createHeight (snd ?row)))) (fst ?row) i"
    by (simp only: cursor_after_def Let_def height(1))
  have "transports K E (cursor_after K db v limit i)" using t i by (simp add: transport_ok_def list_all_iff)
  then show ?thesis
    unfolding same using t row height(2) i db
    by (subst parse_sealed) (auto simp: transport_ok_def object_listed_def accepted_cursor_def Let_def listable_def
      is_safe_def snapshot_hash_hex)
qed

lemma follow_catalog_from:
  assumes m: "quiet_moment E m v db" and db: "listable db v" and t: "transport_ok K E secret db v limit"
    and first: "catalog_request K E auth rawLimit Absent = Inr (limit, None, secret)" and "inFlight < 2"
  shows "i = 0 \<or> i < length (db_objects db) \<Longrightarrow> length (db_objects db) - i < n \<Longrightarrow>
    catalog_request K E auth rawLimit raw = Inr (limit, accepted_cursor K db v i, secret) \<Longrightarrow>
    follow_catalog (catalogPage K E m inFlight auth rawLimit) n raw =
      Some (map (catalog_item_of v) (drop i (catalog_rows db)))"
proof (induction n arbitrary: i raw)
  case (Suc n)
  have limit: "0 < limit" using first by (rule request_limit)
  obtain page where page: "catalogPage K E m inFlight auth rawLimit raw = Inr (v, page)"
    "kp_items page = map (catalog_item_of v) (take limit (drop i (catalog_rows db)))"
    "kp_nextCursor page = (if i + limit < length (db_objects db)
      then Some (sealed K secret (cursor_after K db v limit (i + limit))) else None)"
    using quiet_page [OF m db Suc.prems(1) limit Suc.prems(3) \<open>inFlight < 2\<close>] by blast
  show ?case
  proof (cases "i + limit < length (db_objects db)")
    case True
    let ?raw = "TextValue (sealed K secret (cursor_after K db v limit (i + limit)))"
    have "catalog_request K E auth rawLimit ?raw = Inr (limit, accepted_cursor K db v (i + limit), secret)"
      using accepted_again [OF db t, of "i + limit"] True limit by (intro request_next [OF first]) simp
    then have "follow_catalog (catalogPage K E m inFlight auth rawLimit) n ?raw =
        Some (map (catalog_item_of v) (drop (i + limit) (catalog_rows db)))"
      using Suc.IH [of "i + limit"] True limit Suc.prems(2) by simp
    moreover have "take limit (drop i (catalog_rows db)) @ drop (i + limit) (catalog_rows db) = drop i (catalog_rows db)"
      using append_take_drop_id [of limit "drop i (catalog_rows db)"] by (simp add: add.commute)
    ultimately show ?thesis using page True by (simp flip: map_append)
  next
    case False
    then show ?thesis using page by simp
  qed
qed simp

text \<open>
  C36: following the cursors of the catalog lists every object of the database exactly once, the newest
  first, whatever the limit; the signed agreement of both pipelines counts exactly these objects.
\<close>

theorem follow_catalog_complete:
  assumes "quiet_moment E m v db" and "listable db v" and "transport_ok K E secret db v limit"
    and "catalog_request K E auth rawLimit Absent = Inr (limit, None, secret)" and "inFlight < 2"
    and "length (db_objects db) < n"
  shows "follow_catalog (catalogPage K E m inFlight auth rawLimit) n Absent =
      Some (map (catalog_item_of v) (catalog_rows db)) \<and>
    mset (catalog_rows db) = mset (db_objects db) \<and> nat_text (length (catalog_rows db)) = vm_allObjects v"
proof -
  have "nat_text (length (db_objects db)) = vm_allObjects v"
    using assms(2) by (auto simp: listable_def agrees_with_def split: option.splits)
  then show ?thesis
    using follow_catalog_from [OF assms(1-5), of 0 n Absent] assms(4,6)
    by (simp add: accepted_cursor_def catalog_rows_def)
qed

end
