(* ===== verification/Store_Shape.thy ===== *)
theory Store_Shape
  imports Indexer_Store
begin

text \<open>
  What the statements of the store do to the tables: the result of every write loop as one
  description per table, the consistency \<open>db_ok\<close> of a database (keys are unique, foreign keys have
  their targets, every height that is mentioned belongs to a stored block), and the interface
  \<open>reorg_store\<close> interpreted on the rollback.
\<close>

section \<open>Keyed tables\<close>

lemma insert_keyed_Inr:
  "insert_keyed clash k r t = Inr t' \<longleftrightarrow>
     k \<notin> fst ` set t \<and> (\<forall>x \<in> snd ` set t. \<not> clash x) \<and> t' = t @ [(k, r)]"
  by (auto simp: insert_keyed_def list_ex_iff map_of_eq_None_iff)

lemma insert_row_Inr: "insert_row clash r t = Inr t' \<longleftrightarrow> (\<forall>x \<in> set t. \<not> clash x) \<and> t' = t @ [r]"
  by (auto simp: insert_row_def list_ex_iff)

lemma references_Inr: "references t k = Inr u \<longleftrightarrow> k \<in> fst ` set t"
  by (simp add: references_def map_of_eq_None_iff)

lemmas statement_simps = insert_keyed_Inr insert_row_Inr references_Inr

lemma update_where_append [simp]:
  "update_where c f (xs @ ys) = update_where c f xs @ update_where c f ys"
  by (simp add: update_where_def)

lemma delete_where_append [simp]: "delete_where c (xs @ ys) = delete_where c xs @ delete_where c ys"
  by (simp add: delete_where_def)

lemma update_where_keys [simp]: "map fst (update_where c f t) = map fst t"
  by (simp add: update_where_def case_prod_unfold)

lemma update_where_fst [simp]: "fst ` set (update_where c f t) = fst ` set t"
  by (metis set_map update_where_keys)

lemma update_where_same:
  "(\<And>k r. (k, r) \<in> set t \<Longrightarrow> c k r \<Longrightarrow> f r = r) \<Longrightarrow> update_where c f t = t"
  unfolding update_where_def by (rule map_idI) auto

lemma update_where_get:
  "js_get (update_where c f t) k = map_option (\<lambda>r. if c k r then f r else r) (js_get t k)"
  by (induction t) (auto simp: update_where_def)

lemma delete_where_same: "(\<And>k r. (k, r) \<in> set t \<Longrightarrow> \<not> c k r) \<Longrightarrow> delete_where c t = t"
  unfolding delete_where_def by (rule filter_all_True) auto

lemma delete_where_none: "(\<And>k r. (k, r) \<in> set t \<Longrightarrow> c k r) \<Longrightarrow> delete_where c t = []"
  unfolding delete_where_def by (rule filter_all_False) auto

lemma delete_where_wf: "js_wf t \<Longrightarrow> js_wf (delete_where c t)"
  unfolding delete_where_def by (rule distinct_map_filter)

lemma js_delete_append [simp]: "js_delete k (xs @ ys) = js_delete k xs @ js_delete k ys"
  by (induction xs) auto

section \<open>Consistent databases\<close>

abbreviation table_keys :: "('k, 'r) js_map \<Rightarrow> 'k set" where
  "table_keys t \<equiv> fst ` set t"

abbreviation table_rows :: "('k, 'r) js_map \<Rightarrow> 'r set" where
  "table_rows t \<equiv> snd ` set t"

definition keys_ok :: "database \<Rightarrow> bool" where
  "keys_ok db =
     (js_wf (db_blocks db) \<and> js_wf (db_transactions db) \<and> js_wf (db_objects db) \<and>
      js_wf (db_states db) \<and> js_wf (db_carriers db) \<and> js_wf (db_checkpoints db))"

definition block_refs_ok :: "database \<Rightarrow> bool" where
  "block_refs_ok db =
     (let hs = table_keys (db_blocks db)
      in (\<forall>r \<in> table_rows (db_transactions db). tw_blockHeight r \<in> hs) \<and>
         (\<forall>e \<in> set (db_events db). ew_blockHeight e \<in> hs \<and> ew_txid e \<in> table_keys (db_transactions db)) \<and>
         table_keys (db_checkpoints db) \<subseteq> hs \<and>
         (\<forall>i. db_init db = Some i \<longrightarrow> ia_height i \<in> hs) \<and>
         (\<forall>u \<in> set (db_object_undo db). uw_height u \<in> hs))"

definition state_ok :: "database \<Rightarrow> state_table_row \<Rightarrow> bool" where
  "state_ok db r =
     (sw_objectKey r \<in> table_keys (db_objects db) \<and> sw_createdHeight r \<in> table_keys (db_blocks db) \<and>
      (\<forall>h. sw_spentHeight r = Some h \<longrightarrow> h \<in> table_keys (db_blocks db)) \<and>
      (sw_spentHeight r = None \<longrightarrow> sw_spentTxid r = None))"

definition carrier_ok :: "database \<Rightarrow> carrier_row \<Rightarrow> bool" where
  "carrier_ok db r =
     (cw_objectKey r \<in> table_keys (db_objects db) \<and> cw_createdHeight r \<in> table_keys (db_blocks db) \<and>
      (\<forall>h. cw_spentHeight r = Some h \<longrightarrow> h \<in> table_keys (db_blocks db)) \<and>
      (cw_spentHeight r = None \<longrightarrow> cw_spentTxid r = None))"

definition object_refs_ok :: "database \<Rightarrow> bool" where
  "object_refs_ok db =
     ((\<forall>r \<in> table_rows (db_states db). state_ok db r) \<and>
      (\<forall>r \<in> table_rows (db_carriers db). carrier_ok db r) \<and>
      (\<forall>r \<in> set (db_chapters db). hw_objectKey r \<in> table_keys (db_objects db) \<and>
         hw_blockHeight r \<in> table_keys (db_blocks db)))"

definition db_ok :: "database \<Rightarrow> bool" where
  "db_ok db = (keys_ok db \<and> block_refs_ok db \<and> object_refs_ok db)"

lemma db_ok_empty: "db_ok empty_database"
  by (simp add: db_ok_def keys_ok_def block_refs_ok_def object_refs_ok_def empty_database_def)

section \<open>The write loops\<close>

definition transaction_entry :: "int \<Rightarrow> reduced_transaction \<Rightarrow> string \<times> transaction_row" where
  "transaction_entry h t =
     (rt_txid t, \<lparr>tw_wtxid = rt_wtxid t, tw_blockHeight = h, tw_txIndex = rt_txIndex t,
        tw_version = rt_version t, tw_locktime = rt_locktime t mod 2 ^ 32\<rparr>)"

definition state_entry :: "int \<Rightarrow> state_row \<Rightarrow> string \<times> state_table_row" where
  "state_entry h row =
     (sr_outpoint row, \<lparr>sw_objectKey = sr_objectKey row, sw_sequence = sr_sequence row,
        sw_createdHeight = h, sw_spentHeight = None, sw_spentTxid = None, sw_key0 = sr_key0 row,
        sw_key1 = sr_key1 row\<rparr>)"

definition carrier_entry :: "int \<Rightarrow> state_row \<Rightarrow> string \<times> carrier_row" where
  "carrier_entry h row =
     (sr_outpoint row, \<lparr>cw_objectKey = sr_objectKey row, cw_createdHeight = h,
        cw_spentHeight = None, cw_spentTxid = None, cw_valueSats = 20000\<rparr>)"

definition chapter_entry :: "int \<Rightarrow> chapter_row \<Rightarrow> chapter_table_row" where
  "chapter_entry h c =
     \<lparr>hw_objectKey = cr_objectKey c, hw_sequence = cr_sequence c, hw_txid = cr_txid c,
      hw_blockHeight = h, hw_kind = cr_kind c, hw_commitment = cr_commitment c\<rparr>"

definition undo_entry :: "int \<Rightarrow> string \<times> object_record option \<Rightarrow> undo_row" where
  "undo_entry h p = \<lparr>uw_height = h, uw_objectKey = fst p, uw_prior = snd p\<rparr>"

definition upsert_entry ::
  "object_map \<Rightarrow> string \<times> object_record option \<Rightarrow> (string, object_row) js_map \<Rightarrow> (string, object_row) js_map"
  where
  "upsert_entry objects p t =
     (case js_get objects (fst p) of None \<Rightarrow> t | Some current \<Rightarrow> upsertObject t current)"

lemma write_transactions_shape:
  "foldE (write_transaction h) db ts = Inr db' \<Longrightarrow> js_wf (db_transactions db) \<Longrightarrow>
     db' = db\<lparr>db_transactions := db_transactions db @ map (transaction_entry h) ts\<rparr> \<and>
     js_wf (db_transactions db @ map (transaction_entry h) ts) \<and> (ts \<noteq> [] \<longrightarrow> h \<in> table_keys (db_blocks db))"
proof (induction ts arbitrary: db)
  case (Cons t ts)
  then obtain db1 where one: "write_transaction h db t = Inr db1"
    and rest: "foldE (write_transaction h) db1 ts = Inr db'" by auto
  from one have db1: "db1 = db\<lparr>db_transactions := db_transactions db @ [transaction_entry h t]\<rparr>"
    "fst (transaction_entry h t) \<notin> table_keys (db_transactions db)" "h \<in> table_keys (db_blocks db)"
    by (auto simp: write_transaction_def statement_simps transaction_entry_def)
  then have "js_wf (db_transactions db1)" using Cons.prems(2) by simp
  from Cons.IH [OF rest this] db1 show ?case by simp
qed simp

lemma write_events_shape:
  "foldE (write_event h) db es = Inr db' \<Longrightarrow>
     db' = db\<lparr>db_events := db_events db @ map (event_row_of h) es\<rparr> \<and>
     (\<forall>e \<in> set es. er_txid e \<in> table_keys (db_transactions db) \<and> h \<in> table_keys (db_blocks db))"
proof (induction es arbitrary: db)
  case (Cons e es)
  then obtain db1 where one: "write_event h db e = Inr db1"
    and rest: "foldE (write_event h) db1 es = Inr db'" by auto
  from one have db1: "db1 = db\<lparr>db_events := db_events db @ [event_row_of h e]\<rparr>"
    "er_txid e \<in> table_keys (db_transactions db)" "h \<in> table_keys (db_blocks db)"
    by (auto simp: write_event_def statement_simps)
  from Cons.IH [OF rest] db1 show ?case by simp
qed simp

lemma write_undo_shape:
  "foldE (write_undo h objects) db us = Inr db' \<Longrightarrow>
     db' = db\<lparr>db_object_undo := db_object_undo db @ map (undo_entry h) us,
             db_objects := fold (upsert_entry objects) us (db_objects db)\<rparr> \<and>
     (us \<noteq> [] \<longrightarrow> h \<in> table_keys (db_blocks db))"
proof (induction us arbitrary: db)
  case (Cons u us)
  then obtain db1 where one: "write_undo h objects db u = Inr db1"
    and rest: "foldE (write_undo h objects) db1 us = Inr db'" by auto
  from one have db1: "db1 = db\<lparr>db_object_undo := db_object_undo db @ [undo_entry h u],
      db_objects := upsert_entry objects u (db_objects db)\<rparr>" "h \<in> table_keys (db_blocks db)"
    by (auto simp: write_undo_def statement_simps undo_entry_def upsert_entry_def)
  from Cons.IH [OF rest] db1 show ?case by simp
qed simp

lemma write_states_shape:
  "foldE (write_state h) db ss = Inr db' \<Longrightarrow> js_wf (db_states db) \<Longrightarrow> js_wf (db_carriers db) \<Longrightarrow>
     db' = db\<lparr>db_states := db_states db @ map (state_entry h) ss,
             db_carriers := db_carriers db @ map (carrier_entry h) ss\<rparr> \<and>
     js_wf (db_states db @ map (state_entry h) ss) \<and>
     js_wf (db_carriers db @ map (carrier_entry h) ss) \<and>
     (\<forall>s \<in> set ss. sr_objectKey s \<in> table_keys (db_objects db))"
proof (induction ss arbitrary: db)
  case (Cons s ss)
  then obtain db1 where one: "write_state h db s = Inr db1"
    and rest: "foldE (write_state h) db1 ss = Inr db'" by auto
  from one have db1: "db1 = db\<lparr>db_states := db_states db @ [state_entry h s],
      db_carriers := db_carriers db @ [carrier_entry h s]\<rparr>"
    "fst (state_entry h s) \<notin> table_keys (db_states db)"
    "fst (carrier_entry h s) \<notin> table_keys (db_carriers db)"
    "sr_objectKey s \<in> table_keys (db_objects db)"
    by (auto simp: write_state_def statement_simps state_entry_def carrier_entry_def)
  then have "js_wf (db_states db1)" "js_wf (db_carriers db1)" using Cons.prems(2,3) by simp_all
  from Cons.IH [OF rest this] db1 show ?case by simp
qed simp

lemma write_chapters_shape:
  "foldE (write_chapter h) db cs = Inr db' \<Longrightarrow>
     db' = db\<lparr>db_chapters := db_chapters db @ map (chapter_entry h) cs\<rparr> \<and>
     (\<forall>c \<in> set cs. cr_objectKey c \<in> table_keys (db_objects db))"
proof (induction cs arbitrary: db)
  case (Cons c cs)
  then obtain db1 where one: "write_chapter h db c = Inr db1"
    and rest: "foldE (write_chapter h) db1 cs = Inr db'" by auto
  from one have db1: "db1 = db\<lparr>db_chapters := db_chapters db @ [chapter_entry h c]\<rparr>"
    "cr_objectKey c \<in> table_keys (db_objects db)"
    by (auto simp: write_chapter_def statement_simps chapter_entry_def)
  from Cons.IH [OF rest] db1 show ?case by simp
qed simp

text \<open>Of several spends of one outpoint the last one written stays.\<close>

definition spend_state :: "int \<Rightarrow> (string \<times> string) list \<Rightarrow> string \<Rightarrow> state_table_row \<Rightarrow> state_table_row" where
  "spend_state h spents out r =
     (case js_get (rev spents) out of None \<Rightarrow> r
      | Some txid \<Rightarrow> r\<lparr>sw_spentHeight := Some h, sw_spentTxid := Some txid\<rparr>)"

definition spend_carrier :: "int \<Rightarrow> (string \<times> string) list \<Rightarrow> string \<Rightarrow> carrier_row \<Rightarrow> carrier_row" where
  "spend_carrier h spents out r =
     (case js_get (rev spents) out of None \<Rightarrow> r
      | Some txid \<Rightarrow> r\<lparr>cw_spentHeight := Some h, cw_spentTxid := Some txid\<rparr>)"

lemma spends_shape:
  "fold (mark_spent h) spents db =
     db\<lparr>db_states := map (\<lambda>(out, r). (out, spend_state h spents out r)) (db_states db),
        db_carriers := map (\<lambda>(out, r). (out, spend_carrier h spents out r)) (db_carriers db)\<rparr>"
proof (induction spents arbitrary: db)
  case Nil
  then show ?case by (simp add: spend_state_def spend_carrier_def case_prod_unfold)
next
  case (Cons p spents)
  have states: "spend_state h spents out
      (if out = fst p then r\<lparr>sw_spentHeight := Some h, sw_spentTxid := Some (snd p)\<rparr> else r) =
      spend_state h (p # spents) out r" for out r
    by (cases p) (auto simp: spend_state_def map_add_def split: option.splits)
  have carriers: "spend_carrier h spents out
      (if out = fst p then r\<lparr>cw_spentHeight := Some h, cw_spentTxid := Some (snd p)\<rparr> else r) =
      spend_carrier h (p # spents) out r" for out r
    by (cases p) (auto simp: spend_carrier_def map_add_def split: option.splits)
  note rest = Cons [of "mark_spent h p db"]
  show ?case
    unfolding fold_simps rest
    by (simp add: mark_spent_def update_where_def o_def case_prod_unfold states carriers)
qed

section \<open>A whole block\<close>

text \<open>What a block that is written leaves, table by table.\<close>

definition checkpoint_entry :: "reduced_block \<Rightarrow> int \<times> checkpoint_row" where
  "checkpoint_entry rb =
     (rb_height rb, \<lparr>kw_blockHash = rb_hash rb, kw_eventRoot = rb_eventRoot rb,
        kw_objectStateRoot = rb_objectStateRoot rb, kw_chainedRoot = rb_chainedRoot rb,
        kw_foundingCreated = rb_foundingCreated rb, kw_allObjects = rb_allObjects rb,
        kw_activeObjects = rb_activeObjects rb\<rparr>)"

definition written_states :: "reduced_block \<Rightarrow> database \<Rightarrow> (string, state_table_row) js_map" where
  "written_states rb db =
     map (\<lambda>(out, r). (out, spend_state (rb_height rb) (rb_spentOutpoints rb) out r))
       (db_states db @ map (state_entry (rb_height rb)) (rb_newStates rb))"

definition written_carriers :: "reduced_block \<Rightarrow> database \<Rightarrow> (string, carrier_row) js_map" where
  "written_carriers rb db =
     map (\<lambda>(out, r). (out, spend_carrier (rb_height rb) (rb_spentOutpoints rb) out r))
       (db_carriers db @ map (carrier_entry (rb_height rb)) (rb_newStates rb))"

definition written_block :: "reduced_block \<Rightarrow> database \<Rightarrow> database" where
  "written_block rb db =
     (let h = rb_height rb
      in db\<lparr>db_blocks := db_blocks db @ [(h, block_row_of rb)],
            db_init := (if rb_initConfirmed rb then Some (rb_activation rb) else db_init db),
            db_transactions := db_transactions db @ map (transaction_entry h) (rb_transactions rb),
            db_events := db_events db @ map (event_row_of h) (rb_events rb),
            db_object_undo := db_object_undo db @ map (undo_entry h) (rb_undo rb),
            db_objects := fold (upsert_entry (rb_objects rb)) (rb_undo rb) (db_objects db),
            db_states := written_states rb db,
            db_carriers := written_carriers rb db,
            db_chapters := db_chapters db @ map (chapter_entry h) (rb_chapters rb),
            db_checkpoints := db_checkpoints db @ [checkpoint_entry rb]\<rparr>)"

text \<open>What a database must have been like for a block to go in.\<close>

definition block_accepted :: "reduced_block \<Rightarrow> database \<Rightarrow> bool" where
  "block_accepted rb db =
     (rb_height rb \<notin> table_keys (db_blocks db) \<and>
      rb_height rb \<notin> table_keys (db_checkpoints db) \<and>
      (rb_initConfirmed rb \<longrightarrow> db_init db = None \<and>
         ia_height (rb_activation rb) \<in> insert (rb_height rb) (table_keys (db_blocks db))) \<and>
      js_wf (db_transactions db @ map (transaction_entry (rb_height rb)) (rb_transactions rb)) \<and>
      (\<forall>e \<in> set (rb_events rb). er_txid e \<in>
         table_keys (db_transactions db @ map (transaction_entry (rb_height rb)) (rb_transactions rb))) \<and>
      js_wf (db_states db @ map (state_entry (rb_height rb)) (rb_newStates rb)) \<and>
      js_wf (db_carriers db @ map (carrier_entry (rb_height rb)) (rb_newStates rb)) \<and>
      (\<forall>s \<in> set (rb_newStates rb). sr_objectKey s \<in>
         table_keys (fold (upsert_entry (rb_objects rb)) (rb_undo rb) (db_objects db))) \<and>
      (\<forall>c \<in> set (rb_chapters rb). cr_objectKey c \<in>
         table_keys (fold (upsert_entry (rb_objects rb)) (rb_undo rb) (db_objects db))))"

lemma writeBlock_shape:
  assumes "writeBlock db rb = Inr db'" and keys: "keys_ok db"
  shows "db' = written_block rb db \<and> block_accepted rb db"
proof -
  let ?h = "rb_height rb"
  let ?objects = "fold (upsert_entry (rb_objects rb)) (rb_undo rb) (db_objects db)"
  from assms(1) obtain d1 d2 d3 d4 d5 d6 d7 where steps:
    "write_block_row rb db = Inr d1" "write_init rb d1 = Inr d2"
    "foldE (write_transaction ?h) d2 (rb_transactions rb) = Inr d3"
    "foldE (write_event ?h) d3 (rb_events rb) = Inr d4"
    "foldE (write_undo ?h (rb_objects rb)) d4 (rb_undo rb) = Inr d5"
    "foldE (write_state ?h) d5 (rb_newStates rb) = Inr d6"
    "foldE (write_chapter ?h) (fold (mark_spent ?h) (rb_spentOutpoints rb) d6) (rb_chapters rb) = Inr d7"
    "write_checkpoint rb d7 = Inr db'"
    unfolding writeBlock_def bindE_Inr_iff by blast
  from steps(1) have d1: "d1 = db\<lparr>db_blocks := db_blocks db @ [(?h, block_row_of rb)]\<rparr>"
    "?h \<notin> table_keys (db_blocks db)"
    by (auto simp: write_block_row_def statement_simps)
  from steps(2) have d2: "d2 = d1\<lparr>db_init := (if rb_initConfirmed rb then Some (rb_activation rb) else db_init d1)\<rparr>"
    "rb_initConfirmed rb \<longrightarrow> db_init d1 = None \<and> ia_height (rb_activation rb) \<in> table_keys (db_blocks d1)"
    by (auto simp: write_init_def statement_simps split: if_splits)
  have "js_wf (db_transactions d2)" using keys d1 d2 by (simp add: keys_ok_def)
  note d3 = write_transactions_shape [OF steps(3) this]
  note d4 = write_events_shape [OF steps(4)]
  note d5 = write_undo_shape [OF steps(5)]
  have "js_wf (db_states d5)" "js_wf (db_carriers d5)"
    using keys d1 d2 d3 d4 d5 by (simp_all add: keys_ok_def)
  note d6 = write_states_shape [OF steps(6) this]
  note d7 = write_chapters_shape [OF steps(7)]
  from steps(8) have d8: "db' = d7\<lparr>db_checkpoints := db_checkpoints d7 @ [checkpoint_entry rb]\<rparr>"
    "?h \<notin> table_keys (db_checkpoints d7)"
    by (auto simp: write_checkpoint_def statement_simps checkpoint_entry_def)
  have spent: "fold (mark_spent ?h) (rb_spentOutpoints rb) d6 = d6\<lparr>db_states := written_states rb db,
      db_carriers := written_carriers rb db\<rparr>"
    using d1(1) d2(1) d3 d4 d5 d6 by (simp add: spends_shape written_states_def written_carriers_def)
  have "db' = written_block rb db"
    using d1(1) d2(1) d3 d4 d5 d6 d7 d8(1) spent by (simp add: written_block_def Let_def)
  moreover have "block_accepted rb db"
    using d1 d2 d3 d4 d5 d6 d7 d8 spent by (auto simp: block_accepted_def)
  ultimately show ?thesis by blast
qed

end
