(* ===== verification/Store_Rollback.thy ===== *)
theory Store_Rollback
  imports Store_Shape
begin

text \<open>
  Disconnecting a block undoes connecting it.  \<open>block_fits\<close> says how a block relates to the database
  it is written to (its undo snapshots are the stored objects, what it spends is stored unspent); then
  \<open>disconnect_height\<close> after \<open>writeBlock\<close> gives back the database, table by table and row by row.  The
  rollback of the store satisfies the interface of the reorganization service.
\<close>

section \<open>The interface of the reorganization service\<close>

definition stored_tip :: "database \<Rightarrow> (int \<times> string) option" where
  "stored_tip db = map_option (\<lambda>tip. (ct_height tip, ct_hash tip)) (canonicalTip db)"

lemma highest_Some:
  "highest t = Some (h, r) \<Longrightarrow> js_get t h = Some r \<and> (\<forall>k \<in> table_keys t. k \<le> h)"
  by (force simp: highest_def Let_def split: if_splits intro: Max_ge)

lemma highest_None: "highest t = None \<longleftrightarrow> t = []"
proof -
  have "js_get t (Max (table_keys t)) \<noteq> None" if "t \<noteq> []"
    using Max_in [of "table_keys t"] that by (simp add: map_of_eq_None_iff)
  then show ?thesis by (auto simp: highest_def Let_def)
qed

lemma disconnect_objects_blocks:
  "db_blocks (fold restore_object us db) = db_blocks db"
  by (induction us arbitrary: db) (auto simp: restore_object_def delete_object_def split: option.split)

lemma disconnect_blocks: "db_blocks (disconnect_height h db) = js_delete h (db_blocks db)"
proof -
  have "db_blocks (delete_block h d) = js_delete h (db_blocks d)" for d
    by (auto simp: delete_block_def Let_def map_of_eq_None_iff)
  then show ?thesis
    by (simp add: disconnect_height_def Let_def disconnect_objects_blocks unwind_rows_def)
qed

lemma disconnect_all_blockHash:
  "blockHash (fold disconnect_height hs db) h = (if h \<in> set hs then None else blockHash db h)"
  by (induction hs arbitrary: db) (auto simp: blockHash_def disconnect_blocks js_get_delete)

interpretation indexer_store: reorg_store rollback blockHash stored_tip
proof unfold_locales
  fix db db' :: database and plan :: reorg_plan and j :: reorg_journal and h :: int and x
  assume run: "rollback db plan j = Inr db'"
  show "stored_tip db = Some (rp_oldTipHeight plan, rj_oldTipHash j)"
    using run by (auto simp: rollback_def stored_tip_def split: option.splits)
  show "blockHash db (rp_ancestorHeight plan) = Some x \<Longrightarrow> x = rj_ancestorHash j"
    using run by (auto simp: rollback_def split: option.splits)
  have "blockHash db' h = blockHash (fold disconnect_height (rp_rollbackHeights plan) db) h"
    using run by (auto simp: rollback_def Let_def blockHash_def)
  then show "blockHash db' h = (if h \<in> set (rp_rollbackHeights plan) then None else blockHash db h)"
    by (simp add: disconnect_all_blockHash)
next
  fix db :: database and n h x y
  assume tip: "stored_tip db = Some (n, x)"
  then obtain row where row: "highest (db_blocks db) = Some (n, row)" "x = bk_hash row"
    by (auto simp: stored_tip_def canonicalTip_def)
  from highest_Some [OF row(1)] row(2) show "blockHash db n = Some x" by (simp add: blockHash_def)
  assume "blockHash db h = Some y"
  then have "h \<in> table_keys (db_blocks db)" by (force simp: blockHash_def dest: map_of_SomeD)
  then show "h \<le> n" using highest_Some [OF row(1)] by blast
qed

section \<open>Objects\<close>

text \<open>An undo entry fits the object table, and no two objects share a create transaction.\<close>

definition entry_fits ::
  "object_map \<Rightarrow> (string, object_row) js_map \<Rightarrow> string \<times> object_record option \<Rightarrow> bool" where
  "entry_fits objects t p =
     (case snd p of
        None \<Rightarrow> fst p \<notin> table_keys t \<and>
          (\<forall>r. js_get objects (fst p) = Some r \<longrightarrow> or_createTxid r \<notin> ow_createTxid ` table_rows t)
      | Some prior \<Rightarrow> or_objectKey prior = fst p \<and> js_get t (fst p) = Some (object_row_of prior))"

definition create_txids_distinct :: "object_map \<Rightarrow> bool" where
  "create_txids_distinct objects =
     (\<forall>k k' r r'. js_get objects k = Some r \<longrightarrow> js_get objects k' = Some r' \<longrightarrow>
        or_createTxid r = or_createTxid r' \<longrightarrow> k = k')"

definition restore_row ::
  "string \<times> object_record option \<Rightarrow> (string, object_row) js_map \<Rightarrow> (string, object_row) js_map" where
  "restore_row p t =
     (case snd p of None \<Rightarrow> js_delete (fst p) t
      | Some prior \<Rightarrow> update_where (\<lambda>k _. k = or_objectKey prior) (assign_object prior) t)"

lemma duplicate_key_fresh:
  assumes "k \<notin> table_keys t" and "or_objectKey r = k"
    and "or_createTxid r \<notin> ow_createTxid ` table_rows t"
  shows "duplicate_key t r = None"
proof -
  have "find (\<lambda>(_, row). ow_createTxid row = or_createTxid r) t = None"
    using assms(3) by (force simp: find_None_iff)
  then show ?thesis using assms(1,2) by (simp add: duplicate_key_def map_of_eq_None_iff)
qed

text \<open>What an upsert does to a table, for a fresh object and for a stored one.\<close>

lemma upsert_fresh:
  assumes "filed objects" and "entry_fits objects t (k, None)" and "js_get objects k = Some r"
  shows "upsert_entry objects (k, None) t = t @ [(k, object_row_of r)]"
proof -
  have "or_objectKey r = k" using assms(1,3) by (simp add: filed_def)
  moreover from this have "duplicate_key t r = None"
    using assms(2,3) by (intro duplicate_key_fresh [of k]) (auto simp: entry_fits_def)
  ultimately show ?thesis using assms(3) by (simp add: upsert_entry_def upsertObject_def)
qed

lemma upsert_stored:
  assumes "filed objects" and "js_get t k = Some row" and "js_get objects k = Some r"
  shows "upsert_entry objects (k, v) t = update_where (\<lambda>k' _. k' = k) (assign_object r) t"
proof -
  have "or_objectKey r = k" using assms(1,3) by (simp add: filed_def)
  then show ?thesis
    using assms by (simp add: upsert_entry_def upsertObject_def duplicate_key_def)
qed

lemma assign_object_simps [simp]:
  "assign_object r (assign_object r' row) = assign_object r row"
  "assign_object r (object_row_of r) = object_row_of r"
  "ow_createTxid (assign_object r row) = ow_createTxid row"
  "ow_createHeight (assign_object r row) = ow_createHeight row"
  by (simp_all add: assign_object_def object_row_of_def)

lemma restore_one_row:
  assumes "filed objects" and "js_wf t" and "entry_fits objects t p"
  shows "restore_row p (upsert_entry objects p t) = t"
proof (cases "snd p")
  case None
  obtain k where p: "p = (k, None)" using None by (cases p) simp
  have k: "k \<notin> table_keys t" using assms(3) by (simp add: entry_fits_def p)
  show ?thesis
  proof (cases "js_get objects k")
    case None
    then show ?thesis using k by (simp add: p upsert_entry_def restore_row_def)
  next
    case (Some r)
    then show ?thesis using assms k by (simp add: p upsert_fresh restore_row_def)
  qed
next
  case (Some prior)
  obtain k where p: "p = (k, Some prior)" using Some by (cases p) simp
  have k: "or_objectKey prior = k" "js_get t k = Some (object_row_of prior)"
    using assms(3) by (simp_all add: entry_fits_def p)
  have row: "row = object_row_of prior" if "(k, row) \<in> set t" for row
    using that k(2) map_of_is_SomeI [OF assms(2)] by fastforce
  have back_to_prior: "update_where (\<lambda>k' _. k' = k) (assign_object prior) t = t"
    by (rule update_where_same) (auto dest: row)
  show ?thesis
  proof (cases "js_get objects k")
    case None
    then show ?thesis using k back_to_prior by (simp add: p upsert_entry_def restore_row_def)
  next
    case (Some r)
    have "update_where (\<lambda>k' _. k' = k) (assign_object prior)
        (update_where (\<lambda>k' _. k' = k) (assign_object r) t) = t"
    proof -
      have "update_where (\<lambda>k' _. k' = k) (assign_object prior)
          (update_where (\<lambda>k' _. k' = k) (assign_object r) t) =
        update_where (\<lambda>k' _. k' = k) (assign_object prior) t"
        by (simp add: update_where_def case_prod_unfold o_def)
      then show ?thesis using back_to_prior by simp
    qed
    then show ?thesis using k upsert_stored [OF assms(1) k(2) Some] by (simp add: p restore_row_def)
  qed
qed

lemma upsert_cases:
  assumes "filed objects" and "entry_fits objects t (k, v)"
  obtains "js_get objects k = None" "upsert_entry objects (k, v) t = t"
    | r where "js_get objects k = Some r" "v = None" "k \<notin> table_keys t"
        "upsert_entry objects (k, v) t = t @ [(k, object_row_of r)]"
    | r where "js_get objects k = Some r" "v \<noteq> None"
        "upsert_entry objects (k, v) t = update_where (\<lambda>k' _. k' = k) (assign_object r) t"
proof (cases "js_get objects k")
  case None
  then show ?thesis using that(1) by (simp add: upsert_entry_def)
next
  case (Some r)
  show ?thesis
  proof (cases v)
    case None
    then show ?thesis using that(2) Some assms(2) upsert_fresh [OF assms(1) _ Some]
      by (simp add: entry_fits_def)
  next
    case v: (Some prior)
    then show ?thesis using that(3) Some assms(2) upsert_stored [OF assms(1) _ Some]
      by (simp add: entry_fits_def)
  qed
qed

lemma upsert_wf:
  assumes "filed objects" and "js_wf t" and "entry_fits objects t p"
  shows "js_wf (upsert_entry objects p t)"
proof -
  obtain k v where p: "p = (k, v)" by (cases p)
  show ?thesis
    using assms(1) assms(3) [unfolded p] by (cases rule: upsert_cases) (use assms(2) p in auto)
qed

lemma upsert_keys:
  assumes "filed objects" and "entry_fits objects t p"
  shows "table_keys (upsert_entry objects p t) =
    table_keys t \<union> (if js_get objects (fst p) = None then {} else {fst p})"
proof -
  obtain k v where p: "p = (k, v)" by (cases p)
  have v: "v \<noteq> None \<Longrightarrow> k \<in> table_keys t"
    using assms(2) by (force simp: p entry_fits_def dest: map_of_SomeD)
  show ?thesis
    using assms(1) assms(2) [unfolded p] by (cases rule: upsert_cases) (use v p in auto)
qed

lemma upsert_keeps_fits:
  assumes "filed objects" and "create_txids_distinct objects"
    and "entry_fits objects t p" and "entry_fits objects t q" and "fst p \<noteq> fst q"
  shows "entry_fits objects (upsert_entry objects p t) q"
proof -
  let ?t = "upsert_entry objects p t"
  obtain k v where p: "p = (k, v)" by (cases p)
  show ?thesis
    using assms(1) assms(3) [unfolded p]
  proof (cases rule: upsert_cases)
    case 1
    then show ?thesis using assms(4) p by simp
  next
    case (2 r)
    have "or_createTxid r' \<noteq> or_createTxid r" if "js_get objects (fst q) = Some r'" for r'
      using assms(2,5) that 2(1) p unfolding create_txids_distinct_def by fastforce
    then show ?thesis
      using 2 assms(4,5) p
      by (auto simp: entry_fits_def object_row_of_def split: option.splits)
  next
    case (3 r)
    have "ow_createTxid ` table_rows ?t = ow_createTxid ` table_rows t"
      unfolding p 3(3) by (force simp: update_where_def image_iff split: if_splits)
    then show ?thesis
      using 3 assms(4,5) p
      by (auto simp: entry_fits_def update_where_get split: option.splits)
  qed
qed

lemma restore_rows:
  assumes "filed objects" and "create_txids_distinct objects"
  shows "js_wf t \<Longrightarrow> js_wf us \<Longrightarrow> list_all (entry_fits objects t) us \<Longrightarrow>
    fold restore_row (rev us) (fold (upsert_entry objects) us t) = t"
proof (induction us arbitrary: t)
  case (Cons p us)
  let ?t = "upsert_entry objects p t"
  have p: "entry_fits objects t p" using Cons.prems(3) by simp
  have us: "entry_fits objects t q \<and> fst p \<noteq> fst q" if "q \<in> set us" for q
    using Cons.prems(2,3) that by (force simp: list_all_iff)
  have "js_wf ?t" using upsert_wf [OF assms(1) Cons.prems(1) p] .
  moreover have "list_all (entry_fits objects ?t) us"
    using upsert_keeps_fits [OF assms p] us by (simp add: list_all_iff)
  ultimately have "fold restore_row (rev us) (fold (upsert_entry objects) us ?t) = ?t"
    using Cons.IH Cons.prems(2) by simp
  then show ?case using restore_one_row [OF assms(1) Cons.prems(1) p] by simp
qed simp

section \<open>A block that fits\<close>

text \<open>
  How a block relates to the database it is written to: its undo map holds the stored objects, the
  objects it leaves are filed under their keys and have their own create transactions, what it spends
  is stored unspent or new, and a confirmed \<open>INIT\<close> is of its own height.
\<close>

definition block_fits :: "reduced_block \<Rightarrow> database \<Rightarrow> bool" where
  "block_fits rb db =
     (filed (rb_objects rb) \<and> create_txids_distinct (rb_objects rb) \<and> js_wf (rb_undo rb) \<and>
      list_all (entry_fits (rb_objects rb) (db_objects db)) (rb_undo rb) \<and>
      (\<forall>out \<in> set (map fst (rb_spentOutpoints rb)).
         (\<forall>r. js_get (db_states db) out = Some r \<longrightarrow> sw_spentHeight r = None) \<and>
         (\<forall>r. js_get (db_carriers db) out = Some r \<longrightarrow> cw_spentHeight r = None)) \<and>
      (rb_initConfirmed rb \<longrightarrow> ia_height (rb_activation rb) = rb_height rb))"

text \<open>Restoring only touches the object table when nothing hangs on the objects it deletes.\<close>

lemma restore_object_rows:
  assumes "uw_prior u = None \<Longrightarrow>
      (\<forall>r \<in> table_rows (db_states db). sw_objectKey r \<noteq> uw_objectKey u) \<and>
      (\<forall>r \<in> table_rows (db_carriers db). cw_objectKey r \<noteq> uw_objectKey u) \<and>
      (\<forall>r \<in> set (db_chapters db). hw_objectKey r \<noteq> uw_objectKey u)"
  shows "restore_object u db = db\<lparr>db_objects := restore_row (uw_objectKey u, uw_prior u) (db_objects db)\<rparr>"
proof (cases "uw_prior u")
  case None
  have "delete_where (\<lambda>_ r. sw_objectKey r = uw_objectKey u) (db_states db) = db_states db"
    "delete_where (\<lambda>_ r. cw_objectKey r = uw_objectKey u) (db_carriers db) = db_carriers db"
    "filter (\<lambda>r. hw_objectKey r \<noteq> uw_objectKey u) (db_chapters db) = db_chapters db"
    using assms None by (force intro!: delete_where_same filter_all_True)+
  then show ?thesis using None by (simp add: restore_object_def delete_object_def restore_row_def)
next
  case (Some prior)
  then show ?thesis by (simp add: restore_object_def restore_row_def)
qed

definition hangs_on :: "database \<Rightarrow> string \<Rightarrow> bool" where
  "hangs_on db k =
     ((\<exists>r \<in> table_rows (db_states db). sw_objectKey r = k) \<or>
      (\<exists>r \<in> table_rows (db_carriers db). cw_objectKey r = k) \<or>
      (\<exists>r \<in> set (db_chapters db). hw_objectKey r = k))"

lemma restore_objects_rows:
  "\<forall>p \<in> set us. snd p = None \<longrightarrow> \<not> hangs_on db (fst p) \<Longrightarrow>
   fold restore_object (map (undo_entry h) us) db =
     db\<lparr>db_objects := fold restore_row us (db_objects db)\<rparr>"
proof (induction us arbitrary: db)
  case (Cons p us)
  have one: "restore_object (undo_entry h p) db = db\<lparr>db_objects := restore_row p (db_objects db)\<rparr>"
    using Cons.prems by (subst restore_object_rows) (auto simp: undo_entry_def hangs_on_def)
  show ?case
    unfolding list.map fold_simps one using Cons.prems by (subst Cons.IH) (simp_all add: hangs_on_def)
qed simp

section \<open>Rows come back\<close>

text \<open>A spent row whose spend is at the height is reset; the others keep theirs.\<close>

lemma unspend_states:
  assumes "\<forall>r \<in> table_rows t. state_ok db r" and "h \<notin> table_keys (db_blocks db)" and "js_wf t"
    and "\<forall>out \<in> set (map fst spents). \<forall>r. js_get t out = Some r \<longrightarrow> sw_spentHeight r = None"
  shows "update_where (\<lambda>_ r. sw_spentHeight r = Some h) (\<lambda>r. r\<lparr>sw_spentHeight := None, sw_spentTxid := None\<rparr>)
    (delete_where (\<lambda>_ r. sw_createdHeight r = h)
      (map (\<lambda>(out, r). (out, spend_state h spents out r)) (t @ map (state_entry h) ss))) = t"
proof -
  let ?mark = "map (\<lambda>(out, r). (out, spend_state h spents out r))"
  have created: "sw_createdHeight (spend_state h spents out r) = sw_createdHeight r" for out r
    by (simp add: spend_state_def split: option.split)
  have new: "delete_where (\<lambda>_ r. sw_createdHeight r = h) (?mark (map (state_entry h) ss)) = []"
    by (rule delete_where_none) (auto simp: created state_entry_def)
  have rows: "sw_createdHeight r \<noteq> h \<and> sw_spentHeight r \<noteq> Some h \<and>
      (sw_spentHeight r = None \<longrightarrow> sw_spentTxid r = None) \<and>
      (js_get (rev spents) out \<noteq> None \<longrightarrow> sw_spentHeight r = None)" if r: "(out, r) \<in> set t" for out r
  proof -
    have "state_ok db r" using assms(1) r by force
    moreover have "sw_spentHeight r = None" if spent: "js_get (rev spents) out \<noteq> None"
    proof -
      obtain txid where "js_get (rev spents) out = Some txid" using spent by auto
      then have "(out, txid) \<in> set spents" by (auto dest: map_of_SomeD)
      moreover have "js_get t out = Some r" using assms(3) r by simp
      ultimately show ?thesis using assms(4) by force
    qed
    ultimately show ?thesis using assms(2) by (auto simp: state_ok_def)
  qed
  have old: "delete_where (\<lambda>_ r. sw_createdHeight r = h) (?mark t) = ?mark t"
    by (rule delete_where_same) (auto simp: created dest: rows)
  have reset: "(if sw_spentHeight r' = Some h then r'\<lparr>sw_spentHeight := None, sw_spentTxid := None\<rparr> else r') = r"
    if "(out, r) \<in> set t" "r' = spend_state h spents out r" for out r r'
    using rows [OF that(1)] that(2)
    by (cases r) (auto simp: spend_state_def split: option.splits)
  have "update_where (\<lambda>_ r. sw_spentHeight r = Some h) (\<lambda>r. r\<lparr>sw_spentHeight := None, sw_spentTxid := None\<rparr>)
      (?mark t) = t"
    unfolding update_where_def map_map by (rule map_idI) (use reset in auto)
  then show ?thesis using old new by simp
qed

lemma unspend_carriers:
  assumes "\<forall>r \<in> table_rows t. carrier_ok db r" and "h \<notin> table_keys (db_blocks db)" and "js_wf t"
    and "\<forall>out \<in> set (map fst spents). \<forall>r. js_get t out = Some r \<longrightarrow> cw_spentHeight r = None"
  shows "update_where (\<lambda>_ r. cw_spentHeight r = Some h) (\<lambda>r. r\<lparr>cw_spentHeight := None, cw_spentTxid := None\<rparr>)
    (delete_where (\<lambda>_ r. cw_createdHeight r = h)
      (map (\<lambda>(out, r). (out, spend_carrier h spents out r)) (t @ map (carrier_entry h) ss))) = t"
proof -
  let ?mark = "map (\<lambda>(out, r). (out, spend_carrier h spents out r))"
  have created: "cw_createdHeight (spend_carrier h spents out r) = cw_createdHeight r" for out r
    by (simp add: spend_carrier_def split: option.split)
  have new: "delete_where (\<lambda>_ r. cw_createdHeight r = h) (?mark (map (carrier_entry h) ss)) = []"
    by (rule delete_where_none) (auto simp: created carrier_entry_def)
  have rows: "cw_createdHeight r \<noteq> h \<and> cw_spentHeight r \<noteq> Some h \<and>
      (cw_spentHeight r = None \<longrightarrow> cw_spentTxid r = None) \<and>
      (js_get (rev spents) out \<noteq> None \<longrightarrow> cw_spentHeight r = None)" if r: "(out, r) \<in> set t" for out r
  proof -
    have "carrier_ok db r" using assms(1) r by force
    moreover have "cw_spentHeight r = None" if spent: "js_get (rev spents) out \<noteq> None"
    proof -
      obtain txid where "js_get (rev spents) out = Some txid" using spent by auto
      then have "(out, txid) \<in> set spents" by (auto dest: map_of_SomeD)
      moreover have "js_get t out = Some r" using assms(3) r by simp
      ultimately show ?thesis using assms(4) by force
    qed
    ultimately show ?thesis using assms(2) by (auto simp: carrier_ok_def)
  qed
  have old: "delete_where (\<lambda>_ r. cw_createdHeight r = h) (?mark t) = ?mark t"
    by (rule delete_where_same) (auto simp: created dest: rows)
  have reset: "(if cw_spentHeight r' = Some h then r'\<lparr>cw_spentHeight := None, cw_spentTxid := None\<rparr> else r') = r"
    if "(out, r) \<in> set t" "r' = spend_carrier h spents out r" for out r r'
    using rows [OF that(1)] that(2)
    by (cases r) (auto simp: spend_carrier_def split: option.splits)
  have "update_where (\<lambda>_ r. cw_spentHeight r = Some h) (\<lambda>r. r\<lparr>cw_spentHeight := None, cw_spentTxid := None\<rparr>)
      (?mark t) = t"
    unfolding update_where_def map_map by (rule map_idI) (use reset in auto)
  then show ?thesis using old new by simp
qed

text \<open>No row of a consistent database mentions a height that has no block.\<close>

lemma unknown_height:
  assumes "db_ok db" and "h \<notin> table_keys (db_blocks db)"
  shows "u \<in> set (db_object_undo db) \<Longrightarrow> uw_height u \<noteq> h"
    and "(k, t) \<in> set (db_transactions db) \<Longrightarrow> tw_blockHeight t \<noteq> h"
    and "e \<in> set (db_events db) \<Longrightarrow> ew_blockHeight e \<noteq> h"
    and "e \<in> set (db_events db) \<Longrightarrow> ew_txid e \<in> table_keys (db_transactions db)"
    and "h \<notin> table_keys (db_checkpoints db)"
    and "db_init db = Some i \<Longrightarrow> ia_height i \<noteq> h"
    and "c \<in> set (db_chapters db) \<Longrightarrow> hw_blockHeight c \<noteq> h"
proof -
  have refs: "\<forall>r \<in> table_rows (db_transactions db). tw_blockHeight r \<noteq> h"
    "\<forall>e \<in> set (db_events db). ew_blockHeight e \<noteq> h \<and> ew_txid e \<in> table_keys (db_transactions db)"
    "\<forall>i. db_init db = Some i \<longrightarrow> ia_height i \<noteq> h" "\<forall>u \<in> set (db_object_undo db). uw_height u \<noteq> h"
    "\<forall>c \<in> set (db_chapters db). hw_blockHeight c \<noteq> h"
    using assms unfolding db_ok_def block_refs_ok_def object_refs_ok_def Let_def by metis+
  show "h \<notin> table_keys (db_checkpoints db)"
    using assms unfolding db_ok_def block_refs_ok_def Let_def by (meson subsetD)
  show "u \<in> set (db_object_undo db) \<Longrightarrow> uw_height u \<noteq> h" using refs(4) by blast
  show "(k, t) \<in> set (db_transactions db) \<Longrightarrow> tw_blockHeight t \<noteq> h" using refs(1) by force
  show "e \<in> set (db_events db) \<Longrightarrow> ew_blockHeight e \<noteq> h"
    "e \<in> set (db_events db) \<Longrightarrow> ew_txid e \<in> table_keys (db_transactions db)" using refs(2) by blast+
  show "db_init db = Some i \<Longrightarrow> ia_height i \<noteq> h" using refs(3) by blast
  show "c \<in> set (db_chapters db) \<Longrightarrow> hw_blockHeight c \<noteq> h" using refs(5) by blast
qed

section \<open>Disconnecting what was connected\<close>

theorem disconnect_writeBlock:
  assumes ok: "db_ok db" and fits: "block_fits rb db" and run: "writeBlock db rb = Inr db'"
  shows "disconnect_height (rb_height rb) db' = db"
proof -
  let ?h = "rb_height rb"
  have keys: "keys_ok db" and brefs: "block_refs_ok db" and orefs: "object_refs_ok db"
    using ok by (simp_all add: db_ok_def)
  have db': "db' = written_block rb db" and acc: "block_accepted rb db"
    using writeBlock_shape [OF run keys] by blast+
  have fresh: "?h \<notin> table_keys (db_blocks db)" using acc by (simp add: block_accepted_def)
  note unknown = unknown_height [OF ok fresh]
  have undo: "filter (\<lambda>u. uw_height u = ?h) (db_object_undo db') = map (undo_entry ?h) (rb_undo rb)"
    "filter (\<lambda>u. uw_height u \<noteq> ?h) (db_object_undo db') = db_object_undo db"
    using unknown(1)
    by (auto simp: db' written_block_def Let_def undo_entry_def intro!: filter_all_True filter_all_False)
  let ?u = "unwind_rows ?h db'"
  have "db_states ?u = db_states db" "db_carriers ?u = db_carriers db"
    using unspend_states [of "db_states db" db ?h "rb_spentOutpoints rb" "rb_newStates rb"]
      unspend_carriers [of "db_carriers db" db ?h "rb_spentOutpoints rb" "rb_newStates rb"]
      orefs keys fresh fits
    by (simp_all add: unwind_rows_def db' written_block_def Let_def written_states_def
        written_carriers_def object_refs_ok_def keys_ok_def block_fits_def)
  moreover have "db_chapters ?u = db_chapters db"
    using unknown(7)
    by (auto simp: unwind_rows_def db' written_block_def Let_def chapter_entry_def
        intro!: filter_all_True filter_all_False)
  ultimately have u: "?u = db'\<lparr>db_states := db_states db, db_carriers := db_carriers db,
      db_chapters := db_chapters db\<rparr>"
    by (simp add: unwind_rows_def)
  have "\<not> hangs_on ?u k" if "k \<notin> table_keys (db_objects db)" for k
    using that orefs
    unfolding hangs_on_def u by (auto simp: object_refs_ok_def state_ok_def carrier_ok_def)
  moreover have "fst p \<notin> table_keys (db_objects db)" if "p \<in> set (rb_undo rb)" "snd p = None" for p
  proof -
    have "entry_fits (rb_objects rb) (db_objects db) p"
      using fits that(1) by (simp add: block_fits_def list_all_iff)
    then show ?thesis using that(2) by (simp add: entry_fits_def)
  qed
  ultimately have "fold restore_object (map (undo_entry ?h) (rev (rb_undo rb))) ?u =
      ?u\<lparr>db_objects := fold restore_row (rev (rb_undo rb)) (db_objects ?u)\<rparr>"
    by (intro restore_objects_rows) simp
  moreover have "fold restore_row (rev (rb_undo rb)) (db_objects ?u) = db_objects db"
  proof -
    have "db_objects ?u = fold (upsert_entry (rb_objects rb)) (rb_undo rb) (db_objects db)"
      by (simp add: unwind_rows_def db' written_block_def Let_def)
    then show ?thesis
      using restore_rows [of "rb_objects rb" "db_objects db" "rb_undo rb"] fits keys
      by (simp add: block_fits_def keys_ok_def)
  qed
  ultimately have restored: "fold restore_object (rev (map (undo_entry ?h) (rb_undo rb))) ?u =
      db'\<lparr>db_states := db_states db, db_carriers := db_carriers db,
          db_chapters := db_chapters db, db_objects := db_objects db\<rparr>"
    unfolding u by (simp add: rev_map)
  have blocks: "js_get (db_blocks db') ?h \<noteq> None" "js_delete ?h (db_blocks db') = db_blocks db"
    "js_delete ?h (db_checkpoints db') = db_checkpoints db"
    using fresh acc
    by (auto simp: db' written_block_def Let_def map_of_eq_None_iff block_accepted_def checkpoint_entry_def)
  have txs: "delete_where (\<lambda>_ r. tw_blockHeight r = ?h) (db_transactions db') = db_transactions db"
    and gone: "map fst (filter (\<lambda>(_, r). tw_blockHeight r = ?h) (db_transactions db')) =
      map (fst \<circ> transaction_entry ?h) (rb_transactions rb)"
    using unknown(2)
    by (auto simp: db' written_block_def Let_def transaction_entry_def delete_where_def
        intro!: filter_all_True filter_all_False)
  have "ew_txid e \<notin> (fst \<circ> transaction_entry ?h) ` set (rb_transactions rb)" if "e \<in> set (db_events db)" for e
    using unknown(4) [OF that] acc by (force simp: block_accepted_def)
  then have events: "filter (\<lambda>e. ew_blockHeight e \<noteq> ?h \<and>
      ew_txid e \<notin> set (map (fst \<circ> transaction_entry ?h) (rb_transactions rb))) (db_events db') = db_events db"
    using unknown(3)
    by (auto simp: db' written_block_def Let_def event_row_of_def
        intro!: filter_all_True filter_all_False)
  have init: "(case db_init db' of None \<Rightarrow> None | Some i \<Rightarrow> if ia_height i = ?h then None else Some i) = db_init db"
    using unknown(6) fits acc
    by (auto simp: db' written_block_def Let_def block_fits_def block_accepted_def split: option.split)
  have "disconnect_height ?h db' = delete_block ?h (db'\<lparr>db_states := db_states db,
      db_carriers := db_carriers db, db_chapters := db_chapters db, db_objects := db_objects db\<rparr>)"
    using restored by (simp add: disconnect_height_def Let_def undo(1))
  also have "\<dots> = db'\<lparr>db_states := db_states db, db_carriers := db_carriers db,
      db_chapters := db_chapters db, db_objects := db_objects db, db_blocks := db_blocks db,
      db_transactions := db_transactions db, db_events := db_events db,
      db_checkpoints := db_checkpoints db, db_init := db_init db, db_object_undo := db_object_undo db\<rparr>"
  proof -
    obtain y where "js_get (db_blocks db') ?h = Some y" using blocks(1) by auto
    then show ?thesis
      using blocks txs gone events init undo(2) by (simp add: delete_block_def Let_def)
  qed
  also have "\<dots> = db" by (simp add: db' written_block_def Let_def)
  finally show ?thesis .
qed

end
