(* ===== verification/Store_Consistency.thy ===== *)
theory Store_Consistency
  imports Store_Rollback
begin

text \<open>
  The store and the memory agree.  \<open>loadObjects\<close> (\<open>src/indexer/sync.service.ts\<close>) reads the objects back
  from the tables; \<open>store_ok\<close> says that it would give the objects in memory and that the unspent
  states are the active outpoints.  Writing a reduced block keeps it, so a restart at any block
  boundary continues from the same objects.
\<close>

section \<open>Reading the objects back\<close>

definition objectFromRow :: "string \<Rightarrow> object_row \<Rightarrow> int option \<Rightarrow> object_record" where
  "objectFromRow objectKey row currentHeight =
     \<lparr>or_objectKey = objectKey, or_createTxid = ow_createTxid row, or_createHeight = ow_createHeight row,
      or_founding = ow_founding row, or_status = ow_status row, or_stateSequence = ow_stateSequence row,
      or_currentOutpoint = ow_currentOutpoint row, or_currentHeight = currentHeight,
      or_key0 = ow_key0 row, or_key1 = ow_key1 row, or_terminalTxid = ow_terminalTxid row,
      or_chapterCount = ow_chapterCount row\<rparr>"

text \<open>
  \<open>LEFT JOIN tandem_states s ON s.outpoint = o.current_outpoint\<close>: the outpoint is the primary key of
  the states, so the join finds one row or none, and none for an object without outpoint.
\<close>

definition joined_height :: "database \<Rightarrow> object_row \<Rightarrow> int option" where
  "joined_height db row =
     (case ow_currentOutpoint row of None \<Rightarrow> None
      | Some out \<Rightarrow> map_option sw_createdHeight (js_get (db_states db) out))"

definition loadObjects :: "database \<Rightarrow> object_map" where
  "loadObjects db = map (\<lambda>(k, row). (k, objectFromRow k row (joined_height db row))) (db_objects db)"

lemma loadObjects_get:
  "js_get (loadObjects db) k =
     map_option (\<lambda>row. objectFromRow k row (joined_height db row)) (js_get (db_objects db) k)"
proof -
  have "js_get (map (\<lambda>(k, row). (k, objectFromRow k row (joined_height db row))) t) k =
      map_option (\<lambda>row. objectFromRow k row (joined_height db row)) (js_get t k)" for t
    by (induction t) auto
  then show ?thesis by (simp add: loadObjects_def)
qed

lemma object_row_objectFromRow [simp]: "object_row_of (objectFromRow k row h) = row"
  by (simp add: object_row_of_def objectFromRow_def)

lemma objectFromRow_object_row [simp]:
  "objectFromRow k (object_row_of r) h = r\<lparr>or_objectKey := k, or_currentHeight := h\<rparr>"
  by (simp add: object_row_of_def objectFromRow_def)

lemma loaded_height: "or_currentHeight (objectFromRow k row h) = h"
  by (simp add: objectFromRow_def)

section \<open>The invariant\<close>

definition store_ok :: "database \<Rightarrow> object_map \<Rightarrow> bool" where
  "store_ok db objects =
     (db_ok db \<and> (\<forall>k. js_get (loadObjects db) k = js_get objects k) \<and>
      (\<forall>out r. js_get (db_states db) out = Some r \<longrightarrow>
         (sw_spentHeight r = None \<longleftrightarrow> out \<in> active_outpoints objects)) \<and>
      active_outpoints objects \<subseteq> table_keys (db_states db) \<and>
      (\<forall>out. map_option cw_spentHeight (js_get (db_carriers db) out) =
         map_option sw_spentHeight (js_get (db_states db) out)))"

lemma store_okD:
  assumes "store_ok db objects"
  shows "db_ok db" and "js_get (loadObjects db) k = js_get objects k"
    and "js_get (db_states db) out = Some r \<Longrightarrow> sw_spentHeight r = None \<longleftrightarrow> out \<in> active_outpoints objects"
    and "active_outpoints objects \<subseteq> table_keys (db_states db)"
    and "map_option cw_spentHeight (js_get (db_carriers db) out) =
      map_option sw_spentHeight (js_get (db_states db) out)"
  using assms unfolding store_ok_def by blast+

lemma store_ok_empty: "store_ok empty_database []"
  using db_ok_empty
  by (simp add: store_ok_def empty_database_def loadObjects_def active_outpoints_def)

lemma store_ok_object:
  assumes "store_ok db objects" and "js_get objects k = Some r"
  shows "js_get (db_objects db) k = Some (object_row_of r)"
  using store_okD(2) [OF assms(1), of k] assms(2) by (auto simp: loadObjects_get)

lemma store_ok_absent:
  assumes "store_ok db objects" and "js_get objects k = None"
  shows "js_get (db_objects db) k = None"
  using store_okD(2) [OF assms(1), of k] assms(2) by (simp add: loadObjects_get)

section \<open>Origins\<close>

lemma canonical_transactions_fresh:
  "canonical_transactions T ts \<Longrightarrow> t \<in> set ts \<Longrightarrow> tx_txid t \<notin> T \<and> is_hex_text 64 (tx_txid t)"
proof (induction ts arbitrary: T)
  case (Cons u ts)
  then show ?case using canonical_hex [of T u]
    by (auto simp: canonical_transaction_def)
qed simp

lemma derived_key_function:
  "derived_key L ns txid k \<Longrightarrow> derived_key L ns txid k' \<Longrightarrow> k = k'"
  by (auto simp: derived_key_def)

lemma derived_key_inject:
  assumes "object_keys_distinct L" and "is_hex_text 64 t" and "is_hex_text 64 u"
    and "derived_key L ns t k" and "derived_key L ns u k"
  shows "t = u"
proof -
  from assms(4,5) obtain w w' key key' where "wire32 t = Inr w" "wire32 u = Inr w'"
    "lib_objectKeyFromWire L ns w = Inr key" "lib_objectKeyFromWire L ns w' = Inr key'"
    "to_hex key = to_hex key'" by (auto simp: derived_key_def)
  moreover from this(5) have "key = key'" by (metis from_hex_to_hex)
  ultimately have "wire32 t = wire32 u" using assms(1) unfolding object_keys_distinct_def by metis
  then show ?thesis using wire32_inject [OF assms(2,3)] by simp
qed

section \<open>A reduced block fits the store\<close>

lemma activate_height:
  "activate L C bd None block ots s = Inr (s1, a, es) \<Longrightarrow> ia_height a = blk_height block"
  by (auto simp: activate_def Let_def)

lemma rb_init_height:
  assumes "reduceBlock L C bd act root objects block = Inr rb" and "rb_initConfirmed rb"
  shows "ia_height (rb_activation rb) = rb_height rb"
proof -
  from assms(1) obtain ots s1 es1 where
    "activate L C bd act block ots (initial_state objects) = Inr (s1, rb_activation rb, es1)"
    "rb_height rb = blk_height block" "rb_initConfirmed rb = (act = None)"
    by (rule reduceBlock_run) blast
  with assms(2) show ?thesis using activate_height by simp
qed

text \<open>The setting of the lemmas: a canonical block reduced from the objects the store holds.\<close>

definition stored_run ::
  "tandem_lib \<Rightarrow> crypto \<Rightarrow> binding_record \<Rightarrow> string set \<Rightarrow> init_activation option \<Rightarrow> bytes \<Rightarrow> object_map \<Rightarrow>
     bitcoin_block \<Rightarrow> reduced_block \<Rightarrow> database \<Rightarrow> bool" where
  "stored_run L C bd T act root objects block rb db =
     (canonical_context L bd T act objects block \<and>
      reduceBlock L C bd act root objects block = Inr rb \<and> store_ok db objects)"

lemma stored_runD:
  assumes "stored_run L C bd T act root objects block rb db"
  shows "canonical_context L bd T act objects block"
    and "reduceBlock L C bd act root objects block = Inr rb" and "store_ok db objects"
    and "object_keys_distinct L" and "\<forall>u \<in> T. is_hex_text 64 u" and "filed objects"
    and "objects_from L (from_hex (bd_namespace bd)) T objects"
    and "canonical_transactions T (blk_transactions block)"
  using assms
  by (auto simp: stored_run_def canonical_context_def run_ok_def filed_def record_ok_def
      dest!: objects_okD)

text \<open>An object keeps its create transaction and height; a new one is of a new transaction.\<close>

lemma stored_run_origin:
  assumes run: "stored_run L C bd T act root objects block rb db"
    and r: "js_get (rb_objects rb) k = Some r"
  shows "case js_get objects k of
      None \<Rightarrow> or_createTxid r \<in> set (map tx_txid (blk_transactions block)) - T
    | Some r0 \<Rightarrow> or_createTxid r = or_createTxid r0 \<and> or_createHeight r = or_createHeight r0"
proof -
  let ?B = "set (map tx_txid (blk_transactions block))" and ?ns = "from_hex (bd_namespace bd)"
  note facts = stored_runD [OF run]
  have fresh: "u \<notin> T \<and> is_hex_text 64 u" if "u \<in> ?B" for u
    using canonical_transactions_fresh [OF facts(8)] that by auto
  obtain s where "block_inv L ?ns (confirmed_txids T block) objects s" "rb_objects rb = ws_objects s"
    using reduceBlock_outcome [OF facts(1,2)] by metis
  then have derived: "derived_key L ?ns (or_createTxid r) k"
    using r by (simp add: block_inv_def objects_from_def)
  from reduceBlock_rows(4) [OF facts(2,6) r] show ?thesis
  proof
    assume B: "or_createTxid r \<in> ?B"
    have "js_get objects k = None"
    proof (rule ccontr)
      assume "js_get objects k \<noteq> None"
      then obtain r0 where "js_get objects k = Some r0" by auto
      then have "or_createTxid r0 \<in> T" "derived_key L ?ns (or_createTxid r0) k"
        using facts(7) by (simp_all add: objects_from_def)
      then have "or_createTxid r0 = or_createTxid r"
        using derived_key_inject [OF facts(4) _ _ _ derived] facts(5) fresh [OF B] by blast
      with \<open>or_createTxid r0 \<in> T\<close> fresh [OF B] show False by simp
    qed
    with B fresh [OF B] show ?thesis by simp
  qed auto
qed

lemma stored_run_distinct:
  assumes run: "stored_run L C bd T act root objects block rb db"
  shows "create_txids_distinct (rb_objects rb)"
proof -
  obtain s where "block_inv L (from_hex (bd_namespace bd)) (confirmed_txids T block) objects s"
    "rb_objects rb = ws_objects s"
    using reduceBlock_outcome [OF stored_runD(1,2) [OF run]] by metis
  then show ?thesis
    unfolding create_txids_distinct_def block_inv_def objects_from_def
    using derived_key_function by metis
qed

lemma stored_run_entries:
  assumes run: "stored_run L C bd T act root objects block rb db" and keys: "keys_ok db"
  shows "js_wf (rb_undo rb)" and "list_all (entry_fits (rb_objects rb) (db_objects db)) (rb_undo rb)"
proof -
  note facts = stored_runD [OF run]
  obtain s where undo: "undo_ok objects s" "rb_objects rb = ws_objects s" "rb_undo rb = ws_undo s"
    using facts(2) by (rule reduceBlock_undo_ok)
  have "entry_fits (rb_objects rb) (db_objects db) p" if p: "p \<in> set (rb_undo rb)" for p
  proof -
    obtain k v where kv: "p = (k, v)" by (cases p)
    have "js_get (rb_undo rb) k = Some v" using p kv undo by (simp add: undo_ok_def)
    then have v: "v = js_get objects k" using undo by (force simp: undo_ok_def dest!: spec [of _ k])
    show ?thesis
    proof (cases v)
      case None
      have "or_createTxid r \<notin> ow_createTxid ` table_rows (db_objects db)"
        if r: "js_get (rb_objects rb) k = Some r" for r
      proof
        assume "or_createTxid r \<in> ow_createTxid ` table_rows (db_objects db)"
        then obtain k' row where row: "(k', row) \<in> set (db_objects db)" "ow_createTxid row = or_createTxid r"
          by auto
        then have "js_get (db_objects db) k' = Some row" using keys by (simp add: keys_ok_def)
        then have "js_get objects k' = Some (objectFromRow k' row (joined_height db row))"
          using store_okD(2) [OF facts(3), of k'] by (simp add: loadObjects_get)
        then have "or_createTxid r \<in> T"
          using facts(7) row(2) by (force simp: objects_from_def objectFromRow_def)
        then show False using stored_run_origin [OF run r] None v by simp
      qed
      moreover have "k \<notin> table_keys (db_objects db)"
        using store_ok_absent [OF facts(3), of k] None v by (simp add: map_of_eq_None_iff)
      ultimately show ?thesis using None kv by (simp add: entry_fits_def)
    next
      case (Some prior)
      then show ?thesis
        using kv v filedD [OF facts(6)] store_ok_object [OF facts(3)] by (simp add: entry_fits_def)
    qed
  qed
  then show "list_all (entry_fits (rb_objects rb) (db_objects db)) (rb_undo rb)"
    by (simp add: list_all_iff)
  show "js_wf (rb_undo rb)" using undo by (simp add: undo_ok_def)
qed

lemma stored_run_fits:
  assumes run: "stored_run L C bd T act root objects block rb db"
    and acc: "block_accepted rb db" and keys: "keys_ok db"
  shows "block_fits rb db"
proof -
  note facts = stored_runD [OF run]
  have unspent: "(\<forall>r. js_get (db_states db) out = Some r \<longrightarrow> sw_spentHeight r = None) \<and>
      (\<forall>r. js_get (db_carriers db) out = Some r \<longrightarrow> cw_spentHeight r = None)"
    if "out \<in> set (map fst (rb_spentOutpoints rb))" for out
  proof (cases "js_get (db_states db) out")
    case None
    then show ?thesis using store_okD(5) [OF facts(3), of out] by auto
  next
    case (Some r)
    have "out \<notin> set (map sr_outpoint (rb_newStates rb))"
    proof
      assume "out \<in> set (map sr_outpoint (rb_newStates rb))"
      then have "out \<in> set (map fst (map (state_entry (rb_height rb)) (rb_newStates rb)))"
        by (auto simp: state_entry_def)
      moreover have "out \<in> set (map fst (db_states db))" using Some by (force dest: map_of_SomeD)
      ultimately show False using acc unfolding block_accepted_def map_append distinct_append by blast
    qed
    then have "out \<in> active_outpoints objects"
      using reduceBlock_flow [OF facts(1,2)] that by blast
    then have "sw_spentHeight r = None" using store_okD(3) [OF facts(3) Some] by simp
    then show ?thesis using Some store_okD(5) [OF facts(3), of out] by auto
  qed
  show ?thesis
    unfolding block_fits_def
    using reduceBlock_rows(1) [OF facts(2,6)] stored_run_distinct [OF run] stored_run_entries [OF run keys]
      unspent rb_init_height [OF facts(2)]
    by blast
qed

section \<open>Writing keeps the database consistent\<close>

lemma upserts_wf:
  assumes "filed objects" and "create_txids_distinct objects"
  shows "js_wf t \<Longrightarrow> js_wf us \<Longrightarrow> list_all (entry_fits objects t) us \<Longrightarrow>
    js_wf (fold (upsert_entry objects) us t) \<and>
    table_keys (fold (upsert_entry objects) us t) =
      table_keys t \<union> {k \<in> fst ` set us. js_get objects k \<noteq> None}"
proof (induction us arbitrary: t)
  case (Cons p us)
  have p: "entry_fits objects t p" using Cons.prems(3) by simp
  have rest: "list_all (entry_fits objects (upsert_entry objects p t)) us"
    unfolding list_all_iff
  proof
    fix q assume q: "q \<in> set us"
    then have "fst p \<noteq> fst q" using Cons.prems(2) by (metis distinct.simps(2) image_eqI list.set_map list.simps(9))
    then show "entry_fits objects (upsert_entry objects p t) q"
      using upsert_keeps_fits [OF assms p] Cons.prems(3) q by (simp add: list_all_iff)
  qed
  have "js_wf us" using Cons.prems(2) by simp
  note IH = Cons.IH [OF upsert_wf [OF assms(1) Cons.prems(1) p] this rest]
  have "table_keys (upsert_entry objects p t) \<union> {k \<in> fst ` set us. js_get objects k \<noteq> None} =
      table_keys t \<union> {k \<in> fst ` set (p # us). js_get objects k \<noteq> None}"
    unfolding upsert_keys [OF assms(1) p] by (auto split: if_splits)
  with IH show ?case by simp
qed simp

lemma last_spend_None: "js_get (rev sp) out = None \<longleftrightarrow> out \<notin> fst ` set sp"
  by (simp add: map_of_eq_None_iff)

lemma spent_state [simp]:
  "sw_objectKey (spend_state h sp out r) = sw_objectKey r"
  "sw_createdHeight (spend_state h sp out r) = sw_createdHeight r"
  "sw_spentHeight (spend_state h sp out r) =
     (if out \<in> fst ` set sp then Some h else sw_spentHeight r)"
  using last_spend_None [of sp out] by (auto simp: spend_state_def split: option.split)

lemma spent_carrier [simp]:
  "cw_objectKey (spend_carrier h sp out q) = cw_objectKey q"
  "cw_createdHeight (spend_carrier h sp out q) = cw_createdHeight q"
  "cw_spentHeight (spend_carrier h sp out q) =
     (if out \<in> fst ` set sp then Some h else cw_spentHeight q)"
  using last_spend_None [of sp out] by (auto simp: spend_carrier_def split: option.split)

lemma spent_txid_None:
  "sw_spentHeight (spend_state h sp out r) = None \<Longrightarrow>
     sw_spentTxid (spend_state h sp out r) = sw_spentTxid r"
  "cw_spentHeight (spend_carrier h sp out q) = None \<Longrightarrow>
     cw_spentTxid (spend_carrier h sp out q) = cw_spentTxid q"
  by (auto simp: spend_state_def spend_carrier_def split: option.splits)

lemma written_fields:
  "db_blocks (written_block rb db) = db_blocks db @ [(rb_height rb, block_row_of rb)]"
  "db_init (written_block rb db) = (if rb_initConfirmed rb then Some (rb_activation rb) else db_init db)"
  "db_transactions (written_block rb db) =
     db_transactions db @ map (transaction_entry (rb_height rb)) (rb_transactions rb)"
  "db_events (written_block rb db) = db_events db @ map (event_row_of (rb_height rb)) (rb_events rb)"
  "db_object_undo (written_block rb db) = db_object_undo db @ map (undo_entry (rb_height rb)) (rb_undo rb)"
  "db_objects (written_block rb db) = fold (upsert_entry (rb_objects rb)) (rb_undo rb) (db_objects db)"
  "db_states (written_block rb db) = written_states rb db"
  "db_carriers (written_block rb db) = written_carriers rb db"
  "db_chapters (written_block rb db) = db_chapters db @ map (chapter_entry (rb_height rb)) (rb_chapters rb)"
  "db_checkpoints (written_block rb db) = db_checkpoints db @ [checkpoint_entry rb]"
  "db_reorg_journal (written_block rb db) = db_reorg_journal db"
  by (simp_all add: written_block_def Let_def)

lemma mapped_rows:
  "r \<in> table_rows (map (\<lambda>(out, r). (out, f out r)) t) \<longleftrightarrow> (\<exists>out q. r = f out q \<and> (out, q) \<in> set t)"
proof
  assume "r \<in> table_rows (map (\<lambda>(out, r). (out, f out r)) t)"
  then obtain p where "p \<in> set t" "r = f (fst p) (snd p)" by (auto simp: case_prod_unfold)
  then show "\<exists>out q. r = f out q \<and> (out, q) \<in> set t" by (metis prod.collapse)
next
  assume "\<exists>out q. r = f out q \<and> (out, q) \<in> set t"
  then show "r \<in> table_rows (map (\<lambda>(out, r). (out, f out r)) t)" by force
qed

lemma entry_row:
  "(k, q) \<in> set (t @ map f ss) \<Longrightarrow> q \<in> table_rows t \<or> (\<exists>s \<in> set ss. q = snd (f s))"
  by (auto intro: image_eqI [where x = "(k, q)"]) (metis snd_conv)

lemma written_objects:
  assumes "db_ok db" and "block_fits rb db"
  shows "js_wf (db_objects (written_block rb db))"
    "table_keys (db_objects db) \<subseteq> table_keys (db_objects (written_block rb db))"
    "table_keys (db_blocks (written_block rb db)) = insert (rb_height rb) (table_keys (db_blocks db))"
  using upserts_wf [of "rb_objects rb" "db_objects db" "rb_undo rb"] assms
  by (auto simp: written_fields block_fits_def keys_ok_def db_ok_def)

lemma written_keys_ok:
  assumes ok: "db_ok db" and fits: "block_fits rb db" and acc: "block_accepted rb db"
  shows "keys_ok (written_block rb db)"
proof -
  let ?db = "written_block rb db"
  have keys: "keys_ok db" using ok by (simp add: db_ok_def)
  have wf_map: "js_wf (map (\<lambda>(out, r). (out, f out r)) t) = js_wf t" for f :: "string \<Rightarrow> 'r \<Rightarrow> 'r" and t
    by (simp add: case_prod_unfold o_def)
  show ?thesis
    unfolding keys_ok_def
  proof (intro conjI)
    show "js_wf (db_states ?db)" "js_wf (db_carriers ?db)" "js_wf (db_transactions ?db)"
      using acc by (simp_all only: written_fields written_states_def written_carriers_def wf_map block_accepted_def)
    show "js_wf (db_objects ?db)" using ok fits by (rule written_objects(1))
    show "js_wf (db_blocks ?db)" "js_wf (db_checkpoints ?db)"
      using acc keys by (auto simp: written_fields keys_ok_def block_accepted_def checkpoint_entry_def)
  qed
qed

lemma written_block_refs_ok:
  assumes ok: "db_ok db" and fits: "block_fits rb db" and acc: "block_accepted rb db"
  shows "block_refs_ok (written_block rb db)"
proof -
  let ?h = "rb_height rb" and ?db = "written_block rb db"
  have brefs: "block_refs_ok db" using ok by (simp add: db_ok_def)
  note blocks = written_objects(3) [OF ok fits]
  show ?thesis
    unfolding block_refs_ok_def Let_def blocks
  proof (intro conjI ballI allI impI)
    fix r assume "r \<in> table_rows (db_transactions ?db)"
    then show "tw_blockHeight r \<in> insert ?h (table_keys (db_blocks db))"
      using brefs by (auto simp: written_fields block_refs_ok_def transaction_entry_def)
  next
    fix e assume e: "e \<in> set (db_events ?db)"
    then show "ew_blockHeight e \<in> insert ?h (table_keys (db_blocks db))"
      using brefs by (auto simp: written_fields block_refs_ok_def event_row_of_def)
    show "ew_txid e \<in> table_keys (db_transactions ?db)"
    proof (cases "e \<in> set (db_events db)")
      case True
      then show ?thesis using brefs by (auto simp: written_fields block_refs_ok_def)
    next
      case False
      with e obtain e' where "e' \<in> set (rb_events rb)" "ew_txid e = er_txid e'"
        by (auto simp: written_fields event_row_of_def)
      then show ?thesis using acc by (simp add: written_fields block_accepted_def)
    qed
  next
    show "table_keys (db_checkpoints ?db) \<subseteq> insert ?h (table_keys (db_blocks db))"
      using brefs by (auto simp: written_fields block_refs_ok_def checkpoint_entry_def)
  next
    fix i assume "db_init ?db = Some i"
    then show "ia_height i \<in> insert ?h (table_keys (db_blocks db))"
      using brefs acc by (auto simp: written_fields block_refs_ok_def block_accepted_def split: if_splits)
  next
    fix u assume "u \<in> set (db_object_undo ?db)"
    then show "uw_height u \<in> insert ?h (table_keys (db_blocks db))"
      using brefs by (auto simp: written_fields block_refs_ok_def undo_entry_def)
  qed
qed

text \<open>The rows of the two tables of carriers, old and new.\<close>

lemma written_state_ok:
  assumes ok: "db_ok db" and fits: "block_fits rb db" and acc: "block_accepted rb db"
    and "r \<in> table_rows (db_states (written_block rb db))"
  shows "state_ok (written_block rb db) r"
proof -
  let ?h = "rb_height rb" and ?db = "written_block rb db"
  have orefs: "object_refs_ok db" using ok by (simp add: db_ok_def)
  note objects = written_objects [OF ok fits]
  obtain out q where q1: "r = spend_state ?h (rb_spentOutpoints rb) out q"
    "(out, q) \<in> set (db_states db @ map (state_entry ?h) (rb_newStates rb))"
    using assms(4) unfolding written_fields written_states_def mapped_rows by blast
  note q = q1(1) entry_row [OF q1(2)]
  from q(2) show ?thesis
  proof
    assume "q \<in> table_rows (db_states db)"
    then have "state_ok db q" using orefs unfolding object_refs_ok_def by blast
    then show ?thesis
      using objects(2) spent_txid_None(1) [of ?h "rb_spentOutpoints rb" out q]
      unfolding state_ok_def q(1) objects(3) by (auto split: if_splits)
  next
    assume "\<exists>s \<in> set (rb_newStates rb). q = snd (state_entry ?h s)"
    then show ?thesis
      using acc spent_txid_None(1) [of ?h "rb_spentOutpoints rb" out q]
      unfolding state_ok_def q(1) objects(3)
      by (auto simp: block_accepted_def state_entry_def written_fields split: if_splits)
  qed
qed

lemma written_carrier_ok:
  assumes ok: "db_ok db" and fits: "block_fits rb db" and acc: "block_accepted rb db"
    and "r \<in> table_rows (db_carriers (written_block rb db))"
  shows "carrier_ok (written_block rb db) r"
proof -
  let ?h = "rb_height rb" and ?db = "written_block rb db"
  have orefs: "object_refs_ok db" using ok by (simp add: db_ok_def)
  note objects = written_objects [OF ok fits]
  obtain out q where q1: "r = spend_carrier ?h (rb_spentOutpoints rb) out q"
    "(out, q) \<in> set (db_carriers db @ map (carrier_entry ?h) (rb_newStates rb))"
    using assms(4) unfolding written_fields written_carriers_def mapped_rows by blast
  note q = q1(1) entry_row [OF q1(2)]
  from q(2) show ?thesis
  proof
    assume "q \<in> table_rows (db_carriers db)"
    then have "carrier_ok db q" using orefs unfolding object_refs_ok_def by blast
    then show ?thesis
      using objects(2) spent_txid_None(2) [of ?h "rb_spentOutpoints rb" out q]
      unfolding carrier_ok_def q(1) objects(3) by (auto split: if_splits)
  next
    assume "\<exists>s \<in> set (rb_newStates rb). q = snd (carrier_entry ?h s)"
    then show ?thesis
      using acc spent_txid_None(2) [of ?h "rb_spentOutpoints rb" out q]
      unfolding carrier_ok_def q(1) objects(3)
      by (auto simp: block_accepted_def carrier_entry_def written_fields split: if_splits)
  qed
qed

lemma written_object_refs_ok:
  assumes ok: "db_ok db" and fits: "block_fits rb db" and acc: "block_accepted rb db"
  shows "object_refs_ok (written_block rb db)"
  unfolding object_refs_ok_def
proof (intro conjI ballI)
  have orefs: "object_refs_ok db" using ok by (simp add: db_ok_def)
  fix c assume c: "c \<in> set (db_chapters (written_block rb db))"
  then show "hw_objectKey c \<in> table_keys (db_objects (written_block rb db))"
    using orefs written_objects(2) [OF ok fits] acc
    by (auto simp: written_fields object_refs_ok_def chapter_entry_def block_accepted_def)
  show "hw_blockHeight c \<in> table_keys (db_blocks (written_block rb db))"
    using c orefs by (auto simp: written_fields object_refs_ok_def chapter_entry_def)
qed (use written_state_ok [OF assms] written_carrier_ok [OF assms] in blast)+

lemma written_block_ok:
  assumes "db_ok db" and "block_fits rb db" and "block_accepted rb db"
  shows "db_ok (written_block rb db)"
  using written_keys_ok [OF assms] written_block_refs_ok [OF assms] written_object_refs_ok [OF assms]
  by (simp add: db_ok_def)

section \<open>What is read back after a block\<close>

definition upserted :: "object_map \<Rightarrow> (string, object_row) js_map \<Rightarrow> string \<Rightarrow> object_row option" where
  "upserted objects t k =
     (case js_get objects k of None \<Rightarrow> js_get t k
      | Some r \<Rightarrow> Some (case js_get t k of None \<Rightarrow> object_row_of r | Some row \<Rightarrow> assign_object r row))"

lemma upsert_get:
  assumes "filed objects" and "entry_fits objects t p"
  shows "js_get (upsert_entry objects p t) k =
    (if k = fst p then upserted objects t k else js_get t k)"
proof -
  obtain q v where p: "p = (q, v)" by (cases p)
  have stored: "v \<noteq> None \<Longrightarrow> js_get t q \<noteq> None"
    using assms(2) by (auto simp: p entry_fits_def)
  show ?thesis
    using assms(1) assms(2) [unfolded p]
  proof (cases rule: upsert_cases)
    case 1
    then show ?thesis by (simp add: p upserted_def)
  next
    case (2 r)
    then have "js_get t q = None" by (simp add: map_of_eq_None_iff)
    with 2 show ?thesis by (auto simp: p upserted_def map_add_def split: option.split)
  next
    case (3 r)
    then obtain row where "js_get t q = Some row" using stored by auto
    with 3 show ?thesis by (auto simp: p upserted_def update_where_get option.map_ident)
  qed
qed

lemma upserts_get:
  assumes "filed objects" and "create_txids_distinct objects"
  shows "js_wf us \<Longrightarrow> list_all (entry_fits objects t) us \<Longrightarrow>
    js_get (fold (upsert_entry objects) us t) k =
      (if k \<in> fst ` set us then upserted objects t k else js_get t k)"
proof (induction us arbitrary: t)
  case (Cons p us)
  let ?t = "upsert_entry objects p t"
  have p: "entry_fits objects t p" using Cons.prems(2) by simp
  have rest: "list_all (entry_fits objects ?t) us"
    unfolding list_all_iff
  proof
    fix q assume q: "q \<in> set us"
    then have "fst p \<noteq> fst q"
      using Cons.prems(1) by (metis distinct.simps(2) image_eqI list.set_map list.simps(9))
    then show "entry_fits objects ?t q"
      using upsert_keeps_fits [OF assms p] Cons.prems(2) q by (simp add: list_all_iff)
  qed
  have fresh: "js_wf us" "fst p \<notin> fst ` set us" using Cons.prems(1) by simp_all
  note IH = Cons.IH [OF fresh(1) rest] and one = upsert_get [OF assms(1) p]
  show ?case
  proof (cases "k \<in> fst ` set us")
    case True
    then have "k \<noteq> fst p" using fresh(2) by blast
    then have "js_get ?t k = js_get t k" using one [of k] by simp
    then have "upserted objects ?t k = upserted objects t k"
      by (cases "js_get objects k") (simp_all add: upserted_def)
    then show ?thesis using True IH by simp
  next
    case False
    then show ?thesis using IH one by auto
  qed
qed simp

lemma mapped_get:
  "js_get (map (\<lambda>(out, r). (out, f out r)) t) out = map_option (f out) (js_get t out)"
  by (induction t) auto

lemma entries_get:
  "map_of (map (state_entry h) ss) out \<noteq> None \<longleftrightarrow> out \<in> sr_outpoint ` set ss"
  "map_of (map (carrier_entry h) ss) out \<noteq> None \<longleftrightarrow> out \<in> sr_outpoint ` set ss"
  by (auto simp: map_of_eq_None_iff state_entry_def carrier_entry_def image_image)

lemma entries_row:
  "js_get (map (state_entry h) ss) out = Some r \<Longrightarrow> sw_createdHeight r = h \<and> sw_spentHeight r = None"
  "js_get (map (carrier_entry h) ss) out = Some q \<Longrightarrow> cw_spentHeight q = None"
  by (auto simp: state_entry_def carrier_entry_def dest!: map_of_SomeD)

text \<open>Old rows keep their place: a new state is never a stored one.\<close>

lemma written_states_get:
  assumes "block_accepted rb db"
  shows "js_get (written_states rb db) out =
    map_option (spend_state (rb_height rb) (rb_spentOutpoints rb) out)
      (case js_get (db_states db) out of
         Some r \<Rightarrow> Some r | None \<Rightarrow> js_get (map (state_entry (rb_height rb)) (rb_newStates rb)) out)"
proof -
  have "js_get (map (state_entry (rb_height rb)) (rb_newStates rb)) out = None"
    if "js_get (db_states db) out = Some r" for r
  proof (rule ccontr)
    assume "js_get (map (state_entry (rb_height rb)) (rb_newStates rb)) out \<noteq> None"
    then have "out \<in> set (map fst (map (state_entry (rb_height rb)) (rb_newStates rb)))"
      by (simp add: map_of_eq_None_iff image_image)
    moreover have "out \<in> set (map fst (db_states db))" using that by (force dest: map_of_SomeD)
    ultimately show False
      using assms unfolding block_accepted_def map_append distinct_append by blast
  qed
  then show ?thesis
    unfolding written_states_def mapped_get by (auto simp: map_add_def split: option.split)
qed

lemma written_carriers_get:
  assumes "block_accepted rb db"
  shows "js_get (written_carriers rb db) out =
    map_option (spend_carrier (rb_height rb) (rb_spentOutpoints rb) out)
      (case js_get (db_carriers db) out of
         Some r \<Rightarrow> Some r | None \<Rightarrow> js_get (map (carrier_entry (rb_height rb)) (rb_newStates rb)) out)"
proof -
  have "js_get (map (carrier_entry (rb_height rb)) (rb_newStates rb)) out = None"
    if "js_get (db_carriers db) out = Some r" for r
  proof (rule ccontr)
    assume "js_get (map (carrier_entry (rb_height rb)) (rb_newStates rb)) out \<noteq> None"
    then have "out \<in> set (map fst (map (carrier_entry (rb_height rb)) (rb_newStates rb)))"
      by (simp add: map_of_eq_None_iff image_image)
    moreover have "out \<in> set (map fst (db_carriers db))" using that by (force dest: map_of_SomeD)
    ultimately show False
      using assms unfolding block_accepted_def map_append distinct_append by blast
  qed
  then show ?thesis
    unfolding written_carriers_def mapped_get by (auto simp: map_add_def split: option.split)
qed

lemma accepted_new_state:
  assumes "block_accepted rb db" and "out \<in> sr_outpoint ` set (rb_newStates rb)"
  shows "js_get (db_states db) out = None"
proof (rule ccontr)
  assume "js_get (db_states db) out \<noteq> None"
  then have "out \<in> set (map fst (db_states db))" by (simp add: map_of_eq_None_iff)
  moreover have "out \<in> set (map fst (map (state_entry (rb_height rb)) (rb_newStates rb)))"
    using assms(2) by (auto simp: state_entry_def)
  ultimately show False
    using assms(1) unfolding block_accepted_def map_append distinct_append by blast
qed

text \<open>The object rows are those of the objects the block leaves.\<close>

lemma written_object_row:
  assumes run: "stored_run L C bd T act root objects block rb db"
    and fits: "block_fits rb db"
  shows "js_get (db_objects (written_block rb db)) k = map_option object_row_of (js_get (rb_objects rb) k)"
proof -
  note facts = stored_runD [OF run]
  obtain s where "undo_ok objects s" "rb_objects rb = ws_objects s" "rb_undo rb = ws_undo s"
    using facts(2) by (rule reduceBlock_undo_ok)
  then have unchanged: "js_get (rb_objects rb) k = js_get objects k" if "k \<notin> fst ` set (rb_undo rb)"
    using that by (force simp: undo_ok_def map_of_eq_None_iff dest!: spec [of _ k] split: option.splits)
  have row: "js_get (db_objects (written_block rb db)) k =
      (if k \<in> fst ` set (rb_undo rb) then upserted (rb_objects rb) (db_objects db) k
       else js_get (db_objects db) k)"
    using upserts_get [of "rb_objects rb" "rb_undo rb" "db_objects db" k] fits
    by (simp add: written_fields block_fits_def)
  have before: "js_get (db_objects db) k = map_option object_row_of (js_get objects k)"
    using store_ok_object [OF facts(3), of k] store_ok_absent [OF facts(3), of k]
    by (cases "js_get objects k") simp_all
  show ?thesis
  proof (cases "k \<in> fst ` set (rb_undo rb)")
    case False
    then show ?thesis using row before unchanged by simp
  next
    case True
    then have "k \<in> fst ` set (rb_objects rb)" using reduceBlock_rows(2) [OF facts(2,6)] by blast
    then have "js_get (rb_objects rb) k \<noteq> None" by (simp add: map_of_eq_None_iff)
    then obtain r where r: "js_get (rb_objects rb) k = Some r" by auto
    have "assign_object r (object_row_of r0) = object_row_of r" if "js_get objects k = Some r0" for r0
      using stored_run_origin [OF run r] that by (simp add: assign_object_def object_row_of_def)
    then show ?thesis
      using True row before r by (auto simp: upserted_def split: option.split)
  qed
qed

lemma written_join:
  assumes run: "stored_run L C bd T act root objects block rb db" and acc: "block_accepted rb db"
    and r: "js_get (rb_objects rb) k = Some r" and ok: "record_ok k r"
  shows "joined_height (written_block rb db) (object_row_of r) = or_currentHeight r"
proof (cases "or_currentOutpoint r")
  case None
  then show ?thesis using ok by (auto simp: joined_height_def object_row_of_def record_ok_def)
next
  case (Some out)
  note facts = stored_runD [OF run] and states = written_states_get [OF acc, of out]
  from reduceBlock_rows(3) [OF facts(2,6) r Some]
  have "map_option sw_createdHeight (js_get (written_states rb db) out) = or_currentHeight r"
  proof
    assume new: "or_currentHeight r = Some (rb_height rb) \<and> out \<in> sr_outpoint ` set (rb_newStates rb)"
    then obtain q where "js_get (map (state_entry (rb_height rb)) (rb_newStates rb)) out = Some q"
      using entries_get(1) [of "rb_height rb" "rb_newStates rb" out] by auto
    with new show ?thesis
      using states accepted_new_state [OF acc] entries_row(1) by fastforce
  next
    assume "\<exists>r0. js_get objects k = Some r0 \<and> or_currentOutpoint r0 = Some out \<and>
      or_currentHeight r0 = or_currentHeight r"
    then obtain r0 where r0: "js_get objects k = Some r0" "or_currentOutpoint r0 = Some out"
      "or_currentHeight r0 = or_currentHeight r" by blast
    then have "out \<in> active_outpoints objects" by (auto simp: active_outpoints_def)
    then obtain q where q: "js_get (db_states db) out = Some q"
      using store_okD(4) [OF facts(3)] by (metis map_of_eq_None_iff not_None_eq subsetD)
    have "js_get (loadObjects db) k = Some r0" using store_okD(2) [OF facts(3), of k] r0(1) by simp
    then have "or_currentHeight r0 = joined_height db (object_row_of r0)"
      using store_ok_object [OF facts(3) r0(1)]
      by (metis loadObjects_get loaded_height option.inject option.simps(9))
    then have "or_currentHeight r0 = Some (sw_createdHeight q)"
      using r0(2) q by (simp add: joined_height_def object_row_of_def)
    then show ?thesis using states q r0(3) by simp
  qed
  then show ?thesis
    using Some by (simp add: joined_height_def object_row_of_def written_fields)
qed

theorem writeBlock_store_ok:
  assumes run: "stored_run L C bd T act root objects block rb db"
    and ins: "writeBlock db rb = Inr db'"
  shows "store_ok db' (rb_objects rb) \<and> block_fits rb db"
proof -
  note facts = stored_runD [OF run]
  have ok: "db_ok db" using store_okD(1) [OF facts(3)] .
  then have keys: "keys_ok db" by (simp add: db_ok_def)
  have db': "db' = written_block rb db" and acc: "block_accepted rb db"
    using writeBlock_shape [OF ins keys] by blast+
  have fits: "block_fits rb db" using stored_run_fits [OF run acc keys] .
  let ?new = "sr_outpoint ` set (rb_newStates rb)" and ?spent = "fst ` set (rb_spentOutpoints rb)"
  have flow: "active_outpoints (rb_objects rb) = (active_outpoints objects \<union> ?new) - ?spent"
    using reduceBlock_flow [OF facts(1,2)] by simp
  have objs: "objects_ok (rb_objects rb)"
    using reduceBlock_outcome [OF facts(1,2)] by (metis block_inv_def ws_ok_def)
  have load: "js_get (loadObjects db') k = js_get (rb_objects rb) k" for k
  proof (cases "js_get (rb_objects rb) k")
    case None
    then show ?thesis using written_object_row [OF run fits, of k] by (simp add: loadObjects_get db')
  next
    case (Some r)
    have rk: "record_ok k r" using objects_okD [OF objs Some] .
    then have "objectFromRow k (object_row_of r) (or_currentHeight r) = r"
      by (simp add: record_ok_def)
    then show ?thesis
      using Some written_object_row [OF run fits, of k] written_join [OF run acc Some rk]
      by (simp add: loadObjects_get db')
  qed
  have states: "sw_spentHeight r = None \<longleftrightarrow> out \<in> active_outpoints (rb_objects rb)"
    if "js_get (db_states db') out = Some r" for out r
  proof (cases "js_get (db_states db) out")
    case None
    with that obtain q where q: "js_get (map (state_entry (rb_height rb)) (rb_newStates rb)) out = Some q"
      "r = spend_state (rb_height rb) (rb_spentOutpoints rb) out q"
      using written_states_get [OF acc, of out] by (auto simp: db' written_fields)
    then have "out \<in> ?new" using entries_get(1) [of "rb_height rb" "rb_newStates rb" out] by simp
    then show ?thesis using q entries_row(1) [OF q(1)] by (simp add: flow)
  next
    case (Some q)
    have "out \<notin> ?new" using accepted_new_state [OF acc, of out] Some by auto
    moreover have "r = spend_state (rb_height rb) (rb_spentOutpoints rb) out q"
      using that Some written_states_get [OF acc, of out] by (simp add: db' written_fields)
    ultimately show ?thesis
      using store_okD(3) [OF facts(3) Some] by (cases "out \<in> ?spent") (simp_all add: flow)
  qed
  have present: "js_get (db_states db') out \<noteq> None \<longleftrightarrow> js_get (db_states db) out \<noteq> None \<or> out \<in> ?new" for out
    using written_states_get [OF acc, of out] entries_get(1) [of "rb_height rb" "rb_newStates rb" out]
    by (auto simp: db' written_fields split: option.splits)
  have active: "active_outpoints (rb_objects rb) \<subseteq> table_keys (db_states db')"
  proof
    fix out assume "out \<in> active_outpoints (rb_objects rb)"
    then have "out \<in> active_outpoints objects \<or> out \<in> ?new" using flow by blast
    then have "js_get (db_states db') out \<noteq> None"
      using present store_okD(4) [OF facts(3)] by (metis map_of_eq_None_iff subsetD)
    then show "out \<in> table_keys (db_states db')" by (simp add: map_of_eq_None_iff)
  qed
  have mirror: "map_option cw_spentHeight (js_get (db_carriers db') out) =
      map_option sw_spentHeight (js_get (db_states db') out)" for out
  proof -
    have old: "map_option cw_spentHeight (js_get (db_carriers db) out) =
        map_option sw_spentHeight (js_get (db_states db) out)" using store_okD(5) [OF facts(3)] .
    have new: "map_option cw_spentHeight (js_get (map (carrier_entry h) ss) out) =
        map_option sw_spentHeight (js_get (map (state_entry h) ss) out)" for h ss
      by (induction ss) (auto simp: carrier_entry_def state_entry_def)
    have marked: "map_option cw_spentHeight (map_option (spend_carrier h sp out) x) =
        map_option sw_spentHeight (map_option (spend_state h sp out) y)"
      if "map_option cw_spentHeight x = map_option sw_spentHeight y" for h sp x y
      using that by (cases x; cases y) auto
    show ?thesis
      unfolding db' written_fields written_states_get [OF acc] written_carriers_get [OF acc]
      by (rule marked) (use old new in \<open>auto split: option.splits\<close>)
  qed
  have "store_ok db' (rb_objects rb)"
    unfolding store_ok_def
    using written_block_ok [OF ok fits acc] load states active mirror by (simp add: db')
  with fits show ?thesis by blast
qed

end
