(* ===== verification/Store_Total.thy ===== *)
theory Store_Total
  imports Store_Consistency
begin

text \<open>
  The database accepts every block the reducer produces.  \<open>store_fresh\<close> says that the tables mention
  only confirmed transactions and steps that the objects have passed; then no unique key and no foreign
  key stops \<open>writeBlock\<close>, and the block that is written is \<open>written_block\<close>.
\<close>

section \<open>When a loop of inserts succeeds\<close>

lemma write_transactions_total:
  "h \<in> table_keys (db_blocks db) \<Longrightarrow>
   js_wf (db_transactions db @ map (transaction_entry h) ts) \<Longrightarrow> distinct (map rt_txIndex ts) \<Longrightarrow>
   \<forall>r \<in> table_rows (db_transactions db). \<forall>t \<in> set ts. tw_blockHeight r \<noteq> h \<or> tw_txIndex r \<noteq> rt_txIndex t \<Longrightarrow>
   foldE (write_transaction h) db ts =
     Inr (db\<lparr>db_transactions := db_transactions db @ map (transaction_entry h) ts\<rparr>)"
proof (induction ts arbitrary: db)
  case (Cons t ts)
  let ?db = "db\<lparr>db_transactions := db_transactions db @ [transaction_entry h t]\<rparr>"
  have "rt_txid t \<notin> table_keys (db_transactions db)"
    using Cons.prems(2) by (auto simp: transaction_entry_def)
  then have "write_transaction h db t = Inr ?db"
    using Cons.prems(1,4) by (auto simp: write_transaction_def statement_simps transaction_entry_def)
  moreover have "foldE (write_transaction h) ?db ts =
      Inr (?db\<lparr>db_transactions := db_transactions ?db @ map (transaction_entry h) ts\<rparr>)"
    using Cons.prems by (intro Cons.IH) (auto simp: transaction_entry_def)
  ultimately show ?case by simp
qed simp

lemma write_events_total:
  "h \<in> table_keys (db_blocks db) \<Longrightarrow> \<forall>e \<in> set es. er_txid e \<in> table_keys (db_transactions db) \<Longrightarrow>
   distinct (map event_position es) \<Longrightarrow> \<forall>r \<in> set (db_events db). \<forall>e \<in> set es. ew_blockHeight r \<noteq> h \<or>
     (ew_txIndex r, ew_eventIndex r, ew_subIndex r) \<noteq> event_position e \<Longrightarrow>
   foldE (write_event h) db es = Inr (db\<lparr>db_events := db_events db @ map (event_row_of h) es\<rparr>)"
proof (induction es arbitrary: db)
  case (Cons e es)
  let ?db = "db\<lparr>db_events := db_events db @ [event_row_of h e]\<rparr>"
  have "write_event h db e = Inr ?db"
    using Cons.prems(1,2,4) by (auto simp: write_event_def statement_simps event_position_def)
  moreover have "foldE (write_event h) ?db es =
      Inr (?db\<lparr>db_events := db_events ?db @ map (event_row_of h) es\<rparr>)"
    using Cons.prems by (intro Cons.IH) (auto simp: event_row_of_def event_position_def)
  ultimately show ?case by simp
qed simp

lemma write_undo_total:
  "h \<in> table_keys (db_blocks db) \<Longrightarrow> foldE (write_undo h objects) db us =
     Inr (db\<lparr>db_object_undo := db_object_undo db @ map (undo_entry h) us,
             db_objects := fold (upsert_entry objects) us (db_objects db)\<rparr>)"
proof (induction us arbitrary: db)
  case (Cons u us)
  let ?db = "db\<lparr>db_object_undo := db_object_undo db @ [undo_entry h u],
      db_objects := upsert_entry objects u (db_objects db)\<rparr>"
  have "write_undo h objects db u = Inr ?db"
    using Cons.prems by (auto simp: write_undo_def statement_simps undo_entry_def upsert_entry_def)
  with Cons.IH [of ?db] Cons.prems show ?case by simp
qed simp

lemma write_states_total:
  "\<forall>s \<in> set ss. sr_objectKey s \<in> table_keys (db_objects db) \<Longrightarrow>
   js_wf (db_states db @ map (state_entry h) ss) \<Longrightarrow> js_wf (db_carriers db @ map (carrier_entry h) ss) \<Longrightarrow>
   distinct (map state_step ss) \<Longrightarrow>
   \<forall>r \<in> table_rows (db_states db). (sw_objectKey r, sw_sequence r) \<notin> set (map state_step ss) \<Longrightarrow>
   foldE (write_state h) db ss =
     Inr (db\<lparr>db_states := db_states db @ map (state_entry h) ss,
             db_carriers := db_carriers db @ map (carrier_entry h) ss\<rparr>)"
proof (induction ss arbitrary: db)
  case (Cons s ss)
  let ?db = "db\<lparr>db_states := db_states db @ [state_entry h s],
      db_carriers := db_carriers db @ [carrier_entry h s]\<rparr>"
  have "sr_outpoint s \<notin> table_keys (db_states db)" "sr_outpoint s \<notin> table_keys (db_carriers db)"
    using Cons.prems(2,3) by (auto simp: state_entry_def carrier_entry_def)
  moreover have "\<not> (sw_objectKey r = sr_objectKey s \<and> sw_sequence r = sr_sequence s)"
    if "r \<in> table_rows (db_states db)" for r
    using Cons.prems(5) that by (auto simp: state_step_def)
  ultimately have "write_state h db s = Inr ?db"
    using Cons.prems(1) by (auto simp: write_state_def statement_simps state_entry_def carrier_entry_def)
  moreover have "foldE (write_state h) ?db ss =
      Inr (?db\<lparr>db_states := db_states ?db @ map (state_entry h) ss,
               db_carriers := db_carriers ?db @ map (carrier_entry h) ss\<rparr>)"
    using Cons.prems by (intro Cons.IH) (auto simp: state_entry_def state_step_def)
  ultimately show ?case by simp
qed simp

lemma write_chapters_total:
  "\<forall>c \<in> set cs. cr_objectKey c \<in> table_keys (db_objects db) \<Longrightarrow> distinct (map cr_txid cs) \<Longrightarrow>
   distinct (map (\<lambda>c. (cr_objectKey c, cr_sequence c)) cs) \<Longrightarrow>
   \<forall>r \<in> set (db_chapters db). hw_txid r \<notin> set (map cr_txid cs) \<and>
     (hw_objectKey r, hw_sequence r) \<notin> set (map (\<lambda>c. (cr_objectKey c, cr_sequence c)) cs) \<Longrightarrow>
   foldE (write_chapter h) db cs = Inr (db\<lparr>db_chapters := db_chapters db @ map (chapter_entry h) cs\<rparr>)"
proof (induction cs arbitrary: db)
  case (Cons c cs)
  let ?db = "db\<lparr>db_chapters := db_chapters db @ [chapter_entry h c]\<rparr>"
  have "write_chapter h db c = Inr ?db"
    using Cons.prems(1,4) by (auto simp: write_chapter_def statement_simps chapter_entry_def)
  moreover have "foldE (write_chapter h) ?db cs =
      Inr (?db\<lparr>db_chapters := db_chapters ?db @ map (chapter_entry h) cs\<rparr>)"
    using Cons.prems by (intro Cons.IH) (auto simp: chapter_entry_def)
  ultimately show ?case by simp
qed simp

text \<open>Everything that has to hold for a block to go in.\<close>

definition block_acceptable :: "reduced_block \<Rightarrow> database \<Rightarrow> bool" where
  "block_acceptable rb db =
     (block_accepted rb db \<and> (\<forall>r \<in> table_rows (db_blocks db). bk_hash r \<noteq> rb_hash rb) \<and>
      distinct (map rt_txIndex (rb_transactions rb)) \<and> distinct (map event_position (rb_events rb)) \<and>
      distinct (map state_step (rb_newStates rb)) \<and>
      (\<forall>r \<in> table_rows (db_states db).
         (sw_objectKey r, sw_sequence r) \<notin> set (map state_step (rb_newStates rb))) \<and>
      distinct (map cr_txid (rb_chapters rb)) \<and>
      distinct (map (\<lambda>c. (cr_objectKey c, cr_sequence c)) (rb_chapters rb)) \<and>
      (\<forall>r \<in> set (db_chapters db). hw_txid r \<notin> set (map cr_txid (rb_chapters rb)) \<and>
         (hw_objectKey r, hw_sequence r) \<notin> set (map (\<lambda>c. (cr_objectKey c, cr_sequence c)) (rb_chapters rb))))"

lemma writeBlock_accepts:
  assumes ok: "db_ok db" and acc: "block_acceptable rb db"
  shows "writeBlock db rb = Inr (written_block rb db)"
proof -
  let ?h = "rb_height rb"
  have accd: "block_accepted rb db" using acc by (simp add: block_acceptable_def)
  have fresh: "?h \<notin> table_keys (db_blocks db)" using accd by (simp add: block_accepted_def)
  note unknown = unknown_height [OF ok fresh]
  let ?d1 = "db\<lparr>db_blocks := db_blocks db @ [(?h, block_row_of rb)]\<rparr>"
  let ?d2 = "?d1\<lparr>db_init := if rb_initConfirmed rb then Some (rb_activation rb) else db_init db\<rparr>"
  let ?d3 = "?d2\<lparr>db_transactions := db_transactions ?d2 @ map (transaction_entry ?h) (rb_transactions rb)\<rparr>"
  let ?d4 = "?d3\<lparr>db_events := db_events ?d3 @ map (event_row_of ?h) (rb_events rb)\<rparr>"
  let ?d5 = "?d4\<lparr>db_object_undo := db_object_undo ?d4 @ map (undo_entry ?h) (rb_undo rb),
      db_objects := fold (upsert_entry (rb_objects rb)) (rb_undo rb) (db_objects ?d4)\<rparr>"
  let ?d6 = "?d5\<lparr>db_states := db_states ?d5 @ map (state_entry ?h) (rb_newStates rb),
      db_carriers := db_carriers ?d5 @ map (carrier_entry ?h) (rb_newStates rb)\<rparr>"
  let ?d7 = "fold (mark_spent ?h) (rb_spentOutpoints rb) ?d6"
  let ?d8 = "?d7\<lparr>db_chapters := db_chapters ?d7 @ map (chapter_entry ?h) (rb_chapters rb)\<rparr>"
  have s1: "write_block_row rb db = Inr ?d1"
    using acc fresh by (auto simp: write_block_row_def statement_simps block_acceptable_def)
  have s2: "write_init rb ?d1 = Inr ?d2"
  proof -
    have "rb_initConfirmed rb \<Longrightarrow> references (db_blocks ?d1) (ia_height (rb_activation rb)) = Inr ()"
      using accd by (simp add: references_Inr block_accepted_def)
    moreover have "rb_initConfirmed rb \<Longrightarrow> db_init db = None" using accd by (simp add: block_accepted_def)
    ultimately show ?thesis by (simp add: write_init_def)
  qed
  have s3: "foldE (write_transaction ?h) ?d2 (rb_transactions rb) = Inr ?d3"
    using acc accd unknown(2)
    by (intro write_transactions_total) (auto simp: block_acceptable_def block_accepted_def)
  have s4: "foldE (write_event ?h) ?d3 (rb_events rb) = Inr ?d4"
    using acc accd unknown(3)
    by (intro write_events_total) (auto simp: block_acceptable_def block_accepted_def)
  have s5: "foldE (write_undo ?h (rb_objects rb)) ?d4 (rb_undo rb) = Inr ?d5"
    by (rule write_undo_total) simp
  have s6: "foldE (write_state ?h) ?d5 (rb_newStates rb) = Inr ?d6"
    using acc accd by (intro write_states_total) (simp_all add: block_acceptable_def block_accepted_def)
  have s7: "foldE (write_chapter ?h) ?d7 (rb_chapters rb) = Inr ?d8"
    using acc accd
    by (intro write_chapters_total) (simp_all add: spends_shape block_acceptable_def block_accepted_def)
  have s8: "write_checkpoint rb ?d8 = Inr (?d8\<lparr>db_checkpoints := db_checkpoints ?d8 @ [checkpoint_entry rb]\<rparr>)"
  proof -
    have "references (db_blocks ?d8) ?h = Inr ()" by (simp add: references_Inr spends_shape)
    moreover have "?h \<notin> table_keys (db_checkpoints ?d8)"
      using accd by (simp add: block_accepted_def spends_shape)
    ultimately show ?thesis by (simp add: write_checkpoint_def insert_keyed_Inr checkpoint_entry_def)
  qed
  have "writeBlock db rb = Inr (?d8\<lparr>db_checkpoints := db_checkpoints ?d8 @ [checkpoint_entry rb]\<rparr>)"
    unfolding writeBlock_def by (simp only: s1 s2 s3 s4 s5 s6 s7 s8 bindE_simps)
  also have "\<dots> = Inr (written_block rb db)"
    by (simp add: spends_shape written_block_def Let_def written_states_def written_carriers_def)
  finally show ?thesis .
qed

section \<open>What the reducer produces is acceptable\<close>

lemma subseq_keeps: "subseq xs ys \<Longrightarrow> set xs \<subseteq> set ys \<and> (distinct ys \<longrightarrow> distinct xs)"
  by (induction rule: list_emb.induct) auto

lemma canonical_txids_distinct:
  "canonical_transactions T ts \<Longrightarrow> distinct (map tx_txid ts)"
proof (induction ts arbitrary: T)
  case (Cons t ts)
  then show ?case
    using canonical_transactions_fresh [of "insert (tx_txid t) T" ts] by fastforce
qed simp

text \<open>The tables mention only confirmed transactions and steps the objects have passed.\<close>

definition store_fresh :: "string set \<Rightarrow> database \<Rightarrow> object_map \<Rightarrow> bool" where
  "store_fresh T db objects =
     (table_keys (db_transactions db) \<subseteq> T \<and> table_keys (db_states db) \<subseteq> carrier_outpoints T \<and>
      (\<forall>row \<in> table_rows (db_states db). \<exists>r. js_get objects (sw_objectKey row) = Some r \<and>
         sw_sequence row \<le> or_stateSequence r) \<and>
      (\<forall>c \<in> set (db_chapters db). hw_txid c \<in> T \<and> (\<exists>r. js_get objects (hw_objectKey c) = Some r \<and>
         hw_sequence c \<le> or_stateSequence r)))"

lemma store_fresh_empty: "store_fresh T empty_database objects"
  by (simp add: store_fresh_def empty_database_def)

text \<open>The rows for the transactions with events.\<close>

lemma event_transactions_rows:
  assumes "map fst ots = [0..<length ots]" and "map snd ots = ts" and "distinct (map tx_txid ts)"
  shows "distinct (map rt_txIndex (event_transactions es ots))"
    and "distinct (map rt_txid (event_transactions es ots))"
    and "set (map rt_txid (event_transactions es ots)) = set (map er_txid es) \<inter> set (map tx_txid ts)"
proof -
  let ?P = "\<lambda>(i, t). tx_txid t \<in> set (map er_txid es)"
  have idx: "map rt_txIndex (event_transactions es ots) = map fst (filter ?P ots)"
    and ids: "map rt_txid (event_transactions es ots) = map (tx_txid \<circ> snd) (filter ?P ots)"
    by (simp_all add: event_transactions_def case_prod_unfold o_def)
  have "distinct (map fst ots)" using assms(1) by simp
  then show "distinct (map rt_txIndex (event_transactions es ots))"
    unfolding idx by (rule distinct_map_filter)
  have all: "map (tx_txid \<circ> snd) ots = map tx_txid ts" using assms(2) by auto
  then have "distinct (map (tx_txid \<circ> snd) ots)" using assms(3) by simp
  then show "distinct (map rt_txid (event_transactions es ots))"
    unfolding ids by (rule distinct_map_filter)
  have "set (map tx_txid ts) = (tx_txid \<circ> snd) ` set ots" by (metis all set_map)
  moreover have "(tx_txid \<circ> snd) ` set (filter ?P ots) = {u \<in> (tx_txid \<circ> snd) ` set ots. u \<in> set (map er_txid es)}"
    by force
  ultimately show "set (map rt_txid (event_transactions es ots)) = set (map er_txid es) \<inter> set (map tx_txid ts)"
    unfolding ids set_map by auto
qed

lemma transaction_keys: "map fst (map (transaction_entry h) ts) = map rt_txid ts"
  by (simp add: transaction_entry_def o_def)

lemma state_keys: "map fst (map (state_entry h) ss) = map sr_outpoint ss"
  "map fst (map (carrier_entry h) ss) = map sr_outpoint ss"
  by (simp_all add: state_entry_def carrier_entry_def o_def)

lemma stored_run_transactions:
  assumes run: "stored_run L C bd T act root objects block rb db" and keys: "keys_ok db"
    and fresh: "store_fresh T db objects"
  shows "js_wf (db_transactions db @ map (transaction_entry (rb_height rb)) (rb_transactions rb))"
    and "\<forall>e \<in> set (rb_events rb). er_txid e \<in>
      table_keys (db_transactions db @ map (transaction_entry (rb_height rb)) (rb_transactions rb))"
    and "distinct (map rt_txIndex (rb_transactions rb))"
    and "set (map rt_txid (rb_transactions rb)) \<subseteq> set (map tx_txid (blk_transactions block))"
proof -
  note facts = stored_runD [OF run]
  let ?B = "map tx_txid (blk_transactions block)"
  obtain ots where ots: "orderedBlockTransactions block = Inr ots"
    "rb_transactions rb = event_transactions (rb_events rb) ots"
    using facts(2) by (rule reduceBlock_run)
  have snd: "map snd ots = blk_transactions block" using orderedBlockTransactions_snd [OF ots(1)] .
  have "length ots = length (blk_transactions block)" using snd by (metis length_map)
  then have fst: "map fst ots = [0..<length ots]" using orderedBlockTransactions_fst [OF ots(1)] by simp
  note rows = event_transactions_rows [OF fst snd canonical_txids_distinct [OF facts(8)], of "rb_events rb",
      folded ots(2)]
  show "distinct (map rt_txIndex (rb_transactions rb))" by (rule rows(1))
  show sub: "set (map rt_txid (rb_transactions rb)) \<subseteq> set ?B" using rows(3) by blast
  have "u \<notin> table_keys (db_transactions db)" if "u \<in> set ?B" for u
    using that canonical_transactions_fresh [OF facts(8)] fresh by (auto simp: store_fresh_def)
  then show "js_wf (db_transactions db @ map (transaction_entry (rb_height rb)) (rb_transactions rb))"
    unfolding map_append transaction_keys distinct_append set_map [of fst]
    using keys rows(2) sub unfolding keys_ok_def by blast
  have "er_txid e \<in> set ?B" if "e \<in> set (rb_events rb)" for e
    using reduceBlock_events_ordered [OF facts(2)] that by (metis in_set_conv_nth length_map nth_map)
  then have "er_txid e \<in> set (map rt_txid (rb_transactions rb))" if "e \<in> set (rb_events rb)" for e
    using that rows(3) by auto
  then show "\<forall>e \<in> set (rb_events rb). er_txid e \<in>
      table_keys (db_transactions db @ map (transaction_entry (rb_height rb)) (rb_transactions rb))"
    by (metis UnCI set_append set_map transaction_keys map_append)
qed

lemma stored_run_progress:
  assumes run: "stored_run L C bd T act root objects block rb db"
  shows "distinct (map sr_outpoint (rb_newStates rb))"
    and "distinct (map state_step (rb_newStates rb))"
    and "\<forall>row \<in> set (rb_newStates rb). \<exists>r. js_get (rb_objects rb) (sr_objectKey row) = Some r \<and>
      sr_sequence row \<le> or_stateSequence r"
    and "\<forall>k r0. js_get objects k = Some r0 \<longrightarrow>
      (\<exists>r. js_get (rb_objects rb) k = Some r \<and> or_stateSequence r0 \<le> or_stateSequence r)"
    and "\<exists>r. js_get objects k = Some r \<and> n \<le> or_stateSequence r \<Longrightarrow> (k, n) \<notin> set (map state_step (rb_newStates rb))"
    and "subseq (map chapter_place (rb_chapters rb)) (map state_place (rb_newStates rb))"
proof -
  obtain s where s: "rb_objects rb = ws_objects s" "rb_newStates rb = ws_newStates s"
    "rb_chapters rb = ws_chapters s" "steps_ok objects s"
    using reduceBlock_outcome [OF stored_runD(1,2) [OF run]] by (metis block_inv_def)
  then have prog: "progress_ok objects s" by (simp add: steps_ok_def)
  show "distinct (map sr_outpoint (rb_newStates rb))" "distinct (map state_step (rb_newStates rb))"
    "subseq (map chapter_place (rb_chapters rb)) (map state_place (rb_newStates rb))"
    using s by (simp_all add: steps_ok_def)
  show "\<forall>row \<in> set (rb_newStates rb). \<exists>r. js_get (rb_objects rb) (sr_objectKey row) = Some r \<and>
      sr_sequence row \<le> or_stateSequence r"
    "\<forall>k r0. js_get objects k = Some r0 \<longrightarrow>
      (\<exists>r. js_get (rb_objects rb) k = Some r \<and> or_stateSequence r0 \<le> or_stateSequence r)"
    using prog s unfolding progress_ok_def by (metis, metis)
  assume past: "\<exists>r. js_get objects k = Some r \<and> n \<le> or_stateSequence r"
  show "(k, n) \<notin> set (map state_step (rb_newStates rb))"
  proof
    assume "(k, n) \<in> set (map state_step (rb_newStates rb))"
    then obtain row where "row \<in> set (ws_newStates s)" "sr_objectKey row = k" "sr_sequence row = n"
      using s by (auto simp: state_step_def)
    then have "\<forall>r0. js_get objects k = Some r0 \<longrightarrow> or_stateSequence r0 < n"
      using prog unfolding progress_ok_def by blast
    with past show False by fastforce
  qed
qed

text \<open>Every chapter is of a state of the block, in the same order.\<close>

lemma stored_run_chapters:
  assumes run: "stored_run L C bd T act root objects block rb db"
  shows "subseq (map (\<lambda>c. (cr_objectKey c, cr_sequence c)) (rb_chapters rb)) (map state_step (rb_newStates rb))"
    and "distinct (map cr_txid (rb_chapters rb))"
    and "set (map cr_txid (rb_chapters rb)) \<subseteq> set (map tx_txid (blk_transactions block))"
proof -
  let ?B = "set (map tx_txid (blk_transactions block))"
  note sub = stored_run_progress(6) [OF run]
  show "subseq (map (\<lambda>c. (cr_objectKey c, cr_sequence c)) (rb_chapters rb)) (map state_step (rb_newStates rb))"
    using subseq_map [OF sub, of snd]
    by (simp add: chapter_place_def state_place_def state_step_def [abs_def] o_def)
  have "subseq (map (\<lambda>c. display_outpoint (cr_txid c) 1) (rb_chapters rb)) (map sr_outpoint (rb_newStates rb))"
    using subseq_map [OF sub, of fst] by (simp add: chapter_place_def state_place_def o_def)
  then have outpoints: "distinct (map (\<lambda>txid. display_outpoint txid 1) (map cr_txid (rb_chapters rb)))"
    "(\<lambda>c. display_outpoint (cr_txid c) 1) ` set (rb_chapters rb) \<subseteq> sr_outpoint ` set (rb_newStates rb)"
    using subseq_keeps stored_run_progress(1) [OF run] by (fastforce simp: o_def)+
  then show "distinct (map cr_txid (rb_chapters rb))" using distinct_map by blast
  show "set (map cr_txid (rb_chapters rb)) \<subseteq> ?B"
  proof
    fix txid assume "txid \<in> set (map cr_txid (rb_chapters rb))"
    then have "display_outpoint txid 1 \<in> carrier_outpoints ?B"
      using outpoints(2) reduceBlock_new_outpoints [OF stored_runD(2) [OF run]] by auto
    then show "txid \<in> ?B" by (simp only: display_outpoint_fresh)
  qed
qed

lemma stored_run_steps:
  assumes run: "stored_run L C bd T act root objects block rb db" and fresh: "store_fresh T db objects"
  shows "distinct (map sr_outpoint (rb_newStates rb))"
    and "distinct (map state_step (rb_newStates rb))"
    and "\<forall>r \<in> table_rows (db_states db). (sw_objectKey r, sw_sequence r) \<notin> set (map state_step (rb_newStates rb))"
    and "distinct (map cr_txid (rb_chapters rb))"
    and "distinct (map (\<lambda>c. (cr_objectKey c, cr_sequence c)) (rb_chapters rb))"
    and "\<forall>r \<in> set (db_chapters db). hw_txid r \<notin> set (map cr_txid (rb_chapters rb)) \<and>
      (hw_objectKey r, hw_sequence r) \<notin> set (map (\<lambda>c. (cr_objectKey c, cr_sequence c)) (rb_chapters rb))"
    and "set (map cr_txid (rb_chapters rb)) \<subseteq> set (map tx_txid (blk_transactions block))"
    and "\<forall>row \<in> set (rb_newStates rb). \<exists>r. js_get (rb_objects rb) (sr_objectKey row) = Some r \<and>
      sr_sequence row \<le> or_stateSequence r"
    and "\<forall>k r0. js_get objects k = Some r0 \<longrightarrow>
      (\<exists>r. js_get (rb_objects rb) k = Some r \<and> or_stateSequence r0 \<le> or_stateSequence r)"
    and "\<forall>c \<in> set (rb_chapters rb). (cr_objectKey c, cr_sequence c) \<in> set (map state_step (rb_newStates rb))"
proof -
  let ?pair = "\<lambda>c. (cr_objectKey c, cr_sequence c)"
  note progress = stored_run_progress [OF run] and chapters = stored_run_chapters [OF run]
  note pairs = subseq_keeps [OF chapters(1)]
  show "distinct (map sr_outpoint (rb_newStates rb))" "distinct (map state_step (rb_newStates rb))"
    "\<forall>row \<in> set (rb_newStates rb). \<exists>r. js_get (rb_objects rb) (sr_objectKey row) = Some r \<and>
      sr_sequence row \<le> or_stateSequence r"
    "\<forall>k r0. js_get objects k = Some r0 \<longrightarrow>
      (\<exists>r. js_get (rb_objects rb) k = Some r \<and> or_stateSequence r0 \<le> or_stateSequence r)"
    by (fact progress(1-4))+
  show "\<forall>r \<in> table_rows (db_states db). (sw_objectKey r, sw_sequence r) \<notin> set (map state_step (rb_newStates rb))"
    using fresh progress(5) unfolding store_fresh_def by blast
  show "\<forall>c \<in> set (rb_chapters rb). ?pair c \<in> set (map state_step (rb_newStates rb))" using pairs by fastforce
  show "distinct (map ?pair (rb_chapters rb))" using pairs progress(2) by blast
  show "distinct (map cr_txid (rb_chapters rb))"
    and txids: "set (map cr_txid (rb_chapters rb)) \<subseteq> set (map tx_txid (blk_transactions block))"
    by (fact chapters(2,3))+
  show "\<forall>r \<in> set (db_chapters db). hw_txid r \<notin> set (map cr_txid (rb_chapters rb)) \<and>
      (hw_objectKey r, hw_sequence r) \<notin> set (map ?pair (rb_chapters rb))"
  proof
    fix r assume r: "r \<in> set (db_chapters db)"
    then have "hw_txid r \<in> T" "\<exists>q. js_get objects (hw_objectKey r) = Some q \<and> hw_sequence r \<le> or_stateSequence q"
      using fresh by (simp_all add: store_fresh_def)
    then have "hw_txid r \<notin> set (map cr_txid (rb_chapters rb))"
      "(hw_objectKey r, hw_sequence r) \<notin> set (map state_step (rb_newStates rb))"
      using txids canonical_transactions_fresh [OF stored_runD(8) [OF run]] progress(5) by auto
    then show "hw_txid r \<notin> set (map cr_txid (rb_chapters rb)) \<and>
      (hw_objectKey r, hw_sequence r) \<notin> set (map ?pair (rb_chapters rb))"
      using pairs by blast
  qed
qed

text \<open>What the outcome of a block adds to the store is fresh for the next one.\<close>

lemma run_object_keys:
  assumes run: "stored_run L C bd T act root objects block rb db" and keys: "keys_ok db"
    and k: "k \<in> fst ` set (rb_objects rb)"
  shows "k \<in> table_keys (fold (upsert_entry (rb_objects rb)) (rb_undo rb) (db_objects db))"
proof -
  note facts = stored_runD [OF run]
  have wf: "js_wf (db_objects db)" using keys by (simp add: keys_ok_def)
  have table: "table_keys (fold (upsert_entry (rb_objects rb)) (rb_undo rb) (db_objects db)) =
      table_keys (db_objects db) \<union> {k \<in> fst ` set (rb_undo rb). js_get (rb_objects rb) k \<noteq> None}"
    using upserts_wf [OF reduceBlock_rows(1) [OF facts(2,6)] stored_run_distinct [OF run] wf
        stored_run_entries [OF run keys]] by blast
  obtain s where undo: "undo_ok objects s" "rb_objects rb = ws_objects s" "rb_undo rb = ws_undo s"
    using facts(2) by (rule reduceBlock_undo_ok)
  have here: "js_get (rb_objects rb) k \<noteq> None" using k by (simp add: map_of_eq_None_iff)
  show ?thesis
  proof (cases "k \<in> fst ` set (rb_undo rb)")
    case True
    then show ?thesis using table here by blast
  next
    case False
    then have "js_get (ws_undo s) k = None" using undo(3) by (simp add: map_of_eq_None_iff)
    then have "js_get objects k = js_get (rb_objects rb) k"
      using undo by (force simp: undo_ok_def dest!: spec [of _ k])
    then obtain r where "js_get objects k = Some r" using here by auto
    then have "js_get (db_objects db) k \<noteq> None" using store_ok_object [OF facts(3)] by simp
    then show ?thesis using table by (simp add: map_of_eq_None_iff)
  qed
qed

lemma stored_run_acceptable:
  assumes run: "stored_run L C bd T act root objects block rb db" and fresh: "store_fresh T db objects"
    and height: "rb_height rb \<notin> table_keys (db_blocks db)"
    and hash: "\<forall>r \<in> table_rows (db_blocks db). bk_hash r \<noteq> rb_hash rb"
    and init: "act = None \<longrightarrow> db_init db = None"
  shows "block_acceptable rb db"
proof -
  note facts = stored_runD [OF run]
  have ok: "db_ok db" using store_okD(1) [OF facts(3)] .
  then have keys: "keys_ok db" by (simp add: db_ok_def)
  note txs = stored_run_transactions [OF run keys fresh] and steps = stored_run_steps [OF run fresh]
  note objects = run_object_keys [OF run keys] and known = reduceBlock_rows(2) [OF facts(2,6)]
  have conf: "rb_initConfirmed rb = (act = None)" using facts(2) by (rule reduceBlock_run)
  have out: "out \<notin> table_keys (db_states db)" if "out \<in> sr_outpoint ` set (rb_newStates rb)" for out
  proof -
    have "out \<in> carrier_outpoints (set (map tx_txid (blk_transactions block)))"
      using that reduceBlock_new_outpoints [OF facts(2)] by blast
    then obtain txid where txid: "txid \<in> set (map tx_txid (blk_transactions block))" "out = display_outpoint txid 1"
      by (auto simp only: carrier_outpoints_def)
    then have "txid \<notin> T" using canonical_transactions_fresh [OF facts(8)] by auto
    then have "out \<notin> carrier_outpoints T" using txid(2) using display_outpoint_fresh [of txid T] by blast
    then show ?thesis using fresh by (auto simp: store_fresh_def)
  qed
  have same: "table_keys (db_carriers db) = table_keys (db_states db)"
    using store_okD(5) [OF facts(3)]
    by (metis (no_types, lifting) map_of_eq_None_iff option.map_disc_iff subset_antisym subsetI)
  have "block_accepted rb db"
    unfolding block_accepted_def
  proof (intro conjI)
    show "rb_height rb \<notin> table_keys (db_checkpoints db)" using unknown_height(5) [OF ok height] .
    show "rb_initConfirmed rb \<longrightarrow> db_init db = None \<and>
        ia_height (rb_activation rb) \<in> insert (rb_height rb) (table_keys (db_blocks db))"
      using conf init rb_init_height [OF facts(2)] by simp
    show "js_wf (db_states db @ map (state_entry (rb_height rb)) (rb_newStates rb))"
      unfolding map_append state_keys distinct_append set_map using keys steps(1) out
      unfolding keys_ok_def by blast
    show "js_wf (db_carriers db @ map (carrier_entry (rb_height rb)) (rb_newStates rb))"
      unfolding map_append state_keys distinct_append set_map same using keys steps(1) out
      unfolding keys_ok_def by blast
    show "\<forall>s \<in> set (rb_newStates rb). sr_objectKey s \<in>
        table_keys (fold (upsert_entry (rb_objects rb)) (rb_undo rb) (db_objects db))"
      using objects known by blast
    show "\<forall>c \<in> set (rb_chapters rb). cr_objectKey c \<in>
        table_keys (fold (upsert_entry (rb_objects rb)) (rb_undo rb) (db_objects db))"
      using objects known by blast
  qed (fact height txs)+
  moreover have "distinct (map event_position (rb_events rb))"
    using reduceBlock_events_ordered [OF facts(2)] position_less_distinct by blast
  ultimately show ?thesis
    unfolding block_acceptable_def using hash txs(3) steps(2-6) by blast
qed

lemma written_states_bounded:
  assumes run: "stored_run L C bd T act root objects block rb db" and fresh: "store_fresh T db objects"
    and row: "row \<in> table_rows (db_states (written_block rb db))"
  shows "\<exists>r. js_get (rb_objects rb) (sw_objectKey row) = Some r \<and> sw_sequence row \<le> or_stateSequence r"
proof -
  note steps = stored_run_steps [OF run fresh]
  from row obtain out q where q: "row = spend_state (rb_height rb) (rb_spentOutpoints rb) out q"
    "(out, q) \<in> set (db_states db @ map (state_entry (rb_height rb)) (rb_newStates rb))"
    unfolding written_fields written_states_def mapped_rows by blast
  have seq: "sw_sequence row = sw_sequence q" "sw_objectKey row = sw_objectKey q"
    by (simp_all add: q(1) spend_state_def split: option.split)
  from entry_row [OF q(2)] show ?thesis
    unfolding seq
  proof
    assume "q \<in> table_rows (db_states db)"
    then have "\<exists>r. js_get objects (sw_objectKey q) = Some r \<and> sw_sequence q \<le> or_stateSequence r"
      using fresh unfolding store_fresh_def by blast
    then show "\<exists>r. js_get (rb_objects rb) (sw_objectKey q) = Some r \<and> sw_sequence q \<le> or_stateSequence r"
      using steps(9) by fastforce
  next
    assume "\<exists>s \<in> set (rb_newStates rb). q = snd (state_entry (rb_height rb) s)"
    then show "\<exists>r. js_get (rb_objects rb) (sw_objectKey q) = Some r \<and> sw_sequence q \<le> or_stateSequence r"
      using steps(8) by (auto simp: state_entry_def)
  qed
qed

lemma written_chapters_bounded:
  assumes run: "stored_run L C bd T act root objects block rb db" and fresh: "store_fresh T db objects"
    and c: "c \<in> set (db_chapters (written_block rb db))"
  shows "hw_txid c \<in> T \<union> set (map tx_txid (blk_transactions block)) \<and>
    (\<exists>r. js_get (rb_objects rb) (hw_objectKey c) = Some r \<and> hw_sequence c \<le> or_stateSequence r)"
proof -
  note steps = stored_run_steps [OF run fresh]
  from c consider "c \<in> set (db_chapters db)"
    | d where "d \<in> set (rb_chapters rb)" "c = chapter_entry (rb_height rb) d"
    by (auto simp: written_fields)
  then show ?thesis
  proof cases
    case 1
    then have "hw_txid c \<in> T"
      "\<exists>r. js_get objects (hw_objectKey c) = Some r \<and> hw_sequence c \<le> or_stateSequence r"
      using fresh by (simp_all add: store_fresh_def)
    with steps(9) show ?thesis by fastforce
  next
    case (2 d)
    have "\<exists>r. js_get (rb_objects rb) k = Some r \<and> n \<le> or_stateSequence r"
      if "(k, n) \<in> set (map state_step (rb_newStates rb))" for k n
      using that steps(8) by (auto simp: state_step_def)
    with 2 show ?thesis using steps(7,10) by (auto simp: chapter_entry_def)
  qed
qed

lemma written_block_fresh:
  assumes run: "stored_run L C bd T act root objects block rb db" and fresh: "store_fresh T db objects"
    and acc: "block_accepted rb db"
  shows "store_fresh (confirmed_txids T block) (written_block rb db) (rb_objects rb)"
proof -
  note facts = stored_runD [OF run]
  let ?B = "set (map tx_txid (blk_transactions block))"
  have T': "confirmed_txids T block = T \<union> ?B" by (simp add: confirmed_txids_def)
  have keys: "keys_ok db" using store_okD(1) [OF facts(3)] by (simp add: db_ok_def)
  note txs = stored_run_transactions [OF run keys fresh]
  show ?thesis
    unfolding store_fresh_def T'
  proof (intro conjI ballI)
    have "fst ` set (map (transaction_entry (rb_height rb)) (rb_transactions rb)) \<subseteq> ?B"
      using txs(4) by (metis set_map transaction_keys)
    moreover have "table_keys (db_transactions db) \<subseteq> T" using fresh by (simp add: store_fresh_def)
    ultimately show "table_keys (db_transactions (written_block rb db)) \<subseteq> T \<union> ?B"
      unfolding written_fields set_append image_Un by blast
    have "table_keys (written_states rb db) = table_keys (db_states db) \<union> sr_outpoint ` set (rb_newStates rb)"
      by (simp add: written_states_def case_prod_unfold image_image image_Un state_entry_def)
    then show "table_keys (db_states (written_block rb db)) \<subseteq> carrier_outpoints (T \<union> ?B)"
      using fresh reduceBlock_new_outpoints [OF facts(2)]
      by (auto simp: store_fresh_def written_fields carrier_outpoints_def)
  next
    fix row assume "row \<in> table_rows (db_states (written_block rb db))"
    then show "\<exists>r. js_get (rb_objects rb) (sw_objectKey row) = Some r \<and>
        sw_sequence row \<le> or_stateSequence r"
      by (rule written_states_bounded [OF run fresh])
  next
    fix c assume "c \<in> set (db_chapters (written_block rb db))"
    from written_chapters_bounded [OF run fresh this]
    show "hw_txid c \<in> T \<union> ?B" "\<exists>r. js_get (rb_objects rb) (hw_objectKey c) = Some r \<and>
        hw_sequence c \<le> or_stateSequence r" by simp_all
  qed
qed

end
