(* ===== verification/Store_Properties.thy ===== *)
theory Store_Properties
  imports Store_Total
begin

text \<open>
  The contract of the store with the reducer, over whole runs: consecutive blocks that the reducer
  produced are always accepted, the objects read back from the tables are those in memory, and a
  rollback to the block before them leaves the database exactly as it was, but for its journal row.
\<close>

section \<open>Consecutive blocks\<close>

text \<open>
  The blocks of one batch: each is reduced on what the one before it left, as in \<open>connectBatch\<close>.
\<close>

fun reduce_chain ::
  "tandem_lib \<Rightarrow> crypto \<Rightarrow> binding_record \<Rightarrow> init_activation option \<Rightarrow> bytes \<Rightarrow> object_map \<Rightarrow>
     bitcoin_block list \<Rightarrow> reduced_block list result" where
  "reduce_chain L C bd act root objects [] = Inr []"
| "reduce_chain L C bd act root objects (b # bs) =
     bindE (reduceBlock L C bd act root objects b) (\<lambda>rb.
     bindE (reduce_chain L C bd (Some (rb_activation rb)) (from_hex (rb_chainedRoot rb)) (rb_objects rb) bs)
       (\<lambda>rbs. Inr (rb # rbs)))"

definition last_objects :: "object_map \<Rightarrow> reduced_block list \<Rightarrow> object_map" where
  "last_objects objects rbs = (case rbs of [] \<Rightarrow> objects | _ \<Rightarrow> rb_objects (last rbs))"

fun canonical_blocks :: "string set \<Rightarrow> bitcoin_block list \<Rightarrow> bool" where
  "canonical_blocks T [] = True"
| "canonical_blocks T (b # bs) =
     (canonical_transactions T (blk_transactions b) \<and> canonical_blocks (confirmed_txids T b) bs)"

definition canonical_chain ::
  "tandem_lib \<Rightarrow> binding_record \<Rightarrow> string set \<Rightarrow> init_activation option \<Rightarrow> object_map \<Rightarrow>
     bitcoin_block list \<Rightarrow> bool" where
  "canonical_chain L bd T act objects bs =
     (run_ok L bd \<and> (\<forall>u \<in> T. is_hex_text 64 u) \<and> objects_ok objects \<and> outpoints_distinct objects \<and>
      objects_from L (from_hex (bd_namespace bd)) T objects \<and> (act = None \<longrightarrow> objects = []) \<and>
      canonical_blocks T bs)"

text \<open>The database holds the objects and the transactions \<open>T\<close>, and has room for the blocks.\<close>

definition ready_for :: "string set \<Rightarrow> init_activation option \<Rightarrow> object_map \<Rightarrow> database \<Rightarrow> bitcoin_block list \<Rightarrow> bool" where
  "ready_for T act objects db bs =
     (store_ok db objects \<and> store_fresh T db objects \<and> (act = None \<longrightarrow> db_init db = None) \<and>
      distinct (map fst (db_blocks db) @ map blk_height bs) \<and>
      distinct (map (bk_hash \<circ> snd) (db_blocks db) @ map blk_hash bs))"

lemma canonical_chain_head:
  "canonical_chain L bd T act objects (b # bs) \<Longrightarrow> canonical_context L bd T act objects b"
  by (simp add: canonical_chain_def canonical_context_def)

lemma canonical_chain_tail:
  assumes chain: "canonical_chain L bd T act objects (b # bs)"
    and run: "reduceBlock L C bd act root objects b = Inr rb"
  shows "canonical_chain L bd (confirmed_txids T b) (Some act') (rb_objects rb) bs"
proof -
  have ctx: "canonical_context L bd T act objects b" using chain by (rule canonical_chain_head)
  obtain s where s: "rb_objects rb = ws_objects s"
    "block_inv L (from_hex (bd_namespace bd)) (confirmed_txids T b) objects s"
    using reduceBlock_outcome [OF ctx run] by metis
  then have "objects_ok (rb_objects rb)" "outpoints_distinct (rb_objects rb)"
    "objects_from L (from_hex (bd_namespace bd)) (confirmed_txids T b) (rb_objects rb)"
    using ws_ok_outpoints_distinct by (auto simp: block_inv_def ws_ok_def)
  moreover have "\<forall>u \<in> confirmed_txids T b. is_hex_text 64 u"
    using ctx canonical_transactions_fresh by (auto simp: canonical_context_def confirmed_txids_def)
  ultimately show ?thesis using chain by (simp add: canonical_chain_def)
qed

lemma rb_block:
  assumes run: "reduceBlock L C bd act root objects b = Inr rb"
  shows "rb_height rb = blk_height b \<and> rb_hash rb = blk_hash b"
proof
  show "rb_height rb = blk_height b" using run by (rule reduceBlock_run)
  show "rb_hash rb = blk_hash b" using run by (rule reduceBlock_run)
qed

text \<open>One block of a run: it is written, the store holds what it leaves, and it can be taken away.\<close>

lemma append_one:
  assumes chain: "canonical_chain L bd T act objects (b # bs)"
    and run: "reduceBlock L C bd act root objects b = Inr rb"
    and ready: "ready_for T act objects db (b # bs)"
  shows "writeBlock db rb = Inr (written_block rb db) \<and>
    ready_for (confirmed_txids T b) (Some act') (rb_objects rb) (written_block rb db) bs \<and>
    disconnect_height (rb_height rb) (written_block rb db) = db"
proof -
  have store: "store_ok db objects" "store_fresh T db objects" using ready by (simp_all add: ready_for_def)
  have sr: "stored_run L C bd T act root objects b rb db"
    using canonical_chain_head [OF chain] run store(1) by (simp add: stored_run_def)
  have h: "rb_height rb = blk_height b" "rb_hash rb = blk_hash b"
    using rb_block [OF run] by blast+
  have room: "distinct (map fst (db_blocks db) @ map blk_height (b # bs))"
    "distinct (map (bk_hash \<circ> snd) (db_blocks db) @ map blk_hash (b # bs))"
    using ready by (simp_all only: ready_for_def)
  have "rb_height rb \<notin> table_keys (db_blocks db)" using room(1) h(1) by simp
  moreover have "\<forall>r \<in> table_rows (db_blocks db). bk_hash r \<noteq> rb_hash rb"
    using room(2) h(2) by force
  ultimately have acc: "block_acceptable rb db"
    using ready by (intro stored_run_acceptable [OF sr store(2)]) (simp_all add: ready_for_def)
  have ok: "db_ok db" using store_okD(1) [OF store(1)] .
  have ins: "writeBlock db rb = Inr (written_block rb db)" by (rule writeBlock_accepts [OF ok acc])
  have after: "store_ok (written_block rb db) (rb_objects rb)" "block_fits rb db"
    using writeBlock_store_ok [OF sr ins] by blast+
  have "store_fresh (confirmed_txids T b) (written_block rb db) (rb_objects rb)"
    using written_block_fresh [OF sr store(2)] acc by (simp add: block_acceptable_def)
  then have "ready_for (confirmed_txids T b) (Some act') (rb_objects rb) (written_block rb db) bs"
    using after(1) room h by (simp add: ready_for_def written_fields block_row_of_def)
  then show ?thesis using ins disconnect_writeBlock [OF ok after(2) ins] by blast
qed

lemma append_chain:
  "canonical_chain L bd T act objects bs \<Longrightarrow> ready_for T act objects db bs \<Longrightarrow>
   reduce_chain L C bd act root objects bs = Inr rbs \<Longrightarrow>
   \<exists>db'. appendBlocks db rbs = Inr db' \<and> store_ok db' (last_objects objects rbs) \<and>
     fold disconnect_height (rev (map blk_height bs)) db' = db \<and>
     db_blocks db' = db_blocks db @ map (\<lambda>rb. (rb_height rb, block_row_of rb)) rbs \<and>
     map rb_height rbs = map blk_height bs \<and> map rb_hash rbs = map blk_hash bs"
proof (induction bs arbitrary: T act objects db root rbs)
  case Nil
  then show ?case by (simp add: appendBlocks_def last_objects_def ready_for_def)
next
  case (Cons b bs)
  from Cons.prems(3) obtain rb rbs' where run: "reduceBlock L C bd act root objects b = Inr rb"
    and rest: "reduce_chain L C bd (Some (rb_activation rb)) (from_hex (rb_chainedRoot rb)) (rb_objects rb) bs
      = Inr rbs'" and rbs: "rbs = rb # rbs'" by auto
  have h: "rb_height rb = blk_height b" "rb_hash rb = blk_hash b"
    using rb_block [OF run] by blast+
  note one = append_one [OF Cons.prems(1) run Cons.prems(2), of "rb_activation rb"]
  from Cons.IH [OF canonical_chain_tail [OF Cons.prems(1) run] _ rest] one
  obtain db' where db': "appendBlocks (written_block rb db) rbs' = Inr db'"
    "store_ok db' (last_objects (rb_objects rb) rbs')"
    "fold disconnect_height (rev (map blk_height bs)) db' = written_block rb db"
    "db_blocks db' = db_blocks (written_block rb db) @ map (\<lambda>rb. (rb_height rb, block_row_of rb)) rbs'"
    "map rb_height rbs' = map blk_height bs" "map rb_hash rbs' = map blk_hash bs" by blast
  have "last_objects (rb_objects rb) rbs' = last_objects objects rbs"
    by (simp add: last_objects_def rbs split: list.split)
  then show ?case
    using db' one h by (intro exI [of _ db']) (simp add: appendBlocks_def rbs written_fields)
qed

section \<open>The properties\<close>

lemma highestI:
  assumes "js_get t h = Some r" and "\<forall>k \<in> table_keys t. k \<le> h"
  shows "highest t = Some (h, r)"
proof -
  have "h \<in> table_keys t" using assms(1) by (force dest: map_of_SomeD)
  then have "t \<noteq> []" "Max (table_keys t) = h" using assms(2) by (auto intro: Max_eqI)
  then show ?thesis using assms(1) by (simp add: highest_def Let_def)
qed

lemma heights_down_consecutive:
  "rev (map (\<lambda>i. anc + 1 + int i) [0..<n]) = heights_down (anc + int n) anc"
  unfolding heights_down_plus by (rule nth_equalityI) (auto simp: rev_nth)


text \<open>
  C18: a restart continues from the same objects.  After the blocks of a batch are committed, the
  objects read back from the tables are, at every key, those the reducer holds in memory (the current
  height included, which comes from the joined state row), and the unspent states and carriers are
  exactly the active outpoints.
\<close>

theorem appendBlocks_reload:
  assumes "canonical_chain L bd T act objects bs" and "ready_for T act objects db bs"
    and "reduce_chain L C bd act root objects bs = Inr rbs" and "appendBlocks db rbs = Inr db'"
  shows "js_get (loadObjects db') k = js_get (last_objects objects rbs) k \<and>
    ((\<exists>r. js_get (db_states db') out = Some r \<and> sw_spentHeight r = None) \<longleftrightarrow>
       out \<in> active_outpoints (last_objects objects rbs)) \<and>
    ((\<exists>r. js_get (db_carriers db') out = Some r \<and> cw_spentHeight r = None) \<longleftrightarrow>
       out \<in> active_outpoints (last_objects objects rbs))"
proof -
  let ?objects = "last_objects objects rbs"
  have ok: "store_ok db' ?objects" using append_chain [OF assms(1-3)] assms(4) by auto
  have "(\<exists>r. js_get (db_states db') out = Some r \<and> sw_spentHeight r = None) \<longleftrightarrow> out \<in> active_outpoints ?objects"
    using store_okD(3) [OF ok] store_okD(4) [OF ok] by (metis map_of_eq_None_iff not_None_eq subsetD)
  moreover have "(\<exists>r. js_get (db_carriers db') out = Some r \<and> cw_spentHeight r = None) \<longleftrightarrow>
      (\<exists>r. js_get (db_states db') out = Some r \<and> sw_spentHeight r = None)"
    using store_okD(5) [OF ok, of out]
    by (cases "js_get (db_carriers db') out"; cases "js_get (db_states db') out") auto
  ultimately show ?thesis using store_okD(2) [OF ok] by simp
qed

text \<open>After an append the tip is the last block, and what lies below the appended blocks is as it was.\<close>

lemma append_tip:
  assumes chain: "canonical_chain L bd T act objects bs" and ready: "ready_for T act objects db bs"
    and run: "reduce_chain L C bd act root objects bs = Inr rbs" and app: "appendBlocks db rbs = Inr db'"
    and heights: "map blk_height bs = map (\<lambda>i. anc + 1 + int i) [0..<length bs]" and "bs \<noteq> []"
    and below: "\<forall>h \<in> fst ` set (db_blocks db). h \<le> anc"
  shows "\<exists>chained. canonicalTip db' = Some \<lparr>ct_height = anc + int (length bs), ct_hash = blk_hash (last bs),
      ct_chainedRoot = chained\<rparr>"
    "blockHash db' anc = blockHash db anc"
proof -
  let ?old = "anc + int (length bs)"
  have db': "store_ok db' (last_objects objects rbs)"
    "db_blocks db' = db_blocks db @ map (\<lambda>rb. (rb_height rb, block_row_of rb)) rbs"
    "map rb_height rbs = map blk_height bs" "map rb_hash rbs = map blk_hash bs"
    using append_chain [OF chain ready run] app by auto
  have "length rbs = length bs" using db'(3) by (metis length_map)
  then have rbs: "rbs \<noteq> []" using assms(6) by auto
  have "rb_height (last rbs) = last (map blk_height bs)" using db'(3) rbs by (metis last_map)
  then have last: "rb_height (last rbs) = ?old" using assms(6) unfolding heights by (cases bs) (simp_all add: last_map)
  have hash: "rb_hash (last rbs) = blk_hash (last bs)" using db'(4) rbs assms(6) by (metis last_map)
  have wf: "js_wf (db_blocks db')" using store_okD(1) [OF db'(1)] by (simp add: db_ok_def keys_ok_def)
  have "(?old, block_row_of (last rbs)) \<in> set (db_blocks db')" using last rbs by (force simp: db'(2))
  then have row: "js_get (db_blocks db') ?old = Some (block_row_of (last rbs))" using wf by simp
  have keys: "fst ` set (db_blocks db') = fst ` set (db_blocks db) \<union> set (map blk_height bs)"
    by (simp add: db'(2) image_Un image_image flip: db'(3))
  have "\<forall>k \<in> fst ` set (db_blocks db'). k \<le> ?old" unfolding keys heights using below by auto
  then have "highest (db_blocks db') = Some (?old, block_row_of (last rbs))" by (rule highestI [OF row])
  then show "\<exists>chained. canonicalTip db' = Some \<lparr>ct_height = ?old, ct_hash = blk_hash (last bs), ct_chainedRoot = chained\<rparr>"
    using hash by (simp add: canonicalTip_def block_row_of_def)
  have "anc \<notin> set (map blk_height bs)" unfolding heights by auto
  then have "js_get (map (\<lambda>rb. (rb_height rb, block_row_of rb)) rbs) anc = None"
    by (simp add: map_of_eq_None_iff image_image flip: db'(3))
  then show "blockHash db' anc = blockHash db anc"
    by (cases "js_get (db_blocks db) anc") (simp_all add: blockHash_def db'(2) map_add_def)
qed

text \<open>
  C19: a rollback undoes the blocks exactly.  Rolling back to the block before a batch of consecutive
  canonical blocks succeeds and leaves every table as it was before the batch (blocks, \<open>INIT\<close>,
  transactions, events, objects, states and carriers with their spent marks, chapters, checkpoints and
  undo journal), with one row added to the reorganization journal.
\<close>

theorem rollback_undoes_append:
  assumes chain: "canonical_chain L bd T act objects bs" and ready: "ready_for T act objects db bs"
    and run: "reduce_chain L C bd act root objects bs = Inr rbs" and app: "appendBlocks db rbs = Inr db'"
    and heights: "map blk_height bs = map (\<lambda>i. anc + 1 + int i) [0..<length bs]" and "bs \<noteq> []"
    and below: "\<forall>h \<in> fst ` set (db_blocks db). h \<le> anc"
    and safe: "ini - 1 \<le> anc" "is_safe_integer (anc + int (length bs))" "is_safe_integer anc" "is_safe_integer ini"
    and tip: "rj_oldTipHash j = blk_hash (last bs)"
    and ancestor: "\<forall>x. blockHash db anc = Some x \<longrightarrow> x = rj_ancestorHash j"
  shows "service_rollback rollback db' (anc + int (length bs)) anc ini j =
    Inr (db\<lparr>db_reorg_journal := db_reorg_journal db @
      [\<lparr>rw_oldTipHeight = anc + int (length bs), rw_oldTipHash = rj_oldTipHash j,
        rw_ancestorHeight = anc, rw_ancestorHash = rj_ancestorHash j,
        rw_newTipHash = rj_newTipHash j, rw_rolledBackBlocks = length bs\<rparr>]\<rparr>)"
proof -
  let ?old = "anc + int (length bs)"
  have undone: "fold disconnect_height (rev (map blk_height bs)) db' = db"
    using append_chain [OF chain ready run] app by auto
  obtain chained where t: "canonicalTip db' = Some \<lparr>ct_height = ?old, ct_hash = rj_oldTipHash j, ct_chainedRoot = chained\<rparr>"
    using append_tip(1) [OF chain ready run app heights assms(6) below] tip by auto
  have "case blockHash db' anc of None \<Rightarrow> True | Some hash \<Rightarrow> hash = rj_ancestorHash j"
    using ancestor append_tip(2) [OF chain ready run app heights assms(6) below] by (simp split: option.split)
  moreover have "heights_down ?old anc = rev (map blk_height bs)"
    unfolding heights by (rule heights_down_consecutive [symmetric])
  then have "planReorgRollback ?old anc ini = Inr \<lparr>rp_oldTipHeight = ?old, rp_ancestorHeight = anc,
      rp_rollbackHeights = rev (map blk_height bs)\<rparr>"
    using safe assms(6) by (simp add: planReorgRollback_Inr)
  ultimately show ?thesis
    using t by (simp add: service_rollback_def rollback_def Let_def undone)
qed

section \<open>The interface of the reorganization service, on the store\<close>

text \<open>
  C20: a rollback cannot go astray.  Whatever the database holds, a rollback that returns found the
  expected tip, kept every block up to the ancestor, removed every block above it, and did not pass
  below the height before the \<open>INIT\<close>.
\<close>

theorem rollback_exact_blocks:
  assumes "service_rollback rollback db old anc ini j = Inr db'"
  shows "blockHash db' h = (if h \<le> anc then blockHash db h else None) \<and>
    ini - 1 \<le> anc \<and> anc < old \<and> blockHash db old = Some (rj_oldTipHash j) \<and>
    (blockHash db anc = None \<or> blockHash db anc = Some (rj_ancestorHash j))"
  using indexer_store.service_rollback_blocks [OF assms]
    indexer_store.service_rollback_guards [OF assms] by simp

end
