(* ===== verification/Sync.thy ===== *)
theory Sync
  imports Store_Properties Deployment_State Bitcoin_Rpc
begin

text \<open>
  \<open>src/indexer/sync.service.ts\<close>: the synchronizer, which follows the best chain of the Bitcoin node and
  writes it to the store.  Its methods change the state of the service, of the deployment and of the
  database, wait for the node, may throw, and may not return; they are programs of the small state
  monad below.  The node is a parameter: \<open>se_node t\<close> is what it answers at the \<open>t\<close>-th call, so its
  chain may change between any two calls, and requests the code sends concurrently are covered by the
  order in which they are written.  Queries of the database do not fail for reasons of their own.
\<close>

section \<open>Parameters and state\<close>

record sync_env =
  se_lib :: tandem_lib
  se_crypto :: crypto
  se_initialStateRoot :: "bytes \<Rightarrow> bytes"
  se_config :: app_configuration
  se_node :: "nat \<Rightarrow> bitcoin_node"
  se_stopping :: "nat \<Rightarrow> bool"          \<comment> \<open>has \<open>onModuleDestroy\<close> run by then\<close>
  se_now :: "nat \<Rightarrow> string"             \<comment> \<open>\<open>new Date().toISOString()\<close>\<close>
  se_message :: "js_error \<Rightarrow> string"    \<comment> \<open>\<open>error.message\<close>\<close>

record sync_state =
  ss_db :: database
  ss_objects :: "object_map option"
  ss_scanCursor :: "int option"
  ss_running :: bool
  ss_timer :: "nat option"              \<comment> \<open>the delay of the pending timer\<close>
  ss_deployment :: deployment_state
  ss_calls :: nat                       \<comment> \<open>calls of the node so far\<close>

text \<open>\<open>None\<close>: the program does not return.  A throw keeps the changes of the state made before it.\<close>

type_synonym 'a program = "sync_state \<Rightarrow> ('a result \<times> sync_state) option"

definition returnS :: "'a \<Rightarrow> 'a program" where
  "returnS x s = Some (Inr x, s)"

definition liftS :: "'a result \<Rightarrow> 'a program" where
  "liftS r s = Some (r, s)"

definition bindS :: "'a program \<Rightarrow> ('a \<Rightarrow> 'b program) \<Rightarrow> 'b program" where
  "bindS m f s =
     (case m s of
        None \<Rightarrow> None
      | Some (Inl e, s') \<Rightarrow> Some (Inl e, s')
      | Some (Inr x, s') \<Rightarrow> f x s')"

definition catchS :: "'a program \<Rightarrow> 'a program \<Rightarrow> 'a program" where
  "catchS m h s =
     (case m s of
        Some (Inl e, s') \<Rightarrow> h s'
      | r \<Rightarrow> r)"

definition getsS :: "(sync_state \<Rightarrow> 'a) \<Rightarrow> 'a program" where
  "getsS f s = Some (Inr (f s), s)"

definition modifyS :: "(sync_state \<Rightarrow> sync_state) \<Rightarrow> unit program" where
  "modifyS f s = Some (Inr (), f s)"

definition divergeS :: "'a program" where
  "divergeS s = None"

text \<open>One call of the RPC client.\<close>

definition callS :: "sync_env \<Rightarrow> (bitcoin_node \<Rightarrow> 'a result) \<Rightarrow> 'a program" where
  "callS E request s = Some (request (se_node E (ss_calls s)), s\<lparr>ss_calls := Suc (ss_calls s)\<rparr>)"

abbreviation update_deployment :: "(deployment_state \<Rightarrow> deployment_state) \<Rightarrow> unit program" where
  "update_deployment f \<equiv> modifyS (\<lambda>s. s\<lparr>ss_deployment := f (ss_deployment s)\<rparr>)"

abbreviation set_scanCursor :: "int option \<Rightarrow> unit program" where
  "set_scanCursor c \<equiv> modifyS (\<lambda>s. s\<lparr>ss_scanCursor := c\<rparr>)"

section \<open>The deployment\<close>

text \<open>
  A network code that is not a number never gets here: the namespace is computed from it by the
  package, which refuses it.
\<close>

definition binding :: "app_configuration \<Rightarrow> binding_record option" where
  "binding cfg =
     (let d = cfg_deployment cfg
      in if \<not> truthy (dc_initTxid d) \<or> \<not> truthy (dc_namespace d) then None
         else map_option (\<lambda>code. \<lparr>bd_networkCode = code, bd_initTxid = the (dc_initTxid d),
                bd_specHash = dc_specHash d, bd_namespace = the (dc_namespace d)\<rparr>) (dc_networkCode d))"

definition number_or_null :: "int option \<Rightarrow> string" where
  "number_or_null n = (case n of None \<Rightarrow> ''null'' | Some i \<Rightarrow> int_text i)"

text \<open>One comparison of \<open>checkConfiguredHeights\<close>.\<close>

definition height_problem :: "string \<Rightarrow> string \<Rightarrow> nat option \<Rightarrow> int option \<Rightarrow> string list" where
  "height_problem name origin configured actual =
     (case configured of
        None \<Rightarrow> []
      | Some h \<Rightarrow>
          if actual = Some (int h) then []
          else [name @ '' '' @ nat_text h @ '' != '' @ origin @ '' '' @ number_or_null actual])"

definition checkConfiguredHeights ::
  "deployment_configuration \<Rightarrow> init_activation option \<Rightarrow> deployment_state \<Rightarrow> deployment_state" where
  "checkConfiguredHeights d activation state =
     (case activation of
        None \<Rightarrow> state\<lparr>ds_initConfigMismatch := None\<rparr>
      | Some a \<Rightarrow>
          let problems =
            height_problem ''TANDEM_INIT_HEIGHT'' ''chain'' (dc_initHeight d) (Some (ia_height a)) @
            height_problem ''TANDEM_OPEN_HEIGHT'' ''INIT'' (dc_openHeight d) (ia_openHeight a) @
            height_problem ''TANDEM_CLOSE_HEIGHT'' ''INIT'' (dc_closeHeight d) (ia_closeHeight a)
          in state\<lparr>ds_initConfigMismatch :=
               (if problems = [] then None else Some (join_with ''; '' problems))\<rparr>)"

text \<open>\<open>SELECT \<dots> FROM tandem_init WHERE id = 1\<close>.\<close>

definition loadActivation :: "init_activation option program" where
  "loadActivation = getsS (db_init \<circ> ss_db)"

definition cachedObjects :: "object_map program" where
  "cachedObjects s =
     (case ss_objects s of
        Some objects \<Rightarrow> Some (Inr objects, s)
      | None \<Rightarrow>
          let objects = loadObjects (ss_db s)
          in Some (Inr objects, s\<lparr>ss_objects := Some objects\<rparr>))"

section \<open>Finding the INIT\<close>

definition MAX_INIT_SCAN_PER_TICK :: nat where
  "MAX_INIT_SCAN_PER_TICK = 50"

definition block_contains :: "sync_env \<Rightarrow> int \<Rightarrow> string \<Rightarrow> bool program" where
  "block_contains E height txid =
     bindS (callS E (\<lambda>node. getBlockHash node height)) (\<lambda>hash.
     bindS (callS E (\<lambda>node. getBlockTxids node hash)) (\<lambda>txids.
     returnS (txid \<in> set txids)))"

text \<open>
  The \<open>try\<close> block: \<open>Some r\<close> when the method returns \<open>r\<close>, \<open>None\<close> when it goes on.  An empty block
  hash is falsy.
\<close>

definition locate_by_index :: "sync_env \<Rightarrow> string \<Rightarrow> int \<Rightarrow> int option option program" where
  "locate_by_index E txid nodeHeight =
     bindS (callS E (\<lambda>node. getRawTransactionLocation node txid)) (\<lambda>location.
       if truthy (rtl_blockhash location)
       then bindS (callS E (\<lambda>node. getBlockHeader node (the (rtl_blockhash location)))) (\<lambda>header.
              returnS (if bhd_confirmations header > 0 then Some (Some (bhd_height header)) else None))
       else bindS (update_deployment (\<lambda>d. d\<lparr>ds_initSeenInMempool := True\<rparr>)) (\<lambda>_.
            bindS (modifyS (\<lambda>s. s\<lparr>ss_scanCursor := Some (max (nullish (ss_scanCursor s) 0) nodeHeight)\<rparr>)) (\<lambda>_.
            returnS (Some None))))"

text \<open>The loop over at most \<open>remaining\<close> blocks from the scan cursor on.\<close>

fun scan_blocks :: "sync_env \<Rightarrow> string \<Rightarrow> int \<Rightarrow> nat \<Rightarrow> int option program" where
  "scan_blocks E txid nodeHeight 0 = returnS None"
| "scan_blocks E txid nodeHeight (Suc remaining) =
     bindS (getsS (the \<circ> ss_scanCursor)) (\<lambda>cursor.
       if cursor \<le> nodeHeight
       then bindS (block_contains E cursor txid) (\<lambda>found.
              if found then returnS (Some cursor)
              else bindS (set_scanCursor (Some (cursor + 1))) (\<lambda>_. scan_blocks E txid nodeHeight remaining))
       else returnS None)"

definition locateInit :: "sync_env \<Rightarrow> string \<Rightarrow> int \<Rightarrow> int option program" where
  "locateInit E txid nodeHeight =
     (let d = cfg_deployment (se_config E);
          depth = int (sc_initScanDepth (cfg_sync (se_config E)))
      in bindS (case dc_initHeight d of
                  None \<Rightarrow> returnS False
                | Some h \<Rightarrow> if int h \<le> nodeHeight then block_contains E (int h) txid else returnS False)
           (\<lambda>hinted.
         if hinted then returnS (Some (int (the (dc_initHeight d))))
         else bindS (catchS (locate_by_index E txid nodeHeight) (returnS None)) (\<lambda>located.
           case located of
             Some r \<Rightarrow> returnS r
           | None \<Rightarrow>
               bindS (modifyS (\<lambda>s. s\<lparr>ss_scanCursor :=
                        Some (nullish (ss_scanCursor s) (max 0 (nodeHeight - depth)))\<rparr>)) (\<lambda>_.
                 scan_blocks E txid nodeHeight MAX_INIT_SCAN_PER_TICK))))"

section \<open>Connecting a batch\<close>

text \<open>The variables of \<open>connectBatch\<close> that its loops change.\<close>

record batch_state =
  bs_batch :: "reduced_block list"
  bs_current :: "init_activation option"
  bs_previousHash :: "string option"
  bs_previousRoot :: bytes
  bs_objects :: object_map
  bs_broken :: bool

text \<open>\<open>Promise.all\<close> over the heights of one chunk.\<close>

fun fetch_blocks :: "sync_env \<Rightarrow> int list \<Rightarrow> bitcoin_block list program" where
  "fetch_blocks E [] = returnS []"
| "fetch_blocks E (height # heights) =
     bindS (callS E (\<lambda>node. getBlockHash node height)) (\<lambda>hash.
     bindS (callS E (\<lambda>node. getBlock node hash)) (\<lambda>block.
     bindS (fetch_blocks E heights) (\<lambda>blocks.
     returnS (block # blocks))))"

text \<open>The loop over the blocks of a chunk.\<close>

fun connect_blocks :: "sync_env \<Rightarrow> binding_record \<Rightarrow> batch_state \<Rightarrow> bitcoin_block list \<Rightarrow> batch_state program" where
  "connect_blocks E bd b [] = returnS b"
| "connect_blocks E bd b (block # blocks) =
     (if bs_previousHash b \<noteq> None \<and> blk_previousBlockHash block \<noteq> bs_previousHash b
      then returnS (b\<lparr>bs_broken := True\<rparr>)
      else if bs_current b = None \<and> \<not> list_ex (\<lambda>t. tx_txid t = bd_initTxid bd) (blk_transactions block)
      then bindS (set_scanCursor None) (\<lambda>_. returnS (b\<lparr>bs_broken := True\<rparr>))
      else bindS (liftS (reduceBlock (se_lib E) (se_crypto E) bd (bs_current b) (bs_previousRoot b)
                    (bs_objects b) block)) (\<lambda>reduced.
           connect_blocks E bd
             \<lparr>bs_batch = bs_batch b @ [reduced], bs_current = Some (rb_activation reduced),
              bs_previousHash = Some (rb_hash reduced), bs_previousRoot = from_hex (rb_chainedRoot reduced),
              bs_objects = rb_objects reduced, bs_broken = False\<rparr> blocks))"

text \<open>
  The loop over the chunks.  Each pass moves \<open>start\<close> on by the concurrency; with a concurrency of zero
  it would stay where it is for ever, so \<open>fuel\<close> passes are allowed and then the loop counts as endless.
\<close>

fun connect_chunks ::
  "sync_env \<Rightarrow> binding_record \<Rightarrow> int \<Rightarrow> int \<Rightarrow> nat \<Rightarrow> batch_state \<Rightarrow> batch_state program" where
  "connect_chunks E bd lastHeight start fuel b =
     bindS (getsS (\<lambda>s. se_stopping E (ss_calls s))) (\<lambda>stopping.
       if start \<le> lastHeight \<and> \<not> bs_broken b \<and> \<not> stopping
       then (case fuel of
               0 \<Rightarrow> divergeS
             | Suc fuel' \<Rightarrow>
                 let chunkEnd = min lastHeight (start + int (sc_fetchConcurrency (cfg_sync (se_config E))) - 1)
                 in bindS (fetch_blocks E (map (\<lambda>i. start + int i) [0..<nat (chunkEnd - start + 1)])) (\<lambda>blocks.
                    bindS (connect_blocks E bd b blocks) (\<lambda>b'.
                    connect_chunks E bd lastHeight (chunkEnd + 1) fuel' b')))
       else returnS b)"

declare connect_chunks.simps [simp del]

definition append_batch :: "reduced_block list \<Rightarrow> unit program" where
  "append_batch batch s =
     (case appendBlocks (ss_db s) batch of
        Inl e \<Rightarrow> Some (Inl e, s)
      | Inr db \<Rightarrow> Some (Inr (), s\<lparr>ss_db := db\<rparr>))"

definition connectBatch ::
  "sync_env \<Rightarrow> binding_record \<Rightarrow> init_activation option \<Rightarrow> canonical_tip option \<Rightarrow> int \<Rightarrow> int \<Rightarrow> bool program" where
  "connectBatch E bd activation tip firstHeight nodeHeight =
     (let lastHeight = min nodeHeight (firstHeight + int (sc_batchBlocks (cfg_sync (se_config E))) - 1)
      in bindS cachedObjects (\<lambda>objects.
         bindS (connect_chunks E bd lastHeight firstHeight (nat (lastHeight - firstHeight + 1))
           \<lparr>bs_batch = [], bs_current = activation, bs_previousHash = map_option ct_hash tip,
            bs_previousRoot = (case tip of
              None \<Rightarrow> se_initialStateRoot E (from_hex (bd_namespace bd))
            | Some t \<Rightarrow> from_hex (ct_chainedRoot t)),
            bs_objects = objects, bs_broken = False\<rparr>) (\<lambda>b.
         bindS (if bs_batch b = [] then returnS ()
                else bindS (append_batch (bs_batch b)) (\<lambda>_.
                     bindS (modifyS (\<lambda>s. s\<lparr>ss_objects := Some (bs_objects b)\<rparr>)) (\<lambda>_.
                       update_deployment (setActivation (bs_current b) True)))) (\<lambda>_.
         returnS (if bs_broken b then bs_current b \<noteq> None else lastHeight < nodeHeight)))))"

section \<open>Rolling back to the common ancestor\<close>

text \<open>The loop from below the tip down to the \<open>INIT\<close>; a rejected \<open>getblockhash\<close> counts as \<open>null\<close>.\<close>

fun find_ancestor :: "sync_env \<Rightarrow> int \<Rightarrow> int list \<Rightarrow> int program" where
  "find_ancestor E fallback [] = returnS fallback"
| "find_ancestor E fallback (height # heights) =
     bindS (getsS (\<lambda>s. blockHash (ss_db s) height)) (\<lambda>stored.
     bindS (catchS (bindS (callS E (\<lambda>node. getBlockHash node height)) (\<lambda>h. returnS (Some h))) (returnS None))
       (\<lambda>nodeHash.
     if stored \<noteq> None \<and> stored = nodeHash then returnS height
     else find_ancestor E fallback heights))"

definition zero_hash :: string where
  "zero_hash = replicate 64 CHR ''0''"

definition rollbackToCommonAncestor :: "sync_env \<Rightarrow> int \<Rightarrow> string \<Rightarrow> int \<Rightarrow> unit program" where
  "rollbackToCommonAncestor E tipHeight tipHash initHeight =
     bindS (find_ancestor E (initHeight - 1) (heights_down (tipHeight - 1) (initHeight - 1))) (\<lambda>ancestor.
     bindS (getsS (\<lambda>s. if ancestor \<ge> initHeight then nullish (blockHash (ss_db s) ancestor) []
                        else zero_hash)) (\<lambda>ancestorHash.
     bindS (callS E getBlockchainInfo) (\<lambda>info.
     bindS (\<lambda>s. (case service_rollback rollback (ss_db s) tipHeight ancestor initHeight
                    \<lparr>rj_oldTipHash = tipHash, rj_ancestorHash = ancestorHash,
                     rj_newTipHash = bci_bestblockhash info\<rparr> of
                   Inl e \<Rightarrow> Some (Inl e, s)
                 | Inr db \<Rightarrow> Some (Inr (), s\<lparr>ss_db := db\<rparr>))) (\<lambda>_.
     modifyS (\<lambda>s. s\<lparr>ss_objects := None, ss_scanCursor := None\<rparr>)))))"

section \<open>One step, and the timer\<close>

definition syncOnce :: "sync_env \<Rightarrow> bool program" where
  "syncOnce E =
     bindS (callS E getBlockchainInfo) (\<lambda>info.
     bindS (update_deployment (\<lambda>d. d\<lparr>ds_node := Some
        \<lparr>nt_chain = bci_chain info, nt_height = bci_blocks info, nt_hash = bci_bestblockhash info,
         nt_initialBlockDownload = bci_initialblockdownload info\<rparr>\<rparr>)) (\<lambda>_.
     let expected = bc_expectedChain (cfg_bitcoin (se_config E)) in
     bindS (liftS (throw_unless (bci_chain info = expected)
        (PlainError (''Bitcoin Core chain '' @ bci_chain info @ '' does not match '' @ expected)))) (\<lambda>_.
     (case binding (se_config E) of
        None \<Rightarrow> bindS (update_deployment (setActivation None False)) (\<lambda>_. returnS False)
      | Some bd \<Rightarrow>
          bindS loadActivation (\<lambda>activation.
          bindS (update_deployment (setActivation activation True)) (\<lambda>_.
          bindS (update_deployment
             (checkConfiguredHeights (cfg_deployment (se_config E)) activation)) (\<lambda>_.
          bindS (getsS (canonicalTip \<circ> ss_db)) (\<lambda>tip.
          bindS (case (tip, activation) of
                   (Some t, Some a) \<Rightarrow>
                     bindS (if ct_height t \<le> bci_blocks info
                            then bindS (callS E (\<lambda>node. getBlockHash node (ct_height t)))
                                   (\<lambda>h. returnS (Some h))
                            else returnS None) (\<lambda>nodeHash.
                     if nodeHash \<noteq> Some (ct_hash t)
                     then bindS (rollbackToCommonAncestor E (ct_height t) (ct_hash t) (ia_height a))
                            (\<lambda>_. returnS True)
                     else returnS False)
                 | _ \<Rightarrow> returnS False) (\<lambda>rolledBack.
          if rolledBack then returnS True
          else (case activation of
                  None \<Rightarrow>
                    bindS (locateInit E (bd_initTxid bd) (bci_blocks info)) (\<lambda>initHeight.
                    case initHeight of
                      None \<Rightarrow> returnS False
                    | Some h \<Rightarrow> connectBatch E bd activation tip h (bci_blocks info))
                | Some a \<Rightarrow>
                    connectBatch E bd activation tip
                      ((case tip of None \<Rightarrow> ia_height a - 1 | Some t \<Rightarrow> ct_height t) + 1)
                      (bci_blocks info)))))))))))"

definition schedule :: "sync_env \<Rightarrow> nat \<Rightarrow> sync_state \<Rightarrow> sync_state" where
  "schedule E delayMs s =
     (if se_stopping E (ss_calls s) then s else s\<lparr>ss_timer := Some delayMs\<rparr>)"

definition wake :: "sync_env \<Rightarrow> sync_state \<Rightarrow> sync_state" where
  "wake E s = (if ss_running s then s else schedule E 0 s)"

text \<open>The timer fires; \<open>None\<close> when the step does not return.\<close>

definition tick :: "sync_env \<Rightarrow> sync_state \<Rightarrow> sync_state option" where
  "tick E s0 =
     (let s = s0\<lparr>ss_timer := None\<rparr>;
          pollMs = sc_pollIntervalMs (cfg_sync (se_config E))
      in if ss_running s \<or> se_stopping E (ss_calls s) then Some s
         else (case syncOnce E (s\<lparr>ss_running := True\<rparr>) of
                 None \<Rightarrow> None
               | Some (Inr again, s') \<Rightarrow>
                   Some (schedule E (if again then 0 else pollMs)
                     (s'\<lparr>ss_deployment := (ss_deployment s')
                           \<lparr>ds_lastError := None, ds_lastSyncAt := Some (se_now E (ss_calls s'))\<rparr>,
                        ss_running := False\<rparr>))
               | Some (Inl e, s') \<Rightarrow>
                   Some (schedule E (max pollMs 5000)
                     (s'\<lparr>ss_deployment := (ss_deployment s')
                           \<lparr>ds_lastError := Some (take 500 (se_message E e))\<rparr>,
                        ss_objects := None, ss_running := False\<rparr>))))"

definition onApplicationBootstrap :: "sync_env \<Rightarrow> sync_state \<Rightarrow> sync_state" where
  "onApplicationBootstrap E s =
     (let d = cfg_deployment (se_config E);
          s1 = s\<lparr>ss_deployment := setActivation None (truthy (dc_initTxid d)) (ss_deployment s)\<rparr>
      in if sc_enabled (cfg_sync (se_config E)) then schedule E 0 s1 else s1)"

text \<open>From then on \<open>se_stopping\<close> holds; a step that is running stops before its next chunk.\<close>

definition onModuleDestroy :: "sync_state \<Rightarrow> sync_state" where
  "onModuleDestroy s = s\<lparr>ss_timer := None\<rparr>"

end
