(* ===== verification/Sync_Trace.thy ===== *)
theory Sync_Trace
  imports Sync
begin

text \<open>
  The abstract view of the synchronizer's database: a chain of blocks that has been indexed from an
  empty database, block by block.  \<open>indexed\<close> says that a database, but for the rows of its
  reorganization journal, is what indexing a chain gives.  Connecting blocks prolongs the chain;
  disconnecting heights cuts it off, and gives back the database of the shorter chain.
\<close>

section \<open>Chains\<close>

text \<open>The newest block comes first.\<close>

type_synonym trace = "(bitcoin_block \<times> reduced_block) list"

definition trace_activation :: "trace \<Rightarrow> init_activation option" where
  "trace_activation hs = (case hs of [] \<Rightarrow> None | (b, rb) # _ \<Rightarrow> Some (rb_activation rb))"

definition trace_hash :: "trace \<Rightarrow> string option" where
  "trace_hash hs = (case hs of [] \<Rightarrow> None | (b, rb) # _ \<Rightarrow> Some (rb_hash rb))"

definition trace_root :: "sync_env \<Rightarrow> binding_record \<Rightarrow> trace \<Rightarrow> bytes" where
  "trace_root E bd hs =
     (case hs of [] \<Rightarrow> se_initialStateRoot E (from_hex (bd_namespace bd))
      | (b, rb) # _ \<Rightarrow> from_hex (rb_chainedRoot rb))"

lemma trace_simps [simp]:
  "trace_activation [] = None" "trace_activation ((b, rb) # hs) = Some (rb_activation rb)"
  "trace_hash [] = None" "trace_hash ((b, rb) # hs) = Some (rb_hash rb)"
  "trace_root E bd [] = se_initialStateRoot E (from_hex (bd_namespace bd))"
  "trace_root E bd ((b, rb) # hs) = from_hex (rb_chainedRoot rb)"
  by (simp_all add: trace_activation_def trace_hash_def trace_root_def)

text \<open>Two object maps with the same entries; a query returns its rows in any order.\<close>

definition same_objects :: "object_map \<Rightarrow> object_map \<Rightarrow> bool" where
  "same_objects a b = (js_wf a \<and> (\<forall>k. js_get a k = js_get b k))"

inductive indexed :: "sync_env \<Rightarrow> binding_record \<Rightarrow> trace \<Rightarrow> database \<Rightarrow> bool"
  for E :: sync_env and bd :: binding_record where
  indexed_start: "indexed E bd [] empty_database"
| indexed_block:
    "indexed E bd hs db \<Longrightarrow> same_objects objects (loadObjects db) \<Longrightarrow>
     (hs \<noteq> [] \<Longrightarrow> blk_previousBlockHash b = trace_hash hs) \<Longrightarrow>
     reduceBlock (se_lib E) (se_crypto E) bd (trace_activation hs) (trace_root E bd hs) objects b = Inr rb \<Longrightarrow>
     writeBlock db rb = Inr db' \<Longrightarrow> indexed E bd ((b, rb) # hs) db'"
| indexed_journal: "indexed E bd hs db \<Longrightarrow> indexed E bd hs (db\<lparr>db_reorg_journal := j\<rparr>)"

section \<open>What consensus gives\<close>

text \<open>\<open>bs\<close>, oldest first: each block names the hash of the one before it.\<close>

fun linked :: "bitcoin_block list \<Rightarrow> bool" where
  "linked [] = True"
| "linked [b] = True"
| "linked (a # b # bs) = (blk_previousBlockHash b = Some (blk_hash a) \<and> linked (b # bs))"

fun ascending :: "int list \<Rightarrow> bool" where
  "ascending [] = True"
| "ascending [h] = True"
| "ascending (a # b # hs) = (b = a + 1 \<and> ascending (b # hs))"

text \<open>
  The rules of Bitcoin for a set of valid blocks: in every chain of them the heights are consecutive,
  the hashes are distinct, and the transactions are well formed, new and spend what came before.
\<close>

definition consensus :: "bitcoin_block set \<Rightarrow> bool" where
  "consensus V =
     (\<forall>bs. set bs \<subseteq> V \<longrightarrow> linked bs \<longrightarrow>
        canonical_blocks {} bs \<and> ascending (map blk_height bs) \<and> distinct (map blk_hash bs))"

definition trace_blocks :: "trace \<Rightarrow> bitcoin_block list" where
  "trace_blocks hs = rev (map fst hs)"

definition trace_txids :: "trace \<Rightarrow> string set" where
  "trace_txids hs = (\<Union>(b, rb) \<in> set hs. set (map tx_txid (blk_transactions b)))"

lemma trace_blocks_simps [simp]:
  "trace_blocks [] = []" "trace_blocks (p # hs) = trace_blocks hs @ [fst p]"
  by (simp_all add: trace_blocks_def)

lemma trace_blocks_Nil [simp]: "trace_blocks hs = [] \<longleftrightarrow> hs = []"
  by (simp add: trace_blocks_def)

lemma trace_txids_simps [simp]:
  "trace_txids [] = {}" "trace_txids ((b, rb) # hs) = confirmed_txids (trace_txids hs) b"
  by (auto simp: trace_txids_def confirmed_txids_def)

lemma linked_snoc:
  "linked (bs @ [b]) \<longleftrightarrow> linked bs \<and> (bs \<noteq> [] \<longrightarrow> blk_previousBlockHash b = Some (blk_hash (last bs)))"
  by (induction bs rule: linked.induct) auto

lemma ascending_snoc:
  "ascending (hs @ [h]) \<longleftrightarrow> ascending hs \<and> (hs \<noteq> [] \<longrightarrow> h = last hs + 1)"
  by (induction hs rule: ascending.induct) auto

lemma ascending_last: "ascending hs \<Longrightarrow> h \<in> set hs \<Longrightarrow> h \<le> last hs"
proof (induction hs arbitrary: h rule: ascending.induct)
  case (3 a b hs)
  have "b \<le> last (b # hs)" "b = a + 1" using 3 by auto
  moreover have "h = a \<or> h \<le> last (b # hs)" using 3 by auto
  ultimately show ?case by auto
qed auto

lemma ascending_ge_hd: "ascending hs \<Longrightarrow> h \<in> set hs \<Longrightarrow> hd hs \<le> h"
  by (induction hs rule: ascending.induct) force+

lemma ascending_distinct: "ascending hs \<Longrightarrow> distinct hs"
proof (induction hs rule: ascending.induct)
  case (3 a b hs)
  then show ?case using ascending_ge_hd [of "b # hs" a] by auto
qed auto

lemma canonical_blocks_append:
  "canonical_blocks T (xs @ ys) \<longleftrightarrow>
     canonical_blocks T xs \<and> canonical_blocks (T \<union> (\<Union>b \<in> set xs. set (map tx_txid (blk_transactions b)))) ys"
  by (induction xs arbitrary: T) (auto simp: confirmed_txids_def Un_assoc)

lemma trace_txids_blocks:
  "trace_txids hs = (\<Union>b \<in> set (trace_blocks hs). set (map tx_txid (blk_transactions b)))"
  by (auto simp: trace_txids_def trace_blocks_def)

section \<open>Object maps with the same entries\<close>

lemma same_objectsD: "same_objects a b \<Longrightarrow> js_get a k = js_get b k"
  by (simp add: same_objects_def)

lemma objects_ok_entries: "objects_ok m \<longleftrightarrow> js_wf m \<and> (\<forall>k r. js_get m k = Some r \<longrightarrow> record_ok k r)"
  by (auto simp: objects_ok_def list_all_iff)

lemma same_objects_transfer:
  assumes same: "same_objects a b"
  shows "store_ok db a \<longleftrightarrow> store_ok db b" "store_fresh T db a \<longleftrightarrow> store_fresh T db b"
    "outpoints_distinct a \<longleftrightarrow> outpoints_distinct b" "objects_from L ns T a \<longleftrightarrow> objects_from L ns T b"
    "objects_ok b \<Longrightarrow> objects_ok a" "b = [] \<Longrightarrow> a = []"
proof -
  have get: "js_get a = js_get b" using same by (auto simp: same_objects_def)
  then have "active_outpoints a = active_outpoints b" by (simp add: active_outpoints_def)
  then show "store_ok db a \<longleftrightarrow> store_ok db b" by (simp add: store_ok_def get)
  show "store_fresh T db a \<longleftrightarrow> store_fresh T db b" by (simp add: store_fresh_def get)
  show "outpoints_distinct a \<longleftrightarrow> outpoints_distinct b" by (simp add: outpoints_distinct_def get)
  show "objects_from L ns T a \<longleftrightarrow> objects_from L ns T b" by (simp add: objects_from_def get)
  show "objects_ok b \<Longrightarrow> objects_ok a" using same by (simp add: objects_ok_entries get same_objects_def)
  show "a = []" if "b = []"
  proof (cases a)
    case (Cons p ps)
    then have "js_get a (fst p) \<noteq> None" by (cases p) simp
    then show ?thesis using get that by simp
  qed simp
qed

lemma loadObjects_wf: "db_ok db \<Longrightarrow> js_wf (loadObjects db)"
  by (simp add: loadObjects_def db_ok_def keys_ok_def case_prod_unfold o_def)

lemma loadObjects_journal [simp]: "loadObjects (db\<lparr>db_reorg_journal := j\<rparr>) = loadObjects db"
proof -
  have "joined_height (db\<lparr>db_reorg_journal := j\<rparr>) row = joined_height db row" for row
    by (simp add: joined_height_def split: option.split)
  then show ?thesis by (simp add: loadObjects_def)
qed

section \<open>The journal of reorganizations is apart from everything else\<close>

lemma db_ok_journal [simp]: "db_ok (db\<lparr>db_reorg_journal := j\<rparr>) = db_ok db"
  by (simp add: db_ok_def keys_ok_def block_refs_ok_def object_refs_ok_def state_ok_def carrier_ok_def)

lemma store_ok_journal [simp]: "store_ok (db\<lparr>db_reorg_journal := j\<rparr>) objects = store_ok db objects"
  by (simp add: store_ok_def)

lemma store_fresh_journal [simp]: "store_fresh T (db\<lparr>db_reorg_journal := j\<rparr>) objects = store_fresh T db objects"
  by (simp add: store_fresh_def)

lemma restore_journal:
  "restore_object u (db\<lparr>db_reorg_journal := j\<rparr>) = (restore_object u db)\<lparr>db_reorg_journal := j\<rparr>"
  by (simp add: restore_object_def delete_object_def split: option.split)

lemma fold_restore_journal:
  "fold restore_object us (db\<lparr>db_reorg_journal := j\<rparr>) = (fold restore_object us db)\<lparr>db_reorg_journal := j\<rparr>"
  by (induction us arbitrary: db) (simp_all add: restore_journal)

lemma disconnect_journal:
  "disconnect_height h (db\<lparr>db_reorg_journal := j\<rparr>) = (disconnect_height h db)\<lparr>db_reorg_journal := j\<rparr>"
proof -
  have "unwind_rows h (db\<lparr>db_reorg_journal := j\<rparr>) = (unwind_rows h db)\<lparr>db_reorg_journal := j\<rparr>"
    by (simp add: unwind_rows_def)
  moreover have "delete_block h (d\<lparr>db_reorg_journal := j\<rparr>) = (delete_block h d)\<lparr>db_reorg_journal := j\<rparr>" for d
    by (simp add: delete_block_def Let_def)
  ultimately show ?thesis by (simp add: disconnect_height_def Let_def fold_restore_journal)
qed

section \<open>What an indexed database holds\<close>

text \<open>The part of \<open>indexed\<close> that is proved by rule induction.\<close>

definition holds :: "sync_env \<Rightarrow> binding_record \<Rightarrow> trace \<Rightarrow> database \<Rightarrow> object_map \<Rightarrow> bool" where
  "holds E bd hs db objects =
     (store_ok db objects \<and> store_fresh (trace_txids hs) db objects \<and> objects_ok objects \<and>
      outpoints_distinct objects \<and> objects_from (se_lib E) (from_hex (bd_namespace bd)) (trace_txids hs) objects \<and>
      (\<forall>u \<in> trace_txids hs. is_hex_text 64 u) \<and> (hs = [] \<longrightarrow> objects = []) \<and>
      db_init db = trace_activation hs \<and>
      db_blocks db = map (\<lambda>(b, rb). (rb_height rb, block_row_of rb)) (rev hs) \<and>
      (\<forall>(b, rb) \<in> set hs. rb_height rb = blk_height b \<and> rb_hash rb = blk_hash b) \<and>
      linked (trace_blocks hs))"

lemma holds_same:
  assumes "holds E bd hs db a" and "same_objects b a"
  shows "holds E bd hs db b"
  using assms same_objects_transfer [OF assms(2)] by (auto simp: holds_def)

lemma holds_loaded:
  assumes "holds E bd hs db objects"
  shows "holds E bd hs db (loadObjects db)"
proof (rule holds_same [OF assms])
  have ok: "store_ok db objects" using assms by (simp add: holds_def)
  then show "same_objects (loadObjects db) objects"
    using loadObjects_wf store_okD(1,2) by (auto simp: same_objects_def)
qed

lemma trace_last_hash:
  assumes "\<forall>(b, rb) \<in> set hs. rb_height rb = blk_height b \<and> rb_hash rb = blk_hash b" and "hs \<noteq> []"
  shows "trace_hash hs = Some (blk_hash (last (trace_blocks hs)))"
  using assms by (cases hs) auto

text \<open>The next block of a chain of valid blocks can be written, and it can be taken away again.\<close>

lemma connect_block:
  assumes run_ok: "run_ok (se_lib E) bd" and V: "consensus V" "set (trace_blocks hs) \<subseteq> V" "b \<in> V"
    and before: "holds E bd hs db objects"
    and link: "hs \<noteq> [] \<Longrightarrow> blk_previousBlockHash b = trace_hash hs"
    and run: "reduceBlock (se_lib E) (se_crypto E) bd (trace_activation hs) prev objects b = Inr rb"
  shows "\<exists>db'. writeBlock db rb = Inr db' \<and> holds E bd ((b, rb) # hs) db' (rb_objects rb) \<and>
    disconnect_height (rb_height rb) db' = db"
proof -
  let ?T = "trace_txids hs" and ?act = "trace_activation hs"
  note b = before [unfolded holds_def]
  have linked': "linked (trace_blocks hs @ [b])"
    using b link trace_last_hash [of hs] by (auto simp: linked_snoc)
  then have rules: "canonical_blocks {} (trace_blocks hs @ [b])"
    "ascending (map blk_height (trace_blocks hs) @ [blk_height b])"
    "distinct (map blk_hash (trace_blocks hs) @ [blk_hash b])"
    using V unfolding consensus_def
    by (metis (no_types, lifting) Un_insert_right empty_set insert_subset list.simps(15) map_append
        list.map set_append sup_bot.right_neutral)+
  have act: "?act = None \<longleftrightarrow> hs = []" by (cases hs) auto
  have chain: "canonical_chain (se_lib E) bd ?T ?act objects [b]"
    using b run_ok rules(1) act
    by (simp add: canonical_chain_def canonical_blocks_append trace_txids_blocks)
  have rows: "map fst (db_blocks db) = map blk_height (trace_blocks hs)"
    "map (bk_hash \<circ> snd) (db_blocks db) = map blk_hash (trace_blocks hs)"
    using b by (auto simp: trace_blocks_def rev_map [symmetric] block_row_of_def)
  have ready: "ready_for ?T ?act objects db [b]"
    using b rules(2,3) ascending_distinct [OF rules(2)] rows act by (simp add: ready_for_def)
  note one = append_one [OF chain run ready, of "rb_activation rb"]
  have keys: "keys_ok db" using b store_okD(1) by (auto simp: db_ok_def)
  have tail: "canonical_chain (se_lib E) bd (confirmed_txids ?T b) (Some (rb_activation rb)) (rb_objects rb) []"
    by (rule canonical_chain_tail [OF chain run])
  have conf: "rb_initConfirmed rb = (?act = None)" using run by (rule reduceBlock_run)
  have init: "db_init (written_block rb db) = Some (rb_activation rb)"
  proof (cases "hs = []")
    case False
    then obtain a where "?act = Some a" using act by auto
    moreover from this have "rb_activation rb = a"
      using run by (auto simp: reduceBlock_def Let_def activate_def)
    ultimately show ?thesis using b conf by (simp add: written_block_def Let_def)
  qed (use conf act in \<open>simp add: written_block_def Let_def\<close>)
  have "holds E bd ((b, rb) # hs) (written_block rb db) (rb_objects rb)"
    using one tail b init rb_block [OF run] linked'
    by (simp add: holds_def ready_for_def canonical_chain_def written_fields)
  then show ?thesis using one by blast
qed

text \<open>Rule induction: an indexed chain of valid blocks holds what it should.\<close>

lemma indexed_holds:
  assumes "indexed E bd hs db" and run_ok: "run_ok (se_lib E) bd" and V: "consensus V"
  shows "set (trace_blocks hs) \<subseteq> V \<Longrightarrow> holds E bd hs db (loadObjects db)"
  using assms(1)
proof (induction rule: indexed.induct)
  case indexed_start
  then show ?case
    using store_ok_empty store_fresh_empty
    by (simp add: holds_def loadObjects_def empty_database_def objects_ok_def outpoints_distinct_def
        objects_from_def)
next
  case (indexed_block hs db objects b rb db')
  have before: "holds E bd hs db objects"
    using holds_same [OF indexed_block.IH indexed_block.hyps(2)] indexed_block.prems by simp
  obtain db1 where "writeBlock db rb = Inr db1" "holds E bd ((b, rb) # hs) db1 (rb_objects rb)"
    using connect_block [OF run_ok V _ _ before indexed_block.hyps(3,4)] indexed_block.prems by auto
  then show ?case using indexed_block.hyps(5) holds_loaded by simp
next
  case (indexed_journal hs db j)
  then show ?case by (simp add: holds_def)
qed

text \<open>Disconnecting the newest block gives the database of the chain without it.\<close>

lemma indexed_disconnect:
  assumes "indexed E bd hs db" and run_ok: "run_ok (se_lib E) bd" and V: "consensus V"
  shows "set (trace_blocks hs) \<subseteq> V \<Longrightarrow> hs = (b, rb) # hs' \<Longrightarrow>
    indexed E bd hs' (disconnect_height (rb_height rb) db)"
  using assms(1)
proof (induction rule: indexed.induct)
  case (indexed_block hs db objects b' rb' db')
  have sub: "set (trace_blocks hs) \<subseteq> V" "b' \<in> V" using indexed_block.prems(1) by simp_all
  have "holds E bd hs db objects"
    using holds_same [OF indexed_holds [OF indexed_block.hyps(1) run_ok V sub(1)] indexed_block.hyps(2)] .
  from connect_block [OF run_ok V sub this indexed_block.hyps(3,4)]
  have "disconnect_height (rb_height rb') db' = db" using indexed_block.hyps(5) by auto
  then show ?case using indexed_block.hyps(1) indexed_block.prems(2) by simp
next
  case (indexed_journal hs db j)
  then show ?case by (simp add: disconnect_journal indexed.indexed_journal)
qed simp

end
