(* ===== verification/Sync_Properties.thy ===== *)
theory Sync_Properties
  imports Sync_Trace
begin

text \<open>
  The synchronizer refines the chain view of its database: one step either leaves the indexed chain,
  prolongs it by valid blocks, or cuts it back to an ancestor; a step that throws leaves the database
  as it was; and so every state the service can reach holds an indexed chain.
\<close>

section \<open>Reasoning about programs\<close>

lemma bindS_Some:
  "bindS m f s = Some (r, s') \<longleftrightarrow>
     (\<exists>e. m s = Some (Inl e, s') \<and> r = Inl e) \<or>
     (\<exists>x s1. m s = Some (Inr x, s1) \<and> f x s1 = Some (r, s'))"
  by (auto simp: bindS_def split: option.splits sum.splits)

lemma primitive_Some [simp]:
  "returnS x s = Some (r, s') \<longleftrightarrow> r = Inr x \<and> s' = s"
  "liftS q s = Some (r, s') \<longleftrightarrow> q = r \<and> s' = s"
  "getsS g s = Some (v, s') \<longleftrightarrow> v = Inr (g s) \<and> s' = s"
  "modifyS h s = Some (u, s') \<longleftrightarrow> u = Inr () \<and> s' = h s"
  "callS E rq s = Some (w, s') \<longleftrightarrow> rq (se_node E (ss_calls s)) = w \<and> s' = s\<lparr>ss_calls := Suc (ss_calls s)\<rparr>"
  "divergeS s = Some (z, s') \<longleftrightarrow> False"
  by (auto simp: returnS_def liftS_def getsS_def modifyS_def callS_def divergeS_def)

text \<open>Programs that change neither the database nor the cached objects.\<close>

definition quiet :: "'a program \<Rightarrow> bool" where
  "quiet m = (\<forall>s r s'. m s = Some (r, s') \<longrightarrow> ss_db s' = ss_db s \<and> ss_objects s' = ss_objects s)"

named_theorems quiet_intros \<open>programs that leave the database and the cache alone\<close>

lemma quietD: "quiet m \<Longrightarrow> m s = Some (r, s') \<Longrightarrow> ss_db s' = ss_db s \<and> ss_objects s' = ss_objects s"
  by (simp add: quiet_def)

lemma quiet_primitives [quiet_intros]:
  "quiet (returnS x)" "quiet (liftS q)" "quiet (getsS g)" "quiet (callS E rq)" "quiet divergeS"
  "quiet (update_deployment f)" "quiet (set_scanCursor c)"
  "quiet (modifyS (\<lambda>s. s\<lparr>ss_scanCursor := h s\<rparr>))"
  by (auto simp: quiet_def)

lemma quiet_bindS [quiet_intros]: "quiet m \<Longrightarrow> (\<And>x. quiet (f x)) \<Longrightarrow> quiet (bindS m f)"
  unfolding quiet_def bindS_Some by metis

lemma quiet_catchS [quiet_intros]: "quiet m \<Longrightarrow> quiet h \<Longrightarrow> quiet (catchS m h)"
  unfolding quiet_def catchS_def by (auto split: option.splits sum.splits)

lemma quiet_if [quiet_intros]: "(b \<Longrightarrow> quiet m) \<Longrightarrow> (\<not> b \<Longrightarrow> quiet n) \<Longrightarrow> quiet (if b then m else n)"
  by simp

lemma quiet_option [quiet_intros]:
  "quiet m \<Longrightarrow> (\<And>x. quiet (f x)) \<Longrightarrow> quiet (case z of None \<Rightarrow> m | Some x \<Rightarrow> f x)"
  by (cases z) simp_all

lemma quiet_block_contains [quiet_intros]: "quiet (block_contains E height txid)"
  unfolding block_contains_def by (intro quiet_intros)

lemma quiet_scan_blocks [quiet_intros]: "quiet (scan_blocks E txid nodeHeight n)"
  by (induction n) (auto intro!: quiet_intros)

lemma quiet_locate_by_index [quiet_intros]: "quiet (locate_by_index E txid nodeHeight)"
  unfolding locate_by_index_def by (intro quiet_intros)

lemma quiet_locateInit [quiet_intros]: "quiet (locateInit E txid nodeHeight)"
  unfolding locateInit_def Let_def by (intro quiet_intros)

lemma quiet_fetch_blocks [quiet_intros]: "quiet (fetch_blocks E hs)"
  by (induction hs) (auto intro!: quiet_intros)

lemma quiet_find_ancestor [quiet_intros]: "quiet (find_ancestor E d hs)"
  by (induction hs) (auto intro!: quiet_intros)

lemma quiet_connect_blocks [quiet_intros]: "quiet (connect_blocks E bd b blocks)"
  by (induction blocks arbitrary: b) (auto intro!: quiet_intros)

lemma quiet_connect_chunks [quiet_intros]: "quiet (connect_chunks E bd l a n b)"
proof (induction n arbitrary: a b)
  case 0
  show ?case by (subst connect_chunks.simps) (auto intro!: quiet_intros)
next
  case (Suc n)
  show ?case
    by (subst connect_chunks.simps) (auto simp: Let_def intro!: quiet_intros Suc.IH)
qed

section \<open>The batch\<close>

definition node_ok :: "sync_env \<Rightarrow> bitcoin_block set \<Rightarrow> bool" where
  "node_ok E V = (\<forall>t hash b. getBlock (se_node E t) hash = Inr b \<longrightarrow> b \<in> V)"

text \<open>
  What the variables of \<open>connectBatch\<close> stand for: the blocks \<open>fresh\<close> on top of the indexed chain, and
  the database there will be when the batch is committed.
\<close>

definition batch_inv ::
  "sync_env \<Rightarrow> binding_record \<Rightarrow> bitcoin_block set \<Rightarrow> trace \<Rightarrow> database \<Rightarrow> batch_state \<Rightarrow> trace \<Rightarrow> bool" where
  "batch_inv E bd V hs db0 b fresh =
     (set (trace_blocks fresh) \<subseteq> V \<and> bs_batch b = map snd (rev fresh) \<and>
      bs_current b = trace_activation (fresh @ hs) \<and> bs_previousHash b = trace_hash (fresh @ hs) \<and>
      bs_previousRoot b = trace_root E bd (fresh @ hs) \<and>
      (\<exists>db. appendBlocks db0 (bs_batch b) = Inr db \<and> indexed E bd (fresh @ hs) db \<and>
         holds E bd (fresh @ hs) db (bs_objects b)))"

lemma batch_inv_broken:
  "batch_inv E bd V hs db0 (b\<lparr>bs_broken := x\<rparr>) fresh = batch_inv E bd V hs db0 b fresh"
  by (simp add: batch_inv_def)

lemma holds_same_objects:
  assumes "holds E bd hs db objects"
  shows "same_objects objects (loadObjects db)"
  using assms store_okD(2) [of db objects]
  by (simp add: holds_def same_objects_def objects_ok_def)

lemma trace_blocks_append [simp]: "trace_blocks (xs @ ys) = trace_blocks ys @ trace_blocks xs"
  by (simp add: trace_blocks_def)

lemma appendBlocks_snoc:
  "appendBlocks db (xs @ [x]) = bindE (appendBlocks db xs) (\<lambda>d. writeBlock d x)"
  by (simp add: appendBlocks_def foldE_append bindE_def split: sum.split)

lemma batch_step:
  assumes run_ok: "run_ok (se_lib E) bd" and V: "consensus V" "set (trace_blocks hs) \<subseteq> V" "x \<in> V"
    and inv: "batch_inv E bd V hs db0 b fresh"
    and link: "bs_previousHash b = None \<or> blk_previousBlockHash x = bs_previousHash b"
    and run: "reduceBlock (se_lib E) (se_crypto E) bd (bs_current b) (bs_previousRoot b) (bs_objects b) x
      = Inr rb"
  shows "batch_inv E bd V hs db0
      \<lparr>bs_batch = bs_batch b @ [rb], bs_current = Some (rb_activation rb),
       bs_previousHash = Some (rb_hash rb), bs_previousRoot = from_hex (rb_chainedRoot rb),
       bs_objects = rb_objects rb, bs_broken = False\<rparr> ((x, rb) # fresh)"
proof -
  from inv obtain db where db: "appendBlocks db0 (bs_batch b) = Inr db" "indexed E bd (fresh @ hs) db"
    "holds E bd (fresh @ hs) db (bs_objects b)" by (auto simp: batch_inv_def)
  note eqs = inv [unfolded batch_inv_def]
  have sub: "set (trace_blocks (fresh @ hs)) \<subseteq> V" using V(2) eqs by simp
  have link': "blk_previousBlockHash x = trace_hash (fresh @ hs)" if "fresh @ hs \<noteq> []"
    using link eqs that by (cases "fresh @ hs") auto
  have run': "reduceBlock (se_lib E) (se_crypto E) bd (trace_activation (fresh @ hs))
      (trace_root E bd (fresh @ hs)) (bs_objects b) x = Inr rb"
    using run eqs by simp
  obtain db' where db': "writeBlock db rb = Inr db'"
    "holds E bd ((x, rb) # fresh @ hs) db' (rb_objects rb)"
    using connect_block [OF run_ok V(1) sub V(3) db(3) link' run'] by blast
  have "indexed E bd ((x, rb) # fresh @ hs) db'"
    by (rule indexed_block [OF db(2) holds_same_objects [OF db(3)] link' run' db'(1)])
  then show ?thesis
    using eqs db db' V(3) by (auto simp: batch_inv_def appendBlocks_snoc)
qed

lemma connect_blocks_inv:
  assumes run_ok: "run_ok (se_lib E) bd" and V: "consensus V" "set (trace_blocks hs) \<subseteq> V"
  shows "set blocks \<subseteq> V \<Longrightarrow> batch_inv E bd V hs db0 b fresh \<Longrightarrow>
    connect_blocks E bd b blocks s = Some (Inr b', s') \<Longrightarrow> \<exists>fresh'. batch_inv E bd V hs db0 b' (fresh' @ fresh)"
proof (induction blocks arbitrary: b fresh s)
  case Nil
  then show ?case by (auto intro: exI [of _ "[]"])
next
  case (Cons x blocks)
  have broken: "batch_inv E bd V hs db0 (b\<lparr>bs_broken := True\<rparr>) fresh"
    using Cons.prems(2) by (simp only: batch_inv_broken)
  show ?case
  proof (cases "bs_previousHash b \<noteq> None \<and> blk_previousBlockHash x \<noteq> bs_previousHash b \<or>
      bs_current b = None \<and> \<not> list_ex (\<lambda>t. tx_txid t = bd_initTxid bd) (blk_transactions x)")
    case True
    then have "b' = b\<lparr>bs_broken := True\<rparr>" using Cons.prems(3) by (auto simp: bindS_Some split: if_splits)
    then show ?thesis using broken by (intro exI [of _ "[]"]) simp
  next
    case False
    then obtain rb where run: "reduceBlock (se_lib E) (se_crypto E) bd (bs_current b)
        (bs_previousRoot b) (bs_objects b) x = Inr rb"
      and rest: "connect_blocks E bd
         \<lparr>bs_batch = bs_batch b @ [rb], bs_current = Some (rb_activation rb),
          bs_previousHash = Some (rb_hash rb), bs_previousRoot = from_hex (rb_chainedRoot rb),
          bs_objects = rb_objects rb, bs_broken = False\<rparr> blocks s = Some (Inr b', s')"
      using Cons.prems(3) by (auto simp: bindS_Some split: if_splits)
    have "batch_inv E bd V hs db0
         \<lparr>bs_batch = bs_batch b @ [rb], bs_current = Some (rb_activation rb),
          bs_previousHash = Some (rb_hash rb), bs_previousRoot = from_hex (rb_chainedRoot rb),
          bs_objects = rb_objects rb, bs_broken = False\<rparr> ((x, rb) # fresh)"
      using Cons.prems(1,2) False by (intro batch_step [OF run_ok V _ _ _ run]) auto
    from Cons.IH [OF _ this rest] Cons.prems(1) obtain fresh' where
      "batch_inv E bd V hs db0 b' (fresh' @ (x, rb) # fresh)" by auto
    then show ?thesis by (intro exI [of _ "fresh' @ [(x, rb)]"]) simp
  qed
qed

lemma fetch_blocks_valid:
  assumes "node_ok E V"
  shows "fetch_blocks E heights s = Some (Inr blocks, s') \<Longrightarrow> set blocks \<subseteq> V"
proof (induction heights arbitrary: s blocks)
  case (Cons h heights)
  from Cons.prems obtain b bs s1 where "b \<in> V" "fetch_blocks E heights s1 = Some (Inr bs, s')" "blocks = b # bs"
    using assms by (auto simp: bindS_Some node_ok_def) (metis)
  with Cons.IH show ?case by simp
qed simp

lemma connect_chunks_inv:
  assumes run_ok: "run_ok (se_lib E) bd" and V: "consensus V" "set (trace_blocks hs) \<subseteq> V"
    and node: "node_ok E V"
  shows "batch_inv E bd V hs db0 b fresh \<Longrightarrow> connect_chunks E bd l a n b s = Some (Inr b', s') \<Longrightarrow>
    \<exists>fresh'. batch_inv E bd V hs db0 b' fresh'"
proof (induction n arbitrary: a b s fresh)
  case 0
  then show ?case by (subst (asm) connect_chunks.simps) (auto simp: bindS_Some split: if_splits)
next
  case (Suc n)
  show ?case
  proof (cases "a \<le> l \<and> \<not> bs_broken b \<and> \<not> se_stopping E (ss_calls s)")
    case False
    then show ?thesis using Suc.prems
      by (subst (asm) connect_chunks.simps) (auto simp: bindS_Some split: if_splits)
  next
    case True
    let ?e = "min l (a + int (sc_fetchConcurrency (cfg_sync (se_config E))) - 1)"
    from Suc.prems(2) True obtain blocks s1 b1 s2 where
      fetched: "fetch_blocks E (map (\<lambda>i. a + int i) [0..<nat (?e - a + 1)]) s = Some (Inr blocks, s1)"
      and connected: "connect_blocks E bd b blocks s1 = Some (Inr b1, s2)"
      and rest: "connect_chunks E bd l (?e + 1) n b1 s2 = Some (Inr b', s')"
      by (subst (asm) connect_chunks.simps) (auto simp: bindS_Some Let_def)
    obtain fresh1 where "batch_inv E bd V hs db0 b1 fresh1"
      using connect_blocks_inv [OF run_ok V fetch_blocks_valid [OF node fetched] Suc.prems(1) connected]
      by blast
    then show ?thesis using Suc.IH rest by blast
  qed
qed

section \<open>The invariant of the service\<close>

definition sync_inv ::
  "sync_env \<Rightarrow> binding_record \<Rightarrow> bitcoin_block set \<Rightarrow> trace \<Rightarrow> sync_state \<Rightarrow> bool" where
  "sync_inv E bd V hs s =
     (indexed E bd hs (ss_db s) \<and> set (trace_blocks hs) \<subseteq> V \<and>
      (\<forall>objects. ss_objects s = Some objects \<longrightarrow> same_objects objects (loadObjects (ss_db s))))"

lemma sync_inv_quiet:
  "sync_inv E bd V hs s \<Longrightarrow> quiet m \<Longrightarrow> m s = Some (r, s') \<Longrightarrow> sync_inv E bd V hs s' \<and> ss_db s' = ss_db s"
  by (auto simp: sync_inv_def dest: quietD)

text \<open>The blocks \<open>fresh\<close> are those of a batch that \<open>connectBatch\<close> has put together, and \<open>x\<close> is its answer.\<close>

definition batch_outcome ::
  "sync_env \<Rightarrow> binding_record \<Rightarrow> init_activation option \<Rightarrow> canonical_tip option \<Rightarrow> int \<Rightarrow> int \<Rightarrow> trace \<Rightarrow> bool \<Rightarrow> bool"
  where
  "batch_outcome E bd activation tip first n fresh x =
     (let lastHeight = min n (first + int (sc_batchBlocks (cfg_sync (se_config E))) - 1)
      in \<exists>objects s1 b s2.
        connect_chunks E bd lastHeight first (nat (lastHeight - first + 1))
          \<lparr>bs_batch = [], bs_current = activation, bs_previousHash = map_option ct_hash tip,
            bs_previousRoot = (case tip of
              None \<Rightarrow> se_initialStateRoot E (from_hex (bd_namespace bd))
            | Some t \<Rightarrow> from_hex (ct_chainedRoot t)),
            bs_objects = objects, bs_broken = False\<rparr> s1 = Some (Inr b, s2) \<and>
        bs_batch b = map snd (rev fresh) \<and>
        x = (if bs_broken b then bs_current b \<noteq> None else lastHeight < n))"

lemma connectBatch_inv:
  assumes run_ok: "run_ok (se_lib E) bd" and V: "consensus V" and node: "node_ok E V"
    and inv: "sync_inv E bd V hs s" and act: "activation = trace_activation hs"
    and tip: "map_option ct_hash tip = trace_hash hs"
      "(case tip of None \<Rightarrow> se_initialStateRoot E (from_hex (bd_namespace bd))
        | Some t \<Rightarrow> from_hex (ct_chainedRoot t)) = trace_root E bd hs"
    and run: "connectBatch E bd activation tip first nodeHeight s = Some (r, s')"
  shows "\<exists>fresh. sync_inv E bd V (fresh @ hs) s' \<and> (\<forall>e. r = Inl e \<longrightarrow> ss_db s' = ss_db s) \<and>
    (\<forall>x. r = Inr x \<longrightarrow> batch_outcome E bd activation tip first nodeHeight fresh x)"
proof -
  let ?lastHeight = "min nodeHeight (first + int (sc_batchBlocks (cfg_sync (se_config E))) - 1)"
  have sub: "set (trace_blocks hs) \<subseteq> V" and idx: "indexed E bd hs (ss_db s)"
    using inv by (simp_all add: sync_inv_def)
  note held = indexed_holds [OF idx run_ok V sub]
  obtain objects s1 where cached: "cachedObjects s = Some (Inr objects, s1)" "ss_db s1 = ss_db s"
    "same_objects objects (loadObjects (ss_db s))" "sync_inv E bd V hs s1"
    using inv loadObjects_wf store_okD(1) held
    by (cases "ss_objects s") (auto simp: cachedObjects_def Let_def sync_inv_def holds_def same_objects_def)
  let ?b0 = "\<lparr>bs_batch = [], bs_current = activation, bs_previousHash = map_option ct_hash tip,
            bs_previousRoot = (case tip of
              None \<Rightarrow> se_initialStateRoot E (from_hex (bd_namespace bd))
            | Some t \<Rightarrow> from_hex (ct_chainedRoot t)),
            bs_objects = objects, bs_broken = False\<rparr>"
  have start: "batch_inv E bd V hs (ss_db s) ?b0 []"
    using idx holds_same [OF held cached(3)] by (simp add: batch_inv_def act tip appendBlocks_def)
  obtain rc s2 where chunks: "connect_chunks E bd ?lastHeight first (nat (?lastHeight - first + 1)) ?b0 s1 = Some (rc, s2)"
    using run cached(1) by (auto simp: connectBatch_def Let_def bindS_Some)
  note s2 = sync_inv_quiet [OF cached(4) quiet_connect_chunks chunks]
  show ?thesis
  proof (cases rc)
    case (Inl e)
    then have "s' = s2" "r = Inl e" using run cached(1) chunks by (auto simp: connectBatch_def Let_def bindS_Some)
    then show ?thesis using s2 cached(2) by (intro exI [of _ "[]"]) simp
  next
    case (Inr b)
    from connect_chunks_inv [OF run_ok V sub node start chunks [unfolded Inr]]
    obtain fresh where b: "batch_inv E bd V hs (ss_db s) b fresh" by blast
    then obtain db where db: "appendBlocks (ss_db s) (bs_batch b) = Inr db"
      "indexed E bd (fresh @ hs) db" "holds E bd (fresh @ hs) db (bs_objects b)"
      by (auto simp: batch_inv_def)
    let ?x = "if bs_broken b then bs_current b \<noteq> None else ?lastHeight < nodeHeight"
    have batch: "bs_batch b = map snd (rev fresh)" using b by (simp add: batch_inv_def)
    have conn: "batch_outcome E bd activation tip first nodeHeight fresh ?x"
      using chunks [unfolded Inr] batch unfolding batch_outcome_def Let_def by blast
    show ?thesis
    proof (cases "bs_batch b = []")
      case True
      then have "fresh = []" "s' = s2" "r = Inr ?x"
        using run cached(1) chunks Inr batch by (auto simp: connectBatch_def Let_def bindS_Some)
      then show ?thesis using s2 cached(2) conn by (intro exI [of _ fresh]) simp
    next
      case False
      have same: "ss_db s2 = ss_db s" using s2 cached(2) by simp
      have "append_batch (bs_batch b) s2 = Some (Inr (), s2\<lparr>ss_db := db\<rparr>)"
        using db(1) same by (simp add: append_batch_def)
      then have s': "ss_db s' = db" "ss_objects s' = Some (bs_objects b)" "r = Inr ?x"
        using run cached(1) chunks Inr False by (auto simp: connectBatch_def Let_def bindS_Some)
      have "set (trace_blocks (fresh @ hs)) \<subseteq> V" using b sub by (simp add: batch_inv_def)
      then have "sync_inv E bd V (fresh @ hs) s'"
        using s' db(2) holds_same_objects [OF db(3)] by (simp add: sync_inv_def)
      then show ?thesis using s'(3) conn by auto
    qed
  qed
qed

section \<open>The tip and the heights of an indexed chain\<close>

lemma ascending_down: "ascending xs \<Longrightarrow> xs \<noteq> [] \<Longrightarrow> rev xs = heights_down (last xs) (hd xs - 1)"
proof (induction xs rule: rev_induct)
  case (snoc h xs)
  show ?case
  proof (cases "xs = []")
    case True
    then show ?thesis by (simp add: heights_down_step heights_down_end)
  next
    case False
    then have "h = last xs + 1" "rev xs = heights_down (last xs) (hd xs - 1)" "hd xs \<le> last xs"
      using snoc ascending_ge_hd [of xs "last xs"] by (auto simp: ascending_snoc)
    then show ?thesis using False by (simp add: heights_down_step)
  qed
qed simp

lemma chain_rules:
  assumes "consensus V" and "set (trace_blocks hs) \<subseteq> V" and "holds E bd hs db objects"
  shows "ascending (map blk_height (trace_blocks hs))" "distinct (map blk_hash (trace_blocks hs))"
  using assms unfolding consensus_def holds_def by blast+

lemma holds_heights:
  assumes "consensus V" and "set (trace_blocks hs) \<subseteq> V" and held: "holds E bd hs db objects" and "hs \<noteq> []"
  shows "map (rb_height \<circ> snd) hs =
    heights_down (rb_height (snd (hd hs))) (blk_height (hd (trace_blocks hs)) - 1)"
proof -
  let ?xs = "map blk_height (trace_blocks hs)"
  have eq: "\<forall>(b, rb) \<in> set hs. rb_height rb = blk_height b" using held by (auto simp: holds_def)
  then have "map (rb_height \<circ> snd) hs = rev ?xs"
    by (auto simp: trace_blocks_def rev_map)
  also have "\<dots> = heights_down (last ?xs) (hd ?xs - 1)"
    using chain_rules [OF assms(1-3)] assms(4) by (intro ascending_down) simp_all
  also have "last ?xs = rb_height (snd (hd hs))" using eq assms(4) by (cases hs) auto
  finally show ?thesis using assms(4) by (simp add: hd_map o_def)
qed

lemma holds_tip:
  assumes "consensus V" and "set (trace_blocks hs) \<subseteq> V" and held: "holds E bd hs db objects"
  shows "canonicalTip db = (case hs of [] \<Rightarrow> None | (b, rb) # _ \<Rightarrow>
    Some \<lparr>ct_height = rb_height rb, ct_hash = rb_hash rb, ct_chainedRoot = rb_chainedRoot rb\<rparr>)"
proof (cases hs)
  case Nil
  then show ?thesis using held by (simp add: holds_def canonicalTip_def highest_def)
next
  case (Cons p hs')
  obtain b rb where p: "p = (b, rb)" by (cases p)
  have rows: "db_blocks db = map (\<lambda>(b, rb). (rb_height rb, block_row_of rb)) (rev hs)"
    using held by (simp add: holds_def)
  have "db_ok db" using held store_okD(1) by (auto simp: holds_def)
  then have wf: "js_wf (db_blocks db)" by (simp add: db_ok_def keys_ok_def)
  have "(rb_height rb, block_row_of rb) \<in> set (db_blocks db)" using rows Cons p by simp
  then have row: "js_get (db_blocks db) (rb_height rb) = Some (block_row_of rb)" using wf by simp
  have "fst ` set (db_blocks db) = set (map (rb_height \<circ> snd) hs)"
    unfolding rows by (auto simp: image_image case_prod_unfold)
  also have "\<dots> = set (heights_down (rb_height rb) (blk_height (hd (trace_blocks hs)) - 1))"
    using holds_heights [OF assms] Cons p by simp
  finally have "\<forall>h \<in> fst ` set (db_blocks db). h \<le> rb_height rb" by (simp add: heights_down_set)
  from highestI [OF row this] show ?thesis
    using Cons p by (simp add: canonicalTip_def block_row_of_def)
qed

lemma activation_height:
  "indexed E bd hs db \<Longrightarrow> trace_activation hs = Some a \<Longrightarrow> ia_height a = blk_height (hd (trace_blocks hs))"
proof (induction arbitrary: a rule: indexed.induct)
  case (indexed_block hs db objects b rb db')
  have conf: "rb_initConfirmed rb = (trace_activation hs = None)"
    using indexed_block.hyps(4) by (rule reduceBlock_run)
  show ?case
  proof (cases "hs = []")
    case True
    then show ?thesis
      using rb_init_height [OF indexed_block.hyps(4)] rb_block [OF indexed_block.hyps(4)] conf
        indexed_block.prems by simp
  next
    case False
    then obtain a0 where a0: "trace_activation hs = Some a0" by (cases hs) auto
    then have "rb_activation rb = a0"
      using indexed_block.hyps(4) by (auto simp: reduceBlock_def Let_def activate_def)
    then show ?thesis using indexed_block.IH [OF a0] indexed_block.prems False by simp
  qed
qed simp_all

section \<open>Rolling back\<close>

lemma disconnect_run:
  assumes run_ok: "run_ok (se_lib E) bd" and V: "consensus V"
  shows "indexed E bd (new @ hs) db \<Longrightarrow> set (trace_blocks (new @ hs)) \<subseteq> V \<Longrightarrow>
    indexed E bd hs (fold disconnect_height (map (rb_height \<circ> snd) new) db)"
proof (induction new arbitrary: db)
  case (Cons p new)
  obtain b rb where p: "p = (b, rb)" by (cases p)
  have "indexed E bd (new @ hs) (disconnect_height (rb_height rb) db)"
    using indexed_disconnect [OF Cons.prems(1) run_ok V Cons.prems(2)] p by simp
  from Cons.IH [OF this] Cons.prems(2) show ?case by (simp add: p)
qed simp

lemma heights_down_take:
  assumes "lo \<le> m" and "m \<le> hi"
  shows "heights_down hi m = take (nat (hi - m)) (heights_down hi lo)"
  using assms by (simp add: heights_down_eq take_map take_upt min_def)

lemma service_rollback_indexed:
  assumes run_ok: "run_ok (se_lib E) bd" and V: "consensus V" "set (trace_blocks hs) \<subseteq> V"
    and idx: "indexed E bd hs db" and hs: "hs = (b, rb) # hs'" and act: "trace_activation hs = Some a"
    and run: "service_rollback rollback db (rb_height rb) anc (ia_height a) j = Inr db'"
  shows "indexed E bd (drop (nat (rb_height rb - anc)) hs) db'"
proof -
  let ?k = "nat (rb_height rb - anc)"
  note held = indexed_holds [OF idx run_ok V]
  have first: "ia_height a = blk_height (hd (trace_blocks hs))" by (rule activation_height [OF idx act])
  from run obtain plan where plan: "planReorgRollback (rb_height rb) anc (ia_height a) = Inr plan"
    "rollback db plan j = Inr db'" by (auto simp: service_rollback_def)
  then have bounds: "ia_height a - 1 \<le> anc" "anc < rb_height rb"
    "rp_rollbackHeights plan = heights_down (rb_height rb) anc"
    by (auto simp: planReorgRollback_Inr)
  have "map (rb_height \<circ> snd) hs = heights_down (rb_height rb) (ia_height a - 1)"
    using holds_heights [OF V held] hs first by simp
  then have "heights_down (rb_height rb) anc = map (rb_height \<circ> snd) (take ?k hs)"
    using heights_down_take [of "ia_height a - 1" anc "rb_height rb"] bounds(1,2) by (simp flip: take_map)
  moreover have "indexed E bd (drop ?k hs) (fold disconnect_height (map (rb_height \<circ> snd) (take ?k hs)) db)"
    using disconnect_run [OF run_ok V(1), of "take ?k hs" "drop ?k hs"] idx V(2) by simp
  ultimately have "indexed E bd (drop ?k hs) (fold disconnect_height (rp_rollbackHeights plan) db)"
    using bounds(3) by simp
  moreover obtain jr where "db' = (fold disconnect_height (rp_rollbackHeights plan) db)\<lparr>db_reorg_journal := jr\<rparr>"
    using plan(2) by (auto simp: rollback_def Let_def)
  ultimately show ?thesis using indexed_journal by simp
qed

lemma trace_blocks_drop: "set (trace_blocks (drop k hs)) \<subseteq> set (trace_blocks hs)"
  by (auto simp: trace_blocks_def dest: in_set_dropD)

lemma rollback_inv:
  assumes run_ok: "run_ok (se_lib E) bd" and V: "consensus V"
    and inv: "sync_inv E bd V hs s" and hs: "hs = (b, rb) # hs'" and act: "trace_activation hs = Some a"
    and run: "rollbackToCommonAncestor E (rb_height rb) h (ia_height a) s = Some (r, s')"
  shows "\<exists>k. sync_inv E bd V (drop k hs) s' \<and> (\<forall>e. r = Inl e \<longrightarrow> ss_db s' = ss_db s)"
proof -
  have sub: "set (trace_blocks hs) \<subseteq> V" and idx: "indexed E bd hs (ss_db s)"
    using inv by (simp_all add: sync_inv_def)
  have stay: "\<exists>k. sync_inv E bd V (drop k hs) s' \<and> (\<forall>e. r = Inl e \<longrightarrow> ss_db s' = ss_db s)"
    if "ss_db s' = ss_db s" "ss_objects s' = ss_objects s"
    using inv that by (intro exI [of _ 0]) (simp add: sync_inv_def)
  obtain ra s1 where anc: "find_ancestor E (ia_height a - 1)
      (heights_down (rb_height rb - 1) (ia_height a - 1)) s = Some (ra, s1)"
    using run unfolding rollbackToCommonAncestor_def bindS_Some by blast
  note s1 = quietD [OF quiet_find_ancestor anc]
  show ?thesis
  proof (cases ra)
    case (Inl e)
    then show ?thesis using run anc s1 by (intro stay) (auto simp: rollbackToCommonAncestor_def bindS_Some)
  next
    case (Inr ancestor)
    let ?s2 = "s1\<lparr>ss_calls := Suc (ss_calls s1)\<rparr>"
    show ?thesis
    proof (cases "getBlockchainInfo (se_node E (ss_calls s1))")
      case (Inl e)
      then show ?thesis using run anc s1 Inr
        by (intro stay) (auto simp: rollbackToCommonAncestor_def bindS_Some)
    next
      case info: (Inr info)
      let ?j = "\<lparr>rj_oldTipHash = h,
          rj_ancestorHash = (if ancestor \<ge> ia_height a then nullish (blockHash (ss_db s1) ancestor) [] else zero_hash),
          rj_newTipHash = bci_bestblockhash info\<rparr>"
      show ?thesis
      proof (cases "service_rollback rollback (ss_db s) (rb_height rb) ancestor (ia_height a) ?j")
        case (Inl e)
        then show ?thesis using run anc s1 Inr info
          by (intro stay) (auto simp: rollbackToCommonAncestor_def bindS_Some)
      next
        case rolled: (Inr db')
        then have s': "ss_db s' = db'" "ss_objects s' = None" "r = Inr ()"
          using run anc s1 Inr info by (auto simp: rollbackToCommonAncestor_def bindS_Some)
        have "indexed E bd (drop (nat (rb_height rb - ancestor)) hs) db'"
          by (rule service_rollback_indexed [OF run_ok V sub idx hs act rolled])
        then show ?thesis using s' sub trace_blocks_drop [of "nat (rb_height rb - ancestor)" hs]
          by (intro exI [of _ "nat (rb_height rb - ancestor)"]) (auto simp: sync_inv_def)
      qed
    qed
  qed
qed

section \<open>One step of the synchronizer\<close>

lemma sync_inv_tip:
  assumes run_ok: "run_ok (se_lib E) bd" and V: "consensus V" and inv: "sync_inv E bd V hs s"
  shows "canonicalTip (ss_db s) = (case hs of [] \<Rightarrow> None | (b, rb) # _ \<Rightarrow>
      Some \<lparr>ct_height = rb_height rb, ct_hash = rb_hash rb, ct_chainedRoot = rb_chainedRoot rb\<rparr>)"
    and "db_init (ss_db s) = trace_activation hs"
proof -
  have sub: "set (trace_blocks hs) \<subseteq> V" and idx: "indexed E bd hs (ss_db s)"
    using inv by (simp_all add: sync_inv_def)
  note held = indexed_holds [OF idx run_ok V sub]
  show "canonicalTip (ss_db s) = (case hs of [] \<Rightarrow> None | (b, rb) # _ \<Rightarrow>
      Some \<lparr>ct_height = rb_height rb, ct_hash = rb_hash rb, ct_chainedRoot = rb_chainedRoot rb\<rparr>)"
    by (rule holds_tip [OF V sub held])
  show "db_init (ss_db s) = trace_activation hs" using held by (simp add: holds_def)
qed

lemma connect_from_tip:
  assumes run_ok: "run_ok (se_lib E) bd" and V: "consensus V" and node: "node_ok E V"
    and inv: "sync_inv E bd V hs s"
    and run: "connectBatch E bd (db_init (ss_db s)) (canonicalTip (ss_db s)) first n s = Some (r, s')"
  shows "\<exists>fresh. sync_inv E bd V (fresh @ hs) s' \<and> (\<forall>e. r = Inl e \<longrightarrow> ss_db s' = ss_db s) \<and>
    (\<forall>x. r = Inr x \<longrightarrow> batch_outcome E bd (db_init (ss_db s)) (canonicalTip (ss_db s)) first n fresh x)"
proof -
  note tip = sync_inv_tip [OF run_ok V inv]
  show ?thesis
  proof (rule connectBatch_inv [OF run_ok V node inv tip(2) _ _ run])
    show "map_option ct_hash (canonicalTip (ss_db s)) = trace_hash hs"
      by (cases hs) (auto simp: tip(1))
    show "(case canonicalTip (ss_db s) of None \<Rightarrow> se_initialStateRoot E (from_hex (bd_namespace bd))
        | Some t \<Rightarrow> from_hex (ct_chainedRoot t)) = trace_root E bd hs"
      by (cases hs) (auto simp: tip(1))
  qed
qed

text \<open>What a step may do to the chain, and to the database when it throws.\<close>

definition step_ok ::
  "sync_env \<Rightarrow> binding_record \<Rightarrow> bitcoin_block set \<Rightarrow> trace \<Rightarrow> sync_state \<Rightarrow> bool result \<Rightarrow> sync_state \<Rightarrow> bool"
  where
  "step_ok E bd V hs s r s' =
     ((\<exists>hs'. sync_inv E bd V hs' s' \<and> ((\<exists>fresh. hs' = fresh @ hs) \<or> (\<exists>k. hs' = drop k hs))) \<and>
      (\<forall>e. r = Inl e \<longrightarrow> ss_db s' = ss_db s))"

lemma step_okI:
  "sync_inv E bd V hs s \<Longrightarrow> ss_db s' = ss_db s \<Longrightarrow> ss_objects s' = ss_objects s \<Longrightarrow> step_ok E bd V hs s r s'"
  unfolding step_ok_def sync_inv_def by (metis append_Nil)

text \<open>The last part of the step: locating the \<open>INIT\<close> or going on from the tip.\<close>

definition sync_forward :: "sync_env \<Rightarrow> binding_record \<Rightarrow> int \<Rightarrow> init_activation option \<Rightarrow> canonical_tip option \<Rightarrow> bool program" where
  "sync_forward E bd n activation tip =
     (case activation of
        None \<Rightarrow>
          bindS (locateInit E (bd_initTxid bd) n) (\<lambda>initHeight.
          case initHeight of
            None \<Rightarrow> returnS False
          | Some h \<Rightarrow> connectBatch E bd activation tip h n)
      | Some a \<Rightarrow>
          connectBatch E bd activation tip
            ((case tip of None \<Rightarrow> ia_height a - 1 | Some t \<Rightarrow> ct_height t) + 1) n)"

text \<open>The middle part: the rollback, when the node does not have the tip.\<close>

definition sync_reorg :: "sync_env \<Rightarrow> int \<Rightarrow> init_activation option \<Rightarrow> canonical_tip option \<Rightarrow> bool program" where
  "sync_reorg E n activation tip =
     (case (tip, activation) of
        (Some t, Some a) \<Rightarrow>
          bindS (if ct_height t \<le> n
                 then bindS (callS E (\<lambda>node. getBlockHash node (ct_height t))) (\<lambda>h. returnS (Some h))
                 else returnS None) (\<lambda>nodeHash.
          if nodeHash \<noteq> Some (ct_hash t)
          then bindS (rollbackToCommonAncestor E (ct_height t) (ct_hash t) (ia_height a)) (\<lambda>_. returnS True)
          else returnS False)
      | _ \<Rightarrow> returnS False)"

definition sync_prepare :: "sync_env \<Rightarrow> (int \<times> bool) program" where
  "sync_prepare E =
     bindS (callS E getBlockchainInfo) (\<lambda>info.
     bindS (update_deployment (\<lambda>d. d\<lparr>ds_node := Some
        \<lparr>nt_chain = bci_chain info, nt_height = bci_blocks info, nt_hash = bci_bestblockhash info,
         nt_initialBlockDownload = bci_initialblockdownload info\<rparr>\<rparr>)) (\<lambda>_.
     let expected = bc_expectedChain (cfg_bitcoin (se_config E)) in
     bindS (liftS (throw_unless (bci_chain info = expected)
        (PlainError (''Bitcoin Core chain '' @ bci_chain info @ '' does not match '' @ expected)))) (\<lambda>_.
     (case binding (se_config E) of
        None \<Rightarrow> bindS (update_deployment (setActivation None False)) (\<lambda>_. returnS (bci_blocks info, False))
      | Some bd \<Rightarrow>
          bindS loadActivation (\<lambda>activation.
          bindS (update_deployment (setActivation activation True)) (\<lambda>_.
          bindS (update_deployment
             (checkConfiguredHeights (cfg_deployment (se_config E)) activation)) (\<lambda>_.
          returnS (bci_blocks info, True))))))))"

lemma bindS_step: "m s = Some (Inr x, s1) \<Longrightarrow> bindS m f s = f x s1"
  by (simp add: bindS_def)

lemma bindS_assoc: "bindS (bindS m f) g = bindS m (\<lambda>x. bindS (f x) g)"
  by (rule ext) (auto simp: bindS_def split: option.splits sum.splits)

lemma bindS_returnS [simp]: "bindS (returnS x) f = f x"
  by (rule ext) (simp add: bindS_def returnS_def)

text \<open>The step, in its parts: the preparation does not touch the database, so both rows are read after it.\<close>

lemma syncOnce_parts:
  "syncOnce E s =
     bindS (sync_prepare E) (\<lambda>(n, configured).
       case binding (se_config E) of
         None \<Rightarrow> returnS False
       | Some bd \<Rightarrow> \<lambda>s1.
           bindS (sync_reorg E n (db_init (ss_db s1)) (canonicalTip (ss_db s1))) (\<lambda>rolledBack.
           if rolledBack then returnS True
           else sync_forward E bd n (db_init (ss_db s1)) (canonicalTip (ss_db s1))) s1) s"
proof (cases "binding (se_config E)")
  case None
  then show ?thesis by (simp add: syncOnce_def sync_prepare_def bindS_assoc Let_def)
next
  case (Some bd)
  show ?thesis
    unfolding syncOnce_def sync_prepare_def Some option.case Let_def bindS_assoc sync_reorg_def sync_forward_def
    by (rule arg_cong [where f = "\<lambda>f. bindS _ f s"], rule ext)
      (auto simp: bindS_assoc loadActivation_def bindS_def getsS_def modifyS_def liftS_def returnS_def
        fun_eq_iff split: option.splits sum.splits)
qed

lemma quiet_sync_prepare: "quiet (sync_prepare E)"
  unfolding sync_prepare_def Let_def loadActivation_def by (intro quiet_intros)

lemma sync_reorg_ok:
  assumes run_ok: "run_ok (se_lib E) bd" and V: "consensus V" and inv: "sync_inv E bd V hs s"
    and run: "sync_reorg E n (db_init (ss_db s)) (canonicalTip (ss_db s)) s = Some (r, s')"
  shows "if r = Inr False then sync_inv E bd V hs s' \<and> ss_db s' = ss_db s else step_ok E bd V hs s r s'"
proof (cases hs)
  case Nil
  then have "canonicalTip (ss_db s) = None" using sync_inv_tip [OF run_ok V inv] by simp
  then have "r = Inr False" "s' = s" using run by (simp_all add: sync_reorg_def)
  then show ?thesis using inv by simp
next
  case (Cons p hs')
  obtain b rb where "p = (b, rb)" by (cases p)
  with Cons have p: "hs = (b, rb) # hs'" by simp
  have tip: "canonicalTip (ss_db s) =
      Some \<lparr>ct_height = rb_height rb, ct_hash = rb_hash rb, ct_chainedRoot = rb_chainedRoot rb\<rparr>"
    "db_init (ss_db s) = Some (rb_activation rb)"
    using sync_inv_tip [OF run_ok V inv] p by simp_all
  have keep: "step_ok E bd V hs s r s'" if "ss_db s' = ss_db s" "ss_objects s' = ss_objects s"
    using step_okI [OF inv that] .
  let ?ask = "if rb_height rb \<le> n then bindS (callS E (\<lambda>node. getBlockHash node (rb_height rb))) (\<lambda>h. returnS (Some h))
                 else returnS None"
  have quiet: "quiet ?ask" by (intro quiet_intros)
  have "sync_reorg E n (db_init (ss_db s)) (canonicalTip (ss_db s)) = bindS ?ask (\<lambda>nodeHash.
      if nodeHash \<noteq> Some (rb_hash rb)
      then bindS (rollbackToCommonAncestor E (rb_height rb) (rb_hash rb) (ia_height (rb_activation rb)))
        (\<lambda>_. returnS True)
      else returnS False)"
    by (simp add: sync_reorg_def tip cong: if_cong)
  note run = run [unfolded this bindS_Some [of ?ask]]
  obtain q s1 where ask: "?ask s = Some (q, s1)"
    using run by blast
  note s1 = quietD [OF quiet ask]
  show ?thesis
  proof (cases "q = Inr (Some (rb_hash rb)) \<or> (\<exists>e. q = Inl e)")
    case True
    then have "s' = s1 \<and> (r = Inr False \<or> (\<exists>e. r = Inl e))"
      using run ask by auto
    then show ?thesis using s1 keep inv by (auto simp: sync_inv_def)
  next
    case False
    then obtain nodeHash where q: "q = Inr nodeHash" "nodeHash \<noteq> Some (rb_hash rb)" by (cases q) auto
    have inv1: "sync_inv E bd V hs s1" using inv s1 by (simp add: sync_inv_def)
    from run ask q obtain r1 where
      roll: "rollbackToCommonAncestor E (rb_height rb) (rb_hash rb) (ia_height (rb_activation rb)) s1 = Some (r1, s')"
      and r: "r = (case r1 of Inl e \<Rightarrow> Inl e | Inr _ \<Rightarrow> Inr True)"
      by (auto simp: bindS_Some)
    have "trace_activation hs = Some (rb_activation rb)" by (simp add: p)
    from rollback_inv [OF run_ok V inv1 p this roll] obtain k where
      "sync_inv E bd V (drop k hs) s'" "\<forall>e. r1 = Inl e \<longrightarrow> ss_db s' = ss_db s1" by blast
    then show ?thesis using r s1 by (auto simp: step_ok_def split: sum.splits)
  qed
qed

lemma sync_forward_ok:
  assumes run_ok: "run_ok (se_lib E) bd" and V: "consensus V" and node: "node_ok E V"
    and inv: "sync_inv E bd V hs s"
    and run: "sync_forward E bd n (db_init (ss_db s)) (canonicalTip (ss_db s)) s = Some (r, s')"
  shows "step_ok E bd V hs s r s'"
proof -
  have conn: "step_ok E bd V hs s r s'"
    if inv1: "sync_inv E bd V hs s1" and db: "ss_db s1 = ss_db s"
      and run1: "connectBatch E bd (db_init (ss_db s)) (canonicalTip (ss_db s)) h n s1 = Some (r, s')" for h s1
  proof -
    have "connectBatch E bd (db_init (ss_db s1)) (canonicalTip (ss_db s1)) h n s1 = Some (r, s')"
      using run1 by (simp only: db)
    from connect_from_tip [OF run_ok V node inv1 this] show ?thesis by (auto simp: step_ok_def db)
  qed
  show ?thesis
  proof (cases "db_init (ss_db s)")
    case None
    obtain q s1 where loc: "locateInit E (bd_initTxid bd) n s = Some (q, s1)"
      using run None by (auto simp: sync_forward_def bindS_Some)
    note s1 = sync_inv_quiet [OF inv quiet_locateInit loc]
    consider e where "q = Inl e" | "q = Inr None" | h where "q = Inr (Some h)"
      by (cases q; cases "projr q") auto
    then show ?thesis
    proof cases
      case 3
      then show ?thesis using run None loc s1 conn by (auto simp: sync_forward_def bindS_Some)
    qed (use run None loc s1 quietD [OF quiet_locateInit loc] in
        \<open>auto simp: sync_forward_def bindS_Some intro: step_okI [OF inv]\<close>)
  next
    case (Some a)
    then show ?thesis using run inv conn by (auto simp: sync_forward_def)
  qed
qed

lemma syncOnce_step:
  assumes run_ok: "run_ok (se_lib E) bd" and V: "consensus V" and node: "node_ok E V"
    and bd: "binding (se_config E) = Some bd" and inv: "sync_inv E bd V hs s"
    and run: "syncOnce E s = Some (r, s')"
  shows "step_ok E bd V hs s r s'"
proof -
  from run obtain q s1 where prep: "sync_prepare E s = Some (q, s1)"
    unfolding syncOnce_parts bindS_Some by blast
  note s1 = sync_inv_quiet [OF inv quiet_sync_prepare prep] quietD [OF quiet_sync_prepare prep]
  have from1: "step_ok E bd V hs s r s'" if "step_ok E bd V hs s1 r s'"
    using that s1 by (simp add: step_ok_def)
  show ?thesis
  proof (cases q)
    case (Inl e)
    then have "s' = s1" using run prep unfolding syncOnce_parts bindS_Some by auto
    then show ?thesis using s1 by (intro step_okI [OF inv]) simp_all
  next
    case (Inr p)
    let ?act = "db_init (ss_db s1)" and ?tip = "canonicalTip (ss_db s1)"
    have first: "bindS (sync_prepare E) f s = f p s1" for f :: "int \<times> bool \<Rightarrow> bool program"
      by (rule bindS_step) (simp add: prep Inr)
    have rest: "bindS (sync_reorg E (fst p) ?act ?tip) (\<lambda>rolledBack.
        if rolledBack then returnS True else sync_forward E bd (fst p) ?act ?tip) s1 = Some (r, s')"
      using run by (simp add: syncOnce_parts first bd case_prod_unfold)
    then obtain rr s2 where reorg: "sync_reorg E (fst p) ?act ?tip s1 = Some (rr, s2)"
      unfolding bindS_Some by blast
    have inv1: "sync_inv E bd V hs s1" using s1 by blast
    note ok = sync_reorg_ok [OF run_ok V inv1 reorg]
    show ?thesis
    proof (cases "rr = Inr False")
      case True
      then have s2: "sync_inv E bd V hs s2" "ss_db s2 = ss_db s1" using ok by simp_all
      have "sync_forward E bd (fst p) (db_init (ss_db s2)) (canonicalTip (ss_db s2)) s2 = Some (r, s')"
        using rest reorg True s2(2) unfolding bindS_Some by auto
      from sync_forward_ok [OF run_ok V node s2(1) this] show ?thesis
        using s2(2) by (intro from1) (simp add: step_ok_def)
    next
      case False
      then have "rr = r \<and> s2 = s'" using rest reorg unfolding bindS_Some by auto
      then show ?thesis using ok False by (intro from1) simp
    qed
  qed
qed

text \<open>
  C21: incremental indexing refines indexing from scratch.  When the node hands out valid blocks, its
  chain may change at any moment, and the package behaves as documented, one step of the synchronizer
  started on the database of an indexed chain ends on the database of an indexed chain: the same one
  prolonged by valid blocks, or cut back to one of its ancestors.  A step that throws leaves the
  database exactly as it was.
\<close>

theorem syncOnce_refines:
  assumes "run_ok (se_lib E) bd" and "consensus V" and "node_ok E V"
    and "binding (se_config E) = Some bd" and "sync_inv E bd V hs s"
    and "syncOnce E s = Some (r, s')"
  shows "(\<exists>hs'. sync_inv E bd V hs' s' \<and> ((\<exists>fresh. hs' = fresh @ hs) \<or> (\<exists>k. hs' = drop k hs))) \<and>
    (\<forall>e. r = Inl e \<longrightarrow> ss_db s' = ss_db s)"
  using syncOnce_step [OF assms] by (simp add: step_ok_def)

section \<open>Every state the service can reach\<close>

text \<open>
  From an empty database: the timer fires, the node announces a block, or the process is started again
  on the same database.
\<close>

inductive sync_reachable :: "sync_env \<Rightarrow> sync_state \<Rightarrow> bool" for E :: sync_env where
  sync_boot: "ss_db s = empty_database \<Longrightarrow> ss_objects s = None \<Longrightarrow> sync_reachable E s"
| sync_tick: "sync_reachable E s \<Longrightarrow> tick E s = Some s' \<Longrightarrow> sync_reachable E s'"
| sync_wake: "sync_reachable E s \<Longrightarrow> sync_reachable E (wake E s)"
| sync_restart: "sync_reachable E s \<Longrightarrow>
    sync_reachable E (onApplicationBootstrap E
      \<lparr>ss_db = ss_db s, ss_objects = None, ss_scanCursor = None, ss_running = False, ss_timer = None,
       ss_deployment = initial_deployment_state, ss_calls = ss_calls s\<rparr>)"

inductive_cases sync_reachableE: "sync_reachable E s"

lemma sync_inv_cong:
  "sync_inv E bd V hs s \<Longrightarrow> ss_db s' = ss_db s \<Longrightarrow> ss_objects s' = ss_objects s \<or> ss_objects s' = None \<Longrightarrow>
     sync_inv E bd V hs s'"
  by (auto simp: sync_inv_def)

lemma schedule_fields [simp]:
  "ss_db (schedule E d s) = ss_db s" "ss_objects (schedule E d s) = ss_objects s"
  by (simp_all add: schedule_def)

lemma tick_inv:
  assumes run_ok: "run_ok (se_lib E) bd" and V: "consensus V" and node: "node_ok E V"
    and bd: "binding (se_config E) = Some bd" and inv: "sync_inv E bd V hs s"
    and run: "tick E s = Some s'"
  shows "\<exists>hs'. sync_inv E bd V hs' s'"
proof -
  let ?s0 = "s\<lparr>ss_timer := None, ss_running := True\<rparr>"
  have inv0: "sync_inv E bd V hs ?s0" using inv by (simp add: sync_inv_def)
  show ?thesis
  proof (cases "ss_running s \<or> se_stopping E (ss_calls s)")
    case True
    then have "s' = s\<lparr>ss_timer := None\<rparr>" using run by (simp add: tick_def Let_def)
    then show ?thesis using inv by (intro exI [of _ hs]) (simp add: sync_inv_def)
  next
    case False
    then obtain r s1 where once: "syncOnce E ?s0 = Some (r, s1)"
      using run by (auto simp: tick_def Let_def split: option.splits)
    obtain hs' where hs': "sync_inv E bd V hs' s1"
      using syncOnce_step [OF run_ok V node bd inv0 once] by (auto simp: step_ok_def)
    have "ss_db s' = ss_db s1" "ss_objects s' = ss_objects s1 \<or> ss_objects s' = None"
      using run False once by (auto simp: tick_def Let_def split: sum.splits)
    then show ?thesis using sync_inv_cong [OF hs'] by blast
  qed
qed

lemma reachable_inv:
  assumes run_ok: "run_ok (se_lib E) bd" and V: "consensus V" and node: "node_ok E V"
    and bd: "binding (se_config E) = Some bd"
  shows "sync_reachable E s \<Longrightarrow> \<exists>hs. sync_inv E bd V hs s"
proof (induction rule: sync_reachable.induct)
  case (sync_boot s)
  then show ?case using indexed_start by (intro exI [of _ "[]"]) (simp add: sync_inv_def)
next
  case (sync_tick s s')
  then show ?case using tick_inv [OF run_ok V node bd] by blast
next
  case (sync_wake s)
  then obtain hs where "sync_inv E bd V hs s" by blast
  then have "sync_inv E bd V hs (wake E s)" by (rule sync_inv_cong) (simp_all add: wake_def)
  then show ?case by blast
next
  case (sync_restart s)
  then obtain hs where "sync_inv E bd V hs s" by blast
  then have "sync_inv E bd V hs (onApplicationBootstrap E
      \<lparr>ss_db = ss_db s, ss_objects = None, ss_scanCursor = None, ss_running = False, ss_timer = None,
       ss_deployment = initial_deployment_state, ss_calls = ss_calls s\<rparr>)"
    by (rule sync_inv_cong) (simp_all add: onApplicationBootstrap_def Let_def)
  then show ?case by blast
qed

text \<open>
  C22: the invariant of the running service.  In every state reachable from an empty database, through
  any sequence of steps, failures, reorganizations and restarts, the database is that of a chain of
  valid blocks indexed from the \<open>INIT\<close> on; its objects and unspent outpoints are consistent
  (\<open>store_ok\<close>), the \<open>INIT\<close> row is the activation of the chain, and the cached objects, when there are
  any, are those of the tables.
\<close>

theorem sync_reachable_indexed:
  assumes "run_ok (se_lib E) bd" and "consensus V" and "node_ok E V"
    and "binding (se_config E) = Some bd" and "sync_reachable E s"
  shows "\<exists>hs. indexed E bd hs (ss_db s) \<and> set (trace_blocks hs) \<subseteq> V \<and> linked (trace_blocks hs) \<and>
    store_ok (ss_db s) (loadObjects (ss_db s)) \<and> db_init (ss_db s) = trace_activation hs \<and>
    (\<forall>objects. ss_objects s = Some objects \<longrightarrow> same_objects objects (loadObjects (ss_db s)))"
proof -
  obtain hs where hs: "sync_inv E bd V hs s" using reachable_inv [OF assms(1-4)] assms(5) by blast
  then have "holds E bd hs (ss_db s) (loadObjects (ss_db s))"
    using indexed_holds [OF _ assms(1,2)] by (simp add: sync_inv_def)
  then show ?thesis using hs by (auto simp: sync_inv_def holds_def)
qed

end
