(* ===== verification/Sync_Progress.thy ===== *)
theory Sync_Progress
  imports Sync_Properties
begin

text \<open>
  What the synchronizer achieves: its steps return, the search for the \<open>INIT\<close> is bounded, a
  reorganization is taken back exactly to the fork, and on a node whose chain stands still each step
  indexes the next batch of its blocks.
\<close>

section \<open>Steps return\<close>

definition returns :: "'a program \<Rightarrow> bool" where
  "returns m = (\<forall>s. m s \<noteq> None)"

named_theorems returns_intros \<open>programs that return from every state\<close>

lemma returns_primitives [returns_intros]:
  "returns (returnS x)" "returns (liftS q)" "returns (getsS g)" "returns (callS E rq)" "returns (modifyS h)"
  by (simp_all add: returns_def returnS_def liftS_def getsS_def callS_def modifyS_def)

lemma returns_bindS [returns_intros]: "returns m \<Longrightarrow> (\<And>x. returns (f x)) \<Longrightarrow> returns (bindS m f)"
  by (auto simp: returns_def bindS_def split: option.split sum.split)

lemma returns_catchS [returns_intros]: "returns m \<Longrightarrow> returns h \<Longrightarrow> returns (catchS m h)"
  by (auto simp: returns_def catchS_def split: option.split sum.split)

lemma returns_if [returns_intros]: "(b \<Longrightarrow> returns m) \<Longrightarrow> (\<not> b \<Longrightarrow> returns n) \<Longrightarrow> returns (if b then m else n)"
  by simp

lemma returns_option [returns_intros]:
  "returns m \<Longrightarrow> (\<And>x. returns (f x)) \<Longrightarrow> returns (case z of None \<Rightarrow> m | Some x \<Rightarrow> f x)"
  by (cases z) simp_all

lemma returns_block_contains [returns_intros]: "returns (block_contains E height txid)"
  unfolding block_contains_def by (intro returns_intros)

lemma returns_scan_blocks [returns_intros]: "returns (scan_blocks E txid n k)"
  by (induction k) (auto intro!: returns_intros)

lemma returns_locateInit [returns_intros]: "returns (locateInit E txid n)"
  unfolding locateInit_def locate_by_index_def Let_def by (intro returns_intros)

lemma returns_fetch_blocks [returns_intros]: "returns (fetch_blocks E hs)"
  by (induction hs) (auto intro!: returns_intros)

lemma returns_find_ancestor [returns_intros]: "returns (find_ancestor E d hs)"
  by (induction hs) (auto intro!: returns_intros)

lemma returns_connect_blocks [returns_intros]: "returns (connect_blocks E bd b blocks)"
  by (induction blocks arbitrary: b) (auto intro!: returns_intros)

text \<open>The fuel of the batch loop is enough as soon as the concurrency is not zero.\<close>

lemma returns_connect_chunks:
  assumes "1 \<le> sc_fetchConcurrency (cfg_sync (se_config E))"
  shows "nat (l - a + 1) \<le> n \<Longrightarrow> returns (connect_chunks E bd l a n b)"
proof (induction n arbitrary: a b)
  case 0
  then show ?case by (subst connect_chunks.simps) (auto intro!: returns_intros)
next
  case (Suc n)
  have "nat (l - (min l (a + int (sc_fetchConcurrency (cfg_sync (se_config E))) - 1) + 1) + 1) \<le> n"
    if "a \<le> l" using assms Suc.prems that by linarith
  then show ?case
    by (subst connect_chunks.simps) (auto simp: Let_def intro!: returns_intros Suc.IH)
qed

lemma returns_cachedObjects: "returns cachedObjects"
  by (auto simp: returns_def cachedObjects_def Let_def split: option.split)

lemma returns_append_batch: "returns (append_batch batch)"
  by (auto simp: returns_def append_batch_def split: sum.split)

lemma returns_connectBatch:
  assumes "1 \<le> sc_fetchConcurrency (cfg_sync (se_config E))"
  shows "returns (connectBatch E bd act tip first n)"
  unfolding connectBatch_def Let_def
  by (intro returns_intros returns_cachedObjects returns_append_batch
      returns_connect_chunks [OF assms] order.refl)

lemma returns_rollback: "returns (rollbackToCommonAncestor E h x ini)"
  unfolding rollbackToCommonAncestor_def
  by (intro returns_intros) (auto simp: returns_def split: sum.split)

lemma returns_syncOnce:
  assumes "1 \<le> sc_fetchConcurrency (cfg_sync (se_config E))"
  shows "returns (syncOnce E)"
proof -
  note conn = returns_connectBatch [OF assms]
  show ?thesis
    unfolding syncOnce_def Let_def loadActivation_def
    by (intro returns_intros conn returns_rollback) (auto intro!: returns_intros conn returns_rollback split: option.split)
qed

text \<open>
  C25: every step returns.  With a configuration that \<open>loadConfiguration\<close> has accepted, a step of the
  synchronizer ends, with a value or with an error, whatever the node answers and whatever the
  database holds.
\<close>

theorem syncOnce_returns:
  assumes "loadConfiguration pc pf env = Inr (se_config E)"
  shows "\<exists>r s'. syncOnce E s = Some (r, s')"
  using returns_syncOnce [of E] loadConfiguration_sync [OF assms] by (auto simp: returns_def)

section \<open>The search for the INIT\<close>

lemma block_contains_Some:
  assumes "block_contains E h txid s = Some (r, s')"
  shows "ss_scanCursor s' = ss_scanCursor s" "ss_calls s' \<le> ss_calls s + 2"
  using assms by (auto simp: block_contains_def bindS_Some)

text \<open>What a scan of at most \<open>k\<close> blocks from the cursor \<open>c\<close> on does.\<close>

lemma scan_blocks_Some:
  "scan_blocks E txid n k s = Some (r, s') \<Longrightarrow> ss_scanCursor s = Some c \<Longrightarrow>
     ss_calls s' \<le> ss_calls s + 2 * k \<and>
     (\<exists>c'. ss_scanCursor s' = Some c' \<and> c \<le> c' \<and> c' \<le> c + int k \<and> c' \<le> max c (n + 1) \<and>
        (\<forall>h. r = Inr (Some h) \<longrightarrow> h = c' \<and> h \<le> n \<and> h < c + int k) \<and>
        (r = Inr None \<longrightarrow> c' = c + int k \<or> n < c'))"
proof (induction k arbitrary: s c)
  case 0
  then show ?case by auto
next
  case (Suc k)
  show ?case
  proof (cases "c \<le> n")
    case False
    then show ?thesis using Suc.prems by (auto simp: bindS_Some)
  next
    case True
    obtain q s1 where look: "block_contains E c txid s = Some (q, s1)"
      using Suc.prems True by (auto simp: bindS_Some)
    note b = block_contains_Some [OF look]
    consider e where "q = Inl e" | "q = Inr True" | "q = Inr False" by (cases q) auto
    then show ?thesis
    proof cases
      case 3
      let ?s2 = "s1\<lparr>ss_scanCursor := Some (c + 1)\<rparr>"
      have rest: "scan_blocks E txid n k ?s2 = Some (r, s')"
        using Suc.prems True look 3 by (auto simp: bindS_Some)
      have "ss_scanCursor ?s2 = Some (c + 1)" by simp
      from Suc.IH [OF rest this] show ?thesis using b True by auto
    qed (use Suc.prems True look b in \<open>auto simp: bindS_Some\<close>)
  qed
qed

lemma locate_by_index_Some:
  assumes "locate_by_index E txid n s = Some (r, s')"
  shows "ss_calls s' \<le> ss_calls s + 2 \<and>
    (ss_scanCursor s' = ss_scanCursor s \<or> ss_scanCursor s' = Some (max (nullish (ss_scanCursor s) 0) n))"
  using assms by (auto simp: locate_by_index_def bindS_Some split: if_splits)

lemma hinted_Some:
  assumes "(case dc_initHeight d of
                  None \<Rightarrow> returnS False
                | Some h \<Rightarrow> if int h \<le> n then block_contains E (int h) txid else returnS False) s = Some (r, s')"
  shows "ss_calls s' \<le> ss_calls s + 2" "ss_scanCursor s' = ss_scanCursor s"
  using assms block_contains_Some [of E "int (the (dc_initHeight d))" txid s r s']
  by (auto split: option.splits if_splits)

lemma catch_locate_Some:
  assumes "catchS (locate_by_index E txid n) (returnS None) s = Some (r, s')"
  shows "ss_calls s' \<le> ss_calls s + 2 \<and>
    (ss_scanCursor s' = ss_scanCursor s \<or> ss_scanCursor s' = Some (max (nullish (ss_scanCursor s) 0) n))"
    "\<exists>q. r = Inr q"
  using assms locate_by_index_Some [of E txid n s]
  by (auto simp: catchS_def split: option.splits sum.splits)

text \<open>
  C26: the search for the \<open>INIT\<close> is bounded and only moves forward.  One call of \<open>locateInit\<close> sends at
  most 104 requests, whatever the node answers, and never moves the scan cursor back: after the call
  the cursor is at least where it was, at most 50 blocks further or at the height of the node.
\<close>

theorem locateInit_bounded:
  assumes run: "locateInit E txid n s = Some (r, s')"
  shows "ss_calls s' \<le> ss_calls s + 104 \<and>
    (\<forall>c. ss_scanCursor s = Some c \<longrightarrow>
       (\<exists>c'. ss_scanCursor s' = Some c' \<and> c \<le> c' \<and> (c' \<le> c + 50 \<or> c' \<le> n + 50)))"
proof -
  let ?d = "cfg_deployment (se_config E)"
  let ?hint = "case dc_initHeight ?d of
                  None \<Rightarrow> returnS False
                | Some h \<Rightarrow> if int h \<le> n then block_contains E (int h) txid else returnS False"
  obtain q s1 where hint: "?hint s = Some (q, s1)"
    using run by (auto simp: locateInit_def Let_def bindS_Some)
  note s1 = hinted_Some [OF hint]
  show ?thesis
  proof (cases "q = Inr False")
    case False
    then have "s' = s1" using run hint
      by (cases q) (auto simp: locateInit_def Let_def bindS_Some split: if_splits)
    then show ?thesis using s1 by auto
  next
    case True
    then obtain p s2 where loc: "catchS (locate_by_index E txid n) (returnS None) s1 = Some (p, s2)"
      using run hint by (auto simp: locateInit_def Let_def bindS_Some)
    note s2 = catch_locate_Some [OF loc]
    then obtain z where z: "p = Inr z" by blast
    show ?thesis
    proof (cases z)
      case (Some h)
      then have "s' = s2" using run hint loc True z by (auto simp: locateInit_def Let_def bindS_Some)
      then show ?thesis using s1 s2 by auto
    next
      case None
      define c0 where "c0 = nullish (ss_scanCursor s2) (max 0 (n - int (sc_initScanDepth (cfg_sync (se_config E)))))"
      let ?s3 = "s2\<lparr>ss_scanCursor := Some c0\<rparr>"
      have rest: "scan_blocks E txid n 50 ?s3 = Some (r, s')"
        using run hint loc True z None
        by (auto simp: locateInit_def Let_def bindS_Some MAX_INIT_SCAN_PER_TICK_def c0_def)
      have "ss_scanCursor ?s3 = Some c0" by simp
      from scan_blocks_Some [OF rest this] have scan: "ss_calls s' \<le> ss_calls s2 + 100"
        "\<exists>c'. ss_scanCursor s' = Some c' \<and> c0 \<le> c' \<and> c' \<le> c0 + 50"
        by auto
      have "c \<le> c0 \<and> (c0 = c \<or> c0 = n)" if "ss_scanCursor s = Some c" for c
        using s1 s2(1) that by (auto simp: c0_def)
      then show ?thesis using scan s1 s2(1) by fastforce
    qed
  qed
qed

text \<open>
  The scan never looks below its cursor.  When the node has no transaction index and the block that
  holds the \<open>INIT\<close> came in through a reorganization at a height the scan has passed, no call finds it.
\<close>

lemma scan_blocks_misses:
  assumes absent: "\<And>t h hash txids. c \<le> h \<Longrightarrow> getBlockHash (se_node E t) h = Inr hash \<Longrightarrow>
      getBlockTxids (se_node E (Suc t)) hash = Inr txids \<Longrightarrow> txid \<notin> set txids"
  shows "scan_blocks E txid n k s = Some (Inr r, s') \<Longrightarrow> ss_scanCursor s = Some c' \<Longrightarrow> c \<le> c' \<Longrightarrow> r = None"
proof (induction k arbitrary: s c')
  case (Suc k)
  show ?case
  proof (cases "c' \<le> n")
    case True
    then obtain b s1 where look: "block_contains E c' txid s = Some (Inr b, s1)"
      using Suc.prems by (auto simp: bindS_Some)
    then have "\<not> b" using absent [OF Suc.prems(3)] by (auto simp: block_contains_def bindS_Some)
    then have rest: "scan_blocks E txid n k (s1\<lparr>ss_scanCursor := Some (c' + 1)\<rparr>) = Some (Inr r, s')"
      using Suc.prems True look by (auto simp: bindS_Some)
    show ?thesis using Suc.IH [OF rest, of "c' + 1"] Suc.prems by simp
  next
    case False
    then show ?thesis using Suc.prems by (auto simp: bindS_Some)
  qed
qed simp

lemma locateInit_misses_passed_height:
  assumes "dc_initHeight (cfg_deployment (se_config E)) = None"
    and unknown: "\<And>t. \<exists>e. getRawTransactionLocation (se_node E t) txid = Inl e"
    and cursor: "ss_scanCursor s = Some c"
    and absent: "\<And>t h hash txids. c \<le> h \<Longrightarrow> getBlockHash (se_node E t) h = Inr hash \<Longrightarrow>
      getBlockTxids (se_node E (Suc t)) hash = Inr txids \<Longrightarrow> txid \<notin> set txids"
    and run: "locateInit E txid n s = Some (Inr r, s')"
  shows "r = None"
proof -
  obtain e where e: "getRawTransactionLocation (se_node E (ss_calls s)) txid = Inl e" using unknown by blast
  let ?s1 = "s\<lparr>ss_calls := Suc (ss_calls s)\<rparr>"
  have "catchS (locate_by_index E txid n) (returnS None) s = Some (Inr None, ?s1)"
    by (simp add: catchS_def locate_by_index_def bindS_def callS_def e returnS_def)
  then have "scan_blocks E txid n 50 (?s1\<lparr>ss_scanCursor := Some c\<rparr>) = Some (Inr r, s')"
    using run cursor assms(1) by (auto simp: locateInit_def Let_def bindS_Some MAX_INIT_SCAN_PER_TICK_def)
  from scan_blocks_misses [OF absent this] show ?thesis by simp
qed

section \<open>A reorganization is taken back to the fork\<close>

text \<open>While the node stands still, every call gets the same answers.\<close>

definition node_still :: "sync_env \<Rightarrow> bitcoin_node \<Rightarrow> bool" where
  "node_still E node = (\<forall>t. se_node E t = node)"

text \<open>Is the block at the height of \<open>rb\<close> on the node's chain the one that is stored?\<close>

definition on_chain :: "bitcoin_node \<Rightarrow> bitcoin_block \<times> reduced_block \<Rightarrow> bool" where
  "on_chain node p = (getBlockHash node (rb_height (snd p)) = Inr (rb_hash (snd p)))"

lemma find_ancestor_still:
  assumes still: "node_still E node"
  shows "find_ancestor E d hts s = Some (Inr a, s') \<Longrightarrow>
    a = (case find (\<lambda>h. \<exists>x. blockHash (ss_db s) h = Some x \<and> getBlockHash node h = Inr x) hts of
           None \<Rightarrow> d | Some h \<Rightarrow> h)"
proof (induction hts arbitrary: s)
  case (Cons h hts)
  let ?s1 = "s\<lparr>ss_calls := Suc (ss_calls s)\<rparr>"
  have ask: "catchS (bindS (callS E (\<lambda>node. getBlockHash node h)) (\<lambda>h. returnS (Some h))) (returnS None) s =
      Some (Inr (case getBlockHash node h of Inl _ \<Rightarrow> None | Inr x \<Rightarrow> Some x), ?s1)"
    using still by (simp add: catchS_def bindS_def callS_def returnS_def node_still_def split: sum.split)
  have rest: "find_ancestor E d hts ?s1 = Some (Inr a, s') \<Longrightarrow> a =
      (case find (\<lambda>h. \<exists>x. blockHash (ss_db s) h = Some x \<and> getBlockHash node h = Inr x) hts of
           None \<Rightarrow> d | Some h \<Rightarrow> h)"
    using Cons.IH [of ?s1] by simp
  show ?case
    using Cons.prems ask rest
    by (cases "blockHash (ss_db s) h"; cases "getBlockHash node h") (auto simp: bindS_Some split: if_splits)
qed simp

lemma find_map: "find P (map f xs) = map_option f (find (P \<circ> f) xs)"
  by (induction xs) auto

lemma find_cong_set: "(\<And>x. x \<in> set xs \<Longrightarrow> P x = Q x) \<Longrightarrow> find P xs = find Q xs"
  by (induction xs) auto

lemma drop_to_found:
  "map f ps = heights_down tip lo \<Longrightarrow>
     drop (nat (tip - (case find Q ps of None \<Rightarrow> lo | Some p \<Rightarrow> f p))) ps = dropWhile (\<lambda>p. \<not> Q p) ps"
proof (induction ps arbitrary: tip)
  case (Cons p ps)
  have "lo < tip" using Cons.prems by (cases "lo < tip") (simp_all add: heights_down_end)
  then have p: "f p = tip" "map f ps = heights_down (tip - 1) lo"
    using Cons.prems by (simp_all add: heights_down_step)
  let ?a = "case find Q ps of None \<Rightarrow> lo | Some p \<Rightarrow> f p"
  have "f x < tip" if "find Q ps = Some x" for x
  proof -
    have "f x \<in> set (map f ps)" using that by (auto simp: find_Some_iff)
    then show ?thesis by (simp add: p(2) heights_down_set)
  qed
  then have "nat (tip - ?a) = Suc (nat (tip - 1 - ?a))"
    using \<open>lo < tip\<close> by (auto split: option.split)
  then show ?case using Cons.IH [OF p(2)] p(1) by simp
qed simp

lemma holds_blockHash:
  assumes "holds E bd hs db objects" and "(b, rb) \<in> set hs"
  shows "blockHash db (rb_height rb) = Some (rb_hash rb)"
proof -
  have "db_ok db" using assms(1) store_okD(1) by (auto simp: holds_def)
  then have wf: "js_wf (db_blocks db)" by (simp add: db_ok_def keys_ok_def)
  have "(rb_height rb, block_row_of rb) \<in> set (db_blocks db)" using assms by (auto simp: holds_def)
  then show ?thesis using wf by (simp add: blockHash_def block_row_of_def)
qed

lemma commit_Inr:
  "(case x of Inl e \<Rightarrow> Some (Inl e, s) | Inr db \<Rightarrow> Some (Inr (), f db)) = Some (Inr u, s') \<longleftrightarrow>
     (\<exists>db. x = Inr db \<and> s' = f db)"
  by (auto split: sum.split)

lemma rollback_to_fork:
  assumes run_ok: "run_ok (se_lib E) bd" and V: "consensus V" and still: "node_still E node"
    and inv: "sync_inv E bd V hs s" and hs: "hs = (b, rb) # hs'" and act: "trace_activation hs = Some a"
    and off: "\<not> on_chain node (b, rb)"
    and run: "rollbackToCommonAncestor E (rb_height rb) h (ia_height a) s = Some (Inr u, s')"
  shows "sync_inv E bd V (dropWhile (\<lambda>p. \<not> on_chain node p) hs) s'"
proof -
  have sub: "set (trace_blocks hs) \<subseteq> V" and idx: "indexed E bd hs (ss_db s)"
    using inv by (simp_all add: sync_inv_def)
  note held = indexed_holds [OF idx run_ok V sub]
  have first: "ia_height a = blk_height (hd (trace_blocks hs))" by (rule activation_height [OF idx act])
  have heights: "map (rb_height \<circ> snd) hs = heights_down (rb_height rb) (ia_height a - 1)"
    using holds_heights [OF V sub held] hs first by simp
  then have "ia_height a - 1 < rb_height rb"
    by (cases "ia_height a - 1 < rb_height rb") (simp_all add: heights_down_end hs)
  then have below: "heights_down (rb_height rb - 1) (ia_height a - 1) = map (rb_height \<circ> snd) hs'"
    using heights by (simp add: hs heights_down_step)
  from run obtain ancestor s1 j db' where
    anc: "find_ancestor E (ia_height a - 1) (heights_down (rb_height rb - 1) (ia_height a - 1)) s
      = Some (Inr ancestor, s1)"
    and roll: "service_rollback rollback (ss_db s1) (rb_height rb) ancestor (ia_height a) j = Inr db'"
    and s': "ss_db s' = db'" "ss_objects s' = None"
    by (auto simp: rollbackToCommonAncestor_def bindS_Some commit_Inr)
  have db: "ss_db s1 = ss_db s" using quietD [OF quiet_find_ancestor anc] by simp
  let ?P = "\<lambda>h. \<exists>x. blockHash (ss_db s) h = Some x \<and> getBlockHash node h = Inr x"
  have "blockHash (ss_db s) (rb_height (snd p)) = Some (rb_hash (snd p))" if "p \<in> set hs'" for p
    using holds_blockHash [OF held, of "fst p" "snd p"] that by (simp add: hs)
  then have "find (?P \<circ> (rb_height \<circ> snd)) hs' = find (on_chain node) hs'"
    by (intro find_cong_set) (simp add: on_chain_def)
  then have "ancestor = (case find (on_chain node) hs of None \<Rightarrow> ia_height a - 1 | Some p \<Rightarrow> (rb_height \<circ> snd) p)"
    using find_ancestor_still [OF still anc] off
    by (simp add: below find_map hs split: option.split)
  then have "drop (nat (rb_height rb - ancestor)) hs = dropWhile (\<lambda>p. \<not> on_chain node p) hs"
    using drop_to_found [OF heights, of "on_chain node"] by simp
  moreover have "indexed E bd (drop (nat (rb_height rb - ancestor)) hs) db'"
    using service_rollback_indexed [OF run_ok V sub _ hs act roll] idx db by simp
  ultimately show ?thesis
    using s' sub trace_blocks_drop [of "nat (rb_height rb - ancestor)" hs] by (auto simp: sync_inv_def)
qed

section \<open>Catching up with a node that stands still\<close>

text \<open>
  The node at height \<open>n\<close>: from height \<open>a\<close> on it has the blocks \<open>B\<close>, each naming the one before it.
\<close>

definition node_serves :: "bitcoin_node \<Rightarrow> int \<Rightarrow> int \<Rightarrow> (int \<Rightarrow> bitcoin_block) \<Rightarrow> bool" where
  "node_serves node a n B =
     ((\<exists>info. getBlockchainInfo node = Inr info \<and> bci_blocks info = n) \<and>
      (\<forall>h. a \<le> h \<longrightarrow> h \<le> n \<longrightarrow> getBlockHash node h = Inr (blk_hash (B h)) \<and>
         getBlock node (blk_hash (B h)) = Inr (B h) \<and>
         (a < h \<longrightarrow> blk_previousBlockHash (B h) = Some (blk_hash (B (h - 1))))))"

lemma fetch_blocks_serves:
  assumes still: "node_still E node" and serves: "node_serves node a n B"
  shows "set hts \<subseteq> {a..n} \<Longrightarrow> fetch_blocks E hts s = Some (r, s') \<Longrightarrow> r = Inr (map B hts)"
proof (induction hts arbitrary: s r)
  case (Cons h hts)
  have node: "se_node E t = node" for t using still by (simp add: node_still_def)
  have "getBlockHash node h = Inr (blk_hash (B h))" "getBlock node (blk_hash (B h)) = Inr (B h)"
    using serves Cons.prems(1) by (simp_all add: node_serves_def)
  then obtain q s1 where rest: "fetch_blocks E hts s1 = Some (q, s')"
    and r: "r = (case q of Inl e \<Rightarrow> Inl e | Inr bs \<Rightarrow> Inr (B h # bs))"
    using Cons.prems(2) by (auto simp: bindS_Some node)
  show ?case using Cons.IH [OF _ rest] Cons.prems(1) r by simp
qed simp

lemma connect_blocks_all:
  assumes serves: "node_serves node a n B"
  shows "map B [h..m] = blocks \<Longrightarrow> a \<le> h - 1 \<Longrightarrow> m \<le> n \<Longrightarrow> bs_current b \<noteq> None \<Longrightarrow>
    bs_previousHash b = Some (blk_hash (B (h - 1))) \<Longrightarrow> \<not> bs_broken b \<Longrightarrow> h \<le> m + 1 \<Longrightarrow>
    connect_blocks E bd b blocks s = Some (Inr b', s') \<Longrightarrow>
    \<not> bs_broken b' \<and> bs_current b' \<noteq> None \<and> bs_previousHash b' = Some (blk_hash (B m)) \<and>
    map rb_hash (bs_batch b') = map rb_hash (bs_batch b) @ map blk_hash blocks"
proof (induction blocks arbitrary: b h)
  case Nil
  then have "h = m + 1" by (cases "h \<le> m") simp_all
  then show ?case using Nil by auto
next
  case (Cons x blocks)
  have hm: "h \<le> m" using Cons.prems(1) by (cases "h \<le> m") simp_all
  then have upto: "[h..m] = h # [h + 1..m]" by (rule upto_rec1)
  have x: "x = B h" "map B [h + 1..m] = blocks" using Cons.prems(1) by (simp_all add: upto)
  have "blk_previousBlockHash x = bs_previousHash b"
    using serves Cons.prems(2,3,5) hm by (simp add: x node_serves_def)
  then obtain rb where run: "reduceBlock (se_lib E) (se_crypto E) bd (bs_current b)
        (bs_previousRoot b) (bs_objects b) x = Inr rb"
      and rest: "connect_blocks E bd
         \<lparr>bs_batch = bs_batch b @ [rb], bs_current = Some (rb_activation rb),
          bs_previousHash = Some (rb_hash rb), bs_previousRoot = from_hex (rb_chainedRoot rb),
          bs_objects = rb_objects rb, bs_broken = False\<rparr> blocks s = Some (Inr b', s')"
    using Cons.prems(4,8) by (auto simp: bindS_Some split: if_splits)
  have hash: "rb_hash rb = blk_hash x" using rb_block [OF run] by simp
  from Cons.IH [OF x(2) _ _ _ _ _ _ rest] show ?case
    using Cons.prems(2,3) hm by (simp add: hash x(1))
qed

lemma connect_chunks_all:
  assumes still: "node_still E node" and serves: "node_serves node a n B"
    and running: "\<And>t. \<not> se_stopping E t"
  shows "a \<le> h - 1 \<Longrightarrow> m \<le> n \<Longrightarrow> h \<le> m + 1 \<Longrightarrow> bs_current b \<noteq> None \<Longrightarrow>
    bs_previousHash b = Some (blk_hash (B (h - 1))) \<Longrightarrow> \<not> bs_broken b \<Longrightarrow>
    1 \<le> sc_fetchConcurrency (cfg_sync (se_config E)) \<Longrightarrow>
    connect_chunks E bd m h k b s = Some (Inr b', s') \<Longrightarrow>
    \<not> bs_broken b' \<and> map rb_hash (bs_batch b') = map rb_hash (bs_batch b) @ map (blk_hash \<circ> B) [h..m]"
proof (induction k arbitrary: h b s)
  case 0
  then have "\<not> h \<le> m" "b' = b"
    using running by (auto simp: connect_chunks.simps [of _ _ _ _ 0] bindS_Some split: if_splits)
  then show ?case using 0 by simp
next
  case (Suc k)
  show ?case
  proof (cases "h \<le> m")
    case False
    then have "b' = b" using Suc.prems(8) by (auto simp: connect_chunks.simps [of _ _ _ _ "Suc k"] bindS_Some)
    then show ?thesis using Suc.prems(6) False by simp
  next
    case True
    define e where "e = min m (h + int (sc_fetchConcurrency (cfg_sync (se_config E))) - 1)"
    have e: "h \<le> e" "e \<le> m" using True Suc.prems(7) by (auto simp: e_def)
    from Suc.prems(8) True running Suc.prems(6) obtain blocks s1 b1 s2 where
      fetched: "fetch_blocks E (map (\<lambda>i. h + int i) [0..<nat (e - h + 1)]) s = Some (Inr blocks, s1)"
      and conn: "connect_blocks E bd b blocks s1 = Some (Inr b1, s2)"
      and rest: "connect_chunks E bd m (e + 1) k b1 s2 = Some (Inr b', s')"
      by (auto simp: connect_chunks.simps [of _ _ _ _ "Suc k"] bindS_Some Let_def e_def)
    have hts: "map (\<lambda>i. h + int i) [0..<nat (e - h + 1)] = [h..e]"
      by (rule nth_equalityI) (auto simp: nth_upto)
    have "set [h..e] \<subseteq> {a..n}" using e Suc.prems(1,2) by auto
    from fetch_blocks_serves [OF still serves this fetched [unfolded hts]]
    have "map B [h..e] = blocks" by simp
    from connect_blocks_all [OF serves this Suc.prems(1) _ Suc.prems(4,5,6) _ conn]
    have b1: "\<not> bs_broken b1" "bs_current b1 \<noteq> None" "bs_previousHash b1 = Some (blk_hash (B e))"
      "map rb_hash (bs_batch b1) = map rb_hash (bs_batch b) @ map blk_hash blocks"
      using e Suc.prems(2) by simp_all
    have "\<not> bs_broken b' \<and>
        map rb_hash (bs_batch b') = map rb_hash (bs_batch b1) @ map (blk_hash \<circ> B) [e + 1..m]"
      using Suc.IH [OF _ Suc.prems(2) _ b1(2) _ b1(1) Suc.prems(7) rest] b1(3) e Suc.prems(1) by simp
    moreover have "[h..m] = [h..e] @ [e + 1..m]" using e by (intro upto_split2) simp_all
    ultimately show ?thesis using b1(4) \<open>map B [h..e] = blocks\<close> by auto
  qed
qed

section \<open>The two properties\<close>

lemma sync_prepare_still:
  assumes still: "node_still E node" and info: "getBlockchainInfo node = Inr info"
    and bd: "binding (se_config E) = Some bd" and run: "sync_prepare E s = Some (q, s1)"
  shows "(\<exists>e. q = Inl e) \<or> q = Inr (bci_blocks info, True)"
  using run info still bd
  by (auto simp: sync_prepare_def node_still_def bindS_Some Let_def loadActivation_def throw_unless_def
      split: if_splits)

lemma syncOnce_still:
  assumes still: "node_still E node" and info: "getBlockchainInfo node = Inr info"
    and bd: "binding (se_config E) = Some bd" and run: "syncOnce E s = Some (Inr x, s')"
  obtains s1 where "ss_db s1 = ss_db s" "ss_objects s1 = ss_objects s"
    "bindS (sync_reorg E (bci_blocks info) (db_init (ss_db s1)) (canonicalTip (ss_db s1))) (\<lambda>rolledBack.
       if rolledBack then returnS True
       else sync_forward E bd (bci_blocks info) (db_init (ss_db s1)) (canonicalTip (ss_db s1))) s1
     = Some (Inr x, s')"
proof -
  from run obtain q s1 where prep: "sync_prepare E s = Some (Inr q, s1)"
    by (auto simp: syncOnce_parts bindS_Some)
  have q: "q = (bci_blocks info, True)" using sync_prepare_still [OF still info bd prep] by simp
  have "bindS (sync_prepare E) f s = f q s1" for f :: "int \<times> bool \<Rightarrow> bool program"
    by (rule bindS_step) (rule prep)
  then show thesis using that [of s1] run quietD [OF quiet_sync_prepare prep] by (simp add: syncOnce_parts bd q)
qed

text \<open>
  C24: a reorganization is undone exactly down to the fork.  When the node stands still and its chain no
  longer has the stored tip, a step that does not throw reports more work and leaves the chain cut back
  to the newest block that the node still has, or empty when it has none of them: no block of the old
  branch stays, and no common block is lost.
\<close>

theorem syncOnce_rolls_back_to_fork:
  assumes "run_ok (se_lib E) bd" and "consensus V" and "binding (se_config E) = Some bd"
    and still: "node_still E node" and info: "getBlockchainInfo node = Inr info"
    and "sync_inv E bd V hs s" and "hs \<noteq> []" and off: "\<not> on_chain node (hd hs)"
    and run: "syncOnce E s = Some (Inr again, s')"
  shows "again \<and> sync_inv E bd V (dropWhile (\<lambda>p. \<not> on_chain node p) hs) s'"
proof -
  obtain b rb hs' where hs: "hs = (b, rb) # hs'" using assms(7) by (cases hs) auto
  obtain s1 where s1: "ss_db s1 = ss_db s" "ss_objects s1 = ss_objects s"
    and rest: "bindS (sync_reorg E (bci_blocks info) (db_init (ss_db s1)) (canonicalTip (ss_db s1))) (\<lambda>rolledBack.
       if rolledBack then returnS True
       else sync_forward E bd (bci_blocks info) (db_init (ss_db s1)) (canonicalTip (ss_db s1))) s1
     = Some (Inr again, s')"
    using syncOnce_still [OF still info assms(3) run] by blast
  have inv1: "sync_inv E bd V hs s1" using assms(6) s1 by (simp add: sync_inv_def)
  have tip: "canonicalTip (ss_db s1) =
      Some \<lparr>ct_height = rb_height rb, ct_hash = rb_hash rb, ct_chainedRoot = rb_chainedRoot rb\<rparr>"
    "db_init (ss_db s1) = Some (rb_activation rb)"
    using sync_inv_tip [OF assms(1,2) inv1] hs by simp_all
  let ?ask = "if rb_height rb \<le> bci_blocks info
      then bindS (callS E (\<lambda>node. getBlockHash node (rb_height rb))) (\<lambda>h. returnS (Some h)) else returnS None"
  have node: "se_node E t = node" for t using still by (simp add: node_still_def)
  have "sync_reorg E (bci_blocks info) (db_init (ss_db s1)) (canonicalTip (ss_db s1)) = bindS ?ask (\<lambda>nodeHash.
      if nodeHash \<noteq> Some (rb_hash rb)
      then bindS (rollbackToCommonAncestor E (rb_height rb) (rb_hash rb) (ia_height (rb_activation rb)))
        (\<lambda>_. returnS True)
      else returnS False)"
    by (simp add: sync_reorg_def tip cong: if_cong)
  note rest = rest [unfolded this bindS_assoc]
  obtain h s2 where ask: "?ask s1 = Some (Inr h, s2)"
    using rest unfolding bindS_Some [of ?ask] by blast
  have "h \<noteq> Some (rb_hash rb)"
    using ask off by (auto simp: hs on_chain_def bindS_Some node split: if_splits)
  then obtain u where again: "again"
    and roll: "rollbackToCommonAncestor E (rb_height rb) (rb_hash rb) (ia_height (rb_activation rb)) s2 = Some (Inr u, s')"
    using rest ask unfolding bindS_Some [of ?ask] by (auto simp: bindS_Some)
  have quiet: "quiet ?ask" by (intro quiet_intros)
  have "sync_inv E bd V hs s2" using inv1 quietD [OF quiet ask] by (simp add: sync_inv_def)
  then have "sync_inv E bd V (dropWhile (\<lambda>p. \<not> on_chain node p) hs) s'"
    using rollback_to_fork [OF assms(1,2) still _ hs _ _ roll] off by (simp add: hs)
  then show ?thesis using again by blast
qed

text \<open>
  C23: the synchronizer catches up.  While the node stands still, has the stored tip, and serves its
  blocks up to height \<open>n\<close>, a step that does not throw indexes exactly the next blocks of the node's
  chain, a full batch or all there are, and asks to be run again at once exactly when blocks are left.
\<close>

theorem syncOnce_catches_up:
  assumes "run_ok (se_lib E) bd" and "consensus V" and "node_ok E V" and "binding (se_config E) = Some bd"
    and still: "node_still E node" and serves: "node_serves node tip n B"
    and running: "\<forall>t. \<not> se_stopping E t"
    and sizes: "1 \<le> sc_fetchConcurrency (cfg_sync (se_config E))" "1 \<le> sc_batchBlocks (cfg_sync (se_config E))"
    and "sync_inv E bd V hs s" and "hs \<noteq> []"
    and at: "rb_height (snd (hd hs)) = tip" "rb_hash (snd (hd hs)) = blk_hash (B tip)" "tip \<le> n"
    and run: "syncOnce E s = Some (Inr again, s')"
  shows "\<exists>fresh. sync_inv E bd V (fresh @ hs) s' \<and>
    map (rb_hash \<circ> snd) (rev fresh) =
      map (blk_hash \<circ> B) [tip + 1..min n (tip + int (sc_batchBlocks (cfg_sync (se_config E))))] \<and>
    (again \<longleftrightarrow> tip + int (sc_batchBlocks (cfg_sync (se_config E))) < n)"
proof -
  let ?m = "min n (tip + int (sc_batchBlocks (cfg_sync (se_config E))))"
  obtain b rb hs' where hs: "hs = (b, rb) # hs'" using assms(11) by (cases hs) auto
  obtain info where info: "getBlockchainInfo node = Inr info" "bci_blocks info = n"
    using serves by (auto simp: node_serves_def)
  obtain s1 where s1: "ss_db s1 = ss_db s" "ss_objects s1 = ss_objects s"
    and rest: "bindS (sync_reorg E n (db_init (ss_db s1)) (canonicalTip (ss_db s1))) (\<lambda>rolledBack.
       if rolledBack then returnS True
       else sync_forward E bd n (db_init (ss_db s1)) (canonicalTip (ss_db s1))) s1 = Some (Inr again, s')"
    using syncOnce_still [OF still info(1) assms(4) run] info(2) by blast
  have inv1: "sync_inv E bd V hs s1" using assms(10) s1 by (simp add: sync_inv_def)
  have tip: "canonicalTip (ss_db s1) =
      Some \<lparr>ct_height = rb_height rb, ct_hash = rb_hash rb, ct_chainedRoot = rb_chainedRoot rb\<rparr>"
    "db_init (ss_db s1) = Some (rb_activation rb)"
    using sync_inv_tip [OF assms(1,2) inv1] hs by simp_all
  have node: "se_node E t = node" for t using still by (simp add: node_still_def)
  have "getBlockHash node tip = Inr (blk_hash (B tip))" using serves at(3) by (simp add: node_serves_def)
  then have reorg: "sync_reorg E n (db_init (ss_db s1)) (canonicalTip (ss_db s1)) s1 =
      Some (Inr False, s1\<lparr>ss_calls := Suc (ss_calls s1)\<rparr>)"
    using at by (simp add: sync_reorg_def tip hs bindS_def callS_def node returnS_def)
  let ?s2 = "s1\<lparr>ss_calls := Suc (ss_calls s1)\<rparr>"
  have inv2: "sync_inv E bd V hs ?s2" using inv1 by (simp add: sync_inv_def)
  have "connectBatch E bd (db_init (ss_db ?s2)) (canonicalTip (ss_db ?s2)) (tip + 1) n ?s2 = Some (Inr again, s')"
    using rest at(1) unfolding bindS_step [of "sync_reorg E n (db_init (ss_db s1)) (canonicalTip (ss_db s1))" s1, OF reorg]
    by (simp add: sync_forward_def tip hs)
  from connect_from_tip [OF assms(1,2,3) inv2 this] obtain fresh where
    fresh: "sync_inv E bd V (fresh @ hs) s'"
    and out: "batch_outcome E bd (db_init (ss_db s1)) (canonicalTip (ss_db s1)) (tip + 1) n fresh again" by auto
  from out obtain objects s3 c s4 where
    chunks: "connect_chunks E bd ?m (tip + 1) (nat (?m - (tip + 1) + 1))
        \<lparr>bs_batch = [], bs_current = Some (rb_activation rb), bs_previousHash = Some (rb_hash rb),
          bs_previousRoot = from_hex (rb_chainedRoot rb), bs_objects = objects, bs_broken = False\<rparr> s3
      = Some (Inr c, s4)"
    and c: "bs_batch c = map snd (rev fresh)" "again = (if bs_broken c then bs_current c \<noteq> None else ?m < n)"
    by (auto simp: batch_outcome_def Let_def tip)
  have "\<not> bs_broken c \<and> map rb_hash (bs_batch c) = map (blk_hash \<circ> B) [tip + 1..?m]"
    using connect_chunks_all [OF still serves _ _ _ _ _ _ _ sizes(1) chunks] running at hs sizes(2) by simp
  then show ?thesis using fresh c by (intro exI [of _ fresh]) auto
qed

end
