(* ===== verification/Reducer_Demo.thy ===== *)
theory Reducer_Demo
  imports Reducer_Log
begin

text \<open>
  A concrete package that meets the contract, and a concrete block on which the reducer is evaluated:
  the hypotheses of the reducer's properties hold there, and the properties are applied to it.
\<close>

section \<open>A concrete block\<close>

text \<open>
  A package that follows the documented behaviour in a small way: a transaction without carriers is
  a \<open>CREATE\<close>, one carrier is refunded, several carriers end.
\<close>

definition demo_validate :: "transaction_evidence \<Rightarrow> validation_context \<Rightarrow> validation_result result" where
  "demo_validate ev ctx =
     Inr (if te_txidWire ev = vc_initTxidWire ctx
          then \<lparr>vr_relevant = True, vr_marker = None,
                vr_events = [\<lparr>ve_operation = OpInvalid, ve_validityClass = INVALID_NO_STATE,
                  ve_reason = 2, ve_objectKey = None\<rparr>]\<rparr>
          else case vc_activeCarriers ctx of
            [] \<Rightarrow> \<lparr>vr_relevant = True, vr_marker = Some CreateMarker,
                   vr_events = [\<lparr>ve_operation = OpCreate, ve_validityClass = VALID_OPERATION,
                     ve_reason = 0, ve_objectKey = None\<rparr>]\<rparr>
          | [c] \<Rightarrow> \<lparr>vr_relevant = True, vr_marker = None,
                   vr_events = [\<lparr>ve_operation = OpRefund, ve_validityClass = VALID_OPERATION,
                     ve_reason = 0, ve_objectKey = Some (ce_objectKey c)\<rparr>]\<rparr>
          | cs \<Rightarrow> \<lparr>vr_relevant = True, vr_marker = None,
                   vr_events = map (\<lambda>c. \<lparr>ve_operation = OpExited,
                     ve_validityClass = TERMINAL_NONCANONICAL, ve_reason = 32,
                     ve_objectKey = Some (ce_objectKey c)\<rparr>) cs\<rparr>)"

definition demo_lib :: tandem_lib where
  "demo_lib =
     \<lparr>lib_inspectMarkerScript = (\<lambda>s. (True, drop 2 s)), lib_parseMarkerScript = (\<lambda>_ _. None),
      lib_validate = demo_validate, lib_objectKeyFromWire = (\<lambda>_ w. Inr w),
      lib_eventRoot = (\<lambda>_ _. Inr [1]), lib_objectStateRoot = (\<lambda>_ _. Inr [2]),
      lib_chainedBlockRoot = (\<lambda>_. Inr [3])\<rparr>"

lemma demo_lib_contract: "validator_contract demo_lib" "object_keys_distinct demo_lib"
proof -
  have "validation_ok ev ctx r" if r: "demo_validate ev ctx = Inr r" for ev ctx r
  proof (cases "te_txidWire ev = vc_initTxidWire ctx")
    case True
    with r show ?thesis by (auto simp: demo_validate_def validation_ok_def Let_def)
  next
    case False
    consider "vc_activeCarriers ctx = []" | c where "vc_activeCarriers ctx = [c]"
      | c d cs where "vc_activeCarriers ctx = c # d # cs"
      by (cases "vc_activeCarriers ctx" rule: remdups_adj.cases) auto
    then show ?thesis
    proof cases
      case 3
      with r False have "r = \<lparr>vr_relevant = True, vr_marker = None,
          vr_events = map (\<lambda>c. \<lparr>ve_operation = OpExited, ve_validityClass = TERMINAL_NONCANONICAL,
            ve_reason = 32, ve_objectKey = Some (ce_objectKey c)\<rparr>) (vc_activeCarriers ctx)\<rparr>"
        by (simp add: demo_validate_def)
      then show ?thesis
        using 3 by (auto simp: validation_ok_def Let_def comp_def
            intro!: exI [of _ "map ce_objectKey (vc_activeCarriers ctx)"])
    qed (use r False in \<open>auto simp: demo_validate_def validation_ok_def valid_event_ok_def Let_def\<close>)
  qed
  then show "validator_contract demo_lib" by (simp add: validator_contract_def demo_lib_def)
  show "object_keys_distinct demo_lib" by (simp add: object_keys_distinct_def demo_lib_def)
qed

definition demo_txid :: "byte \<Rightarrow> string" where
  "demo_txid b = to_hex (replicate 32 b)"

definition demo_binding :: binding_record where
  "demo_binding = \<lparr>bd_networkCode = 3, bd_initTxid = demo_txid 1, bd_specHash = demo_txid 2,
     bd_namespace = demo_txid 3\<rparr>"

definition demo_activation :: init_activation where
  "demo_activation = \<lparr>ia_txid = demo_txid 1, ia_height = 100, ia_blockHash = demo_txid 4,
     ia_openHeight = Some 1200, ia_closeHeight = Some 5520, ia_valid = True, ia_reason = 0\<rparr>"

definition demo_spend :: "byte \<Rightarrow> nat \<Rightarrow> string \<Rightarrow> bitcoin_input" where
  "demo_spend b vout key = \<lparr>in_txid = Some (demo_txid b), in_vout = Some vout, in_coinbase = None,
     in_scriptSigHex = [], in_sequence = 0, in_witness = [[], key], in_prevout = None\<rparr>"

definition demo_coinbase :: bitcoin_transaction where
  "demo_coinbase = \<lparr>tx_txid = demo_txid 5, tx_wtxid = demo_txid 5, tx_version = 2, tx_locktime = 0,
     tx_inputs = [\<lparr>in_txid = None, in_vout = None, in_coinbase = Some ''00'', in_scriptSigHex = [],
       in_sequence = 0, in_witness = [], in_prevout = None\<rparr>], tx_outputs = []\<rparr>"

text \<open>The first transaction creates an object, the second spends its carrier and the one of \<open>demo_object\<close>.\<close>

definition demo_create :: bitcoin_transaction where
  "demo_create = \<lparr>tx_txid = demo_txid 6, tx_wtxid = demo_txid 6, tx_version = 2, tx_locktime = 0,
     tx_inputs = [demo_spend 8 0 ''02AA'', demo_spend 8 2 ''03BB''],
     tx_outputs = [\<lparr>out_n = 0, out_valueSats = 0, out_scriptPubKeyHex = ''6a00''\<rparr>]\<rparr>"

definition demo_break :: bitcoin_transaction where
  "demo_break = \<lparr>tx_txid = demo_txid 7, tx_wtxid = demo_txid 7, tx_version = 2, tx_locktime = 0,
     tx_inputs = [demo_spend 6 1 [], demo_spend 9 1 []], tx_outputs = []\<rparr>"

definition demo_block :: bitcoin_block where
  "demo_block = \<lparr>blk_hash = demo_txid 10, blk_previousBlockHash = Some (demo_txid 11),
     blk_height = 1300, blk_time = 0, blk_medianTime = 0,
     blk_transactions = [demo_coinbase, demo_create, demo_break]\<rparr>"

definition demo_object :: object_record where
  "demo_object = \<lparr>or_objectKey = demo_txid 9, or_createTxid = demo_txid 9, or_createHeight = 1250,
     or_founding = True, or_status = Active, or_stateSequence = 0,
     or_currentOutpoint = Some (display_outpoint (demo_txid 9) 1), or_currentHeight = Some 1250,
     or_key0 = ''02'', or_key1 = ''03'', or_terminalTxid = None, or_chapterCount = 0\<rparr>"

definition demo_reduced :: "reduced_block result" where
  "demo_reduced = reduceBlock demo_lib demo_crypto demo_binding (Some demo_activation) []
     [(demo_txid 9, demo_object)] demo_block"

section \<open>The hypotheses hold there\<close>

lemma demo_txid_eq [simp]: "demo_txid a = demo_txid b \<longleftrightarrow> a = b"
  by (simp add: demo_txid_def)

lemma demo_txid_hex: "is_hex_text 64 (demo_txid b)"
  using is_hex_text_to_hex [of "replicate 32 b"] by (simp add: demo_txid_def)

lemma demo_txid_wire:
  "wire32 (demo_txid b) = Inr (replicate 32 b)" "from_hex (demo_txid b) = replicate 32 b"
  "to_hex (replicate 32 b) = demo_txid b"
  by (simp_all add: demo_txid_def wire32_def Let_def)

lemma demo_outpoint_eq:
  "display_outpoint (demo_txid a) m = display_outpoint (demo_txid b) n \<longleftrightarrow> a = b \<and> m = n"
proof -
  have "length (demo_txid a) = length (demo_txid b)" by (simp add: demo_txid_def)
  then show ?thesis by (auto simp: display_outpoint_def append_eq_append_conv)
qed

lemma demo_input_outpoints:
  "input_outpoints demo_coinbase = []"
  "input_outpoints demo_create =
     [display_outpoint (demo_txid 8) 0, display_outpoint (demo_txid 8) 2]"
  "input_outpoints demo_break =
     [display_outpoint (demo_txid 6) 1, display_outpoint (demo_txid 9) 1]"
  by (simp_all add: input_outpoints_def List.map_filter_def inputDisplayOutpoint_def
      demo_coinbase_def demo_create_def demo_break_def demo_spend_def)

lemma demo_tx_fields:
  "tx_txid demo_coinbase = demo_txid 5" "tx_txid demo_create = demo_txid 6"
  "tx_txid demo_break = demo_txid 7"
  by (simp_all add: demo_coinbase_def demo_create_def demo_break_def)

lemma demo_wf: "wf_transaction demo_coinbase" "wf_transaction demo_create" "wf_transaction demo_break"
  by (simp_all add: wf_transaction_def wf_input_def wf_output_def demo_coinbase_def demo_create_def
      demo_break_def demo_spend_def demo_txid_hex hex_val_def is_digit_def char_code_def)

definition demo_objects :: object_map where
  "demo_objects = [(demo_txid 9, demo_object)]"

lemma demo_context:
  "canonical_context demo_lib demo_binding {demo_txid 9} (Some demo_activation) demo_objects demo_block"
proof -
  have "run_ok demo_lib demo_binding"
    using demo_lib_contract by (simp add: run_ok_def demo_binding_def demo_txid_hex)
  moreover have "objects_ok demo_objects"
    by (simp add: objects_ok_def record_ok_def demo_objects_def demo_object_def demo_txid_wire)
  moreover have "outpoints_distinct demo_objects"
    by (auto simp: outpoints_distinct_def demo_objects_def split: if_splits)
  moreover have "objects_from demo_lib (from_hex (bd_namespace demo_binding)) {demo_txid 9} demo_objects"
    by (auto simp: objects_from_def derived_key_def demo_lib_def demo_txid_wire demo_objects_def
        carrier_outpoints_def demo_object_def split: if_splits)
  moreover have "canonical_transactions {demo_txid 9} (blk_transactions demo_block)"
    by (simp add: demo_block_def canonical_transaction_def demo_wf demo_tx_fields demo_input_outpoints
        demo_outpoint_eq)
  ultimately show ?thesis by (simp add: canonical_context_def demo_txid_hex)
qed

section \<open>The run\<close>

lemma demo_classify:
  assumes "wf_transaction t" and "tx_txid t = demo_txid b" and "b \<noteq> 1"
    and "mapE (\<lambda>r. bindE (of_option TypeError r) carrierEvidence) (consumed_records s t) = Inr cs"
    and "remainingCandidates demo_lib t (demo_txid 1) = Inr cands"
  shows "classifyTransaction demo_lib demo_crypto demo_binding (100, 1200, 5520) s t i 1300 =
    (case cs of
       [] \<Rightarrow> classify_events (classify_event demo_lib demo_binding 1200 5520 t 1300 cands (Some CreateMarker))
         (event_base_for t i cands) 0 s [\<lparr>ve_operation = OpCreate, ve_validityClass = VALID_OPERATION,
            ve_reason = 0, ve_objectKey = None\<rparr>]
     | [c] \<Rightarrow> classify_events (classify_event demo_lib demo_binding 1200 5520 t 1300 cands None)
         (event_base_for t i cands) 0 s [\<lparr>ve_operation = OpRefund, ve_validityClass = VALID_OPERATION,
            ve_reason = 0, ve_objectKey = Some (ce_objectKey c)\<rparr>]
     | _ \<Rightarrow> classify_events (classify_event demo_lib demo_binding 1200 5520 t 1300 cands None)
         (event_base_for t i cands) 0 s (map (\<lambda>c. \<lparr>ve_operation = OpExited,
            ve_validityClass = TERMINAL_NONCANONICAL, ve_reason = 32,
            ve_objectKey = Some (ce_objectKey c)\<rparr>) cs))"
proof -
  obtain ev where ev: "buildTransactionEvidence demo_crypto t 1300 = Inr ev"
    "te_txidWire ev = replicate 32 b"
  proof -
    have "\<exists>ev. buildTransactionEvidence demo_crypto t 1300 = Inr ev"
      by (rule buildTransactionEvidence_ex [OF assms(1)])
    moreover have "te_txidWire ev = replicate 32 b"
      if "buildTransactionEvidence demo_crypto t 1300 = Inr ev" for ev
      using that by (auto simp: buildTransactionEvidence_def assms(2) demo_txid_wire)
    ultimately show ?thesis using that by blast
  qed
  have "lib_validate demo_lib = demo_validate" "bd_initTxid demo_binding = demo_txid 1"
    by (simp_all add: demo_lib_def demo_binding_def)
  then show ?thesis
    using ev assms(3-5)
    by (auto simp: classifyTransaction_def Let_def demo_txid_wire demo_validate_def
        validation_context_for_def split: list.splits)
qed

definition created_object :: object_record where
  "created_object = created (demo_txid 6) (demo_txid 6) 1300 True ''02aa'' ''03bb''"

lemma demo_object_fields:
  "or_objectKey demo_object = demo_txid 9" "or_objectKey created_object = demo_txid 6"
  "or_currentOutpoint demo_object = Some (display_outpoint (demo_txid 9) 1)"
  "or_currentOutpoint created_object = Some (display_outpoint (demo_txid 6) 1)"
  "or_stateSequence demo_object = 0" "or_stateSequence created_object = 0"
  by (simp_all add: demo_object_def created_object_def created_def)

definition demo_carrier9 :: carrier_evidence where
  "demo_carrier9 = \<lparr>ce_objectKey = replicate 32 9, ce_outpoint = replicate 32 9 @ le_bytes 4 1,
     ce_stateSequence = 0, ce_key0 = from_hex ''02'', ce_key1 = from_hex ''03'',
     ce_confirmedHeight = 1250\<rparr>"

definition demo_carrier6 :: carrier_evidence where
  "demo_carrier6 = \<lparr>ce_objectKey = replicate 32 6, ce_outpoint = replicate 32 6 @ le_bytes 4 1,
     ce_stateSequence = 0, ce_key0 = from_hex ''02aa'', ce_key1 = from_hex ''03bb'',
     ce_confirmedHeight = 1300\<rparr>"

lemma demo_carriers:
  "carrierEvidence demo_object = Inr demo_carrier9" "carrierEvidence created_object = Inr demo_carrier6"
  "ce_objectKey demo_carrier9 = replicate 32 9" "ce_objectKey demo_carrier6 = replicate 32 6"
  by (simp_all add: carrierEvidence_def demo_object_def created_object_def created_def demo_txid_wire
      outpointWire_display demo_txid_hex demo_carrier9_def demo_carrier6_def del: One_nat_def)

definition demo_s0 :: working_state where
  "demo_s0 = initial_state demo_objects"

definition demo_s1 :: working_state where
  "demo_s1 = create_object demo_s0 (demo_txid 6) (demo_txid 6) 1300 True ''02aa'' ''03bb''"

lemma demo_state0:
  "ws_objects demo_s0 = demo_objects"
  "ws_activeByOutpoint demo_s0 = [(display_outpoint (demo_txid 9) 1, demo_txid 9)]"
  by (simp_all add: demo_s0_def initial_state_def initial_index_def demo_objects_def demo_object_def)

lemma demo_state1:
  "ws_objects demo_s1 = [(demo_txid 9, demo_object), (demo_txid 6, created_object)]"
  "ws_activeByOutpoint demo_s1 =
     [(display_outpoint (demo_txid 9) 1, demo_txid 9), (display_outpoint (demo_txid 6) 1, demo_txid 6)]"
  by (simp_all add: demo_s1_def demo_state0 mutation_index demo_objects_def demo_outpoint_eq
      created_object_def del: One_nat_def)

lemma demo_consumed:
  "consumed_records demo_s0 demo_create = []"
  "consumed_records demo_s1 demo_break = [Some created_object, Some demo_object]"
  using demo_input_outpoints
  by (simp_all add: consumed_records_def input_outpoints_def demo_state0 demo_state1 demo_outpoint_eq
      List.map_filter_def del: One_nat_def)

lemma demo_candidates:
  "remainingCandidates demo_lib demo_create (demo_txid 1) =
     Inr [\<lparr>cd_vout = 0, cd_payload = [], cd_complete = False\<rparr>]"
  "remainingCandidates demo_lib demo_break (demo_txid 1) = Inr []"
  by (simp_all add: remainingCandidates_def demo_create_def demo_break_def starts_with_def demo_lib_def
      hex_val_def is_digit_def char_code_def declaredLength_def byte_at_def Let_def)

lemma demo_lower: "to_lower ''02AA'' = ''02aa''" "to_lower ''03BB'' = ''03bb''"
  by code_simp+

lemma demo_revealed: "revealed demo_create 0 = ''02aa''" "revealed demo_create (Suc 0) = ''03bb''"
  by (simp_all add: revealed_def demo_create_def demo_spend_def demo_lower)

lemma demo_fields:
  "lib_objectKeyFromWire demo_lib ns w = Inr w" "lib_eventRoot demo_lib ns es = Inr [1]"
  "lib_objectStateRoot demo_lib ns os = Inr [2]" "lib_chainedBlockRoot demo_lib i = Inr [3]"
  "bd_namespace demo_binding = demo_txid 3" "bd_initTxid demo_binding = demo_txid 1"
  "ia_valid demo_activation" "ia_openHeight demo_activation = Some 1200"
  "ia_closeHeight demo_activation = Some 5520" "ia_height demo_activation = 100"
  "blk_transactions demo_block = [demo_coinbase, demo_create, demo_break]"
  "blk_height demo_block = 1300" "blk_hash demo_block = demo_txid 10"
  by (simp_all add: demo_lib_def demo_binding_def demo_activation_def demo_block_def)

lemma demo_step1:
  "\<exists>e. classifyTransaction demo_lib demo_crypto demo_binding (100, 1200, 5520) demo_s0 demo_create 1 1300 =
     Inr (demo_s1, [e]) \<and> er_txid e = demo_txid 6 \<and> er_wtxid e = demo_txid 6 \<and>
     er_predecessorOutpoint e = None \<and> er_successorOutpoint e = Some (display_outpoint (demo_txid 6) 1)"
  using demo_classify [OF demo_wf(2) demo_tx_fields(2) _ _ demo_candidates(1), of demo_s0 "[]" 1]
  by (simp add: demo_consumed classify_event_def applyValid_def Let_def demo_tx_fields demo_txid_wire
      demo_revealed demo_s1_def demo_fields event_base_for_def) (simp add: demo_create_def)

definition demo_s2 :: working_state where
  "demo_s2 = terminate (terminate demo_s1 created_object ExitedNoncanonical (demo_txid 7) 0)
     demo_object ExitedNoncanonical (demo_txid 7) 0"

lemma demo_step2:
  "\<exists>e1 e2. classifyTransaction demo_lib demo_crypto demo_binding (100, 1200, 5520) demo_s1 demo_break 2 1300 =
     Inr (demo_s2, [e1, e2]) \<and> (\<forall>e \<in> {e1, e2}. er_txid e = demo_txid 7 \<and> er_wtxid e = demo_txid 7 \<and>
       er_successorOutpoint e = None) \<and>
     er_predecessorOutpoint e1 = Some (display_outpoint (demo_txid 6) 1) \<and>
     er_predecessorOutpoint e2 = Some (display_outpoint (demo_txid 9) 1)"
  using demo_classify [OF demo_wf(3) demo_tx_fields(3) _ _ demo_candidates(2), of demo_s1
      "[demo_carrier6, demo_carrier9]" 2]
  by (simp add: demo_consumed demo_carriers classify_event_def Let_def demo_txid_wire demo_state1
      demo_tx_fields event_base_for_def demo_object_fields demo_s2_def) (simp add: demo_break_def)

lemma demo_relevant:
  "\<not> isRelevant demo_lib demo_coinbase (ws_activeByOutpoint demo_s0) (demo_txid 1)"
  "isRelevant demo_lib demo_create (ws_activeByOutpoint demo_s0) (demo_txid 1)"
  "isRelevant demo_lib demo_break (ws_activeByOutpoint demo_s1) (demo_txid 1)"
  by (simp_all add: isRelevant_def demo_tx_fields demo_state1 demo_outpoint_eq)
    (simp_all add: demo_coinbase_def demo_create_def demo_break_def demo_spend_def demo_lib_def
      inputDisplayOutpoint_def starts_with_def demo_outpoint_eq)

lemma demo_ordered:
  "orderedBlockTransactions demo_block = Inr [(0, demo_coinbase), (Suc 0, demo_create), (2, demo_break)]"
  by (simp add: orderedBlockTransactions_def demo_fields demo_tx_fields has_coinbase_def)
    (simp add: demo_coinbase_def demo_create_def demo_break_def demo_spend_def numeral_2_eq_2)

lemma demo_snapshot:
  "or_currentOutpoint r \<in> {None, Some (display_outpoint (demo_txid b) 1)} \<Longrightarrow>
     or_terminalTxid r \<in> {None, Some (demo_txid c)} \<Longrightarrow> \<exists>x. snapshot r = Inr x"
  by (auto simp: snapshot_def demo_txid_wire outpointWire_display demo_txid_hex)

lemma demo_terminated:
  "or_currentOutpoint (terminated r st txid n) = None"
  "or_terminalTxid (terminated r st txid n) = Some txid"
  by (simp_all add: terminated_def)

lemma demo_canonical:
  assumes "er_txid e = demo_txid a" and "er_wtxid e = demo_txid a"
    and "er_predecessorOutpoint e \<in> {None, Some (display_outpoint (demo_txid b) 1)}"
    and "er_successorOutpoint e \<in> {None, Some (display_outpoint (demo_txid c) 1)}"
  shows "\<exists>x. canonicalEvent e w h = Inr x"
  using assms by (auto simp: canonicalEvent_def demo_txid_wire wire_or_def truthy_part_def
      outpointWire_display demo_txid_hex)

lemma demo_run:
  obtains rb where "reduceBlock demo_lib demo_crypto demo_binding (Some demo_activation) [] demo_objects
    demo_block = Inr rb" "length (rb_events rb) = 3"
proof -
  obtain e1 where e1: "classifyTransaction demo_lib demo_crypto demo_binding (100, 1200, 5520) demo_s0
      demo_create 1 1300 = Inr (demo_s1, [e1])" "\<exists>x. canonicalEvent e1 (replicate 32 10) 1300 = Inr x"
    using demo_step1 demo_canonical [of _ 6 6 6 "replicate 32 10" 1300] by auto
  obtain e2 e3 where e2: "classifyTransaction demo_lib demo_crypto demo_binding (100, 1200, 5520) demo_s1
      demo_break 2 1300 = Inr (demo_s2, [e2, e3])"
    "\<exists>x. canonicalEvent e2 (replicate 32 10) 1300 = Inr x"
    "\<exists>x. canonicalEvent e3 (replicate 32 10) 1300 = Inr x"
  proof -
    obtain e2 e3 where h: "classifyTransaction demo_lib demo_crypto demo_binding (100, 1200, 5520) demo_s1
        demo_break 2 1300 = Inr (demo_s2, [e2, e3])"
      "\<forall>e \<in> {e2, e3}. er_txid e = demo_txid 7 \<and> er_wtxid e = demo_txid 7 \<and> er_successorOutpoint e = None"
      "er_predecessorOutpoint e2 = Some (display_outpoint (demo_txid 6) 1)"
      "er_predecessorOutpoint e3 = Some (display_outpoint (demo_txid 9) 1)"
      using demo_step2 by blast
    have "\<exists>x. canonicalEvent e2 (replicate 32 10) 1300 = Inr x"
      by (rule demo_canonical [of _ 7 6 6]) (use h(2,3) in simp_all)
    moreover have "\<exists>x. canonicalEvent e3 (replicate 32 10) 1300 = Inr x"
      by (rule demo_canonical [of _ 7 9 9]) (use h(2,4) in simp_all)
    ultimately show ?thesis by (rule that [OF h(1)])
  qed
  have run: "reduce_transactions demo_lib demo_crypto demo_binding (100, 1200, 5520) 1300 demo_s0
      [(0, demo_coinbase), (Suc 0, demo_create), (2, demo_break)] = Inr (demo_s2, [e1, e2, e3])"
    using demo_relevant e1(1) e2(1) by (simp add: demo_fields)
  have recs: "js_values (ws_objects demo_s2) =
      [terminated demo_object ExitedNoncanonical (demo_txid 7) 0,
       terminated created_object ExitedNoncanonical (demo_txid 7) 0]"
    by (simp add: demo_s2_def demo_state1 demo_object_fields)
  obtain x9 x6 where snaps: "snapshot (terminated demo_object ExitedNoncanonical (demo_txid 7) 0) = Inr x9"
    "snapshot (terminated created_object ExitedNoncanonical (demo_txid 7) 0) = Inr x6"
    using demo_snapshot [of "terminated demo_object ExitedNoncanonical (demo_txid 7) 0" 0 7]
      demo_snapshot [of "terminated created_object ExitedNoncanonical (demo_txid 7) 0" 0 7]
    by (auto simp: demo_terminated)
  obtain c1 c2 c3 where canon: "canonicalEvent e1 (replicate 32 10) 1300 = Inr c1"
    "canonicalEvent e2 (replicate 32 10) 1300 = Inr c2" "canonicalEvent e3 (replicate 32 10) 1300 = Inr c3"
    using e1(2) e2(2,3) by blast
  have "\<exists>rb. reduceBlock demo_lib demo_crypto demo_binding (Some demo_activation) [] demo_objects
      demo_block = Inr rb \<and> length (rb_events rb) = 3"
    by (simp add: reduceBlock_def demo_ordered activate_def reduce_active_def demo_fields
        demo_s0_def [symmetric] run demo_txid_wire Let_def recs canon snaps
        del: reduce_transactions.simps)
  then show ?thesis using that by blast
qed

section \<open>The properties at the block\<close>

theorem reduceBlock_replays_witness:
  "\<exists>rb :: reduced_block. length (rb_events rb) = 3 \<and>
     foldE applyStateTransition (objects_view demo_objects) (event_transitions (rb_events rb)) =
       Inr (objects_view (rb_objects rb))"
proof -
  obtain rb where rb: "reduceBlock demo_lib demo_crypto demo_binding (Some demo_activation) [] demo_objects
    demo_block = Inr rb" "length (rb_events rb) = 3" by (rule demo_run)
  from reduceBlock_replays [OF demo_context rb(1)] rb(2) show ?thesis by blast
qed

theorem reduceBlock_invariant_witness:
  "\<exists>rb :: reduced_block. length (rb_events rb) = 3 \<and> objects_ok (rb_objects rb) \<and> outpoints_distinct (rb_objects rb)"
proof -
  obtain rb where rb: "reduceBlock demo_lib demo_crypto demo_binding (Some demo_activation) [] demo_objects
    demo_block = Inr rb" "length (rb_events rb) = 3" by (rule demo_run)
  from reduceBlock_invariant [OF demo_context rb(1)] rb(2) show ?thesis by blast
qed

theorem reduceBlock_no_phantom_witness:
  "\<exists>rb :: reduced_block. length (rb_events rb) = 3 \<and>
     \<not> (\<exists>k r. js_get (rb_objects rb) k = Some r \<and> or_status r = Active \<and>
       or_currentOutpoint r = Some (display_outpoint (demo_txid 9) 1))"
proof -
  obtain rb where rb: "reduceBlock demo_lib demo_crypto demo_binding (Some demo_activation) [] demo_objects
    demo_block = Inr rb" "length (rb_events rb) = 3" by (rule demo_run)
  have "ia_valid demo_activation" "ia_openHeight demo_activation = Some 1200"
    "ia_closeHeight demo_activation = Some 5520"
    "bd_initTxid demo_binding \<notin> set (map tx_txid (blk_transactions demo_block))"
    "demo_break \<in> set (blk_transactions demo_block)"
    "display_outpoint (demo_txid 9) 1 \<in> set (input_outpoints demo_break)"
    by (simp_all add: demo_activation_def demo_binding_def demo_block_def demo_tx_fields
        demo_input_outpoints)
  from reduceBlock_no_phantom [OF demo_context this(1-4) rb(1) this(5,6)] rb(2) show ?thesis by blast
qed

definition closed_object :: object_record where
  "closed_object = demo_object\<lparr>or_status := Closed, or_currentOutpoint := None,
     or_currentHeight := None, or_terminalTxid := Some (demo_txid 12)\<rparr>"

definition empty_block :: bitcoin_block where
  "empty_block = demo_block\<lparr>blk_transactions := []\<rparr>"

lemma closed_context:
  "canonical_context demo_lib demo_binding {demo_txid 9} (Some demo_activation)
     [(demo_txid 9, closed_object)] empty_block"
proof -
  have "objects_ok [(demo_txid 9, closed_object)]"
    by (simp add: objects_ok_def record_ok_def closed_object_def demo_object_def demo_txid_wire)
  moreover have "outpoints_distinct [(demo_txid 9, closed_object)]"
    by (simp add: outpoints_distinct_def closed_object_def)
  moreover have "objects_from demo_lib (from_hex (bd_namespace demo_binding)) {demo_txid 9}
      [(demo_txid 9, closed_object)]"
    by (simp add: objects_from_def derived_key_def demo_fields demo_txid_wire closed_object_def demo_object_def)
  moreover have "run_ok demo_lib demo_binding"
    using demo_context by (simp add: canonical_context_def)
  ultimately show ?thesis
    by (simp add: canonical_context_def demo_txid_hex empty_block_def)
qed

theorem reduceBlock_terminal_final_witness:
  "\<exists>rb :: reduced_block. map_option record_view (js_get (rb_objects rb) (demo_txid 9)) = Some (record_view closed_object)"
proof -
  have "\<exists>rb :: reduced_block. reduceBlock demo_lib demo_crypto demo_binding (Some demo_activation) []
      [(demo_txid 9, closed_object)] empty_block = Inr rb"
    by (simp add: reduceBlock_def orderedBlockTransactions_def empty_block_def demo_block_def
        activate_def reduce_active_def demo_activation_def initial_state_def closed_object_def
        demo_object_def snapshot_def demo_txid_wire demo_lib_def Let_def)
  then obtain rb where rb: "reduceBlock demo_lib demo_crypto demo_binding (Some demo_activation) []
      [(demo_txid 9, closed_object)] empty_block = Inr rb" by blast
  from reduceBlock_terminal_final [OF closed_context rb, of "demo_txid 9" closed_object]
  show ?thesis by (auto simp: closed_object_def)
qed

theorem reduceBlock_outpoints_balance_witness:
  "\<exists>rb :: reduced_block. length (rb_events rb) = 3 \<and> active_outpoints (rb_objects rb) =
    (active_outpoints demo_objects \<union> set (map sr_outpoint (rb_newStates rb)))
      - set (map fst (rb_spentOutpoints rb))"
proof -
  obtain rb where rb: "reduceBlock demo_lib demo_crypto demo_binding (Some demo_activation) [] demo_objects
    demo_block = Inr rb" "length (rb_events rb) = 3" by (rule demo_run)
  from reduceBlock_outpoints_balance [OF demo_context rb(1)] rb(2) show ?thesis by blast
qed

theorem reduceBlock_undo_restores_witness:
  "\<exists>rb :: reduced_block. length (rb_events rb) = 3 \<and>
     (\<forall>k. js_get (restore_objects (rb_undo rb) (rb_objects rb)) k = js_get demo_objects k)"
proof -
  obtain rb where rb: "reduceBlock demo_lib demo_crypto demo_binding (Some demo_activation) [] demo_objects
    demo_block = Inr rb" "length (rb_events rb) = 3" by (rule demo_run)
  from reduceBlock_undo_restores [OF rb(1)] rb(2) show ?thesis by blast
qed

theorem reduceBlock_events_strictly_ordered_witness:
  "\<exists>rb :: reduced_block. length (rb_events rb) = 3 \<and> distinct (map event_position (rb_events rb))"
proof -
  obtain rb where rb: "reduceBlock demo_lib demo_crypto demo_binding (Some demo_activation) [] demo_objects
    demo_block = Inr rb" "length (rb_events rb) = 3" by (rule demo_run)
  from reduceBlock_events_strictly_ordered [OF rb(1)] rb(2) show ?thesis by blast
qed

end
