(* ===== verification/Store_Demo.thy ===== *)
theory Store_Demo
  imports Store_Properties Reducer_Demo
begin

text \<open>
  The properties of the store at a concrete database and block: the database holds the one object of
  \<open>Reducer_Demo\<close>, and the block creates a second object and spends the carriers of both.
\<close>

section \<open>A database\<close>

definition demo_row :: "string \<Rightarrow> block_row" where
  "demo_row hash = \<lparr>bk_hash = hash, bk_previousHash = None, bk_time = 0, bk_eventRoot = [],
     bk_objectStateRoot = [], bk_chainedRoot = [], bk_eventCount = 0\<rparr>"

definition demo_db :: database where
  "demo_db = \<lparr>db_blocks = [(100, demo_row (demo_txid 20)), (1250, demo_row (demo_txid 21)),
       (1299, demo_row (demo_txid 11))],
     db_init = Some demo_activation,
     db_transactions = [(demo_txid 9, \<lparr>tw_wtxid = demo_txid 9, tw_blockHeight = 1250, tw_txIndex = 1,
       tw_version = 2, tw_locktime = 0\<rparr>)],
     db_events = [], db_objects = [(demo_txid 9, object_row_of demo_object)],
     db_states = [(display_outpoint (demo_txid 9) 1, \<lparr>sw_objectKey = demo_txid 9, sw_sequence = 0,
       sw_createdHeight = 1250, sw_spentHeight = None, sw_spentTxid = None, sw_key0 = ''02'', sw_key1 = ''03''\<rparr>)],
     db_carriers = [(display_outpoint (demo_txid 9) 1, \<lparr>cw_objectKey = demo_txid 9,
       cw_createdHeight = 1250, cw_spentHeight = None, cw_spentTxid = None, cw_valueSats = 20000\<rparr>)],
     db_chapters = [], db_checkpoints = [], db_object_undo = [], db_reorg_journal = []\<rparr>"

lemma demo_object_row: "object_row_of demo_object =
    \<lparr>ow_createTxid = demo_txid 9, ow_createHeight = 1250, ow_founding = True, ow_status = Active,
     ow_stateSequence = 0, ow_currentOutpoint = Some (display_outpoint (demo_txid 9) 1),
     ow_key0 = ''02'', ow_key1 = ''03'', ow_terminalTxid = None, ow_chapterCount = 0\<rparr>"
  by (simp add: object_row_of_def demo_object_def)

lemma demo_active: "active_outpoints demo_objects = {display_outpoint (demo_txid 9) 1}"
  by (auto simp: active_outpoints_def demo_objects_def demo_object_def)

lemma demo_store_ok: "store_ok demo_db demo_objects"
proof -
  have "db_ok demo_db"
    by (simp add: db_ok_def keys_ok_def block_refs_ok_def object_refs_ok_def state_ok_def carrier_ok_def
        demo_db_def demo_activation_def)
  moreover have "js_get (loadObjects demo_db) k = js_get demo_objects k" for k
    by (simp add: loadObjects_def demo_db_def demo_objects_def joined_height_def objectFromRow_def
        demo_object_row) (simp add: demo_object_def)
  ultimately show ?thesis
    unfolding store_ok_def demo_active by (simp add: demo_db_def)
qed

lemma demo_ready: "ready_for {demo_txid 9} (Some demo_activation) demo_objects demo_db [demo_block]"
  unfolding ready_for_def
proof (intro conjI)
  show "store_fresh {demo_txid 9} demo_db demo_objects"
    by (simp add: store_fresh_def demo_db_def demo_objects_def demo_object_def carrier_outpoints_def)
  show "store_ok demo_db demo_objects" by (rule demo_store_ok)
qed (simp_all add: demo_db_def demo_row_def demo_block_def)

lemma demo_chain:
  "canonical_chain demo_lib demo_binding {demo_txid 9} (Some demo_activation) demo_objects [demo_block]"
  using demo_context by (simp add: canonical_chain_def canonical_context_def)

lemma demo_reduced:
  obtains rb where "reduce_chain demo_lib demo_crypto demo_binding (Some demo_activation) [] demo_objects
    [demo_block] = Inr [rb]" "length (rb_events rb) = 3"
proof -
  obtain rb where "reduceBlock demo_lib demo_crypto demo_binding (Some demo_activation) [] demo_objects
    demo_block = Inr rb" "length (rb_events rb) = 3" by (rule demo_run)
  then show ?thesis by (intro that [of rb]) simp_all
qed

section \<open>The properties there\<close>


lemma demo_written:
  obtains rb db' where "reduce_chain demo_lib demo_crypto demo_binding (Some demo_activation) [] demo_objects
    [demo_block] = Inr [rb]" "length (rb_events rb) = 3" "appendBlocks demo_db [rb] = Inr db'"
proof -
  obtain rb where rb: "reduce_chain demo_lib demo_crypto demo_binding (Some demo_activation) [] demo_objects
    [demo_block] = Inr [rb]" "length (rb_events rb) = 3" by (rule demo_reduced)
  from append_chain [OF demo_chain demo_ready rb(1)] that rb show ?thesis by blast
qed

theorem appendBlocks_reload_witness:
  "\<exists>(rb :: reduced_block) db'. length (rb_events rb) = 3 \<and> appendBlocks demo_db [rb] = Inr db' \<and>
     js_get (loadObjects db') (demo_txid 9) = js_get (rb_objects rb) (demo_txid 9)"
proof -
  obtain rb db' where rb: "reduce_chain demo_lib demo_crypto demo_binding (Some demo_activation) [] demo_objects
    [demo_block] = Inr [rb]" "length (rb_events rb) = 3" "appendBlocks demo_db [rb] = Inr db'"
    by (rule demo_written)
  from appendBlocks_reload [OF demo_chain demo_ready rb(1,3)] rb(2,3) show ?thesis
    by (auto simp: last_objects_def)
qed

definition demo_journal :: reorg_journal where
  "demo_journal = \<lparr>rj_oldTipHash = demo_txid 10, rj_ancestorHash = demo_txid 11, rj_newTipHash = demo_txid 30\<rparr>"

theorem rollback_undoes_append_witness:
  "\<exists>(rb :: reduced_block) db'. length (rb_events rb) = 3 \<and> appendBlocks demo_db [rb] = Inr db' \<and>
     (\<exists>row. service_rollback rollback db' 1300 1299 100 demo_journal =
        Inr (demo_db\<lparr>db_reorg_journal := [row]\<rparr>))"
proof -
  obtain rb db' where rb: "reduce_chain demo_lib demo_crypto demo_binding (Some demo_activation) [] demo_objects
    [demo_block] = Inr [rb]" "length (rb_events rb) = 3" "appendBlocks demo_db [rb] = Inr db'"
    by (rule demo_written)
  have "map blk_height [demo_block] = map (\<lambda>i. 1299 + 1 + int i) [0..<length [demo_block]]"
    "\<forall>h \<in> fst ` set (db_blocks demo_db). h \<le> 1299" "(100::int) - 1 \<le> 1299"
    "is_safe_integer (1299 + int (length [demo_block]))" "is_safe_integer 1299" "is_safe_integer 100"
    "rj_oldTipHash demo_journal = blk_hash (last [demo_block])"
    "\<forall>x. blockHash demo_db 1299 = Some x \<longrightarrow> x = rj_ancestorHash demo_journal"
    by (simp_all add: demo_block_def demo_db_def is_safe_integer_def demo_journal_def blockHash_def demo_row_def)
  from rollback_undoes_append [OF demo_chain demo_ready rb(1,3) this(1) _ this(2-8)] rb(2,3)
  show ?thesis by (auto simp: demo_db_def)
qed

text \<open>A database with two blocks and nothing else, rolled back to the first.\<close>

definition two_blocks :: database where
  "two_blocks = empty_database\<lparr>db_blocks := [(7, demo_row ''aa''), (8, demo_row ''bb'')]\<rparr>"

theorem rollback_exact_blocks_witness:
  "\<exists>db'. service_rollback rollback two_blocks 8 7 7
     \<lparr>rj_oldTipHash = ''bb'', rj_ancestorHash = ''aa'', rj_newTipHash = ''cc''\<rparr> = Inr db' \<and>
     blockHash db' 8 = None \<and> blockHash db' 7 = Some ''aa''"
proof -
  let ?j = "\<lparr>rj_oldTipHash = ''bb'', rj_ancestorHash = ''aa'', rj_newTipHash = ''cc''\<rparr>"
  have highest: "highest (db_blocks two_blocks) = Some (8, demo_row ''bb'')"
    by (rule highestI) (simp_all add: two_blocks_def)
  have "blockHash two_blocks 7 = Some ''aa''" by (simp add: blockHash_def two_blocks_def demo_row_def)
  then have "\<exists>db'. service_rollback rollback two_blocks 8 7 7 ?j = Inr db'"
    using highest
    by (simp add: service_rollback_def planReorgRollback_def is_safe_integer_def rollback_def
        canonicalTip_def demo_row_def Let_def)
  then obtain db' where db': "service_rollback rollback two_blocks 8 7 7 ?j = Inr db'" by blast
  from rollback_exact_blocks [OF db', of 8] rollback_exact_blocks [OF db', of 7]
    \<open>blockHash two_blocks 7 = Some ''aa''\<close> db'
  show ?thesis by auto
qed

end
