(* ===== verification/Sync_Demo.thy ===== *)
theory Sync_Demo
  imports Sync_Progress Store_Demo
begin

text \<open>
  A node with two blocks, the first of which holds the configured \<open>INIT\<close>, and the synchronizer of the
  small environment of \<open>Configuration\<close>: the hypotheses of the synchronizer's properties hold there,
  and the properties are applied to it.
\<close>

section \<open>The configuration\<close>

definition sync_config :: app_configuration where
  "sync_config = (case loadConfiguration demo_constants demo_platform demo_environment of Inr c \<Rightarrow> c)"

lemma sync_config_loaded: "loadConfiguration demo_constants demo_platform demo_environment = Inr sync_config"
  using demo_loads by (auto simp: sync_config_def)

lemma sync_config_deployment:
  "cfg_deployment sync_config = \<lparr>dc_protocolId = Some (''tndm:regtest:'' @ replicate 64 CHR ''7''),
     dc_network = ''regtest'', dc_networkCode = Some 3, dc_initTxid = Some (replicate 64 CHR ''7''),
     dc_initHeight = None, dc_openHeight = Some 2000, dc_closeHeight = Some 6320,
     dc_specHash = replicate 64 CHR ''5'',
     dc_namespace = Some (to_hex (3 # tl (from_hex (replicate 64 CHR ''7''))))\<rparr>"
  "bc_expectedChain (cfg_bitcoin sync_config) = ''regtest''"
  using service_loads [OF _ demo_loads_deployment, of demo_platform] sync_config_loaded
  by (auto simp: same_service_def expectedChain_def)

lemma sync_config_sizes:
  "1 \<le> sc_batchBlocks (cfg_sync sync_config)" "1 \<le> sc_fetchConcurrency (cfg_sync sync_config)"
  using loadConfiguration_sync [OF sync_config_loaded] by simp_all

definition sync_init :: string where
  "sync_init = replicate 64 CHR ''7''"

lemma sync_init_text: "is_hex_text 64 sync_init" "to_lower sync_init = sync_init" "sync_init \<noteq> []"
  by (simp_all add: sync_init_def text_evaluation)

definition sync_binding :: binding_record where
  "sync_binding = the (binding sync_config)"

lemma sync_binding: "binding sync_config = Some sync_binding" "bd_initTxid sync_binding = sync_init"
  by (simp_all add: sync_binding_def binding_def sync_config_deployment Let_def sync_init_def)

lemma sync_run_ok: "run_ok demo_lib sync_binding"
  using demo_lib_contract sync_init_text by (simp add: run_ok_def sync_binding)

section \<open>The blocks\<close>

definition init_tx :: bitcoin_transaction where
  "init_tx = \<lparr>tx_txid = sync_init, tx_wtxid = sync_init, tx_version = 2, tx_locktime = 0,
     tx_inputs = [\<lparr>in_txid = None, in_vout = None, in_coinbase = Some ''00'', in_scriptSigHex = [],
       in_sequence = 0, in_witness = [], in_prevout = None\<rparr>], tx_outputs = []\<rparr>"

definition init_block :: bitcoin_block where
  "init_block = \<lparr>blk_hash = demo_txid 40, blk_previousBlockHash = Some (demo_txid 39),
     blk_height = 100, blk_time = 0, blk_medianTime = 0, blk_transactions = [init_tx]\<rparr>"

definition next_block :: bitcoin_block where
  "next_block = \<lparr>blk_hash = demo_txid 41, blk_previousBlockHash = Some (demo_txid 40),
     blk_height = 101, blk_time = 0, blk_medianTime = 0, blk_transactions = []\<rparr>"

lemma init_tx_facts:
  "wf_transaction init_tx" "input_outpoints init_tx = []" "tx_txid init_tx = sync_init" "tx_outputs init_tx = []"
  using sync_init_text
  by (simp_all add: init_tx_def wf_transaction_def wf_input_def input_outpoints_def List.map_filter_def
      inputDisplayOutpoint_def text_evaluation)

lemma sync_block_fields:
  "blk_hash init_block = demo_txid 40" "blk_height init_block = 100"
  "blk_transactions init_block = [init_tx]" "blk_hash next_block = demo_txid 41"
  "blk_previousBlockHash next_block = Some (demo_txid 40)" "blk_height next_block = 101"
  by (simp_all add: init_block_def next_block_def)

lemma sync_chains:
  "set bs \<subseteq> {init_block, next_block} \<Longrightarrow> linked bs \<Longrightarrow>
     bs \<in> {[], [init_block], [next_block], [init_block, next_block]}"
proof (induction bs rule: linked.induct)
  case (3 a b bs)
  then have "blk_previousBlockHash b = Some (blk_hash a)" "b # bs \<in> {[init_block], [next_block], [init_block, next_block]}"
    by auto
  then show ?case using 3(2) by (auto simp: init_block_def next_block_def)
qed auto

lemma sync_consensus: "consensus {init_block, next_block}"
  unfolding consensus_def
proof (intro allI impI)
  fix bs assume "set bs \<subseteq> {init_block, next_block}" "linked bs"
  then have "bs \<in> {[], [init_block], [next_block], [init_block, next_block]}" by (rule sync_chains)
  then show "canonical_blocks {} bs \<and> ascending (map blk_height bs) \<and> distinct (map blk_hash bs)"
    by (auto simp: init_block_def next_block_def canonical_transaction_def init_tx_facts)
qed

section \<open>Reducing them\<close>

lemma init_classified:
  "\<exists>e. classifyTransaction demo_lib demo_crypto sync_binding (100, 0, 0) (initial_state []) init_tx 0 100 =
     Inr (initial_state [], [e]) \<and> er_validityClass e = INVALID_NO_STATE \<and> er_txid e = sync_init \<and>
     er_wtxid e = sync_init \<and> er_predecessorOutpoint e = None \<and> er_successorOutpoint e = None"
proof -
  obtain ev where ev: "buildTransactionEvidence demo_crypto init_tx 100 = Inr ev"
    using buildTransactionEvidence_ex [OF init_tx_facts(1)] by blast
  have wire: "wire32 sync_init = Inr (rev (from_hex sync_init))"
    using sync_init_text(1) by (rule wire32_hex_text)
  have "te_txidWire ev = rev (from_hex sync_init)"
    using ev wire by (auto simp: buildTransactionEvidence_def init_tx_facts)
  moreover have "consumed_records (initial_state []) init_tx = []"
    using init_tx_facts(2) by (simp add: consumed_records_def input_outpoints_def List.map_filter_def)
  moreover have "lib_validate demo_lib = demo_validate" by (simp add: demo_lib_def)
  moreover have "remainingCandidates demo_lib init_tx txid = Inr []" for txid
    by (simp add: remainingCandidates_def init_tx_facts)
  moreover have "tx_wtxid init_tx = sync_init" by (simp add: init_tx_def)
  ultimately show ?thesis
    using ev wire
    by (simp add: classifyTransaction_def Let_def sync_binding init_tx_facts demo_validate_def
        validation_context_for_def classify_event_def event_base_for_def make_event_def)
qed


lemma init_reduced:
  "\<exists>rb. reduceBlock demo_lib demo_crypto sync_binding None root0 [] init_block = Inr rb \<and>
     \<not> ia_valid (rb_activation rb) \<and> ia_height (rb_activation rb) = 100 \<and> rb_objects rb = [] \<and>
     rb_height rb = 100 \<and> rb_hash rb = demo_txid 40"
proof -
  obtain e where e: "classifyTransaction demo_lib demo_crypto sync_binding (100, 0, 0) (initial_state []) init_tx 0 100 =
     Inr (initial_state [], [e])" "er_validityClass e = INVALID_NO_STATE" "er_txid e = sync_init"
     "er_wtxid e = sync_init" "er_predecessorOutpoint e = None" "er_successorOutpoint e = None"
    using init_classified by blast
  have init: "initHeights demo_lib init_tx code = Inr None" for code
    by (simp add: initHeights_def remainingCandidates_def init_tx_facts)
  have block: "orderedBlockTransactions init_block = Inr [(0, init_tx)]"
    by (simp add: orderedBlockTransactions_def init_block_def has_coinbase_def init_tx_def)
  have "\<exists>c. canonicalEvent e w 100 = Inr c" for w
    using e wire32_hex_text [OF sync_init_text(1)] by (simp add: canonicalEvent_def wire_or_def truthy_part_def)
  then obtain c where c: "canonicalEvent e (replicate 32 40) 100 = Inr c" by blast
  show ?thesis
    by (simp add: reduceBlock_def block activate_def init sync_binding init_tx_facts e(1) e(2)
        reduce_active_def sync_block_fields demo_txid_wire c demo_fields Let_def)
      (simp add: initial_state_def)
qed

lemma next_reduced:
  assumes "\<not> ia_valid a"
  shows "\<exists>rb. reduceBlock demo_lib demo_crypto sync_binding (Some a) previous [] next_block = Inr rb \<and>
    rb_activation rb = a \<and> rb_objects rb = [] \<and> rb_height rb = 101 \<and> rb_hash rb = demo_txid 41"
  using assms
  by (simp add: reduceBlock_def orderedBlockTransactions_def activate_def reduce_active_def next_block_def
      demo_txid_wire demo_fields Let_def)
    (simp add: initial_state_def)

section \<open>The node\<close>

definition init_rpc_block :: rpc_block where
  "init_rpc_block = \<lparr>rbk_hash = demo_txid 40, rbk_height = 100, rbk_previousblockhash = Some (demo_txid 39),
     rbk_time = 0, rbk_mediantime = 0,
     rbk_tx = [\<lparr>rtx_txid = sync_init, rtx_hash = None, rtx_version = 2, rtx_locktime = 0,
       rtx_vin = [\<lparr>rpi_txid = None, rpi_vout = None, rpi_coinbase = Some ''00'', rpi_scriptSigHex = None,
         rpi_sequence = 0, rpi_txinwitness = None, rpi_prevout = None\<rparr>], rtx_vout = []\<rparr>]\<rparr>"

definition next_rpc_block :: rpc_block where
  "next_rpc_block = \<lparr>rbk_hash = demo_txid 41, rbk_height = 101, rbk_previousblockhash = Some (demo_txid 40),
     rbk_time = 0, rbk_mediantime = 0, rbk_tx = []\<rparr>"

text \<open>A node that answers requests for the blocks, and one that has neither of them.\<close>

definition sync_node :: bitcoin_node where
  "sync_node = \<lparr>bn_getblockchaininfo = RpcBody \<lparr>bci_chain = ''regtest'', bci_blocks = 101, bci_headers = 101,
       bci_bestblockhash = demo_txid 41, bci_initialblockdownload = False, bci_pruned = False\<rparr> None,
     bn_getblockhash = (\<lambda>h. RpcBody (if h = 100 then demo_txid 40 else demo_txid 41) None),
     bn_getblock_verbose = (\<lambda>x. RpcBody (if x = demo_txid 40 then init_rpc_block else next_rpc_block) None),
     bn_getblock_txids = (\<lambda>_. HttpStatus 503), bn_getrawtransaction = (\<lambda>_. HttpStatus 503),
     bn_transaction_location = (\<lambda>_. HttpStatus 503), bn_getblockheader = (\<lambda>_. HttpStatus 503)\<rparr>"

definition other_node :: bitcoin_node where
  "other_node = sync_node\<lparr>bn_getblockhash := \<lambda>h. RpcBody (demo_txid 50) None\<rparr>"

definition sync_demo :: "bitcoin_node \<Rightarrow> sync_env" where
  "sync_demo node = \<lparr>se_lib = demo_lib, se_crypto = demo_crypto, se_initialStateRoot = (\<lambda>ns. ns),
     se_config = sync_config, se_node = (\<lambda>_. node), se_stopping = (\<lambda>_. False), se_now = (\<lambda>_. []),
     se_message = (\<lambda>_. [])\<rparr>"

lemma sync_demo_simps [simp]:
  "se_lib (sync_demo node) = demo_lib" "se_crypto (sync_demo node) = demo_crypto"
  "se_config (sync_demo node) = sync_config" "se_node (sync_demo node) t = node"
  "\<not> se_stopping (sync_demo node) t" "node_still (sync_demo node) node"
  by (simp_all add: sync_demo_def node_still_def)

lemma demo_txid_lower: "to_lower (demo_txid b) = demo_txid b"
  using demo_txid_hex [of b] by (rule is_hex_text_lower)

lemma demo_zeros: "to_lower ''00'' = ''00''" "to_lower [] = []"
  by (simp_all add: text_evaluation)

lemma sync_node_blocks:
  "getBlock sync_node (demo_txid 40) = Inr init_block" "getBlock sync_node (demo_txid 41) = Inr next_block"
  "getBlockHash sync_node 100 = Inr (demo_txid 40)" "getBlockHash sync_node 101 = Inr (demo_txid 41)"
  "getBlockHash other_node h = Inr (demo_txid 50)"
  by (simp_all add: getBlock_def getBlockHash_def rpc_call_def sync_node_def other_node_def init_rpc_block_def
      next_rpc_block_def normalizeBlock_def normalizeTransaction_def normalize_input_def lower_if_truthy_def
      demo_txid_lower sync_init_text(2) init_block_def next_block_def init_tx_def demo_zeros)

lemma sync_nodes_ok: "node_ok (sync_demo sync_node) {init_block, next_block}"
  using sync_node_blocks(1,2)
  by (auto simp: node_ok_def getBlock_def sync_node_def rpc_call_def split: if_splits)

section \<open>Indexed databases\<close>

abbreviation demo_blocks :: "bitcoin_block set" where
  "demo_blocks \<equiv> {init_block, next_block}"

lemma init_indexed:
  obtains rb db where "indexed (sync_demo node) sync_binding [(init_block, rb)] db"
    "loadObjects db = []" "\<not> ia_valid (rb_activation rb)" "ia_height (rb_activation rb) = 100"
    "rb_height rb = 100" "rb_hash rb = demo_txid 40"
proof -
  let ?E = "sync_demo node"
  have start: "indexed ?E sync_binding [] empty_database" by (rule indexed_start)
  have run_ok: "run_ok (se_lib ?E) sync_binding" using sync_run_ok by simp
  have none: "loadObjects empty_database = []" by (simp add: loadObjects_def empty_database_def)
  note held = indexed_holds [OF start run_ok sync_consensus]
  obtain rb where rb: "reduceBlock demo_lib demo_crypto sync_binding None (trace_root ?E sync_binding []) []
      init_block = Inr rb" "\<not> ia_valid (rb_activation rb)" "ia_height (rb_activation rb) = 100"
      "rb_objects rb = []" "rb_height rb = 100" "rb_hash rb = demo_txid 40"
    using init_reduced by blast
  obtain db where db: "writeBlock empty_database rb = Inr db" "holds ?E sync_binding [(init_block, rb)] db []"
    using connect_block [OF run_ok sync_consensus _ _ held, of init_block "trace_root ?E sync_binding []" rb] rb none
    by auto
  have "indexed ?E sync_binding [(init_block, rb)] db"
    using indexed_block [OF start, of "[]" init_block rb db] rb(1) db(1) none
    by (simp add: same_objects_def)
  moreover have "loadObjects db = []"
  proof -
    have "store_ok db []" using db(2) by (simp add: holds_def)
    then have "same_objects (loadObjects db) []" using loadObjects_wf store_okD(1,2) by (auto simp: same_objects_def)
    then show ?thesis using same_objects_transfer(6) by blast
  qed
  ultimately show ?thesis using that rb by blast
qed

definition sync_start :: "database \<Rightarrow> sync_state" where
  "sync_start db = \<lparr>ss_db = db, ss_objects = None, ss_scanCursor = Some 90, ss_running = False,
     ss_timer = Some 0, ss_deployment = initial_deployment_state, ss_calls = 0\<rparr>"

lemma sync_start_db [simp]: "ss_db (sync_start db) = db" "ss_objects (sync_start db) = None"
  by (simp_all add: sync_start_def)

lemma sync_start_inv:
  "indexed E bd hs db \<Longrightarrow> set (trace_blocks hs) \<subseteq> V \<Longrightarrow> sync_inv E bd V hs (sync_start db)"
  by (simp add: sync_inv_def)

lemma syncOnce_demo_returns: "\<exists>r s'. syncOnce (sync_demo node) s = Some (r, s')"
  using returns_syncOnce [of "sync_demo node"] sync_config_sizes(2) by (auto simp: returns_def)

section \<open>The properties there\<close>

theorem syncOnce_returns_witness:
  "\<exists>r s'. syncOnce (sync_demo other_node) (sync_start empty_database) = Some (r, s')"
  using syncOnce_returns [of demo_constants demo_platform demo_environment "sync_demo other_node"]
    sync_config_loaded by simp

theorem syncOnce_refines_witness:
  "\<exists>(rb :: reduced_block) db r s' hs'. syncOnce (sync_demo sync_node) (sync_start db) = Some (r, s') \<and>
     indexed (sync_demo sync_node) sync_binding [(init_block, rb)] db \<and>
     sync_inv (sync_demo sync_node) sync_binding demo_blocks hs' s' \<and>
     ((\<exists>fresh. hs' = fresh @ [(init_block, rb)]) \<or> (\<exists>k. hs' = drop k [(init_block, rb)]))"
proof -
  let ?E = "sync_demo sync_node"
  obtain rb db where idx: "indexed ?E sync_binding [(init_block, rb)] db" by (rule init_indexed)
  obtain r s' where run: "syncOnce ?E (sync_start db) = Some (r, s')" using syncOnce_demo_returns by blast
  have "run_ok (se_lib ?E) sync_binding" "binding (se_config ?E) = Some sync_binding"
    "sync_inv ?E sync_binding demo_blocks [(init_block, rb)] (sync_start db)"
    using sync_run_ok sync_binding sync_start_inv [OF idx] by simp_all
  from syncOnce_refines [OF this(1) sync_consensus sync_nodes_ok this(2,3) run] idx run show ?thesis by blast
qed

theorem sync_reachable_indexed_witness:
  "sync_reachable (sync_demo sync_node) (wake (sync_demo sync_node) (sync_start empty_database)) \<and>
   (\<exists>hs. indexed (sync_demo sync_node) sync_binding hs empty_database)"
proof -
  let ?E = "sync_demo sync_node"
  have "sync_reachable ?E (sync_start empty_database)" by (rule sync_boot) simp_all
  then have reach: "sync_reachable ?E (wake ?E (sync_start empty_database))" by (rule sync_wake)
  have "run_ok (se_lib ?E) sync_binding" "binding (se_config ?E) = Some sync_binding"
    using sync_run_ok sync_binding by simp_all
  from sync_reachable_indexed [OF this(1) sync_consensus sync_nodes_ok this(2) reach] reach
  show ?thesis by (auto simp: wake_def schedule_def sync_start_def)
qed

text \<open>The node rejects every request of the search; the scan cursor stays where it is.\<close>

theorem locateInit_bounded_witness:
  "\<exists>r s'. locateInit (sync_demo other_node) sync_init 101 (sync_start empty_database) = Some (r, s') \<and>
     ss_calls s' \<le> 104 \<and> (\<exists>c'. ss_scanCursor s' = Some c' \<and> 90 \<le> c')"
proof -
  obtain r s' where run: "locateInit (sync_demo other_node) sync_init 101 (sync_start empty_database) = Some (r, s')"
    using returns_locateInit [of "sync_demo other_node" sync_init 101] by (fastforce simp: returns_def)
  from locateInit_bounded [OF run] run show ?thesis by (auto simp: sync_start_def)
qed

section \<open>A rollback and a batch\<close>

lemma demo_info:
  "getBlockchainInfo other_node = Inr \<lparr>bci_chain = ''regtest'', bci_blocks = 101, bci_headers = 101,
     bci_bestblockhash = demo_txid 41, bci_initialblockdownload = False, bci_pruned = False\<rparr>"
  "getBlockchainInfo sync_node = getBlockchainInfo other_node"
  by (simp_all add: getBlockchainInfo_def rpc_call_def other_node_def sync_node_def)

lemma demo_stored:
  assumes idx: "indexed (sync_demo node) sync_binding [(init_block, rb)] db"
    and rb: "rb_height rb = 100" "rb_hash rb = demo_txid 40"
  shows "canonicalTip db = Some \<lparr>ct_height = 100, ct_hash = demo_txid 40, ct_chainedRoot = rb_chainedRoot rb\<rparr>"
    "db_init db = Some (rb_activation rb)" "blockHash db 99 = None"
proof -
  have run_ok: "run_ok (se_lib (sync_demo node)) sync_binding" using sync_run_ok by simp
  have inv: "sync_inv (sync_demo node) sync_binding demo_blocks [(init_block, rb)] (sync_start db)"
    using sync_start_inv [OF idx] by simp
  show "canonicalTip db = Some \<lparr>ct_height = 100, ct_hash = demo_txid 40, ct_chainedRoot = rb_chainedRoot rb\<rparr>"
    "db_init db = Some (rb_activation rb)"
    using sync_inv_tip [OF run_ok sync_consensus inv] rb by simp_all
  show "blockHash db 99 = None"
    using indexed_holds [OF idx run_ok sync_consensus] rb by (simp add: holds_def blockHash_def)
qed

lemmas demo_steps =
  syncOnce_def bindS_def callS_def modifyS_def liftS_def getsS_def returnS_def demo_info
  sync_config_deployment sync_binding loadActivation_def sync_start_def sync_node_blocks

lemma rollback_demo_run:
  assumes idx: "indexed (sync_demo other_node) sync_binding [(init_block, rb)] db"
    and rb: "ia_height (rb_activation rb) = 100" "rb_height rb = 100" "rb_hash rb = demo_txid 40"
  shows "\<exists>s'. syncOnce (sync_demo other_node) (sync_start db) = Some (Inr True, s')"
  using demo_stored [OF idx rb(2,3)] rb
  by (simp add: demo_steps rollbackToCommonAncestor_def heights_down.simps service_rollback_def
      planReorgRollback_def rollback_def is_safe_integer_def Let_def)

theorem syncOnce_rolls_back_to_fork_witness:
  "\<exists>(rb :: reduced_block) db s'. indexed (sync_demo other_node) sync_binding [(init_block, rb)] db \<and>
     syncOnce (sync_demo other_node) (sync_start db) = Some (Inr True, s') \<and>
     sync_inv (sync_demo other_node) sync_binding demo_blocks [] s'"
proof -
  let ?E = "sync_demo other_node"
  obtain rb db where idx: "indexed ?E sync_binding [(init_block, rb)] db" and
    rb: "ia_height (rb_activation rb) = 100" "rb_height rb = 100" "rb_hash rb = demo_txid 40"
    by (rule init_indexed)
  obtain s' where run: "syncOnce ?E (sync_start db) = Some (Inr True, s')" using rollback_demo_run [OF idx rb] by blast
  have "run_ok (se_lib ?E) sync_binding" "binding (se_config ?E) = Some sync_binding" "node_still ?E other_node"
    "sync_inv ?E sync_binding demo_blocks [(init_block, rb)] (sync_start db)" "[(init_block, rb)] \<noteq> []"
    and off: "\<not> on_chain other_node (hd [(init_block, rb)])"
    using sync_run_ok sync_binding sync_start_inv [OF idx] rb by (simp_all add: on_chain_def sync_node_blocks)
  from syncOnce_rolls_back_to_fork [OF this(1) sync_consensus this(2,3) demo_info(1) this(4-5) off run] off idx run
  show ?thesis by auto
qed

lemma catch_up_demo_run:
  assumes idx: "indexed (sync_demo sync_node) sync_binding [(init_block, rb)] db"
    and load: "loadObjects db = []" and rb: "\<not> ia_valid (rb_activation rb)" "rb_height rb = 100" "rb_hash rb = demo_txid 40"
  shows "\<exists>s'. syncOnce (sync_demo sync_node) (sync_start db) = Some (Inr False, s')"
proof -
  let ?E = "sync_demo sync_node" and ?root = "from_hex (rb_chainedRoot rb)"
  have run_ok: "run_ok (se_lib ?E) sync_binding" using sync_run_ok by simp
  obtain rb2 where rb2: "reduceBlock demo_lib demo_crypto sync_binding (Some (rb_activation rb)) ?root [] next_block = Inr rb2"
    "rb_activation rb2 = rb_activation rb" "rb_hash rb2 = demo_txid 41"
    using next_reduced [OF rb(1)] by blast
  have held: "holds ?E sync_binding [(init_block, rb)] db []"
    using indexed_holds [OF idx run_ok sync_consensus] load by simp
  obtain db2 where db2: "writeBlock db rb2 = Inr db2"
    using connect_block [OF run_ok sync_consensus _ _ held, of next_block ?root rb2] rb2(1) rb(3)
    by (auto simp: sync_block_fields)
  define k m where "k = int (sc_fetchConcurrency (cfg_sync sync_config))" and "m = int (sc_batchBlocks (cfg_sync sync_config))"
  have sizes: "min 101 (101 + m - 1) = 101" "min 101 (101 + k - 1) = 101"
    using sync_config_sizes by (simp_all add: k_def m_def)
  show ?thesis
    using demo_stored [OF idx rb(2,3)] rb sizes load
    by (simp add: demo_steps connectBatch_def cachedObjects_def connect_chunks.simps
        append_batch_def appendBlocks_def rb2 db2 k_def [symmetric] m_def [symmetric] sync_block_fields Let_def)
qed

definition served :: "int \<Rightarrow> bitcoin_block" where
  "served h = (if h = 100 then init_block else next_block)"

lemma demo_served: "node_serves sync_node 100 101 served"
proof -
  have "h = 100 \<or> h = 101" if "100 \<le> h" "h \<le> 101" for h :: int using that by linarith
  then show ?thesis
    using sync_node_blocks(1-4)
    by (fastforce simp: node_serves_def demo_info served_def sync_block_fields)
qed

theorem syncOnce_catches_up_witness:
  "\<exists>(rb :: reduced_block) db s' (fresh :: trace).
     indexed (sync_demo sync_node) sync_binding [(init_block, rb)] db \<and>
     syncOnce (sync_demo sync_node) (sync_start db) = Some (Inr False, s') \<and>
     sync_inv (sync_demo sync_node) sync_binding demo_blocks (fresh @ [(init_block, rb)]) s' \<and>
     map (rb_hash \<circ> snd) fresh = [demo_txid 41]"
proof -
  let ?E = "sync_demo sync_node"
  obtain rb db where idx: "indexed ?E sync_binding [(init_block, rb)] db" "loadObjects db = []" and
    rb: "\<not> ia_valid (rb_activation rb)" "rb_height rb = 100" "rb_hash rb = demo_txid 40"
    by (rule init_indexed)
  obtain s' where run: "syncOnce ?E (sync_start db) = Some (Inr False, s')"
    using catch_up_demo_run [OF idx rb] by blast
  have m: "min 101 (100 + int (sc_batchBlocks (cfg_sync sync_config))) = 101"
    using sync_config_sizes by simp
  have "run_ok (se_lib ?E) sync_binding" "binding (se_config ?E) = Some sync_binding" "node_still ?E sync_node"
    "\<forall>t. \<not> se_stopping ?E t" "1 \<le> sc_fetchConcurrency (cfg_sync (se_config ?E))"
    "1 \<le> sc_batchBlocks (cfg_sync (se_config ?E))"
    "sync_inv ?E sync_binding demo_blocks [(init_block, rb)] (sync_start db)" "[(init_block, rb)] \<noteq> []"
    "rb_height (snd (hd [(init_block, rb)])) = 100"
    "rb_hash (snd (hd [(init_block, rb)])) = blk_hash (served 100)" "(100 :: int) \<le> 101"
    using sync_run_ok sync_binding sync_config_sizes sync_start_inv [OF idx(1)] rb
    by (simp_all add: served_def sync_block_fields)
  from syncOnce_catches_up [OF this(1) sync_consensus sync_nodes_ok this(2,3) demo_served this(4-11) run]
  obtain fresh where fresh: "sync_inv ?E sync_binding demo_blocks (fresh @ [(init_block, rb)]) s'"
    "map (rb_hash \<circ> snd) (rev fresh) = map (blk_hash \<circ> served)
      [100 + 1..min 101 (100 + int (sc_batchBlocks (cfg_sync (se_config ?E))))]" by blast
  then have "map (rb_hash \<circ> snd) (rev fresh) = [demo_txid 41]" by (simp add: m served_def sync_block_fields)
  then have "map (rb_hash \<circ> snd) fresh = [demo_txid 41]" by (cases fresh rule: rev_cases) (auto simp: rev_map)
  with idx(1) run fresh(1) show ?thesis by (intro exI conjI)
qed

end
