(* ===== verification/Gateway_Demo.thy ===== *)
theory Gateway_Demo
  imports Site_Agreement Sync_Demo
begin

text \<open>
  A concrete signature scheme, two pipelines that sign the same checkpoint, and the gateway between
  them: the hypotheses of the gateway's properties hold there, and an answer does leave it.
\<close>

section \<open>The scheme and the configuration\<close>

definition demo_agreement :: agreement_lib where
  "demo_agreement =
     \<lparr>al_sign = (\<lambda>m key. Inr (key @ key)), al_verify = (\<lambda>s m p. Inr (s = p @ p)),
      al_getPublicKey = (\<lambda>key. Inr key), al_canonicalize = (\<lambda>_. Some ''{}'')\<rparr>"

lemma demo_agreement_contract: "ed25519_contract demo_agreement"
  by (simp add: ed25519_contract_def demo_agreement_def)

definition demo_release :: "byte \<Rightarrow> release_identity" where
  "demo_release b = \<lparr>ri_parserCommit = to_hex (replicate 20 b), ri_indexerCommit = to_hex (replicate 20 b),
     ri_parserBinarySha256 = demo_txid b, ri_indexerBinarySha256 = demo_txid b\<rparr>"

lemma to_hex_Nil: "to_hex bs = [] \<longleftrightarrow> bs = []"
  by (cases bs) simp_all

definition gateway_config :: app_configuration where
  "gateway_config = sync_config
     \<lparr>cfg_maxBlockLag := 2, cfg_agreement := \<lparr>ac_keyId = Some ''a1'', ac_privateKeyHex = Some (demo_txid 17), ac_publicKeyHex = None,
        ac_parserCommit = Some (to_hex (replicate 20 5)), ac_indexerCommit = Some (to_hex (replicate 20 5)),
        ac_parserBinarySha256 = Some (demo_txid 5), ac_indexerBinarySha256 = Some (demo_txid 5)\<rparr>,
      cfg_verification := \<lparr>vf_pipelineBBaseUrl = Some ''http://b'', vf_requestTimeoutMs = 5000,
        vf_mainnetEnabled = False, vf_pipelineATrustedKeys = [(''a1'', demo_txid 17)],
        vf_pipelineBTrustedKeys = [(''b1'', demo_txid 18)]\<rparr>,
      cfg_catalog := Some \<lparr>cc_token = ''t'', cc_cursorSecret = ''s''\<rparr>\<rparr>"

definition demo_protocol_id :: string where
  "demo_protocol_id = ''tndm:regtest:'' @ replicate 64 CHR ''7''"

definition demo_checkpoint :: checkpoint_row where
  "demo_checkpoint = \<lparr>kw_blockHash = demo_txid 40, kw_eventRoot = demo_txid 1, kw_objectStateRoot = demo_txid 2,
     kw_chainedRoot = demo_txid 3, kw_foundingCreated = 1, kw_allObjects = 2, kw_activeObjects = 0\<rparr>"

definition gateway_db :: database where
  "gateway_db = empty_database\<lparr>db_blocks := [(100, demo_row (demo_txid 40))],
     db_checkpoints := [(100, demo_checkpoint)]\<rparr>"

definition demo_tuple :: "byte \<Rightarrow> agreement_tuple" where
  "demo_tuple b = checkpoint_tuple demo_protocol_id (demo_release b) 100 demo_checkpoint"

lemma demo_tuple_ok: "assertAgreementTuple (demo_tuple b) = Inr ()"
proof -
  have "PROTOCOL_ID demo_protocol_id"
    by (simp add: PROTOCOL_ID_def protocol_network_def NETWORK_NAMES_def protocol_prefix_def
        demo_protocol_id_def HASH_HEX_def text_evaluation)
  moreover have "is_safe 100" by (simp add: is_safe_def)
  moreover have "COMMIT_HEX (to_hex (replicate 20 b))"
    using is_hex_text_to_hex [of "replicate 20 b"] by (simp add: COMMIT_HEX_def)
  ultimately show ?thesis
    by (simp add: assertAgreementTuple_iff demo_tuple_def checkpoint_tuple_def demo_checkpoint_def
        demo_release_def HASH_HEX_def demo_txid_hex int_text_def is_counter_nat_text)
qed

definition demo_envelope :: "byte \<Rightarrow> byte \<Rightarrow> string \<Rightarrow> signed_envelope" where
  "demo_envelope b key keyId = \<lparr>env_schema = ENVELOPE_SCHEMA, env_key_id = keyId, env_tuple = demo_tuple b,
     env_signature = to_hex (replicate 32 key @ replicate 32 key)\<rparr>"

lemma demo_key_ids: "KEY_ID ''a1''" "KEY_ID ''b1''"
  by (simp_all add: KEY_ID_def is_key_id_char_def is_alpha_def text_evaluation)

lemma demo_signs:
  "KEY_ID keyId \<Longrightarrow> signAgreementTuple demo_agreement (demo_tuple b) keyId (demo_txid key) =
     Inr (demo_envelope b key keyId)"
  by (simp add: signAgreementTuple_def Let_def demo_txid_wire canonicalAgreementBytes_def demo_tuple_ok
      demo_envelope_def) (simp add: demo_agreement_def)

text \<open>An envelope of the demonstration, signed, sent and accepted.\<close>

theorem signed_envelope_accepted_witness:
  "verifyTrustedEnvelope demo_agreement (envelope_json (demo_envelope 5 17 ''a1''))
     [(''a1'', demo_txid 17)] ''pipeline A'' = Inr (demo_envelope 5 17 ''a1'')"
proof -
  have "al_getPublicKey demo_agreement (from_hex (demo_txid 17)) = Inr (replicate 32 17)"
    "js_get [(''a1'', demo_txid 17)] ''a1'' = Some (to_hex (replicate 32 17))"
    by (simp_all add: demo_agreement_def demo_txid_wire)
  from signed_envelope_accepted [OF demo_agreement_contract demo_signs [OF demo_key_ids(1)] this] show ?thesis .
qed

section \<open>An answer\<close>

lemma demo_accepted:
  assumes "KEY_ID keyId"
  shows "verifyTrustedEnvelope demo_agreement (envelope_json (demo_envelope b key keyId))
    [(keyId, demo_txid key)] p = Inr (demo_envelope b key keyId)"
  by (rule signed_accepted [OF demo_agreement_contract demo_signs [OF assms],
        where publicKey = "replicate 32 key"])
    (simp_all add: demo_agreement_def demo_txid_wire)

definition demo_gateway :: gateway_env where
  "demo_gateway = \<lparr>ge_lib = demo_agreement,
     ge_platform = \<lparr>pf_json_parse = (\<lambda>_. Some (envelope_json (demo_envelope 6 18 ''b1''))), pf_url_parse = (\<lambda>_. None)\<rparr>,
     ge_utf8 = (\<lambda>_. []), ge_syntaxError = (\<lambda>_. []), ge_config = gateway_config\<rparr>"

definition demo_moment :: gateway_moment where
  "demo_moment = \<lparr>gm_state = initial_deployment_state\<lparr>ds_phase := ActiveInit\<rparr>,
     gm_database = (\<lambda>_. Inr gateway_db), gm_node = sync_node,
     gm_pipelineB = (\<lambda>_. Responded \<lparr>hr_ok = True, hr_status = 200, hr_contentLength = Some 0,
       hr_body = Some [Chunk [123, 125]]\<rparr>)\<rparr>"

lemma demo_probe:
  "rs_ready (probe demo_agreement gateway_config (gm_state demo_moment) (gm_database demo_moment) sync_node)"
  "rd_canonicalHeight (rs_input
     (probe demo_agreement gateway_config (gm_state demo_moment) (gm_database demo_moment) sync_node)) = Some 100"
proof -
  have "probe_database (gm_database demo_moment) = (True, Some 100, Some 100)"
    by (simp add: probe_database_def demo_moment_def highest_key_def gateway_db_def highest_def Let_def)
  moreover have "probe_core sync_node ''regtest'' = (True, True, False, Some 101)"
    by (simp add: probe_core_def demo_info)
  moreover have "signingBoundaryConfigured demo_agreement (cfg_agreement gateway_config)"
    by (simp add: signingBoundaryConfigured_def gateway_config_def truthy_def demo_key_ids Let_def demo_txid_wire)
      (simp add: demo_agreement_def demo_txid_def to_hex_Nil)
  moreover have "bc_expectedChain (cfg_bitcoin gateway_config) = ''regtest''"
    "dc_specHash (cfg_deployment gateway_config) \<noteq> []"
    by (simp_all add: gateway_config_def sync_config_deployment)
  moreover have "cfg_maxBlockLag gateway_config = 2" by (simp add: gateway_config_def)
  ultimately show "rs_ready (probe demo_agreement gateway_config (gm_state demo_moment) (gm_database demo_moment) sync_node)"
    "rd_canonicalHeight (rs_input
     (probe demo_agreement gateway_config (gm_state demo_moment) (gm_database demo_moment) sync_node)) = Some 100"
    by (simp_all add: probe_def evaluateReadiness_ready Let_def)
      (simp_all add: evaluateReadiness_def demo_moment_def initial_deployment_state_def)
qed

lemma demo_resolves_to:
  assumes "ge_lib E = demo_agreement" and "ge_config E = gateway_config"
    and parse: "pf_json_parse (ge_platform E) (ge_utf8 E [123, 125]) = Some (envelope_json (demo_envelope 6 18 ''b1''))"
  shows "\<exists>network. resolve E demo_moment = Inr (agreed_metadata network (dc_specHash (cfg_deployment gateway_config))
    (demo_envelope 5 17 ''a1'') (demo_envelope 6 18 ''b1''))"
proof -
  let ?a = "demo_envelope 5 17 ''a1''" and ?b = "demo_envelope 6 18 ''b1''"
  have "gm_node demo_moment = sync_node" by (simp add: demo_moment_def)
  note E = this assms(1,2)
  have boundary: "signingBoundaryConfigured demo_agreement (cfg_agreement gateway_config)"
    using demo_probe(1) probe_ready by blast
  have db: "gm_database demo_moment 3 = Inr gateway_db" by (simp add: demo_moment_def)
  have protocol: "dc_protocolId (cfg_deployment gateway_config) = Some demo_protocol_id"
    "dc_network (cfg_deployment gateway_config) = ''regtest''"
    "HASH_HEX (dc_specHash (cfg_deployment gateway_config))"
    by (simp_all add: gateway_config_def sync_config_deployment demo_protocol_id_def HASH_HEX_def text_evaluation)
  have "signer_releaseIdentity (cfg_agreement gateway_config) = Inr (demo_release 5)"
    by (simp add: signer_releaseIdentity_def gateway_config_def truthy_def demo_release_def demo_txid_def to_hex_Nil)
  moreover have "truthy (ac_keyId (cfg_agreement gateway_config))" "truthy (ac_privateKeyHex (cfg_agreement gateway_config))"
    "the (ac_keyId (cfg_agreement gateway_config)) = ''a1''"
    "the (ac_privateKeyHex (cfg_agreement gateway_config)) = demo_txid 17"
    by (simp_all add: gateway_config_def truthy_def demo_txid_def to_hex_Nil)
  moreover have "js_get (db_checkpoints gateway_db) 100 = Some demo_checkpoint" by (simp add: gateway_db_def)
  moreover have "truthy (Some demo_protocol_id)" by (simp add: truthy_def demo_protocol_id_def)
  ultimately have signed: "signedAt demo_agreement gateway_config gateway_db 100 = Inr ?a"
    using boundary demo_signs [OF demo_key_ids(1), of 5 17]
    by (simp add: signedAt_def protocol signer_sign_def demo_tuple_def)
  have fetched: "fetchPipelineB E (gm_pipelineB demo_moment url) = Inr (envelope_json ?b)" for url
    by (simp add: fetchPipelineB_def demo_moment_def readLimitedBody_def MAX_AGREEMENT_RESPONSE_BYTES_def parse)
  have verification: "vf_pipelineATrustedKeys (cfg_verification gateway_config) = [(''a1'', demo_txid 17)]"
    "vf_pipelineBTrustedKeys (cfg_verification gateway_config) = [(''b1'', demo_txid 18)]"
    "truthy (vf_pipelineBBaseUrl (cfg_verification gateway_config))"
    by (simp_all add: gateway_config_def truthy_def)
  have accepted: "verifyTrustedEnvelope demo_agreement (envelope_json ?a) [(''a1'', demo_txid 17)] p = Inr ?a"
    "verifyTrustedEnvelope demo_agreement (envelope_json ?b) [(''b1'', demo_txid 18)] p = Inr ?b" for p
    by (rule demo_accepted, rule demo_key_ids)+
  have "semantic_equal (env_tuple ?a) (env_tuple ?b)"
    by (simp add: semantic_equal_def demo_envelope_def demo_tuple_def checkpoint_tuple_def)
  then obtain us where "mapE (compare_field (env_tuple ?a) (env_tuple ?b)) SEMANTIC_FIELDS = Inr us"
    using compare_fields_Inr by blast
  moreover obtain network where "protocol_network (at_protocol_id (env_tuple ?a)) = Some network"
    using demo_tuple_ok [of 5] by (auto simp: assertAgreementTuple_iff PROTOCOL_ID_def demo_envelope_def)
  ultimately obtain md where md: "establishVerifiedAgreement demo_agreement (envelope_json ?a) (envelope_json ?b)
      [(''a1'', demo_txid 17)] [(''b1'', demo_txid 18)] (dc_specHash (cfg_deployment gateway_config)) = Inr md"
    "md = agreed_metadata network (dc_specHash (cfg_deployment gateway_config)) ?a ?b"
    using accepted protocol(3) unfolding establishVerifiedAgreement_def by simp
  have "vm_height md = 100" "at_protocol_id (env_tuple ?a) = demo_protocol_id"
    by (simp_all add: md(2) agreed_metadata_def Let_def demo_envelope_def demo_tuple_def checkpoint_tuple_def int_text_def)
  then have "resolve E demo_moment = Inr md"
    using demo_probe db signed fetched verification md(1) protocol
    by (simp add: resolve_def E Let_def)
  then show ?thesis unfolding md(2) by blast
qed

lemma demo_resolves: "\<exists>md. resolve demo_gateway demo_moment = Inr md"
  using demo_resolves_to [of demo_gateway] by (auto simp: demo_gateway_def)

theorem executeBound_verified_witness:
  "\<exists>md. executeBound demo_gateway demo_moment demo_moment (\<lambda>_. Inr (7 :: nat)) None = Inr (md, 7) \<and>
     verified_at demo_gateway demo_moment md"
proof -
  obtain md where md: "resolve demo_gateway demo_moment = Inr md" using demo_resolves by blast
  then have run: "executeBound demo_gateway demo_moment demo_moment (\<lambda>_. Inr (7 :: nat)) None = Inr (md, 7)"
    by (simp add: executeBound_def)
  then show ?thesis
    using executeBound_verified [where E = demo_gateway and ?m1.0 = demo_moment and ?m2.0 = demo_moment
      and query = "\<lambda>_. Inr (7 :: nat)" and legacy = None] by simp
qed

section \<open>The inspector of the site\<close>

text \<open>An envelope of the demonstration, and the same with a JSON number for its key id.\<close>

definition numbered_envelope :: json where
  "numbered_envelope = JObject
     [(''schema'', JString ENVELOPE_SCHEMA), (''key_id'', JNumber ''7''), (''tuple'', tuple_json (demo_tuple 6)),
      (''signature'', JString (env_signature (demo_envelope 6 18 ''b1'')))]"

definition parses_to :: "json \<Rightarrow> platform" where
  "parses_to v = \<lparr>pf_json_parse = (\<lambda>_. Some v), pf_url_parse = (\<lambda>_. None)\<rparr>"

lemma demo_well_formed: "well_formed_envelope (envelope_json (demo_envelope 6 18 ''b1''))"
proof -
  have "verifyTrustedEnvelope demo_agreement (envelope_json (demo_envelope 6 18 ''b1'')) [(''b1'', demo_txid 18)] [] =
    Inr (demo_envelope 6 18 ''b1'')" by (rule demo_accepted [OF demo_key_ids(2)])
  then show ?thesis
    by (auto simp: well_formed_envelope_def verifyTrustedEnvelope_def dest: verifyAgreementEnvelope_signed)
qed

lemma numbered_envelope_passes:
  "ir_firstFailure (inspectEnvelope (parses_to numbered_envelope) msg raw) = None"
  "\<not> well_formed_envelope numbered_envelope"
proof -
  let ?env = "demo_envelope 6 18 ''b1''"
  obtain tuple where tuple: "tuple_json (demo_tuple 6) = JObject tuple" "map fst tuple = TUPLE_KEYS"
    by (simp add: tuple_json_def TUPLE_KEYS_def)
  have "parseAgreementEnvelope (envelope_json ?env) = Inr ?env"
    using parse_envelope_json [of ?env] demo_tuple_ok [of 6] by (simp add: demo_envelope_def)
  then have texts: "\<exists>texts. mapE (textField tuple) TUPLE_KEYS = Inr texts \<and>
      assertAgreementTuple (tuple_of_fields (zip TUPLE_KEYS texts)) = Inr ()"
    using tuple by (auto simp: parseAgreementEnvelope_def envelope_json_def exactRecord_Inr Let_def demo_envelope_def
        simp del: mapE.simps)
  let ?entries = "[(''schema'', JString ENVELOPE_SCHEMA), (''key_id'', JNumber ''7''), (''tuple'', JObject tuple),
      (''signature'', JString (env_signature ?env))]"
  have v: "numbered_envelope = JObject ?entries" by (simp add: numbered_envelope_def tuple)
  have keys: "exactKeys (Some numbered_envelope) ENVELOPE_KEYS = None" "exactKeys (Some (JObject tuple)) TUPLE_KEYS = None"
    using tuple(2) by (simp_all add: exactKeys_None v ENVELOPE_KEYS_def)
  have "KEY_ID ''7''" by (simp add: KEY_ID_def is_key_id_char_def text_evaluation)
  moreover have "SIGNATURE_HEX (env_signature ?env)"
    using is_hex_text_to_hex [of "replicate 32 18 @ replicate 32 18 :: bytes"]
    by (simp add: SIGNATURE_HEX_def demo_envelope_def)
  ultimately show "ir_firstFailure (inspectEnvelope (parses_to numbered_envelope) msg raw) = None"
    using texts keys by (simp add: inspectEnvelope_def parses_to_def v inspect_fields_None)
  show "\<not> well_formed_envelope numbered_envelope"
    by (auto simp: well_formed_envelope_def parseAgreementEnvelope_def exactRecord_Inr v textField_text
        is_json_string_def Let_def simp del: mapE.simps)
qed

theorem inspectEnvelope_agrees_witness:
  "ir_firstFailure (inspectEnvelope (parses_to (envelope_json (demo_envelope 6 18 ''b1''))) (\<lambda>_. []) []) = None \<and>
   ir_firstFailure (inspectEnvelope (parses_to numbered_envelope) (\<lambda>_. []) []) = None \<and>
   \<not> well_formed_envelope numbered_envelope"
proof -
  have "pf_json_parse (parses_to (envelope_json (demo_envelope 6 18 ''b1''))) [] =
      Some (envelope_json (demo_envelope 6 18 ''b1''))" by (simp add: parses_to_def)
  from inspectEnvelope_agrees [OF this, of "\<lambda>_. []"] demo_well_formed numbered_envelope_passes show ?thesis by blast
qed

end
