(* ===== verification/Catalog_Demo.thy ===== *)
theory Catalog_Demo
  imports Catalog_Properties Gateway_Demo
begin

text \<open>
  Two pipelines that sign a checkpoint of two objects, and a client that reads the catalog one object at
  a time: the hypotheses of \<open>follow_catalog_complete\<close> hold there.
\<close>

definition demo_object_row :: "byte \<Rightarrow> bool \<Rightarrow> int \<Rightarrow> string \<times> object_row" where
  "demo_object_row b founding height = (demo_txid b, \<lparr>ow_createTxid = demo_txid b, ow_createHeight = height,
     ow_founding = founding, ow_status = Closed, ow_stateSequence = 0, ow_currentOutpoint = None,
     ow_key0 = [], ow_key1 = [], ow_terminalTxid = None, ow_chapterCount = 0\<rparr>)"

definition catalog_db :: database where
  "catalog_db = empty_database\<lparr>
     db_blocks := [(100, \<lparr>bk_hash = demo_txid 40, bk_previousHash = None, bk_time = 0, bk_eventRoot = demo_txid 1,
       bk_objectStateRoot = demo_txid 2, bk_chainedRoot = demo_txid 3, bk_eventCount = 0\<rparr>)],
     db_objects := [demo_object_row 8 True 60, demo_object_row 9 False 70]\<rparr>"

definition demo_catalog_crypto :: catalog_crypto where
  "demo_catalog_crypto = \<lparr>kc_hmac = (\<lambda>secret s. replicate 32 2), kc_sha256 = (\<lambda>s. replicate 32 1),
     kc_stringify = (\<lambda>v. ''c''), kc_utf8_bytes = map (word_of_nat \<circ> char_code)\<rparr>"

text \<open>The cursor between the two pages.\<close>

definition demo_cursor :: json where
  "demo_cursor = cursor_json (demo_txid 1) 1 70 (demo_txid 9) 1"

definition catalog_gateway :: gateway_env where
  "catalog_gateway = \<lparr>ge_lib = demo_agreement,
     ge_platform = \<lparr>pf_json_parse = (\<lambda>s. if s = ''c'' then Some demo_cursor else Some (envelope_json (demo_envelope 6 18 ''b1''))),
       pf_url_parse = (\<lambda>_. None)\<rparr>,
     ge_utf8 = map (char_of \<circ> unat), ge_syntaxError = (\<lambda>_. []), ge_config = gateway_config\<rparr>"

definition catalog_node :: bitcoin_node where
  "catalog_node = sync_node\<lparr>bn_getblockhash := (\<lambda>height. RpcBody (demo_txid 40) None)\<rparr>"

definition demo_catalog_moment :: catalog_moment where
  "demo_catalog_moment = \<lparr>km_first = demo_moment, km_second = demo_moment, km_view = Inr catalog_db,
     km_node = catalog_node, km_expired = (\<lambda>_. False), km_timer = False\<rparr>"

lemma catalog_resolves:
  "\<exists>network. resolve catalog_gateway demo_moment = Inr (agreed_metadata network
     (dc_specHash (cfg_deployment gateway_config)) (demo_envelope 5 17 ''a1'') (demo_envelope 6 18 ''b1''))"
  by (rule demo_resolves_to) (simp_all add: catalog_gateway_def)

text \<open>What the two pipelines agree on.\<close>

lemma demo_agreed:
  "vm_height (agreed_metadata network spec (demo_envelope 5 17 ''a1'') b) = 100"
  "vm_blockHash (agreed_metadata network spec (demo_envelope 5 17 ''a1'') b) = demo_txid 40"
  "vm_eventRoot (agreed_metadata network spec (demo_envelope 5 17 ''a1'') b) = demo_txid 1"
  "vm_objectStateRoot (agreed_metadata network spec (demo_envelope 5 17 ''a1'') b) = demo_txid 2"
  "vm_chainedRoot (agreed_metadata network spec (demo_envelope 5 17 ''a1'') b) = demo_txid 3"
  "vm_foundingCreated (agreed_metadata network spec (demo_envelope 5 17 ''a1'') b) = nat_text 1"
  "vm_allObjects (agreed_metadata network spec (demo_envelope 5 17 ''a1'') b) = nat_text 2"
  "vm_activeObjects (agreed_metadata network spec (demo_envelope 5 17 ''a1'') b) = nat_text 0"
  by (simp_all add: agreed_metadata_def Let_def demo_envelope_def demo_tuple_def checkpoint_tuple_def
    demo_checkpoint_def int_text_def)

lemma demo_catalog_rows: "catalog_rows catalog_db = [demo_object_row 9 False 70, demo_object_row 8 True 60]"
  by (simp add: catalog_rows_def catalog_db_def object_key_def demo_object_row_def less_eq_catalog_key_def less_catalog_key_def)

lemma demo_txid_distinct: "demo_txid 8 \<noteq> demo_txid 9"
  by (simp add: demo_txid_def)

lemma demo_listable:
  "listable catalog_db (agreed_metadata network spec (demo_envelope 5 17 ''a1'') b)"
  using demo_txid_distinct
  by (simp add: listable_def agrees_with_def demo_agreed highest_def catalog_db_def empty_database_def
    demo_object_row_def is_safe_def object_listed_def HASH_HEX_def demo_txid_hex)

lemma demo_shot: "shot_of demo_catalog_crypto db v = demo_txid 1"
  by (simp add: snapshot_hash_def digest_json_def demo_catalog_crypto_def demo_txid_def)

lemma demo_transport:
  "transport_ok demo_catalog_crypto catalog_gateway ''s'' catalog_db (agreed_metadata network spec (demo_envelope 5 17 ''a1'') b) 1"
proof -
  let ?v = "agreed_metadata network spec (demo_envelope 5 17 ''a1'') b"
  have "cursor_after demo_catalog_crypto catalog_db ?v 1 1 = demo_cursor"
    unfolding cursor_after_def demo_shot demo_catalog_rows by (simp add: demo_object_row_def demo_cursor_def)
  moreover have "length (db_objects catalog_db) = 2" by (simp add: catalog_db_def)
  moreover have "char_of (99 :: nat) = CHR ''c''" by code_simp
  then have "transports demo_catalog_crypto catalog_gateway demo_cursor"
    by (simp add: transports_def demo_catalog_crypto_def catalog_gateway_def char_code_def)
  ultimately show ?thesis
    by (simp add: transport_ok_def upt_rec) (simp add: demo_catalog_crypto_def)
qed

lemma demo_quiet:
  assumes "resolve catalog_gateway demo_moment = Inr v" and "vm_blockHash v = demo_txid 40"
  shows "quiet_moment catalog_gateway demo_catalog_moment v catalog_db"
  using assms by (simp add: quiet_moment_def demo_catalog_moment_def getBlockHash_def rpc_call_def catalog_node_def)

lemma demo_request:
  "catalog_request demo_catalog_crypto catalog_gateway (TextValue ''Bearer t'') (TextValue ''1'') Absent = Inr (1, None, ''s'')"
  by (simp add: catalog_request_def catalog_gateway_def gateway_config_def parseCursor_def all_digits_def is_digit_def
    char_code_def number_of_text_def digit_val_def)

theorem follow_catalog_complete_witness:
  "\<exists>v. resolve catalog_gateway demo_moment = Inr v \<and>
     follow_catalog (catalogPage demo_catalog_crypto catalog_gateway demo_catalog_moment 1 (TextValue ''Bearer t'') (TextValue ''1''))
       3 Absent = Some (map (catalog_item_of v) [demo_object_row 9 False 70, demo_object_row 8 True 60])"
proof -
  obtain v where v: "resolve catalog_gateway demo_moment = Inr v" "vm_blockHash v = demo_txid 40"
    "listable catalog_db v" "transport_ok demo_catalog_crypto catalog_gateway ''s'' catalog_db v 1"
    using catalog_resolves demo_agreed(2) demo_listable demo_transport by metis
  have "length (db_objects catalog_db) < 3" by (simp add: catalog_db_def)
  from follow_catalog_complete [OF demo_quiet [OF v(1,2)] v(3,4) demo_request _ this, of 1] v(1) show ?thesis
    by (auto simp: demo_catalog_rows)
qed

end
