(* ===== verification/Block_Events.thy ===== *)
theory Block_Events
  imports Base64url Readiness Store_Shape
begin

text \<open>
  \<open>src/api/block-events.service.ts\<close>: the events of one block, page by page.  A page is a query of at
  most \<open>limit\<close> rows after a position, in the order of the positions; the cursor of the next page is a
  position and the block it was issued for, in base64url.  A request sees one snapshot of the database,
  after a readiness probe.
\<close>

section \<open>Positions\<close>

text \<open>A row's \<open>tx_index\<close>, \<open>event_index\<close> and \<open>sub_index\<close>, in the order of the query.\<close>

datatype page_position = Position (ps_txIndex: nat) (ps_eventIndex: nat) (ps_subIndex: nat)

instantiation page_position :: linorder
begin

definition less_page_position :: "page_position \<Rightarrow> page_position \<Rightarrow> bool" where
  "less_page_position p q =
     (ps_txIndex p < ps_txIndex q \<or> ps_txIndex p = ps_txIndex q \<and>
        (ps_eventIndex p < ps_eventIndex q \<or> ps_eventIndex p = ps_eventIndex q \<and> ps_subIndex p < ps_subIndex q))"

definition less_eq_page_position :: "page_position \<Rightarrow> page_position \<Rightarrow> bool" where
  "less_eq_page_position p q = (p = q \<or> p < q)"

instance
proof
  fix p q r :: page_position
  show "p < q \<longleftrightarrow> p \<le> q \<and> \<not> q \<le> p"
    by (auto simp: less_page_position_def less_eq_page_position_def)
  show "p \<le> p" by (simp add: less_eq_page_position_def)
  show "p \<le> q \<Longrightarrow> q \<le> r \<Longrightarrow> p \<le> r"
    by (auto simp: less_page_position_def less_eq_page_position_def)
  show "p \<le> q \<Longrightarrow> q \<le> p \<Longrightarrow> p = q"
    by (auto simp: less_page_position_def less_eq_page_position_def)
  show "p \<le> q \<or> q \<le> p"
    by (cases p; cases q) (auto simp: less_page_position_def less_eq_page_position_def)
qed

end

definition row_position :: "event_row \<Rightarrow> page_position" where
  "row_position e = Position (ew_txIndex e) (ew_eventIndex e) (ew_subIndex e)"

section \<open>Cursors\<close>

definition U32_MAX :: nat where
  "U32_MAX = 0xffffffff"

record events_cursor =
  cu_height :: nat
  cu_blockHash :: string
  cu_txIndex :: nat
  cu_eventIndex :: nat
  cu_subIndex :: nat

definition encodeBlockEventsCursor :: "events_cursor \<Rightarrow> string" where
  "encodeBlockEventsCursor cursor =
     base64url (join_with '':'' [''tbe1'', nat_text (cu_height cursor), cu_blockHash cursor,
       nat_text (cu_txIndex cursor), nat_text (cu_eventIndex cursor), nat_text (cu_subIndex cursor)])"

text \<open>\<open>(0|[1-9][0-9]{0,9})\<close>.\<close>

definition is_counter10 :: "string \<Rightarrow> bool" where
  "is_counter10 s = (is_counter s \<and> length s \<le> 10)"

text \<open>The match of \<open>CURSOR_BODY\<close>: no group contains a colon.\<close>

definition cursor_body :: "string \<Rightarrow> events_cursor option" where
  "cursor_body body =
     (case split_on CHR '':'' body of
        [version, height, hash, tx, event, sub] \<Rightarrow>
          if version = ''tbe1'' \<and> is_counter10 height \<and> is_hex_text 64 hash \<and> is_counter10 tx \<and>
             is_counter10 event \<and> is_counter10 sub
          then Some \<lparr>cu_height = number_of_text height, cu_blockHash = hash, cu_txIndex = number_of_text tx,
            cu_eventIndex = number_of_text event, cu_subIndex = number_of_text sub\<rparr>
          else None
      | _ \<Rightarrow> None)"

definition decodeBlockEventsCursor :: "string \<Rightarrow> events_cursor option" where
  "decodeBlockEventsCursor raw =
     (if \<not> is_base64url_text 200 raw then None
      else (case cursor_body (from_base64url raw) of
              None \<Rightarrow> None
            | Some cursor \<Rightarrow>
                if cu_txIndex cursor > U32_MAX \<or> cu_eventIndex cursor > U32_MAX \<or> cu_subIndex cursor > U32_MAX
                then None
                else if encodeBlockEventsCursor cursor = raw then Some cursor else None))"

section \<open>Parameters of a request\<close>

definition checkedHeight :: "request_value \<Rightarrow> nat result" where
  "checkedHeight v =
     (case v of
        TextValue s \<Rightarrow>
          if all_digits s \<and> 1 \<le> length s \<and> length s \<le> 10 then Inr (number_of_text s)
          else Inl (HttpException 400 ''height must be an unsigned decimal of at most 10 digits'')
      | _ \<Rightarrow> Inl (HttpException 400 ''height must be an unsigned decimal of at most 10 digits''))"

definition DEFAULT_LIMIT :: nat where
  "DEFAULT_LIMIT = 200"

definition MAX_LIMIT :: nat where
  "MAX_LIMIT = 500"

text \<open>\<open>/^[1-9][0-9]{0,2}$/\<close>.\<close>

definition checkedLimit :: "request_value \<Rightarrow> nat result" where
  "checkedLimit v =
     (case v of
        Absent \<Rightarrow> Inr DEFAULT_LIMIT
      | TextValue s \<Rightarrow>
          if all_digits s \<and> 1 \<le> length s \<and> length s \<le> 3 \<and> hd s \<noteq> CHR ''0'' \<and> number_of_text s \<le> MAX_LIMIT
          then Inr (number_of_text s)
          else Inl (HttpException 400 (''limit must be between 1 and '' @ nat_text MAX_LIMIT))
      | OtherValue \<Rightarrow> Inl (HttpException 400 (''limit must be between 1 and '' @ nat_text MAX_LIMIT)))"

definition checkedCursor :: "request_value \<Rightarrow> nat \<Rightarrow> events_cursor option result" where
  "checkedCursor v height =
     (case v of
        Absent \<Rightarrow> Inr None
      | _ \<Rightarrow>
          (case (case v of TextValue s \<Rightarrow> decodeBlockEventsCursor s | _ \<Rightarrow> None) of
             None \<Rightarrow> Inl (HttpException 400 ''invalid cursor'')
           | Some cursor \<Rightarrow>
               if cu_height cursor \<noteq> height then Inl (HttpException 400 ''invalid cursor'')
               else Inr (Some cursor)))"

section \<open>Pages\<close>

text \<open>\<open>OPERATIONS[eventType] ?? "unknown"\<close>.\<close>

definition operation_of :: "nat \<Rightarrow> string" where
  "operation_of eventType =
     (if eventType = EVENT_INIT then ''deploy''
      else if eventType = EVENT_CREATE then ''mint''
      else if eventType = EVENT_MARK then ''update''
      else if eventType = EVENT_ROTATE then ''update''
      else if eventType = EVENT_CLOSE then ''burn''
      else if eventType = EVENT_REFUND then ''unlock''
      else ''unknown'')"

text \<open>A presented event, less the six members that are always \<open>null\<close>.\<close>

record presented_event =
  pe_eventId :: string
  pe_protocolId :: string
  pe_txid :: string
  pe_txIndex :: nat
  pe_operation :: string
  pe_assetId :: "string option"
  pe_assetKind :: string
  pe_inputOutpoint :: "string option"
  pe_outputOutpoint :: "string option"

definition presentEvent :: "event_row \<Rightarrow> presented_event" where
  "presentEvent row =
     (let isInit = (ew_eventType row = EVENT_INIT)
      in \<lparr>pe_eventId = ew_txid row @ '':'' @ nat_text (ew_eventIndex row) @ '':'' @ nat_text (ew_subIndex row),
          pe_protocolId = ''tandem'', pe_txid = ew_txid row, pe_txIndex = ew_txIndex row,
          pe_operation = operation_of (ew_eventType row),
          pe_assetId = (if isInit then None else ew_objectKey row),
          pe_assetKind = (if isInit then ''protocol-event'' else ''non-fungible''),
          pe_inputOutpoint = ew_predecessorOutpoint row, pe_outputOutpoint = ew_successorOutpoint row\<rparr>)"

record events_page =
  pg_schemaVersion :: string
  pg_chain :: string
  pg_network :: string
  pg_protocols :: "string list"
  pg_height :: string
  pg_blockHash :: "string option"
  pg_indexed :: bool
  pg_checkpoint :: "string \<times> string"
  pg_events :: "presented_event list"
  pg_nextCursor :: "string option"
  pg_complete :: bool

text \<open>\<open>requireReady\<close>; the body of the exception is the snapshot.\<close>

definition requireReady :: "readiness_snapshot \<Rightarrow> unit result" where
  "requireReady probed =
     (if rs_ready probed then Inr () else Inl (HttpException 503 (join_with '','' (rs_reasons probed))))"

definition readCheckpoint :: "database \<Rightarrow> (int \<times> string) result" where
  "readCheckpoint db =
     (case highest (db_checkpoints db) of
        None \<Rightarrow> Inl (HttpException 503 ''checkpoint unavailable'')
      | Some (height, row) \<Rightarrow> Inr (height, kw_blockHash row))"

definition checkpoint_body :: "int \<times> string \<Rightarrow> string \<times> string" where
  "checkpoint_body checkpoint = (int_text (fst checkpoint), snd checkpoint)"

definition checkpoint :: "readiness_snapshot \<Rightarrow> database result \<Rightarrow> (string \<times> string) result" where
  "checkpoint probed view =
     bindE (requireReady probed) (\<lambda>_. bindE view (\<lambda>db. bindE (readCheckpoint db) (\<lambda>c. Inr (checkpoint_body c))))"

text \<open>The condition on the position in the query.\<close>

definition after_cursor :: "events_cursor option \<Rightarrow> event_row \<Rightarrow> bool" where
  "after_cursor cursor row =
     (case cursor of
        None \<Rightarrow> True
      | Some c \<Rightarrow>
          ew_txIndex row > cu_txIndex c \<or> ew_txIndex row = cu_txIndex c \<and>
            (ew_eventIndex row > cu_eventIndex c \<or>
             ew_eventIndex row = cu_eventIndex c \<and> ew_subIndex row > cu_subIndex c))"

definition select_events :: "database \<Rightarrow> nat \<Rightarrow> events_cursor option \<Rightarrow> nat \<Rightarrow> event_row list" where
  "select_events db height cursor n =
     take n (sort_key row_position
       (filter (\<lambda>e. ew_blockHeight e = int height \<and>
            ew_validityClass e \<in> {VALID_OPERATION, TERMINAL_NONCANONICAL} \<and> after_cursor cursor e)
          (db_events db)))"

definition base_page :: "string \<Rightarrow> nat \<Rightarrow> int \<times> string \<Rightarrow> events_page" where
  "base_page network height c =
     \<lparr>pg_schemaVersion = ''universe-block-events-v1'', pg_chain = ''bitcoin'', pg_network = network,
      pg_protocols = [''tandem''], pg_height = nat_text height, pg_blockHash = None, pg_indexed = False,
      pg_checkpoint = checkpoint_body c, pg_events = [], pg_nextCursor = None, pg_complete = False\<rparr>"

definition indexed_page ::
  "string \<Rightarrow> nat \<Rightarrow> nat \<Rightarrow> events_cursor option \<Rightarrow> database \<Rightarrow> int \<times> string \<Rightarrow> events_page result" where
  "indexed_page network height limit cursor db c =
     (let hash = blockHash db (int height)
      in if (case cursor of None \<Rightarrow> False | Some k \<Rightarrow> Some (cu_blockHash k) \<noteq> hash)
         then Inl (HttpException 400 ''cursor does not belong to the indexed block'')
         else let rows = select_events db height cursor (limit + 1);
                  page = take limit rows;
                  next = (if length rows > limit
                          then (case (last_opt page, hash) of
                                  (Some row, Some h) \<Rightarrow>
                                    if h = [] then None
                                    else Some (encodeBlockEventsCursor \<lparr>cu_height = height, cu_blockHash = h,
                                      cu_txIndex = ew_txIndex row, cu_eventIndex = ew_eventIndex row,
                                      cu_subIndex = ew_subIndex row\<rparr>)
                                | _ \<Rightarrow> None)
                          else None)
              in Inr ((base_page network height c)\<lparr>pg_blockHash := hash, pg_indexed := True,
                    pg_events := map presentEvent page, pg_nextCursor := next,
                    pg_complete := (length rows \<le> limit)\<rparr>))"

text \<open>The parameters, the readiness, then the snapshot of the database.\<close>

definition blockEvents ::
  "string \<Rightarrow> readiness_snapshot \<Rightarrow> database result \<Rightarrow> request_value \<Rightarrow> request_value \<Rightarrow> request_value \<Rightarrow>
     events_page result" where
  "blockEvents network probed view rawHeight rawLimit rawCursor =
     bindE (checkedHeight rawHeight) (\<lambda>height.
     bindE (checkedLimit rawLimit) (\<lambda>limit.
     bindE (checkedCursor rawCursor height) (\<lambda>cursor.
     bindE (requireReady probed) (\<lambda>_.
     bindE view (\<lambda>db.
     bindE (readCheckpoint db) (\<lambda>c.
       if fst c < int height
       then (case cursor of
               Some _ \<Rightarrow> Inl (HttpException 400 ''invalid cursor'')
             | None \<Rightarrow> Inr (base_page network height c))
       else indexed_page network height limit cursor db c))))))"

end
