(* ===== verification/Block_Events_Properties.thy ===== *)
theory Block_Events_Properties
  imports Block_Events Keyset Store_Consistency Reducer_Log
begin

text \<open>
  What the API of block events promises.  The cursors are a canonical code, an interpretation of the
  contract of \<open>Text_Codec\<close>; following them enumerates the published events of a block exactly once and in
  order, by the contract \<open>keyset\<close>; and the store keeps the positions of the events of a block distinct.
\<close>

section \<open>Cursors are a canonical code\<close>

definition cursor_ok :: "events_cursor \<Rightarrow> bool" where
  "cursor_ok c = (cu_height c < 10 ^ 10 \<and> is_hex_text 64 (cu_blockHash c) \<and> cu_txIndex c \<le> U32_MAX \<and>
     cu_eventIndex c \<le> U32_MAX \<and> cu_subIndex c \<le> U32_MAX)"

lemma length_nat_text: "n < 10 ^ Suc k \<Longrightarrow> length (nat_text n) \<le> Suc k"
proof (induction k arbitrary: n)
  case 0
  then show ?case by (subst nat_text.simps) simp
next
  case (Suc k)
  show ?case
  proof (cases "n < 10")
    case False
    have "n div 10 < 10 ^ Suc k" using Suc.prems by (simp add: less_mult_imp_div_less)
    from Suc.IH [OF this] False show ?thesis by (subst nat_text.simps) simp
  qed (subst nat_text.simps, simp)
qed

lemma number_of_text_bound: "all_digits s \<Longrightarrow> number_of_text s < 10 ^ length s"
proof (induction s rule: rev_induct)
  case Nil
  then show ?case by (simp add: number_of_text_def)
next
  case (snoc c s)
  then have "digit_val c < 10" "number_of_text s < 10 ^ length s"
    by (auto simp: all_digits_def digit_val_def is_digit_def)
  then have "10 * number_of_text s + digit_val c < 10 * 10 ^ length s" by linarith
  then show ?case by (simp add: number_of_text_snoc)
qed

lemma is_counter10_nat_text: "n < 10 ^ 10 \<Longrightarrow> is_counter10 (nat_text n)"
  using length_nat_text [of n 9] by (simp add: is_counter10_def is_counter_nat_text)

lemma is_counter_digits: "is_counter s \<Longrightarrow> all_digits s"
  by (auto simp: is_counter_def all_digits_def is_digit_def char_code_def)

lemma is_counter10_number: "is_counter10 s \<Longrightarrow> number_of_text s < 10 ^ 10 \<and> nat_text (number_of_text s) = s"
proof -
  assume s: "is_counter10 s"
  then have "number_of_text s < 10 ^ length s" by (simp add: is_counter10_def is_counter_digits number_of_text_bound)
  moreover have "(10 :: nat) ^ length s \<le> 10 ^ 10" using s by (intro power_increasing) (simp_all add: is_counter10_def)
  ultimately show ?thesis using s by (simp add: is_counter10_def nat_text_number_of_text)
qed

definition cursor_parts :: "events_cursor \<Rightarrow> string list" where
  "cursor_parts c = [''tbe1'', nat_text (cu_height c), cu_blockHash c, nat_text (cu_txIndex c),
     nat_text (cu_eventIndex c), nat_text (cu_subIndex c)]"

lemma encode_parts: "encodeBlockEventsCursor c = base64url (join_with [CHR '':''] (cursor_parts c))"
  by (simp only: encodeBlockEventsCursor_def cursor_parts_def)

lemma split_cursor_parts:
  assumes "is_hex_text 64 (cu_blockHash c)"
  shows "split_on CHR '':'' (join_with [CHR '':''] (cursor_parts c)) = cursor_parts c"
proof (rule split_on_join)
  have colon: "\<not> is_digit (CHR '':'')" "\<not> is_lower_hex_char (CHR '':'')" by code_simp+
  show "CHR '':'' \<notin> set p" if "p \<in> set (cursor_parts c)" for p
    using that not_in_nat_text [OF colon(1)] not_in_hex_text [OF assms colon(2)] by (auto simp: cursor_parts_def)
qed (simp add: cursor_parts_def)

lemma decode_encode_cursor:
  assumes "cursor_ok c"
  shows "decodeBlockEventsCursor (encodeBlockEventsCursor c) = Some c"
proof -
  let ?body = "join_with [CHR '':''] (cursor_parts c)"
  have small: "U32_MAX < 10 ^ 10" by (simp add: U32_MAX_def)
  have n: "cu_height c < 10 ^ 10" "cu_txIndex c < 10 ^ 10" "cu_eventIndex c < 10 ^ 10" "cu_subIndex c < 10 ^ 10"
    and hex: "is_hex_text 64 (cu_blockHash c)"
    using assms small unfolding cursor_ok_def by linarith+
  note counters = n [THEN is_counter10_nat_text]
  have body: "cursor_body ?body = Some c"
    unfolding cursor_body_def split_cursor_parts [OF hex] using counters hex by (simp add: cursor_parts_def)
  have lengths: "length (nat_text (cu_height c)) \<le> 10" "length (nat_text (cu_txIndex c)) \<le> 10"
    "length (nat_text (cu_eventIndex c)) \<le> 10" "length (nat_text (cu_subIndex c)) \<le> 10"
    using counters by (simp_all add: is_counter10_def)
  have "length ?body \<le> 113" using lengths hex by (simp add: cursor_parts_def is_hex_text_def)
  then have "is_base64url_text 200 (encodeBlockEventsCursor c)"
    unfolding encode_parts by (intro is_base64url_text_base64url) (simp_all add: cursor_parts_def)
  moreover have "from_base64url (encodeBlockEventsCursor c) = ?body" by (simp add: encode_parts)
  ultimately show ?thesis
    using assms body by (simp add: decodeBlockEventsCursor_def cursor_ok_def)
qed

lemma cursor_body_Some:
  "cursor_body body = Some c \<Longrightarrow> is_hex_text 64 (cu_blockHash c) \<and> cu_height c < 10 ^ 10"
  by (auto simp: cursor_body_def dest: is_counter10_number split: list.splits if_splits)

lemma decode_cursor_Some:
  "decodeBlockEventsCursor raw = Some c \<Longrightarrow> cursor_ok c \<and> encodeBlockEventsCursor c = raw"
  using cursor_body_Some [of "from_base64url raw"]
  by (auto simp: decodeBlockEventsCursor_def cursor_ok_def split: option.splits if_splits)

interpretation cursors: canonical_codec encodeBlockEventsCursor decodeBlockEventsCursor cursor_ok
  by unfold_locales (auto dest: decode_cursor_Some intro: decode_encode_cursor)

text \<open>
  C34: cursors are canonical.  The service accepts exactly the texts it issues: a cursor in range decodes
  from its encoding and from no other text, and everything else is refused.
\<close>

theorem cursor_canonical:
  "decodeBlockEventsCursor raw = Some c \<longleftrightarrow> cursor_ok c \<and> raw = encodeBlockEventsCursor c"
  by (rule cursors.decode_iff)

section \<open>Following the cursors\<close>

text \<open>A cursor for the row.\<close>

definition cursor_at :: "nat \<Rightarrow> string \<Rightarrow> event_row \<Rightarrow> events_cursor" where
  "cursor_at height hash row = \<lparr>cu_height = height, cu_blockHash = hash, cu_txIndex = ew_txIndex row,
     cu_eventIndex = ew_eventIndex row, cu_subIndex = ew_subIndex row\<rparr>"

text \<open>The position a cursor stands for, and the contract of pages by position.\<close>

definition cursor_position :: "events_cursor \<Rightarrow> page_position" where
  "cursor_position c = Position (cu_txIndex c) (cu_eventIndex c) (cu_subIndex c)"

definition after_position :: "page_position option \<Rightarrow> event_row \<Rightarrow> bool" where
  "after_position k row = (case k of None \<Rightarrow> True | Some p \<Rightarrow> p < row_position row)"

lemma after_cursor_position: "after_cursor cursor = after_position (map_option cursor_position cursor)"
  by (rule ext) (auto simp: after_cursor_def after_position_def cursor_position_def row_position_def
    less_page_position_def split: option.splits)

interpretation positions: keyset "\<lambda>x y. row_position x < row_position y" after_position row_position
  by unfold_locales (auto simp: after_position_def split: option.splits)

lemma cursor_at_position: "cursor_position (cursor_at height hash row) = row_position row"
  by (simp add: cursor_position_def cursor_at_def row_position_def)

text \<open>The events of a block the service publishes, in order.\<close>

definition published_events :: "database \<Rightarrow> nat \<Rightarrow> event_row list" where
  "published_events db height =
     sort_key row_position (filter (\<lambda>e. ew_blockHeight e = int height \<and>
       ew_validityClass e \<in> {VALID_OPERATION, TERMINAL_NONCANONICAL}) (db_events db))"

lemma select_events_published:
  "select_events db height cursor n = take n (filter (after_cursor cursor) (published_events db height))"
  by (simp add: select_events_def published_events_def filter_sort conj_ac)

definition positions_unique :: "event_row list \<Rightarrow> bool" where
  "positions_unique es = distinct (map (\<lambda>e. (ew_blockHeight e, row_position e)) es)"

lemma published_sorted:
  assumes "positions_unique (db_events db)"
  shows "sorted_wrt (\<lambda>x y. row_position x < row_position y) (published_events db height)"
proof -
  let ?es = "filter (\<lambda>e. ew_blockHeight e = int height \<and>
    ew_validityClass e \<in> {VALID_OPERATION, TERMINAL_NONCANONICAL}) (db_events db)"
  have "inj_on row_position (set ?es)" "distinct ?es"
    using assms by (auto simp: positions_unique_def distinct_map inj_on_def)
  then have "distinct (map row_position (published_events db height))"
    by (simp add: published_events_def distinct_map)
  moreover have "sorted (map row_position (published_events db height))"
    by (simp add: published_events_def)
  ultimately have "sorted_wrt (<) (map row_position (published_events db height))"
    by (simp add: strict_sorted_iff)
  then show ?thesis by (simp add: sorted_wrt_map)
qed

text \<open>A client that asks for the next page as long as there is a cursor, for at most so many pages.\<close>

fun follow_pages :: "(request_value \<Rightarrow> events_page result) \<Rightarrow> nat \<Rightarrow> request_value \<Rightarrow> (presented_event list \<times> bool) option" where
  "follow_pages serve 0 cursor = None"
| "follow_pages serve (Suc n) cursor =
     (case serve cursor of
        Inl _ \<Rightarrow> None
      | Inr page \<Rightarrow>
          (case pg_nextCursor page of
             None \<Rightarrow> Some (pg_events page, pg_complete page)
           | Some next \<Rightarrow>
               map_option (\<lambda>(es, c). (pg_events page @ es, c)) (follow_pages serve n (TextValue next))))"

text \<open>The block is indexed, and its rows fit the columns and the unique index of their table.\<close>

definition servable :: "database \<Rightarrow> nat \<Rightarrow> string \<Rightarrow> bool" where
  "servable db height hash =
     (blockHash db (int height) = Some hash \<and> is_hex_text 64 hash \<and> positions_unique (db_events db) \<and>
      list_all (\<lambda>e. ew_txIndex e \<le> U32_MAX \<and> ew_eventIndex e \<le> U32_MAX \<and> ew_subIndex e \<le> U32_MAX) (db_events db) \<and>
      (case highest (db_checkpoints db) of None \<Rightarrow> False | Some (h, _) \<Rightarrow> int height \<le> h))"

lemma checkedLimit_pos: "checkedLimit v = Inr n \<Longrightarrow> 0 < n"
  by (cases v) (auto simp: checkedLimit_def DEFAULT_LIMIT_def intro!: number_of_text_Cons_pos split: if_splits)

lemma checkedHeight_small: "checkedHeight v = Inr n \<Longrightarrow> n < 10 ^ 10"
proof -
  assume "checkedHeight v = Inr n"
  then obtain s where s: "all_digits s" "length s \<le> 10" "n = number_of_text s"
    by (auto simp: checkedHeight_def split: request_value.splits if_splits)
  have "(10 :: nat) ^ length s \<le> 10 ^ 10" using s(2) by (intro power_increasing) simp_all
  then show ?thesis using number_of_text_bound [OF s(1)] s(3) by linarith
qed

lemma serve_page:
  assumes request: "checkedHeight rawHeight = Inr height" "checkedLimit rawLimit = Inr limit"
    "checkedCursor rawCursor height = Inr cursor" and ready: "rs_ready probed" and db: "servable db height hash"
    and cursor: "cursor = None \<or> (\<exists>c. cursor = Some c \<and> cu_blockHash c = hash)"
    and rest: "rest = filter (after_cursor cursor) (published_events db height)"
  shows "\<exists>page. blockEvents network probed (Inr db) rawHeight rawLimit rawCursor = Inr page \<and>
    pg_events page = map presentEvent (take limit rest) \<and>
    pg_nextCursor page = (if length rest \<le> limit then None
      else Some (encodeBlockEventsCursor (cursor_at height hash (last (take limit rest))))) \<and>
    pg_complete page = (length rest \<le> limit)"
proof -
  obtain h tip where c: "readCheckpoint db = Inr (h, tip)" "\<not> h < int height"
    using db by (auto simp: servable_def readCheckpoint_def split: option.splits)
  have hash: "blockHash db (int height) = Some hash" "hash \<noteq> []"
    using db by (auto simp: servable_def is_hex_text_def)
  have rows: "select_events db height cursor (limit + 1) = take (limit + 1) rest"
    by (simp add: select_events_published rest)
  have page: "take limit (take (limit + 1) rest) = take limit rest" by (simp add: min_def)
  have limit: "0 < limit" using request(2) by (rule checkedLimit_pos)
  have own: "\<not> (case cursor of None \<Rightarrow> False | Some k \<Rightarrow> Some (cu_blockHash k) \<noteq> Some hash)"
    using cursor by (auto split: option.splits)
  have "blockEvents network probed (Inr db) rawHeight rawLimit rawCursor =
      indexed_page network height limit cursor db (h, tip)"
    using request ready c by (simp add: blockEvents_def bindE_def requireReady_def)
  then show ?thesis
    unfolding indexed_page_def Let_def hash(1) rows page using own limit hash(2)
    by (cases "length rest \<le> limit") (auto simp: cursor_at_def last_opt_def base_page_def)
qed

lemma follow_pages_from:
  assumes request: "checkedHeight rawHeight = Inr height" "checkedLimit rawLimit = Inr limit"
    and ready: "rs_ready probed" and db: "servable db height hash"
  shows "checkedCursor rawCursor height = Inr cursor \<Longrightarrow>
    cursor = None \<or> (\<exists>c. cursor = Some c \<and> cu_blockHash c = hash) \<Longrightarrow>
    length (filter (after_cursor cursor) (published_events db height)) < n \<Longrightarrow>
    follow_pages (blockEvents network probed (Inr db) rawHeight rawLimit) n rawCursor =
      Some (map presentEvent (filter (after_cursor cursor) (published_events db height)), True)"
proof (induction n arbitrary: rawCursor cursor)
  case (Suc n)
  let ?rest = "filter (after_cursor cursor) (published_events db height)"
  obtain page where page: "blockEvents network probed (Inr db) rawHeight rawLimit rawCursor = Inr page"
    "pg_events page = map presentEvent (take limit ?rest)"
    "pg_nextCursor page = (if length ?rest \<le> limit then None
      else Some (encodeBlockEventsCursor (cursor_at height hash (last (take limit ?rest)))))"
    "pg_complete page = (length ?rest \<le> limit)"
    using serve_page [OF request Suc.prems(1) ready db Suc.prems(2) refl] by blast
  show ?case
  proof (cases "length ?rest \<le> limit")
    case True
    then show ?thesis using page by simp
  next
    case False
    have limit: "0 < limit" using request(2) by (rule checkedLimit_pos)
    define row where "row = last (take limit ?rest)"
    let ?next = "cursor_at height hash row"
    have "sorted_wrt (\<lambda>x y. row_position x < row_position y) (published_events db height)"
      using db by (intro published_sorted) (simp add: servable_def)
    then have row: "row \<in> set (published_events db height)"
      and later: "filter (after_cursor (Some ?next)) (published_events db height) = drop limit ?rest"
      using positions.next_page [OF _ _ limit, of "published_events db height" ?rest _ row] False
      by (simp_all add: after_cursor_position cursor_at_position row_def)
    have ok: "cursor_ok ?next"
      using db row checkedHeight_small [OF request(1)]
      by (auto simp: servable_def cursor_ok_def cursor_at_def list_all_iff published_events_def)
    have "checkedCursor (TextValue (encodeBlockEventsCursor ?next)) height = Inr (Some ?next)"
      using decode_encode_cursor [OF ok] by (simp add: checkedCursor_def cursor_at_def)
    moreover have "length (drop limit ?rest) < n" using Suc.prems(3) False limit by simp
    ultimately have "follow_pages (blockEvents network probed (Inr db) rawHeight rawLimit) n
        (TextValue (encodeBlockEventsCursor ?next)) = Some (map presentEvent (drop limit ?rest), True)"
      using Suc.IH [of "TextValue (encodeBlockEventsCursor ?next)" "Some ?next"] later by (simp add: cursor_at_def)
    then show ?thesis
      using page False by (simp add: row_def [symmetric] map_append [symmetric] del: map_append)
  qed
qed simp

text \<open>Writing a block the reducer made, and taking one away, keep the positions unique.\<close>

lemma positions_unique_written:
  assumes "db_ok db" and "writeBlock db rb = Inr db'" and "distinct (map event_position (rb_events rb))"
    and "positions_unique (db_events db)"
  shows "positions_unique (db_events db')"
proof -
  have db': "db' = written_block rb db" "rb_height rb \<notin> table_keys (db_blocks db)"
    using writeBlock_shape [OF assms(2)] assms(1) by (simp_all add: db_ok_def block_accepted_def)
  have "ew_blockHeight e \<noteq> rb_height rb" if "e \<in> set (db_events db)" for e
    using assms(1) db'(2) that unfolding db_ok_def block_refs_ok_def Let_def by metis
  moreover have "distinct (map (\<lambda>e. (rb_height rb, Position (er_txIndex e) (er_eventIndex e) (er_subIndex e))) (rb_events rb))"
    using assms(3) by (auto simp: distinct_map inj_on_def event_position_def)
  ultimately show ?thesis
    using assms(4)
    by (auto simp: positions_unique_def db' written_fields event_row_of_def row_position_def o_def)
qed

lemma positions_unique_reduced:
  "db_ok db \<Longrightarrow> reduceBlock L C bd act prevRoot objects block = Inr rb \<Longrightarrow> writeBlock db rb = Inr db' \<Longrightarrow>
     positions_unique (db_events db) \<Longrightarrow> positions_unique (db_events db')"
  using positions_unique_written reduceBlock_events_ordered position_less_distinct by blast

lemma positions_unique_disconnected:
  "positions_unique (db_events db) \<Longrightarrow> positions_unique (db_events (disconnect_height h db))"
proof -
  have restored: "db_events (fold restore_object us d) = db_events d" for us d
    by (induction us arbitrary: d) (simp_all add: restore_object_def delete_object_def split: option.splits)
  show "positions_unique (db_events db) \<Longrightarrow> ?thesis"
    by (auto simp: disconnect_height_def delete_block_def restored unwind_rows_def positions_unique_def Let_def
      intro: distinct_map_filter)
qed

text \<open>A cursor is only good for the block it was issued for.\<close>

lemma cursor_block:
  assumes "blockEvents network probed (Inr db) rawHeight rawLimit (TextValue raw) = Inr page"
  shows "\<exists>c. decodeBlockEventsCursor raw = Some c \<and> checkedHeight rawHeight = Inr (cu_height c) \<and>
    blockHash db (int (cu_height c)) = Some (cu_blockHash c) \<and> pg_blockHash page = Some (cu_blockHash c)"
  using assms
  by (auto simp: blockEvents_def bindE_Inr_iff checkedCursor_def indexed_page_def Let_def
      split: option.splits if_splits)

text \<open>
  C35: following the cursors yields every published event of an indexed block exactly once, in the order of
  the positions, whatever the limit, and the last page says it is complete; the client asks for at most one
  page more than there are events.
\<close>

theorem follow_pages_complete:
  assumes "checkedHeight rawHeight = Inr height" and "checkedLimit rawLimit = Inr limit"
    and "rs_ready probed" and "servable db height hash" and "length (published_events db height) < n"
  shows "follow_pages (blockEvents network probed (Inr db) rawHeight rawLimit) n Absent =
    Some (map presentEvent (published_events db height), True)"
proof -
  have "checkedCursor Absent height = Inr None" by (simp add: checkedCursor_def)
  moreover have "filter (after_cursor None) es = es" for es by (simp add: after_cursor_def)
  ultimately show ?thesis
    using follow_pages_from [OF assms(1-4), of Absent None n network] assms(5) by simp
qed

text \<open>Three events over two pages.\<close>

definition demo_event :: "nat \<Rightarrow> nat \<Rightarrow> nat \<Rightarrow> event_row" where
  "demo_event tx event class = \<lparr>ew_blockHeight = 7, ew_txid = ''t'', ew_txIndex = tx, ew_eventIndex = event,
     ew_subIndex = 0, ew_eventType = 2, ew_validityClass = class, ew_reason = 0, ew_namespace = [],
     ew_objectKey = None, ew_stateSequence = 0, ew_predecessorOutpoint = None, ew_successorOutpoint = None,
     ew_key0 = None, ew_key1 = None, ew_commitment = None, ew_markerPayload = None\<rparr>"

definition demo_events_db :: database where
  "demo_events_db = empty_database\<lparr>
     db_blocks := [(7, \<lparr>bk_hash = replicate 64 CHR ''a'', bk_previousHash = None, bk_time = 0, bk_eventRoot = [],
       bk_objectStateRoot = [], bk_chainedRoot = [], bk_eventCount = 3\<rparr>)],
     db_events := [demo_event 2 0 1, demo_event 1 0 0, demo_event 0 1 2, demo_event 0 0 1],
     db_checkpoints := [(7, \<lparr>kw_blockHash = replicate 64 CHR ''a'', kw_eventRoot = [], kw_objectStateRoot = [],
       kw_chainedRoot = [], kw_foundingCreated = 0, kw_allObjects = 0, kw_activeObjects = 0\<rparr>)]\<rparr>"

definition demo_probed :: readiness_snapshot where
  "demo_probed = evaluateReadiness
     \<lparr>rd_configurationValid = True, rd_databaseAvailable = True, rd_coreAvailable = True,
      rd_coreNetworkMatches = True, rd_coreInitialBlockDownload = False, rd_nodeHeight = Some 7,
      rd_canonicalHeight = Some 7, rd_checkpointHeight = Some 7, rd_maxBlockLag = 1, rd_signerConfigured = True,
      rd_initPhase = Some ActiveInit, rd_initConfigMismatch = None\<rparr>"

lemma demo_probed_ready: "rs_ready demo_probed"
  by (simp add: demo_probed_def evaluateReadiness_ready)

lemma demo_servable: "servable demo_events_db 7 (replicate 64 CHR ''a'')"
proof -
  have "is_hex_text 64 (replicate 64 CHR ''a'')" by code_simp
  then show ?thesis
    by (simp add: servable_def demo_events_db_def empty_database_def blockHash_def positions_unique_def
      demo_event_def row_position_def U32_MAX_def highest_def)
qed

lemma demo_published:
  "published_events demo_events_db 7 = [demo_event 0 0 1, demo_event 0 1 2, demo_event 2 0 1]"
  by (simp add: published_events_def demo_events_db_def empty_database_def demo_event_def row_position_def
    less_eq_page_position_def less_page_position_def)

theorem follow_pages_complete_witness:
  "follow_pages (blockEvents ''regtest'' demo_probed (Inr demo_events_db) (TextValue ''7'') (TextValue ''2'')) 4 Absent =
     Some (map presentEvent [demo_event 0 0 1, demo_event 0 1 2, demo_event 2 0 1], True)"
proof -
  have "checkedHeight (TextValue ''7'') = Inr 7" "checkedLimit (TextValue ''2'') = Inr 2"
    by (simp_all add: checkedHeight_def checkedLimit_def all_digits_def is_digit_def char_code_def
      number_of_text_def digit_val_def MAX_LIMIT_def)
  then show ?thesis
    using follow_pages_complete [where rawHeight = "TextValue ''7''" and rawLimit = "TextValue ''2''" and
        n = 4 and network = "''regtest''", OF _ _ demo_probed_ready demo_servable] by (simp add: demo_published)
qed

end
