(* ===== verification/Protocol_Observation.thy ===== *)
theory Protocol_Observation
  imports Tandem_Package Configuration
begin

text \<open>
  \<open>src/protocol/protocol.service.ts\<close>, \<open>src/indexer/block-projector.service.ts\<close> and
  \<open>src/indexer/mempool-overlay.service.ts\<close>: what one transaction says by its marker alone, the projection
  of a block, and the table of what the mempool says.  The marker parser is the package's.
\<close>

section \<open>One transaction\<close>

text \<open>A marker as the parser returns it: the namespace is that of a marker other than \<open>INIT\<close>.\<close>

record parsed_marker =
  pk_marker :: marker
  pk_namespace :: bytes
  pk_payload :: bytes

text \<open>The functions the service takes from the package; \<open>Inl\<close> is a rejection with its reason.\<close>

record marker_package =
  mp_hexToBytes :: "string \<Rightarrow> bytes result"
  mp_isTandemMarkerCandidate :: "bytes \<Rightarrow> bool"
  mp_parseMarkerScript :: "bytes \<Rightarrow> nat option \<Rightarrow> nat + parsed_marker"

abbreviation (input) MULTIPLE_MARKERS :: nat where "MULTIPLE_MARKERS \<equiv> 0x0001"
abbreviation (input) WRONG_NAMESPACE :: nat where "WRONG_NAMESPACE \<equiv> 0x0006"
abbreviation (input) BAD_HEIGHT_OR_PHASE :: nat where "BAD_HEIGHT_OR_PHASE \<equiv> 0x001e"

datatype protocol_observation =
    NoMarker
  | InvalidMarker (ob_reason: nat) (ob_invalidOutput: "nat option")
  | CandidateMarker (ob_marker: marker) (ob_markerOutput: nat) (ob_payloadHex: string)

text \<open>The outputs whose script may be a marker, with the script.\<close>

definition marker_candidates :: "marker_package \<Rightarrow> bitcoin_output list \<Rightarrow> (bitcoin_output \<times> bytes) list result" where
  "marker_candidates mp outputs =
     bindE (mapE (\<lambda>out. bindE (mp_hexToBytes mp (out_scriptPubKeyHex out)) (\<lambda>script. Inr (out, script))) outputs)
       (\<lambda>scripts. Inr (filter (\<lambda>(_, script). mp_isTandemMarkerCandidate mp script) scripts))"

text \<open>The checks of a parsed marker against the deployment: the reason it fails them, if it does.\<close>

definition marker_mismatch :: "deployment_configuration \<Rightarrow> string \<Rightarrow> parsed_marker \<Rightarrow> nat option" where
  "marker_mismatch d txid p =
     (case pk_marker p of
        InitMarker openHeight closeHeight specHash \<Rightarrow>
          if Some txid \<noteq> dc_initTxid d then Some WRONG_NAMESPACE
          else if Some openHeight \<noteq> map_option int (dc_openHeight d) \<or>
                  Some closeHeight \<noteq> map_option int (dc_closeHeight d) then Some BAD_HEIGHT_OR_PHASE
          else if to_hex specHash \<noteq> dc_specHash d then Some WRONG_NAMESPACE
          else None
      | _ \<Rightarrow> if Some (to_hex (pk_namespace p)) \<noteq> dc_namespace d then Some WRONG_NAMESPACE else None)"

definition inspectTransaction ::
  "marker_package \<Rightarrow> deployment_configuration \<Rightarrow> bitcoin_transaction \<Rightarrow> protocol_observation result" where
  "inspectTransaction mp d t =
     bindE (marker_candidates mp (tx_outputs t)) (\<lambda>candidates.
       (case candidates of
          [] \<Rightarrow> Inr NoMarker
        | [(out, script)] \<Rightarrow>
            (case mp_parseMarkerScript mp script (dc_networkCode d) of
               Inl reason \<Rightarrow> Inr (InvalidMarker reason (Some (out_n out)))
             | Inr p \<Rightarrow>
                 (case marker_mismatch d (tx_txid t) p of
                    Some reason \<Rightarrow> Inr (InvalidMarker reason (Some (out_n out)))
                  | None \<Rightarrow> Inr (CandidateMarker (pk_marker p) (out_n out) (to_hex (pk_payload p)))))
        | _ \<Rightarrow> Inr (InvalidMarker MULTIPLE_MARKERS None)))"

text \<open>An \<open>INIT\<close> marker passes only when the deployment declares its heights.\<close>

lemma init_marker_passes:
  "pk_marker p = InitMarker openHeight closeHeight specHash \<Longrightarrow>
     marker_mismatch d txid p = None \<longleftrightarrow>
       dc_initTxid d = Some txid \<and> to_hex specHash = dc_specHash d \<and>
       (\<exists>o' c'. dc_openHeight d = Some o' \<and> dc_closeHeight d = Some c' \<and> openHeight = int o' \<and> closeHeight = int c')"
  by (cases "dc_openHeight d"; cases "dc_closeHeight d") (auto simp: marker_mismatch_def)

lemma init_heights_undeclared:
  "pk_marker p = InitMarker openHeight closeHeight specHash \<Longrightarrow> dc_initTxid d = Some txid \<Longrightarrow>
     dc_openHeight d = None \<Longrightarrow> marker_mismatch d txid p = Some BAD_HEIGHT_OR_PHASE"
  by (simp add: marker_mismatch_def)

lemma inspectTransaction_candidate:
  "inspectTransaction mp d t = Inr (CandidateMarker m n payload) \<longleftrightarrow>
     (\<exists>out script p. marker_candidates mp (tx_outputs t) = Inr [(out, script)] \<and>
        mp_parseMarkerScript mp script (dc_networkCode d) = Inr p \<and> marker_mismatch d (tx_txid t) p = None \<and>
        m = pk_marker p \<and> n = out_n out \<and> payload = to_hex (pk_payload p))"
proof (cases "marker_candidates mp (tx_outputs t)")
  case (Inr candidates)
  consider "candidates = []" | out script where "candidates = [(out, script)]" | x y rest where "candidates = x # y # rest"
    by (metis list.exhaust surj_pair)
  then show ?thesis
    using Inr by cases (auto simp: inspectTransaction_def bindE_def split: sum.splits option.splits)
qed (simp add: inspectTransaction_def bindE_def)

section \<open>A block\<close>

record projected_transaction =
  pt_txIndex :: nat
  pt_txid :: string
  pt_wtxid :: string
  pt_observation :: protocol_observation

definition project :: "marker_package \<Rightarrow> deployment_configuration \<Rightarrow> bitcoin_block \<Rightarrow> projected_transaction list result" where
  "project mp d block =
     bindE (orderedBlockTransactions block)
       (mapE (\<lambda>(txIndex, t). bindE (inspectTransaction mp d t) (\<lambda>observation.
          Inr \<lparr>pt_txIndex = txIndex, pt_txid = tx_txid t, pt_wtxid = tx_wtxid t, pt_observation = observation\<rparr>)))"

lemma mapE_Inr_images: "mapE f xs = Inr ys \<Longrightarrow> (\<And>x y. f x = Inr y \<Longrightarrow> g y = h x) \<Longrightarrow> map g ys = map h xs"
  by (induction xs arbitrary: ys) (auto simp: bindE_Inr_iff)

text \<open>The projection keeps the order of the block.\<close>

lemma project_order:
  assumes "project mp d block = Inr ps"
  shows "map pt_txIndex ps = [0..<length (blk_transactions block)] \<and>
    map pt_txid ps = map tx_txid (blk_transactions block)"
proof -
  obtain ots where ots: "orderedBlockTransactions block = Inr ots" and ps: "mapE (\<lambda>(txIndex, t).
      bindE (inspectTransaction mp d t) (\<lambda>observation. Inr \<lparr>pt_txIndex = txIndex, pt_txid = tx_txid t,
        pt_wtxid = tx_wtxid t, pt_observation = observation\<rparr>)) ots = Inr ps"
    using assms by (auto simp: project_def bindE_Inr_iff)
  have "map pt_txIndex ps = map fst ots" "map pt_txid ps = map (tx_txid \<circ> snd) ots"
    by (rule mapE_Inr_images [OF ps]; auto simp: bindE_Inr_iff split: prod.splits)+
  moreover have "map fst ots = [0..<length (blk_transactions block)]" using ots by (simp add: orderedBlockTransactions_iff)
  ultimately show ?thesis using orderedBlockTransactions_snd [OF ots] by (metis map_map)
qed

section \<open>The mempool\<close>

record mempool_row =
  mm_wtxid :: string
  mm_classification :: string
  mm_reason :: "nat option"
  mm_rawObservation :: protocol_observation
  mm_firstSeenAt :: int
  mm_lastSeenAt :: int

type_synonym mempool_table = "(string, mempool_row) js_map"

fun classification :: "protocol_observation \<Rightarrow> string" where
  "classification NoMarker = ''none''"
| "classification (InvalidMarker _ _) = ''invalid''"
| "classification (CandidateMarker _ _ _) = ''candidate''"

text \<open>
  \<open>repository.save\<close>: the row of the key gets the given columns, or a new row is inserted, whose
  \<open>first_seen_at\<close> the database sets to its time.
\<close>

definition save_observation ::
  "int \<Rightarrow> bitcoin_transaction \<Rightarrow> protocol_observation \<Rightarrow> int \<Rightarrow> mempool_table \<Rightarrow> mempool_table" where
  "save_observation now t observation seenAt table =
     js_set (tx_txid t)
       \<lparr>mm_wtxid = tx_wtxid t, mm_classification = classification observation,
        mm_reason = (case observation of InvalidMarker reason _ \<Rightarrow> Some reason | _ \<Rightarrow> None),
        mm_rawObservation = observation,
        mm_firstSeenAt = (case js_get table (tx_txid t) of None \<Rightarrow> now | Some row \<Rightarrow> mm_firstSeenAt row),
        mm_lastSeenAt = seenAt\<rparr> table"

definition observe ::
  "marker_package \<Rightarrow> deployment_configuration \<Rightarrow> int \<Rightarrow> bitcoin_transaction \<Rightarrow> int \<Rightarrow> mempool_table \<Rightarrow>
     (protocol_observation \<times> mempool_table) result" where
  "observe mp d now t seenAt table =
     bindE (inspectTransaction mp d t) (\<lambda>observation.
       if observation = NoMarker then Inr (observation, table)
       else Inr (observation, save_observation now t observation seenAt table))"

text \<open>\<open>DELETE ... WHERE txid IN (...)\<close>.\<close>

definition delete_txids :: "string list \<Rightarrow> mempool_table \<Rightarrow> mempool_table" where
  "delete_txids txids table = filter (\<lambda>(txid, _). txid \<notin> set txids) table"

definition reconcile :: "string list \<Rightarrow> mempool_table \<Rightarrow> nat \<times> mempool_table" where
  "reconcile liveTxids table =
     (let stale = filter (\<lambda>txid. txid \<notin> set liveTxids) (map fst table)
      in if stale = [] then (0, table) else (length stale, delete_txids stale table))"

definition clearConfirmed :: "string list \<Rightarrow> mempool_table \<Rightarrow> mempool_table" where
  "clearConfirmed txids table = (if txids = [] then table else delete_txids txids table)"

text \<open>Exactly the rows of live transactions are left, and the count is that of the others.\<close>

lemma reconcile_exact:
  "snd (reconcile live table) = filter (\<lambda>(txid, _). txid \<in> set live) table \<and>
   fst (reconcile live table) + length (snd (reconcile live table)) = length table"
proof (cases "filter (\<lambda>txid. txid \<notin> set live) (map fst table) = []")
  case True
  then have "filter (\<lambda>(txid, _). txid \<in> set live) table = table"
    by (auto simp: filter_empty_conv intro!: filter_True)
  with True show ?thesis by (simp add: reconcile_def)
next
  case False
  have "delete_txids (filter (\<lambda>txid. txid \<notin> set live) (map fst table)) table =
      filter (\<lambda>(txid, _). txid \<in> set live) table"
    unfolding delete_txids_def by (rule filter_cong) force+
  moreover have "length (filter (\<lambda>txid. txid \<notin> set live) (map fst table)) +
      length (filter (\<lambda>(txid, _). txid \<in> set live) table) = length table"
    by (induction table) auto
  ultimately show ?thesis using False by (simp add: reconcile_def Let_def)
qed

lemma observe_wf: "observe mp d now t seenAt table = Inr (ob, table') \<Longrightarrow> js_wf table \<Longrightarrow> js_wf table'"
  by (auto simp: observe_def save_observation_def bindE_Inr_iff js_wf_set split: if_splits)

text \<open>Seeing a transaction again keeps when it was first seen.\<close>

lemma observe_firstSeen:
  assumes "observe mp d now t seenAt table = Inr (ob, table')" and "ob \<noteq> NoMarker"
    and "observe mp d now' t seenAt' table' = Inr (ob', table'')"
  shows "ob' = ob \<and> map_option mm_firstSeenAt (js_get table'' (tx_txid t)) =
      map_option mm_firstSeenAt (js_get table' (tx_txid t)) \<and>
    map_option mm_lastSeenAt (js_get table'' (tx_txid t)) = Some seenAt'"
  using assms by (auto simp: observe_def save_observation_def bindE_Inr_iff js_get_set split: if_splits)

end
