(* ===== verification/Query_Service.thy ===== *)
theory Query_Service
  imports Block_Events Carrier_Address Catalog Protocol_Observation
begin

text \<open>
  \<open>src/api/tandem-query.service.ts\<close>: the reads of the API, and the conflict table.  A request sees the
  database query by query; a number from a controller is \<open>None\<close> when it is no safe integer.  The column
  \<open>carrier_program\<close> the database generates is computed where it is read, with SHA-256 as a parameter.
\<close>

section \<open>Parameters\<close>

definition checkedHash :: "string \<Rightarrow> string \<Rightarrow> string result" where
  "checkedHash v label =
     (let normalized = to_lower v
      in if HASH_HEX normalized then Inr normalized
         else Inl (HttpException 400 (label @ '' must be 32-byte hex'')))"

definition query_checkedLimit :: "int option \<Rightarrow> nat result" where
  "query_checkedLimit limit =
     (case limit of
        Some n \<Rightarrow> if n < 1 \<or> n > 200 then Inl (HttpException 400 ''limit must be between 1 and 200'')
          else Inr (nat n)
      | None \<Rightarrow> Inl (HttpException 400 ''limit must be between 1 and 200''))"

definition is_search_char :: "char \<Rightarrow> bool" where
  "is_search_char c = (is_alpha c \<or> is_digit c \<or> c \<in> set '':._-'')"

definition checkedSearch :: "request_value \<Rightarrow> string result" where
  "checkedSearch v =
     (case v of
        TextValue s \<Rightarrow>
          (let query = trim s
           in if query = [] \<or> length query > 128
              then Inl (HttpException 400 ''search query must contain between 1 and 128 characters'')
              else if \<not> list_all is_search_char query
              then Inl (HttpException 400 ''search query contains unsupported characters'')
              else Inr query)
      | _ \<Rightarrow> Inl (HttpException 400 ''search query must contain between 1 and 128 characters''))"

definition checked_outpoint :: "string \<Rightarrow> int option \<Rightarrow> string result" where
  "checked_outpoint txid vout =
     bindE (checkedHash txid ''txid'') (\<lambda>checkedTxid.
       (case vout of
          Some n \<Rightarrow> if n < 0 \<or> n > 0xffffffff then Inl (HttpException 400 ''vout is invalid'')
            else Inr (checkedTxid @ '':'' @ nat_text (nat n))
        | None \<Rightarrow> Inl (HttpException 400 ''vout is invalid'')))"

text \<open>\<open>ORDER BY\<close> several columns, the first one first; rows that tie keep their order.\<close>

definition order_by :: "('r \<Rightarrow> int) list \<Rightarrow> 'r list \<Rightarrow> 'r list" where
  "order_by columns rows = foldr sort_key columns rows"

section \<open>Objects\<close>

record presented_object =
  po_objectKey :: string
  po_row :: object_row
  po_genesisOutpoint :: string
  po_founding :: bool
  po_displayId :: string

definition presentObject :: "deployment_configuration \<Rightarrow> string \<times> object_row \<Rightarrow> presented_object" where
  "presentObject d row =
     \<lparr>po_objectKey = fst row, po_row = snd row, po_genesisOutpoint = ow_createTxid (snd row) @ '':1'',
      po_founding = ow_founding (snd row),
      po_displayId = ''tandem:'' @ dc_network d @ '':'' @ nullish (dc_initTxid d) ''null'' @ '':'' @
        ow_createTxid (snd row) @ '':1''\<rparr>"

definition object_not_found :: js_error where
  "object_not_found = HttpException 404 ''object not found''"

definition query_object ::
  "deployment_configuration \<Rightarrow> database_view \<Rightarrow> string \<Rightarrow> (presented_object \<times> chapter_table_row list) result" where
  "query_object d views objectKey =
     bindE (checkedHash objectKey ''object key'') (\<lambda>key.
     bindE (views 0) (\<lambda>db.
     bindE (of_option object_not_found (js_get (db_objects db) key)) (\<lambda>row.
     bindE (views 1) (\<lambda>db'.
       Inr (presentObject d (key, row),
         sort_key hw_sequence (filter (\<lambda>r. hw_objectKey r = key) (db_chapters db')))))))"

text \<open>The carrier is looked up first; the object is read by the queries that follow.\<close>

definition objectByOutpoint ::
  "deployment_configuration \<Rightarrow> database_view \<Rightarrow> string \<Rightarrow> int option \<Rightarrow>
     (presented_object \<times> chapter_table_row list) result" where
  "objectByOutpoint d views txid vout =
     bindE (checked_outpoint txid vout) (\<lambda>outpoint.
     bindE (views 0) (\<lambda>db.
     bindE (of_option object_not_found (js_get (db_carriers db) outpoint)) (\<lambda>carrier.
       query_object d (\<lambda>n. views (n + 1)) (cw_objectKey carrier))))"

definition query_objects ::
  "deployment_configuration \<Rightarrow> database result \<Rightarrow> int option \<Rightarrow> presented_object list result" where
  "query_objects d view limit =
     bindE (query_checkedLimit limit) (\<lambda>n. bindE view (\<lambda>db.
       Inr (map (presentObject d) (take n (catalog_rows db)))))"

definition query_carrier :: "database result \<Rightarrow> string \<Rightarrow> int option \<Rightarrow> (string \<times> carrier_row) result" where
  "query_carrier view txid vout =
     bindE (checked_outpoint txid vout) (\<lambda>outpoint. bindE view (\<lambda>db.
     bindE (of_option (HttpException 404 ''carrier not found'') (js_get (db_carriers db) outpoint)) (\<lambda>carrier.
       Inr (outpoint, carrier))))"

section \<open>Transactions and events\<close>

definition events_of :: "database \<Rightarrow> string \<Rightarrow> event_row list" where
  "events_of db txid =
     order_by [\<lambda>e. int (ew_eventIndex e), \<lambda>e. int (ew_subIndex e)] (filter (\<lambda>e. ew_txid e = txid) (db_events db))"

definition transaction_not_found :: js_error where
  "transaction_not_found = HttpException 404 ''transaction not found''"

definition query_events :: "database_view \<Rightarrow> string \<Rightarrow> (string \<times> event_row list) result" where
  "query_events views txid =
     bindE (checkedHash txid ''txid'') (\<lambda>checkedTxid.
     bindE (views 0) (\<lambda>db.
     let rows = events_of db checkedTxid in
     bindE (if rows \<noteq> [] then Inr ()
            else bindE (views 1) (\<lambda>db'.
              throw_unless (js_get (db_transactions db') checkedTxid \<noteq> None) transaction_not_found)) (\<lambda>_.
       Inr (checkedTxid, rows))))"

definition query_transaction :: "database_view \<Rightarrow> string \<Rightarrow> ((string \<times> transaction_row) \<times> event_row list) result" where
  "query_transaction views txid =
     bindE (checkedHash txid ''txid'') (\<lambda>checkedTxid.
     bindE (views 0) (\<lambda>db.
     bindE (of_option transaction_not_found (js_get (db_transactions db) checkedTxid)) (\<lambda>row.
     bindE (views 1) (\<lambda>db'. Inr ((checkedTxid, row), events_of db' checkedTxid)))))"

definition query_invalidEvents :: "database result \<Rightarrow> int option \<Rightarrow> event_row list result" where
  "query_invalidEvents view limit =
     bindE (query_checkedLimit limit) (\<lambda>n. bindE view (\<lambda>db.
       Inr (take n (order_by [\<lambda>e. - ew_blockHeight e, \<lambda>e. - int (ew_txIndex e), \<lambda>e. - int (ew_eventIndex e)]
         (filter (\<lambda>e. ew_validityClass e = 0) (db_events db))))))"

section \<open>Addresses\<close>

text \<open>The generated column: the program of the carrier script of two keys.\<close>

definition carrier_program_of :: "(bytes \<Rightarrow> bytes) \<Rightarrow> string \<Rightarrow> string \<Rightarrow> string" where
  "carrier_program_of digest256 key0 key1 = to_hex (digest256 (from_hex (''5221'' @ key0 @ ''21'' @ key1 @ ''52ae'')))"

record address_item =
  ai_address :: string
  ai_outpoint :: string
  ai_carrier :: carrier_row
  ai_status :: object_status
  ai_stateSequence :: int

text \<open>The joins of the states of a program with their carriers and objects.\<close>

definition address_rows ::
  "(bytes \<Rightarrow> bytes) \<Rightarrow> database \<Rightarrow> carrier_address \<Rightarrow> address_item list" where
  "address_rows digest256 db decoded =
     List.map_filter (\<lambda>(outpoint, s).
         case js_get (db_carriers db) outpoint of
           None \<Rightarrow> None
         | Some c \<Rightarrow> map_option (\<lambda>r. \<lparr>ai_address = ca_address decoded, ai_outpoint = outpoint, ai_carrier = c,
             ai_status = ow_status r, ai_stateSequence = ow_stateSequence r\<rparr>) (js_get (db_objects db) (cw_objectKey c)))
       (filter (\<lambda>(_, s). carrier_program_of digest256 (sw_key0 s) (sw_key1 s) = ca_witnessProgramHex decoded) (db_states db))"

definition address_key :: "address_item \<Rightarrow> catalog_key" where
  "address_key item = CatalogKey (cw_createdHeight (ai_carrier item)) (ai_outpoint item)"

definition query_address ::
  "(bytes \<Rightarrow> bytes) \<Rightarrow> deployment_configuration \<Rightarrow> database result \<Rightarrow> string \<Rightarrow> int option \<Rightarrow>
     (string \<times> address_item list) result" where
  "query_address digest256 d view addressValue limit =
     bindE (of_option (HttpException 400 ''address is not a valid carrier P2WSH address'')
       (decodeCarrierAddress addressValue (dc_network d))) (\<lambda>decoded.
     bindE (query_checkedLimit limit) (\<lambda>n.
     bindE view (\<lambda>db.
       Inr (ca_address decoded, take n (sort_key address_key (address_rows digest256 db decoded))))))"

section \<open>Mempool, conflicts, reorganizations, counts\<close>

text \<open>\<open>tandem_conflicts\<close>, in the order of its ids.\<close>

record conflict_row =
  cf_detectedHeight :: int
  cf_outpoint :: string
  cf_winnerTxid :: "string option"
  cf_loserTxid :: string
  cf_resolved :: bool

text \<open>The \<open>txid\<close> ties of the query are resolved by its text.\<close>

definition mempool_key :: "string \<times> mempool_row \<Rightarrow> catalog_key" where
  "mempool_key row = CatalogKey (mm_lastSeenAt (snd row)) (fst row)"

definition query_mempool :: "mempool_table \<Rightarrow> int option \<Rightarrow> (string \<times> mempool_row) list result" where
  "query_mempool table limit = bindE (query_checkedLimit limit) (\<lambda>n. Inr (take n (sort_key mempool_key table)))"

definition query_conflicts :: "conflict_row list \<Rightarrow> int option \<Rightarrow> (nat \<times> conflict_row) list result" where
  "query_conflicts table limit =
     bindE (query_checkedLimit limit) (\<lambda>n.
       Inr (take n (order_by [\<lambda>r. - cf_detectedHeight (snd r), \<lambda>r. - int (fst r)]
         (zip [1..<length table + 1] table))))"

definition query_reorgs :: "database result \<Rightarrow> int option \<Rightarrow> (nat \<times> reorg_row) list result" where
  "query_reorgs view limit =
     bindE (query_checkedLimit limit) (\<lambda>n. bindE view (\<lambda>db.
       Inr (take n (rev (zip [1..<length (db_reorg_journal db) + 1] (db_reorg_journal db))))))"

record query_stats =
  qs_allObjects :: nat
  qs_activeObjects :: nat
  qs_foundingObjects :: nat
  qs_chapters :: nat
  qs_invalidEvents :: nat
  qs_unresolvedConflicts :: nat

definition stats :: "database \<Rightarrow> conflict_row list \<Rightarrow> query_stats" where
  "stats db conflicts =
     \<lparr>qs_allObjects = length (db_objects db),
      qs_activeObjects = length (filter (\<lambda>r. ow_status (snd r) = Active) (db_objects db)),
      qs_foundingObjects = length (filter (\<lambda>r. ow_founding (snd r)) (db_objects db)),
      qs_chapters = length (db_chapters db),
      qs_invalidEvents = length (filter (\<lambda>e. ew_validityClass e = 0) (db_events db)),
      qs_unresolvedConflicts = length (filter (\<lambda>c. \<not> cf_resolved c) conflicts)\<rparr>"

section \<open>Search\<close>

record search_result =
  se_query :: string
  se_objects :: "(string \<times> object_row) list"
  se_transactions :: "(string \<times> transaction_row) list"
  se_carriers :: "(string \<times> string \<times> carrier_row) list"

definition search ::
  "(bytes \<Rightarrow> bytes) \<Rightarrow> deployment_configuration \<Rightarrow> database_view \<Rightarrow> request_value \<Rightarrow> int option \<Rightarrow> search_result result" where
  "search digest256 d views queryValue limit =
     bindE (checkedSearch queryValue) (\<lambda>query.
     bindE (query_checkedLimit limit) (\<lambda>n.
     let hash = (if HASH_HEX (to_lower query) then Some (to_lower query) else None);
         address = decodeCarrierAddress query (dc_network d) in
     bindE (case hash of None \<Rightarrow> Inr []
            | Some h \<Rightarrow> bindE (views 0) (\<lambda>db.
                Inr (take n (order_by [\<lambda>r. - ow_createHeight (snd r)]
                  (filter (\<lambda>(k, r). k = h \<or> ow_createTxid r = h \<or> ow_terminalTxid r = Some h) (db_objects db)))))) (\<lambda>objs.
     bindE (case hash of None \<Rightarrow> Inr []
            | Some h \<Rightarrow> bindE (views 1) (\<lambda>db.
                Inr (take n (filter (\<lambda>(k, r). k = h \<or> tw_wtxid r = h) (db_transactions db))))) (\<lambda>transactions.
     bindE (case address of None \<Rightarrow> Inr []
            | Some a \<Rightarrow> bindE (views 2) (\<lambda>db.
                Inr (take n (order_by [\<lambda>(_, _, c). - cw_createdHeight c]
                  (List.map_filter (\<lambda>(outpoint, s). map_option (\<lambda>c. (ca_address a, outpoint, c)) (js_get (db_carriers db) outpoint))
                    (filter (\<lambda>(_, s). carrier_program_of digest256 (sw_key0 s) (sw_key1 s) = ca_witnessProgramHex a)
                      (db_states db))))))) (\<lambda>carriers.
       Inr \<lparr>se_query = query, se_objects = objs, se_transactions = transactions, se_carriers = carriers\<rparr>)))))"

section \<open>Status\<close>

text \<open>The deployment as it runs: what the \<open>INIT\<close> confirmed overrides what was configured.\<close>

record status_heights =
  sh_initHeight :: "int option"
  sh_openHeight :: "int option"
  sh_closeHeight :: "int option"

record init_status =
  is_phase :: init_phase
  is_txid :: "string option"
  is_height :: "int option"
  is_blockHash :: "string option"
  is_openHeight :: "int option"
  is_closeHeight :: "int option"
  is_valid :: "bool option"
  is_reason :: "nat option"
  is_reasonName :: "string option"
  is_seenInMempool :: bool
  is_configMismatch :: "string option"

record status_body =
  sb_deployment :: deployment_configuration
  sb_heights :: status_heights
  sb_init :: init_status
  sb_node :: "node_tip option"
  sb_canonicalTip :: "(int \<times> block_row) option"
  sb_mempool :: nat
  sb_lastSyncAt :: "string option"
  sb_lastError :: "string option"

text \<open>\<open>a?.x ?? b\<close>.\<close>

definition or_else :: "'a option \<Rightarrow> 'a option \<Rightarrow> 'a option" where
  "or_else a b = (case a of None \<Rightarrow> b | Some x \<Rightarrow> Some x)"

definition status ::
  "(nat \<Rightarrow> string) \<Rightarrow> deployment_configuration \<Rightarrow> deployment_state \<Rightarrow> database \<Rightarrow> mempool_table \<Rightarrow> status_body" where
  "status reasonName d state db mempool =
     (let activation = ds_activation state
      in \<lparr>sb_deployment = d,
          sb_heights = \<lparr>sh_initHeight = or_else (map_option ia_height activation) (map_option int (dc_initHeight d)),
            sh_openHeight = or_else (Option.bind activation ia_openHeight) (map_option int (dc_openHeight d)),
            sh_closeHeight = or_else (Option.bind activation ia_closeHeight) (map_option int (dc_closeHeight d))\<rparr>,
          sb_init = \<lparr>is_phase = ds_phase state, is_txid = dc_initTxid d,
            is_height = map_option ia_height activation, is_blockHash = map_option ia_blockHash activation,
            is_openHeight = Option.bind activation ia_openHeight, is_closeHeight = Option.bind activation ia_closeHeight,
            is_valid = map_option ia_valid activation, is_reason = map_option ia_reason activation,
            is_reasonName = map_option (reasonName \<circ> ia_reason) activation,
            is_seenInMempool = ds_initSeenInMempool state, is_configMismatch = ds_initConfigMismatch state\<rparr>,
          sb_node = ds_node state, sb_canonicalTip = highest (db_blocks db), sb_mempool = length mempool,
          sb_lastSyncAt = ds_lastSyncAt state, sb_lastError = ds_lastError state\<rparr>)"

end
