(* ===== verification/Query_Properties.thy ===== *)
theory Query_Properties
  imports Query_Service Carrier_Properties Store_Demo
begin

text \<open>
  The address query is complete: on a database the store keeps, the joins lose no carrier, so that the
  address of a program lists exactly the carriers locked to it.  An object is found by every carrier it
  ever held.
\<close>

section \<open>Addresses\<close>

lemma carrier_object:
  assumes "db_ok db" and "js_get (db_carriers db) out = Some c"
  shows "\<exists>r. js_get (db_objects db) (cw_objectKey c) = Some r"
proof -
  have "c \<in> table_rows (db_carriers db)" using assms(2) by (auto dest: map_of_SomeD intro: rev_image_eqI)
  then have "carrier_ok db c" using assms(1) unfolding db_ok_def object_refs_ok_def by blast
  then have "cw_objectKey c \<in> table_keys (db_objects db)" by (simp add: carrier_ok_def)
  then show ?thesis by (cases "js_get (db_objects db) (cw_objectKey c)") (auto simp: map_of_eq_None_iff)
qed

lemma store_carrier:
  assumes "store_ok db objects" and "(out, s) \<in> set (db_states db)"
  shows "\<exists>c r. js_get (db_carriers db) out = Some c \<and> js_get (db_objects db) (cw_objectKey c) = Some r"
proof -
  note ok = store_okD(1) [OF assms(1)]
  have "js_get (db_states db) out = Some s" using assms(2) ok by (simp add: db_ok_def keys_ok_def)
  then have "js_get (db_carriers db) out \<noteq> None" using store_okD(5) [OF assms(1), of out] by auto
  then show ?thesis using carrier_object [OF ok] by blast
qed

text \<open>The outpoints of the states of a program.\<close>

definition program_outpoints :: "(bytes \<Rightarrow> bytes) \<Rightarrow> database \<Rightarrow> string \<Rightarrow> string list" where
  "program_outpoints digest256 db p =
     map fst (filter (\<lambda>(_, s). carrier_program_of digest256 (sw_key0 s) (sw_key1 s) = p) (db_states db))"

lemma address_rows_outpoints:
  assumes "store_ok db objects"
  shows "map ai_outpoint (address_rows digest256 db decoded) =
    program_outpoints digest256 db (ca_witnessProgramHex decoded)"
proof -
  let ?join = "\<lambda>(outpoint, s :: state_table_row). case js_get (db_carriers db) outpoint of
      None \<Rightarrow> None
    | Some c \<Rightarrow> map_option (\<lambda>r. \<lparr>ai_address = ca_address decoded, ai_outpoint = outpoint, ai_carrier = c,
        ai_status = ow_status r, ai_stateSequence = ow_stateSequence r\<rparr>) (js_get (db_objects db) (cw_objectKey c))"
  have "set rows \<subseteq> set (db_states db) \<Longrightarrow> map ai_outpoint (List.map_filter ?join rows) = map fst rows" for rows
  proof (induction rows)
    case (Cons row rows)
    obtain out s where row: "row = (out, s)" by (cases row)
    with Cons.prems obtain c r where "js_get (db_carriers db) out = Some c" "js_get (db_objects db) (cw_objectKey c) = Some r"
      using store_carrier [OF assms, of out s] by auto
    then show ?case using Cons by (simp add: row List.map_filter_simps)
  qed (simp add: List.map_filter_simps)
  from this [of "filter (\<lambda>(_, s). carrier_program_of digest256 (sw_key0 s) (sw_key1 s) = ca_witnessProgramHex decoded)
      (db_states db)"]
  show ?thesis by (simp add: address_rows_def program_outpoints_def)
qed

lemma address_rows_sorted:
  assumes "store_ok db objects"
  shows "sorted_wrt (\<lambda>x y. address_key x < address_key y) (sort_key address_key (address_rows digest256 db decoded))"
proof -
  let ?rows = "address_rows digest256 db decoded"
  have "js_wf (db_states db)" using store_okD(1) [OF assms] by (simp add: db_ok_def keys_ok_def)
  then have outs: "distinct (map ai_outpoint ?rows)"
    unfolding address_rows_outpoints [OF assms] program_outpoints_def by (rule distinct_map_filter)
  have "distinct (map address_key ?rows)"
    using outs by (auto simp: distinct_map inj_on_def address_key_def)
  then have "distinct (map address_key (sort_key address_key ?rows))" by (simp add: distinct_map)
  moreover have "sorted (map address_key (sort_key address_key ?rows))" by simp
  ultimately have "sorted_wrt (<) (map address_key (sort_key address_key ?rows))" by (simp add: strict_sorted_iff)
  then show ?thesis by (simp add: sorted_wrt_map)
qed

text \<open>
  C37: the address of a program lists exactly the carriers locked to it.  On a database the store keeps, the
  query for the address a program is encoded as returns the first rows of a list that has every carrier of
  the program exactly once, the newest first: neither the decoding nor the joins lose or repeat one.
\<close>

theorem query_address_complete:
  assumes "store_ok db objects" and "is_hex_text 64 p" and "query_checkedLimit limit = Inr n"
  shows "\<exists>address items. encodeCarrierAddress p (dc_network d) = Inr address \<and>
    query_address digest256 d (Inr db) address limit = Inr (address, take n items) \<and>
    sorted_wrt (\<lambda>x y. address_key x < address_key y) items \<and>
    mset (map ai_outpoint items) = mset (program_outpoints digest256 db p)"
proof -
  obtain address where a: "encodeCarrierAddress p (dc_network d) = Inr address"
    "decodeCarrierAddress address (dc_network d) = Some \<lparr>ca_address = address, ca_witnessProgramHex = p\<rparr>"
    using encode_decodes [OF assms(2), of "dc_network d"] by auto
  let ?decoded = "\<lparr>ca_address = address, ca_witnessProgramHex = p\<rparr>"
  let ?items = "sort_key address_key (address_rows digest256 db ?decoded)"
  have "query_address digest256 d (Inr db) address limit = Inr (address, take n ?items)"
    by (simp add: query_address_def a(2) assms(3))
  moreover have "mset (map ai_outpoint ?items) = mset (program_outpoints digest256 db p)"
    using address_rows_outpoints [OF assms(1), of digest256 ?decoded] by (metis carrier_address.select_convs(2) mset_map mset_sort)
  ultimately show ?thesis using a(1) address_rows_sorted [OF assms(1)] by blast
qed

text \<open>The one carrier of the demonstration database, under a digest that maps everything to its program.\<close>

theorem query_address_complete_witness:
  "\<forall>d. \<exists>address item. encodeCarrierAddress (demo_txid 9) (dc_network d) = Inr address \<and>
     query_address (\<lambda>_. replicate 32 9) d (Inr demo_db) address (Some 5) = Inr (address, [item]) \<and>
     ai_outpoint item = display_outpoint (demo_txid 9) 1"
proof
  fix d
  have "carrier_program_of (\<lambda>_. replicate 32 9) k0 k1 = demo_txid 9" for k0 k1
    by (simp add: carrier_program_of_def demo_txid_def)
  then have own: "mset (program_outpoints (\<lambda>_. replicate 32 9) demo_db (demo_txid 9)) = {#display_outpoint (demo_txid 9) 1#}"
    by (simp add: program_outpoints_def demo_db_def)
  have "query_checkedLimit (Some 5) = Inr 5" by (simp add: query_checkedLimit_def)
  from query_address_complete [OF demo_store_ok demo_txid_hex this]
  obtain address items where r: "encodeCarrierAddress (demo_txid 9) (dc_network d) = Inr address"
    "query_address (\<lambda>_. replicate 32 9) d (Inr demo_db) address (Some 5) = Inr (address, take 5 items)"
    "mset (map ai_outpoint items) = mset (program_outpoints (\<lambda>_. replicate 32 9) demo_db (demo_txid 9))" by blast
  have "map ai_outpoint items = [display_outpoint (demo_txid 9) 1]"
    using r(3) unfolding own by (simp only: mset_single_iff)
  with r(1,2) show "\<exists>address item. encodeCarrierAddress (demo_txid 9) (dc_network d) = Inr address \<and>
     query_address (\<lambda>_. replicate 32 9) d (Inr demo_db) address (Some 5) = Inr (address, [item]) \<and>
     ai_outpoint item = display_outpoint (demo_txid 9) 1"
    by (cases items) auto
qed

text \<open>An object with a carrier at the given outpoint is found by it.\<close>

lemma objectByOutpoint_found:
  assumes "db_ok db" and "checked_outpoint txid vout = Inr outpoint" and "js_get (db_carriers db) outpoint = Some c"
    and "HASH_HEX (cw_objectKey c)"
  shows "objectByOutpoint d (\<lambda>_. Inr db) txid vout = query_object d (\<lambda>_. Inr db) (cw_objectKey c) \<and>
    (\<exists>r chapters. js_get (db_objects db) (cw_objectKey c) = Some r \<and>
       query_object d (\<lambda>_. Inr db) (cw_objectKey c) = Inr (presentObject d (cw_objectKey c, r), chapters))"
proof -
  obtain r where "js_get (db_objects db) (cw_objectKey c) = Some r"
    using carrier_object [OF assms(1,3)] by blast
  moreover have "to_lower (cw_objectKey c) = cw_objectKey c" using assms(4) is_hex_text_lower by (simp add: HASH_HEX_def)
  ultimately show ?thesis
    using assms(2-4) by (simp add: objectByOutpoint_def query_object_def checkedHash_def)
qed

end
