(* ===== verification/Validate_Init.thy ===== *)
theory Validate_Init
  imports Sync
begin

text \<open>
  \<open>src/tools/validate-init.ts\<close>: the command that checks a candidate \<open>INIT\<close> with the reducer of the
  indexer.  The node, the bundled specification and the package are parameters; the outcome is the report
  and the exit code, or a message and the exit code.
\<close>

section \<open>Outcomes\<close>

type_synonym 'a tool = "(string \<times> nat) + 'a"

definition bindT :: "'a tool \<Rightarrow> ('a \<Rightarrow> 'b tool) \<Rightarrow> 'b tool" where
  "bindT m f = (case m of Inl e \<Rightarrow> Inl e | Inr x \<Rightarrow> f x)"

definition tool_fail :: "string \<Rightarrow> 'a tool" where
  "tool_fail message = Inl (message, 1)"

definition tool_check :: "bool \<Rightarrow> string \<Rightarrow> unit tool" where
  "tool_check b message = (if b then Inr () else tool_fail message)"

fun mapT :: "('a \<Rightarrow> 'b tool) \<Rightarrow> 'a list \<Rightarrow> 'b list tool" where
  "mapT f [] = Inr []"
| "mapT f (x # xs) = bindT (f x) (\<lambda>y. bindT (mapT f xs) (\<lambda>ys. Inr (y # ys)))"

lemma bindT_simps [simp]: "bindT (Inl e) f = Inl e" "bindT (Inr x) f = f x"
  by (simp_all add: bindT_def)

lemma bindT_Inr_iff [simp]: "bindT m f = Inr y \<longleftrightarrow> (\<exists>x. m = Inr x \<and> f x = Inr y)"
  by (cases m) simp_all

lemma tool_check_Inr [simp]: "tool_check b message = Inr u \<longleftrightarrow> b"
  by (simp add: tool_check_def tool_fail_def)

section \<open>The node\<close>

text \<open>
  A rejected request, a body that is no JSON object, or a body with a result or an error: the command does
  not look at the HTTP status of a response with a body.
\<close>

datatype 'a tool_response =
    ToolRejected string
  | ToolNoBody nat
  | ToolBody 'a "(int \<times> string) option"

definition tool_rpc :: "string \<Rightarrow> 'a tool_response \<Rightarrow> 'a tool" where
  "tool_rpc method response =
     (case response of
        ToolRejected message \<Rightarrow> tool_fail message
      | ToolNoBody status \<Rightarrow> tool_fail (method @ '': HTTP '' @ nat_text status)
      | ToolBody result (Some (code, message)) \<Rightarrow> tool_fail (method @ '': '' @ message)
      | ToolBody result None \<Rightarrow> Inr result)"

record tool_env =
  te_lib :: tandem_lib
  te_crypto :: crypto
  te_constants :: protocol_constants
  te_initialStateRoot :: "bytes \<Rightarrow> bytes"
  te_environment :: environment
  te_bundledSpecHash :: "string tool"
  te_message :: "js_error \<Rightarrow> string"      \<comment> \<open>\<open>error.message\<close>\<close>
  te_getblockchaininfo :: "blockchain_info tool_response"
  te_getrawtransaction :: "string \<Rightarrow> (rpc_transaction \<times> string option) tool_response"
  te_getblockheader :: "string \<Rightarrow> block_header tool_response"
  te_getblock :: "string \<Rightarrow> rpc_block tool_response"

definition liftT :: "tool_env \<Rightarrow> 'a result \<Rightarrow> 'a tool" where
  "liftT T r = (case r of Inl e \<Rightarrow> tool_fail (te_message T e) | Inr x \<Rightarrow> Inr x)"

lemma liftT_Inr [simp]: "liftT T r = Inr x \<longleftrightarrow> r = Inr x"
  by (cases r) (simp_all add: liftT_def tool_fail_def)

section \<open>An unconfirmed transaction\<close>

text \<open>One pass of the loop of \<open>withPrevouts\<close>.\<close>

definition with_prevout :: "tool_env \<Rightarrow> rpc_input \<Rightarrow> rpc_input tool" where
  "with_prevout T input =
     (case (rpi_txid input, rpi_vout input) of
        (Some txid, Some vout) \<Rightarrow>
          if txid = [] then Inr input
          else bindT (tool_rpc ''getrawtransaction'' (te_getrawtransaction T txid)) (\<lambda>(parent, blockhash).
            (case find (\<lambda>item. rpt_n item = vout) (rtx_vout parent) of
               None \<Rightarrow> tool_fail (''prevout '' @ txid @ '':'' @ nat_text vout @ '' not found'')
             | Some output \<Rightarrow>
                 bindT (if truthy blockhash
                        then bindT (tool_rpc ''getblockheader'' (te_getblockheader T (the blockhash))) (\<lambda>header.
                          Inr (if bhd_confirmations header > 0 then Some (bhd_height header) else None))
                        else Inr None) (\<lambda>height.
                   Inr (input\<lparr>rpi_prevout := Some \<lparr>rpo_value = rpt_value output, rpo_height = height,
                     rpo_scriptPubKeyHex = rpt_scriptPubKeyHex output\<rparr>\<rparr>))))
      | _ \<Rightarrow> Inr input)"

definition withPrevouts :: "tool_env \<Rightarrow> rpc_transaction \<Rightarrow> bitcoin_transaction tool" where
  "withPrevouts T raw =
     bindT (mapT (with_prevout T) (rtx_vin raw)) (\<lambda>inputs.
       liftT T (normalizeTransaction (raw\<lparr>rtx_vin := inputs\<rparr>)))"

definition ZERO_HASH :: string where
  "ZERO_HASH = replicate 64 CHR ''0''"

text \<open>The next block, as if it held nothing but the transaction.\<close>

definition provisional_block :: "blockchain_info \<Rightarrow> bitcoin_transaction \<Rightarrow> bitcoin_block" where
  "provisional_block info t =
     \<lparr>blk_hash = ZERO_HASH, blk_previousBlockHash = Some (bci_bestblockhash info),
      blk_height = bci_blocks info + 1, blk_time = 0, blk_medianTime = 0,
      blk_transactions =
        [\<lparr>tx_txid = ZERO_HASH, tx_wtxid = ZERO_HASH, tx_version = 2, tx_locktime = 0,
          tx_inputs = [\<lparr>in_txid = None, in_vout = None, in_coinbase = Some ''00'', in_scriptSigHex = ''00'',
            in_sequence = 0xffffffff, in_witness = [], in_prevout = None\<rparr>], tx_outputs = []\<rparr>, t]\<rparr>"

section \<open>The command\<close>

abbreviation (input) UNCONFIRMED_OR_SAME_BLOCK_PREVOUT :: nat where
  "UNCONFIRMED_OR_SAME_BLOCK_PREVOUT \<equiv> 0x0013"

record init_report =
  ir_txid :: string
  ir_network :: string
  ir_protocolId :: string
  ir_specHash :: string
  ir_namespace :: string
  ir_confirmed :: bool
  ir_height :: "int option"
  ir_blockHash :: "string option"
  ir_evaluatedAtHeight :: int
  ir_openHeight :: "int option"
  ir_closeHeight :: "int option"
  ir_valid :: bool
  ir_reason :: nat

definition env_text :: "tool_env \<Rightarrow> string \<Rightarrow> string" where
  "env_text T key = nullish (te_environment T key) []"

text \<open>The checks of the arguments: txid, network, and specification.\<close>

definition tool_arguments :: "tool_env \<Rightarrow> string option \<Rightarrow> (string \<times> string \<times> string) tool" where
  "tool_arguments T arg =
     (let txid = to_lower (nullish arg []); network = env_text T ''TANDEM_NETWORK'';
          specHash = to_lower (env_text T ''TANDEM_SPEC_HASH'')
      in bindT (tool_check (HASH_HEX txid) ''usage: validate-init <init_txid as 64 lowercase hex>'') (\<lambda>_.
         bindT (tool_check (js_in network (pc_NETWORK (te_constants T))) ''TANDEM_NETWORK is missing or unsupported'') (\<lambda>_.
         bindT (tool_check (HASH_HEX specHash) ''TANDEM_SPEC_HASH must be 32-byte hex'') (\<lambda>_.
         bindT (te_bundledSpecHash T) (\<lambda>bundled.
         bindT (tool_check (bundled = specHash) (''TANDEM_SPEC_HASH '' @ specHash @
             '' does not match the bundled specification '' @ bundled)) (\<lambda>_.
           Inr (txid, network, specHash)))))))"

text \<open>The binding; a network whose code is inherited from \<open>Object.prototype\<close> stops in the package.\<close>

definition tool_binding :: "tool_env \<Rightarrow> string \<Rightarrow> string \<Rightarrow> string \<Rightarrow> binding_record tool" where
  "tool_binding T txid network specHash =
     (let networkCode = js_get (pc_NETWORK (te_constants T)) network
      in bindT (liftT T (bindE (of_option (LibraryError ''hexToBytes'') (parse_hex 32 txid)) (\<lambda>txidBytes.
           bindE (of_option (LibraryError ''hexToBytes'') (parse_hex 32 specHash)) (\<lambda>specBytes.
             pc_namespaceCommitment (te_constants T) networkCode txidBytes specBytes)))) (\<lambda>commitment.
         bindT (liftT T (of_option (LibraryError ''network'') networkCode)) (\<lambda>code.
           Inr \<lparr>bd_networkCode = code, bd_initTxid = txid, bd_specHash = specHash, bd_namespace = to_hex commitment\<rparr>)))"

text \<open>The block the transaction is judged in, and whether it is confirmed there.\<close>

definition tool_block :: "tool_env \<Rightarrow> blockchain_info \<Rightarrow> rpc_transaction \<times> string option \<Rightarrow> (bool \<times> bitcoin_block) tool" where
  "tool_block T info location =
     bindT (if truthy (snd location)
            then bindT (tool_rpc ''getblockheader'' (te_getblockheader T (the (snd location)))) (\<lambda>header.
              Inr (bhd_confirmations header > 0))
            else Inr False) (\<lambda>confirmed.
       if confirmed \<and> truthy (snd location)
       then bindT (tool_rpc ''getblock'' (te_getblock T (the (snd location)))) (\<lambda>raw.
         bindT (liftT T (normalizeBlock raw)) (\<lambda>block. Inr (True, block)))
       else bindT (withPrevouts T (fst location)) (\<lambda>t. Inr (confirmed, provisional_block info t)))"

definition init_report_of :: "string \<Rightarrow> string \<Rightarrow> string \<Rightarrow> binding_record \<Rightarrow> bool \<Rightarrow> init_activation \<Rightarrow> init_report" where
  "init_report_of txid network specHash bd confirmed activation =
     \<lparr>ir_txid = txid, ir_network = network, ir_protocolId = ''tndm:'' @ network @ '':'' @ txid,
      ir_specHash = specHash, ir_namespace = bd_namespace bd, ir_confirmed = confirmed,
      ir_height = (if confirmed then Some (ia_height activation) else None),
      ir_blockHash = (if confirmed then Some (ia_blockHash activation) else None),
      ir_evaluatedAtHeight = ia_height activation, ir_openHeight = ia_openHeight activation,
      ir_closeHeight = ia_closeHeight activation, ir_valid = ia_valid activation, ir_reason = ia_reason activation\<rparr>"

definition exit_code :: "bool \<Rightarrow> init_activation \<Rightarrow> nat" where
  "exit_code confirmed activation =
     (if confirmed then (if ia_valid activation then 0 else 2)
      else if ia_valid activation \<or> ia_reason activation = UNCONFIRMED_OR_SAME_BLOCK_PREVOUT then 3 else 2)"

definition validate_init :: "tool_env \<Rightarrow> string option \<Rightarrow> (init_report \<times> nat) tool" where
  "validate_init T arg =
     bindT (tool_arguments T arg) (\<lambda>(txid, network, specHash).
     let chain = (if network = ''mainnet'' then ''main'' else network) in
     bindT (tool_rpc ''getblockchaininfo'' (te_getblockchaininfo T)) (\<lambda>info.
     bindT (tool_check (bci_chain info = chain)
       (''Bitcoin Core chain '' @ bci_chain info @ '' does not match '' @ chain)) (\<lambda>_.
     bindT (case tool_rpc ''getrawtransaction'' (te_getrawtransaction T txid) of
              Inl (message, _) \<Rightarrow> Inl (''INIT '' @ txid @ '' is unknown to Bitcoin Core: '' @ message, 4)
            | Inr location \<Rightarrow> Inr location) (\<lambda>location.
     bindT (tool_binding T txid network specHash) (\<lambda>bd.
     bindT (tool_block T info location) (\<lambda>(confirmed, block).
     bindT (liftT T (reduceBlock (te_lib T) (te_crypto T) bd None
       (te_initialStateRoot T (from_hex (bd_namespace bd))) [] block)) (\<lambda>reduced.
       Inr (init_report_of txid network specHash bd confirmed (rb_activation reduced),
            exit_code confirmed (rb_activation reduced)))))))))"

end
