(* ===== verification/Validate_Init_Properties.thy ===== *)
theory Validate_Init_Properties
  imports Validate_Init Sync_Demo
begin

text \<open>
  The verdict of the command is the indexer's: it reduces the same block under the binding the
  configuration loads.  The exit codes say what they promise, but for a request that fails when the
  transaction is looked up.
\<close>

lemma loadConfiguration_deployment:
  "loadConfiguration pc pf env = Inr c \<Longrightarrow> deployment_ok pc (cfg_deployment c)"
  by (auto simp: loadConfiguration_def dest: load_deployment_ok)

lemma tool_rpc_Inr: "tool_rpc method response = Inr x \<longleftrightarrow> response = ToolBody x None"
  by (auto simp: tool_rpc_def tool_fail_def split: tool_response.splits option.splits)

lemma lookup_Inr:
  "(case m of Inl (message, _) \<Rightarrow> Inl (f message, 4) | Inr l \<Rightarrow> Inr l) = Inr x \<longleftrightarrow> m = Inr x"
  by (cases m) auto

lemma tool_binding_Inr:
  assumes "tool_binding T txid network spec = Inr bd"
  shows "\<exists>code c. js_get (pc_NETWORK (te_constants T)) network = Some code \<and>
    pc_namespaceCommitment (te_constants T) (Some code) (from_hex txid) (from_hex spec) = Inr c \<and>
    bd = \<lparr>bd_networkCode = code, bd_initTxid = txid, bd_specHash = spec, bd_namespace = to_hex c\<rparr>"
  using assms by (auto simp: tool_binding_def Let_def parse_hex_Some)

text \<open>The binding of a configuration with the same txid, network and specification.\<close>

lemma tool_binding_configured:
  assumes "tool_binding T txid network spec = Inr bd" and "txid \<noteq> []" and "bd_namespace bd \<noteq> []"
    and "loadConfiguration (te_constants T) pf env = Inr cfg" and "dc_initTxid (cfg_deployment cfg) = Some txid"
    and "dc_network (cfg_deployment cfg) = network" and "dc_specHash (cfg_deployment cfg) = spec"
  shows "binding cfg = Some bd"
proof -
  obtain code c where b: "js_get (pc_NETWORK (te_constants T)) network = Some code"
    "pc_namespaceCommitment (te_constants T) (Some code) (from_hex txid) (from_hex spec) = Inr c"
    "bd = \<lparr>bd_networkCode = code, bd_initTxid = txid, bd_specHash = spec, bd_namespace = to_hex c\<rparr>"
    using tool_binding_Inr [OF assms(1)] by blast
  have "dc_networkCode (cfg_deployment cfg) = Some code" "dc_namespace (cfg_deployment cfg) = Some (to_hex c)"
    using loadConfiguration_deployment [OF assms(4)] b assms(5-7) by (auto simp: deployment_ok_def)
  then show ?thesis
    using assms(2,3,5,7) b(3) by (simp add: binding_def truthy_def Let_def)
qed

text \<open>A confirmed verdict is made in the block of the node.\<close>

lemma tool_block_confirmed:
  assumes "tool_block T info location = Inr (confirmed, block)" and confirmed
  shows "\<exists>hash raw. snd location = Some hash \<and> te_getblock T hash = ToolBody raw None \<and> normalizeBlock raw = Inr block"
proof -
  have "truthy (snd location)" using assms by (auto simp: tool_block_def split: if_splits)
  then obtain hash where hash: "snd location = Some hash" by (cases "snd location") (auto simp: truthy_def)
  have "\<exists>raw. te_getblock T hash = ToolBody raw None \<and> normalizeBlock raw = Inr block"
    using assms hash by (auto simp: tool_block_def tool_rpc_Inr split: if_splits)
  with hash show ?thesis by blast
qed

text \<open>
  C38: the verdict on a confirmed \<open>INIT\<close> is the indexer's.  Under a configuration that names the same
  transaction, network and specification, the binding of the synchronizer reduces the block the node gives
  for the transaction, from the empty state, to an activation that is valid exactly when the command exits
  with 0, and exits with 2 otherwise.
\<close>

theorem validate_init_agrees:
  assumes "validate_init T arg = Inr (report, code)" and "ir_confirmed report" and "ir_namespace report \<noteq> []"
    and "loadConfiguration (te_constants T) pf env = Inr cfg"
    and "dc_initTxid (cfg_deployment cfg) = Some (ir_txid report)"
    and "dc_network (cfg_deployment cfg) = ir_network report"
    and "dc_specHash (cfg_deployment cfg) = ir_specHash report"
  shows "\<exists>bd tx hash raw block rb. binding cfg = Some bd \<and>
    te_getrawtransaction T (ir_txid report) = ToolBody (tx, Some hash) None \<and>
    te_getblock T hash = ToolBody raw None \<and> normalizeBlock raw = Inr block \<and>
    reduceBlock (te_lib T) (te_crypto T) bd None (te_initialStateRoot T (from_hex (bd_namespace bd))) [] block = Inr rb \<and>
    ir_valid report = ia_valid (rb_activation rb) \<and> code = (if ia_valid (rb_activation rb) then 0 else 2)"
proof -
  obtain txid network spec info location bd confirmed block rb where r:
    "tool_arguments T arg = Inr (txid, network, spec)"
    "te_getrawtransaction T txid = ToolBody location None"
    "tool_binding T txid network spec = Inr bd" "tool_block T info location = Inr (confirmed, block)"
    "reduceBlock (te_lib T) (te_crypto T) bd None (te_initialStateRoot T (from_hex (bd_namespace bd))) [] block = Inr rb"
    "report = init_report_of txid network spec bd confirmed (rb_activation rb)"
    "code = exit_code confirmed (rb_activation rb)"
    using assms(1) by (auto simp: validate_init_def Let_def lookup_Inr tool_rpc_Inr)
  have report: "ir_txid report = txid" "ir_network report = network" "ir_specHash report = spec"
    "ir_namespace report = bd_namespace bd" "ir_confirmed report = confirmed" "ir_valid report = ia_valid (rb_activation rb)"
    by (simp_all add: r(6) init_report_of_def)
  have confirmed: confirmed using assms(2) report by simp
  obtain hash raw where block: "snd location = Some hash" "te_getblock T hash = ToolBody raw None" "normalizeBlock raw = Inr block"
    using tool_block_confirmed [OF r(4) confirmed] by blast
  have "txid \<noteq> []" using r(1) by (auto simp: tool_arguments_def Let_def HASH_HEX_def is_hex_text_def to_lower_def)
  then have "binding cfg = Some bd"
    using tool_binding_configured [OF r(3)] assms(3-7) report by simp
  moreover have "te_getrawtransaction T (ir_txid report) = ToolBody (fst location, Some hash) None"
    using r(2) block(1) report(1) by (cases location) simp
  moreover have "code = (if ia_valid (rb_activation rb) then 0 else 2)" using confirmed by (simp add: r(7) exit_code_def)
  ultimately show ?thesis using block(2,3) r(5) report(6) by blast
qed

section \<open>The exit code of a failed lookup\<close>

text \<open>
  The head of the file gives exit code 1 to an error of the RPC and 4 to a transaction the node does not
  know; a request that fails exits with 4 all the same.
\<close>

lemma validate_init_lookup_fails:
  assumes "tool_arguments T arg = Inr (txid, ''regtest'', spec)" and "te_getblockchaininfo T = ToolBody info None"
    and "bci_chain info = ''regtest''" and "te_getrawtransaction T txid = ToolRejected message"
  shows "validate_init T arg = Inl (''INIT '' @ txid @ '' is unknown to Bitcoin Core: '' @ message, 4)"
  using assms by (simp add: validate_init_def tool_rpc_def tool_check_def tool_fail_def)

section \<open>A run\<close>

text \<open>
  The block of \<open>Sync_Demo\<close>, whose \<open>INIT\<close> is invalid.  The command takes the network as it stands in the
  environment, where the configuration trims it.
\<close>

definition demo_tool :: tool_env where
  "demo_tool = \<lparr>te_lib = demo_lib, te_crypto = demo_crypto, te_constants = demo_constants,
     te_initialStateRoot = (\<lambda>ns. ns), te_environment = demo_environment(''TANDEM_NETWORK'' \<mapsto> ''regtest''),
     te_bundledSpecHash = Inr (replicate 64 CHR ''5''), te_message = (\<lambda>_. []),
     te_getblockchaininfo = ToolBody \<lparr>bci_chain = ''regtest'', bci_blocks = 101, bci_headers = 101,
       bci_bestblockhash = demo_txid 41, bci_initialblockdownload = False, bci_pruned = False\<rparr> None,
     te_getrawtransaction = (\<lambda>_. ToolBody (hd (rbk_tx init_rpc_block), Some (demo_txid 40)) None),
     te_getblockheader = (\<lambda>_. ToolBody \<lparr>bhd_hash = demo_txid 40, bhd_height = 100, bhd_confirmations = 2\<rparr> None),
     te_getblock = (\<lambda>_. ToolBody init_rpc_block None)\<rparr>"

lemma demo_tool_arguments:
  "tool_arguments demo_tool (Some sync_init) = Inr (sync_init, ''regtest'', replicate 64 CHR ''5'')"
proof -
  have "to_lower (replicate 64 CHR ''5'') = replicate 64 CHR ''5''" "HASH_HEX (replicate 64 CHR ''5'')"
    by (simp_all add: HASH_HEX_def text_evaluation)
  moreover have "env_text demo_tool ''TANDEM_NETWORK'' = ''regtest''"
    "env_text demo_tool ''TANDEM_SPEC_HASH'' = replicate 64 CHR ''5''"
    by (simp_all add: env_text_def demo_tool_def demo_environment_def)
  moreover have "js_in ''regtest'' (pc_NETWORK (te_constants demo_tool))"
    "te_bundledSpecHash demo_tool = Inr (replicate 64 CHR ''5'')"
    by (simp_all add: demo_tool_def demo_constants_def js_in_def)
  moreover have "HASH_HEX sync_init" using sync_init_text(1) by (simp add: HASH_HEX_def)
  ultimately show ?thesis using sync_init_text(2) by (simp add: tool_arguments_def Let_def tool_check_def)
qed

lemma demo_tool_binding:
  "tool_binding demo_tool sync_init ''regtest'' (replicate 64 CHR ''5'') = Inr sync_binding"
proof -
  have "is_hex_text 64 (replicate 64 CHR ''5'')" by (simp add: text_evaluation)
  then show ?thesis
    using sync_init_text(1)
    by (simp add: tool_binding_def Let_def demo_tool_def demo_constants_def parse_hex_def liftT_def
      sync_binding_def binding_def sync_config_deployment sync_init_def)
qed

lemma demo_tool_run:
  "\<exists>report. validate_init demo_tool (Some sync_init) = Inr (report, 2) \<and> ir_confirmed report \<and>
     ir_txid report = sync_init \<and> ir_network report = ''regtest'' \<and> ir_specHash report = replicate 64 CHR ''5'' \<and>
     ir_namespace report = bd_namespace sync_binding"
proof -
  obtain rb where rb: "reduceBlock demo_lib demo_crypto sync_binding None (from_hex (bd_namespace sync_binding)) []
      init_block = Inr rb" "\<not> ia_valid (rb_activation rb)"
    using init_reduced by blast
  have tool: "te_lib demo_tool = demo_lib" "te_crypto demo_tool = demo_crypto"
    "te_initialStateRoot demo_tool = (\<lambda>ns. ns)" by (simp_all add: demo_tool_def)
  have "normalizeBlock init_rpc_block = Inr init_block"
    using sync_node_blocks(1) by (simp add: getBlock_def rpc_call_def sync_node_def)
  moreover have "demo_txid 40 \<noteq> []" using demo_txid_hex [of 40] by (auto simp: is_hex_text_def)
  ultimately have block: "tool_block demo_tool info (t, Some (demo_txid 40)) = Inr (True, init_block)" for info t
    by (simp add: tool_block_def tool_rpc_def demo_tool_def liftT_def truthy_def)
  have node: "\<exists>info. te_getblockchaininfo demo_tool = ToolBody info None \<and> bci_chain info = ''regtest''"
    "\<exists>t. te_getrawtransaction demo_tool sync_init = ToolBody (t, Some (demo_txid 40)) None"
    by (simp_all add: demo_tool_def)
  then show ?thesis
    by (auto simp: validate_init_def demo_tool_arguments demo_tool_binding block tool_rpc_def tool_check_def rb liftT_def
      tool init_report_of_def exit_code_def)
qed

text \<open>The run satisfies the hypotheses, under the configuration of \<open>Sync_Demo\<close>.\<close>

theorem validate_init_agrees_witness:
  "\<exists>report rb. validate_init demo_tool (Some sync_init) = Inr (report, 2) \<and>
     reduceBlock demo_lib demo_crypto sync_binding None (from_hex (bd_namespace sync_binding)) [] init_block = Inr rb \<and>
     ir_valid report = ia_valid (rb_activation rb)"
proof -
  obtain report where report: "validate_init demo_tool (Some sync_init) = Inr (report, 2)" "ir_confirmed report"
    "ir_txid report = sync_init" "ir_network report = ''regtest''" "ir_specHash report = replicate 64 CHR ''5''"
    "ir_namespace report = bd_namespace sync_binding"
    using demo_tool_run by blast
  have namespace: "bd_namespace sync_binding \<noteq> []"
    by (simp add: sync_binding_def binding_def sync_config_deployment Let_def)
  have loaded: "loadConfiguration (te_constants demo_tool) demo_platform demo_environment = Inr sync_config"
    using sync_config_loaded by (simp add: demo_tool_def)
  obtain bd tx hash raw block rb where out: "binding sync_config = Some bd"
    "te_getblock demo_tool hash = ToolBody raw None" "normalizeBlock raw = Inr block"
    "reduceBlock (te_lib demo_tool) (te_crypto demo_tool) bd None
       (te_initialStateRoot demo_tool (from_hex (bd_namespace bd))) [] block = Inr rb"
    "ir_valid report = ia_valid (rb_activation rb)"
    using validate_init_agrees [OF report(1,2) _ loaded] report(3-6) namespace
    by (auto simp: sync_config_deployment sync_init_def)
  moreover have "normalizeBlock init_rpc_block = Inr init_block"
    using sync_node_blocks(1) by (simp add: getBlock_def rpc_call_def sync_node_def)
  moreover have "te_getblock demo_tool hash = ToolBody init_rpc_block None" "te_lib demo_tool = demo_lib"
    "te_crypto demo_tool = demo_crypto" "te_initialStateRoot demo_tool = (\<lambda>ns. ns)"
    by (simp_all add: demo_tool_def)
  ultimately have "bd = sync_binding \<and> block = init_block"
    using sync_binding(1) by simp
  then show ?thesis using out report(1) by (auto simp: demo_tool_def)
qed

end
