(* ===== verification/Api_Routes.thy ===== *)
theory Api_Routes
  imports Query_Service
begin

text \<open>
  The routes of the API: \<open>src/api/tandem.controller.ts\<close> (the direct surface),
  \<open>src/api/verified-tandem.controller.ts\<close> (the same reads behind the gateway),
  \<open>src/api/explorer.controller.ts\<close>, and \<open>src/observability/observability.controller.ts\<close> with the gauges of
  \<open>metrics.service.ts\<close>.  A handler is a branch of a function on the routes; the pipes of NestJS run before
  it, and what they read of a text is a parameter.
\<close>

section \<open>Requests\<close>

text \<open>
  \<open>ap_parseInt\<close> is \<open>ParseIntPipe\<close> on a text: \<open>None\<close> when it is refused, \<open>Some None\<close> for a number that is no
  safe integer.
\<close>

record api_env =
  ap_gateway :: gateway_env
  ap_catalog :: catalog_crypto
  ap_parseInt :: "string \<Rightarrow> int option option"
  ap_digest256 :: "bytes \<Rightarrow> bytes"
  ap_reasonName :: "nat \<Rightarrow> string"

text \<open>What a query of a request meets.\<close>

record api_state =
  as_deployment :: deployment_state
  as_views :: database_view
  as_mempool :: mempool_table
  as_conflicts :: "conflict_row list"

text \<open>The reads both surfaces share, and those of one of them.  The catalog route is \<open>catalogPage\<close> itself.\<close>

datatype shared_route =
    StatusRoute
  | ObjectsRoute request_value                   \<comment> \<open>the limit\<close>
  | ObjectRoute string
  | EventsRoute string
  | InvalidEventsRoute request_value
  | ReorgsRoute request_value
  | StatsRoute

datatype direct_route =
    DirectShared shared_route
  | ByOutpointRoute string request_value
  | CarrierRoute string request_value
  | ReadinessRoute
  | AgreementRoute request_value

datatype verified_route =
    VerifiedShared shared_route
  | TransactionRoute string
  | AddressRoute string request_value
  | MempoolRoute request_value
  | ConflictsRoute request_value
  | SearchRoute request_value request_value

datatype answer =
    StatusAnswer status_body
  | ObjectsAnswer "presented_object list"
  | ObjectAnswer "presented_object \<times> chapter_table_row list"
  | CarrierAnswer "string \<times> carrier_row"
  | EventsAnswer "string \<times> event_row list"
  | TransactionAnswer "(string \<times> transaction_row) \<times> event_row list"
  | AddressAnswer "string \<times> address_item list"
  | InvalidEventsAnswer "event_row list"
  | MempoolAnswer "(string \<times> mempool_row) list"
  | ConflictsAnswer "(nat \<times> conflict_row) list"
  | ReorgsAnswer "(nat \<times> reorg_row) list"
  | StatsAnswer query_stats
  | SearchAnswer search_result
  | ReadinessAnswer readiness_snapshot
  | AgreementAnswer signed_envelope

definition answer_with :: "('a \<Rightarrow> answer) \<Rightarrow> 'a result \<Rightarrow> answer result" where
  "answer_with f m = bindE m (\<lambda>x. Inr (f x))"

definition int_refused :: js_error where
  "int_refused = HttpException 400 ''Validation failed (numeric string is expected)''"

definition int_pipe :: "api_env \<Rightarrow> request_value \<Rightarrow> int option result" where
  "int_pipe P v = (case v of TextValue s \<Rightarrow> of_option int_refused (ap_parseInt P s) | _ \<Rightarrow> Inl int_refused)"

definition limit_pipe :: "api_env \<Rightarrow> int \<Rightarrow> request_value \<Rightarrow> int option result" where
  "limit_pipe P fallback v = (if v = Absent then Inr (Some fallback) else int_pipe P v)"

section \<open>The direct surface\<close>

definition api_deployment :: "api_env \<Rightarrow> deployment_configuration" where
  "api_deployment P = cfg_deployment (ge_config (ap_gateway P))"

definition api_status :: "api_env \<Rightarrow> api_state \<Rightarrow> status_body result" where
  "api_status P S = bindE (as_views S 0) (\<lambda>db.
     Inr (status (ap_reasonName P) (api_deployment P) (as_deployment S) db (as_mempool S)))"

definition api_stats :: "api_state \<Rightarrow> query_stats result" where
  "api_stats S = bindE (as_views S 0) (\<lambda>db. Inr (stats db (as_conflicts S)))"

text \<open>A snapshot that is not ready is the body of the error, here the list of its reasons.\<close>

definition readiness_answer :: "readiness_snapshot \<Rightarrow> readiness_snapshot result" where
  "readiness_answer probed =
     bindE (throw_unless (rs_ready probed) (HttpException 503 (join_with '','' (rs_reasons probed)))) (\<lambda>_. Inr probed)"

definition direct_readiness :: "api_env \<Rightarrow> api_state \<Rightarrow> bitcoin_node \<Rightarrow> readiness_snapshot result" where
  "direct_readiness P S node =
     readiness_answer (probe (ge_lib (ap_gateway P)) (ge_config (ap_gateway P)) (as_deployment S) (as_views S) node)"

definition direct_objects :: "api_env \<Rightarrow> api_state \<Rightarrow> request_value \<Rightarrow> presented_object list result" where
  "direct_objects P S limit =
     bindE (limit_pipe P 50 limit) (\<lambda>n. query_objects (api_deployment P) (as_views S 0) n)"

definition direct_objectByOutpoint ::
  "api_env \<Rightarrow> api_state \<Rightarrow> string \<Rightarrow> request_value \<Rightarrow> (presented_object \<times> chapter_table_row list) result" where
  "direct_objectByOutpoint P S txid vout =
     bindE (int_pipe P vout) (\<lambda>n. objectByOutpoint (api_deployment P) (as_views S) txid n)"

definition direct_object ::
  "api_env \<Rightarrow> api_state \<Rightarrow> string \<Rightarrow> (presented_object \<times> chapter_table_row list) result" where
  "direct_object P S objectKey = query_object (api_deployment P) (as_views S) objectKey"

definition direct_carrier :: "api_env \<Rightarrow> api_state \<Rightarrow> string \<Rightarrow> request_value \<Rightarrow> (string \<times> carrier_row) result" where
  "direct_carrier P S txid vout = bindE (int_pipe P vout) (\<lambda>n. query_carrier (as_views S 0) txid n)"

definition direct_events :: "api_state \<Rightarrow> string \<Rightarrow> (string \<times> event_row list) result" where
  "direct_events S txid = query_events (as_views S) txid"

definition direct_invalidEvents :: "api_env \<Rightarrow> api_state \<Rightarrow> request_value \<Rightarrow> event_row list result" where
  "direct_invalidEvents P S limit = bindE (limit_pipe P 50 limit) (\<lambda>n. query_invalidEvents (as_views S 0) n)"

definition direct_reorgs :: "api_env \<Rightarrow> api_state \<Rightarrow> request_value \<Rightarrow> (nat \<times> reorg_row) list result" where
  "direct_reorgs P S limit = bindE (limit_pipe P 50 limit) (\<lambda>n. query_reorgs (as_views S 0) n)"

text \<open>A height that is no safe integer is no height of a checkpoint.\<close>

definition direct_agreement :: "api_env \<Rightarrow> api_state \<Rightarrow> request_value \<Rightarrow> signed_envelope result" where
  "direct_agreement P S height =
     bindE (int_pipe P height) (\<lambda>n. bindE (as_views S 0) (\<lambda>db.
     bindE (of_option (HttpException 404 ''checkpoint not found'') n) (\<lambda>h.
       signedAt (ge_lib (ap_gateway P)) (ge_config (ap_gateway P)) db h)))"

definition direct_request :: "api_env \<Rightarrow> api_state \<Rightarrow> bitcoin_node \<Rightarrow> direct_route \<Rightarrow> answer result" where
  "direct_request P S node r =
     (case r of
        DirectShared StatusRoute \<Rightarrow> answer_with StatusAnswer (api_status P S)
      | ReadinessRoute \<Rightarrow> answer_with ReadinessAnswer (direct_readiness P S node)
      | DirectShared (ObjectsRoute limit) \<Rightarrow> answer_with ObjectsAnswer (direct_objects P S limit)
      | ByOutpointRoute txid vout \<Rightarrow> answer_with ObjectAnswer (direct_objectByOutpoint P S txid vout)
      | DirectShared (ObjectRoute objectKey) \<Rightarrow> answer_with ObjectAnswer (direct_object P S objectKey)
      | CarrierRoute txid vout \<Rightarrow> answer_with CarrierAnswer (direct_carrier P S txid vout)
      | DirectShared (EventsRoute txid) \<Rightarrow> answer_with EventsAnswer (direct_events S txid)
      | DirectShared (InvalidEventsRoute limit) \<Rightarrow> answer_with InvalidEventsAnswer (direct_invalidEvents P S limit)
      | DirectShared (ReorgsRoute limit) \<Rightarrow> answer_with ReorgsAnswer (direct_reorgs P S limit)
      | DirectShared StatsRoute \<Rightarrow> answer_with StatsAnswer (api_stats S)
      | AgreementRoute height \<Rightarrow> answer_with AgreementAnswer (direct_agreement P S height))"

section \<open>The verified surface\<close>

text \<open>What the gateway meets before and after the read.\<close>

record gateway_moments =
  gs_before :: gateway_moment
  gs_after :: gateway_moment

definition gate :: "api_env \<Rightarrow> gateway_moments \<Rightarrow> 'a result \<Rightarrow> (verification_metadata \<times> 'a) result" where
  "gate P M read = execute (ap_gateway P) (gs_before M) (gs_after M) read"

definition verified_status ::
  "api_env \<Rightarrow> gateway_moments \<Rightarrow> api_state \<Rightarrow> (verification_metadata \<times> status_body) result" where
  "verified_status P M S =
     gate P M (api_status P S)"

definition verified_objects ::
  "api_env \<Rightarrow> gateway_moments \<Rightarrow> api_state \<Rightarrow> request_value \<Rightarrow> (verification_metadata \<times> presented_object list) result" where
  "verified_objects P M S limit =
     bindE (limit_pipe P 50 limit) (\<lambda>n. gate P M (query_objects (api_deployment P) (as_views S 0) n))"

definition verified_object ::
  "api_env \<Rightarrow> gateway_moments \<Rightarrow> api_state \<Rightarrow> string \<Rightarrow> (verification_metadata \<times> (presented_object \<times> chapter_table_row list)) result" where
  "verified_object P M S objectKey =
     gate P M (query_object (api_deployment P) (as_views S) objectKey)"

definition verified_events ::
  "api_env \<Rightarrow> gateway_moments \<Rightarrow> api_state \<Rightarrow> string \<Rightarrow> (verification_metadata \<times> (string \<times> event_row list)) result" where
  "verified_events P M S txid =
     gate P M (query_events (as_views S) txid)"

definition verified_transaction ::
  "api_env \<Rightarrow> gateway_moments \<Rightarrow> api_state \<Rightarrow> string \<Rightarrow> (verification_metadata \<times> ((string \<times> transaction_row) \<times> event_row list)) result" where
  "verified_transaction P M S txid =
     gate P M (query_transaction (as_views S) txid)"

definition verified_address ::
  "api_env \<Rightarrow> gateway_moments \<Rightarrow> api_state \<Rightarrow> string \<Rightarrow> request_value \<Rightarrow> (verification_metadata \<times> (string \<times> address_item list)) result" where
  "verified_address P M S address limit =
     bindE (limit_pipe P 50 limit) (\<lambda>n.
       gate P M (query_address (ap_digest256 P) (api_deployment P) (as_views S 0) address n))"

definition verified_invalidEvents ::
  "api_env \<Rightarrow> gateway_moments \<Rightarrow> api_state \<Rightarrow> request_value \<Rightarrow> (verification_metadata \<times> event_row list) result" where
  "verified_invalidEvents P M S limit =
     bindE (limit_pipe P 50 limit) (\<lambda>n. gate P M (query_invalidEvents (as_views S 0) n))"

definition verified_mempool ::
  "api_env \<Rightarrow> gateway_moments \<Rightarrow> api_state \<Rightarrow> request_value \<Rightarrow> (verification_metadata \<times> (string \<times> mempool_row) list) result" where
  "verified_mempool P M S limit =
     bindE (limit_pipe P 50 limit) (\<lambda>n. gate P M (query_mempool (as_mempool S) n))"

definition verified_conflicts ::
  "api_env \<Rightarrow> gateway_moments \<Rightarrow> api_state \<Rightarrow> request_value \<Rightarrow> (verification_metadata \<times> (nat \<times> conflict_row) list) result" where
  "verified_conflicts P M S limit =
     bindE (limit_pipe P 50 limit) (\<lambda>n. gate P M (query_conflicts (as_conflicts S) n))"

definition verified_reorgs ::
  "api_env \<Rightarrow> gateway_moments \<Rightarrow> api_state \<Rightarrow> request_value \<Rightarrow> (verification_metadata \<times> (nat \<times> reorg_row) list) result" where
  "verified_reorgs P M S limit =
     bindE (limit_pipe P 50 limit) (\<lambda>n. gate P M (query_reorgs (as_views S 0) n))"

definition verified_stats ::
  "api_env \<Rightarrow> gateway_moments \<Rightarrow> api_state \<Rightarrow> (verification_metadata \<times> query_stats) result" where
  "verified_stats P M S =
     gate P M (api_stats S)"

definition verified_search ::
  "api_env \<Rightarrow> gateway_moments \<Rightarrow> api_state \<Rightarrow> request_value \<Rightarrow> request_value \<Rightarrow> (verification_metadata \<times> search_result) result" where
  "verified_search P M S query limit =
     bindE (limit_pipe P 25 limit) (\<lambda>n.
       gate P M (search (ap_digest256 P) (api_deployment P) (as_views S) query n))"

definition verified_with ::
  "('a \<Rightarrow> answer) \<Rightarrow> (verification_metadata \<times> 'a) result \<Rightarrow> (verification_metadata \<times> answer) result" where
  "verified_with f m = bindE m (\<lambda>(md, data). Inr (md, f data))"

definition verified_request ::
  "api_env \<Rightarrow> gateway_moments \<Rightarrow> api_state \<Rightarrow> verified_route \<Rightarrow> (verification_metadata \<times> answer) result" where
  "verified_request P M S r =
     (case r of
        VerifiedShared StatusRoute \<Rightarrow> verified_with StatusAnswer (verified_status P M S)
      | VerifiedShared (ObjectsRoute limit) \<Rightarrow> verified_with ObjectsAnswer (verified_objects P M S limit)
      | VerifiedShared (ObjectRoute objectKey) \<Rightarrow> verified_with ObjectAnswer (verified_object P M S objectKey)
      | VerifiedShared (EventsRoute txid) \<Rightarrow> verified_with EventsAnswer (verified_events P M S txid)
      | TransactionRoute txid \<Rightarrow> verified_with TransactionAnswer (verified_transaction P M S txid)
      | AddressRoute address limit \<Rightarrow> verified_with AddressAnswer (verified_address P M S address limit)
      | VerifiedShared (InvalidEventsRoute limit) \<Rightarrow>
          verified_with InvalidEventsAnswer (verified_invalidEvents P M S limit)
      | MempoolRoute limit \<Rightarrow> verified_with MempoolAnswer (verified_mempool P M S limit)
      | ConflictsRoute limit \<Rightarrow> verified_with ConflictsAnswer (verified_conflicts P M S limit)
      | VerifiedShared (ReorgsRoute limit) \<Rightarrow> verified_with ReorgsAnswer (verified_reorgs P M S limit)
      | VerifiedShared StatsRoute \<Rightarrow> verified_with StatsAnswer (verified_stats P M S)
      | SearchRoute query limit \<Rightarrow> verified_with SearchAnswer (verified_search P M S query limit))"

section \<open>The other controllers\<close>

text \<open>\<open>GET v1/checkpoint\<close> and \<open>GET v1/explorer/blocks/:height/events\<close>.\<close>

datatype explorer_route = CheckpointRoute | BlockEventsRoute request_value request_value request_value

datatype explorer_answer = CheckpointAnswer "string \<times> string" | BlockEventsAnswer events_page

definition explorer_request ::
  "string \<Rightarrow> readiness_snapshot \<Rightarrow> database result \<Rightarrow> explorer_route \<Rightarrow> explorer_answer result" where
  "explorer_request network probed view r =
     (case r of
        CheckpointRoute \<Rightarrow> bindE (checkpoint probed view) (\<lambda>c. Inr (CheckpointAnswer c))
      | BlockEventsRoute height limit cursor \<Rightarrow>
          bindE (blockEvents network probed view height limit cursor) (\<lambda>page. Inr (BlockEventsAnswer page)))"

text \<open>The gauges; \<open>None\<close> until they are set.\<close>

record metrics =
  mt_ready :: "nat option"
  mt_canonicalHeight :: "int option"

definition set_ready :: "nat \<Rightarrow> metrics \<Rightarrow> metrics" where
  "set_ready n metrics = metrics\<lparr>mt_ready := Some n\<rparr>"

definition ready_request :: "readiness_snapshot \<Rightarrow> metrics \<Rightarrow> metrics \<times> readiness_snapshot result" where
  "ready_request probed metrics =
     (let m1 = set_ready (if rs_ready probed then 1 else 0) metrics;
          m2 = (case rd_canonicalHeight (rs_input probed) of None \<Rightarrow> m1 | Some h \<Rightarrow> m1\<lparr>mt_canonicalHeight := Some h\<rparr>)
      in (m2, readiness_answer probed))"

section \<open>What the verified surface releases\<close>

text \<open>The read a verified route stands for: the direct route, or the query that has none.\<close>

definition verified_read :: "api_env \<Rightarrow> bitcoin_node \<Rightarrow> api_state \<Rightarrow> verified_route \<Rightarrow> answer result" where
  "verified_read P node S r =
     (let d = api_deployment P in
      case r of
        VerifiedShared q \<Rightarrow> direct_request P S node (DirectShared q)
      | TransactionRoute txid \<Rightarrow> answer_with TransactionAnswer (query_transaction (as_views S) txid)
      | AddressRoute address limit \<Rightarrow> answer_with AddressAnswer
          (bindE (limit_pipe P 50 limit) (query_address (ap_digest256 P) d (as_views S 0) address))
      | MempoolRoute limit \<Rightarrow> answer_with MempoolAnswer (bindE (limit_pipe P 50 limit) (query_mempool (as_mempool S)))
      | ConflictsRoute limit \<Rightarrow> answer_with ConflictsAnswer (bindE (limit_pipe P 50 limit) (query_conflicts (as_conflicts S)))
      | SearchRoute query limit \<Rightarrow> answer_with SearchAnswer
          (bindE (limit_pipe P 25 limit) (search (ap_digest256 P) d (as_views S) query)))"

text \<open>An outcome released under the gateway for a read.\<close>

definition released ::
  "gateway_env \<Rightarrow> gateway_moments \<Rightarrow> 'a result \<Rightarrow> (verification_metadata \<times> 'a) result \<Rightarrow> bool" where
  "released E M read outcome =
     (case outcome of
        Inr (md, data) \<Rightarrow> verified_at E (gs_before M) md \<and> verified_at E (gs_after M) md \<and> read = Inr data
      | Inl e \<Rightarrow> e = verification_unavailable \<or> read = Inl e)"

lemma gate_released: "released (ap_gateway P) M read (gate P M read)"
  using resolve_verified [of "ap_gateway P" "gs_before M"] resolve_verified [of "ap_gateway P" "gs_after M"]
  by (auto simp: released_def gate_def execute_def executeBound_def bindE_def nullish_def split: sum.splits)

lemma piped_released:
  "(\<And>n. released E M (f n) (g n)) \<Longrightarrow> released E M (bindE p f) (bindE p g)"
  by (cases p) (simp_all add: released_def)

lemma answered_released:
  "released E M read outcome \<Longrightarrow> released E M (answer_with f read) (verified_with f outcome)"
  by (cases outcome) (auto simp: released_def answer_with_def verified_with_def)

lemmas handler_defs =
  verified_status_def verified_objects_def verified_object_def verified_events_def verified_transaction_def
  verified_address_def verified_invalidEvents_def verified_mempool_def verified_conflicts_def
  verified_reorgs_def verified_stats_def verified_search_def direct_objects_def direct_object_def
  direct_events_def direct_invalidEvents_def direct_reorgs_def

text \<open>
  C39: every verified route answers with the data of the read it stands for (where the direct surface has
  the route, with what the direct route answers on the same database), under an agreement of both pipelines
  that was verified before and after it; when it answers with an error, that is the one of an unavailable
  verification, or the error of the read.
\<close>

theorem verified_request_released:
  "released (ap_gateway P) M (verified_read P node S r) (verified_request P M S r)"
  by (cases r) (auto simp: verified_read_def Let_def verified_request_def direct_request_def handler_defs
    intro!: answered_released piped_released gate_released split: shared_route.split)

text \<open>The gauge of readiness is one exactly when the request is answered.\<close>

lemma ready_request_gauge:
  "mt_ready (fst (ready_request probed metrics)) = Some 1 \<longleftrightarrow> snd (ready_request probed metrics) = Inr probed"
  by (auto simp: ready_request_def readiness_answer_def set_ready_def Let_def throw_unless_def split: option.splits)

end
