(* ===== verification/Site_Registry.thy ===== *)
theory Site_Registry
  imports Site_Carrier Protocol_Observation Validate_Init
begin

text \<open>
  The tables of \<open>site/src/lib/tandem.ts\<close>: the lengths of payloads and scripts, and the registry of reasons
  with its two functions.
\<close>

section \<open>Lengths\<close>

datatype marker_operation = OpInit | OpCreate | OpMark | OpRotate | OpClose

fun OPCODE :: "marker_operation \<Rightarrow> nat" where
  "OPCODE OpInit = 0x00" | "OPCODE OpCreate = 0x01" | "OPCODE OpMark = 0x02" | "OPCODE OpRotate = 0x03" | "OPCODE OpClose = 0x04"

fun site_PAYLOAD_LENGTH :: "marker_operation \<Rightarrow> nat" where
  "site_PAYLOAD_LENGTH OpInit = 59" | "site_PAYLOAD_LENGTH OpCreate = 40" | "site_PAYLOAD_LENGTH OpMark = 78"
| "site_PAYLOAD_LENGTH OpRotate = 44" | "site_PAYLOAD_LENGTH OpClose = 80"

fun SCRIPT_LENGTH :: "marker_operation \<Rightarrow> nat" where
  "SCRIPT_LENGTH OpInit = 61" | "SCRIPT_LENGTH OpCreate = 42" | "SCRIPT_LENGTH OpMark = 81"
| "SCRIPT_LENGTH OpRotate = 46" | "SCRIPT_LENGTH OpClose = 83"

definition MAX_MARKER_PAYLOAD :: nat where "MAX_MARKER_PAYLOAD = 80"
definition MAX_MARKER_SCRIPT :: nat where "MAX_MARKER_SCRIPT = 83"
definition WITNESS_SCRIPT_BYTES :: nat where "WITNESS_SCRIPT_BYTES = 71"

section \<open>Reasons\<close>

datatype reason_entry = ReasonEntry (re_code: nat) (re_name: string) (re_meaning: string)

definition REASONS :: "reason_entry list" where
  "REASONS =
     [ReasonEntry 0x0000 ''VALID''
        ''A recognised INIT, CREATE, MARK, ROTATE, CLOSE, or REFUND.'',
      ReasonEntry 0x0001 ''MULTIPLE_MARKERS''
        ''More than one Tandem marker candidate remained.'',
      ReasonEntry 0x0002 ''BAD_MARKER_ENCODING_OR_LENGTH''
        (''Non-minimal push, malformed script, incomplete push, trailing script data, oversized '' @
        ''payload, or the wrong exact payload length.''),
      ReasonEntry 0x0003 ''UNKNOWN_MARKER_FORMAT''
        ''The marker format byte is not 0x01.'',
      ReasonEntry 0x0004 ''WRONG_NETWORK''
        ''The marker network differs from the bound chain.'',
      ReasonEntry 0x0005 ''UNKNOWN_OPCODE''
        ''The opcode is not one Tandem defines.'',
      ReasonEntry 0x0006 ''WRONG_NAMESPACE''
        ''A non-INIT namespace commitment differs from the configured INIT namespace.'',
      ReasonEntry 0x0007 ''UNSUPPORTED_OR_RESERVED_FIELD''
        (''A fixed field, constant, supported kind or reason, flag, reserved byte, configured INIT '' @
        ''opcode, or INIT spec hash differs.''),
      ReasonEntry 0x0010 ''BAD_TX_VERSION_OR_LOCKTIME''
        ''Transaction version or locktime differs from the exact template.'',
      ReasonEntry 0x0011 ''BAD_INPUT_COUNT_OR_ORDER''
        ''Input count, position, role, or required sequence differs.'',
      ReasonEntry 0x0012 ''BAD_OUTPUT_COUNT_OR_ORDER''
        ''Output count, position, role, marker position, or the only-OP_RETURN requirement differs.'',
      ReasonEntry 0x0013 ''UNCONFIRMED_OR_SAME_BLOCK_PREVOUT''
        ''A required prior output was not confirmed in an earlier block.'',
      ReasonEntry 0x0014 ''BAD_INPUT_SCRIPT''
        ''A prevout, scriptSig, witness stack, or revealed witness script has the wrong form.'',
      ReasonEntry 0x0015 ''BAD_KEY_ORDER_OR_BINDING''
        (''A key is invalid, duplicate, unsorted, unchanged when rotation is required, or not bound to '' @
        ''its required role.''),
      ReasonEntry 0x0016 ''BAD_SIGNATURE_OR_SIGHASH''
        ''A required signature is invalid, wrongly ordered, non-DER, high-S, or not SIGHASH_ALL.'',
      ReasonEntry 0x0017 ''BAD_OUTPUT_SCRIPT_OR_VALUE''
        (''Marker value, fixed carrier value, CREATE carrier script, or a required destination script '' @
        ''or key differs.''),
      ReasonEntry 0x0018 ''NONPOSITIVE_OR_INVALID_FEE''
        ''The fee is zero, negative, overflowed, underflowed, or cannot be computed exactly.'',
      ReasonEntry 0x0019 ''BAD_FEE_SPLIT_OR_CHANGE''
        (''A debit split, equal payout, sponsor change equation, or 1,000 satoshi change floor differs '' @
        ''once the fee is known positive.''),
      ReasonEntry 0x001a ''PREDECESSOR_NOT_ACTIVE''
        ''The operation does not reference the active canonical predecessor it requires.'',
      ReasonEntry 0x001b ''BAD_STATE_SEQUENCE''
        ''The state sequence is not predecessor plus one, or cannot be incremented.'',
      ReasonEntry 0x001c ''BAD_SUCCESSOR''
        (''MARK did not preserve the carrier script, or ROTATE did not derive the proposed successor '' @
        ''carrier script.''),
      ReasonEntry 0x001d ''BAD_COMMITMENT''
        ''The MARK chapter commitment is all zero.'',
      ReasonEntry 0x001e ''BAD_HEIGHT_OR_PHASE''
        (''An INIT lead or window relation fails, arithmetic overflows, or a CREATE confirms before the '' @
        ''open height.''),
      ReasonEntry 0x001f ''BAD_REFUND_SHAPE_OR_MATURITY''
        ''A markerless one-carrier, one-input, two-output candidate failed any exact REFUND rule.'',
      ReasonEntry 0x0020 ''MULTIPLE_CARRIERS''
        ''The transaction spends more than one active Tandem carrier.'',
      ReasonEntry 0x0030 ''UNMARKED_CARRIER_SPEND''
        (''An active carrier was spent with no Tandem marker and the transaction was not dispatched as '' @
        ''REFUND.'')]"

definition site_reasonName :: "nat \<Rightarrow> string" where
  "site_reasonName code = (case find (\<lambda>e. re_code e = code) REASONS of None \<Rightarrow> ''UNKNOWN'' | Some e \<Rightarrow> re_name e)"

text \<open>\<open>code.toString(16)\<close>, and \<open>padStart(4, "0")\<close>.\<close>

fun hex_text :: "nat \<Rightarrow> string" where
  "hex_text n = (if n < 16 then [hex_digit n] else hex_text (n div 16) @ [hex_digit (n mod 16)])"

definition hex16 :: "nat \<Rightarrow> string" where
  "hex16 code = ''0x'' @ replicate (4 - length (hex_text code)) CHR ''0'' @ hex_text code"

declare hex_text.simps [simp del]

section \<open>Lemmas\<close>

text \<open>A script is \<open>OP_RETURN\<close> and the shortest push of its payload.\<close>

definition push_bytes :: "nat \<Rightarrow> nat" where
  "push_bytes n = (if n \<le> 75 then 1 + n else 2 + n)"

lemma script_lengths:
  "SCRIPT_LENGTH operation = 1 + push_bytes (site_PAYLOAD_LENGTH operation)"
  "site_PAYLOAD_LENGTH operation \<le> MAX_MARKER_PAYLOAD" "SCRIPT_LENGTH operation \<le> MAX_MARKER_SCRIPT"
  by (cases operation; simp add: push_bytes_def MAX_MARKER_PAYLOAD_def MAX_MARKER_SCRIPT_def)+

lemma OPCODE_inject: "OPCODE a = OPCODE b \<Longrightarrow> a = b"
  by (cases a; cases b; simp)

text \<open>The lengths taken for the package's are the ones the site copied from it.\<close>

lemma site_PAYLOAD_LENGTH: "site_PAYLOAD_LENGTH operation = PAYLOAD_LENGTH (OPCODE operation)"
  by (cases operation) (simp_all add: PAYLOAD_LENGTH_def)

text \<open>No two entries share a code or a name, and every code has its entry's name.\<close>

lemma REASONS_codes: "distinct (map re_code REASONS)" "\<forall>e\<in>set REASONS. re_code e < 2 ^ 16"
  by (simp_all add: REASONS_def)

lemma REASONS_names: "distinct (map re_name REASONS)"
  by (simp add: REASONS_def)

lemma find_distinct_key:
  "distinct (map f xs) \<Longrightarrow> e \<in> set xs \<Longrightarrow> find (\<lambda>x. f x = f e) xs = Some e"
  by (induction xs) (auto simp: image_iff)

lemma site_reasonName_entry: "e \<in> set REASONS \<Longrightarrow> site_reasonName (re_code e) = re_name e"
  using find_distinct_key [OF REASONS_codes(1)] by (simp add: site_reasonName_def)

lemma site_reasonName_inject:
  "e \<in> set REASONS \<Longrightarrow> e' \<in> set REASONS \<Longrightarrow> site_reasonName (re_code e) = site_reasonName (re_code e') \<Longrightarrow> e = e'"
  using REASONS_names by (auto simp: site_reasonName_entry distinct_map dest: inj_onD)

text \<open>The codes the indexer names.\<close>

lemma indexer_reasons:
  "site_reasonName MULTIPLE_MARKERS = ''MULTIPLE_MARKERS''" "site_reasonName WRONG_NAMESPACE = ''WRONG_NAMESPACE''"
  "site_reasonName BAD_HEIGHT_OR_PHASE = ''BAD_HEIGHT_OR_PHASE''"
  "site_reasonName UNCONFIRMED_OR_SAME_BLOCK_PREVOUT = ''UNCONFIRMED_OR_SAME_BLOCK_PREVOUT''"
  by (simp_all add: site_reasonName_def REASONS_def)

lemma hex_text_length: "n < 16 ^ Suc k \<Longrightarrow> length (hex_text n) \<le> Suc k"
proof (induction k arbitrary: n)
  case (Suc k)
  then show ?case by (subst hex_text.simps) (auto simp: less_mult_imp_div_less)
qed (simp add: hex_text.simps)

lemma hex16_length: "code < 2 ^ 16 \<Longrightarrow> length (hex16 code) = 6"
  using hex_text_length [of code 3] by (simp add: hex16_def)

end
