(* ===== verification/Bitcoin_Zmq.thy ===== *)
theory Bitcoin_Zmq
  imports Deployment_State Block_Reducer
begin

text \<open>
  \<open>src/bitcoin/bitcoin-zmq.service.ts\<close>: the subscriptions to the notifications of the node, and the events
  the service emits for them.  The sockets are a parameter: what one delivers is a list of messages, each
  with the state of the service when it arrives, or a failure.
\<close>

section \<open>The service\<close>

datatype zmq_topic = Hashblock | Rawtx | Sequence

text \<open>\<open>onModuleInit\<close>: an endpoint of the configuration is subscribed to under its topic.\<close>

definition subscriptions :: "bitcoin_configuration \<Rightarrow> (string \<times> zmq_topic) list" where
  "subscriptions bitcoin =
     (let endpoint = \<lambda>configured topic. if truthy configured then [(the configured, topic)] else []
      in endpoint (bc_zmqHashBlock bitcoin) Hashblock @ endpoint (bc_zmqRawTx bitcoin) Rawtx @
         endpoint (bc_zmqSequence bitcoin) Sequence)"

record sequence_notification =
  sq_hash :: string
  sq_label :: string
  sq_sequence :: "nat option"

datatype zmq_event = HashblockEvent string | RawtxEvent bytes | SequenceEvent sequence_notification

text \<open>The 64-bit number is read little-endian at offset 33.\<close>

definition parseSequence :: "bytes \<Rightarrow> sequence_notification" where
  "parseSequence body =
     \<lparr>sq_hash = (if length body \<ge> 32 then to_hex (rev (take 32 body)) else []),
      sq_label = (if length body \<ge> 33 then [char_of (unat (body ! 32))] else []),
      sq_sequence = (if length body \<ge> 41 then Some (le_value (take 8 (drop 33 body))) else None)\<rparr>"

definition zmq_event_of :: "zmq_topic \<Rightarrow> bytes \<Rightarrow> zmq_event" where
  "zmq_event_of topic body =
     (case topic of
        Hashblock \<Rightarrow> HashblockEvent (to_hex (rev body))
      | Rawtx \<Rightarrow> RawtxEvent body
      | Sequence \<Rightarrow> SequenceEvent (parseSequence body))"

text \<open>A message of the socket with whether the service is stopping then, or a failure of the socket.\<close>

datatype zmq_delivery = Frames bool "bytes list" | SocketFailed bool string

text \<open>The events of a socket, and the error that is logged.\<close>

fun consume :: "zmq_topic \<Rightarrow> zmq_delivery list \<Rightarrow> zmq_event list \<times> string option" where
  "consume topic [] = ([], None)"
| "consume topic (SocketFailed stopping message # deliveries) = ([], if stopping then None else Some message)"
| "consume topic (Frames stopping frames # deliveries) =
     (if stopping then ([], None)
      else case nth_opt frames 1 of
        None \<Rightarrow> consume topic deliveries
      | Some body \<Rightarrow> apfst (Cons (zmq_event_of topic body)) (consume topic deliveries))"

section \<open>Lemmas\<close>

text \<open>
  The body Bitcoin Core documents (a hash in wire order, a label, and a counter for labels of the mempool) is
  read back: the hash in display order, the label, and the counter if it is there.
\<close>

lemma parseSequence_mempool:
  assumes "length h = 32" and "n < 2 ^ 64"
  shows "parseSequence (rev h @ [b] @ le_bytes 8 n) =
    \<lparr>sq_hash = to_hex h, sq_label = [char_of (unat b)], sq_sequence = Some n\<rparr>"
  using assms le_value_le_bytes [of n 8] by (simp add: parseSequence_def nth_append)

lemma parseSequence_block:
  assumes "length h = 32"
  shows "parseSequence (rev h @ [b]) = \<lparr>sq_hash = to_hex h, sq_label = [char_of (unat b)], sq_sequence = None\<rparr>"
  using assms by (simp add: parseSequence_def nth_append)

lemma parseSequence_hash:
  "sq_hash (parseSequence body) = [] \<or> HASH_HEX (sq_hash (parseSequence body))"
proof (cases "length body \<ge> 32")
  case True
  then have "length (rev (take 32 body)) = 32" by simp
  then show ?thesis using is_hex_text_to_hex [of "rev (take 32 body)"] True by (simp add: parseSequence_def HASH_HEX_def)
qed (simp add: parseSequence_def)

text \<open>While the service runs, every message with a body gives one event, in order.\<close>

lemma consume_running:
  "consume topic (map (Frames False) messages) =
     (map (zmq_event_of topic) (List.map_filter (\<lambda>frames. nth_opt frames 1) messages), None)"
  by (induction messages) (auto simp: List.map_filter_def split: option.splits)

text \<open>Nothing is emitted from the moment the service stops, and nothing is logged then.\<close>

lemma consume_stopped:
  "consume topic (map (Frames False) messages @ Frames True frames # deliveries) =
     consume topic (map (Frames False) messages)"
  "consume topic (map (Frames False) messages @ SocketFailed True message # deliveries) =
     consume topic (map (Frames False) messages)"
  by (induction messages) (auto split: option.splits)

end
