(* ===== verification/Site_Pages.thy ===== *)
theory Site_Pages
  imports Configuration Block_Reducer
begin

text \<open>
  The pages of the built site and what is made of them: \<open>site/src/lib/og.ts\<close> and \<open>site/scripts/build-og.mjs\<close>
  name the preview image of a page, \<open>build-static-endpoints.mjs\<close> its route, \<open>check-links.mjs\<close> the file behind a
  link, and \<open>reuse-verified-build.mjs\<close> which paths an archive may hold.  A path is the text relative to the
  directory of the build, with \<open>/\<close> as its separator; reading files and HTML, and the drawing of the images are
  left out.
\<close>

section \<open>The preview image of a page\<close>

definition ends_with :: "string \<Rightarrow> string \<Rightarrow> bool" where
  "ends_with ending s = (take (length ending) (rev s) = rev ending)"

definition drop_suffix :: "string \<Rightarrow> string \<Rightarrow> string" where
  "drop_suffix ending s = (if ends_with ending s then take (length s - length ending) s else s)"

definition strip_both_slashes :: "string \<Rightarrow> string" where
  "strip_both_slashes s = strip_slashes (dropWhile (\<lambda>c. c = CHR ''/'') s)"

definition drop_base :: "string \<Rightarrow> string \<Rightarrow> string" where
  "drop_base base pathname =
     (if base \<noteq> [] \<and> starts_with base pathname then drop (length base) pathname else pathname)"

text \<open>The pattern \<open>(^|/)index.html$\<close>.\<close>

definition drop_index :: "string \<Rightarrow> string" where
  "drop_index route = (if route = ''index.html'' then [] else drop_suffix ''/index.html'' route)"

definition slug_char :: "char \<Rightarrow> string" where
  "slug_char c =
     (if c = CHR ''/'' then ''__''
      else if is_alpha c \<or> is_digit c \<or> c = CHR ''_'' \<or> c = CHR ''-'' then [c] else ''-'')"

definition ogSlugFromPathname :: "string \<Rightarrow> string \<Rightarrow> string" where
  "ogSlugFromPathname pathname base =
     (let route = drop_suffix ''.html'' (drop_index (strip_both_slashes (drop_base (strip_slashes base) pathname)))
      in if route = [] then ''index'' else concat (map slug_char route))"

text \<open>\<open>slugFor\<close> of the script that draws the images, for the path of a page.\<close>

definition slugFor :: "string \<Rightarrow> string" where
  "slugFor relPath =
     (let route = drop_suffix ''/'' (drop_suffix ''.html'' (drop_suffix ''index.html'' relPath))
      in if route = [] then ''index'' else concat (map slug_char route))"

section \<open>The files of the build\<close>

datatype dir_entry = PlainFile string | Directory string "dir_entry list"

definition SKIP_DIRS :: "string list" where
  "SKIP_DIRS = [''pagefind'', ''_astro'', ''og'']"

text \<open>The pages below a directory, given by its names; the scripts for images and for links look at all of them.\<close>

fun htmlFiles :: "string list \<Rightarrow> dir_entry \<Rightarrow> string list list" where
  "htmlFiles dir (PlainFile n) = (if ends_with ''.html'' n then [dir @ [n]] else [])"
| "htmlFiles dir (Directory n es) =
     (if n \<in> set SKIP_DIRS then [] else concat (map (htmlFiles (dir @ [n])) es))"

fun indexFiles :: "string list \<Rightarrow> dir_entry \<Rightarrow> string list list" where
  "indexFiles dir (PlainFile n) = (if n = ''index.html'' then [dir @ [n]] else [])"
| "indexFiles dir (Directory n es) =
     (if n \<in> set SKIP_DIRS then [] else concat (map (indexFiles (dir @ [n])) es))"

section \<open>Routes and links\<close>

definition BASE :: string where
  "BASE = ''/index-tandem''"

definition routeOf :: "string list \<Rightarrow> string" where
  "routeOf parts = (if parts = [] then BASE @ ''/'' else BASE @ ''/'' @ join_with ''/'' parts @ ''/'')"

definition sectionOf :: "string \<Rightarrow> string" where
  "sectionOf route = (let rest = drop (length BASE + 1) route in if rest = [] then [] else hd (split_on CHR ''/'' rest))"

definition distPathFor :: "string \<Rightarrow> string" where
  "distPathFor pathname =
     (let route = dropWhile (\<lambda>c. c = CHR ''/'') (if starts_with BASE pathname then drop (length BASE) pathname else pathname)
      in if route = [] then ''index.html'' else if ends_with ''/'' route then route @ ''index.html'' else route)"

text \<open>
  One link of a page: it is skipped, or checked with the problem found.  \<open>file_ids\<close> gives the ids of a page,
  \<open>exists\<close> says which files there are, \<open>decoded\<close> is \<open>decodeURIComponent\<close>.
\<close>

definition quoted :: "string \<Rightarrow> string" where
  "quoted s = CHR 0x22 # s @ [CHR 0x22]"

datatype link_check = LinkSkipped | LinkChecked "string option"

definition check_link ::
  "(string \<Rightarrow> string) \<Rightarrow> (string \<Rightarrow> bool) \<Rightarrow> (string \<Rightarrow> string list option) \<Rightarrow> string \<Rightarrow> string \<Rightarrow> link_check" where
  "check_link decoded exists file_ids from href =
     (if href = [] \<or> list_ex (\<lambda>p. starts_with p href) [''http://'', ''https://'', ''mailto:'', ''tel:'', ''data:'']
      then LinkSkipped
      else if starts_with ''#'' href
      then let id = decoded (drop 1 href)
        in LinkChecked (if id \<noteq> [] \<and> id \<notin> set (nullish (file_ids from) [])
             then Some (from @ '': fragment '' @ href @ '' has no matching id on this page'') else None)
      else if \<not> starts_with ''/'' href
      then LinkChecked (Some (from @ '': relative link '' @ quoted href @ ''. Use a base-prefixed absolute path.''))
      else if \<not> starts_with (BASE @ ''/'') href \<and> href \<noteq> BASE
      then LinkChecked (Some (from @ '': link '' @ quoted href @ '' is missing the '' @ BASE @ '' base path''))
      else let pieces = split_on CHR ''#'' href; target = distPathFor (hd pieces); fragment = nth_opt pieces 1
        in if \<not> exists target
           then LinkChecked (Some (from @ '': link '' @ quoted href @ '' points at a page that was not built''))
           else LinkChecked (if truthy fragment \<and>
                \<not> pred_option (\<lambda>ids. decoded (the fragment) \<in> set ids) (file_ids target)
              then Some (from @ '': link '' @ quoted href @ '' points at an id that does not exist'') else None))"

section \<open>Paths of an archive\<close>

definition safe_path :: "string \<Rightarrow> bool" where
  "safe_path path =
     (\<not> starts_with ''/'' path \<and> CHR 0x5C \<notin> set path \<and> ''..'' \<notin> set (split_on CHR ''/'' path))"

definition safe_archive :: "string list \<Rightarrow> bool" where
  "safe_archive paths = list_all safe_path paths"

section \<open>Lemmas\<close>

lemma ends_with_iff: "ends_with e s \<longleftrightarrow> (\<exists>p. s = p @ e)"
proof
  assume "ends_with e s"
  then have "rev s = rev e @ drop (length e) (rev s)" by (metis append_take_drop_id ends_with_def length_rev)
  then show "\<exists>p. s = p @ e" by (metis rev_append rev_rev_ident)
qed (auto simp: ends_with_def)

lemma drop_suffix_append [simp]: "drop_suffix e (p @ e) = p"
  using ends_with_iff [of e "p @ e"] by (simp add: drop_suffix_def)

lemma drop_suffix_other: "\<not> ends_with e s \<Longrightarrow> drop_suffix e s = s"
  by (simp add: drop_suffix_def)

text \<open>The name of an image is a file name: it holds no slash and no dot, and it is not empty.\<close>

lemma ogSlug_safe:
  "\<forall>c\<in>set (ogSlugFromPathname pathname base). is_alpha c \<or> is_digit c \<or> c = CHR ''_'' \<or> c = CHR ''-''"
proof -
  have "\<forall>c\<in>set (slug_char x). is_alpha c \<or> is_digit c \<or> c = CHR ''_'' \<or> c = CHR ''-''" for x
    by (simp add: slug_char_def)
  moreover have "\<forall>c\<in>set ''index''. is_alpha c" by (simp add: is_alpha_def char_code_def)
  ultimately show ?thesis by (auto simp: ogSlugFromPathname_def Let_def)
qed

lemma ogSlug_nonempty: "ogSlugFromPathname pathname base \<noteq> []"
proof -
  have "slug_char c \<noteq> []" for c by (simp add: slug_char_def)
  then have "route \<noteq> [] \<Longrightarrow> concat (map slug_char route) \<noteq> []" for route by (cases route) auto
  then show ?thesis by (simp add: ogSlugFromPathname_def Let_def)
qed

text \<open>Two pages may share an image.\<close>

lemma ogSlug_shared: "ogSlugFromPathname ''/a/b/'' ''/'' = ogSlugFromPathname ''/a__b/'' ''/''"
  by (simp add: ogSlugFromPathname_def strip_slashes_def strip_both_slashes_def drop_base_def starts_with_def drop_index_def
    drop_suffix_def ends_with_def slug_char_def is_alpha_def is_digit_def char_code_def Let_def)

text \<open>A route of directory names.\<close>

definition plain_names :: "string list \<Rightarrow> bool" where
  "plain_names parts = list_all (\<lambda>n. n \<noteq> [] \<and> CHR ''/'' \<notin> set n) parts"

lemma join_plain:
  "parts \<noteq> [] \<Longrightarrow> plain_names parts \<Longrightarrow>
     join_with ''/'' parts \<noteq> [] \<and> hd (join_with ''/'' parts) \<noteq> CHR ''/'' \<and> last (join_with ''/'' parts) \<noteq> CHR ''/''"
  by (induction "''/''" parts rule: join_with.induct)
    (auto simp: plain_names_def hd_append last_append dest: hd_in_set last_in_set)

lemma join_snoc: "parts \<noteq> [] \<Longrightarrow> join_with c (parts @ [p]) = join_with c parts @ c @ p"
  by (induction c parts rule: join_with.induct) auto

lemma dropWhile_slash: "s = [] \<or> hd s \<noteq> CHR ''/'' \<Longrightarrow> dropWhile (\<lambda>c. c = CHR ''/'') s = s"
  by (cases s) auto

text \<open>The link to the route of a page leads to its file.\<close>

lemma distPathFor_route:
  assumes "plain_names parts"
  shows "distPathFor (routeOf parts) = join_with ''/'' (parts @ [''index.html''])"
proof (cases "parts = []")
  case False
  then show ?thesis
    using join_plain [OF False assms] dropWhile_slash [of "join_with ''/'' parts @ ''/''"] ends_with_iff [of "''/''" "join_with ''/'' parts @ ''/''"]
    by (auto simp: distPathFor_def routeOf_def BASE_def starts_with_def join_snoc Let_def)
qed (simp add: distPathFor_def routeOf_def BASE_def starts_with_def)

text \<open>The section of a page is the first directory of its path.\<close>

lemma sectionOf_route:
  assumes "plain_names (n # parts)"
  shows "sectionOf (routeOf (n # parts)) = n"
proof -
  let ?p = "join_with ''/'' (n # parts)"
  have "split_on CHR ''/'' (?p @ ''/'') = n # parts @ [[]]"
    using assms split_on_join [of "n # parts @ [[]]" "CHR ''/''"] join_snoc [of "n # parts" "''/''" "[]"]
    by (fastforce simp: plain_names_def list_all_iff)
  then show ?thesis by (simp add: sectionOf_def routeOf_def Let_def)
qed

text \<open>
  A page links to the image that is drawn for it: for every page that is the index of its directory the two
  rules for the name agree, unless the directory is called like a page.
\<close>

lemma slugs_agree:
  assumes "plain_names parts" and "strip_slashes base = BASE" and "\<not> ends_with ''.html'' (join_with ''/'' parts)"
  shows "ogSlugFromPathname (routeOf parts) base = slugFor (join_with ''/'' (parts @ [''index.html'']))"
proof (cases "parts = []")
  case True
  then show ?thesis using assms(2)
    by (simp add: ogSlugFromPathname_def slugFor_def routeOf_def drop_base_def BASE_def starts_with_def strip_both_slashes_def
      strip_slashes_def drop_index_def drop_suffix_def ends_with_def)
next
  case False
  let ?p = "join_with ''/'' parts"
  have p: "?p \<noteq> []" "hd ?p \<noteq> CHR ''/''" "last ?p \<noteq> CHR ''/''" using join_plain [OF False assms(1)] by auto
  have "drop_base (strip_slashes base) (routeOf parts) = ''/'' @ ?p @ ''/''"
    using False by (simp add: assms(2) drop_base_def routeOf_def BASE_def starts_with_def)
  moreover have "strip_both_slashes (''/'' @ ?p @ ''/'') = ?p"
    using p dropWhile_slash [of "?p @ ''/''"] dropWhile_slash [of "rev ?p"]
    by (simp add: strip_both_slashes_def strip_slashes_def hd_rev)
  moreover have "drop_suffix ''.html'' (drop_index ?p) = ?p"
  proof -
    have "?p \<noteq> ''index.html''" "\<not> ends_with ''/index.html'' ?p"
      using assms(3) unfolding ends_with_iff by (metis append.assoc append_Cons append_Nil)+
    then show ?thesis using assms(3) by (simp add: drop_index_def drop_suffix_other)
  qed
  moreover have "drop_suffix ''/'' (drop_suffix ''.html'' (drop_suffix ''index.html'' (?p @ ''/index.html''))) = ?p"
  proof -
    have "\<not> ends_with ''.html'' (?p @ ''/'')" by (simp add: ends_with_def)
    then show ?thesis
      using drop_suffix_append [of "''index.html''" "?p @ ''/''"] drop_suffix_append [of "''/''" ?p]
      by (simp add: drop_suffix_other)
  qed
  ultimately show ?thesis
    using False by (simp add: ogSlugFromPathname_def slugFor_def join_snoc)
qed

text \<open>A page that is no index and whose name ends in \<open>index\<close> links to an image nobody draws.\<close>

lemma slugs_differ:
  "slugFor ''reindex.html'' = ''re''" "ogSlugFromPathname ''/index-tandem/reindex.html'' BASE = ''reindex''"
  by code_simp+

text \<open>A link that passes leads to a file, and its fragment to an id if the file is a page.\<close>

lemma starts_with_append: "starts_with (p @ q) s \<Longrightarrow> starts_with p s"
  unfolding starts_with_def by (metis append_eq_append_conv_if append_take_drop_id length_append nat_le_iff_add take_append take_all_iff take_take)

lemma check_link_passes:
  assumes "check_link decoded exists file_ids from href = LinkChecked None" and "starts_with ''/'' href"
  shows "exists (distPathFor (hd (split_on CHR ''#'' href))) \<and> starts_with BASE href"
proof -
  have "\<not> starts_with ''#'' href" using assms(2) by (cases href) (auto simp: starts_with_def)
  moreover have "starts_with BASE href" if "starts_with (BASE @ ''/'') href \<or> href = BASE"
    using that starts_with_append [of BASE "''/''" href] by (auto simp: starts_with_def [of BASE BASE])
  ultimately show ?thesis using assms by (auto simp: check_link_def Let_def split: if_splits)
qed

text \<open>Where a path of an archive ends up: \<open>..\<close> leaves a directory.\<close>

fun walk_path :: "string list \<Rightarrow> string list \<Rightarrow> string list" where
  "walk_path at [] = at"
| "walk_path at (n # ns) =
     walk_path (if n = [] \<or> n = ''.'' then at else if n = ''..'' then butlast at else at @ [n]) ns"

lemma walk_path_inside: "''..'' \<notin> set ns \<Longrightarrow> \<exists>below. walk_path at ns = at @ below"
proof (induction ns arbitrary: at)
  case (Cons n ns)
  show ?case using Cons(1) [of at] Cons(1) [of "at @ [n]"] Cons(2) by auto
qed simp

lemma safe_archive_inside:
  "safe_archive paths \<Longrightarrow> path \<in> set paths \<Longrightarrow> \<exists>below. walk_path at (split_on CHR ''/'' path) = at @ below"
  by (auto simp: safe_archive_def safe_path_def list_all_iff intro: walk_path_inside)

end
