(* ===== verification/Environment_Reference.thy ===== *)
theory Environment_Reference
  imports Configuration
begin

text \<open>
  The environment of the program: the variables the configuration reads, the table of them the site prints
  (\<open>site/src/data/env-vars.ts\<close>), and the environment \<open>scripts/emit-openapi.ts\<close> describes the routes under.
\<close>

section \<open>The table of the site\<close>

text \<open>Key, label, group and tags; the prose of a row is left out.\<close>

datatype env_row = EnvRow (ev_key: string) (ev_label: string) (ev_meta: string) (ev_tags: "string list")

definition ENV_GROUPS :: "string list" where
  "ENV_GROUPS = [''binding'', ''service'', ''bitcoin'', ''database'', ''readiness'', ''signing'', ''verification'',
      ''compose'']"

definition ENV_VARS :: "env_row list" where
  "ENV_VARS =
     [EnvRow ''TANDEM_NETWORK'' ''Required. One of mainnet, signet, testnet4, regtest.'' ''binding''
        [''binding'', ''required''],
      EnvRow ''TANDEM_INIT_TXID'' ''Required. 32-byte lowercase hex.'' ''binding''
        [''binding'', ''required''],
      EnvRow ''TANDEM_SPEC_HASH'' ''Required. 32-byte lowercase hex.'' ''binding''
        [''binding'', ''required''],
      EnvRow ''TANDEM_INIT_HEIGHT'' ''Required. Non-negative integer.'' ''binding''
        [''binding'', ''required''],
      EnvRow ''TANDEM_OPEN_HEIGHT'' ''Required. Non-negative integer.'' ''binding''
        [''binding'', ''required''],
      EnvRow ''TANDEM_CLOSE_HEIGHT'' ''Required. Must equal the open height plus 4,320.'' ''binding''
        [''binding'', ''required''],
      EnvRow ''TANDEM_NAMESPACE'' ''Required. 32-byte lowercase hex.'' ''binding''
        [''binding'', ''required''],
      EnvRow ''NODE_ENV'' ''Optional. Defaults to development.'' ''service'' [''service''],
      EnvRow ''HTTP_HOST'' ''Optional. Defaults to 127.0.0.1.'' ''service'' [''service''],
      EnvRow ''PORT'' ''Optional. Defaults to 3021.'' ''service'' [''service''],
      EnvRow ''BITCOIN_RPC_URL'' ''Required.'' ''bitcoin'' [''bitcoin'', ''required''],
      EnvRow ''BITCOIN_RPC_USER'' ''Required.'' ''bitcoin'' [''bitcoin'', ''required''],
      EnvRow ''BITCOIN_RPC_PASSWORD'' ''Required.'' ''bitcoin'' [''bitcoin'', ''required'', ''secret''],
      EnvRow ''BITCOIN_RPC_TIMEOUT_MS'' ''Optional. Defaults to 15000.'' ''bitcoin'' [''bitcoin''],
      EnvRow ''BITCOIN_ZMQ_HASHBLOCK'' ''Optional. Blank by default.'' ''bitcoin'' [''bitcoin''],
      EnvRow ''BITCOIN_ZMQ_RAWTX'' ''Optional. Blank by default.'' ''bitcoin'' [''bitcoin''],
      EnvRow ''BITCOIN_ZMQ_SEQUENCE'' ''Optional. Blank by default.'' ''bitcoin'' [''bitcoin''],
      EnvRow ''MYSQL_HOST'' ''Required.'' ''database'' [''database'', ''required''],
      EnvRow ''MYSQL_PORT'' ''Optional. Defaults to 3306.'' ''database'' [''database''],
      EnvRow ''MYSQL_USER'' ''Required.'' ''database'' [''database'', ''required''],
      EnvRow ''MYSQL_PASSWORD'' ''Required.'' ''database'' [''database'', ''required'', ''secret''],
      EnvRow ''MYSQL_DATABASE'' ''Required.'' ''database'' [''database'', ''required''],
      EnvRow ''READINESS_MAX_BLOCK_LAG'' ''Optional. Defaults to 2.'' ''readiness'' [''readiness''],
      EnvRow ''AGREEMENT_KEY_ID'' ''Optional, but required as soon as any key is set.'' ''signing''
        [''signing'', ''operator''],
      EnvRow ''AGREEMENT_PRIVATE_KEY_HEX'' ''Optional. 32-byte lowercase hex.'' ''signing''
        [''signing'', ''operator'', ''secret''],
      EnvRow ''AGREEMENT_PUBLIC_KEY_HEX'' ''Optional. 32-byte lowercase hex.'' ''signing''
        [''signing'', ''operator''],
      EnvRow ''TANDEM_PARSER_COMMIT'' ''Optional. 20-byte lowercase hex, so 40 characters.'' ''signing''
        [''signing'', ''operator'', ''release''],
      EnvRow ''TANDEM_INDEXER_COMMIT'' ''Optional. 20-byte lowercase hex.'' ''signing''
        [''signing'', ''operator'', ''release''],
      EnvRow ''TANDEM_PARSER_BINARY_SHA256'' ''Optional. 32-byte lowercase hex.'' ''signing''
        [''signing'', ''operator'', ''release''],
      EnvRow ''TANDEM_INDEXER_BINARY_SHA256'' ''Optional. 32-byte lowercase hex.'' ''signing''
        [''signing'', ''operator'', ''release''],
      EnvRow ''PIPELINE_B_BASE_URL'' ''Optional. Absolute http or https URL.'' ''verification''
        [''verification'', ''operator'', ''external''],
      EnvRow ''PIPELINE_B_REQUEST_TIMEOUT_MS'' ''Optional. Defaults to 5000.'' ''verification''
        [''verification''],
      EnvRow ''PIPELINE_A_TRUSTED_KEYS_JSON'' ''Optional. JSON object, defaults to empty.'' ''verification''
        [''verification'', ''operator''],
      EnvRow ''PIPELINE_B_TRUSTED_KEYS_JSON'' ''Optional. JSON object, defaults to empty.'' ''verification''
        [''verification'', ''operator''],
      EnvRow ''TANDEM_VERIFIED_MAINNET_ENABLED'' ''Optional. Defaults to false.'' ''verification''
        [''verification'', ''mainnet''],
      EnvRow ''MYSQL_ROOT_PASSWORD'' ''Compose only. Not read by the application.'' ''compose''
        [''compose'', ''database'', ''secret'']]"

section \<open>What the configuration reads\<close>

definition READ_KEYS :: "string list" where
  "READ_KEYS =
     [''TANDEM_NETWORK'', ''TANDEM_INIT_TXID'', ''TANDEM_INIT_HEIGHT'', ''TANDEM_OPEN_HEIGHT'',
      ''TANDEM_CLOSE_HEIGHT'', ''TANDEM_SPEC_HASH'', ''TANDEM_NAMESPACE'', ''AGREEMENT_PRIVATE_KEY_HEX'',
      ''AGREEMENT_PUBLIC_KEY_HEX'', ''AGREEMENT_KEY_ID'', ''TANDEM_PARSER_COMMIT'',
      ''TANDEM_INDEXER_COMMIT'', ''TANDEM_PARSER_BINARY_SHA256'', ''TANDEM_INDEXER_BINARY_SHA256'',
      ''BITCOIN_ZMQ_HASHBLOCK'', ''BITCOIN_ZMQ_RAWTX'', ''BITCOIN_ZMQ_SEQUENCE'',
      ''PIPELINE_B_BASE_URL'', ''TANDEM_CATALOG_TOKEN'', ''TANDEM_CATALOG_CURSOR_SECRET'', ''HTTP_HOST'',
      ''PORT'', ''NODE_ENV'', ''BITCOIN_RPC_URL'', ''BITCOIN_RPC_USER'', ''BITCOIN_RPC_PASSWORD'',
      ''BITCOIN_RPC_TIMEOUT_MS'', ''MYSQL_HOST'', ''MYSQL_PORT'', ''MYSQL_USER'', ''MYSQL_PASSWORD'',
      ''MYSQL_DATABASE'', ''READINESS_MAX_BLOCK_LAG'', ''TANDEM_SYNC_ENABLED'', ''TANDEM_SYNC_POLL_MS'',
      ''TANDEM_INIT_SCAN_DEPTH'', ''TANDEM_SYNC_BATCH_BLOCKS'', ''TANDEM_SYNC_FETCH_CONCURRENCY'',
      ''PIPELINE_B_REQUEST_TIMEOUT_MS'', ''TANDEM_VERIFIED_MAINNET_ENABLED'',
      ''PIPELINE_A_TRUSTED_KEYS_JSON'', ''PIPELINE_B_TRUSTED_KEYS_JSON'']"

definition REQUIRED_KEYS :: "string list" where
  "REQUIRED_KEYS =
     [''TANDEM_NETWORK'', ''TANDEM_SPEC_HASH'', ''BITCOIN_RPC_URL'', ''BITCOIN_RPC_USER'',
      ''BITCOIN_RPC_PASSWORD'', ''MYSQL_HOST'', ''MYSQL_USER'', ''MYSQL_PASSWORD'', ''MYSQL_DATABASE'']"

text \<open>A reader looks at the one variable it names.\<close>

lemma reader_frame:
  assumes "env k = env' k"
  shows "required env k = required env' k" "optional env k = optional env' k"
    "integer env k fallback = integer env' k fallback" "optionalInteger env k = optionalInteger env' k"
    "env_hash env k = env_hash env' k" "optionalHash env k = optionalHash env' k"
    "optionalCommit env k = optionalCommit env' k" "env_boolean env k b = env_boolean env' k b"
    "trustedKeys pf env k = trustedKeys pf env' k" "baseUrl pf env k = baseUrl pf env' k"
proof -
  show optional: "optional env k = optional env' k" and required: "required env k = required env' k"
    and integer: "integer env k fallback = integer env' k fallback" for fallback
    using assms by (simp_all add: optional_def required_def integer_def)
  show "optionalInteger env k = optionalInteger env' k" by (simp add: optionalInteger_def optional integer)
  show "env_hash env k = env_hash env' k" by (simp add: env_hash_def required)
  show "optionalHash env k = optionalHash env' k" "optionalCommit env k = optionalCommit env' k"
    "env_boolean env k b = env_boolean env' k b" "trustedKeys pf env k = trustedKeys pf env' k"
    "baseUrl pf env k = baseUrl pf env' k"
    by (simp_all add: optionalHash_def optionalCommit_def env_boolean_def trustedKeys_def baseUrl_def optional)
qed

text \<open>Two environments that agree on the variables read give the same configuration.\<close>

theorem loadConfiguration_reads:
  assumes "list_all (\<lambda>k. env k = env' k) READ_KEYS"
  shows "loadConfiguration pc pf env = loadConfiguration pc pf env'"
proof -
  note frame = reader_frame [of env _ env']
  have k: "env k = env' k" if "k \<in> set READ_KEYS" for k using assms that by (simp add: list_all_iff)
  have "load_deployment pc env = load_deployment pc env'" "load_agreement_keys env = load_agreement_keys env'"
    "load_bitcoin env network = load_bitcoin env' network" "load_database env = load_database env'"
    "load_sync env = load_sync env'" "load_verification pf env u = load_verification pf env' u"
    "load_catalog env = load_catalog env'" for network u
    by (simp_all add: load_deployment_def load_agreement_keys_def load_bitcoin_def load_database_def load_sync_def
      load_verification_def load_catalog_def frame k READ_KEYS_def)
  moreover have "optionalCommit env ''TANDEM_PARSER_COMMIT'' = optionalCommit env' ''TANDEM_PARSER_COMMIT''"
    "optionalCommit env ''TANDEM_INDEXER_COMMIT'' = optionalCommit env' ''TANDEM_INDEXER_COMMIT''"
    "optionalHash env ''TANDEM_PARSER_BINARY_SHA256'' = optionalHash env' ''TANDEM_PARSER_BINARY_SHA256''"
    "optionalHash env ''TANDEM_INDEXER_BINARY_SHA256'' = optionalHash env' ''TANDEM_INDEXER_BINARY_SHA256''"
    "baseUrl pf env ''PIPELINE_B_BASE_URL'' = baseUrl pf env' ''PIPELINE_B_BASE_URL''"
    "integer env ''PORT'' (Some 3021) = integer env' ''PORT'' (Some 3021)"
    "integer env ''READINESS_MAX_BLOCK_LAG'' (Some 2) = integer env' ''READINESS_MAX_BLOCK_LAG'' (Some 2)"
    "optional env ''HTTP_HOST'' = optional env' ''HTTP_HOST''" "optional env ''NODE_ENV'' = optional env' ''NODE_ENV''"
    by (simp_all add: frame k READ_KEYS_def)
  ultimately show ?thesis unfolding loadConfiguration_def by simp
qed

text \<open>Without one of the required variables there is no configuration.\<close>

lemma required_missing: "env k = None \<Longrightarrow> required env k = Inl (ConfigurationError (k @ '' is required''))"
  by (simp add: required_def)

lemma loadConfiguration_required:
  assumes "k \<in> set REQUIRED_KEYS" and "env k = None"
  shows "loadConfiguration pc pf env \<noteq> Inr c"
proof
  assume loaded: "loadConfiguration pc pf env = Inr c"
  then obtain d b db where "load_deployment pc env = Inr d" "load_bitcoin env (dc_network d) = Inr b"
    "load_database env = Inr db"
    by (auto simp: loadConfiguration_def)
  then have "\<exists>s. required env k' = Inr s" if "k' \<in> set REQUIRED_KEYS" for k'
    using that by (auto simp: load_deployment_def load_bitcoin_def load_database_def env_hash_def REQUIRED_KEYS_def Let_def)
  then show False using assms required_missing by fastforce
qed

section \<open>The table and the program\<close>

text \<open>
  The table names seven variables too few, and marks five more as required than the configuration requires.
\<close>

definition documented :: "string list" where
  "documented = map ev_key ENV_VARS"

definition documented_required :: "string list" where
  "documented_required = map ev_key (filter (\<lambda>r. ''required'' \<in> set (ev_tags r)) ENV_VARS)"

lemma undocumented:
  "filter (\<lambda>k. k \<notin> set documented) READ_KEYS =
     [''TANDEM_CATALOG_TOKEN'', ''TANDEM_CATALOG_CURSOR_SECRET'', ''TANDEM_SYNC_ENABLED'', ''TANDEM_SYNC_POLL_MS'',
      ''TANDEM_INIT_SCAN_DEPTH'', ''TANDEM_SYNC_BATCH_BLOCKS'', ''TANDEM_SYNC_FETCH_CONCURRENCY'']"
  "filter (\<lambda>k. k \<notin> set READ_KEYS) documented = [''MYSQL_ROOT_PASSWORD'']"
  by code_simp+

lemma documented_required_keys:
  "set REQUIRED_KEYS \<subseteq> set documented_required"
  "filter (\<lambda>k. k \<notin> set REQUIRED_KEYS) documented_required =
     [''TANDEM_INIT_TXID'', ''TANDEM_INIT_HEIGHT'', ''TANDEM_OPEN_HEIGHT'', ''TANDEM_CLOSE_HEIGHT'', ''TANDEM_NAMESPACE'']"
  by code_simp+

lemma ENV_VARS_groups: "list_all (\<lambda>r. ev_meta r \<in> set ENV_GROUPS \<and> ev_meta r \<in> set (ev_tags r)) ENV_VARS" "distinct documented"
  by code_simp+

text \<open>An environment without any of the five loads.\<close>

definition unbound_environment :: environment where
  "unbound_environment = demo_environment(''TANDEM_INIT_TXID'' := None, ''TANDEM_OPEN_HEIGHT'' := None,
     ''TANDEM_CLOSE_HEIGHT'' := None)"

lemma unbound_loads:
  "\<exists>c. loadConfiguration demo_constants demo_platform unbound_environment = Inr c \<and> dc_initTxid (cfg_deployment c) = None"
  "list_all (\<lambda>k. unbound_environment k = None) [''TANDEM_INIT_TXID'', ''TANDEM_INIT_HEIGHT'',
     ''TANDEM_OPEN_HEIGHT'', ''TANDEM_CLOSE_HEIGHT'', ''TANDEM_NAMESPACE'']"
proof -
  have d: "load_deployment demo_constants unbound_environment =
     Inr \<lparr>dc_protocolId = None, dc_network = ''regtest'', dc_networkCode = Some 3, dc_initTxid = None,
       dc_initHeight = None, dc_openHeight = None, dc_closeHeight = None,
       dc_specHash = replicate 64 CHR ''5'', dc_namespace = None\<rparr>"
    by (simp add: load_deployment_def reader_evaluation text_evaluation unbound_environment_def
      demo_environment_def demo_constants_def js_in_def)
  have "same_service unbound_environment" by (simp add: same_service_def unbound_environment_def)
  from service_loads [OF this d, of demo_platform]
  show "\<exists>c. loadConfiguration demo_constants demo_platform unbound_environment = Inr c \<and> dc_initTxid (cfg_deployment c) = None"
    by auto
  show "list_all (\<lambda>k. unbound_environment k = None) [''TANDEM_INIT_TXID'', ''TANDEM_INIT_HEIGHT'',
     ''TANDEM_OPEN_HEIGHT'', ''TANDEM_CLOSE_HEIGHT'', ''TANDEM_NAMESPACE'']"
    by (simp add: unbound_environment_def demo_environment_def)
qed

section \<open>The environment of the API description\<close>

text \<open>\<open>describeEnvironment\<close>, and with the namespace of its binding.\<close>

definition describeEnvironment :: environment where
  "describeEnvironment = map_of
     [(''NODE_ENV'', ''production''), (''TANDEM_NETWORK'', ''signet''),
      (''TANDEM_INIT_TXID'', concat (replicate 32 ''11'')), (''TANDEM_INIT_HEIGHT'', ''1008''),
      (''TANDEM_OPEN_HEIGHT'', ''2016''), (''TANDEM_CLOSE_HEIGHT'', ''6336''),
      (''TANDEM_SPEC_HASH'', concat (replicate 32 ''22'')), (''TANDEM_NAMESPACE'', ''''),
      (''BITCOIN_RPC_URL'', ''http://127.0.0.1:38332''), (''BITCOIN_RPC_USER'', ''openapi''),
      (''BITCOIN_RPC_PASSWORD'', ''openapi''), (''MYSQL_HOST'', ''127.0.0.1''), (''MYSQL_USER'', ''tandem''),
      (''MYSQL_PASSWORD'', ''openapi''), (''MYSQL_DATABASE'', ''tandem_openapi'')]"

definition environmentWithNamespace :: "protocol_constants \<Rightarrow> environment result" where
  "environmentWithNamespace pc =
     bindE (of_option (LibraryError ''hexToBytes'')
       (parse_hex 32 (nullish (describeEnvironment ''TANDEM_INIT_TXID'') []))) (\<lambda>txidBytes.
     bindE (of_option (LibraryError ''hexToBytes'')
       (parse_hex 32 (nullish (describeEnvironment ''TANDEM_SPEC_HASH'') []))) (\<lambda>specBytes.
     bindE (pc_namespaceCommitment pc (js_get (pc_NETWORK pc) ''signet'') txidBytes specBytes) (\<lambda>commitment.
       Inr (describeEnvironment(''TANDEM_NAMESPACE'' \<mapsto> to_hex commitment)))))"

lemma trim_hex:
  assumes "is_hex_text n s"
  shows "trim s = s" "to_lower s = s"
proof -
  have "\<forall>c\<in>set s. \<not> is_space c"
    using assms by (auto simp: is_hex_text_def list_all_iff is_lower_hex_char_def is_digit_def is_space_def)
  then have "dropWhile is_space s = s" "dropWhile is_space (rev s) = rev s"
    by (metis dropWhile_eq_self_iff hd_in_set, metis dropWhile_eq_self_iff hd_in_set set_rev)
  then show "trim s = s" by (simp add: trim_def)
  show "to_lower s = s" using assms by (rule is_hex_text_lower)
qed

text \<open>With the constants of the protocol the configuration accepts it, on signet and with the namespace it names.\<close>

lemma describe_environment_loads:
  assumes "js_get (pc_NETWORK pc) ''signet'' = Some code" and "pc_FOUNDING_WINDOW pc = 4320" and "pc_INIT_LEAD pc = 1008"
    and "pc_namespaceCommitment pc (Some code) (replicate 32 0x11) (replicate 32 0x22) = Inr commitment"
    and "length commitment = 32"
  shows "\<exists>env c. environmentWithNamespace pc = Inr env \<and> loadConfiguration pc pf env = Inr c \<and>
    dc_network (cfg_deployment c) = ''signet'' \<and> dc_namespace (cfg_deployment c) = Some (to_hex commitment)"
proof -
  let ?env = "describeEnvironment(''TANDEM_NAMESPACE'' \<mapsto> to_hex commitment)"
  have hex: "is_hex_text 64 (to_hex commitment)" using is_hex_text_to_hex [of commitment] assms(5) by simp
  have parsed: "parse_hex 32 (concat (replicate 32 ''11'')) = Some (replicate 32 0x11)"
    "parse_hex 32 (concat (replicate 32 ''22'')) = Some (replicate 32 0x22)"
    by code_simp+
  have pairs: "concat (replicate 32 ''11'') = replicate 64 CHR ''1''" "concat (replicate 32 ''22'') = replicate 64 CHR ''2''"
    by code_simp+
  have env: "environmentWithNamespace pc = Inr ?env"
    using assms(1,4) by (simp add: environmentWithNamespace_def describeEnvironment_def parsed)
  have ns: "optionalHash ?env ''TANDEM_NAMESPACE'' = Inr (Some (to_hex commitment))"
  proof -
    have "to_hex commitment \<noteq> []" using assms(5) by (cases commitment) auto
    then show ?thesis using hex trim_hex [OF hex] by (simp add: optionalHash_def optional_def HASH_HEX_def)
  qed
  have read: "env_hash ?env ''TANDEM_SPEC_HASH'' = Inr (concat (replicate 32 ''22''))"
    "optionalHash ?env ''TANDEM_INIT_TXID'' = Inr (Some (concat (replicate 32 ''11'')))"
    "required ?env ''TANDEM_NETWORK'' = Inr ''signet''"
    "optionalInteger ?env ''TANDEM_INIT_HEIGHT'' = Inr (Some 1008)"
    "optionalInteger ?env ''TANDEM_OPEN_HEIGHT'' = Inr (Some 2016)"
    "optionalInteger ?env ''TANDEM_CLOSE_HEIGHT'' = Inr (Some 6336)"
    by (simp_all add: describeEnvironment_def reader_evaluation text_evaluation pairs)
  have "parseNetwork pc ''signet'' = Inr ''signet''"
    using assms(1) by (force simp: parseNetwork_def js_in_def dest: map_of_SomeD)
  then obtain d where d: "load_deployment pc ?env = Inr d" "dc_network d = ''signet''" "dc_namespace d = Some (to_hex commitment)"
    using assms by (simp add: load_deployment_def read ns parsed config_check_def throw_unless_def)
  have rest: "load_agreement_keys ?env = Inr (None, None, None)" "optionalCommit ?env ''TANDEM_PARSER_COMMIT'' = Inr None"
    "optionalCommit ?env ''TANDEM_INDEXER_COMMIT'' = Inr None" "optionalHash ?env ''TANDEM_PARSER_BINARY_SHA256'' = Inr None"
    "optionalHash ?env ''TANDEM_INDEXER_BINARY_SHA256'' = Inr None" "baseUrl pf ?env ''PIPELINE_B_BASE_URL'' = Inr None"
    "load_catalog ?env = Inr None" "integer ?env ''PORT'' (Some 3021) = Inr 3021"
    "integer ?env ''READINESS_MAX_BLOCK_LAG'' (Some 2) = Inr 2"
    "\<exists>b. load_bitcoin ?env ''signet'' = Inr b" "\<exists>db. load_database ?env = Inr db" "\<exists>sy. load_sync ?env = Inr sy"
    "\<exists>v. load_verification pf ?env None = Inr v"
    by (simp_all add: load_agreement_keys_def load_catalog_def load_bitcoin_def load_database_def load_sync_def
      load_verification_def describeEnvironment_def reader_evaluation text_evaluation)
  then obtain b db sy v where "load_bitcoin ?env ''signet'' = Inr b" "load_database ?env = Inr db"
    "load_sync ?env = Inr sy" "load_verification pf ?env None = Inr v" by blast
  then have "\<exists>c. loadConfiguration pc pf ?env = Inr c \<and> cfg_deployment c = d"
    using rest(1-9) d by (simp add: loadConfiguration_def)
  then show ?thesis using env d(2,3) by blast
qed

end
