(* ===== verification/Schema.thy ===== *)
theory Schema
  imports TandemPrelude
begin

text \<open>
  The schema of the database: the migrations \<open>src/database/migrations/*.ts\<close> as lists of statements, their
  effect on the tables, and the entities of \<open>src/database/entities.ts\<close> as what the object mapper takes the
  tables for.  Character sets, defaults, \<open>AUTO_INCREMENT\<close> and the expression of the generated column are left
  out; every foreign key cascades on deletion.
\<close>

section \<open>Tables\<close>

datatype sql_type = UnsignedT nat | SignedT nat | CharT nat | VarcharT nat | BooleanT | JsonT | DatetimeT nat

text \<open>A generated column names the columns it is computed from.\<close>

record column_def =
  cd_name :: string
  cd_type :: sql_type
  cd_null :: bool
  cd_generated :: "string list option"

definition column :: "string \<Rightarrow> sql_type \<Rightarrow> column_def" where
  "column n t = \<lparr>cd_name = n, cd_type = t, cd_null = False, cd_generated = None\<rparr>"

definition nullable :: "string \<Rightarrow> sql_type \<Rightarrow> column_def" where
  "nullable n t = \<lparr>cd_name = n, cd_type = t, cd_null = True, cd_generated = None\<rparr>"

datatype foreign_key = ForeignKey (fk_name: string) (fk_column: string) (fk_table: string) (fk_references: string)

record table =
  tb_columns :: "column_def list"
  tb_primary :: string
  tb_unique :: "(string \<times> string list) list"
  tb_indexes :: "(string \<times> string list) list"
  tb_foreign :: "foreign_key list"

type_synonym schema = "(string, table) js_map"

section \<open>Statements\<close>

datatype alteration =
    AddColumn column_def string              \<comment> \<open>\<open>ADD COLUMN ... AFTER ...\<close>\<close>
  | ModifyColumn column_def
  | DropColumn string
  | AddUnique string "string list"
  | DropKey string

datatype statement =
    CreateTable string table
  | DropTable string
  | AlterTable string "alteration list"
  | CreateIndex string string "string list"  \<comment> \<open>name, table, columns\<close>
  | DropIndex string string                  \<comment> \<open>name, table\<close>

definition has_column :: "table \<Rightarrow> string \<Rightarrow> bool" where
  "has_column t n = (n \<in> set (map cd_name (tb_columns t)))"

definition has_key :: "table \<Rightarrow> string \<Rightarrow> bool" where
  "has_key t k = (k \<in> set (map fst (tb_unique t @ tb_indexes t)))"

fun insert_after :: "string \<Rightarrow> column_def \<Rightarrow> column_def list \<Rightarrow> column_def list" where
  "insert_after n c [] = []"
| "insert_after n c (d # ds) = (if cd_name d = n then d # c # ds else d # insert_after n c ds)"

text \<open>A dropped column leaves its keys, and a key without columns goes.\<close>

definition drop_from_keys :: "string \<Rightarrow> (string \<times> string list) list \<Rightarrow> (string \<times> string list) list" where
  "drop_from_keys n keys = filter (\<lambda>(_, columns). columns \<noteq> []) (map (apsnd (filter (\<lambda>c. c \<noteq> n))) keys)"

definition sql_error :: "string \<Rightarrow> string \<Rightarrow> 'a result" where
  "sql_error what n = Inl (SqlError (what @ '' '' @ n))"

fun alter :: "table \<Rightarrow> alteration \<Rightarrow> table result" where
  "alter t (AddColumn c after) =
     (if has_column t (cd_name c) then sql_error ''duplicate column'' (cd_name c)
      else if \<not> has_column t after then sql_error ''unknown column'' after
      else Inr (t\<lparr>tb_columns := insert_after after c (tb_columns t)\<rparr>))"
| "alter t (ModifyColumn c) =
     (if \<not> has_column t (cd_name c) then sql_error ''unknown column'' (cd_name c)
      else Inr (t\<lparr>tb_columns := map (\<lambda>d. if cd_name d = cd_name c then c else d) (tb_columns t)\<rparr>))"
| "alter t (DropColumn n) =
     (if \<not> has_column t n then sql_error ''unknown column'' n
      else if n \<in> set (map fk_column (tb_foreign t)) \<or>
        list_ex (\<lambda>d. n \<in> set (nullish (cd_generated d) [])) (tb_columns t) then sql_error ''column in use'' n
      else Inr (t\<lparr>tb_columns := filter (\<lambda>d. cd_name d \<noteq> n) (tb_columns t),
        tb_unique := drop_from_keys n (tb_unique t), tb_indexes := drop_from_keys n (tb_indexes t)\<rparr>))"
| "alter t (AddUnique k columns) =
     (if has_key t k then sql_error ''duplicate key'' k
      else if \<not> list_all (has_column t) columns then sql_error ''unknown column in'' k
      else Inr (t\<lparr>tb_unique := tb_unique t @ [(k, columns)]\<rparr>))"
| "alter t (DropKey k) =
     (if \<not> has_key t k then sql_error ''unknown key'' k
      else Inr (t\<lparr>tb_unique := filter (\<lambda>u. fst u \<noteq> k) (tb_unique t),
        tb_indexes := filter (\<lambda>i. fst i \<noteq> k) (tb_indexes t)\<rparr>))"

text \<open>
  A foreign key needs a key that starts with its column.  A new table gets the ones it lacks; a statement
  that would take one away is refused.
\<close>

definition foreign_keyed :: "table \<Rightarrow> foreign_key \<Rightarrow> bool" where
  "foreign_keyed t f =
     (tb_primary t = fk_column f \<or>
      list_ex (\<lambda>(_, columns). take 1 columns = [fk_column f]) (tb_unique t @ tb_indexes t))"

definition with_foreign_indexes :: "table \<Rightarrow> table" where
  "with_foreign_indexes t =
     t\<lparr>tb_indexes := tb_indexes t @
        map (\<lambda>f. (fk_name f, [fk_column f])) (filter (\<lambda>f. \<not> foreign_keyed t f) (tb_foreign t))\<rparr>"

definition keep_foreign :: "table \<Rightarrow> table result" where
  "keep_foreign t =
     (if list_all (foreign_keyed t) (tb_foreign t) then Inr t else Inl (SqlError ''a foreign key needs an index''))"

definition refers_to :: "schema \<Rightarrow> foreign_key \<Rightarrow> bool" where
  "refers_to s f =
     (case js_get s (fk_table f) of None \<Rightarrow> False | Some t \<Rightarrow> tb_primary t = fk_references f)"

definition well_keyed :: "table \<Rightarrow> bool" where
  "well_keyed t =
     (distinct (map cd_name (tb_columns t)) \<and> distinct (map fst (tb_unique t @ tb_indexes t)) \<and>
      has_column t (tb_primary t) \<and> list_all (\<lambda>(_, columns). list_all (has_column t) columns) (tb_unique t @ tb_indexes t) \<and>
      list_all (\<lambda>f. has_column t (fk_column f)) (tb_foreign t))"

definition of_table :: "schema \<Rightarrow> string \<Rightarrow> (table \<Rightarrow> table result) \<Rightarrow> schema result" where
  "of_table s n f =
     (case js_get s n of
        None \<Rightarrow> sql_error ''unknown table'' n
      | Some t \<Rightarrow> bindE (bindE (f t) keep_foreign) (\<lambda>t'. Inr (js_set n t' s)))"

fun run_statement :: "schema \<Rightarrow> statement \<Rightarrow> schema result" where
  "run_statement s (CreateTable n t) =
     (if js_get s n \<noteq> None then sql_error ''table exists:'' n
      else if \<not> well_keyed t then sql_error ''malformed table'' n
      else if \<not> list_all (refers_to s) (tb_foreign t) then sql_error ''cannot add foreign key of'' n
      else Inr (js_set n (with_foreign_indexes t) s))"
| "run_statement s (DropTable n) =
     (if js_get s n = None then sql_error ''unknown table'' n
      else if list_ex (\<lambda>(m, t). m \<noteq> n \<and> n \<in> set (map fk_table (tb_foreign t))) s
      then sql_error ''table referenced by a foreign key:'' n
      else Inr (js_delete n s))"
| "run_statement s (AlterTable n alterations) = of_table s n (\<lambda>t. foldE alter t alterations)"
| "run_statement s (CreateIndex k n columns) = of_table s n (\<lambda>t.
     if has_key t k then sql_error ''duplicate key'' k
     else if \<not> list_all (has_column t) columns then sql_error ''unknown column in'' k
     else Inr (t\<lparr>tb_indexes := tb_indexes t @ [(k, columns)]\<rparr>))"
| "run_statement s (DropIndex k n) = of_table s n (\<lambda>t. alter t (DropKey k))"

text \<open>A migration sends its statements one by one.\<close>

definition run_statements :: "schema \<Rightarrow> statement list \<Rightarrow> schema result" where
  "run_statements = foldE run_statement"

section \<open>The first migration\<close>

definition create_tandem_blocks :: table where
  "create_tandem_blocks =
     \<lparr>tb_columns =
        [column ''height'' (UnsignedT 4), column ''hash'' (CharT 64), nullable ''previous_hash'' (CharT 64),
         column ''block_time'' (UnsignedT 8), column ''event_root'' (CharT 64),
         column ''object_state_root'' (CharT 64), column ''chained_root'' (CharT 64),
         column ''event_count'' (UnsignedT 4)],
      tb_primary = ''height'',
      tb_unique = [(''uq_tandem_blocks_hash'', [''hash''])],
      tb_indexes = [],
      tb_foreign = []\<rparr>"

definition create_tandem_transactions :: table where
  "create_tandem_transactions =
     \<lparr>tb_columns =
        [column ''txid'' (CharT 64), column ''wtxid'' (CharT 64), column ''block_height'' (UnsignedT 4),
         column ''tx_index'' (UnsignedT 4), column ''version'' (SignedT 4), column ''locktime'' (UnsignedT 4)],
      tb_primary = ''txid'',
      tb_unique = [(''ix_tandem_transactions_block_order'', [''block_height'', ''tx_index''])],
      tb_indexes = [],
      tb_foreign = [ForeignKey ''fk_tandem_transactions_block'' ''block_height'' ''tandem_blocks'' ''height'']\<rparr>"

definition create_tandem_events :: table where
  "create_tandem_events =
     \<lparr>tb_columns =
        [column ''id'' (UnsignedT 8), column ''block_height'' (UnsignedT 4), column ''txid'' (CharT 64),
         column ''tx_index'' (UnsignedT 4), column ''event_index'' (UnsignedT 4),
         column ''event_type'' (UnsignedT 1), column ''validity_class'' (UnsignedT 1),
         column ''reason'' (UnsignedT 2), column ''object_key'' (CharT 64), column ''state_sequence'' (UnsignedT 4),
         nullable ''marker_payload'' (VarcharT 164)],
      tb_primary = ''id'',
      tb_unique = [(''ix_tandem_events_block_order'', [''block_height'', ''tx_index'', ''event_index''])],
      tb_indexes = [(''ix_tandem_events_object'', [''object_key'', ''block_height'']), (''ix_tandem_events_txid'',
           [''txid''])],
      tb_foreign = [ForeignKey ''fk_tandem_events_block'' ''block_height'' ''tandem_blocks'' ''height'',
           ForeignKey ''fk_tandem_events_tx'' ''txid'' ''tandem_transactions'' ''txid'']\<rparr>"

definition create_tandem_objects :: table where
  "create_tandem_objects =
     \<lparr>tb_columns =
        [column ''object_key'' (CharT 64), column ''create_txid'' (CharT 64),
         column ''create_height'' (UnsignedT 4), column ''founding'' BooleanT, column ''status'' (VarcharT 24),
         column ''state_sequence'' (UnsignedT 4), nullable ''current_outpoint'' (VarcharT 73),
         column ''key_0'' (CharT 66), column ''key_1'' (CharT 66), nullable ''terminal_txid'' (CharT 64),
         column ''chapter_count'' (UnsignedT 4)],
      tb_primary = ''object_key'',
      tb_unique = [(''uq_tandem_objects_create'', [''create_txid''])],
      tb_indexes = [(''ix_tandem_objects_status_height'', [''status'', ''create_height''])],
      tb_foreign = []\<rparr>"

definition create_tandem_states :: table where
  "create_tandem_states =
     \<lparr>tb_columns =
        [column ''outpoint'' (VarcharT 73), column ''object_key'' (CharT 64), column ''sequence'' (UnsignedT 4),
         column ''created_height'' (UnsignedT 4), nullable ''spent_height'' (UnsignedT 4),
         nullable ''spent_txid'' (CharT 64), column ''key_0'' (CharT 66), column ''key_1'' (CharT 66)],
      tb_primary = ''outpoint'',
      tb_unique = [(''ix_tandem_states_object_sequence'', [''object_key'', ''sequence''])],
      tb_indexes = [],
      tb_foreign = [ForeignKey ''fk_tandem_states_object'' ''object_key'' ''tandem_objects'' ''object_key'']\<rparr>"

definition create_tandem_carriers :: table where
  "create_tandem_carriers =
     \<lparr>tb_columns =
        [column ''outpoint'' (VarcharT 73), column ''object_key'' (CharT 64),
         column ''created_height'' (UnsignedT 4), nullable ''spent_height'' (UnsignedT 4),
         nullable ''spent_txid'' (CharT 64), column ''value_sats'' (UnsignedT 8)],
      tb_primary = ''outpoint'',
      tb_unique = [],
      tb_indexes = [(''ix_tandem_carriers_object'', [''object_key'', ''created_height''])],
      tb_foreign = [ForeignKey ''fk_tandem_carriers_object'' ''object_key'' ''tandem_objects'' ''object_key'']\<rparr>"

definition create_tandem_chapters :: table where
  "create_tandem_chapters =
     \<lparr>tb_columns =
        [column ''id'' (UnsignedT 8), column ''object_key'' (CharT 64), column ''sequence'' (UnsignedT 4),
         column ''txid'' (CharT 64), column ''block_height'' (UnsignedT 4), column ''kind'' (UnsignedT 1),
         column ''commitment'' (CharT 64)],
      tb_primary = ''id'',
      tb_unique = [(''uq_tandem_chapters_txid'', [''txid'']), (''ix_tandem_chapters_object_sequence'',
           [''object_key'', ''sequence''])],
      tb_indexes = [],
      tb_foreign = [ForeignKey ''fk_tandem_chapters_object'' ''object_key'' ''tandem_objects'' ''object_key'']\<rparr>"

definition create_tandem_checkpoints :: table where
  "create_tandem_checkpoints =
     \<lparr>tb_columns =
        [column ''height'' (UnsignedT 4), column ''block_hash'' (CharT 64), column ''event_root'' (CharT 64),
         column ''object_state_root'' (CharT 64), column ''chained_root'' (CharT 64),
         column ''founding_created'' (UnsignedT 8), column ''all_objects'' (UnsignedT 8),
         column ''active_objects'' (UnsignedT 8)],
      tb_primary = ''height'',
      tb_unique = [],
      tb_indexes = [],
      tb_foreign = [ForeignKey ''fk_tandem_checkpoints_block'' ''height'' ''tandem_blocks'' ''height'']\<rparr>"

definition create_tandem_mempool :: table where
  "create_tandem_mempool =
     \<lparr>tb_columns =
        [column ''txid'' (CharT 64), column ''wtxid'' (CharT 64), column ''classification'' (VarcharT 24),
         nullable ''reason'' (UnsignedT 2), column ''raw_observation'' JsonT,
         column ''first_seen_at'' (DatetimeT 3), column ''last_seen_at'' (DatetimeT 3)],
      tb_primary = ''txid'',
      tb_unique = [],
      tb_indexes = [(''ix_tandem_mempool_seen'', [''last_seen_at''])],
      tb_foreign = []\<rparr>"

definition create_tandem_conflicts :: table where
  "create_tandem_conflicts =
     \<lparr>tb_columns =
        [column ''id'' (UnsignedT 8), column ''detected_height'' (UnsignedT 4), column ''outpoint'' (VarcharT 73),
         nullable ''winner_txid'' (CharT 64), column ''loser_txid'' (CharT 64), column ''resolved'' BooleanT],
      tb_primary = ''id'',
      tb_unique = [],
      tb_indexes = [(''ix_tandem_conflicts_status'', [''resolved'', ''detected_height''])],
      tb_foreign = []\<rparr>"

definition create_tandem_reorg_journal :: table where
  "create_tandem_reorg_journal =
     \<lparr>tb_columns =
        [column ''id'' (UnsignedT 8), column ''old_tip_height'' (UnsignedT 4), column ''old_tip_hash'' (CharT 64),
         column ''ancestor_height'' (UnsignedT 4), column ''ancestor_hash'' (CharT 64),
         column ''new_tip_hash'' (CharT 64), column ''rolled_back_blocks'' (UnsignedT 4),
         column ''detected_at'' (DatetimeT 3)],
      tb_primary = ''id'',
      tb_unique = [],
      tb_indexes = [(''ix_tandem_reorg_detected'', [''detected_at''])],
      tb_foreign = []\<rparr>"

text \<open>\<open>CREATE_STATEMENTS\<close>, each with the table it names, and \<open>TANDEM_TABLES\<close>.\<close>

definition CREATE_STATEMENTS :: "(string \<times> table) list" where
  "CREATE_STATEMENTS =
     [(''tandem_blocks'', create_tandem_blocks),
      (''tandem_transactions'', create_tandem_transactions),
      (''tandem_events'', create_tandem_events),
      (''tandem_objects'', create_tandem_objects),
      (''tandem_states'', create_tandem_states),
      (''tandem_carriers'', create_tandem_carriers),
      (''tandem_chapters'', create_tandem_chapters),
      (''tandem_checkpoints'', create_tandem_checkpoints),
      (''tandem_mempool'', create_tandem_mempool),
      (''tandem_conflicts'', create_tandem_conflicts),
      (''tandem_reorg_journal'', create_tandem_reorg_journal)]"

definition TANDEM_TABLES :: "string list" where
  "TANDEM_TABLES =
     [''tandem_blocks'', ''tandem_transactions'', ''tandem_events'', ''tandem_objects'', ''tandem_states'',
           ''tandem_carriers'', ''tandem_chapters'', ''tandem_checkpoints'', ''tandem_mempool'',
           ''tandem_conflicts'', ''tandem_reorg_journal'']"

definition init_tandem_up :: "statement list" where
  "init_tandem_up = map (\<lambda>(n, t). CreateTable n t) CREATE_STATEMENTS"

definition init_tandem_down :: "statement list" where
  "init_tandem_down = map DropTable (rev TANDEM_TABLES)"

section \<open>The second migration\<close>

definition carrier_program_up :: "statement list" where
  "carrier_program_up =
     [AlterTable ''tandem_states''
        [AddColumn ((nullable ''carrier_program'' (CharT 64))\<lparr>cd_generated := Some [''key_0'', ''key_1'']\<rparr>) ''key_1''],
      CreateIndex ''ix_tandem_states_carrier_program'' ''tandem_states'' [''carrier_program'', ''created_height'']]"

definition carrier_program_down :: "statement list" where
  "carrier_program_down =
     [DropIndex ''ix_tandem_states_carrier_program'' ''tandem_states'',
      AlterTable ''tandem_states'' [DropColumn ''carrier_program'']]"

section \<open>The third migration\<close>

definition create_tandem_init :: table where
  "create_tandem_init =
     \<lparr>tb_columns =
        [column ''id'' (UnsignedT 1), column ''txid'' (CharT 64), column ''height'' (UnsignedT 4),
         column ''block_hash'' (CharT 64), nullable ''open_height'' (UnsignedT 4),
         nullable ''close_height'' (UnsignedT 4), column ''valid'' BooleanT, column ''reason'' (UnsignedT 2)],
      tb_primary = ''id'',
      tb_unique = [],
      tb_indexes = [],
      tb_foreign = [ForeignKey ''fk_tandem_init_block'' ''height'' ''tandem_blocks'' ''height'']\<rparr>"

definition create_tandem_object_undo :: table where
  "create_tandem_object_undo =
     \<lparr>tb_columns =
        [column ''id'' (UnsignedT 8), column ''height'' (UnsignedT 4), column ''object_key'' (CharT 64),
         nullable ''prior'' JsonT],
      tb_primary = ''id'',
      tb_unique = [],
      tb_indexes = [(''ix_tandem_object_undo_height'', [''height''])],
      tb_foreign = [ForeignKey ''fk_tandem_object_undo_block'' ''height'' ''tandem_blocks'' ''height'']\<rparr>"

definition live_engine_events_up :: "alteration list" where
  "live_engine_events_up =
     [AddColumn (column ''sub_index'' (UnsignedT 4)) ''event_index'',
      AddColumn (column ''namespace'' (CharT 64)) ''reason'',
      ModifyColumn (nullable ''object_key'' (CharT 64)),
      AddColumn (nullable ''predecessor_outpoint'' (VarcharT 73)) ''state_sequence'',
      AddColumn (nullable ''successor_outpoint'' (VarcharT 73)) ''predecessor_outpoint'',
      AddColumn (nullable ''key_0'' (CharT 66)) ''successor_outpoint'',
      AddColumn (nullable ''key_1'' (CharT 66)) ''key_0'',
      AddColumn (nullable ''commitment'' (CharT 64)) ''key_1'',
      DropKey ''ix_tandem_events_block_order'',
      AddUnique ''ix_tandem_events_block_order'' [''block_height'', ''tx_index'', ''event_index'', ''sub_index'']]"

definition live_engine_up :: "statement list" where
  "live_engine_up =
     [AlterTable ''tandem_events'' live_engine_events_up,
      CreateTable ''tandem_init'' create_tandem_init,
      CreateTable ''tandem_object_undo'' create_tandem_object_undo]"

definition live_engine_down :: "statement list" where
  "live_engine_down =
     [DropTable ''tandem_object_undo'', DropTable ''tandem_init'',
      AlterTable ''tandem_events''
        [DropKey ''ix_tandem_events_block_order'',
         AddUnique ''ix_tandem_events_block_order'' [''block_height'', ''tx_index'', ''event_index''],
         DropColumn ''commitment'', DropColumn ''key_1'', DropColumn ''key_0'',
         DropColumn ''successor_outpoint'', DropColumn ''predecessor_outpoint'',
         ModifyColumn (column ''object_key'' (CharT 64)),
         DropColumn ''namespace'', DropColumn ''sub_index'']]"

section \<open>The data source\<close>

text \<open>The migrations in the order the data source lists them, each up and down.\<close>

definition MIGRATIONS :: "(statement list \<times> statement list) list" where
  "MIGRATIONS =
     [(init_tandem_up, init_tandem_down), (carrier_program_up, carrier_program_down),
      (live_engine_up, live_engine_down)]"

definition runMigrations :: "schema \<Rightarrow> schema result" where
  "runMigrations s = foldE run_statements s (map fst MIGRATIONS)"

section \<open>The entities\<close>

text \<open>Columns with type and whether they may be null, the primary key, and the further keys.\<close>

record entity =
  en_table :: string
  en_columns :: "(string \<times> sql_type \<times> bool) list"
  en_primary :: string
  en_unique :: "string list list"
  en_indexes :: "string list list"

definition TandemBlockEntity :: entity where
  "TandemBlockEntity =
     \<lparr>en_table = ''tandem_blocks'',
      en_columns =
        [(''height'', UnsignedT 4, False), (''hash'', CharT 64, False), (''previous_hash'', CharT 64, True),
         (''block_time'', UnsignedT 8, False), (''event_root'', CharT 64, False),
         (''object_state_root'', CharT 64, False), (''chained_root'', CharT 64, False),
         (''event_count'', UnsignedT 4, False)],
      en_primary = ''height'', en_unique = [[''hash'']],
      en_indexes = []\<rparr>"

definition TandemTransactionEntity :: entity where
  "TandemTransactionEntity =
     \<lparr>en_table = ''tandem_transactions'',
      en_columns =
        [(''txid'', CharT 64, False), (''wtxid'', CharT 64, False), (''block_height'', UnsignedT 4, False),
         (''tx_index'', UnsignedT 4, False), (''version'', SignedT 4, False), (''locktime'', UnsignedT 4, False)],
      en_primary = ''txid'', en_unique = [[''block_height'', ''tx_index'']],
      en_indexes = []\<rparr>"

definition TandemEventEntity :: entity where
  "TandemEventEntity =
     \<lparr>en_table = ''tandem_events'',
      en_columns =
        [(''id'', UnsignedT 8, False), (''block_height'', UnsignedT 4, False), (''txid'', CharT 64, False),
         (''tx_index'', UnsignedT 4, False), (''event_index'', UnsignedT 4, False),
         (''sub_index'', UnsignedT 4, False), (''event_type'', UnsignedT 1, False),
         (''validity_class'', UnsignedT 1, False), (''reason'', UnsignedT 2, False),
         (''namespace'', CharT 64, False), (''object_key'', CharT 64, True),
         (''state_sequence'', UnsignedT 4, False), (''predecessor_outpoint'', VarcharT 73, True),
         (''successor_outpoint'', VarcharT 73, True), (''key_0'', CharT 66, True), (''key_1'', CharT 66, True),
         (''commitment'', CharT 64, True), (''marker_payload'', VarcharT 164, True)],
      en_primary = ''id'', en_unique = [[''block_height'', ''tx_index'', ''event_index'', ''sub_index'']],
      en_indexes = [[''object_key'', ''block_height'']]\<rparr>"

definition TandemObjectEntity :: entity where
  "TandemObjectEntity =
     \<lparr>en_table = ''tandem_objects'',
      en_columns =
        [(''object_key'', CharT 64, False), (''create_txid'', CharT 64, False),
         (''create_height'', UnsignedT 4, False), (''founding'', BooleanT, False),
         (''status'', VarcharT 24, False), (''state_sequence'', UnsignedT 4, False),
         (''current_outpoint'', VarcharT 73, True), (''key_0'', CharT 66, False), (''key_1'', CharT 66, False),
         (''terminal_txid'', CharT 64, True), (''chapter_count'', UnsignedT 4, False)],
      en_primary = ''object_key'', en_unique = [[''create_txid'']],
      en_indexes = [[''status'', ''create_height'']]\<rparr>"

definition TandemStateEntity :: entity where
  "TandemStateEntity =
     \<lparr>en_table = ''tandem_states'',
      en_columns =
        [(''outpoint'', VarcharT 73, False), (''object_key'', CharT 64, False),
         (''sequence'', UnsignedT 4, False), (''created_height'', UnsignedT 4, False),
         (''spent_height'', UnsignedT 4, True), (''spent_txid'', CharT 64, True), (''key_0'', CharT 66, False),
         (''key_1'', CharT 66, False), (''carrier_program'', CharT 64, False)],
      en_primary = ''outpoint'', en_unique = [[''object_key'', ''sequence'']],
      en_indexes = [[''carrier_program'', ''created_height'']]\<rparr>"

definition TandemCarrierEntity :: entity where
  "TandemCarrierEntity =
     \<lparr>en_table = ''tandem_carriers'',
      en_columns =
        [(''outpoint'', VarcharT 73, False), (''object_key'', CharT 64, False),
         (''created_height'', UnsignedT 4, False), (''spent_height'', UnsignedT 4, True),
         (''spent_txid'', CharT 64, True), (''value_sats'', UnsignedT 8, False)],
      en_primary = ''outpoint'', en_unique = [],
      en_indexes = [[''object_key'', ''created_height'']]\<rparr>"

definition TandemChapterEntity :: entity where
  "TandemChapterEntity =
     \<lparr>en_table = ''tandem_chapters'',
      en_columns =
        [(''id'', UnsignedT 8, False), (''object_key'', CharT 64, False), (''sequence'', UnsignedT 4, False),
         (''txid'', CharT 64, False), (''block_height'', UnsignedT 4, False), (''kind'', UnsignedT 1, False),
         (''commitment'', CharT 64, False)],
      en_primary = ''id'', en_unique = [[''txid''], [''object_key'', ''sequence'']],
      en_indexes = []\<rparr>"

definition TandemCheckpointEntity :: entity where
  "TandemCheckpointEntity =
     \<lparr>en_table = ''tandem_checkpoints'',
      en_columns =
        [(''height'', UnsignedT 4, False), (''block_hash'', CharT 64, False),
         (''event_root'', CharT 64, False), (''object_state_root'', CharT 64, False),
         (''chained_root'', CharT 64, False), (''founding_created'', UnsignedT 8, False),
         (''all_objects'', UnsignedT 8, False), (''active_objects'', UnsignedT 8, False)],
      en_primary = ''height'', en_unique = [],
      en_indexes = []\<rparr>"

definition TandemMempoolEntity :: entity where
  "TandemMempoolEntity =
     \<lparr>en_table = ''tandem_mempool'',
      en_columns =
        [(''txid'', CharT 64, False), (''wtxid'', CharT 64, False), (''classification'', VarcharT 24, False),
         (''reason'', UnsignedT 2, True), (''raw_observation'', JsonT, False),
         (''first_seen_at'', DatetimeT 3, False), (''last_seen_at'', DatetimeT 3, False)],
      en_primary = ''txid'', en_unique = [],
      en_indexes = [[''last_seen_at'']]\<rparr>"

definition TandemConflictEntity :: entity where
  "TandemConflictEntity =
     \<lparr>en_table = ''tandem_conflicts'',
      en_columns =
        [(''id'', UnsignedT 8, False), (''detected_height'', UnsignedT 4, False),
         (''outpoint'', VarcharT 73, False), (''winner_txid'', CharT 64, True),
         (''loser_txid'', CharT 64, False), (''resolved'', BooleanT, False)],
      en_primary = ''id'', en_unique = [],
      en_indexes = [[''resolved'', ''detected_height'']]\<rparr>"

definition TandemReorgEntity :: entity where
  "TandemReorgEntity =
     \<lparr>en_table = ''tandem_reorg_journal'',
      en_columns =
        [(''id'', UnsignedT 8, False), (''old_tip_height'', UnsignedT 4, False),
         (''old_tip_hash'', CharT 64, False), (''ancestor_height'', UnsignedT 4, False),
         (''ancestor_hash'', CharT 64, False), (''new_tip_hash'', CharT 64, False),
         (''rolled_back_blocks'', UnsignedT 4, False), (''detected_at'', DatetimeT 3, False)],
      en_primary = ''id'', en_unique = [],
      en_indexes = [[''detected_at'']]\<rparr>"

definition ENTITIES :: "entity list" where
  "ENTITIES =
     [TandemBlockEntity, TandemTransactionEntity, TandemEventEntity, TandemObjectEntity, TandemStateEntity,
           TandemCarrierEntity, TandemChapterEntity, TandemCheckpointEntity, TandemMempoolEntity,
           TandemConflictEntity, TandemReorgEntity]"

end
