(* ===== verification/Schema_Properties.thy ===== *)
theory Schema_Properties
  imports Schema
begin

text \<open>
  The migrations run from the empty database and each undoes itself; what they build is what the entities
  describe, and which tables lose rows with a block or an object.
\<close>

section \<open>Migrating and reverting\<close>

text \<open>The schema after the first migrations.\<close>

definition migrated :: "nat \<Rightarrow> schema result" where
  "migrated n = foldE run_statements [] (map fst (take n MIGRATIONS))"

lemma runMigrations_migrated: "runMigrations [] = migrated (length MIGRATIONS)"
  by (simp add: runMigrations_def migrated_def)

definition reverts :: "nat \<Rightarrow> bool" where
  "reverts n =
     (case migrated n of
        Inl _ \<Rightarrow> False
      | Inr s \<Rightarrow> (case run_statements s (fst (MIGRATIONS ! n)) of
          Inl _ \<Rightarrow> False
        | Inr s' \<Rightarrow> migrated (Suc n) = Inr s' \<and> run_statements s' (snd (MIGRATIONS ! n)) = Inr s))"

lemma reverts_all: "reverts 0" "reverts (Suc 0)" "reverts (Suc (Suc 0))"
  by code_simp+



text \<open>In the order of their creation the tables cannot be dropped.\<close>

lemma drop_order: "bindE (migrated 1) (\<lambda>s. run_statements s (map DropTable TANDEM_TABLES)) =
    sql_error ''table referenced by a foreign key:'' ''tandem_blocks''"
  by code_simp

section \<open>The entities\<close>

text \<open>
  An entity describes its table: the columns with their types, which of them may be null, the primary key
  and the unique keys, and no index the table lacks.  A generated column is never null.
\<close>

definition entity_matches :: "schema \<Rightarrow> entity \<Rightarrow> bool" where
  "entity_matches s e =
     (case js_get s (en_table e) of
        None \<Rightarrow> False
      | Some t \<Rightarrow>
          set (map (\<lambda>c. (cd_name c, cd_type c, cd_null c \<and> cd_generated c = None)) (tb_columns t)) = set (en_columns e) \<and>
          tb_primary t = en_primary e \<and> set (map snd (tb_unique t)) = set (en_unique e) \<and>
          set (en_indexes e) \<subseteq> set (map snd (tb_indexes t)))"

lemma entities_match: "case runMigrations [] of Inl _ \<Rightarrow> False | Inr s \<Rightarrow> list_all (entity_matches s) ENTITIES"
  by code_simp

text \<open>Before the last migration the entity of the events has columns its table lacks.\<close>

lemma entities_need_live_engine:
  "case migrated 2 of Inl _ \<Rightarrow> False
   | Inr s \<Rightarrow> filter (\<lambda>e. \<not> entity_matches s e) ENTITIES = [TandemEventEntity]"
  by code_simp

text \<open>The generated column may be null for the database, and not for the entity.\<close>

lemma carrier_program_nullability:
  "(case runMigrations [] of Inl _ \<Rightarrow> False
    | Inr s \<Rightarrow> map cd_null (filter (\<lambda>c. cd_name c = ''carrier_program'') (tb_columns (the (js_get s ''tandem_states'')))) = [True])"
  "(''carrier_program'', CharT 64, False) \<in> set (en_columns TandemStateEntity)"
  by code_simp+

section \<open>Rows that go together\<close>

definition cascades :: "schema \<Rightarrow> string \<Rightarrow> string list" where
  "cascades s n = map fst (filter (\<lambda>(_, t). n \<in> set (map fk_table (tb_foreign t))) s)"

text \<open>These are the tables \<open>delete_block\<close> and \<open>delete_object\<close> of the store remove rows from.\<close>

lemma block_cascades:
  "map_sum (\<lambda>_. ()) (\<lambda>s. cascades s ''tandem_blocks'') (runMigrations []) =
     Inr [''tandem_transactions'', ''tandem_events'', ''tandem_checkpoints'', ''tandem_init'', ''tandem_object_undo'']"
  by code_simp

lemma object_cascades:
  "map_sum (\<lambda>_. ()) (\<lambda>s. (cascades s ''tandem_objects'', cascades s ''tandem_transactions'')) (runMigrations []) =
     Inr ([''tandem_states'', ''tandem_carriers'', ''tandem_chapters''], [''tandem_events''])"
  by code_simp

end
