(* ===== verification/Spec2Isabelle.thy ===== *)
theory Spec2Isabelle
  imports Site_Lifecycle Site_Carrier Catalog_Demo Block_Events_Properties Query_Properties Validate_Init_Properties Api_Routes
    Site_Registry Bitcoin_Zmq Site_Pages Environment_Reference Schema_Properties
begin

text \<open>
  A verification library of the Tandem indexer: the TypeScript service under \<open>src/\<close>, and the modules under
  \<open>site/src/lib/\<close>, \<open>site/scripts/\<close> and \<open>scripts/\<close> that restate or check what the service does.

  \<^bold>\<open>The program.\<close>  A Tandem object is held by two keys and lives in a chain of Bitcoin outputs (its carriers).
  The synchronizer asks a Bitcoin node for blocks; the block reducer turns each of them into changes of the
  objects, with the package \<open>@bitcoinuniverse/tandem\<close> judging every transaction; the store writes the rows of a
  block in one transaction of the database, with undo data, and takes blocks back when the chain reorganizes.
  At every block a checkpoint holds roots over events and objects; a second, independent pipeline computes
  the same, both sign a tuple of it, and the verified gateway lets an answer out only while the two agree.

  \<^bold>\<open>Components and theories,\<close> in the order they build on one another:

  \<^item> \<open>TandemPrelude\<close>, \<open>Text_Codec\<close>, \<open>Base64url\<close>, \<open>Keyset\<close>: results and errors, JavaScript maps, texts and bytes,
    codecs, paging by keys.
  \<^item> \<open>Bitcoin_Types\<close> (\<open>src/protocol/bitcoin.ts\<close>, \<open>block-ordering.ts\<close>), \<open>Bitcoin_Rpc\<close>
    (\<open>src/bitcoin/bitcoin-rpc.client.ts\<close>), \<open>Bitcoin_Zmq\<close> (\<open>bitcoin-zmq.service.ts\<close>).
  \<^item> \<open>Evidence\<close>, \<open>Transaction_Evidence\<close> (\<open>src/indexer/evidence.ts\<close>): what a transaction proves.
  \<^item> \<open>Tandem_Package\<close>: the package as a record of functions, with the contract \<open>validation_ok\<close>.
  \<^item> \<open>State_Engine\<close> (\<open>src/protocol/state-engine.ts\<close>), \<open>Site_Lifecycle\<close> (\<open>site/src/lib/tandem.ts\<close>): the two state
    machines of an object.
  \<^item> \<open>Block_Reducer\<close> (\<open>src/indexer/block-reducer.ts\<close>), with \<open>Reducer_Invariants\<close>, \<open>Reducer_Steps\<close>,
    \<open>Reducer_Transactions\<close>, \<open>Reducer_Correctness\<close>, \<open>Reducer_Block\<close>, \<open>Reducer_Properties\<close>, \<open>Reducer_Log\<close>,
    \<open>Reducer_Rows\<close> and the concrete block of \<open>Reducer_Demo\<close>.
  \<^item> \<open>Reorg\<close> (\<open>src/indexer/reorg.service.ts\<close>), \<open>Indexer_Store\<close> (\<open>src/indexer/indexer.store.ts\<close> over
    \<open>src/database/entities.ts\<close>), with \<open>Store_Shape\<close>, \<open>Store_Rollback\<close>, \<open>Store_Consistency\<close>, \<open>Store_Total\<close>,
    \<open>Store_Properties\<close>, \<open>Store_Demo\<close>; \<open>Schema\<close> and \<open>Schema_Properties\<close> (\<open>src/database/migrations/\<close>).
  \<^item> \<open>Configuration\<close>, \<open>Environment_Reference\<close> (\<open>src/config/configuration.ts\<close>, \<open>site/src/data/env-vars.ts\<close>),
    \<open>Deployment_State\<close> (\<open>src/indexer/deployment-state.service.ts\<close>).
  \<^item> \<open>Sync\<close> (\<open>src/indexer/sync.service.ts\<close>), with \<open>Sync_Trace\<close>, \<open>Sync_Properties\<close>, \<open>Sync_Progress\<close>, \<open>Sync_Demo\<close>;
    \<open>Validate_Init\<close>, \<open>Validate_Init_Properties\<close> (\<open>src/tools/validate-init.ts\<close>).
  \<^item> \<open>Agreement\<close> (\<open>src/agreement/\<close>), \<open>Readiness\<close> (\<open>src/observability/readiness.service.ts\<close>), \<open>Verified_Gateway\<close>
    (\<open>src/verification/verified-gateway.service.ts\<close>), \<open>Site_Agreement\<close> (\<open>site/src/lib/agreement.ts\<close>),
    \<open>Gateway_Demo\<close>.
  \<^item> \<open>Carrier_Address\<close>, \<open>Carrier_Properties\<close>, \<open>Site_Carrier\<close> (\<open>src/api/carrier-address.ts\<close> and its port),
    \<open>Block_Events\<close>, \<open>Block_Events_Properties\<close>, \<open>Catalog\<close>, \<open>Catalog_Properties\<close>, \<open>Catalog_Demo\<close>,
    \<open>Protocol_Observation\<close>, \<open>Query_Service\<close>, \<open>Query_Properties\<close> (the services of \<open>src/api/\<close>, and
    \<open>src/protocol/protocol.service.ts\<close> with the mempool table), \<open>Api_Routes\<close> (the controllers).
  \<^item> \<open>Site_Registry\<close>, \<open>Site_Pages\<close>: the tables of the site and the naming of its pages.

  \<^bold>\<open>How code becomes definitions.\<close>  An interface or class is a record, a union a datatype, a method a function with
  the name of the source.  What may throw returns \<open>'a result\<close>, \<open>Inl\<close> with an error of the datatype \<open>js_error\<close>.
  Mutated state is passed along (\<open>working_state\<close> of the reducer, \<open>database\<close> of the store), and for the
  synchronizer threaded by a state monad whose programs may also fail to return.  A JavaScript \<open>Map\<close> or a
  table with a primary key is an association list in insertion order, a table without one a list.  Integers that have
  a width in the code (checksums, generators, wire fields) are words or carry their range checks; heights and
  counts are below \<open>2 ^ 53\<close>, where doubles are exact, and amounts are decoded from binary64 explicitly.

  \<^bold>\<open>What the lemmas show.\<close>
  \<^item> The reducer refines the reference engine: replaying its events gives its objects, and invariants,
    uniqueness of keys, order of events and undo data hold for every canonical block (\<open>Reducer_*\<close>).
  \<^item> The store refines the memory: it accepts every block the reducer makes, what is read back is what was in
    memory, and a rollback is the exact inverse of an append (\<open>Store_*\<close>).
  \<^item> The synchronizer refines a chain: \<open>indexed\<close> says the database is what indexing a linked chain from nothing
    gives; every reachable state is such a one, steps return, and catch up or fall back to the fork
    (\<open>Sync_*\<close>).  \<open>sync_reachable\<close> is the step relation, with failing steps in it.
  \<^item> Nothing unverified passes the gateway, nor any route behind it; what a pipeline signs is accepted by
    those who trust it; the inspector of the site reaches the same verdict.
  \<^item> Addresses, cursors and hex texts are canonical codes; paging by cursors is complete and without
    repetition; the address query loses no carrier.
  \<^item> A configuration that loads is well formed, and depends on a listed set of variables; the migrations are
    reversible and end in what the entities describe.

  \<^bold>\<open>Interfaces.\<close>  Locales state what one part relies on, each interpreted on the model: \<open>dictionary\<close> (maps, on
  association lists), \<open>codec\<close> and \<open>canonical_codec\<close> (hex, decimal counters, cursors, addresses), \<open>keyset\<close>
  (paging, on block events and on the catalog), \<open>lifecycle\<close> (terminal states, on both state machines) and
  \<open>reorg_store\<close> (the store behind the reorganization service, on the rollback of the store).  \<open>page_position\<close>
  and \<open>catalog_key\<close> are instances of \<open>linorder\<close>: the orders of the two paged queries.

  \<^bold>\<open>Loops.\<close>  Every loop whose end is not evident is bounded and its bound proved enough.  \<open>connect_chunks\<close>, the
  batch loop of the synchronizer, has as fuel the number of blocks; it ends because the configuration sets the
  concurrency to at least one (\<open>syncOnce_returns\<close>).  The search for the \<open>INIT\<close> is bounded by 104
  requests (\<open>locateInit_bounded\<close>).  \<open>follow_pages\<close> and \<open>follow_catalog\<close>, the clients that follow
  cursors, take as fuel a number of requests; one more than the number of rows is enough, whatever the
  limit (\<open>follow_pages_complete\<close>, \<open>follow_catalog_complete\<close>).

  \<^bold>\<open>Parameters.\<close>  Code outside the repository is an argument of what uses it: the protocol package (\<open>tandem_lib\<close>,
  \<open>protocol_constants\<close>, \<open>marker_package\<close>), SHA-256 and the curve (\<open>crypto\<close>), Ed25519 and canonical JSON
  (\<open>agreement_lib\<close>), HMAC, the clock and \<open>JSON.stringify\<close> (\<open>catalog_crypto\<close>), \<open>JSON.parse\<close> and \<open>URL\<close> (\<open>platform\<close>), the
  number parsing of NestJS pipes (\<open>api_env\<close>).  What the node answers may differ at every call (\<open>se_node\<close>);
  what the gateway meets is a parameter of the moment (\<open>gateway_moment\<close>).  Hypotheses on parameters are named
  (\<open>validation_ok\<close>, \<open>run_ok\<close>, \<open>consensus\<close>, \<open>node_ok\<close>, \<open>ed25519_contract\<close> and the like), and the theories
  called \<open>_Demo\<close> hold concrete functions that satisfy them.

  \<^bold>\<open>Simplifications.\<close>  Texts are ASCII.  The ids of \<open>AUTO_INCREMENT\<close> are positions in a list, column widths are
  not checked, the JSON of an undo row is read back as it was written, and rows that tie in an \<open>ORDER BY\<close> keep
  their order.  In the synchronizer the queries of the database do not fail; in the readiness probe, the
  gateway and the reads of the API each of them may.  Reads that run concurrently within one request are made in the order of the
  source.  A request of block events sees one state of the database.  The effect of SQL statements on the
  schema follows the documentation of MySQL.

  \<^bold>\<open>Not modelled.\<close>  The wiring of NestJS modules, start-up and shutdown, logging, the HTTP server with its
  headers, the OpenAPI decorators and description, \<open>GET /health\<close> and the text of the metrics (frameworks, or
  constants nothing reads); the conversion of \<open>BIGINT\<close> columns (the model keeps the numbers); the regtest probe and
  the tests (they run the program); the Astro components, the prose of the site and the scripts on
  prose (texts and DOM of third-party parsers); the drawing of preview images.  The package itself is
  vendored as an archive and is a parameter.
\<close>

end
